(* ===== verification/Prelude.thy ===== *)
theory Prelude
  imports Main
begin

text \<open>
  Shared vocabulary of the development: Rust results as sums, the \<open>?\<close> operator as
  \<open>res_bind\<close>, the three loop shapes the kernels are written in (search loops with a
  \<open>found\<close> flag, validation loops with a sticky error, conjunction loops with a sticky flag),
  and the machine-integer bounds used by checked arithmetic.
\<close>

section \<open>Results\<close>

text \<open>Rust's \<open>Result<T, E>\<close> is \<open>('e, 'a) result\<close>: \<open>Err\<close> is \<open>Inl\<close> and \<open>Ok\<close> is \<open>Inr\<close>.\<close>

type_synonym ('e, 'a) result = "'e + 'a"

abbreviation Ok :: "'a \<Rightarrow> ('e, 'a) result" where
  "Ok \<equiv> Inr"

abbreviation Err :: "'e \<Rightarrow> ('e, 'a) result" where
  "Err \<equiv> Inl"

text \<open>The \<open>?\<close> operator: an error returns early, a success continues.\<close>

fun res_bind :: "('e, 'a) result \<Rightarrow> ('a \<Rightarrow> ('e, 'b) result) \<Rightarrow> ('e, 'b) result" where
  "res_bind (Inl e) f = Inl e"
| "res_bind (Inr x) f = f x"

lemma res_bind_cong [fundef_cong]:
  "m = m' \<Longrightarrow> (\<And>x. m' = Inr x \<Longrightarrow> f x = f' x) \<Longrightarrow> res_bind m f = res_bind m' f'"
  by (cases m') auto

lemma res_bind_eq_Inr [simp]: "res_bind m f = Inr y \<longleftrightarrow> (\<exists>x. m = Inr x \<and> f x = Inr y)"
  by (cases m) auto

lemma res_bind_eq_Inl:
  "res_bind m f = Inl e \<longleftrightarrow> m = Inl e \<or> (\<exists>x. m = Inr x \<and> f x = Inl e)"
  by (cases m) auto

lemma res_bind_assoc: "res_bind (res_bind m f) g = res_bind m (\<lambda>x. res_bind (f x) g)"
  by (cases m) auto

lemma unit_result_cases: "(m = Inr ()) \<longleftrightarrow> (\<forall>e. m \<noteq> Inl e)"
  by (cases m) auto

section \<open>Loops with a sticky error\<close>

text \<open>
  \<^verbatim>\<open>let mut result = Ok(()); for x in xs { if result.is_ok() { result = f(x); } } result\<close>
\<close>

definition loop_while_ok :: "('a \<Rightarrow> ('e, unit) result) \<Rightarrow> 'a list \<Rightarrow> ('e, unit) result" where
  "loop_while_ok f xs =
     foldl (\<lambda>result x. case result of Inl e \<Rightarrow> Inl e | Inr _ \<Rightarrow> f x) (Inr ()) xs"

lemma foldl_sticky_error:
  "foldl (\<lambda>result x. case result of Inl e \<Rightarrow> Inl e | Inr _ \<Rightarrow> f x) (Inl e) xs = Inl e"
  by (induction xs) auto

lemma loop_while_ok_Nil [simp]: "loop_while_ok f [] = Inr ()"
  by (simp add: loop_while_ok_def)

lemma loop_while_ok_Cons [simp]:
  "loop_while_ok f (x # xs) = res_bind (f x) (\<lambda>_. loop_while_ok f xs)"
  by (cases "f x") (auto simp: loop_while_ok_def foldl_sticky_error)

lemma loop_while_ok_cong [fundef_cong]:
  "xs = ys \<Longrightarrow> (\<And>x. x \<in> set ys \<Longrightarrow> f x = g x) \<Longrightarrow> loop_while_ok f xs = loop_while_ok g ys"
proof (induction ys arbitrary: xs)
  case Nil
  then show ?case by simp
next
  case (Cons y ys)
  have "loop_while_ok f ys = loop_while_ok g ys"
    by (rule Cons.IH) (use Cons.prems(2) in auto)
  with Cons.prems show ?case by simp
qed

lemma loop_while_ok_eq_Inr: "loop_while_ok f xs = Inr u \<longleftrightarrow> (\<forall>x \<in> set xs. f x = Inr ())"
  by (induction xs) auto

lemma loop_while_ok_eq_Inl:
  "loop_while_ok f xs = Inl e \<longleftrightarrow>
     (\<exists>ys x zs. xs = ys @ x # zs \<and> f x = Inl e \<and> (\<forall>y \<in> set ys. f y = Inr ()))"
proof (induction xs)
  case Nil
  then show ?case by simp
next
  case (Cons a xs)
  show ?case
  proof (cases "f a")
    case (Inl e')
    have "(\<exists>ys x zs. a # xs = ys @ x # zs \<and> f x = Inl e \<and> (\<forall>y \<in> set ys. f y = Inr ())) \<longleftrightarrow> e' = e"
      using Inl by (force simp: Cons_eq_append_conv)
    with Inl show ?thesis by simp
  next
    case (Inr u)
    have "(\<exists>ys x zs. a # xs = ys @ x # zs \<and> f x = Inl e \<and> (\<forall>y \<in> set ys. f y = Inr ())) \<longleftrightarrow>
          (\<exists>ys x zs. xs = ys @ x # zs \<and> f x = Inl e \<and> (\<forall>y \<in> set ys. f y = Inr ()))"
      (is "?L \<longleftrightarrow> ?R")
    proof
      assume ?L
      then obtain ys x zs where
        L: "a # xs = ys @ x # zs" "f x = Inl e" "\<forall>y \<in> set ys. f y = Inr ()" by blast
      with Inr have "ys \<noteq> []" by auto
      with L show ?R by (intro exI [of _ "tl ys"] exI [of _ x] exI [of _ zs]) (auto simp: Cons_eq_append_conv)
    next
      assume ?R
      then obtain ys x zs where
        "xs = ys @ x # zs" "f x = Inl e" "\<forall>y \<in> set ys. f y = Inr ()" by blast
      with Inr show ?L by (intro exI [of _ "a # ys"]) auto
    qed
    with Inr Cons.IH show ?thesis by simp
  qed
qed

text \<open>
  \<^verbatim>\<open>let mut out = Vec::new(); let mut error = None;\<close>
  \<^verbatim>\<open>for x in xs { if error.is_none() { match f(x) { Ok(y) => out.push(y), Err(e) => error = Some(e) } } }\<close>
\<close>

definition collect_while_ok :: "('a \<Rightarrow> ('e, 'b) result) \<Rightarrow> 'a list \<Rightarrow> ('e, 'b list) result" where
  "collect_while_ok f xs =
     (case foldl (\<lambda>(out, error) x.
              case error of
                None \<Rightarrow> (case f x of Inr y \<Rightarrow> (out @ [y], None) | Inl e \<Rightarrow> (out, Some e))
              | Some e \<Rightarrow> (out, Some e)) ([], None) xs of
        (out, Some e) \<Rightarrow> Inl e
      | (out, None) \<Rightarrow> Inr out)"

lemma collect_foldl_error:
  "foldl (\<lambda>(out, error) x.
      case error of
        None \<Rightarrow> (case f x of Inr y \<Rightarrow> (out @ [y], None) | Inl e \<Rightarrow> (out, Some e))
      | Some e \<Rightarrow> (out, Some e)) (out, Some e) xs = (out, Some e)"
  by (induction xs) auto

lemma collect_foldl_prefix:
  "foldl (\<lambda>(out, error) x.
      case error of
        None \<Rightarrow> (case f x of Inr y \<Rightarrow> (out @ [y], None) | Inl e \<Rightarrow> (out, Some e))
      | Some e \<Rightarrow> (out, Some e)) (pre @ out, None) xs =
   (let (out', error) = foldl (\<lambda>(out, error) x.
      case error of
        None \<Rightarrow> (case f x of Inr y \<Rightarrow> (out @ [y], None) | Inl e \<Rightarrow> (out, Some e))
      | Some e \<Rightarrow> (out, Some e)) (out, None) xs in (pre @ out', error))"
proof (induction xs arbitrary: out)
  case Nil
  then show ?case by simp
next
  case (Cons x xs)
  show ?case
    by (cases "f x") (simp_all add: collect_foldl_error Cons.IH)
qed

lemma collect_while_ok_Nil [simp]: "collect_while_ok f [] = Inr []"
  by (simp add: collect_while_ok_def)

lemma collect_while_ok_Cons [simp]:
  "collect_while_ok f (x # xs) =
     res_bind (f x) (\<lambda>y. res_bind (collect_while_ok f xs) (\<lambda>ys. Inr (y # ys)))"
proof (cases "f x")
  case (Inl e)
  then show ?thesis by (simp add: collect_while_ok_def collect_foldl_error)
next
  case (Inr y)
  then show ?thesis
    using collect_foldl_prefix [of f "[y]" "[]" xs]
    by (auto simp: collect_while_ok_def split: prod.splits option.splits)
qed

lemma collect_while_ok_cong [fundef_cong]:
  "xs = ys \<Longrightarrow> (\<And>x. x \<in> set ys \<Longrightarrow> f x = g x) \<Longrightarrow> collect_while_ok f xs = collect_while_ok g ys"
proof (induction ys arbitrary: xs)
  case Nil
  then show ?case by simp
next
  case (Cons y ys)
  have "collect_while_ok f ys = collect_while_ok g ys"
    by (rule Cons.IH) (use Cons.prems(2) in auto)
  with Cons.prems show ?case by simp
qed

lemma collect_while_ok_eq_Inr:
  "collect_while_ok f xs = Inr ys \<longleftrightarrow> list_all2 (\<lambda>x y. f x = Inr y) xs ys"
  by (induction xs arbitrary: ys) (auto simp: list_all2_Cons1)

section \<open>Loops with a sticky flag\<close>

text \<open>
  \<^verbatim>\<open>let mut result = true; for x in xs { if result { result = p(x); } } result\<close>
\<close>

definition loop_while_true :: "('a \<Rightarrow> bool) \<Rightarrow> 'a list \<Rightarrow> bool" where
  "loop_while_true p xs = foldl (\<lambda>result x. if result then p x else result) True xs"

lemma foldl_sticky_false: "foldl (\<lambda>result x. if result then p x else result) False xs = False"
  by (induction xs) auto

lemma loop_while_true_Nil [simp]: "loop_while_true p [] = True"
  by (simp add: loop_while_true_def)

lemma loop_while_true_Cons [simp]: "loop_while_true p (x # xs) = (p x \<and> loop_while_true p xs)"
  by (cases "p x") (auto simp: loop_while_true_def foldl_sticky_false)

lemma loop_while_true_iff: "loop_while_true p xs \<longleftrightarrow> (\<forall>x \<in> set xs. p x)"
  by (induction xs) auto

lemma loop_while_true_cong [fundef_cong]:
  "xs = ys \<Longrightarrow> (\<And>x. x \<in> set ys \<Longrightarrow> p x = q x) \<Longrightarrow> loop_while_true p xs = loop_while_true q ys"
  by (auto simp: loop_while_true_iff)

text \<open>
  \<^verbatim>\<open>let mut found = false; for x in xs { if !found { found = p(x); } } found\<close>
\<close>

definition loop_until_true :: "('a \<Rightarrow> bool) \<Rightarrow> 'a list \<Rightarrow> bool" where
  "loop_until_true p xs = foldl (\<lambda>found x. if \<not> found then p x else found) False xs"

lemma foldl_sticky_true: "foldl (\<lambda>found x. if \<not> found then p x else found) True xs"
  by (induction xs) auto

lemma loop_until_true_iff: "loop_until_true p xs \<longleftrightarrow> (\<exists>x \<in> set xs. p x)"
proof (induction xs)
  case Nil
  then show ?case by (simp add: loop_until_true_def)
next
  case (Cons x xs)
  then show ?case
    by (cases "p x") (auto simp: loop_until_true_def foldl_sticky_true)
qed

section \<open>Search loops\<close>

text \<open>
  \<^verbatim>\<open>while index < n && !found { found = p(index); index += 1; }\<close>
  returning the final \<open>(index, found)\<close>.
\<close>

function scan_from :: "(nat \<Rightarrow> bool) \<Rightarrow> nat \<Rightarrow> nat \<Rightarrow> bool \<Rightarrow> nat \<times> bool" where
  "scan_from p n index found =
     (if index < n \<and> \<not> found then scan_from p n (Suc index) (p index) else (index, found))"
  by pat_completeness auto
termination
  by (relation "measure (\<lambda>(p, n, index, found). n - index)") auto

declare scan_from.simps [simp del]

lemma scan_from_True [simp]: "scan_from p n i True = (i, True)"
  by (subst scan_from.simps) simp

lemma scan_from_step:
  "scan_from p n i False = (if i < n then (if p i then (Suc i, True) else scan_from p n (Suc i) False) else (i, False))"
  by (subst scan_from.simps) auto

lemma scan_from_foundD:
  "scan_from p n i False = (j, True) \<Longrightarrow>
     \<exists>k. j = Suc k \<and> i \<le> k \<and> k < n \<and> p k \<and> (\<forall>m. i \<le> m \<and> m < k \<longrightarrow> \<not> p m)"
proof (induction "n - i" arbitrary: i)
  case 0
  then show ?case by (simp add: scan_from_step [of p n i])
next
  case (Suc d)
  show ?case
  proof (cases "p i")
    case True
    with Suc show ?thesis by (auto simp: scan_from_step [of p n i] split: if_splits)
  next
    case False
    from Suc.hyps(2) have "i < n" by simp
    with False Suc.prems have rest: "scan_from p n (Suc i) False = (j, True)"
      by (simp add: scan_from_step [of p n i])
    have "d = n - Suc i" using Suc.hyps(2) by simp
    from Suc.hyps(1) [OF this rest] obtain k where k: "j = Suc k" "Suc i \<le> k" "k < n" "p k"
      "\<forall>m. Suc i \<le> m \<and> m < k \<longrightarrow> \<not> p m"
      by blast
    have "\<not> p m" if "i \<le> m" "m < k" for m
      using False k(5) that by (cases "m = i") auto
    with k show ?thesis by (intro exI [of _ k]) auto
  qed
qed

lemma scan_from_not_foundD:
  "scan_from p n i False = (j, False) \<Longrightarrow> (\<forall>m. i \<le> m \<and> m < n \<longrightarrow> \<not> p m)"
proof (induction "n - i" arbitrary: i)
  case 0
  then show ?case by auto
next
  case (Suc d)
  from Suc.hyps(2) have "i < n" by simp
  with Suc.prems have np: "\<not> p i" and rest: "scan_from p n (Suc i) False = (j, False)"
    by (auto simp: scan_from_step [of p n i] split: if_splits)
  have "d = n - Suc i" using Suc.hyps(2) by simp
  from Suc.hyps(1) [OF this rest] show ?case using np by (metis Suc_leI order_le_less)
qed

lemma scan_from_found_iff: "snd (scan_from p n i False) \<longleftrightarrow> (\<exists>m. i \<le> m \<and> m < n \<and> p m)"
proof (cases "scan_from p n i False")
  case (Pair j b)
  show ?thesis
  proof (cases b)
    case True
    with Pair show ?thesis using scan_from_foundD [of p n i j] by auto
  next
    case False
    with Pair show ?thesis using scan_from_not_foundD [of p n i j] by auto
  qed
qed

text \<open>A search loop is a search of the index range.\<close>

lemma scan_from_find:
  "i \<le> n \<Longrightarrow> scan_from p n i False =
     (case List.find p [i..<n] of Some k \<Rightarrow> (Suc k, True) | None \<Rightarrow> (n, False))"
proof (induction "n - i" arbitrary: i)
  case 0
  then show ?case by (simp add: scan_from_step)
next
  case (Suc d)
  then have "i < n" by simp
  then have "[i..<n] = i # [Suc i..<n]" by (simp add: upt_conv_Cons)
  with Suc \<open>i < n\<close> show ?case by (simp add: scan_from_step [of p n i])
qed

lemma scan_from_result:
  assumes "i \<le> n"
  shows "(let (index, found) = scan_from p n i False in if found then f (index - 1) else g) =
     (case List.find p [i..<n] of Some k \<Rightarrow> f k | None \<Rightarrow> g)"
  using assms by (simp add: scan_from_find split: option.splits)

lemma scan_from_option_None:
  "(case scan_from p n i False of (index, found) \<Rightarrow> if found then Some (f index) else None) = None \<longleftrightarrow>
     (\<forall>k. i \<le> k \<and> k < n \<longrightarrow> \<not> p k)"
  using scan_from_found_iff [of p n i] by (auto split: prod.splits)

lemma scan_from_option_Some:
  "(case scan_from p n i False of (index, found) \<Rightarrow> if found then Some (f index) else None) = Some y \<Longrightarrow>
     \<exists>k. i \<le> k \<and> k < n \<and> p k \<and> y = f (Suc k)"
  using scan_from_foundD [of p n i] by (auto split: prod.splits if_splits)

lemma find_upt_None: "List.find p [i..<n] = None \<longleftrightarrow> (\<forall>k. i \<le> k \<and> k < n \<longrightarrow> \<not> p k)"
  by (auto simp: find_None_iff)

lemma find_upt_Some:
  "List.find p [0..<n] = Some k \<longleftrightarrow> k < n \<and> p k \<and> (\<forall>m < k. \<not> p m)"
  by (auto simp: find_Some_iff)

section \<open>Loops that carry state past a first error\<close>

text \<open>
  \<^verbatim>\<open>let mut error = None; for x in xs { if error.is_none() { error = f(x, &mut s).err(); } }\<close>
  followed by \<^verbatim>\<open>if let Some(error) = error { return Err(error); }\<close>
\<close>

definition sticky_loop :: "('x \<Rightarrow> 's \<Rightarrow> ('e, 's) result) \<Rightarrow> 'x list \<Rightarrow> 's \<Rightarrow> ('e, 's) result" where
  "sticky_loop f xs s =
     (case foldl (\<lambda>(s, error) x.
              case error of
                None \<Rightarrow> (case f x s of Inr s' \<Rightarrow> (s', None) | Inl e \<Rightarrow> (s, Some e))
              | Some e \<Rightarrow> (s, Some e)) (s, None) xs of
        (s', Some e) \<Rightarrow> Inl e
      | (s', None) \<Rightarrow> Inr s')"

lemma sticky_foldl_error:
  "foldl (\<lambda>(s, error) x.
      case error of
        None \<Rightarrow> (case f x s of Inr s' \<Rightarrow> (s', None) | Inl e \<Rightarrow> (s, Some e))
      | Some e \<Rightarrow> (s, Some e)) (s, Some e) xs = (s, Some e)"
  by (induction xs) auto

lemma sticky_loop_Nil [simp]: "sticky_loop f [] s = Inr s"
  by (simp add: sticky_loop_def)

lemma sticky_loop_Cons [simp]:
  "sticky_loop f (x # xs) s = res_bind (f x s) (sticky_loop f xs)"
  by (cases "f x s") (auto simp: sticky_loop_def sticky_foldl_error)

lemma sticky_loop_append:
  "sticky_loop f (xs @ ys) s = res_bind (sticky_loop f xs s) (sticky_loop f ys)"
proof (induction xs arbitrary: s)
  case Nil
  then show ?case by simp
next
  case (Cons x xs)
  then show ?case by (cases "f x s") auto
qed

section \<open>Lists\<close>

lemma list_all2_in_set1: "list_all2 P xs ys \<Longrightarrow> x \<in> set xs \<Longrightarrow> \<exists>y \<in> set ys. P x y"
  by (induction rule: list_all2_induct) auto

section \<open>Machine integers\<close>

text \<open>\<open>usize\<close> is 64 bits wide on the supported hosts; \<open>checked_add\<close> fails above it.\<close>

definition usize_max :: nat where
  "usize_max = 2 ^ 64 - 1"

definition checked_add_usize :: "nat \<Rightarrow> nat \<Rightarrow> nat option" where
  "checked_add_usize a b = (if a + b \<le> usize_max then Some (a + b) else None)"

text \<open>Evaluation compares binary integers.\<close>

lemma checked_add_usize_code [code]:
  "checked_add_usize a b = (if int a + int b \<le> 18446744073709551615 then Some (a + b) else None)"
proof -
  have "a + b \<le> usize_max \<longleftrightarrow> int a + int b \<le> 18446744073709551615"
    by (simp add: usize_max_def flip: of_nat_add)
  then show ?thesis by (simp add: checked_add_usize_def)
qed

lemma checked_add_usize_Some [simp]:
  "checked_add_usize a b = Some c \<longleftrightarrow> a + b \<le> usize_max \<and> c = a + b"
  by (auto simp: checked_add_usize_def)

lemma checked_add_usize_None [simp]: "checked_add_usize a b = None \<longleftrightarrow> usize_max < a + b"
  by (auto simp: checked_add_usize_def)

end
