(* ===== verification/Exit_Kernel.thy ===== *)
theory Exit_Kernel
  imports Prelude
begin

text \<open>
  The language-independent exit kernel of \<^verbatim>\<open>src/src/kernel.rs\<close>: a frontend infers every exit of
  a function, and the kernel accepts only when each one is known and allowed.
\<close>

datatype ExitEffect =
    Return string
  | Raise string
  | Unknown string

datatype KernelFailure =
    UnexpectedException string
  | UnknownEffect string
  | NoEffects

text \<open>One iteration of the loop; \<open>Inl\<close> is its early \<open>return Err(..)\<close>.\<close>

fun check_exit_effect :: "string list \<Rightarrow> ExitEffect \<Rightarrow> (KernelFailure, unit) result" where
  "check_exit_effect allowed_exceptions (Return type_name) = Ok ()"
| "check_exit_effect allowed_exceptions (Raise exception_type) =
     (if list_ex (\<lambda>allowed. allowed = exception_type) allowed_exceptions
      then Ok () else Err (UnexpectedException exception_type))"
| "check_exit_effect allowed_exceptions (Unknown reason) = Err (UnknownEffect reason)"

fun check_effects_loop :: "string list \<Rightarrow> ExitEffect list \<Rightarrow> (KernelFailure, unit) result" where
  "check_effects_loop allowed_exceptions [] = Ok ()"
| "check_effects_loop allowed_exceptions (effect # effects) =
     res_bind (check_exit_effect allowed_exceptions effect)
       (\<lambda>_. check_effects_loop allowed_exceptions effects)"

definition check_exit_effects :: "ExitEffect list \<Rightarrow> string list \<Rightarrow> (KernelFailure, unit) result" where
  "check_exit_effects effects allowed_exceptions =
     (if effects = [] then Err NoEffects else check_effects_loop allowed_exceptions effects)"

text \<open>What one exit must satisfy to be accepted.\<close>

fun exit_allowed :: "string list \<Rightarrow> ExitEffect \<Rightarrow> bool" where
  "exit_allowed allowed (Return _) = True"
| "exit_allowed allowed (Raise e) = (e \<in> set allowed)"
| "exit_allowed allowed (Unknown _) = False"

fun exit_failure :: "ExitEffect \<Rightarrow> KernelFailure" where
  "exit_failure (Return t) = NoEffects"
| "exit_failure (Raise e) = UnexpectedException e"
| "exit_failure (Unknown r) = UnknownEffect r"

lemma check_exit_effect_eq:
  "check_exit_effect allowed effect =
     (if exit_allowed allowed effect then Ok () else Err (exit_failure effect))"
  by (cases effect) (auto simp: list_ex_iff)

lemma check_effects_loop_Ok: "check_effects_loop allowed effects = Ok () \<longleftrightarrow> list_all (exit_allowed allowed) effects"
  by (induction effects) (auto simp: check_exit_effect_eq)

lemma check_effects_loop_prefix:
  "list_all (exit_allowed allowed) pre \<Longrightarrow>
     check_effects_loop allowed (pre @ rest) = check_effects_loop allowed rest"
  by (induction pre) (auto simp: check_exit_effect_eq)

lemma check_effects_loop_append:
  "check_effects_loop allowed (xs @ ys) =
     res_bind (check_effects_loop allowed xs) (\<lambda>_. check_effects_loop allowed ys)"
  by (induction xs) (auto simp: check_exit_effect_eq)

text \<open>
  The exit kernel accepts exactly the nonempty effect lists in which every exit is
  known and every raised exception is explicitly allowed.
\<close>

theorem exit_kernel_accepts_iff:
  "check_exit_effects effects allowed = Ok () \<longleftrightarrow>
     effects \<noteq> [] \<and> list_all (exit_allowed allowed) effects"
  by (simp add: check_exit_effects_def check_effects_loop_Ok)

end
