(* ===== verification/Chains.thy ===== *)
theory Chains
  imports Prelude
begin

text \<open>
  Following a partial successor function: the \<open>k\<close>-th element of the chain that starts at \<open>x\<close>,
  and the fact the bounded walks of the hierarchy kernel rest on, that over a finite carrier
  every chain ends within as many steps as there are elements exactly when the successor
  graph is acyclic.
\<close>

definition chain :: "('a \<Rightarrow> 'a option) \<Rightarrow> nat \<Rightarrow> 'a option \<Rightarrow> 'a option" where
  "chain nx k start = ((\<lambda>s. Option.bind s nx) ^^ k) start"

definition edges :: "('a \<Rightarrow> 'a option) \<Rightarrow> ('a \<times> 'a) set" where
  "edges nx = {(x, y). nx x = Some y}"

lemma chain_0 [simp]: "chain nx 0 start = start"
  by (simp add: chain_def)

lemma chain_Suc: "chain nx (Suc k) start = Option.bind (chain nx k start) nx"
  by (simp add: chain_def)

lemma chain_Suc_left: "chain nx (Suc k) start = chain nx k (Option.bind start nx)"
  by (simp add: chain_def funpow_Suc_right del: funpow.simps)

lemma chain_None [simp]: "chain nx k None = None"
  by (induction k) (auto simp: chain_Suc)

lemma chain_add: "chain nx (j + k) start = chain nx j (chain nx k start)"
  by (simp add: chain_def funpow_add)

lemma chain_None_mono: "chain nx k start = None \<Longrightarrow> k \<le> m \<Longrightarrow> chain nx m start = None"
  using chain_add [of nx "m - k" k start] by simp

lemma chain_Some_mono: "chain nx m start = Some y \<Longrightarrow> k \<le> m \<Longrightarrow> \<exists>z. chain nx k start = Some z"
  by (cases "chain nx k start") (auto dest: chain_None_mono)

lemma chain_map:
  assumes "\<And>x. x \<in> S \<Longrightarrow> nx' (f x) = map_option f (nx x)"
    and "\<And>x y. x \<in> S \<Longrightarrow> nx x = Some y \<Longrightarrow> y \<in> S" and "x \<in> S"
  shows "chain nx' k (Some (f x)) = map_option f (chain nx k (Some x))"
  using assms(3)
proof (induction k arbitrary: x)
  case 0
  then show ?case by simp
next
  case (Suc k)
  show ?case
  proof (cases "nx x")
    case None
    with Suc.prems assms(1) [of x] show ?thesis by (simp add: chain_Suc_left)
  next
    case (Some y)
    with Suc.prems assms(1) [of x] assms(2) [of x y] Suc.IH [of y] show ?thesis
      by (simp add: chain_Suc_left)
  qed
qed

lemma chain_in_rtrancl: "chain nx k (Some x) = Some y \<Longrightarrow> (x, y) \<in> (edges nx)\<^sup>*"
proof (induction k arbitrary: y)
  case 0
  then show ?case by simp
next
  case (Suc k)
  then obtain z where "chain nx k (Some x) = Some z" "nx z = Some y"
    by (auto simp: chain_Suc bind_eq_Some_conv)
  with Suc.IH [of z] show ?case
    by (auto simp: edges_def intro: rtrancl_into_rtrancl)
qed

lemma chain_in_trancl: "chain nx (Suc k) (Some x) = Some y \<Longrightarrow> (x, y) \<in> (edges nx)\<^sup>+"
proof -
  assume "chain nx (Suc k) (Some x) = Some y"
  then obtain z where "chain nx k (Some x) = Some z" "nx z = Some y"
    by (auto simp: chain_Suc bind_eq_Some_conv)
  then show ?thesis
    using chain_in_rtrancl [of nx k x z] by (auto simp: edges_def intro: rtrancl_into_trancl1)
qed

lemma trancl_in_chain: "(x, y) \<in> (edges nx)\<^sup>+ \<Longrightarrow> \<exists>k. chain nx (Suc k) (Some x) = Some y"
proof (induction rule: trancl_induct)
  case (base y)
  then show ?case by (intro exI [of _ 0]) (simp add: edges_def chain_Suc)
next
  case (step y z)
  then obtain k where "chain nx (Suc k) (Some x) = Some y" by blast
  with step.hyps(2) have "chain nx (Suc (Suc k)) (Some x) = Some z"
    by (subst chain_Suc) (simp add: edges_def)
  then show ?case by blast
qed

lemma chain_cycle:
  assumes "chain nx (Suc m) (Some x) = Some x"
  shows "chain nx k (Some x) \<noteq> None"
proof -
  have "chain nx (q * Suc m) (Some x) = Some x" for q
  proof (induction q)
    case (Suc q)
    then show ?case by (simp only: mult_Suc chain_add assms)
  qed simp
  then have "chain nx (k * Suc m) (Some x) = Some x" .
  moreover have "k \<le> k * Suc m" by simp
  ultimately obtain z where "chain nx k (Some x) = Some z"
    using chain_Some_mono by metis
  then show ?thesis by simp
qed

lemma chain_distinct:
  assumes acyc: "acyclic (edges nx)" and last: "chain nx m (Some x) = Some y"
    and less: "i < j" "j \<le> m"
  shows "chain nx i (Some x) \<noteq> chain nx j (Some x)"
proof
  assume eq: "chain nx i (Some x) = chain nx j (Some x)"
  obtain z where z: "chain nx j (Some x) = Some z"
    using chain_Some_mono [OF last less(2)] by blast
  obtain d where d: "j = Suc d + i"
    using less(1) less_iff_Suc_add [of i j] by auto
  have "chain nx (Suc d) (Some z) = Some z"
    using z eq chain_add [of nx "Suc d" i "Some x"] d by simp
  then have "(z, z) \<in> (edges nx)\<^sup>+" by (rule chain_in_trancl)
  with acyc show False by (simp add: acyclic_def)
qed

lemma chain_length_bound:
  assumes acyc: "acyclic (edges nx)" and "finite S" and x: "x \<in> S"
    and closed: "\<And>x y. x \<in> S \<Longrightarrow> nx x = Some y \<Longrightarrow> y \<in> S"
    and last: "chain nx m (Some x) = Some y"
  shows "m < card S"
proof -
  have inside: "chain nx k (Some x) = Some z \<Longrightarrow> z \<in> S" for k z
    by (induction k arbitrary: z) (use x closed in \<open>auto simp: chain_Suc bind_eq_Some_conv\<close>)
  let ?f = "\<lambda>k. the (chain nx k (Some x))"
  have some: "chain nx k (Some x) = Some (?f k)" if "k \<le> m" for k
    using chain_Some_mono [OF last that] by auto
  have "inj_on ?f {0..m}"
  proof (rule linorder_inj_onI)
    fix i j assume "i < j" "i \<in> {0..m}" "j \<in> {0..m}"
    then show "?f i \<noteq> ?f j"
      using chain_distinct [OF acyc last, of i j] some [of i] some [of j] by auto
  qed auto
  then have "card (?f ` {0..m}) = Suc m" by (simp add: card_image)
  moreover have "?f ` {0..m} \<subseteq> S" using some inside by force
  ultimately show ?thesis
    using card_mono [OF \<open>finite S\<close>] by (metis Suc_le_lessD)
qed

lemma chains_end_iff_acyclic:
  assumes fin: "finite S" and closed: "\<And>x y. x \<in> S \<Longrightarrow> nx x = Some y \<Longrightarrow> y \<in> S"
    and outside: "\<And>x. x \<notin> S \<Longrightarrow> nx x = None" and bound: "card S \<le> n"
  shows "(\<forall>x \<in> S. \<exists>k \<le> n. chain nx k (Some x) = None) \<longleftrightarrow> acyclic (edges nx)"
proof
  assume ends: "\<forall>x \<in> S. \<exists>k \<le> n. chain nx k (Some x) = None"
  have "(x, x) \<notin> (edges nx)\<^sup>+" for x
  proof
    assume "(x, x) \<in> (edges nx)\<^sup>+"
    then obtain k where k: "chain nx (Suc k) (Some x) = Some x" using trancl_in_chain by metis
    have "nx x \<noteq> None"
    proof
      assume "nx x = None"
      then have "chain nx (Suc k) (Some x) = None" by (simp only: chain_Suc_left bind.bind_lunit chain_None)
      with k show False by simp
    qed
    then have "x \<in> S" using outside by metis
    then obtain j where "chain nx j (Some x) = None" using ends by blast
    with chain_cycle [OF k] show False by blast
  qed
  then show "acyclic (edges nx)" by (simp add: acyclic_def)
next
  assume acyc: "acyclic (edges nx)"
  show "\<forall>x \<in> S. \<exists>k \<le> n. chain nx k (Some x) = None"
  proof
    fix x assume x: "x \<in> S"
    have "chain nx n (Some x) = None"
    proof (cases "chain nx n (Some x)")
      case (Some y)
      have "n < card S"
        by (rule chain_length_bound [OF acyc fin x _ Some]) (rule closed)
      with bound show ?thesis by simp
    qed simp
    then show "\<exists>k \<le> n. chain nx k (Some x) = None" by blast
  qed
qed

end
