(* ===== verification/Nominal_Hierarchy.thy ===== *)
theory Nominal_Hierarchy
  imports Chains
begin

text \<open>
  The nominal class hierarchy of \<^verbatim>\<open>src/src/python_type_algebra_kernel.rs\<close>: catalogs of classes
  with at most one parent, their validation by index loops and a bounded ancestor walk, and the
  fuelled subclass search. The main results are that validation decides exactly "unique names,
  no redefinition of object, resolved parents, no cycle", and that on a validated catalog the
  search computes the ancestor relation, a partial order whose upper sets are chains.
\<close>

section \<open>Catalogs\<close>

record NominalClass =
  cls_name :: string
  cls_parent :: "string option"

datatype NominalClassList = Empty | Item NominalClass NominalClassList

record NominalHierarchy =
  classes :: NominalClassList

text \<open>\<open>from_vec\<close> pops the vector from its end and prepends.\<close>

function from_vec_loop :: "NominalClass list \<Rightarrow> NominalClassList \<Rightarrow> NominalClassList" where
  "from_vec_loop vec result =
     (if vec = [] then result
      else from_vec_loop (butlast vec) (NominalClassList.Item (last vec) result))"
  by pat_completeness auto
termination
  by (relation "measure (\<lambda>(vec, result). length vec)") auto

declare from_vec_loop.simps [simp del]

definition class_list_from_vec :: "NominalClass list \<Rightarrow> NominalClassList" where
  "class_list_from_vec vec = from_vec_loop vec NominalClassList.Empty"

fun class_list_len :: "NominalClassList \<Rightarrow> nat" where
  "class_list_len NominalClassList.Empty = 0"
| "class_list_len (NominalClassList.Item c tail) = 1 + class_list_len tail"

fun class_parent :: "string \<Rightarrow> NominalClassList \<Rightarrow> string option option" where
  "class_parent name NominalClassList.Empty = None"
| "class_parent name (NominalClassList.Item c tail) =
     (if cls_name c = name then Some (cls_parent c) else class_parent name tail)"

text \<open>The list a \<open>NominalClassList\<close> stands for.\<close>

fun class_items :: "NominalClassList \<Rightarrow> NominalClass list" where
  "class_items NominalClassList.Empty = []"
| "class_items (NominalClassList.Item c tail) = c # class_items tail"

lemma from_vec_loop_items: "class_items (from_vec_loop vec result) = vec @ class_items result"
proof (induction vec arbitrary: result rule: rev_induct)
  case Nil
  then show ?case by (simp add: from_vec_loop.simps [of "[]"])
next
  case (snoc c vec)
  then show ?case by (simp add: from_vec_loop.simps [of "vec @ [c]"])
qed

lemma class_items_from_vec [simp]: "class_items (class_list_from_vec vec) = vec"
  by (simp add: class_list_from_vec_def from_vec_loop_items)

lemma class_list_len_items: "class_list_len cs = length (class_items cs)"
  by (induction cs) auto

lemma class_parent_items:
  "class_parent name cs = map_of (map (\<lambda>c. (cls_name c, cls_parent c)) (class_items cs)) name"
  by (induction cs) auto

section \<open>Validation\<close>

definition object_name :: string where
  "object_name = ''object''"

text \<open>The first pass at one index: no reserved name, no earlier duplicate, a resolved parent.\<close>

definition duplicate_name :: "NominalClass list \<Rightarrow> nat \<Rightarrow> bool" where
  "duplicate_name cs index =
     loop_until_true (\<lambda>prior_index. cls_name (cs ! prior_index) = cls_name (cs ! index)) [0..<index]"

definition parent_resolves :: "NominalClass list \<Rightarrow> string option \<Rightarrow> bool" where
  "parent_resolves cs parent =
     (case parent of
        None \<Rightarrow> True
      | Some parent_name \<Rightarrow>
          (if parent_name = object_name then True
           else loop_until_true (\<lambda>candidate_index. cls_name (cs ! candidate_index) = parent_name)
                  [0..<length cs]))"

definition class_entry_valid :: "NominalClass list \<Rightarrow> nat \<Rightarrow> bool" where
  "class_entry_valid cs index \<longleftrightarrow>
     cls_name (cs ! index) \<noteq> object_name \<and> \<not> duplicate_name cs index \<and>
     parent_resolves cs (cls_parent (cs ! index))"

text \<open>
  The second pass walks the parents of each class. \<open>next_parent_index\<close> keeps the last matching
  index, by the arithmetic selection of the source.
\<close>

definition next_parent_index :: "NominalClass list \<Rightarrow> string \<Rightarrow> nat" where
  "next_parent_index cs parent_name =
     foldl (\<lambda>next_index candidate_index.
        let select_candidate = (if cls_name (cs ! candidate_index) = parent_name then 1 else 0)
        in select_candidate * candidate_index + (1 - select_candidate) * next_index)
       0 [0..<length cs]"

definition next_class :: "NominalClass list \<Rightarrow> nat \<Rightarrow> nat option" where
  "next_class cs current =
     (case cls_parent (cs ! current) of
        Some parent_name \<Rightarrow>
          (if parent_name \<noteq> object_name then Some (next_parent_index cs parent_name) else None)
      | None \<Rightarrow> None)"

function walk_parents :: "NominalClass list \<Rightarrow> bool \<Rightarrow> nat option \<Rightarrow> nat \<Rightarrow> bool" where
  "walk_parents cs valid current_index steps =
     (case (valid, current_index) of
        (True, Some current) \<Rightarrow>
          (if steps > length cs then walk_parents cs False current_index steps
           else walk_parents cs True (next_class cs current) (steps + 1))
      | _ \<Rightarrow> valid)"
  by pat_completeness auto
termination
  by (relation "measure (\<lambda>(cs, valid, current, steps). if valid then Suc (2 + length cs - steps) else 0)")
     (auto split: if_splits)

declare walk_parents.simps [simp del]

definition validate_nominal_hierarchy :: "NominalClass list \<Rightarrow> bool" where
  "validate_nominal_hierarchy cs =
     (let valid = loop_while_true (class_entry_valid cs) [0..<length cs]
      in if valid
         then loop_while_true (\<lambda>class_index. walk_parents cs True (Some class_index) 0) [0..<length cs]
         else valid)"

definition build_nominal_hierarchy :: "NominalClass list \<Rightarrow> NominalHierarchy option" where
  "build_nominal_hierarchy cs =
     (if validate_nominal_hierarchy cs then Some \<lparr>classes = class_list_from_vec cs\<rparr> else None)"

section \<open>Subclassing\<close>

fun subclass_with_remaining :: "string \<Rightarrow> string \<Rightarrow> NominalClassList \<Rightarrow> nat \<Rightarrow> bool" where
  "subclass_with_remaining actual expected cs 0 = False"
| "subclass_with_remaining actual expected cs (Suc remaining) =
     (case class_parent actual cs of
        Some (Some parent) \<Rightarrow>
          parent = expected \<or> subclass_with_remaining parent expected cs remaining
      | Some None \<Rightarrow> False
      | None \<Rightarrow> False)"

definition is_subclass :: "string \<Rightarrow> string \<Rightarrow> NominalHierarchy \<Rightarrow> bool" where
  "is_subclass actual expected hierarchy =
     (let cs = classes hierarchy
      in if class_parent actual cs = None \<or>
            (expected \<noteq> ''object'' \<and> class_parent expected cs = None) then False
         else if actual = expected \<or> expected = ''object'' then True
         else subclass_with_remaining actual expected cs (class_list_len cs))"

section \<open>Validation decides well-formed catalogs\<close>

text \<open>The parent function of a catalog, on names, without the edges into \<open>object\<close>.\<close>

definition catalog_parent :: "NominalClass list \<Rightarrow> string \<Rightarrow> string option" where
  "catalog_parent cs name =
     (case map_of (map (\<lambda>c. (cls_name c, cls_parent c)) cs) name of
        Some (Some parent) \<Rightarrow> (if parent = object_name then None else Some parent)
      | _ \<Rightarrow> None)"

definition catalog_names :: "NominalClass list \<Rightarrow> string set" where
  "catalog_names cs = cls_name ` set cs"

lemma catalog_names_nth: "i < length cs \<Longrightarrow> cls_name (cs ! i) \<in> catalog_names cs"
  by (simp add: catalog_names_def)

lemma card_catalog_names: "finite (catalog_names cs)" "card (catalog_names cs) \<le> length cs"
  using card_length [of "map cls_name cs"] by (simp_all add: catalog_names_def)

definition well_formed_catalog :: "NominalClass list \<Rightarrow> bool" where
  "well_formed_catalog cs \<longleftrightarrow>
     distinct (map cls_name cs) \<and> object_name \<notin> catalog_names cs \<and>
     (\<forall>c \<in> set cs. \<forall>p. cls_parent c = Some p \<longrightarrow> p = object_name \<or> p \<in> catalog_names cs) \<and>
     acyclic (edges (catalog_parent cs))"

definition entries_ok :: "NominalClass list \<Rightarrow> bool" where
  "entries_ok cs \<longleftrightarrow>
     distinct (map cls_name cs) \<and> object_name \<notin> catalog_names cs \<and>
     (\<forall>c \<in> set cs. \<forall>p. cls_parent c = Some p \<longrightarrow> p = object_name \<or> p \<in> catalog_names cs)"

lemma well_formed_catalog_alt:
  "well_formed_catalog cs \<longleftrightarrow> entries_ok cs \<and> acyclic (edges (catalog_parent cs))"
  by (auto simp: well_formed_catalog_def entries_ok_def)

lemma duplicate_name_iff:
  "duplicate_name cs index \<longleftrightarrow> (\<exists>j < index. cls_name (cs ! j) = cls_name (cs ! index))"
  by (auto simp: duplicate_name_def loop_until_true_iff)

lemma parent_resolves_iff:
  "parent_resolves cs parent \<longleftrightarrow>
     (\<forall>p. parent = Some p \<longrightarrow> p = object_name \<or> p \<in> catalog_names cs)"
proof -
  have "(\<exists>j \<in> set [0..<length cs]. cls_name (cs ! j) = p) \<longleftrightarrow> p \<in> catalog_names cs" for p
    by (force simp: in_set_conv_nth image_iff catalog_names_def)
  then show ?thesis
    by (auto simp: parent_resolves_def loop_until_true_iff split: option.splits)
qed

lemma distinct_names_iff:
  "distinct (map cls_name cs) \<longleftrightarrow> (\<forall>i < length cs. \<not> (\<exists>j < i. cls_name (cs ! j) = cls_name (cs ! i)))"
proof
  assume "distinct (map cls_name cs)"
  then show "\<forall>i < length cs. \<not> (\<exists>j < i. cls_name (cs ! j) = cls_name (cs ! i))"
    by (auto simp: distinct_conv_nth)
next
  assume h: "\<forall>i < length cs. \<not> (\<exists>j < i. cls_name (cs ! j) = cls_name (cs ! i))"
  show "distinct (map cls_name cs)"
    unfolding distinct_conv_nth
  proof (intro allI impI)
    fix i j assume "i < length (map cls_name cs)" "j < length (map cls_name cs)" "i \<noteq> j"
    then consider "i < length cs" "j < i" | "j < length cs" "i < j"
      by (metis length_map linorder_neqE_nat)
    then show "map cls_name cs ! i \<noteq> map cls_name cs ! j"
    proof cases
      case 1
      then have "cls_name (cs ! j) \<noteq> cls_name (cs ! i)" using h by blast
      with 1 show ?thesis by simp
    next
      case 2
      then have "cls_name (cs ! i) \<noteq> cls_name (cs ! j)" using h by blast
      with 2 show ?thesis by simp
    qed
  qed
qed

lemma first_pass_iff:
  "loop_while_true (class_entry_valid cs) [0..<length cs] \<longleftrightarrow> entries_ok cs"
proof -
  have all: "(\<forall>i < length cs. P (cs ! i)) \<longleftrightarrow> (\<forall>c \<in> set cs. P c)" for P
    by (metis in_set_conv_nth nth_mem)
  have "loop_while_true (class_entry_valid cs) [0..<length cs] \<longleftrightarrow>
      (\<forall>i < length cs. cls_name (cs ! i) \<noteq> object_name) \<and>
      (\<forall>i < length cs. \<not> (\<exists>j < i. cls_name (cs ! j) = cls_name (cs ! i))) \<and>
      (\<forall>i < length cs. \<forall>p. cls_parent (cs ! i) = Some p \<longrightarrow> p = object_name \<or> p \<in> catalog_names cs)"
    by (auto simp: loop_while_true_iff class_entry_valid_def duplicate_name_iff parent_resolves_iff)
  moreover have "object_name \<notin> catalog_names cs \<longleftrightarrow> (\<forall>c \<in> set cs. cls_name c \<noteq> object_name)"
    by (auto simp: image_iff catalog_names_def)
  ultimately show ?thesis
    unfolding entries_ok_def distinct_names_iff
    by (simp only: all [of "\<lambda>c. cls_name c \<noteq> object_name"]
        all [of "\<lambda>c. \<forall>p. cls_parent c = Some p \<longrightarrow> p = object_name \<or> p \<in> catalog_names cs"]
        conj_ac)
qed

lemma next_parent_index_last:
  "foldl (\<lambda>next_index candidate_index.
        let select_candidate = (if cls_name (cs ! candidate_index) = p then 1 else 0)
        in select_candidate * candidate_index + (1 - select_candidate) * next_index) a [0..<n] =
   (if \<exists>j < n. cls_name (cs ! j) = p then (GREATEST j. j < n \<and> cls_name (cs ! j) = p) else a)"
proof (induction n)
  case 0
  then show ?case by simp
next
  case (Suc n)
  show ?case
  proof (cases "cls_name (cs ! n) = p")
    case True
    then have "(GREATEST j. j < Suc n \<and> cls_name (cs ! j) = p) = n"
      by (intro Greatest_equality) auto
    with True show ?thesis by auto
  next
    case False
    then have "(j < Suc n \<and> cls_name (cs ! j) = p) = (j < n \<and> cls_name (cs ! j) = p)" for j
      using less_Suc_eq by auto
    with False Suc.IH show ?thesis by auto
  qed
qed

lemma next_parent_index_name:
  assumes "p \<in> catalog_names cs"
  shows "next_parent_index cs p < length cs" and "cls_name (cs ! next_parent_index cs p) = p"
proof -
  let ?P = "\<lambda>j. j < length cs \<and> cls_name (cs ! j) = p"
  from assms obtain j where j: "?P j" by (auto simp: in_set_conv_nth catalog_names_def)
  then have eq: "next_parent_index cs p = Greatest ?P"
    unfolding next_parent_index_def next_parent_index_last by auto
  have "?P (Greatest ?P)" by (rule GreatestI_nat [of ?P j "length cs"]) (use j in auto)
  with eq show "next_parent_index cs p < length cs" "cls_name (cs ! next_parent_index cs p) = p"
    by auto
qed

lemma catalog_parent_nth:
  assumes "entries_ok cs" "i < length cs"
  shows "catalog_parent cs (cls_name (cs ! i)) =
     (case cls_parent (cs ! i) of
        Some p \<Rightarrow> (if p = object_name then None else Some p) | None \<Rightarrow> None)"
proof -
  have "map_of (map (\<lambda>c. (cls_name c, cls_parent c)) cs) (cls_name (cs ! i)) = Some (cls_parent (cs ! i))"
    using assms by (intro map_of_is_SomeI) (auto simp: entries_ok_def comp_def)
  then show ?thesis by (simp add: catalog_parent_def split: option.splits)
qed

lemma next_class_commutes:
  assumes "entries_ok cs" "i < length cs"
  shows "catalog_parent cs (cls_name (cs ! i)) = map_option (\<lambda>j. cls_name (cs ! j)) (next_class cs i)"
    and "next_class cs i = Some j \<Longrightarrow> j < length cs"
proof -
  have res: "p \<in> catalog_names cs" if "cls_parent (cs ! i) = Some p" "p \<noteq> object_name" for p
    using assms that nth_mem [OF assms(2)] by (auto simp: entries_ok_def)
  show "catalog_parent cs (cls_name (cs ! i)) = map_option (\<lambda>j. cls_name (cs ! j)) (next_class cs i)"
    using res next_parent_index_name(2) [of _ cs]
    by (auto simp: catalog_parent_nth [OF assms] next_class_def split: option.splits)
  show "next_class cs i = Some j \<Longrightarrow> j < length cs"
    using res next_parent_index_name(1) [of _ cs]
    by (auto simp: next_class_def split: option.splits if_splits)
qed

lemma walk_parents_iff:
  "steps \<le> Suc (length cs) \<Longrightarrow>
     walk_parents cs True current steps \<longleftrightarrow>
       (\<exists>k. steps + k \<le> Suc (length cs) \<and> chain (next_class cs) k current = None)"
proof (induction "Suc (length cs) - steps" arbitrary: steps current)
  case 0
  then have "steps = Suc (length cs)" by simp
  then show ?case
    by (cases current) (simp_all add: walk_parents.simps [of cs True] walk_parents.simps [of cs False])
next
  case (Suc d)
  show ?case
  proof (cases current)
    case None
    then show ?thesis using Suc.prems
      by (auto simp: walk_parents.simps [of cs True] intro: exI [of _ 0])
  next
    case (Some c)
    from Suc.hyps(2) have le: "steps \<le> length cs" by simp
    have "walk_parents cs True current steps = walk_parents cs True (next_class cs c) (steps + 1)"
      using le Some by (subst walk_parents.simps) simp
    also have "\<dots> \<longleftrightarrow> (\<exists>k. Suc steps + k \<le> Suc (length cs) \<and> chain (next_class cs) k (next_class cs c) = None)"
      using Suc.hyps(1) [of "steps + 1" "next_class cs c"] Suc.hyps(2) le by simp
    also have "\<dots> \<longleftrightarrow> (\<exists>k. steps + Suc k \<le> Suc (length cs) \<and> chain (next_class cs) (Suc k) current = None)"
      by (simp add: Some chain_Suc_left)
    also have "\<dots> \<longleftrightarrow> (\<exists>k. steps + k \<le> Suc (length cs) \<and> chain (next_class cs) k current = None)"
    proof -
      have "(\<exists>k. Q k) \<longleftrightarrow> (\<exists>k. Q (Suc k))" if "\<not> Q 0" for Q :: "nat \<Rightarrow> bool"
        using that by (metis not0_implies_Suc)
      from this [of "\<lambda>k. steps + k \<le> Suc (length cs) \<and> chain (next_class cs) k current = None"]
      show ?thesis by (simp add: Some)
    qed
    finally show ?thesis .
  qed
qed

lemma map_of_catalog_None: "map_of (map (\<lambda>c. (cls_name c, cls_parent c)) cs) n = None \<longleftrightarrow> n \<notin> catalog_names cs"
  by (auto simp: map_of_eq_None_iff image_iff catalog_names_def)

lemma catalog_parent_closed:
  assumes "entries_ok cs" "catalog_parent cs x = Some y"
  shows "x \<in> catalog_names cs" "y \<in> catalog_names cs"
proof -
  from assms(2) have m: "map_of (map (\<lambda>c. (cls_name c, cls_parent c)) cs) x = Some (Some y)" "y \<noteq> object_name"
    by (auto simp: catalog_parent_def split: option.splits if_splits)
  from map_of_SomeD [OF m(1)] obtain c where "c \<in> set cs" "cls_name c = x" "cls_parent c = Some y"
    by auto
  with assms(1) m(2) show "x \<in> catalog_names cs" "y \<in> catalog_names cs"
    by (auto simp: entries_ok_def catalog_names_def)
qed

lemma chain_next_class:
  assumes "entries_ok cs" "i < length cs"
  shows "chain (catalog_parent cs) k (Some (cls_name (cs ! i))) =
     map_option (\<lambda>j. cls_name (cs ! j)) (chain (next_class cs) k (Some i))"
  by (rule chain_map [where S = "{..<length cs}" and f = "\<lambda>j. cls_name (cs ! j)"])
     (use assms next_class_commutes [OF assms(1)] in auto)

lemma validate_well_formed:
  "validate_nominal_hierarchy cs \<longleftrightarrow> well_formed_catalog cs"
proof (cases "entries_ok cs")
  case False
  then have "\<not> loop_while_true (class_entry_valid cs) [0..<length cs]"
    by (simp only: first_pass_iff simp_thms)
  with False show ?thesis
    by (simp only: validate_nominal_hierarchy_def well_formed_catalog_alt Let_def if_False simp_thms)
next
  case True
  have card: "card (catalog_names cs) \<le> Suc (length cs)"
    using card_catalog_names(2) [of cs] by simp
  have "(\<forall>i < length cs. walk_parents cs True (Some i) 0) \<longleftrightarrow>
      (\<forall>i < length cs. \<exists>k \<le> Suc (length cs). chain (catalog_parent cs) k (Some (cls_name (cs ! i))) = None)"
    by (simp add: walk_parents_iff chain_next_class [OF True])
  also have "\<dots> \<longleftrightarrow> (\<forall>x \<in> catalog_names cs. \<exists>k \<le> Suc (length cs). chain (catalog_parent cs) k (Some x) = None)"
    by (simp add: catalog_names_def) (metis in_set_conv_nth nth_mem)
  also have "\<dots> \<longleftrightarrow> acyclic (edges (catalog_parent cs))"
  proof (rule chains_end_iff_acyclic [OF _ _ _ card])
    show "finite (catalog_names cs)" by (rule card_catalog_names)
    show "y \<in> catalog_names cs" if "catalog_parent cs x = Some y" for x y
      using catalog_parent_closed [OF True that] by simp
    show "catalog_parent cs x = None" if "x \<notin> catalog_names cs" for x
      using that map_of_catalog_None [of cs x] by (simp add: catalog_parent_def)
  qed
  finally have walks: "(\<forall>i < length cs. walk_parents cs True (Some i) 0) \<longleftrightarrow> acyclic (edges (catalog_parent cs))" .
  have "loop_while_true (\<lambda>i. walk_parents cs True (Some i) 0) [0..<length cs] \<longleftrightarrow>
      (\<forall>i < length cs. walk_parents cs True (Some i) 0)"
    by (auto simp: loop_while_true_iff)
  then show ?thesis
    using True first_pass_iff [of cs] walks
    by (simp add: validate_nominal_hierarchy_def well_formed_catalog_alt)
qed

text \<open>
  Property C20. The index loops and the bounded ancestor walk accept a
  catalog exactly when its names are unique and differ from \<open>object\<close>, every parent resolves, and
  no class is its own ancestor.
\<close>

theorem validate_iff_well_formed:
  "validate_nominal_hierarchy cs \<longleftrightarrow>
     distinct (map cls_name cs) \<and> object_name \<notin> cls_name ` set cs \<and>
     (\<forall>c \<in> set cs. cls_parent c \<in> {None, Some object_name} \<union> Some ` cls_name ` set cs) \<and>
     acyclic (edges (catalog_parent cs))"
proof -
  have "(\<forall>p. q = Some p \<longrightarrow> p = object_name \<or> p \<in> catalog_names cs) \<longleftrightarrow>
      q \<in> {None, Some object_name} \<union> Some ` cls_name ` set cs" for q
    by (cases q) (auto simp: catalog_names_def)
  then show ?thesis
    by (simp only: validate_well_formed well_formed_catalog_def catalog_names_def [symmetric])
qed

section \<open>Subclassing is the ancestor order\<close>

definition class_known :: "string \<Rightarrow> NominalHierarchy \<Rightarrow> bool" where
  "class_known name hierarchy \<longleftrightarrow> class_parent name (classes hierarchy) \<noteq> None"

text \<open>
  The constructor is the only way to obtain a nonempty \<open>NominalHierarchy\<close>; the derived default
  is the empty one. Every hierarchy a caller can hold is therefore \<open>hierarchy_of cs\<close> for some \<open>cs\<close>.
\<close>

definition hierarchy_of :: "NominalClass list \<Rightarrow> NominalHierarchy" where
  "hierarchy_of cs =
     (case build_nominal_hierarchy cs of
        Some h \<Rightarrow> h | None \<Rightarrow> \<lparr>classes = NominalClassList.Empty\<rparr>)"

lemma subclass_with_remaining_iff:
  assumes no_object: "object_name \<notin> catalog_names cs" and e: "e \<noteq> object_name"
  shows "subclass_with_remaining a e (class_list_from_vec cs) r \<longleftrightarrow>
     (\<exists>k < r. chain (catalog_parent cs) (Suc k) (Some a) = Some e)"
proof (induction r arbitrary: a)
  case 0
  then show ?case by simp
next
  case (Suc r)
  let ?p = "map_of (map (\<lambda>c. (cls_name c, cls_parent c)) cs) a"
  have object: "\<not> subclass_with_remaining object_name e (class_list_from_vec cs) r"
    using no_object map_of_catalog_None [of cs object_name]
    by (cases r) (simp_all add: class_parent_items)
  consider "?p = None" | "?p = Some None" | "?p = Some (Some object_name)"
    | p where "?p = Some (Some p)" "p \<noteq> object_name"
    by (cases ?p; cases "the ?p") auto
  then show ?case
  proof cases
    case 3
    then show ?thesis using object e
      by (simp add: class_parent_items chain_Suc_left catalog_parent_def)
  next
    case (4 p)
    then have step: "chain (catalog_parent cs) (Suc k) (Some a) = chain (catalog_parent cs) k (Some p)" for k
      by (simp add: chain_Suc_left catalog_parent_def)
    have "(\<exists>k < Suc r. chain (catalog_parent cs) k (Some p) = Some e) \<longleftrightarrow>
        p = e \<or> (\<exists>k < r. chain (catalog_parent cs) (Suc k) (Some p) = Some e)"
      by (auto simp: less_Suc_eq_0_disj)
    with 4 Suc.IH [of p] show ?thesis by (simp add: class_parent_items step)
  qed (simp_all add: class_parent_items chain_Suc_left catalog_parent_def)
qed

lemma is_subclass_iff_ancestor:
  assumes wf: "well_formed_catalog cs" and h: "classes h = class_list_from_vec cs"
  shows "is_subclass a e h \<longleftrightarrow>
     a \<in> catalog_names cs \<and>
     (e = object_name \<or> e \<in> catalog_names cs \<and> (a, e) \<in> (edges (catalog_parent cs))\<^sup>*)"
proof -
  have ok: "entries_ok cs" and acyc: "acyclic (edges (catalog_parent cs))"
    using wf by (auto simp: well_formed_catalog_alt)
  then have no_object: "object_name \<notin> catalog_names cs" by (auto simp: entries_ok_def)
  have bound: "Suc k < Suc (length cs)"
    if "a \<in> catalog_names cs" "chain (catalog_parent cs) (Suc k) (Some a) = Some e" for k
  proof -
    have "Suc k < card (catalog_names cs)"
      by (rule chain_length_bound [OF acyc _ that(1) _ that(2)])
         (use catalog_parent_closed(2) [OF ok] card_catalog_names(1) in auto)
    then show ?thesis using card_catalog_names(2) [of cs] by simp
  qed
  have search: "(\<exists>k < length cs. chain (catalog_parent cs) (Suc k) (Some a) = Some e) \<longleftrightarrow>
      (a, e) \<in> (edges (catalog_parent cs))\<^sup>+" if "a \<in> catalog_names cs"
    using that bound chain_in_trancl [of "catalog_parent cs" _ a e] trancl_in_chain [of a e "catalog_parent cs"]
    by (metis Suc_less_SucD)
  show ?thesis
    using search
    by (auto simp: is_subclass_def h class_parent_items map_of_catalog_None class_list_len_items
        subclass_with_remaining_iff [OF no_object] object_name_def rtrancl_eq_or_trancl)
qed

text \<open>
  What the type algebra relies on: a set of known classes with an order on them in which the
  superclasses of a class form a chain (single inheritance).
\<close>

locale subclass_order =
  fixes known :: "string \<Rightarrow> bool" and sub :: "string \<Rightarrow> string \<Rightarrow> bool"
  assumes sub_known: "sub a b \<Longrightarrow> known a"
    and sub_refl: "known a \<Longrightarrow> sub a a"
    and sub_trans: "sub a b \<Longrightarrow> sub b c \<Longrightarrow> sub a c"
    and sub_antisym: "sub a b \<Longrightarrow> sub b a \<Longrightarrow> a = b"
    and sub_chain: "sub x a \<Longrightarrow> sub x b \<Longrightarrow> known a \<Longrightarrow> known b \<Longrightarrow> sub a b \<or> sub b a"
begin

text \<open>Classes without a common superclass relation share no instance class.\<close>

lemma unrelated_disjoint:
  "known a \<Longrightarrow> known b \<Longrightarrow> \<not> sub a b \<Longrightarrow> \<not> sub b a \<Longrightarrow> sub x a \<Longrightarrow> \<not> sub x b"
  using sub_chain by blast

end

lemma rtrancl_of_function_chain:
  assumes "(x, a) \<in> (edges nx)\<^sup>*" "(x, b) \<in> (edges nx)\<^sup>*"
  shows "(a, b) \<in> (edges nx)\<^sup>* \<or> (b, a) \<in> (edges nx)\<^sup>*"
proof -
  have "single_valued (edges nx)" by (auto simp: single_valued_def edges_def)
  from single_valued_confluent [OF this assms] show ?thesis .
qed

lemma hierarchy_of_cases:
  obtains (built) "well_formed_catalog cs" "classes (hierarchy_of cs) = class_list_from_vec cs"
  | (empty) "classes (hierarchy_of cs) = NominalClassList.Empty"
  by (cases "well_formed_catalog cs")
     (auto simp: hierarchy_of_def build_nominal_hierarchy_def validate_well_formed)

interpretation built: subclass_order "\<lambda>n. class_known n (hierarchy_of cs)" "\<lambda>a b. is_subclass a b (hierarchy_of cs)"
  for cs
proof (cases cs rule: hierarchy_of_cases)
  case empty
  then show "subclass_order (\<lambda>n. class_known n (hierarchy_of cs)) (\<lambda>a b. is_subclass a b (hierarchy_of cs))"
    by unfold_locales (auto simp: class_known_def is_subclass_def)
next
  case built
  note sub = is_subclass_iff_ancestor [OF built]
  have known: "class_known n (hierarchy_of cs) \<longleftrightarrow> n \<in> catalog_names cs" for n
    using map_of_catalog_None [of cs n] by (simp add: class_known_def built(2) class_parent_items)
  have no_object: "object_name \<notin> catalog_names cs"
    and acyc: "acyclic (edges (catalog_parent cs))"
    using built(1) by (auto simp: well_formed_catalog_def)
  show "subclass_order (\<lambda>n. class_known n (hierarchy_of cs)) (\<lambda>a b. is_subclass a b (hierarchy_of cs))"
  proof unfold_locales
    fix a b assume "is_subclass a b (hierarchy_of cs)" "is_subclass b a (hierarchy_of cs)"
    then show "a = b"
      using no_object acyclic_impl_antisym_rtrancl [OF acyc] by (auto simp: sub antisym_def)
  next
    fix x a b
    assume "is_subclass x a (hierarchy_of cs)" "is_subclass x b (hierarchy_of cs)"
      "class_known a (hierarchy_of cs)" "class_known b (hierarchy_of cs)"
    then show "is_subclass a b (hierarchy_of cs) \<or> is_subclass b a (hierarchy_of cs)"
      using no_object rtrancl_of_function_chain [of x a "catalog_parent cs" b] by (auto simp: sub known)
  qed (use no_object in \<open>auto simp: sub known intro: rtrancl_trans\<close>)
qed

text \<open>The catalog of the source's own unit tests, used as a concrete input below.\<close>

definition sample_catalog :: "NominalClass list" where
  "sample_catalog =
     [\<lparr>cls_name = ''Base'', cls_parent = None\<rparr>,
      \<lparr>cls_name = ''Child'', cls_parent = Some ''Base''\<rparr>,
      \<lparr>cls_name = ''Grandchild'', cls_parent = Some ''Child''\<rparr>,
      \<lparr>cls_name = ''Other'', cls_parent = None\<rparr>]"

lemma sample_catalog_builds: "build_nominal_hierarchy sample_catalog \<noteq> None"
  by code_simp

theorem validate_iff_well_formed_witness:
  "validate_nominal_hierarchy sample_catalog \<and> acyclic (edges (catalog_parent sample_catalog)) \<and>
   \<not> acyclic (edges (catalog_parent [\<lparr>cls_name = ''A'', cls_parent = Some ''B''\<rparr>, \<lparr>cls_name = ''B'', cls_parent = Some ''A''\<rparr>]))"
proof (intro conjI)
  show valid: "validate_nominal_hierarchy sample_catalog" by code_simp
  then show "acyclic (edges (catalog_parent sample_catalog))"
    using validate_iff_well_formed [of sample_catalog] by simp
  have "\<not> validate_nominal_hierarchy [\<lparr>cls_name = ''A'', cls_parent = Some ''B''\<rparr>, \<lparr>cls_name = ''B'', cls_parent = Some ''A''\<rparr>]"
    by code_simp
  then show "\<not> acyclic (edges (catalog_parent [\<lparr>cls_name = ''A'', cls_parent = Some ''B''\<rparr>, \<lparr>cls_name = ''B'', cls_parent = Some ''A''\<rparr>]))"
    unfolding validate_iff_well_formed by (simp add: object_name_def)
qed

text \<open>
  Property C19. On a hierarchy the constructor accepts, the fuelled search
  decides the reflexive-transitive ancestor relation of the catalog exactly, with
  \<open>object\<close> above every known class: the fuel (the number of classes) is always enough.
\<close>

theorem subclass_is_ancestor:
  assumes "build_nominal_hierarchy cs = Some h"
  shows "is_subclass a e h \<longleftrightarrow>
     a \<in> catalog_names cs \<and>
     (e = object_name \<or> e \<in> catalog_names cs \<and> (a, e) \<in> (edges (catalog_parent cs))\<^sup>*)"
  using assms
  by (intro is_subclass_iff_ancestor)
     (auto simp: build_nominal_hierarchy_def validate_well_formed split: if_splits)

theorem subclass_is_ancestor_witness:
  "\<exists>h. build_nominal_hierarchy sample_catalog = Some h \<and>
     is_subclass ''Grandchild'' ''Base'' h \<and>
     (''Grandchild'', ''Base'') \<in> (edges (catalog_parent sample_catalog))\<^sup>*"
proof -
  obtain h where h: "build_nominal_hierarchy sample_catalog = Some h"
    using sample_catalog_builds by blast
  have "is_subclass ''Grandchild'' ''Base'' (the (build_nominal_hierarchy sample_catalog))"
    by code_simp
  with h have sub: "is_subclass ''Grandchild'' ''Base'' h" by simp
  with subclass_is_ancestor [OF h, of "''Grandchild''" "''Base''"] h show ?thesis
    by (auto simp: object_name_def)
qed

text \<open>
  Subclassing on any constructible hierarchy is a partial
  order on the known classes in which the superclasses of one class are totally ordered.
\<close>

theorem subclass_partial_order:
  "(class_known a (hierarchy_of cs) \<longrightarrow> is_subclass a a (hierarchy_of cs)) \<and>
   (is_subclass a b (hierarchy_of cs) \<and> is_subclass b c (hierarchy_of cs) \<longrightarrow>
      is_subclass a c (hierarchy_of cs)) \<and>
   (is_subclass a b (hierarchy_of cs) \<and> is_subclass b a (hierarchy_of cs) \<longrightarrow> a = b) \<and>
   (is_subclass a b (hierarchy_of cs) \<and> is_subclass a c (hierarchy_of cs) \<and>
      class_known b (hierarchy_of cs) \<and> class_known c (hierarchy_of cs) \<longrightarrow>
      is_subclass b c (hierarchy_of cs) \<or> is_subclass c b (hierarchy_of cs))"
  using built.sub_refl [where cs = cs] built.sub_trans [where cs = cs]
    built.sub_antisym [where cs = cs] built.sub_chain [where cs = cs]
  by blast

theorem subclass_partial_order_witness:
  "is_subclass ''Child'' ''Child'' (hierarchy_of sample_catalog) \<and>
   is_subclass ''Grandchild'' ''Base'' (hierarchy_of sample_catalog) \<and>
   \<not> is_subclass ''Base'' ''Grandchild'' (hierarchy_of sample_catalog) \<and>
   (is_subclass ''Child'' ''Base'' (hierarchy_of sample_catalog) \<or>
    is_subclass ''Base'' ''Child'' (hierarchy_of sample_catalog))"
proof -
  have "class_known ''Child'' (hierarchy_of sample_catalog)"
    "class_known ''Base'' (hierarchy_of sample_catalog)"
    "is_subclass ''Grandchild'' ''Child'' (hierarchy_of sample_catalog)"
    "is_subclass ''Child'' ''Base'' (hierarchy_of sample_catalog)"
    by code_simp+
  with subclass_partial_order [of "''Child''" sample_catalog "''Child''" "''Child''"]
    subclass_partial_order [of "''Grandchild''" sample_catalog "''Child''" "''Base''"]
    subclass_partial_order [of "''Grandchild''" sample_catalog "''Base''" "''Child''"]
  show ?thesis by auto
qed

end
