(* ===== verification/Type_Algebra.thy ===== *)
theory Type_Algebra
  imports Nominal_Hierarchy
begin

text \<open>
  The structural half of \<^verbatim>\<open>src/src/python_type_algebra_kernel.rs\<close>: source types, union
  normalization, structural equality and copying, well-formedness, assignability, casts and
  \<open>isinstance\<close> narrowing. Type lists keep the recursive shape of the source; \<open>type_items\<close> is
  the list they stand for.
\<close>

section \<open>Types\<close>

datatype Type =
    Int
  | Bool
  | Str
  | NoneType
  | Object
  | Class string
  | List Type
  | Set Type
  | Dict Type Type
  | FixedTuple TypeList
  | VariadicTuple Type
  | Union TypeList
and TypeList =
    Empty
  | Item Type TypeList

function type_list_from_vec_loop :: "Type list \<Rightarrow> TypeList \<Rightarrow> TypeList" where
  "type_list_from_vec_loop vec result =
     (if vec = [] then result
      else type_list_from_vec_loop (butlast vec) (TypeList.Item (last vec) result))"
  by pat_completeness auto
termination
  by (relation "measure (\<lambda>(vec, result). length vec)") auto

declare type_list_from_vec_loop.simps [simp del]

definition from_vec :: "Type list \<Rightarrow> TypeList" where
  "from_vec types = type_list_from_vec_loop types TypeList.Empty"

fun into_vec_loop :: "TypeList \<Rightarrow> Type list \<Rightarrow> Type list" where
  "into_vec_loop TypeList.Empty result = result"
| "into_vec_loop (TypeList.Item ty tail) result = into_vec_loop tail (result @ [ty])"

definition into_vec :: "TypeList \<Rightarrow> Type list" where
  "into_vec types = into_vec_loop types []"

fun type_items :: "TypeList \<Rightarrow> Type list" where
  "type_items TypeList.Empty = []"
| "type_items (TypeList.Item ty tail) = ty # type_items tail"

lemma type_list_from_vec_loop_items:
  "type_items (type_list_from_vec_loop vec result) = vec @ type_items result"
proof (induction vec arbitrary: result rule: rev_induct)
  case Nil
  then show ?case by (simp add: type_list_from_vec_loop.simps [of "[]"])
next
  case (snoc c vec)
  then show ?case by (simp add: type_list_from_vec_loop.simps [of "vec @ [c]"])
qed

lemma type_items_from_vec [simp]: "type_items (from_vec vec) = vec"
  by (simp add: from_vec_def type_list_from_vec_loop_items)

lemma into_vec_loop_items: "into_vec_loop types result = result @ type_items types"
  by (induction types result rule: into_vec_loop.induct) auto

lemma into_vec_items [simp]: "into_vec types = type_items types"
  by (simp add: into_vec_def into_vec_loop_items)

lemma type_items_inject [simp]: "type_items xs = type_items ys \<longleftrightarrow> xs = ys"
proof (induction xs arbitrary: ys rule: type_items.induct)
  case 1
  then show ?case by (cases ys) auto
next
  case (2 ty tail)
  then show ?case by (cases ys) auto
qed

lemma from_vec_type_items [simp]: "from_vec (type_items ts) = ts"
  by (simp flip: type_items_inject)

lemma from_vec_simps [simp]:
  "from_vec [] = TypeList.Empty"
  "from_vec (t # ts) = TypeList.Item t (from_vec ts)"
  by (simp_all flip: type_items_inject)

lemma type_items_Nil [simp]: "type_items ts = [] \<longleftrightarrow> ts = TypeList.Empty"
  by (cases ts) auto

lemma type_items_size: "t \<in> set (type_items ts) \<Longrightarrow> size t < size ts"
  by (induction ts rule: type_items.induct) auto

section \<open>Equality and copying\<close>

text \<open>The match on the pair of types, as one case split per left constructor.\<close>

primrec type_equals :: "Type \<Rightarrow> Type \<Rightarrow> bool"
  and type_lists_equal :: "TypeList \<Rightarrow> TypeList \<Rightarrow> bool" where
  "type_equals Type.Int right = (case right of Type.Int \<Rightarrow> True | _ \<Rightarrow> False)"
| "type_equals Type.Bool right = (case right of Type.Bool \<Rightarrow> True | _ \<Rightarrow> False)"
| "type_equals Type.Str right = (case right of Type.Str \<Rightarrow> True | _ \<Rightarrow> False)"
| "type_equals Type.NoneType right = (case right of Type.NoneType \<Rightarrow> True | _ \<Rightarrow> False)"
| "type_equals Type.Object right = (case right of Type.Object \<Rightarrow> True | _ \<Rightarrow> False)"
| "type_equals (Type.Class left_name) right =
     (case right of Type.Class right_name \<Rightarrow> left_name = right_name | _ \<Rightarrow> False)"
| "type_equals (Type.List left_element) right =
     (case right of Type.List right_element \<Rightarrow> type_equals left_element right_element | _ \<Rightarrow> False)"
| "type_equals (Type.Set left_element) right =
     (case right of Type.Set right_element \<Rightarrow> type_equals left_element right_element | _ \<Rightarrow> False)"
| "type_equals (Type.VariadicTuple left_element) right =
     (case right of
        Type.VariadicTuple right_element \<Rightarrow> type_equals left_element right_element | _ \<Rightarrow> False)"
| "type_equals (Type.Dict left_key left_value) right =
     (case right of
        Type.Dict right_key right_value \<Rightarrow>
          type_equals left_key right_key \<and> type_equals left_value right_value
      | _ \<Rightarrow> False)"
| "type_equals (Type.FixedTuple left_types) right =
     (case right of Type.FixedTuple right_types \<Rightarrow> type_lists_equal left_types right_types | _ \<Rightarrow> False)"
| "type_equals (Type.Union left_types) right =
     (case right of Type.Union right_types \<Rightarrow> type_lists_equal left_types right_types | _ \<Rightarrow> False)"
| "type_lists_equal TypeList.Empty right = (case right of TypeList.Empty \<Rightarrow> True | _ \<Rightarrow> False)"
| "type_lists_equal (TypeList.Item left_type left_tail) right =
     (case right of
        TypeList.Item right_type right_tail \<Rightarrow>
          type_equals left_type right_type \<and> type_lists_equal left_tail right_tail
      | _ \<Rightarrow> False)"

primrec clone_type :: "Type \<Rightarrow> Type"
  and clone_type_list :: "TypeList \<Rightarrow> TypeList" where
  "clone_type Type.Int = Type.Int"
| "clone_type Type.Bool = Type.Bool"
| "clone_type Type.Str = Type.Str"
| "clone_type Type.NoneType = Type.NoneType"
| "clone_type Type.Object = Type.Object"
| "clone_type (Type.Class name) = Type.Class name"
| "clone_type (Type.List element) = Type.List (clone_type element)"
| "clone_type (Type.Set element) = Type.Set (clone_type element)"
| "clone_type (Type.Dict key val) = Type.Dict (clone_type key) (clone_type val)"
| "clone_type (Type.FixedTuple elements) = Type.FixedTuple (clone_type_list elements)"
| "clone_type (Type.VariadicTuple element) = Type.VariadicTuple (clone_type element)"
| "clone_type (Type.Union elements) = Type.Union (clone_type_list elements)"
| "clone_type_list TypeList.Empty = TypeList.Empty"
| "clone_type_list (TypeList.Item ty tail) = TypeList.Item (clone_type ty) (clone_type_list tail)"

lemma type_equals_eq [simp]: "type_equals a b \<longleftrightarrow> a = b"
  and type_lists_equal_eq [simp]: "type_lists_equal as bs \<longleftrightarrow> as = bs"
  by (induction a and as arbitrary: b and bs rule: Type.induct TypeList.induct)
     (auto split: Type.splits TypeList.splits)

lemma clone_type_id [simp]: "clone_type t = t"
  and clone_type_list_id [simp]: "clone_type_list ts = ts"
  by (induction t and ts rule: Type.induct TypeList.induct) auto

fun type_list_contains :: "TypeList \<Rightarrow> Type \<Rightarrow> bool" where
  "type_list_contains TypeList.Empty expected = False"
| "type_list_contains (TypeList.Item ty tail) expected =
     (type_equals ty expected \<or> type_list_contains tail expected)"

lemma type_list_contains_iff [simp]: "type_list_contains ts t \<longleftrightarrow> t \<in> set (type_items ts)"
  by (induction ts t rule: type_list_contains.induct) auto

section \<open>Union normalization\<close>

fun flatten_union_types :: "TypeList \<Rightarrow> TypeList \<Rightarrow> TypeList" where
  "flatten_union_types TypeList.Empty flattened = flattened"
| "flatten_union_types (TypeList.Item ty tail) flattened =
     flatten_union_types tail
       (case ty of
          Type.Union nested \<Rightarrow> flatten_union_types nested flattened
        | _ \<Rightarrow> (if type_list_contains flattened ty then flattened
               else TypeList.Item ty flattened))"

fun reverse_type_list :: "TypeList \<Rightarrow> TypeList \<Rightarrow> TypeList" where
  "reverse_type_list TypeList.Empty reversed = reversed"
| "reverse_type_list (TypeList.Item ty tail) reversed =
     reverse_type_list tail (TypeList.Item ty reversed)"

definition normalize_type_list :: "TypeList \<Rightarrow> Type" where
  "normalize_type_list types =
     (let reversed = flatten_union_types types TypeList.Empty;
          flattened = reverse_type_list reversed TypeList.Empty
      in case flattened of
           TypeList.Item only TypeList.Empty \<Rightarrow> only
         | other \<Rightarrow> Type.Union other)"

definition normalize_union :: "Type list \<Rightarrow> Type" where
  "normalize_union types = normalize_type_list (from_vec types)"

definition expand_union_list :: "Type \<Rightarrow> TypeList" where
  "expand_union_list ty =
     (case normalize_type_list (TypeList.Item (clone_type ty) TypeList.Empty) of
        Type.Union types \<Rightarrow> types
      | other \<Rightarrow> TypeList.Item other TypeList.Empty)"

definition expand_union :: "Type \<Rightarrow> Type list" where
  "expand_union ty = into_vec (expand_union_list ty)"

section \<open>Well-formedness and assignability\<close>

primrec type_is_well_formed :: "Type \<Rightarrow> NominalHierarchy \<Rightarrow> bool"
  and type_list_is_well_formed :: "TypeList \<Rightarrow> NominalHierarchy \<Rightarrow> bool" where
  "type_is_well_formed Type.Int hierarchy = True"
| "type_is_well_formed Type.Bool hierarchy = True"
| "type_is_well_formed Type.Str hierarchy = True"
| "type_is_well_formed Type.NoneType hierarchy = True"
| "type_is_well_formed Type.Object hierarchy = True"
| "type_is_well_formed (Type.Class name) hierarchy =
     (class_parent name (classes hierarchy) \<noteq> None)"
| "type_is_well_formed (Type.List element) hierarchy = type_is_well_formed element hierarchy"
| "type_is_well_formed (Type.Set element) hierarchy = type_is_well_formed element hierarchy"
| "type_is_well_formed (Type.VariadicTuple element) hierarchy = type_is_well_formed element hierarchy"
| "type_is_well_formed (Type.Dict key val) hierarchy =
     (type_is_well_formed key hierarchy \<and> type_is_well_formed val hierarchy)"
| "type_is_well_formed (Type.FixedTuple elements) hierarchy =
     (elements \<noteq> TypeList.Empty \<and> type_list_is_well_formed elements hierarchy)"
| "type_is_well_formed (Type.Union elements) hierarchy =
     (elements \<noteq> TypeList.Empty \<and> type_list_is_well_formed elements hierarchy)"
| "type_list_is_well_formed TypeList.Empty hierarchy = True"
| "type_list_is_well_formed (TypeList.Item ty tail) hierarchy =
     (type_is_well_formed ty hierarchy \<and> type_list_is_well_formed tail hierarchy)"

function is_assignable_in_valid_hierarchy :: "Type \<Rightarrow> Type \<Rightarrow> NominalHierarchy \<Rightarrow> bool"
  and every_type_assignable_to :: "TypeList \<Rightarrow> Type \<Rightarrow> NominalHierarchy \<Rightarrow> bool"
  and type_assignable_to_any :: "Type \<Rightarrow> TypeList \<Rightarrow> NominalHierarchy \<Rightarrow> bool"
  and type_lists_assignable :: "TypeList \<Rightarrow> TypeList \<Rightarrow> NominalHierarchy \<Rightarrow> bool" where
  "is_assignable_in_valid_hierarchy actual expected hierarchy =
     (if type_equals actual expected \<or> expected = Type.Object then True
      else case (actual, expected) of
        (Type.Bool, Type.Int) \<Rightarrow> True
      | (Type.Class a, Type.Class e) \<Rightarrow> is_subclass a e hierarchy
      | (Type.Union as, e) \<Rightarrow> every_type_assignable_to as e hierarchy
      | (a, Type.Union es) \<Rightarrow> type_assignable_to_any a es hierarchy
      | (Type.FixedTuple as, Type.FixedTuple es) \<Rightarrow> type_lists_assignable as es hierarchy
      | (Type.FixedTuple as, Type.VariadicTuple e) \<Rightarrow> every_type_assignable_to as e hierarchy
      | (Type.VariadicTuple a, Type.VariadicTuple e) \<Rightarrow> is_assignable_in_valid_hierarchy a e hierarchy
      | (Type.List _, Type.List _) \<Rightarrow> False
      | (Type.Set _, Type.Set _) \<Rightarrow> False
      | (Type.Dict _ _, Type.Dict _ _) \<Rightarrow> False
      | _ \<Rightarrow> False)"
| "every_type_assignable_to TypeList.Empty expected hierarchy = True"
| "every_type_assignable_to (TypeList.Item actual tail) expected hierarchy =
     (is_assignable_in_valid_hierarchy actual expected hierarchy \<and>
      every_type_assignable_to tail expected hierarchy)"
| "type_assignable_to_any actual TypeList.Empty hierarchy = False"
| "type_assignable_to_any actual (TypeList.Item expected tail) hierarchy =
     (is_assignable_in_valid_hierarchy actual expected hierarchy \<or>
      type_assignable_to_any actual tail hierarchy)"
| "type_lists_assignable TypeList.Empty TypeList.Empty hierarchy = True"
| "type_lists_assignable (TypeList.Item actual actual_tail) (TypeList.Item expected expected_tail) hierarchy =
     (is_assignable_in_valid_hierarchy actual expected hierarchy \<and>
      type_lists_assignable actual_tail expected_tail hierarchy)"
| "type_lists_assignable TypeList.Empty (TypeList.Item expected expected_tail) hierarchy = False"
| "type_lists_assignable (TypeList.Item actual actual_tail) TypeList.Empty hierarchy = False"
  by pat_completeness auto
termination
  by (relation "measure (\<lambda>x. case x of
        Inl (Inl (a, e, h)) \<Rightarrow> size a + size e
      | Inl (Inr (as, e, h)) \<Rightarrow> size as + size e
      | Inr (Inl (a, es, h)) \<Rightarrow> size a + size es
      | Inr (Inr (as, es, h)) \<Rightarrow> size as + size es)") auto

declare is_assignable_in_valid_hierarchy.simps [simp del]

definition is_assignable :: "Type \<Rightarrow> Type \<Rightarrow> NominalHierarchy \<Rightarrow> bool" where
  "is_assignable actual expected hierarchy =
     (if \<not> type_is_well_formed actual hierarchy \<or> \<not> type_is_well_formed expected hierarchy then False
      else is_assignable_in_valid_hierarchy actual expected hierarchy)"

section \<open>Casts and narrowing\<close>

definition cast_compatible :: "Type \<Rightarrow> Type \<Rightarrow> NominalHierarchy \<Rightarrow> bool" where
  "cast_compatible actual expected hierarchy =
     (if \<not> type_is_well_formed actual hierarchy \<or> \<not> type_is_well_formed expected hierarchy then False
      else case expected of
        Type.VariadicTuple element \<Rightarrow>
          (if type_equals element Type.Object
           then (case actual of
                   Type.FixedTuple _ \<Rightarrow> True
                 | Type.VariadicTuple _ \<Rightarrow> True
                 | _ \<Rightarrow> False)
           else is_assignable actual expected hierarchy)
      | _ \<Rightarrow> is_assignable actual expected hierarchy)"

fun narrow_variants :: "TypeList \<Rightarrow> Type \<Rightarrow> bool \<Rightarrow> NominalHierarchy \<Rightarrow> TypeList" where
  "narrow_variants TypeList.Empty expected positive hierarchy = TypeList.Empty"
| "narrow_variants (TypeList.Item variant tail) expected positive hierarchy =
     (let retained_tail = narrow_variants tail expected positive hierarchy;
          inside = is_assignable variant expected hierarchy;
          contains_expected = is_assignable expected variant hierarchy
      in if positive \<and> inside then TypeList.Item (clone_type variant) retained_tail
         else if positive \<and> contains_expected then TypeList.Item (clone_type expected) retained_tail
         else if \<not> positive \<and> \<not> inside then TypeList.Item (clone_type variant) retained_tail
         else retained_tail)"

definition narrow_type :: "Type \<Rightarrow> Type \<Rightarrow> bool \<Rightarrow> NominalHierarchy \<Rightarrow> Type option" where
  "narrow_type actual expected positive hierarchy =
     (if \<not> type_is_well_formed actual hierarchy \<or> \<not> type_is_well_formed expected hierarchy then None
      else
        let variants = expand_union_list actual;
            retained = narrow_variants variants expected positive hierarchy
        in case retained of
             TypeList.Empty \<Rightarrow> None
           | other \<Rightarrow> Some (normalize_type_list other))"

section \<open>Normalization: first-seen leaf alternatives\<close>

text \<open>
  The specification of normalization on lists: the leaf alternatives of a type, in source order,
  and the list that keeps the first occurrence of each.
\<close>

fun alternatives :: "Type \<Rightarrow> Type list"
  and list_alternatives :: "TypeList \<Rightarrow> Type list" where
  "alternatives (Type.Union ts) = list_alternatives ts"
| "alternatives t = [t]"
| "list_alternatives TypeList.Empty = []"
| "list_alternatives (TypeList.Item t ts) = alternatives t @ list_alternatives ts"

definition first_seen :: "'a list \<Rightarrow> 'a list" where
  "first_seen xs = rev (remdups (rev xs))"

definition is_union :: "Type \<Rightarrow> bool" where
  "is_union t = (case t of Type.Union _ \<Rightarrow> True | _ \<Rightarrow> False)"

lemma set_first_seen [simp]: "set (first_seen xs) = set xs"
  by (simp add: first_seen_def)

lemma distinct_first_seen [simp]: "distinct (first_seen xs)"
  by (simp add: first_seen_def)

lemma first_seen_distinct: "distinct xs \<Longrightarrow> first_seen xs = xs"
  by (simp add: first_seen_def distinct_remdups_id)

lemma first_seen_snoc: "first_seen (xs @ [x]) = (if x \<in> set xs then first_seen xs else first_seen xs @ [x])"
  by (simp add: first_seen_def)

lemma first_seen_Nil [simp]: "first_seen [] = []" "first_seen xs = [] \<longleftrightarrow> xs = []"
  by (simp_all add: first_seen_def)

lemma first_seen_append_seen: "set ys \<subseteq> set xs \<Longrightarrow> first_seen (xs @ ys) = first_seen xs"
proof (induction ys rule: rev_induct)
  case Nil
  then show ?case by simp
next
  case (snoc y ys)
  then show ?case using first_seen_snoc [of "xs @ ys" y] by auto
qed

lemma alternatives_not_union: "\<not> is_union t \<Longrightarrow> alternatives t = [t]"
  by (cases t) (auto simp: is_union_def)

lemma alternatives_leaf:
  "u \<in> set (alternatives t) \<Longrightarrow> \<not> is_union u"
  "u \<in> set (list_alternatives ts) \<Longrightarrow> \<not> is_union u"
  by (induction t and ts rule: alternatives_list_alternatives.induct) (auto simp: is_union_def)

lemma list_alternatives_items: "list_alternatives ts = concat (map alternatives (type_items ts))"
  by (induction ts rule: type_items.induct) auto

lemma list_alternatives_leaves:
  assumes "\<forall>t \<in> set (type_items ts). \<not> is_union t"
  shows "list_alternatives ts = type_items ts"
proof -
  have "concat (map alternatives xs) = xs" if "\<forall>t \<in> set xs. \<not> is_union t" for xs
    using that by (induction xs) (auto simp: alternatives_not_union)
  with assms show ?thesis by (simp add: list_alternatives_items)
qed

lemma reverse_type_list_items: "type_items (reverse_type_list ts acc) = rev (type_items ts) @ type_items acc"
  by (induction ts acc rule: reverse_type_list.induct) auto

definition add_unseen :: "Type \<Rightarrow> Type list \<Rightarrow> Type list" where
  "add_unseen t seen = (if t \<in> set seen then seen else t # seen)"

lemma flatten_union_types_items:
  "type_items (flatten_union_types ts acc) = fold add_unseen (list_alternatives ts) (type_items acc)"
proof (induction ts acc rule: flatten_union_types.induct)
  case (1 flattened)
  then show ?case by simp
next
  case (2 ty tail flattened)
  show ?case
  proof (cases "\<exists>nested. ty = Type.Union nested")
    case True
    then obtain nested where ty: "ty = Type.Union nested" by blast
    show ?thesis using 2(1) [OF ty] 2(2) ty by simp
  next
    case False
    then have "alternatives ty = [ty]"
      and "(case ty of Type.Union nested \<Rightarrow> flatten_union_types nested flattened
          | _ \<Rightarrow> (if type_list_contains flattened ty then flattened else TypeList.Item ty flattened)) =
        (if type_list_contains flattened ty then flattened else TypeList.Item ty flattened)"
      by (cases ty; simp)+
    then show ?thesis using 2(2) by (auto simp: add_unseen_def)
  qed
qed

lemma fold_add_unseen: "rev (fold add_unseen xs []) = first_seen xs"
proof (induction xs rule: rev_induct)
  case Nil
  then show ?case by (simp add: first_seen_def)
next
  case (snoc x xs)
  have "set (fold add_unseen xs []) = set xs"
    using snoc.IH set_first_seen [of xs] by (metis set_rev)
  with snoc.IH show ?case
    by (simp add: first_seen_snoc add_unseen_def [of x "fold add_unseen xs []"])
qed

lemma normalize_type_list_eq:
  "normalize_type_list ts =
     (case first_seen (list_alternatives ts) of
        [only] \<Rightarrow> only
      | alts \<Rightarrow> Type.Union (from_vec alts))"
proof -
  let ?r = "reverse_type_list (flatten_union_types ts TypeList.Empty) TypeList.Empty"
  have items: "type_items ?r = first_seen (list_alternatives ts)"
    using fold_add_unseen [of "list_alternatives ts"]
    by (simp add: reverse_type_list_items flatten_union_types_items)
  then have "?r = from_vec (first_seen (list_alternatives ts))"
    by (simp flip: items)
  with items show ?thesis
    by (auto simp: normalize_type_list_def Let_def split: TypeList.splits list.splits)
qed

lemma first_seen_alternatives_leaf: "u \<in> set (first_seen (alternatives t)) \<Longrightarrow> \<not> is_union u"
  by (simp add: alternatives_leaf)

lemma list_alternatives_from_vec:
  "\<forall>u \<in> set us. \<not> is_union u \<Longrightarrow> list_alternatives (from_vec us) = us"
  by (simp add: list_alternatives_leaves)

lemma alternatives_normalize [simp]:
  "alternatives (normalize_type_list ts) = first_seen (list_alternatives ts)"
proof -
  have leaves: "\<forall>u \<in> set (first_seen (list_alternatives ts)). \<not> is_union u"
    by (simp add: alternatives_leaf)
  show ?thesis
  proof (cases "\<exists>only. first_seen (list_alternatives ts) = [only]")
    case True
    then obtain only where only: "first_seen (list_alternatives ts) = [only]" by blast
    then have "\<not> is_union only" using leaves by (metis list.set_intros(1))
    with only show ?thesis by (simp add: normalize_type_list_eq alternatives_not_union)
  next
    case False
    then have "normalize_type_list ts = Type.Union (from_vec (first_seen (list_alternatives ts)))"
      by (auto simp: normalize_type_list_eq split: list.splits)
    with leaves show ?thesis by (simp add: list_alternatives_from_vec)
  qed
qed

lemma expand_union_items: "type_items (expand_union_list t) = first_seen (alternatives t)"
proof -
  let ?n = "normalize_type_list (TypeList.Item t TypeList.Empty)"
  have alts: "alternatives ?n = first_seen (alternatives t)" by simp
  show ?thesis
  proof (cases "is_union ?n")
    case True
    then obtain us where us: "?n = Type.Union us" by (auto simp: is_union_def split: Type.splits)
    have "\<not> is_union only" if "first_seen (alternatives t) = [only]" for only
      using first_seen_alternatives_leaf [of only t] that by simp
    with us True have "us = from_vec (first_seen (alternatives t))"
      by (auto simp: normalize_type_list_eq split: list.splits)
    with us show ?thesis by (simp add: expand_union_list_def)
  next
    case False
    then have "first_seen (alternatives t) = [?n]" using alternatives_not_union alts by metis
    moreover have "expand_union_list t = TypeList.Item ?n TypeList.Empty"
      using False by (auto simp: expand_union_list_def is_union_def split: Type.splits)
    ultimately show ?thesis by simp
  qed
qed

text \<open>
  Normalization computes exactly the first occurrences of the leaf alternatives, in
  source order, and wraps them in a union unless there is exactly one; the result has no nested
  union and no repeated alternative.
\<close>

theorem normalize_union_first_seen:
  "normalize_union types =
     (case first_seen (concat (map alternatives types)) of
        [only] \<Rightarrow> only
      | alts \<Rightarrow> Type.Union (from_vec alts)) \<and>
   distinct (alternatives (normalize_union types)) \<and>
   (\<forall>u \<in> set (alternatives (normalize_union types)). \<not> is_union u)"
proof -
  have "list_alternatives (from_vec types) = concat (map alternatives types)"
    by (simp add: list_alternatives_items)
  then show ?thesis
    unfolding normalize_union_def alternatives_normalize
    by (simp only: normalize_type_list_eq distinct_first_seen) (auto simp: alternatives_leaf)
qed

theorem normalize_union_first_seen_witness:
  "normalize_union [Type.Union (from_vec [Type.Str, Type.Int]), Type.Bool, Type.Str] =
     Type.Union (from_vec [Type.Str, Type.Int, Type.Bool])"
  using normalize_union_first_seen [of "[Type.Union (from_vec [Type.Str, Type.Int]), Type.Bool, Type.Str]"]
  by (simp add: first_seen_def)

text \<open>
  Property C33. Expanding a type and normalizing the expansion again gives the same alternatives:
  normalization is idempotent.
\<close>

theorem normalize_expand_idempotent:
  "normalize_union (expand_union (normalize_union types)) = normalize_union types \<and>
   expand_union (normalize_union types) = first_seen (concat (map alternatives types))"
proof -
  have expand: "expand_union (normalize_union types) = first_seen (concat (map alternatives types))"
    by (simp add: expand_union_def expand_union_items normalize_union_def list_alternatives_items
        first_seen_distinct)
  have "concat (map alternatives (first_seen (concat (map alternatives types)))) =
      first_seen (concat (map alternatives types))"
    using list_alternatives_from_vec [of "first_seen (concat (map alternatives types))"]
    by (auto simp: list_alternatives_items alternatives_leaf)
  with expand show ?thesis
    by (simp add: normalize_union_def normalize_type_list_eq list_alternatives_items first_seen_distinct)
qed

end
