(* ===== verification/Type_Assignability.thy ===== *)
theory Type_Assignability
  imports Type_Algebra
begin

text \<open>
  Theorems about assignability and narrowing: the recursive decision procedure computes the least
  preorder with the intended rules (unions are joins, \<open>object\<close> is the top, tuples are covariant,
  mutable containers invariant), it is sound for a semantics of runtime values, and the two
  \<open>isinstance\<close> paths of narrowing keep every value that can take them.
\<close>

abbreviation assign :: "NominalHierarchy \<Rightarrow> Type \<Rightarrow> Type \<Rightarrow> bool" where
  "assign h a e \<equiv> is_assignable_in_valid_hierarchy a e h"

section \<open>The list forms of the mutual recursion\<close>

lemma every_type_assignable_iff:
  "every_type_assignable_to ts e h \<longleftrightarrow> (\<forall>t \<in> set (type_items ts). assign h t e)"
  by (induction ts rule: type_items.induct) auto

lemma type_assignable_to_any_iff:
  "type_assignable_to_any a ts h \<longleftrightarrow> (\<exists>t \<in> set (type_items ts). assign h a t)"
  by (induction ts rule: type_items.induct) auto

lemma type_lists_assignable_iff:
  "type_lists_assignable as es h \<longleftrightarrow> list_all2 (assign h) (type_items as) (type_items es)"
proof (induction as arbitrary: es rule: type_items.induct)
  case 1
  then show ?case by (cases es) auto
next
  case (2 ty tail)
  then show ?case by (cases es) auto
qed

lemmas assign_list_forms =
  every_type_assignable_iff type_assignable_to_any_iff type_lists_assignable_iff

lemma assign_refl [simp]: "assign h t t"
  by (simp add: is_assignable_in_valid_hierarchy.simps)

lemma assign_object [simp]: "assign h t Type.Object"
  by (simp add: is_assignable_in_valid_hierarchy.simps)

lemma assign_bool_int: "assign h Type.Bool Type.Int"
  by (simp add: is_assignable_in_valid_hierarchy.simps)

lemma assign_class:
  "assign h (Type.Class a) (Type.Class b) \<longleftrightarrow> a = b \<or> is_subclass a b h"
  by (simp add: is_assignable_in_valid_hierarchy.simps)

lemma assign_union_right:
  "\<not> is_union a \<Longrightarrow> assign h a (Type.Union es) \<longleftrightarrow> (\<exists>t \<in> set (type_items es). assign h a t)"
  by (cases a)
     (auto simp: is_assignable_in_valid_hierarchy.simps [of _ "Type.Union es"] is_union_def assign_list_forms)

lemma assign_union_left_intro:
  "(\<And>t. t \<in> set (type_items as) \<Longrightarrow> assign h t e) \<Longrightarrow> assign h (Type.Union as) e"
  by (cases e)
     (auto simp: is_assignable_in_valid_hierarchy.simps [of "Type.Union as"] assign_list_forms)

lemma assign_union_left_cases:
  assumes "assign h (Type.Union as) e"
  shows "e = Type.Union as \<or> (\<forall>t \<in> set (type_items as). assign h t e)"
  using assms
  by (cases e) (auto simp: is_assignable_in_valid_hierarchy.simps [of "Type.Union as"] assign_list_forms
      split: if_splits)

lemma assign_into_union:
  "assign h a t \<Longrightarrow> t \<in> set (type_items ts) \<Longrightarrow> assign h a (Type.Union ts)"
proof (induction "size a" arbitrary: a t ts rule: less_induct)
  case less
  show ?case
  proof (cases "is_union a")
    case False
    with less.prems assign_union_right [of a ts h] show ?thesis by blast
  next
    case True
    then obtain as where as: "a = Type.Union as" by (auto simp: is_union_def split: Type.splits)
    show ?thesis unfolding as
    proof (rule assign_union_left_intro)
      fix x assume x: "x \<in> set (type_items as)"
      then have smaller: "size x < size a" using as type_items_size [OF x] by simp
      have "assign h x t"
        using less.hyps [OF smaller assign_refl x] less.prems(1) assign_union_left_cases [of as t h] as x
        by auto
      then show "assign h x (Type.Union ts)" using less.hyps [OF smaller] less.prems(2) by blast
    qed
  qed
qed

lemma assign_fixed:
  "assign h (Type.FixedTuple as) (Type.FixedTuple es) \<longleftrightarrow>
     list_all2 (assign h) (type_items as) (type_items es)"
  by (auto simp: is_assignable_in_valid_hierarchy.simps [of "Type.FixedTuple as"] assign_list_forms
      list_all2_refl)

lemma assign_fixed_variadic:
  "assign h (Type.FixedTuple as) (Type.VariadicTuple e) \<longleftrightarrow> (\<forall>t \<in> set (type_items as). assign h t e)"
  by (auto simp: is_assignable_in_valid_hierarchy.simps [of "Type.FixedTuple as"] assign_list_forms)

lemma assign_variadic:
  "assign h (Type.VariadicTuple a) (Type.VariadicTuple e) \<longleftrightarrow> assign h a e"
  by (auto simp: is_assignable_in_valid_hierarchy.simps [of "Type.VariadicTuple a"])

text \<open>Inversion away from unions, equality and the top type.\<close>

lemma assign_cases [consumes 1, case_names eq object bool_int cls union_left union_right fixed fixed_variadic variadic]:
  assumes "assign h a e"
  obtains "a = e"
  | "e = Type.Object"
  | "a = Type.Bool" "e = Type.Int"
  | c d where "a = Type.Class c" "e = Type.Class d" "is_subclass c d h"
  | as where "a = Type.Union as" "\<forall>t \<in> set (type_items as). assign h t e"
  | es t where "\<not> is_union a" "e = Type.Union es" "t \<in> set (type_items es)" "assign h a t"
  | as es where "a = Type.FixedTuple as" "e = Type.FixedTuple es"
      "list_all2 (assign h) (type_items as) (type_items es)"
  | as t where "a = Type.FixedTuple as" "e = Type.VariadicTuple t"
      "\<forall>s \<in> set (type_items as). assign h s t"
  | s t where "a = Type.VariadicTuple s" "e = Type.VariadicTuple t" "assign h s t"
proof (cases "a = e \<or> e = Type.Object")
  case True
  with that(1,2) show ?thesis by blast
next
  case False
  show ?thesis
  proof (cases "is_union a")
    case True
    then obtain as where as: "a = Type.Union as" by (auto simp: is_union_def split: Type.splits)
    with assms False have "\<forall>t \<in> set (type_items as). assign h t e"
      using assign_union_left_cases [of as e h] by auto
    with as that(5) show ?thesis by blast
  next
    case nu: False
    show ?thesis
    proof (cases "is_union e")
      case True
      then obtain es where "e = Type.Union es" by (auto simp: is_union_def split: Type.splits)
      with nu assms assign_union_right [OF nu] that(6) show ?thesis by blast
    next
      case False
      note unfolded = assms [unfolded is_assignable_in_valid_hierarchy.simps [of a e]]
      from False nu unfolded \<open>\<not> (a = e \<or> e = Type.Object)\<close>
      have "(a = Type.Bool \<and> e = Type.Int) \<or>
        (\<exists>c d. a = Type.Class c \<and> e = Type.Class d \<and> is_subclass c d h) \<or>
        (\<exists>as es. a = Type.FixedTuple as \<and> e = Type.FixedTuple es \<and>
           list_all2 (assign h) (type_items as) (type_items es)) \<or>
        (\<exists>as t. a = Type.FixedTuple as \<and> e = Type.VariadicTuple t \<and>
           (\<forall>s \<in> set (type_items as). assign h s t)) \<or>
        (\<exists>s t. a = Type.VariadicTuple s \<and> e = Type.VariadicTuple t \<and> assign h s t)"
        by (cases a; cases e)
           (auto simp: is_union_def assign_list_forms split: if_splits)
      with that(3,4,7,8,9) show ?thesis by blast
    qed
  qed
qed

section \<open>The declarative preorder\<close>

inductive subtype_rel :: "(string \<Rightarrow> string \<Rightarrow> bool) \<Rightarrow> Type \<Rightarrow> Type \<Rightarrow> bool" for sub where
  refl: "subtype_rel sub t t"
| trans: "subtype_rel sub a b \<Longrightarrow> subtype_rel sub b c \<Longrightarrow> subtype_rel sub a c"
| object: "subtype_rel sub t Type.Object"
| bool_int: "subtype_rel sub Type.Bool Type.Int"
| cls: "sub a b \<Longrightarrow> subtype_rel sub (Type.Class a) (Type.Class b)"
| union_upper: "t \<in> set (type_items ts) \<Longrightarrow> subtype_rel sub t (Type.Union ts)"
| union_least: "(\<forall>t \<in> set (type_items ts). subtype_rel sub t e) \<Longrightarrow> subtype_rel sub (Type.Union ts) e"
| fixed: "list_all2 (subtype_rel sub) (type_items as) (type_items es) \<Longrightarrow>
     subtype_rel sub (Type.FixedTuple as) (Type.FixedTuple es)"
| fixed_variadic: "(\<forall>t \<in> set (type_items as). subtype_rel sub t e) \<Longrightarrow>
     subtype_rel sub (Type.FixedTuple as) (Type.VariadicTuple e)"
| variadic: "subtype_rel sub a e \<Longrightarrow> subtype_rel sub (Type.VariadicTuple a) (Type.VariadicTuple e)"

lemma assign_in_subtype_rel:
  "assign h a e \<Longrightarrow> subtype_rel (\<lambda>a b. is_subclass a b h) a e"
proof (induction "size a + size e" arbitrary: a e rule: less_induct)
  case less
  from less.prems show ?case
  proof (cases rule: assign_cases)
    case (union_left as)
    have "subtype_rel (\<lambda>a b. is_subclass a b h) t e" if "t \<in> set (type_items as)" for t
      using less.hyps [of t e] union_left type_items_size [OF that] that by simp
    then show ?thesis unfolding union_left(1) by (intro subtype_rel.union_least ballI)
  next
    case (union_right es t)
    have "subtype_rel (\<lambda>a b. is_subclass a b h) a t"
      using less.hyps [of a t] union_right type_items_size [OF union_right(3)] by simp
    then show ?thesis unfolding union_right(2)
      by (rule subtype_rel.trans) (rule subtype_rel.union_upper [OF union_right(3)])
  next
    case (fixed as es)
    have "list_all2 (subtype_rel (\<lambda>a b. is_subclass a b h)) (type_items as) (type_items es)"
      using fixed(3)
    proof (rule list.rel_mono_strong)
      fix x y assume "x \<in> set (type_items as)" "y \<in> set (type_items es)" "assign h x y"
      then show "subtype_rel (\<lambda>a b. is_subclass a b h) x y"
        using less.hyps [of x y] fixed type_items_size [of x as] type_items_size [of y es] by simp
    qed
    then show ?thesis unfolding fixed(1,2) by (rule subtype_rel.fixed)
  next
    case (fixed_variadic as t)
    have "subtype_rel (\<lambda>a b. is_subclass a b h) s t" if "s \<in> set (type_items as)" for s
      using less.hyps [of s t] fixed_variadic type_items_size [OF that] that by simp
    then show ?thesis unfolding fixed_variadic(1,2) by (intro subtype_rel.fixed_variadic ballI)
  next
    case (variadic s t)
    then show ?thesis using less.hyps [of s t] by (simp add: subtype_rel.variadic)
  qed (auto intro: subtype_rel.refl subtype_rel.object subtype_rel.bool_int subtype_rel.cls)
qed

section \<open>Runtime values\<close>

text \<open>
  Mutable containers carry the element type they were created at, which is what makes them
  invariant. \<open>PObject\<close> is a value outside every other type.
\<close>

datatype PyVal =
    PInt int
  | PBool bool
  | PStr string
  | PNone
  | PObject
  | PInst string
  | PList Type
  | PSet Type
  | PDict Type Type
  | PTuple "PyVal list"

fun inhabits :: "NominalHierarchy \<Rightarrow> Type \<Rightarrow> PyVal \<Rightarrow> bool"
  and inhabits_each :: "NominalHierarchy \<Rightarrow> TypeList \<Rightarrow> PyVal list \<Rightarrow> bool"
  and inhabits_any :: "NominalHierarchy \<Rightarrow> TypeList \<Rightarrow> PyVal \<Rightarrow> bool" where
  "inhabits h Type.Int v = (case v of PInt _ \<Rightarrow> True | PBool _ \<Rightarrow> True | _ \<Rightarrow> False)"
| "inhabits h Type.Bool v = (case v of PBool _ \<Rightarrow> True | _ \<Rightarrow> False)"
| "inhabits h Type.Str v = (case v of PStr _ \<Rightarrow> True | _ \<Rightarrow> False)"
| "inhabits h Type.NoneType v = (v = PNone)"
| "inhabits h Type.Object v = True"
| "inhabits h (Type.Class c) v = (case v of PInst d \<Rightarrow> is_subclass d c h | _ \<Rightarrow> False)"
| "inhabits h (Type.List t) v = (v = PList t)"
| "inhabits h (Type.Set t) v = (v = PSet t)"
| "inhabits h (Type.Dict k t) v = (v = PDict k t)"
| "inhabits h (Type.FixedTuple ts) v = (case v of PTuple vs \<Rightarrow> inhabits_each h ts vs | _ \<Rightarrow> False)"
| "inhabits h (Type.VariadicTuple t) v = (case v of PTuple vs \<Rightarrow> list_all (inhabits h t) vs | _ \<Rightarrow> False)"
| "inhabits h (Type.Union ts) v = inhabits_any h ts v"
| "inhabits_each h TypeList.Empty vs = (vs = [])"
| "inhabits_each h (TypeList.Item t ts) vs =
     (case vs of [] \<Rightarrow> False | v # vs' \<Rightarrow> inhabits h t v \<and> inhabits_each h ts vs')"
| "inhabits_any h TypeList.Empty v = False"
| "inhabits_any h (TypeList.Item t ts) v = (inhabits h t v \<or> inhabits_any h ts v)"

lemma inhabits_any_iff: "inhabits_any h ts v \<longleftrightarrow> (\<exists>t \<in> set (type_items ts). inhabits h t v)"
  by (induction ts rule: type_items.induct) auto

lemma inhabits_each_iff: "inhabits_each h ts vs \<longleftrightarrow> list_all2 (inhabits h) (type_items ts) vs"
proof (induction ts arbitrary: vs rule: type_items.induct)
  case (2 ty tail)
  then show ?case by (cases vs) auto
qed auto

lemma inhabits_alternatives:
  "inhabits h t v \<longleftrightarrow> (\<exists>u \<in> set (alternatives t). inhabits h u v)"
  "inhabits_any h ts v \<longleftrightarrow> (\<exists>u \<in> set (list_alternatives ts). inhabits h u v)"
  by (induction t and ts rule: alternatives_list_alternatives.induct) auto

lemma inhabits_normalize: "inhabits h (normalize_type_list ts) v \<longleftrightarrow> inhabits_any h ts v"
  by (simp add: inhabits_alternatives(1) [of h "normalize_type_list ts"] inhabits_alternatives(2))

lemma well_formed_list_iff:
  "type_list_is_well_formed ts h \<longleftrightarrow> (\<forall>t \<in> set (type_items ts). type_is_well_formed t h)"
  by (induction ts rule: type_items.induct) auto

lemma well_formed_alternatives:
  "type_is_well_formed t h \<Longrightarrow> u \<in> set (alternatives t) \<Longrightarrow> type_is_well_formed u h"
  "type_list_is_well_formed ts h \<Longrightarrow> u \<in> set (list_alternatives ts) \<Longrightarrow> type_is_well_formed u h"
  by (induction t and ts rule: alternatives_list_alternatives.induct) auto

text \<open>The variants kept on each path.\<close>

lemma narrow_variants_positive:
  "set (type_items (narrow_variants vs e True h)) =
     {u \<in> set (type_items vs). is_assignable u e h} \<union>
     (if \<exists>u \<in> set (type_items vs). \<not> is_assignable u e h \<and> is_assignable e u h then {e} else {})"
  by (induction vs rule: type_items.induct) (auto simp: Let_def)

lemma narrow_variants_negative:
  "set (type_items (narrow_variants vs e False h)) =
     {u \<in> set (type_items vs). \<not> is_assignable u e h}"
  by (induction vs rule: type_items.induct) (auto simp: Let_def)

text \<open>A test against one type that is neither a union nor a tuple, as \<open>isinstance\<close> with a class name.\<close>

definition single_test :: "Type \<Rightarrow> bool" where
  "single_test t \<longleftrightarrow>
     (case t of Type.FixedTuple ts \<Rightarrow> False | Type.VariadicTuple u \<Rightarrow> False | Type.Union ts \<Rightarrow> False | _ \<Rightarrow> True)"

lemma single_test_simps [simp]:
  "single_test (Type.Class c)" "\<not> single_test (Type.FixedTuple ts)" "\<not> single_test (Type.VariadicTuple u)"
  "\<not> single_test (Type.Union ts)"
  by (simp_all add: single_test_def)

lemma narrow_type_Some:
  "narrow_type a e p h = Some t \<Longrightarrow>
     type_is_well_formed a h \<and> type_is_well_formed e h \<and>
     t = normalize_type_list (narrow_variants (expand_union_list a) e p h)"
  by (auto simp: narrow_type_def Let_def split: if_splits TypeList.splits)

section \<open>Assignability over a class order\<close>

locale hierarchy_subclassing =
  subclass_order "\<lambda>n. class_known n h" "\<lambda>a b. is_subclass a b h" for h :: NominalHierarchy
begin

lemma assign_trans: "assign h a b \<Longrightarrow> assign h b c \<Longrightarrow> assign h a c"
proof (induction "size a + size b + size c" arbitrary: a b c rule: less_induct)
  case less
  have left: "assign h a c" if "a = Type.Union as" "\<forall>t \<in> set (type_items as). assign h t b" for as
    unfolding that(1)
  proof (rule assign_union_left_intro)
    fix t assume t: "t \<in> set (type_items as)"
    with that less.prems(2) type_items_size [OF t] show "assign h t c"
      by (intro less.hyps [of t b c]) auto
  qed
  have right: "assign h a c"
    if "\<not> is_union a" "c = Type.Union cs" "t \<in> set (type_items cs)" "assign h b t" for cs t
  proof -
    have "assign h a t"
      using that less.prems(1) type_items_size [OF that(3)] by (intro less.hyps [of a b t]) auto
    with that assign_union_right [of a cs h] show ?thesis by blast
  qed
  show ?case
  proof (cases "is_union a")
    case True
    then obtain as where as: "a = Type.Union as" by (auto simp: is_union_def split: Type.splits)
    with less.prems assign_union_left_cases [of as b h] left [of as] show ?thesis by auto
  next
    case nu: False
    from less.prems(1) show ?thesis
    proof (cases rule: assign_cases)
      case eq
      with less.prems show ?thesis by simp
    next
      case object
      from less.prems(2) show ?thesis
        by (cases rule: assign_cases) (use object nu right in \<open>auto simp: is_union_def\<close>)
    next
      case bool_int
      from less.prems(2) show ?thesis
        by (cases rule: assign_cases) (use bool_int nu right in \<open>auto simp: assign_bool_int\<close>)
    next
      case (cls d e)
      from less.prems(2) show ?thesis
        by (cases rule: assign_cases)
           (use cls nu right in \<open>auto simp: assign_class intro: sub_trans\<close>)
    next
      case (union_left as)
      then show ?thesis using left by blast
    next
      case (union_right bs t)
      show ?thesis
      proof (cases "c = b")
        case True
        with less.prems show ?thesis by simp
      next
        case False
        with less.prems(2) union_right have "assign h t c"
          using assign_union_left_cases [of bs c h] by auto
        with union_right type_items_size [OF union_right(3)] show ?thesis
          by (intro less.hyps [of a t c]) auto
      qed
    next
      case (fixed as bs)
      from less.prems(2) show ?thesis
      proof (cases rule: assign_cases)
        case (fixed bs' cs)
        have b: "bs' = bs" using fixed(1) \<open>b = Type.FixedTuple bs\<close> by simp
        have len: "length (type_items as) = length (type_items bs)" "length (type_items bs) = length (type_items cs)"
          using fixed(3) \<open>list_all2 (assign h) (type_items as) (type_items bs)\<close> b
          by (auto dest: list_all2_lengthD)
        have "assign h (type_items as ! i) (type_items cs ! i)" if i: "i < length (type_items as)" for i
        proof (rule less.hyps [of _ "type_items bs ! i"])
          show "size (type_items as ! i) + size (type_items bs ! i) + size (type_items cs ! i)
              < size a + size b + size c"
            using i len type_items_size [OF nth_mem, of i as] type_items_size [OF nth_mem, of i bs]
              type_items_size [OF nth_mem, of i cs] \<open>a = Type.FixedTuple as\<close> \<open>b = Type.FixedTuple bs\<close> fixed(2)
            by simp
        qed (use i len b fixed(3) \<open>list_all2 (assign h) (type_items as) (type_items bs)\<close>
             in \<open>auto simp: list_all2_conv_all_nth\<close>)
        then have "list_all2 (assign h) (type_items as) (type_items cs)"
          using len by (simp add: list_all2_conv_all_nth)
        with fixed \<open>a = Type.FixedTuple as\<close> show ?thesis by (simp add: assign_fixed)
      next
        case (fixed_variadic bs' e)
        have "assign h x e" if "x \<in> set (type_items as)" for x
        proof -
          from that \<open>list_all2 (assign h) (type_items as) (type_items bs)\<close>
          obtain y where "y \<in> set (type_items bs)" "assign h x y"
            using list_all2_in_set1 [of "assign h" "type_items as" "type_items bs" x] by blast
          then show ?thesis
            using that fixed_variadic \<open>a = Type.FixedTuple as\<close> \<open>b = Type.FixedTuple bs\<close>
              type_items_size [of x as] type_items_size [of y bs]
            by (intro less.hyps [of x y e]) auto
        qed
        with fixed_variadic \<open>a = Type.FixedTuple as\<close> show ?thesis
          by (simp add: assign_fixed_variadic)
      qed (use fixed nu right less.prems in \<open>auto simp: is_union_def\<close>)
    next
      case (fixed_variadic as t)
      from less.prems(2) show ?thesis
      proof (cases rule: assign_cases)
        case (variadic t' e)
        have "assign h x e" if "x \<in> set (type_items as)" for x
          using that variadic fixed_variadic type_items_size [of x as]
          by (intro less.hyps [of x t e]) auto
        with variadic fixed_variadic show ?thesis by (simp add: assign_fixed_variadic)
      qed (use fixed_variadic nu right less.prems in \<open>auto simp: is_union_def\<close>)
    next
      case (variadic s t)
      from less.prems(2) show ?thesis
      proof (cases rule: assign_cases)
        case (variadic t' e)
        have "assign h s e"
          using variadic \<open>a = Type.VariadicTuple s\<close> \<open>b = Type.VariadicTuple t\<close> \<open>assign h s t\<close>
          by (intro less.hyps [of s t e]) auto
        with variadic \<open>a = Type.VariadicTuple s\<close> show ?thesis by (simp add: assign_variadic)
      qed (use variadic nu right less.prems in \<open>auto simp: is_union_def\<close>)
    qed
  qed
qed

lemma subtype_rel_in_assign: "subtype_rel (\<lambda>a b. is_subclass a b h) a e \<Longrightarrow> assign h a e"
proof (induction rule: subtype_rel.induct)
  case (trans a b c)
  then show ?case using assign_trans by blast
next
  case (union_upper t ts)
  then show ?case using assign_into_union [OF assign_refl] by blast
qed (auto simp: assign_bool_int assign_class assign_fixed assign_fixed_variadic assign_variadic
     intro: assign_union_left_intro elim: list_all2_mono)

lemma assign_inhabits: "assign h a e \<Longrightarrow> inhabits h a v \<Longrightarrow> inhabits h e v"
proof (induction "size a + size e" arbitrary: a e v rule: less_induct)
  case less
  from less.prems(1) show ?case
  proof (cases rule: assign_cases)
    case (cls c d)
    with less.prems(2) show ?thesis by (auto intro: sub_trans split: PyVal.splits)
  next
    case (union_left as)
    with less.prems(2) obtain t where t: "t \<in> set (type_items as)" "inhabits h t v"
      by (auto simp: inhabits_any_iff)
    with union_left type_items_size [OF t(1)] show ?thesis
      by (intro less.hyps [of t e v]) auto
  next
    case (union_right es t)
    have "inhabits h t v"
      using union_right type_items_size [OF union_right(3)] less.prems(2)
      by (intro less.hyps [of a t v]) auto
    with union_right show ?thesis by (auto simp: inhabits_any_iff)
  next
    case (fixed as es)
    with less.prems(2) obtain vs where v: "v = PTuple vs" "list_all2 (inhabits h) (type_items as) vs"
      by (auto simp: inhabits_each_iff split: PyVal.splits)
    have "inhabits h (type_items es ! i) (vs ! i)" if i: "i < length (type_items es)" for i
    proof (rule less.hyps [of "type_items as ! i"])
      show "size (type_items as ! i) + size (type_items es ! i) < size a + size e"
        using i fixed type_items_size [OF nth_mem, of i as] type_items_size [OF nth_mem, of i es]
        by (simp add: list_all2_lengthD)
    qed (use i fixed v in \<open>auto simp: list_all2_conv_all_nth\<close>)
    with fixed v show ?thesis by (simp add: inhabits_each_iff list_all2_conv_all_nth)
  next
    case (fixed_variadic as t)
    with less.prems(2) obtain vs where v: "v = PTuple vs" "list_all2 (inhabits h) (type_items as) vs"
      by (auto simp: inhabits_each_iff split: PyVal.splits)
    have "inhabits h t w" if "w \<in> set vs" for w
    proof -
      from that v obtain s where s: "s \<in> set (type_items as)" "inhabits h s w"
        using list_all2_in_set1 [of "\<lambda>v t. inhabits h t v" vs "type_items as" w]
        by (auto simp: list_all2_conv_all_nth)
      with fixed_variadic type_items_size [OF s(1)] show ?thesis
        by (intro less.hyps [of s t w]) auto
    qed
    with fixed_variadic v show ?thesis by (simp add: list_all_iff)
  next
    case (variadic s t)
    with less.prems(2) obtain vs where v: "v = PTuple vs" "\<forall>w \<in> set vs. inhabits h s w"
      by (auto simp: list_all_iff split: PyVal.splits)
    have "inhabits h t w" if "w \<in> set vs" for w
      using variadic v that by (intro less.hyps [of s t w]) auto
    with variadic v show ?thesis by (simp add: list_all_iff)
  qed (use less.prems(2) in \<open>auto split: PyVal.splits\<close>)
qed

lemma narrow_type_inhabited:
  assumes "type_is_well_formed a h" "type_is_well_formed e h"
    and "u \<in> set (type_items (narrow_variants (expand_union_list a) e p h))" "inhabits h u v"
  shows "\<exists>t. narrow_type a e p h = Some t \<and> inhabits h t v"
proof -
  let ?r = "narrow_variants (expand_union_list a) e p h"
  from assms(3) have "?r \<noteq> TypeList.Empty" by auto
  then have "narrow_type a e p h = Some (normalize_type_list ?r)"
    using assms(1,2) by (auto simp: narrow_type_def Let_def split: TypeList.splits)
  moreover have "inhabits h (normalize_type_list ?r) v"
    using assms(3,4) by (auto simp: inhabits_normalize inhabits_any_iff)
  ultimately show ?thesis by blast
qed

lemma narrow_negative_complete:
  assumes wf: "type_is_well_formed a h" "type_is_well_formed e h"
    and v: "inhabits h a v" "\<not> inhabits h e v"
  shows "\<exists>t. narrow_type a e False h = Some t \<and> inhabits h t v"
proof -
  from v(1) obtain u where u: "u \<in> set (alternatives a)" "inhabits h u v"
    using inhabits_alternatives(1) by blast
  with v(2) have "\<not> is_assignable u e h"
    using assign_inhabits by (auto simp: is_assignable_def)
  with u have "u \<in> set (type_items (narrow_variants (expand_union_list a) e False h))"
    by (simp add: narrow_variants_negative expand_union_items)
  with u wf show ?thesis using narrow_type_inhabited by blast
qed

lemma inhabited_related:
  assumes "type_is_well_formed u h" "type_is_well_formed e h" "\<not> is_union u" "single_test e"
    and "inhabits h u v" "inhabits h e v"
  shows "is_assignable u e h \<or> is_assignable e u h"
proof (cases "\<exists>c. e = Type.Class c")
  case True
  then obtain c where e: "e = Type.Class c" ..
  with assms(6) obtain d where "v = PInst d" "is_subclass d c h" by (auto split: PyVal.splits)
  with assms(1-3,5) e sub_chain [of d c] show ?thesis
    by (cases u) (auto simp: is_assignable_def is_union_def assign_class class_known_def)
next
  case False
  with assms show ?thesis
    by (cases e; cases u) (auto simp: is_assignable_def is_union_def is_assignable_in_valid_hierarchy.simps
        split: PyVal.splits)
qed

lemma narrow_positive_complete:
  assumes wf: "type_is_well_formed a h" "type_is_well_formed e h" and single: "single_test e"
    and v: "inhabits h a v" "inhabits h e v"
  shows "\<exists>t. narrow_type a e True h = Some t \<and> inhabits h t v"
proof -
  from v(1) obtain u where u: "u \<in> set (alternatives a)" "inhabits h u v"
    using inhabits_alternatives(1) by blast
  then have wfu: "type_is_well_formed u h" and nu: "\<not> is_union u"
    using wf(1) well_formed_alternatives(1) alternatives_leaf(1) by blast+
  have related: "is_assignable u e h \<or> is_assignable e u h"
    by (rule inhabited_related [OF wfu wf(2) nu single u(2) v(2)])
  have u_variant: "u \<in> set (type_items (expand_union_list a))"
    using u(1) by (simp add: expand_union_items)
  have "\<exists>w \<in> set (type_items (narrow_variants (expand_union_list a) e True h)). inhabits h w v"
  proof (cases "is_assignable u e h")
    case True
    with u u_variant show ?thesis by (auto simp: narrow_variants_positive)
  next
    case False
    with related u_variant v(2) show ?thesis
      unfolding narrow_variants_positive by (intro bexI [of _ e]) auto
  qed
  then show ?thesis using narrow_type_inhabited [OF wf] by blast
qed

end

text \<open>Every hierarchy the constructor can return satisfies the interface.\<close>

interpretation hier: hierarchy_subclassing "hierarchy_of cs" for cs
  by unfold_locales

section \<open>Properties\<close>

text \<open>
  Property C15. On every constructible hierarchy the recursive
  assignability procedure decides exactly the least preorder generated by the typing rules, in
  which a union is the join of its alternatives and transitivity is a rule.
\<close>

theorem assign_decides_subtyping:
  "is_assignable actual expected (hierarchy_of cs) \<longleftrightarrow>
     type_is_well_formed actual (hierarchy_of cs) \<and> type_is_well_formed expected (hierarchy_of cs) \<and>
     subtype_rel (\<lambda>a b. is_subclass a b (hierarchy_of cs)) actual expected"
  using assign_in_subtype_rel [of actual expected "hierarchy_of cs"] hier.subtype_rel_in_assign [where cs = cs]
  by (auto simp: is_assignable_def)

text \<open>
  Assignability is transitive, through unions, tuples and the
  top type alike.
\<close>

theorem assignable_transitive:
  assumes "is_assignable a b (hierarchy_of cs)" and "is_assignable b c (hierarchy_of cs)"
  shows "is_assignable a c (hierarchy_of cs)"
  using assms hier.assign_trans [where cs = cs and a = a and b = b and c = c] by (auto simp: is_assignable_def split: if_splits)

definition child_or_bool :: Type where
  "child_or_bool = Type.Union (from_vec [Type.Class ''Child'', Type.Bool])"

definition base_or_int :: Type where
  "base_or_int = Type.Union (from_vec [Type.Int, Type.Class ''Base''])"

theorem assignable_transitive_witness:
  "is_assignable (Type.FixedTuple (from_vec [child_or_bool])) (Type.VariadicTuple Type.Object)
     (hierarchy_of sample_catalog)"
proof (rule assignable_transitive)
  show "is_assignable (Type.FixedTuple (from_vec [child_or_bool])) (Type.VariadicTuple base_or_int)
      (hierarchy_of sample_catalog)"
    by code_simp
  show "is_assignable (Type.VariadicTuple base_or_int) (Type.VariadicTuple Type.Object)
      (hierarchy_of sample_catalog)"
    by code_simp
qed

text \<open>
  Property C21. Assignability is sound for runtime values: a value of the actual
  type is a value of the expected type.
\<close>

theorem assignable_sound:
  assumes "is_assignable actual expected (hierarchy_of cs)" and "inhabits (hierarchy_of cs) actual v"
  shows "inhabits (hierarchy_of cs) expected v"
  using assms hier.assign_inhabits [where cs = cs and a = actual and e = expected and v = v] by (auto simp: is_assignable_def split: if_splits)

theorem assignable_sound_witness:
  "inhabits (hierarchy_of sample_catalog) base_or_int (PInst ''Child'')"
proof (rule assignable_sound)
  show "is_assignable child_or_bool base_or_int (hierarchy_of sample_catalog)" by code_simp
  show "inhabits (hierarchy_of sample_catalog) child_or_bool (PInst ''Child'')" by code_simp
qed

text \<open>
  Property C30. Narrowing loses no value, on the failing path of any test and on the
  passing path of a test against a type that is neither a union nor a tuple, such as the class an
  \<open>isinstance\<close> names: a value of the tested type inhabits the type narrowed for the path it takes,
  which therefore exists. The passing path of a test against a union can lose values.
\<close>

theorem narrowing_keeps_values:
  assumes "type_is_well_formed actual (hierarchy_of cs)"
    and "type_is_well_formed tested (hierarchy_of cs)"
    and "inhabits (hierarchy_of cs) actual v"
    and "single_test tested \<or> \<not> inhabits (hierarchy_of cs) tested v"
  shows "\<exists>t. narrow_type actual tested (inhabits (hierarchy_of cs) tested v) (hierarchy_of cs) = Some t \<and>
    inhabits (hierarchy_of cs) t v"
  using hier.narrow_positive_complete [OF assms(1,2) _ assms(3)] hier.narrow_negative_complete [OF assms(1-3)] assms(4)
  by (cases "inhabits (hierarchy_of cs) tested v") auto

theorem narrowing_keeps_values_witness:
  "(\<exists>t. narrow_type Type.Object (Type.Class ''Base'') True (hierarchy_of sample_catalog) = Some t \<and>
     inhabits (hierarchy_of sample_catalog) t (PInst ''Grandchild'')) \<and>
   (\<exists>t. narrow_type base_or_int child_or_bool False (hierarchy_of sample_catalog) = Some t \<and>
     inhabits (hierarchy_of sample_catalog) t (PInst ''Base''))"
proof
  let ?h = "hierarchy_of sample_catalog"
  have "type_is_well_formed Type.Object ?h" "type_is_well_formed (Type.Class ''Base'') ?h"
    "inhabits ?h Type.Object (PInst ''Grandchild'')"
    "single_test (Type.Class ''Base'') \<or> \<not> inhabits ?h (Type.Class ''Base'') (PInst ''Grandchild'')"
    by code_simp+
  note passing = narrowing_keeps_values [OF this]
  have "inhabits ?h (Type.Class ''Base'') (PInst ''Grandchild'')" by code_simp
  with passing
  show "\<exists>t. narrow_type Type.Object (Type.Class ''Base'') True ?h = Some t \<and> inhabits ?h t (PInst ''Grandchild'')"
    by simp
  have "type_is_well_formed base_or_int ?h" "type_is_well_formed child_or_bool ?h"
    "inhabits ?h base_or_int (PInst ''Base'')"
    "single_test child_or_bool \<or> \<not> inhabits ?h child_or_bool (PInst ''Base'')"
    by code_simp+
  note failing = narrowing_keeps_values [OF this]
  have "\<not> inhabits ?h child_or_bool (PInst ''Base'')" by code_simp
  with failing
  show "\<exists>t. narrow_type base_or_int child_or_bool False ?h = Some t \<and> inhabits ?h t (PInst ''Base'')" by simp
qed

text \<open>The limit: neither \<open>Base\<close> nor a union of \<open>Child\<close> is assignable to the other, and a child is lost.\<close>

lemma union_test_loses_values:
  "narrow_type (Type.Class ''Base'') child_or_bool True (hierarchy_of sample_catalog) = None"
  "inhabits (hierarchy_of sample_catalog) (Type.Class ''Base'') (PInst ''Child'')"
  "inhabits (hierarchy_of sample_catalog) child_or_bool (PInst ''Child'')"
  by code_simp+

lemma narrow_variants_negative_items:
  "type_items (narrow_variants vs e False h) =
     filter (\<lambda>u. \<not> is_assignable u e h) (type_items vs)"
  by (induction vs rule: type_items.induct) (auto simp: Let_def)

lemma narrow_negative_alternatives:
  assumes "narrow_type a e False h = Some t"
  shows "alternatives t = filter (\<lambda>u. \<not> is_assignable u e h) (expand_union a)"
proof -
  let ?kept = "filter (\<lambda>u. \<not> is_assignable u e h) (first_seen (alternatives a))"
  have items: "type_items (narrow_variants (expand_union_list a) e False h) = ?kept"
    by (simp add: narrow_variants_negative_items expand_union_items)
  then have "list_alternatives (narrow_variants (expand_union_list a) e False h) = ?kept"
    using alternatives_leaf(1) [of _ a] by (subst list_alternatives_leaves) auto
  then show ?thesis
    using narrow_type_Some [OF assms] by (simp add: first_seen_distinct expand_union_def expand_union_items)
qed

lemma narrow_positive_alternatives:
  assumes "narrow_type a e True (hierarchy_of cs) = Some t" and "u \<in> set (alternatives t)"
  shows "is_assignable u e (hierarchy_of cs)"
proof -
  let ?h = "hierarchy_of cs"
  from assms obtain w where w: "u \<in> set (alternatives w)"
      "w \<in> set (type_items (narrow_variants (expand_union_list a) e True ?h))"
    using narrow_type_Some [OF assms(1)] by (auto simp: list_alternatives_items)
  have wf: "type_is_well_formed e ?h" using narrow_type_Some [OF assms(1)] by simp
  have e_self: "is_assignable e e ?h" using wf by (simp add: is_assignable_def)
  have we: "is_assignable w e ?h"
    using w(2) e_self by (auto simp: narrow_variants_positive split: if_splits)
  have "assign ?h u w"
  proof (cases "is_union w")
    case False
    with w(1) show ?thesis by (simp add: alternatives_not_union)
  next
    case True
    have "subtype_rel sub u t" if "u \<in> set (alternatives t)" for sub t
    proof -
      have "\<forall>u \<in> set (alternatives t). subtype_rel sub u t"
        and "\<forall>u \<in> set (list_alternatives ts). \<exists>s \<in> set (type_items ts). subtype_rel sub u s" for ts
        by (induction t and ts rule: alternatives_list_alternatives.induct)
           (auto simp: subtype_rel.refl dest!: bspec, (metis subtype_rel.trans subtype_rel.union_upper)?)
      with that show ?thesis by blast
    qed
    with w(1) show ?thesis by (auto intro: hier.subtype_rel_in_assign)
  qed
  then show ?thesis
    using we hier.assign_trans [where cs = cs and a = u and b = w and c = e] well_formed_alternatives(1) [OF _ w(1)]
    by (auto simp: is_assignable_def split: if_splits)
qed

text \<open>
  What narrowing returns: on the negative path exactly the
  alternatives not assignable to the tested type, in source order; on the positive path only
  alternatives assignable to it; and no result exactly when no alternative is kept.
\<close>

theorem narrowing_results:
  assumes "narrow_type actual expected positive (hierarchy_of cs) = Some t"
  shows "if positive
     then \<forall>u \<in> set (alternatives t). is_assignable u expected (hierarchy_of cs)
     else alternatives t =
       filter (\<lambda>u. \<not> is_assignable u expected (hierarchy_of cs)) (expand_union actual)"
  using assms narrow_positive_alternatives narrow_negative_alternatives by (cases positive) auto

theorem narrowing_results_witness:
  "alternatives (Type.Union (from_vec [Type.Class ''Other'', Type.NoneType])) =
     filter (\<lambda>u. \<not> is_assignable u (Type.Class ''Base'') (hierarchy_of sample_catalog))
       (expand_union (Type.Union (from_vec [Type.Class ''Child'', Type.Class ''Other'', Type.NoneType])))"
proof -
  have "narrow_type (Type.Union (from_vec [Type.Class ''Child'', Type.Class ''Other'', Type.NoneType]))
      (Type.Class ''Base'') False (hierarchy_of sample_catalog) =
      Some (Type.Union (from_vec [Type.Class ''Other'', Type.NoneType]))"
    by code_simp
  from narrowing_results [OF this] show ?thesis by (simp only: if_False)
qed

text \<open>
  Property C34. Casting is assignability, except that a union is never cast
  to the tuple of unknown length over \<open>object\<close>, although it is assignable to it when every
  alternative is a tuple.
\<close>

theorem cast_is_assignability:
  "cast_compatible actual expected (hierarchy_of cs) \<longleftrightarrow>
     is_assignable actual expected (hierarchy_of cs) \<and>
     \<not> (is_union actual \<and> expected = Type.VariadicTuple Type.Object)"
proof (cases "expected = Type.VariadicTuple Type.Object")
  case True
  then show ?thesis
    by (cases actual)
       (auto simp: cast_compatible_def is_assignable_def is_union_def
          is_assignable_in_valid_hierarchy.simps [of _ "Type.VariadicTuple Type.Object"] assign_list_forms)
next
  case False
  then show ?thesis
    by (cases expected) (auto simp: cast_compatible_def is_assignable_def)
qed

end
