(* ===== verification/Obligation_Kernel.thy ===== *)
theory Obligation_Kernel
  imports Prelude
begin

text \<open>
  The transition decisions of the linear obligation ledger,
  \<^verbatim>\<open>src/src/obligation_kernel.rs\<close>: which measures satisfy which requirements, and when a
  resolved obligation slot may be produced, consumed, closed or carried round a loop. Measures
  are \<open>i64\<close> values that are only compared, so they are modelled as \<open>int\<close>.
\<close>

datatype Measure =
    Known int
  | Unknown string
  | Unbounded

datatype ProduceDecision = Produce | Collision

datatype ConsumePolicy =
    AnySufficient
  | PositiveCountdownTransfer
  | UnboundedRequiresUnboundedOwner

datatype ConsumeDecision = Consume | Insufficient

datatype CloseDecision = Closed | ReportLeak | LeakAlreadyReported

definition measure_satisfies :: "Measure \<Rightarrow> Measure \<Rightarrow> bool" where
  "measure_satisfies owned required =
     (case (owned, required) of
        (Known owned, Known required) \<Rightarrow> owned \<ge> required
      | (Unknown owned, Unknown required) \<Rightarrow> owned = required
      | (Unbounded, Unbounded) \<Rightarrow> True
      | (Unbounded, Known _) \<Rightarrow> True
      | _ \<Rightarrow> False)"

definition decide_produce :: "bool \<Rightarrow> ProduceDecision" where
  "decide_produce slot_occupied = (if slot_occupied then Collision else Produce)"

definition decide_consume ::
  "Measure option \<Rightarrow> Measure \<Rightarrow> bool \<Rightarrow> ConsumePolicy \<Rightarrow> ConsumeDecision" where
  "decide_consume owned required owner_is_bounded policy =
     (case owned of
        None \<Rightarrow> Insufficient
      | Some owned \<Rightarrow>
          (let positive_countdown_transfer =
                 policy = PositiveCountdownTransfer \<and>
                 (case (owned, required) of
                    (Known owned, Known required) \<Rightarrow> owned > 0 \<and> required > 0
                  | _ \<Rightarrow> False)
           in if \<not> positive_countdown_transfer \<and> \<not> measure_satisfies owned required
              then Insufficient
              else if policy = UnboundedRequiresUnboundedOwner \<and> required = Unbounded \<and> owner_is_bounded
              then Insufficient
              else Consume))"

definition decide_close :: "bool \<Rightarrow> bool \<Rightarrow> CloseDecision" where
  "decide_close has_pending boundary_leak_reported =
     (case (has_pending, boundary_leak_reported) of
        (False, _) \<Rightarrow> Closed
      | (True, False) \<Rightarrow> ReportLeak
      | (True, True) \<Rightarrow> LeakAlreadyReported)"

definition preserves_loop_invariant :: "Measure option \<Rightarrow> Measure \<Rightarrow> bool" where
  "preserves_loop_invariant owned invariant =
     (case (owned, invariant) of
        (Some Unbounded, Unbounded) \<Rightarrow> True
      | (Some Unbounded, Known _) \<Rightarrow> True
      | (Some (Known owned), Known required) \<Rightarrow> owned = required
      | (Some (Unknown owned), Unknown required) \<Rightarrow> owned = required
      | _ \<Rightarrow> False)"

section \<open>The satisfaction order\<close>

lemma measure_satisfies_simps [simp]:
  "measure_satisfies (Known i) (Known j) \<longleftrightarrow> j \<le> i"
  "measure_satisfies (Unknown a) (Unknown b) \<longleftrightarrow> a = b"
  "measure_satisfies Unbounded r \<longleftrightarrow> (\<forall>a. r \<noteq> Unknown a)"
  "measure_satisfies m Unbounded \<longleftrightarrow> m = Unbounded"
  "\<not> measure_satisfies (Known i) (Unknown b)"
  "\<not> measure_satisfies (Unknown a) (Known j)"
  by (auto simp: measure_satisfies_def split: Measure.splits)

lemma measure_satisfies_refl [simp]: "measure_satisfies m m"
  by (cases m) auto

lemma measure_satisfies_trans: "measure_satisfies a b \<Longrightarrow> measure_satisfies b c \<Longrightarrow> measure_satisfies a c"
  by (cases a; cases b; cases c) auto

lemma measure_satisfies_antisym: "measure_satisfies a b \<Longrightarrow> measure_satisfies b a \<Longrightarrow> a = b"
  by (cases a; cases b) auto

lemma preserves_loop_invariant_simps [simp]:
  "preserves_loop_invariant None i = False"
  "preserves_loop_invariant (Some Unbounded) i \<longleftrightarrow> (\<forall>a. i \<noteq> Unknown a)"
  "preserves_loop_invariant (Some (Known n)) i \<longleftrightarrow> i = Known n"
  "preserves_loop_invariant (Some (Unknown a)) i \<longleftrightarrow> i = Unknown a"
  by (auto simp: preserves_loop_invariant_def split: Measure.splits)

lemma loop_invariant_satisfies:
  "preserves_loop_invariant (Some m) i \<Longrightarrow> measure_satisfies m i"
  by (cases m) auto

section \<open>Consumption\<close>

lemma decide_consume_None [simp]: "decide_consume None r b p = Insufficient"
  by (simp add: decide_consume_def)

lemma decide_consume_Consume_iff:
  "decide_consume owned r b p = Consume \<longleftrightarrow>
     (\<exists>m. owned = Some m \<and>
        (measure_satisfies m r \<or>
         (p = PositiveCountdownTransfer \<and> (\<exists>i j. m = Known i \<and> r = Known j \<and> 0 < i \<and> 0 < j))) \<and>
        \<not> (p = UnboundedRequiresUnboundedOwner \<and> r = Unbounded \<and> b))"
  by (auto simp: decide_consume_def Let_def split: option.splits Measure.splits)

text \<open>
  Satisfaction of measures is a partial order whose only
  comparable pairs are the numeric ones and those below an unbounded measure; unknown measures
  satisfy nothing but themselves.
\<close>

theorem measures_form_an_order:
  "measure_satisfies m m \<and>
   (measure_satisfies m n \<and> measure_satisfies n k \<longrightarrow> measure_satisfies m k) \<and>
   (measure_satisfies m n \<and> measure_satisfies n m \<longrightarrow> m = n) \<and>
   (measure_satisfies m n \<longleftrightarrow>
      m = n \<or> (\<exists>j. n = Known j \<and> (m = Unbounded \<or> (\<exists>i. m = Known i \<and> j \<le> i))))"
proof (intro conjI)
  show "measure_satisfies m n \<and> measure_satisfies n k \<longrightarrow> measure_satisfies m k"
    using measure_satisfies_trans by blast
  show "measure_satisfies m n \<and> measure_satisfies n m \<longrightarrow> m = n"
    using measure_satisfies_antisym by blast
  show "measure_satisfies m n \<longleftrightarrow>
      m = n \<or> (\<exists>j. n = Known j \<and> (m = Unbounded \<or> (\<exists>i. m = Known i \<and> j \<le> i)))"
    by (cases m; cases n) auto
qed simp

theorem measures_form_an_order_witness: "measure_satisfies Unbounded (Known 3)"
  using measures_form_an_order [of Unbounded "Known 7" "Known 3"] by simp

text \<open>
  Consumption is monotone in ownership: owning a measure that
  satisfies the owned one, for the same or an unbounded owner, never loses a consumption.
\<close>

theorem consume_monotone:
  assumes "decide_consume (Some m) required owner_is_bounded policy = Consume"
    and "measure_satisfies m' m" and "owner_is_bounded' \<longrightarrow> owner_is_bounded"
  shows "decide_consume (Some m') required owner_is_bounded' policy = Consume"
  using assms unfolding decide_consume_Consume_iff
  by (cases m; cases m'; cases required) auto

theorem consume_monotone_witness:
  "decide_consume (Some Unbounded) (Known 2) False PositiveCountdownTransfer = Consume"
  by (rule consume_monotone [of "Known 5" "Known 2" True]) code_simp+

text \<open>
  A path that preserves a loop invariant still owns
  an obligation that any policy consumes at the invariant's measure (an unbounded one needs an
  unbounded owner under the strict policy): a preserved invariant can always be discharged.
\<close>

theorem loop_invariant_refines_consumption:
  assumes "preserves_loop_invariant owned invariant"
  shows "decide_consume owned invariant False policy = Consume"
  using assms unfolding decide_consume_Consume_iff
  by (cases owned) (auto dest: loop_invariant_satisfies)

theorem loop_invariant_refines_consumption_witness:
  "decide_consume (Some (Known 4)) (Known 4) False AnySufficient = Consume"
  by (rule loop_invariant_refines_consumption) code_simp

end
