(* ===== verification/BTree_Map.thy ===== *)
theory BTree_Map
  imports Prelude "HOL-Library.Finite_Map" "HOL-Library.List_Lexorder" "HOL-Library.Char_ord"
begin

text \<open>
  Rust's ordered maps as finite maps: \<^verbatim>\<open>insert\<close>, \<^verbatim>\<open>remove\<close> and \<^verbatim>\<open>get\<close> are \<open>fmupd\<close>, \<open>fmdrop\<close>
  and \<open>fmlookup\<close>; iteration visits the entries in key order (\<open>sorted_list_of_fmap\<close>), and
  collecting an iterator of pairs inserts them one after the other, so a later pair wins.
  Strings are ordered lexicographically.
\<close>

definition btree_of_list :: "('k \<times> 'v) list \<Rightarrow> ('k, 'v) fmap" where
  "btree_of_list kvs = foldl (\<lambda>m (k, v). fmupd k v m) fmempty kvs"

definition btree_values :: "('k::linorder, 'v) fmap \<Rightarrow> 'v list" where
  "btree_values m = map snd (sorted_list_of_fmap m)"

definition contains_key :: "('k, 'v) fmap \<Rightarrow> 'k \<Rightarrow> bool" where
  "contains_key m k = (fmlookup m k \<noteq> None)"

lemma btree_foldl_lookup:
  "fmlookup (foldl (\<lambda>m (k, v). fmupd k v m) m kvs) k =
     (case map_of (rev kvs) k of None \<Rightarrow> fmlookup m k | Some v \<Rightarrow> Some v)"
proof (induction kvs arbitrary: m)
  case Nil
  then show ?case by simp
next
  case (Cons kv kvs)
  then show ?case
    by (cases kv) (auto simp: map_add_def split: option.splits)
qed

lemma btree_of_list_lookup: "fmlookup (btree_of_list kvs) k = map_of (rev kvs) k"
  by (simp add: btree_of_list_def btree_foldl_lookup split: option.splits)

lemma btree_of_list_lookup_distinct:
  assumes "distinct (map fst kvs)"
  shows "fmlookup (btree_of_list kvs) k = map_of kvs k"
proof -
  have "map_of (rev kvs) k = Some v \<longleftrightarrow> map_of kvs k = Some v" for v
    using assms by (simp add: map_of_eq_Some_iff rev_map [symmetric])
  then show ?thesis by (metis btree_of_list_lookup not_None_eq)
qed

lemma distinct_sorted_list_of_fmap [simp]: "distinct (map fst (sorted_list_of_fmap m))"
  unfolding sorted_list_of_fmap_def
  by (simp add: comp_def sorted_list_of_fset.rep_eq)

lemma set_sorted_list_of_fmap: "(k, v) \<in> set (sorted_list_of_fmap m) \<longleftrightarrow> fmlookup m k = Some v"
  using map_of_eq_Some_iff [OF distinct_sorted_list_of_fmap, of m k v] by (simp add: eq_commute)

lemma set_btree_values: "v \<in> set (btree_values m) \<longleftrightarrow> (\<exists>k. fmlookup m k = Some v)"
  unfolding btree_values_def set_map image_iff
  by (metis prod.collapse set_sorted_list_of_fmap snd_conv)

end
