(* ===== verification/Obligation_Levels.thy ===== *)
theory Obligation_Levels
  imports BTree_Map
begin

text \<open>
  Wait levels and lock order of Python obligations, \<^verbatim>\<open>src/src/python_obligation_levels.rs\<close>, and
  the canonical provider its intrinsics come from, \<^verbatim>\<open>src/src/python_verifier_intrinsics.rs\<close>.
  The state is a set of explicit evidence; a relation holds only when that very relation was
  asserted. \<open>LevelState\<close> is threaded explicitly, and \<open>run_level_ops\<close> runs a sequence of the
  mutating operations.
\<close>

section \<open>The canonical provider\<close>

datatype VerifierIntrinsicKind = Level | WaitLevel | MustRelease | MustTerminate

datatype VerifierIntrinsicType =
    Bool
  | Int
  | Level
  | Nominal string
  | Optional VerifierIntrinsicType
  | Union "VerifierIntrinsicType list"

record VerifierIntrinsicParameter =
  param_name :: string
  param_value_type :: VerifierIntrinsicType
  param_has_default :: bool

record VerifierIntrinsicFunctionDescriptor =
  desc_kind :: VerifierIntrinsicKind
  desc_public_name :: string
  desc_canonical_identity :: string
  desc_parameters :: "VerifierIntrinsicParameter list"
  desc_result :: VerifierIntrinsicType

record VerifierIntrinsicMethodDescriptor =
  method_public_name :: string
  method_canonical_identity :: string
  method_parameters :: "VerifierIntrinsicParameter list"
  method_result :: VerifierIntrinsicType

record VerifierIntrinsicClassDescriptor =
  class_public_name :: string
  class_canonical_identity :: string
  class_methods :: "(string, VerifierIntrinsicMethodDescriptor) fmap"

record VerifierIntrinsicProvider =
  provider_module :: string
  provider_public_exports :: "string set"
  provider_classes :: "(string, VerifierIntrinsicClassDescriptor) fmap"
  provider_functions :: "(string, VerifierIntrinsicFunctionDescriptor) fmap"

definition CANONICAL_OBLIGATIONS_MODULE :: string where
  "CANONICAL_OBLIGATIONS_MODULE = ''nagini_contracts.obligations''"

definition in_obligations_module :: "string \<Rightarrow> string" where
  "in_obligations_module name = CANONICAL_OBLIGATIONS_MODULE @ ''.'' @ name"

definition provider_function ::
  "VerifierIntrinsicKind \<Rightarrow> string \<Rightarrow> VerifierIntrinsicParameter list \<Rightarrow> VerifierIntrinsicType \<Rightarrow>
     string \<times> VerifierIntrinsicFunctionDescriptor" where
  "provider_function kind name parameters result =
     (name,
      \<lparr> desc_kind = kind, desc_public_name = name,
        desc_canonical_identity = in_obligations_module name,
        desc_parameters = parameters, desc_result = result \<rparr>)"

definition provider_parameter ::
  "string \<Rightarrow> VerifierIntrinsicType \<Rightarrow> bool \<Rightarrow> VerifierIntrinsicParameter" where
  "provider_parameter name value_type has_default =
     \<lparr> param_name = name, param_value_type = value_type, param_has_default = has_default \<rparr>"

definition nominal :: "string \<Rightarrow> VerifierIntrinsicType" where
  "nominal name = VerifierIntrinsicType.Nominal (in_obligations_module name)"

definition build_functions :: "(string \<times> VerifierIntrinsicFunctionDescriptor) list" where
  "build_functions =
     [provider_function VerifierIntrinsicKind.WaitLevel ''WaitLevel'' [] VerifierIntrinsicType.Level,
      provider_function VerifierIntrinsicKind.Level ''Level''
        [provider_parameter ''l''
           (VerifierIntrinsicType.Union
              [nominal ''BaseLock'', VerifierIntrinsicType.Nominal ''nagini_contracts.thread.Thread''])
           False]
        VerifierIntrinsicType.Level,
      provider_function VerifierIntrinsicKind.MustRelease ''MustRelease''
        [provider_parameter ''lock'' (nominal ''BaseLock'') False,
         provider_parameter ''measure'' (VerifierIntrinsicType.Optional VerifierIntrinsicType.Int) True]
        VerifierIntrinsicType.Bool,
      provider_function VerifierIntrinsicKind.MustTerminate ''MustTerminate''
        [provider_parameter ''measure'' VerifierIntrinsicType.Int False]
        VerifierIntrinsicType.Bool]"

definition build_provider :: "VerifierIntrinsicMethodDescriptor \<Rightarrow> VerifierIntrinsicProvider" where
  "build_provider level_method =
     \<lparr> provider_module = CANONICAL_OBLIGATIONS_MODULE,
       provider_public_exports = {''MustRelease'', ''MustTerminate'', ''LevelType'', ''WaitLevel'', ''Level''},
       provider_classes = btree_of_list
         [(''BaseLock'',
           \<lparr> class_public_name = ''BaseLock'', class_canonical_identity = in_obligations_module ''BaseLock'',
             class_methods = fmempty \<rparr>),
          (''LevelType'',
           \<lparr> class_public_name = ''LevelType'', class_canonical_identity = in_obligations_module ''LevelType'',
             class_methods = btree_of_list [(''__lt__'', level_method)] \<rparr>)],
       provider_functions = btree_of_list build_functions \<rparr>"

section \<open>Certification of the level intrinsics\<close>

record CertifiedLevelIntrinsics =
  cert_level :: VerifierIntrinsicFunctionDescriptor
  cert_wait_level :: VerifierIntrinsicFunctionDescriptor

datatype LevelIntrinsicCertificationFailure =
    WrongProviderModule
  | MissingLevel
  | MissingWaitLevel
  | InvalidLevelDescriptor
  | InvalidWaitLevelDescriptor

datatype LevelIntrinsicEventKind = Level | WaitLevel

record CertifiedLevelIntrinsicEvent =
  event_descriptor :: VerifierIntrinsicFunctionDescriptor
  event_kind :: LevelIntrinsicEventKind

definition descriptor_by_kind ::
  "VerifierIntrinsicProvider \<Rightarrow> VerifierIntrinsicKind \<Rightarrow> VerifierIntrinsicFunctionDescriptor option" where
  "descriptor_by_kind provider kind =
     (case filter (\<lambda>descriptor. desc_kind descriptor = kind) (btree_values (provider_functions provider)) of
        [] \<Rightarrow> None
      | descriptor # matching \<Rightarrow> if matching = [] then Some descriptor else None)"

definition valid_level_descriptor :: "VerifierIntrinsicFunctionDescriptor \<Rightarrow> bool" where
  "valid_level_descriptor descriptor \<longleftrightarrow>
     desc_kind descriptor = VerifierIntrinsicKind.Level \<and>
     desc_canonical_identity descriptor = in_obligations_module ''Level'' \<and>
     length (desc_parameters descriptor) = 1 \<and>
     desc_result descriptor = VerifierIntrinsicType.Level"

definition valid_wait_level_descriptor :: "VerifierIntrinsicFunctionDescriptor \<Rightarrow> bool" where
  "valid_wait_level_descriptor descriptor \<longleftrightarrow>
     desc_kind descriptor = VerifierIntrinsicKind.WaitLevel \<and>
     desc_canonical_identity descriptor = in_obligations_module ''WaitLevel'' \<and>
     desc_parameters descriptor = [] \<and>
     desc_result descriptor = VerifierIntrinsicType.Level"

definition from_validated_provider ::
  "VerifierIntrinsicProvider \<Rightarrow> (LevelIntrinsicCertificationFailure, CertifiedLevelIntrinsics) result" where
  "from_validated_provider provider =
     (if provider_module provider \<noteq> CANONICAL_OBLIGATIONS_MODULE then Err WrongProviderModule
      else case descriptor_by_kind provider VerifierIntrinsicKind.Level of
        None \<Rightarrow> Err MissingLevel
      | Some level \<Rightarrow>
          (case descriptor_by_kind provider VerifierIntrinsicKind.WaitLevel of
             None \<Rightarrow> Err MissingWaitLevel
           | Some wait_level \<Rightarrow>
               if \<not> valid_level_descriptor level then Err InvalidLevelDescriptor
               else if \<not> valid_wait_level_descriptor wait_level then Err InvalidWaitLevelDescriptor
               else Ok \<lparr> cert_level = level, cert_wait_level = wait_level \<rparr>))"

definition classify_resolved_descriptor ::
  "CertifiedLevelIntrinsics \<Rightarrow> VerifierIntrinsicFunctionDescriptor \<Rightarrow> CertifiedLevelIntrinsicEvent option" where
  "classify_resolved_descriptor certified descriptor =
     (if descriptor = cert_level certified
      then Some \<lparr> event_descriptor = descriptor, event_kind = LevelIntrinsicEventKind.Level \<rparr>
      else if descriptor = cert_wait_level certified
      then Some \<lparr> event_descriptor = descriptor, event_kind = LevelIntrinsicEventKind.WaitLevel \<rparr>
      else None)"

record ResolvedLevelIntrinsicBindings =
  by_local_name :: "(string, CertifiedLevelIntrinsicEvent) fmap"

definition from_resolver_descriptors ::
  "CertifiedLevelIntrinsics \<Rightarrow> (string, VerifierIntrinsicFunctionDescriptor) fmap \<Rightarrow>
     ResolvedLevelIntrinsicBindings" where
  "from_resolver_descriptors certified descriptors =
     \<lparr> by_local_name = btree_of_list
         (List.map_filter
           (\<lambda>(local_name, descriptor).
              map_option (\<lambda>event. (local_name, event)) (classify_resolved_descriptor certified descriptor))
           (sorted_list_of_fmap descriptors)) \<rparr>"

definition event :: "ResolvedLevelIntrinsicBindings \<Rightarrow> string \<Rightarrow> CertifiedLevelIntrinsicEvent option" where
  "event bindings local_name = fmlookup (by_local_name bindings) local_name"

definition remove_local_binding ::
  "ResolvedLevelIntrinsicBindings \<Rightarrow> string \<Rightarrow> ResolvedLevelIntrinsicBindings" where
  "remove_local_binding bindings local_name =
     bindings \<lparr> by_local_name := fmdrop local_name (by_local_name bindings) \<rparr>"

section \<open>The level state\<close>

record LevelIdentity =
  stable_key :: string

datatype LowerLevel = Ambient | Object LevelIdentity

record LevelOrderEvidence =
  evidence_lower :: LowerLevel
  evidence_upper :: LevelIdentity

datatype LevelRequirementContext =
    FunctionPrecondition
  | FunctionPostcondition
  | LoopInvariantEntry
  | LoopInvariantPreservation
  | CallPrecondition
  | LockAcquire
  | StableObjectOrder

datatype LevelRequirementFailure =
  MissingOrderEvidence LevelRequirementContext LevelIdentity

datatype LevelRequirementDecision =
    Satisfied
  | Failed LevelRequirementFailure

record LevelState =
  level_evidence :: "LevelOrderEvidence set"

definition level_state_default :: LevelState where
  "level_state_default = \<lparr> level_evidence = {} \<rparr>"

definition certify_resolved_object :: "string \<Rightarrow> LevelIdentity" where
  "certify_resolved_object key = \<lparr> stable_key = key \<rparr>"

definition current_lower :: "LevelState \<Rightarrow> LowerLevel" where
  "current_lower self = Ambient"

definition assert_current_below :: "LevelIdentity \<Rightarrow> LevelState \<Rightarrow> LevelOrderEvidence \<times> LevelState" where
  "assert_current_below target self =
     (let evidence = \<lparr> evidence_lower = current_lower self, evidence_upper = target \<rparr>
      in (evidence, self \<lparr> level_evidence := insert evidence (level_evidence self) \<rparr>))"

definition assert_object_below ::
  "LevelIdentity \<Rightarrow> LevelIdentity \<Rightarrow> LevelState \<Rightarrow> LevelOrderEvidence \<times> LevelState" where
  "assert_object_below lower upper self =
     (let evidence = \<lparr> evidence_lower = Object lower, evidence_upper = upper \<rparr>
      in (evidence, self \<lparr> level_evidence := insert evidence (level_evidence self) \<rparr>))"

definition require_current_below ::
  "LevelIdentity \<Rightarrow> LevelRequirementContext \<Rightarrow> LevelState \<Rightarrow> LevelRequirementDecision" where
  "require_current_below target context self =
     (let required = \<lparr> evidence_lower = current_lower self, evidence_upper = target \<rparr>
      in if required \<in> level_evidence self then Satisfied
         else Failed (MissingOrderEvidence context target))"

definition acquire :: "LevelIdentity \<Rightarrow> LevelState \<Rightarrow> LevelRequirementDecision" where
  "acquire target self = require_current_below target LockAcquire self"

definition require_object_below ::
  "LevelIdentity \<Rightarrow> LevelIdentity \<Rightarrow> LevelState \<Rightarrow> LevelRequirementDecision" where
  "require_object_below lower upper self =
     (let required = \<lparr> evidence_lower = Object lower, evidence_upper = upper \<rparr>
      in if required \<in> level_evidence self then Satisfied
         else Failed (MissingOrderEvidence StableObjectOrder upper))"

definition import_evidence :: "LevelOrderEvidence \<Rightarrow> LevelState \<Rightarrow> LevelState" where
  "import_evidence evidence self = self \<lparr> level_evidence := insert evidence (level_evidence self) \<rparr>"

definition has_order_evidence :: "LevelState \<Rightarrow> bool" where
  "has_order_evidence self \<longleftrightarrow> level_evidence self \<noteq> {}"

definition forget_identity :: "LevelIdentity \<Rightarrow> LevelState \<Rightarrow> LevelState" where
  "forget_identity target self =
     self \<lparr> level_evidence := Set.filter
       (\<lambda>evidence. evidence_upper evidence \<noteq> target \<and>
          \<not> (case evidence_lower evidence of Object lower \<Rightarrow> lower = target | Ambient \<Rightarrow> False))
       (level_evidence self) \<rparr>"

section \<open>Certification is exact\<close>

lemma descriptor_by_kind_iff:
  "descriptor_by_kind provider kind = Some d \<longleftrightarrow>
     filter (\<lambda>d. desc_kind d = kind) (btree_values (provider_functions provider)) = [d]"
  by (auto simp: descriptor_by_kind_def split: list.splits)

lemma map_of_map_filter:
  "distinct (map fst kvs) \<Longrightarrow>
     map_of (List.map_filter (\<lambda>(k, v). map_option (Pair k) (f v)) kvs) k = Option.bind (map_of kvs k) f"
proof (induction kvs)
  case Nil
  then show ?case by (simp add: map_filter_simps)
next
  case (Cons kv kvs)
  obtain k' v where kv: "kv = (k', v)" by fastforce
  have "k' \<notin> dom (map_of kvs)" using Cons.prems kv by (simp add: dom_map_of_conv_image_fst)
  then have "map_of kvs k' = None" by blast
  with Cons kv show ?case by (cases "f v") (auto simp: map_filter_simps)
qed

lemma distinct_map_filter_keys:
  "distinct (map fst kvs) \<Longrightarrow>
     distinct (map fst (List.map_filter (\<lambda>(k, v). map_option (Pair k) (f v)) kvs))"
proof (induction kvs)
  case Nil
  then show ?case by (simp add: map_filter_simps)
next
  case (Cons kv kvs)
  have "fst ` set (List.map_filter (\<lambda>(k, v). map_option (Pair k) (f v)) kvs) \<subseteq> fst ` set kvs" for kvs :: "('a \<times> 'b) list"
    by (force simp: List.map_filter_def)
  with Cons show ?case by (cases kv; cases "f (snd kv)") (auto simp: map_filter_simps)
qed

lemma event_from_resolver_descriptors:
  "event (from_resolver_descriptors certified descriptors) name =
     Option.bind (fmlookup descriptors name) (classify_resolved_descriptor certified)"
  by (simp add: event_def from_resolver_descriptors_def btree_of_list_lookup_distinct
      distinct_map_filter_keys map_of_map_filter)

lemma event_remove_local_binding:
  "event (remove_local_binding bindings name) name' =
     (if name' = name then None else event bindings name')"
  by (simp add: event_def remove_local_binding_def)

text \<open>
  Property C32. Local names alone never create a level event:
  in the bindings of any certified provider, a name has an event exactly when the resolver gave it
  the provider's own \<open>Level\<close> or \<open>WaitLevel\<close> descriptor, with that kind.
\<close>

theorem level_events_need_certified_descriptors:
  assumes "from_validated_provider provider = Ok certified"
  shows "event (from_resolver_descriptors certified descriptors) name = Some e \<longleftrightarrow>
      (\<exists>d. fmlookup descriptors name = Some d \<and> event_descriptor e = d \<and>
         ((event_kind e = LevelIntrinsicEventKind.Level \<and>
             descriptor_by_kind provider VerifierIntrinsicKind.Level = Some d \<and>
             desc_canonical_identity d = in_obligations_module ''Level'') \<or>
          (event_kind e = LevelIntrinsicEventKind.WaitLevel \<and>
             descriptor_by_kind provider VerifierIntrinsicKind.WaitLevel = Some d \<and>
             desc_canonical_identity d = in_obligations_module ''WaitLevel'')))"
proof -
  from assms have certified:
    "descriptor_by_kind provider VerifierIntrinsicKind.Level = Some (cert_level certified)"
    "descriptor_by_kind provider VerifierIntrinsicKind.WaitLevel = Some (cert_wait_level certified)"
    "valid_level_descriptor (cert_level certified)" "valid_wait_level_descriptor (cert_wait_level certified)"
    by (auto simp: from_validated_provider_def split: if_splits option.splits)
  then have "cert_level certified \<noteq> cert_wait_level certified"
    by (auto simp: valid_level_descriptor_def valid_wait_level_descriptor_def)
  with certified show ?thesis
    by (cases e; cases "fmlookup descriptors name")
       (auto simp: event_from_resolver_descriptors classify_resolved_descriptor_def
          valid_level_descriptor_def valid_wait_level_descriptor_def)
qed

definition level_method_descriptor :: VerifierIntrinsicMethodDescriptor where
  "level_method_descriptor =
     \<lparr> method_public_name = ''__lt__'', method_canonical_identity = in_obligations_module ''LevelType.__lt__'',
       method_parameters = [], method_result = VerifierIntrinsicType.Bool \<rparr>"

lemma build_provider_certifies:
  "from_validated_provider (build_provider method) =
     Ok \<lparr> cert_level = snd (build_functions ! 1), cert_wait_level = snd (build_functions ! 0) \<rparr>"
proof -
  have "descriptor_by_kind (build_provider method) VerifierIntrinsicKind.Level = Some (snd (build_functions ! 1))"
    "descriptor_by_kind (build_provider method) VerifierIntrinsicKind.WaitLevel = Some (snd (build_functions ! 0))"
    unfolding descriptor_by_kind_def build_provider_def VerifierIntrinsicProvider.simps by code_simp+
  moreover have "valid_level_descriptor (snd (build_functions ! 1))"
    "valid_wait_level_descriptor (snd (build_functions ! 0))"
    by code_simp+
  moreover have "provider_module (build_provider method) = CANONICAL_OBLIGATIONS_MODULE"
    by (simp add: build_provider_def)
  ultimately show ?thesis by (simp add: from_validated_provider_def)
qed

theorem level_events_need_certified_descriptors_witness:
  "event (from_resolver_descriptors
      \<lparr> cert_level = snd (build_functions ! 1), cert_wait_level = snd (build_functions ! 0) \<rparr>
      (btree_of_list [(''alias'', snd (build_functions ! 0)), (''other'', snd (build_functions ! 2))]))
     ''alias'' =
   Some \<lparr> event_descriptor = snd (build_functions ! 0), event_kind = LevelIntrinsicEventKind.WaitLevel \<rparr>"
proof -
  have "fmlookup (btree_of_list [(''alias'', snd (build_functions ! 0)), (''other'', snd (build_functions ! 2))])
      ''alias'' = Some (snd (build_functions ! 0))"
    by (simp add: btree_of_list_def)
  moreover have "descriptor_by_kind (build_provider level_method_descriptor) VerifierIntrinsicKind.WaitLevel =
      Some (snd (build_functions ! 0))"
    using build_provider_certifies [of level_method_descriptor]
    by (auto simp: from_validated_provider_def split: if_splits option.splits)
  moreover have "desc_canonical_identity (snd (build_functions ! 0)) = in_obligations_module ''WaitLevel''"
    by code_simp
  ultimately show ?thesis
    by (subst level_events_need_certified_descriptors
        [OF build_provider_certifies [of level_method_descriptor]]) simp
qed

section \<open>Histories of the level state\<close>

datatype LevelOp =
    AssertCurrentBelow LevelIdentity
  | AssertObjectBelow LevelIdentity LevelIdentity
  | ImportEvidence LevelOrderEvidence
  | ForgetIdentity LevelIdentity

fun run_level_op :: "LevelState \<Rightarrow> LevelOp \<Rightarrow> LevelState" where
  "run_level_op self (AssertCurrentBelow target) = snd (assert_current_below target self)"
| "run_level_op self (AssertObjectBelow lower upper) = snd (assert_object_below lower upper self)"
| "run_level_op self (ImportEvidence evidence) = import_evidence evidence self"
| "run_level_op self (ForgetIdentity target) = forget_identity target self"

definition run_level_ops :: "LevelOp list \<Rightarrow> LevelState" where
  "run_level_ops ops = foldl run_level_op level_state_default ops"

text \<open>The one relation an operation states, and the relations that mention a forgotten identity.\<close>

fun states_relation :: "LevelOp \<Rightarrow> LevelOrderEvidence option" where
  "states_relation (AssertCurrentBelow target) = Some \<lparr> evidence_lower = Ambient, evidence_upper = target \<rparr>"
| "states_relation (AssertObjectBelow lower upper) = Some \<lparr> evidence_lower = Object lower, evidence_upper = upper \<rparr>"
| "states_relation (ImportEvidence evidence) = Some evidence"
| "states_relation (ForgetIdentity target) = None"

fun forgets :: "LevelOp \<Rightarrow> LevelOrderEvidence \<Rightarrow> bool" where
  "forgets (ForgetIdentity target) e \<longleftrightarrow> evidence_upper e = target \<or> evidence_lower e = Object target"
| "forgets _ e \<longleftrightarrow> False"

text \<open>A relation is justified by a history that states it and forgets neither end of it since.\<close>

definition justified :: "LevelOp list \<Rightarrow> LevelOrderEvidence \<Rightarrow> bool" where
  "justified ops e \<longleftrightarrow>
     (\<exists>pre op post. ops = pre @ op # post \<and> states_relation op = Some e \<and> (\<forall>o' \<in> set post. \<not> forgets o' e))"

lemma run_level_op_evidence:
  "e \<in> level_evidence (run_level_op s op) \<longleftrightarrow>
     states_relation op = Some e \<or> (e \<in> level_evidence s \<and> \<not> forgets op e)"
  by (cases op)
     (auto simp: assert_current_below_def assert_object_below_def import_evidence_def
        forget_identity_def current_lower_def Let_def split: LowerLevel.splits)

lemma justified_snoc:
  "justified (ops @ [op]) e \<longleftrightarrow> states_relation op = Some e \<or> (justified ops e \<and> \<not> forgets op e)"
proof
  assume "justified (ops @ [op]) e"
  then obtain pre p post where *: "ops @ [op] = pre @ p # post" "states_relation p = Some e"
    "\<forall>o' \<in> set post. \<not> forgets o' e"
    unfolding justified_def by blast
  show "states_relation op = Some e \<or> (justified ops e \<and> \<not> forgets op e)"
  proof (cases post rule: rev_cases)
    case Nil
    with * show ?thesis by simp
  next
    case (snoc post' last)
    with * show ?thesis by (auto simp: justified_def)
  qed
next
  assume "states_relation op = Some e \<or> (justified ops e \<and> \<not> forgets op e)"
  then show "justified (ops @ [op]) e"
  proof
    assume "states_relation op = Some e"
    then show ?thesis unfolding justified_def by (intro exI [of _ ops] exI [of _ op] exI [of _ "[]"]) simp
  next
    assume "justified ops e \<and> \<not> forgets op e"
    then obtain pre p post where "ops = pre @ p # post" "states_relation p = Some e"
      "\<forall>o' \<in> set post. \<not> forgets o' e" "\<not> forgets op e"
      unfolding justified_def by blast
    then show ?thesis
      unfolding justified_def by (intro exI [of _ pre] exI [of _ p] exI [of _ "post @ [op]"]) auto
  qed
qed

lemma run_level_ops_evidence: "e \<in> level_evidence (run_level_ops ops) \<longleftrightarrow> justified ops e"
proof (induction ops rule: rev_induct)
  case Nil
  then show ?case by (simp add: run_level_ops_def level_state_default_def justified_def)
next
  case (snoc op ops)
  then show ?case
    by (simp add: run_level_ops_def run_level_op_evidence justified_snoc)
qed

text \<open>
  Property C24. After any history of operations a wait-level or object-order
  requirement is satisfied exactly when that very relation was stated and neither endpoint was
  forgotten since; nothing is derived from other relations, and a failure names the target and the
  context.
\<close>

theorem level_requirements_exact:
  "require_current_below target context (run_level_ops ops) =
     (if justified ops \<lparr> evidence_lower = Ambient, evidence_upper = target \<rparr> then Satisfied
      else Failed (MissingOrderEvidence context target)) \<and>
   require_object_below lower target (run_level_ops ops) =
     (if justified ops \<lparr> evidence_lower = Object lower, evidence_upper = target \<rparr> then Satisfied
      else Failed (MissingOrderEvidence StableObjectOrder target))"
  by (simp add: require_current_below_def require_object_below_def current_lower_def Let_def
      run_level_ops_evidence)

end
