(* ===== verification/Python_Syntax.thy ===== *)
theory Python_Syntax
  imports "HOL-Library.Word"
begin

text \<open>
  The Python syntax trees the obligation analyzer of \<^verbatim>\<open>src/src/python_obligation_leaks.rs\<close> walks.
  The trees come from a parser library; the datatypes keep the node kinds and the fields the
  analyzer reads, every other expression or statement is \<open>OtherExpr\<close> or \<open>OtherStmt\<close>. An offset is
  the start of the node's range, where the analyzer reads it. Integer literals are natural numbers:
  a sign is a \<open>USub\<close> node. Debug renderings of nodes are the library's; they are a parameter.
\<close>

datatype BoolOp = And | Or

datatype UnaryOp = USub | OtherUnaryOp

datatype Operator = Add | Sub | Mult | OtherOperator

datatype CmpOp = Eq | NotEq | Lt | LtE | Gt | GtE | Is | OtherCmpOp

datatype Constant =
    Bool bool
  | Int nat
  | Str string
  | OtherConstant

datatype Expr =
    Name string
  | Attribute Expr string
  | Call ExprCall
  | BoolOp BoolOp "Expr list"
  | UnaryOp UnaryOp Expr
  | BinOp Expr Operator Expr
  | Lambda Expr
  | Tuple "Expr list"
  | List "Expr list"
  | Compare Expr "CmpOp list" "Expr list" "32 word"
  | Subscript Expr Expr
  | Constant Constant
  | OtherExpr
and ExprCall =
  ExprCall (call_func: Expr) (call_args: "Expr list") (call_keywords: "Expr list") (call_offset: "32 word")

datatype Stmt =
    FunctionDef StmtFunctionDef
  | ClassDef string "Expr list" "Stmt list"
  | Import
  | ImportFrom "string option" "nat option" "(string \<times> string option) list"
  | Pass
  | Assign "Expr list" Expr "string option" "32 word"
  | AnnAssign Expr Expr "Expr option" "32 word"
  | AugAssign Expr Operator Expr
  | Expr Expr "32 word"
  | If Expr "Stmt list" "Stmt list"
  | While Expr "Stmt list" "Stmt list" "32 word"
  | For "Stmt list" "Stmt list" "32 word"
  | Return
  | Raise "Expr option"
  | Break
  | Continue
  | Try "Stmt list" "ExceptHandler list" "Stmt list" "Stmt list"
  | Assert Expr
  | OtherStmt
and StmtFunctionDef =
  StmtFunctionDef (fn_name: string) (fn_posonlyargs: "(string \<times> Expr option) list")
    (fn_args: "(string \<times> Expr option) list") (fn_kwonlyargs: "(string \<times> Expr option) list")
    (fn_body: "Stmt list") (fn_offset: "32 word")
and ExceptHandler =
  ExceptHandler (handler_type: "Expr option") (handler_body: "Stmt list")

record AstDebug =
  debug_expr :: "Expr \<Rightarrow> string"
  debug_range :: "Stmt \<Rightarrow> string"

end
