(* ===== verification/Obligation_Ledger.thy ===== *)
theory Obligation_Ledger
  imports Obligation_Kernel Obligation_Levels Python_Syntax
begin

text \<open>
  The path-local obligation ledger of \<^verbatim>\<open>src/src/python_obligation_leaks.rs\<close>: pending linear
  obligations per kind and object identity, alias unification, and the transfer of obligations
  at calls. \<open>LedgerState\<close> and the analyzer's diagnostics are threaded explicitly; a
  \<open>ContractFailure\<close> ends the analysis, so the state is lost with it. Of a call expression the
  ledger reads the names and attribute paths, which is what \<open>Expr\<close> keeps of the Python grammar.
\<close>

section \<open>State\<close>

datatype ObligationKind = Invoke | Release

datatype ObligationKey = ObligationKey (key_kind: ObligationKind) (key_identity: string)

text \<open>The derived orders: constructor order, then lexicographic in the fields.\<close>

instantiation ObligationKind :: linorder
begin

definition less_eq_ObligationKind :: "ObligationKind \<Rightarrow> ObligationKind \<Rightarrow> bool" where
  "less_eq_ObligationKind a b \<longleftrightarrow> a = Invoke \<or> b = Release"

definition less_ObligationKind :: "ObligationKind \<Rightarrow> ObligationKind \<Rightarrow> bool" where
  "less_ObligationKind a b \<longleftrightarrow> a = Invoke \<and> b = Release"

instance
proof
  fix x y z :: ObligationKind
  show "(x < y) = (x \<le> y \<and> \<not> y \<le> x)"
    by (cases x; cases y) (auto simp: less_eq_ObligationKind_def less_ObligationKind_def)
  show "x \<le> x" by (cases x) (auto simp: less_eq_ObligationKind_def)
  show "x \<le> y \<Longrightarrow> y \<le> z \<Longrightarrow> x \<le> z"
    by (cases x; cases y; cases z) (auto simp: less_eq_ObligationKind_def)
  show "x \<le> y \<Longrightarrow> y \<le> x \<Longrightarrow> x = y"
    by (cases x; cases y) (auto simp: less_eq_ObligationKind_def)
  show "x \<le> y \<or> y \<le> x"
    by (cases x; cases y) (auto simp: less_eq_ObligationKind_def)
qed

end

instantiation ObligationKey :: linorder
begin

definition less_eq_ObligationKey :: "ObligationKey \<Rightarrow> ObligationKey \<Rightarrow> bool" where
  "less_eq_ObligationKey a b \<longleftrightarrow>
     key_kind a < key_kind b \<or> (key_kind a = key_kind b \<and> key_identity a \<le> key_identity b)"

definition less_ObligationKey :: "ObligationKey \<Rightarrow> ObligationKey \<Rightarrow> bool" where
  "less_ObligationKey a b \<longleftrightarrow>
     key_kind a < key_kind b \<or> (key_kind a = key_kind b \<and> key_identity a < key_identity b)"

instance
proof
  fix x y z :: ObligationKey
  show "(x < y) = (x \<le> y \<and> \<not> y \<le> x)"
    by (auto simp: less_eq_ObligationKey_def less_ObligationKey_def)
  show "x \<le> x" by (simp add: less_eq_ObligationKey_def)
  show "x \<le> y \<Longrightarrow> y \<le> z \<Longrightarrow> x \<le> z" by (auto simp: less_eq_ObligationKey_def)
  show "x \<le> y \<Longrightarrow> y \<le> x \<Longrightarrow> x = y"
    by (cases x; cases y) (auto simp: less_eq_ObligationKey_def)
  show "x \<le> y \<or> y \<le> x" by (auto simp: less_eq_ObligationKey_def)
qed

end

record ObligationSpec =
  spec_kind :: ObligationKind
  spec_root :: string
  spec_fields :: "string list"
  spec_measure :: Measure
  spec_conditional :: bool
  spec_bounded :: bool
  spec_offset :: "32 word"

record LevelSpec =
  level_root :: string
  level_fields :: "string list"
  level_offset :: "32 word"

record FunctionSummary =
  sum_parameters :: "string list"
  sum_lock_parameters :: "string set"
  sum_required :: "ObligationSpec list"
  sum_returned :: "ObligationSpec list"
  sum_required_levels :: "LevelSpec list"
  sum_returned_levels :: "LevelSpec list"
  sum_terminates :: bool
  sum_termination_measure :: "Measure option"
  sum_io_token_transform :: bool
  sum_level_intrinsics :: ResolvedLevelIntrinsicBindings

datatype Flow = Normal | Return | Raise string | Break | Continue | Unreachable

record LedgerState =
  aliases :: "(string, string) fmap"
  pending :: "(ObligationKey, Measure) fmap"
  bounded_identities :: "string set"
  lock_identities :: "string set"
  flow :: Flow
  termination_required :: bool
  boundary_leak_reported :: bool
  levels :: LevelState

record ContractFailure =
  failure_code :: string
  failure_message :: string

datatype DiagnosticKind =
    Caller
  | MethodBody
  | LoopContext
  | LoopBody
  | CallPermission
  | InvariantPermission
  | PostconditionPermission
  | CallLevelOrder
  | InvariantLevelOrder
  | PostconditionLevelOrder

record PendingDiagnostic =
  diag_kind :: DiagnosticKind
  diag_offset :: "32 word"
  diag_owner :: string

record CanonicalBindings =
  primitives :: "string set"
  lock_classes :: "string set"
  lock_fields :: "(string, string set) fmap"
  level_intrinsics :: ResolvedLevelIntrinsicBindings

record Analyzer =
  summaries :: "(string, FunctionSummary) fmap"
  bindings :: CanonicalBindings
  diagnostics :: "PendingDiagnostic set"

definition record_diagnostic ::
  "DiagnosticKind \<Rightarrow> 32 word \<Rightarrow> string \<Rightarrow> Analyzer \<Rightarrow> Analyzer" where
  "record_diagnostic kind offset owner self =
     self \<lparr> diagnostics := insert \<lparr> diag_kind = kind, diag_offset = offset, diag_owner = owner \<rparr>
              (diagnostics self) \<rparr>"

definition obligation_failure :: "string \<Rightarrow> string \<Rightarrow> (ContractFailure, 'a) result" where
  "obligation_failure code message = Err \<lparr> failure_code = code, failure_message = message \<rparr>"

text \<open>Call targets are Python identifiers, whose debug rendering only adds the quotes.\<close>

definition dynamic_call_identity :: "string \<Rightarrow> (ContractFailure, 'a) result" where
  "dynamic_call_identity target =
     obligation_failure ''frontend.python.obligations.dynamic-identity-unsupported''
       (''call target \"'' @ target @ ''\" has no statically closed obligation identity'')"

section \<open>Ledger operations\<close>

definition add_pending :: "ObligationKey \<Rightarrow> Measure \<Rightarrow> LedgerState \<Rightarrow> (ContractFailure, LedgerState) result" where
  "add_pending key owed self =
     (if decide_produce (contains_key (pending self) key) = Collision
      then obligation_failure ''frontend.python.obligations.linear-obligation-collision-unsupported''
             ''two distinct linear obligations cannot occupy the same kind and object identity''
      else Ok (self \<lparr> pending := fmupd key owed (pending self) \<rparr>))"

fun identity_of :: "LedgerState \<Rightarrow> Expr \<Rightarrow> string option" where
  "identity_of self (Name name) = fmlookup (aliases self) name"
| "identity_of self (Attribute expr attr) =
     (case identity_of self expr of
        None \<Rightarrow> None
      | Some identity \<Rightarrow> Some (identity @ ''.'' @ attr))"
| "identity_of self _ = None"

text \<open>The loop that moves the obligations of the right identity; a collision returns early.\<close>

fun move_pending :: "string \<Rightarrow> (ObligationKey \<times> Measure) list \<Rightarrow> LedgerState \<Rightarrow> LedgerState" where
  "move_pending left_identity [] self = self"
| "move_pending left_identity ((old_key, owed) # moved) self =
     (let self = self \<lparr> pending := fmdrop old_key (pending self) \<rparr>;
          new_key = ObligationKey (key_kind old_key) left_identity
      in if contains_key (pending self) new_key
         then self \<lparr> flow := Flow.Unreachable \<rparr>
         else move_pending left_identity moved (self \<lparr> pending := fmupd new_key owed (pending self) \<rparr>))"

definition rename_member :: "string \<Rightarrow> string \<Rightarrow> string set \<Rightarrow> string set" where
  "rename_member old new members =
     (if old \<in> members then insert new (Set.remove old members) else members)"

definition unify_names :: "string \<Rightarrow> string \<Rightarrow> LedgerState \<Rightarrow> LedgerState" where
  "unify_names left right self =
     (case fmlookup (aliases self) left of
        None \<Rightarrow> self
      | Some left_identity \<Rightarrow>
          (case fmlookup (aliases self) right of
             None \<Rightarrow> self
           | Some right_identity \<Rightarrow>
               if left_identity = right_identity then self
               else
                 (let self = self
                        \<lparr> aliases := fmmap (\<lambda>identity. if identity = right_identity then left_identity else identity)
                                       (aliases self),
                          bounded_identities := rename_member right_identity left_identity (bounded_identities self),
                          lock_identities := rename_member right_identity left_identity (lock_identities self) \<rparr>;
                      moved = filter (\<lambda>(key, _). key_identity key = right_identity)
                                (sorted_list_of_fmap (pending self))
                  in move_pending left_identity moved self)))"

section \<open>Instantiating contract identities at a call\<close>

fun position :: "('a \<Rightarrow> bool) \<Rightarrow> 'a list \<Rightarrow> nat option" where
  "position p [] = None"
| "position p (x # xs) = (if p x then Some 0 else map_option Suc (position p xs))"

definition get_at :: "'a list \<Rightarrow> nat \<Rightarrow> 'a option" where
  "get_at xs i = (if i < length xs then Some (xs ! i) else None)"

definition push_fields :: "string \<Rightarrow> string list \<Rightarrow> string" where
  "push_fields identity path = foldl (\<lambda>identity field. identity @ ''.'' @ field) identity path"

definition call_argument :: "FunctionSummary \<Rightarrow> string \<Rightarrow> ExprCall \<Rightarrow> Expr option" where
  "call_argument summary root call =
     (case position (\<lambda>parameter. parameter = root) (sum_parameters summary) of
        None \<Rightarrow> None
      | Some parameter_index \<Rightarrow>
          (case call_func call of
             Attribute receiver attr \<Rightarrow>
               if parameter_index = 0 then Some receiver
               else get_at (call_args call) (parameter_index - 1)
           | Name name \<Rightarrow> get_at (call_args call) parameter_index
           | _ \<Rightarrow> None))"

definition instantiate_call_spec_identity ::
  "ObligationSpec \<Rightarrow> FunctionSummary \<Rightarrow> ExprCall \<Rightarrow> LedgerState \<Rightarrow> string option" where
  "instantiate_call_spec_identity spec summary call state =
     (case call_argument summary (spec_root spec) call of
        None \<Rightarrow> None
      | Some argument \<Rightarrow>
          (case identity_of state argument of
             None \<Rightarrow> None
           | Some identity \<Rightarrow> Some (push_fields identity (spec_fields spec))))"

definition instantiate_call_level_identity ::
  "LevelSpec \<Rightarrow> FunctionSummary \<Rightarrow> ExprCall \<Rightarrow> LedgerState \<Rightarrow> LevelIdentity option" where
  "instantiate_call_level_identity spec summary call state =
     (case call_argument summary (level_root spec) call of
        None \<Rightarrow> None
      | Some argument \<Rightarrow>
          (case identity_of state argument of
             None \<Rightarrow> None
           | Some identity \<Rightarrow>
               Some (certify_resolved_object (push_fields identity (level_fields spec)))))"

section \<open>Calls\<close>

fun split_once :: "char \<Rightarrow> string \<Rightarrow> (string \<times> string) option" where
  "split_once c [] = None"
| "split_once c (x # xs) =
     (if x = c then Some ([], xs)
      else case split_once c xs of None \<Rightarrow> None | Some (before, after) \<Rightarrow> Some (x # before, after))"

definition resolved_call_name :: "ExprCall \<Rightarrow> string \<Rightarrow> (string, FunctionSummary) fmap \<Rightarrow> string option" where
  "resolved_call_name call owner known =
     (case call_func call of
        Name name \<Rightarrow> Some name
      | Attribute (Name receiver) attr \<Rightarrow>
          if receiver = ''self''
          then (case split_once (CHR ''.'') owner of
                  None \<Rightarrow> None
                | Some (cls, _) \<Rightarrow>
                    (let qualified = cls @ ''.'' @ attr
                     in if contains_key known qualified then Some qualified else None))
          else None
      | _ \<Rightarrow> None)"

definition is_runtime_contract_name :: "string \<Rightarrow> string set \<Rightarrow> bool" where
  "is_runtime_contract_name name runtime \<longleftrightarrow>
     name \<in> {''Requires'', ''Ensures'', ''Exsures'', ''Invariant'', ''Assert'', ''Acc'', ''Implies''} \<or>
     name \<in> runtime"

definition pending_identity :: "string \<Rightarrow> LedgerState \<Rightarrow> bool" where
  "pending_identity identity state \<longleftrightarrow>
     (\<exists>key \<in> fset (fmdom (pending state)). key_identity key = identity)"

text \<open>Consume one obligation, or record that the call lacks it.\<close>

definition consume_or_report ::
  "ObligationKind \<Rightarrow> string \<Rightarrow> Measure \<Rightarrow> ConsumePolicy \<Rightarrow> 32 word \<Rightarrow> string \<Rightarrow>
     Analyzer \<times> LedgerState \<Rightarrow> Analyzer \<times> LedgerState" where
  "consume_or_report kind identity required policy offset owner = (\<lambda>(analyzer, state).
     (let key = ObligationKey kind identity
      in if decide_consume (fmlookup (pending state) key) required
              (identity \<in> bounded_identities state) policy = Consume
         then (analyzer,
               state \<lparr> pending := fmdrop key (pending state),
                       bounded_identities := Set.remove identity (bounded_identities state) \<rparr>)
         else (record_diagnostic CallPermission offset owner analyzer,
               if pending_identity identity state
               then state \<lparr> boundary_leak_reported := True \<rparr> else state)))"

definition acquire_lock ::
  "string \<Rightarrow> 32 word \<Rightarrow> string \<Rightarrow> Analyzer \<times> LedgerState \<Rightarrow>
     (ContractFailure, Analyzer \<times> LedgerState) result" where
  "acquire_lock identity offset owner = (\<lambda>(analyzer, state).
     (let level_identity = certify_resolved_object identity;
          analyzer = (if acquire level_identity (levels state) \<noteq> Satisfied
                      then record_diagnostic CallLevelOrder offset owner analyzer else analyzer)
      in res_bind (add_pending (ObligationKey Release identity) Unbounded state)
           (\<lambda>state. Ok (analyzer, state))))"

definition release_lock ::
  "string \<Rightarrow> 32 word \<Rightarrow> string \<Rightarrow> Analyzer \<times> LedgerState \<Rightarrow> Analyzer \<times> LedgerState" where
  "release_lock identity offset owner =
     consume_or_report Release identity (Known 1) AnySufficient offset owner"

fun check_required_levels ::
  "LevelSpec list \<Rightarrow> FunctionSummary \<Rightarrow> ExprCall \<Rightarrow> 32 word \<Rightarrow> string \<Rightarrow>
     Analyzer \<times> LedgerState \<Rightarrow> Analyzer \<times> LedgerState" where
  "check_required_levels [] summary call offset owner (analyzer, state) = (analyzer, state)"
| "check_required_levels (required # rest) summary call offset owner (analyzer, state) =
     (let satisfied =
            (case instantiate_call_level_identity required summary call state of
               None \<Rightarrow> False
             | Some identity \<Rightarrow>
                 require_current_below identity CallPrecondition (levels state) = Satisfied)
      in check_required_levels rest summary call offset owner
           (if \<not> satisfied then (record_diagnostic CallLevelOrder offset owner analyzer, state)
            else (analyzer, state)))"

fun consume_required ::
  "ObligationSpec list \<Rightarrow> FunctionSummary \<Rightarrow> ExprCall \<Rightarrow> string \<Rightarrow> 32 word \<Rightarrow> string \<Rightarrow>
     Analyzer \<times> LedgerState \<Rightarrow> (ContractFailure, Analyzer \<times> LedgerState) result" where
  "consume_required [] summary call called offset owner st = Ok st"
| "consume_required (required # rest) summary call called offset owner st =
     (if spec_conditional required
      then consume_required rest summary call called offset owner st
      else case instantiate_call_spec_identity required summary call (snd st) of
        None \<Rightarrow> dynamic_call_identity called
      | Some identity \<Rightarrow>
          consume_required rest summary call called offset owner
            (consume_or_report (spec_kind required) identity (spec_measure required)
               PositiveCountdownTransfer offset owner st))"

fun produce_returned ::
  "ObligationSpec list \<Rightarrow> FunctionSummary \<Rightarrow> ExprCall \<Rightarrow> LedgerState \<Rightarrow> (ContractFailure, LedgerState) result" where
  "produce_returned [] summary call state = Ok state"
| "produce_returned (returned # rest) summary call state =
     (if spec_conditional returned then produce_returned rest summary call state
      else case instantiate_call_spec_identity returned summary call state of
        None \<Rightarrow> produce_returned rest summary call state
      | Some identity \<Rightarrow>
          res_bind (add_pending (ObligationKey (spec_kind returned) identity) (spec_measure returned) state)
            (\<lambda>state. produce_returned rest summary call
               (if spec_bounded returned
                then state \<lparr> bounded_identities := insert identity (bounded_identities state) \<rparr>
                else state)))"

fun produce_levels :: "LevelSpec list \<Rightarrow> FunctionSummary \<Rightarrow> ExprCall \<Rightarrow> LedgerState \<Rightarrow> LedgerState" where
  "produce_levels [] summary call state = state"
| "produce_levels (returned # rest) summary call state =
     (case instantiate_call_level_identity returned summary call state of
        None \<Rightarrow> produce_levels rest summary call state
      | Some identity \<Rightarrow>
          produce_levels rest summary call
            (state \<lparr> levels := snd (assert_current_below identity (levels state)) \<rparr>))"

text \<open>The part of a call that follows its summary.\<close>

definition apply_summary ::
  "FunctionSummary \<Rightarrow> ExprCall \<Rightarrow> string \<Rightarrow> string \<Rightarrow> 32 word \<Rightarrow> Analyzer \<times> LedgerState \<Rightarrow>
     (ContractFailure, Analyzer \<times> LedgerState) result" where
  "apply_summary summary call called owner offset st =
     res_bind (consume_required (sum_required summary) summary call called offset owner
                 (check_required_levels (sum_required_levels summary) summary call offset owner st))
       (\<lambda>(analyzer, state).
          (let (analyzer, state) =
                 (if (pending state \<noteq> fmempty \<or> termination_required state) \<and> \<not> sum_terminates summary
                  then (record_diagnostic Caller offset owner analyzer,
                        state \<lparr> boundary_leak_reported := True \<rparr>)
                  else (analyzer, state))
           in res_bind (produce_returned (sum_returned summary) summary call state)
                (\<lambda>state. Ok (analyzer, produce_levels (sum_returned_levels summary) summary call state))))"

definition apply_resolved_call ::
  "ExprCall \<Rightarrow> string \<Rightarrow> 32 word \<Rightarrow> Analyzer \<times> LedgerState \<Rightarrow>
     (ContractFailure, Analyzer \<times> LedgerState) result" where
  "apply_resolved_call call owner offset = (\<lambda>(analyzer, state).
     (case resolved_call_name call owner (summaries analyzer) of
        None \<Rightarrow>
          if pending state = fmempty then Ok (analyzer, state)
          else dynamic_call_identity ''indirect callable''
      | Some called \<Rightarrow>
          if is_runtime_contract_name called (primitives (bindings analyzer)) then Ok (analyzer, state)
          else case fmlookup (summaries analyzer) called of
            None \<Rightarrow>
              if pending state \<noteq> fmempty \<or> has_order_evidence (levels state)
              then Ok (record_diagnostic Caller offset owner analyzer,
                       state \<lparr> boundary_leak_reported := True \<rparr>)
              else Ok (analyzer, state)
          | Some summary \<Rightarrow>
              if sum_io_token_transform summary then Ok (analyzer, state)
              else apply_summary summary call called owner offset (analyzer, state)))"

text \<open>The whole call: lock methods on a known lock first, then the callee's summary.\<close>

definition apply_call ::
  "ExprCall \<Rightarrow> string \<Rightarrow> 32 word \<Rightarrow> Analyzer \<times> LedgerState \<Rightarrow>
     (ContractFailure, Analyzer \<times> LedgerState) result" where
  "apply_call call owner offset st =
     (case call_func call of
        Attribute receiver attr \<Rightarrow>
          (if attr = ''release'' \<or> attr = ''acquire''
           then (case identity_of (snd st) receiver of
                   Some identity \<Rightarrow>
                     if identity \<in> lock_identities (snd st)
                     then (if attr = ''acquire'' then acquire_lock identity offset owner st
                           else Ok (release_lock identity offset owner st))
                     else apply_resolved_call call owner offset st
                 | None \<Rightarrow> apply_resolved_call call owner offset st)
           else apply_resolved_call call owner offset st)
      | _ \<Rightarrow> apply_resolved_call call owner offset st)"

section \<open>Unification renames obligations without loss\<close>

lemma contains_key_iff [simp]: "contains_key m k \<longleftrightarrow> (\<exists>v. fmlookup m k = Some v)"
  by (simp add: contains_key_def)

lemma key_split: "key = ObligationKey (key_kind key) (key_identity key)"
  by (cases key) simp

lemma move_pending_collision:
  assumes "distinct (map fst moved)" "\<forall>(k, m) \<in> set moved. key_identity k = b" "a \<noteq> b"
    and "(k, m) \<in> set moved" "contains_key (pending s) (ObligationKey (key_kind k) a)"
  shows "flow (move_pending a moved s) = Flow.Unreachable"
  using assms
proof (induction moved arbitrary: s)
  case (Cons km moved)
  obtain k' m' where km: "km = (k', m')" by fastforce
  show ?case
  proof (cases "(k, m) = km")
    case True
    with Cons.prems km show ?thesis by (cases k) (auto simp: Let_def)
  next
    case False
    then have "(k, m) \<in> set moved" using Cons.prems(4) by simp
    with Cons km show ?thesis by (cases k; cases k') (auto simp: Let_def)
  qed
qed simp

lemma move_pending_lookup:
  assumes "distinct (map fst moved)" "\<forall>(k, m) \<in> set moved. key_identity k = b" "a \<noteq> b"
    and "\<forall>(k, m) \<in> set moved. \<not> contains_key (pending s) (ObligationKey (key_kind k) a)"
  shows "flow (move_pending a moved s) = flow s \<and>
    fmlookup (pending (move_pending a moved s)) key =
      (if key \<in> fst ` set moved then None
       else if key_identity key = a
       then (case map_of moved (ObligationKey (key_kind key) b) of
               Some m \<Rightarrow> Some m | None \<Rightarrow> fmlookup (pending s) key)
       else fmlookup (pending s) key)"
  using assms
proof (induction moved arbitrary: s)
  case Nil
  then show ?case by simp
next
  case (Cons km moved)
  obtain k m where km: "km = (ObligationKey k b, m)"
    using Cons.prems(2) by (cases km; cases "fst km") auto
  let ?s = "s \<lparr> pending := fmupd (ObligationKey k a) m (fmdrop (ObligationKey k b) (pending s)) \<rparr>"
  have step: "move_pending a (km # moved) s = move_pending a moved ?s"
    using Cons.prems(3,4) km by (auto simp: Let_def)
  have fresh: "ObligationKey k b \<notin> fst ` set moved" using Cons.prems(1) km by auto
  have kinds: "key_kind k' \<noteq> k" if "(k', m') \<in> set moved" for k' m'
    using that Cons.prems(2) fresh by (cases k') (force simp: image_iff)
  have "\<forall>(k', m') \<in> set moved. \<not> contains_key (pending ?s) (ObligationKey (key_kind k') a)"
  proof (intro ballI, clarify)
    fix k' m' assume "(k', m') \<in> set moved" "contains_key (pending ?s) (ObligationKey (key_kind k') a)"
    with kinds [of k' m'] Cons.prems(3,4) show False by (auto split: if_splits)
  qed
  with Cons.prems km Cons.IH [of ?s] have IH: "flow (move_pending a moved ?s) = flow ?s"
    "fmlookup (pending (move_pending a moved ?s)) key =
      (if key \<in> fst ` set moved then None
       else if key_identity key = a
       then (case map_of moved (ObligationKey (key_kind key) b) of
               Some m \<Rightarrow> Some m | None \<Rightarrow> fmlookup (pending ?s) key)
       else fmlookup (pending ?s) key)"
    by simp_all
  have "map_of moved (ObligationKey k b) = None"
    using fresh by (simp add: map_of_eq_None_iff)
  moreover have "(ObligationKey kind a, m') \<notin> set moved" for kind m'
    using Cons.prems(2,3) by auto
  ultimately show ?case
    unfolding step using IH km fresh Cons.prems(3)
    by (cases key) (auto split: option.splits)
qed

lemma pending_moved:
  "(k, m) \<in> set (filter (\<lambda>(key, _). key_identity key = b) (sorted_list_of_fmap p)) \<longleftrightarrow>
     key_identity k = b \<and> fmlookup p k = Some m"
  by (auto simp: set_sorted_list_of_fmap)

lemma map_of_filter_key:
  "map_of (filter (\<lambda>(k, _). P k) xs) k = (if P k then map_of xs k else None)"
  by (induction xs) auto

lemma distinct_map_fst_filter: "distinct (map fst xs) \<Longrightarrow> distinct (map fst (filter P xs))"
  by (induction xs) (auto simp: image_iff)

text \<open>
  Property C23. Learning that two names denote one object renames the second
  identity to the first: every alias is renamed, every pending obligation moves with its measure,
  and none is lost or invented. The path becomes unreachable exactly when both identities held an
  obligation of one kind, since two linear obligations cannot be one.
\<close>

theorem unify_names_conserves:
  assumes "fmlookup (aliases s) left = Some a" and "fmlookup (aliases s) right = Some b" and "a \<noteq> b"
    and "flow s \<noteq> Flow.Unreachable"
  shows "fmlookup (aliases (unify_names left right s)) x =
       map_option (\<lambda>i. if i = b then a else i) (fmlookup (aliases s) x) \<and>
     (if \<exists>kind. contains_key (pending s) (ObligationKey kind a) \<and> contains_key (pending s) (ObligationKey kind b)
      then flow (unify_names left right s) = Flow.Unreachable
      else flow (unify_names left right s) = flow s \<and>
        fmlookup (pending (unify_names left right s)) (ObligationKey kind i) =
          (if i = b then None
           else if i = a \<and> contains_key (pending s) (ObligationKey kind b)
           then fmlookup (pending s) (ObligationKey kind b)
           else fmlookup (pending s) (ObligationKey kind i)))"
proof -
  let ?moved = "filter (\<lambda>(key, _). key_identity key = b) (sorted_list_of_fmap (pending s))"
  let ?s = "s \<lparr> aliases := fmmap (\<lambda>i. if i = b then a else i) (aliases s),
     bounded_identities := rename_member b a (bounded_identities s),
     lock_identities := rename_member b a (lock_identities s) \<rparr>"
  have run: "unify_names left right s = move_pending a ?moved ?s"
    using assms by (simp add: unify_names_def Let_def)
  have same_aliases: "aliases (move_pending a moved s) = aliases s" for moved s
    by (induction moved arbitrary: s rule: list.induct) (auto simp: Let_def)
  have distinct: "distinct (map fst ?moved)" by (intro distinct_map_fst_filter) simp
  have ids: "\<forall>(k, m) \<in> set ?moved. key_identity k = b" by auto
  show ?thesis
  proof (cases "\<exists>kind. contains_key (pending s) (ObligationKey kind a) \<and> contains_key (pending s) (ObligationKey kind b)")
    case True
    then obtain kind m where "(ObligationKey kind b, m) \<in> set ?moved"
      "contains_key (pending ?s) (ObligationKey (key_kind (ObligationKey kind b)) a)"
      unfolding pending_moved by auto
    then have "flow (move_pending a ?moved ?s) = Flow.Unreachable"
      by (rule move_pending_collision [OF distinct ids assms(3)])
    with True show ?thesis by (simp add: run same_aliases)
  next
    case False
    have "\<forall>(k, m) \<in> set ?moved. \<not> contains_key (pending ?s) (ObligationKey (key_kind k) a)"
    proof (intro ballI, clarify)
      fix k m assume "(k, m) \<in> set ?moved" "contains_key (pending ?s) (ObligationKey (key_kind k) a)"
      then have "contains_key (pending s) (ObligationKey (key_kind k) a)"
        "contains_key (pending s) (ObligationKey (key_kind k) b)"
        using pending_moved [of k m b "pending s"] by (cases k; simp)+
      with False show False by blast
    qed
    note moved = move_pending_lookup [OF distinct ids assms(3) this, of "ObligationKey kind i"]
    have "map_of ?moved (ObligationKey kind b) = fmlookup (pending s) (ObligationKey kind b)"
      by (simp add: map_of_filter_key)
    moreover have "ObligationKey kind i \<in> fst ` set ?moved \<longleftrightarrow>
        i = b \<and> contains_key (pending s) (ObligationKey kind b)"
      using pending_moved [of "ObligationKey kind i" _ b "pending s"] by (force simp del: set_filter)
    ultimately show ?thesis
      using moved assms(3) unfolding run same_aliases if_not_P [OF False]
      by (cases "fmlookup (pending s) (ObligationKey kind b)") simp_all
  qed
qed

definition two_locks :: LedgerState where
  "two_locks =
     \<lparr> aliases = btree_of_list [(''x'', ''lock_1''), (''y'', ''lock_2''), (''z'', ''lock_2'')],
       pending = btree_of_list [(ObligationKey Invoke ''lock_1'', Known 2), (ObligationKey Release ''lock_2'', Unbounded)],
       bounded_identities = {''lock_1''}, lock_identities = {''lock_1'', ''lock_2''}, flow = Flow.Normal,
       termination_required = False, boundary_leak_reported = False, levels = level_state_default \<rparr>"

theorem unify_names_conserves_witness:
  "fmlookup (pending (unify_names ''x'' ''y'' two_locks)) (ObligationKey Release ''lock_1'') = Some Unbounded"
proof -
  have "fmlookup (aliases two_locks) ''x'' = Some ''lock_1''" "fmlookup (aliases two_locks) ''y'' = Some ''lock_2''"
    "flow two_locks \<noteq> Flow.Unreachable"
    by (simp_all add: two_locks_def btree_of_list_def)
  note unified = unify_names_conserves [OF this(1,2) _ this(3), where x = "''x''" and kind = Release and i = "''lock_1''"]
  have "contains_key (pending two_locks) (ObligationKey Release ''lock_2'')"
    "\<not> contains_key (pending two_locks) (ObligationKey Release ''lock_1'')"
    "\<not> contains_key (pending two_locks) (ObligationKey Invoke ''lock_2'')"
    "fmlookup (pending two_locks) (ObligationKey Release ''lock_2'') = Some Unbounded"
    by (simp_all add: two_locks_def btree_of_list_def)
  note at_entry = this
  have no_collision: "\<not> (\<exists>kind. contains_key (pending two_locks) (ObligationKey kind ''lock_1'') \<and>
      contains_key (pending two_locks) (ObligationKey kind ''lock_2''))"
  proof
    assume "\<exists>kind. contains_key (pending two_locks) (ObligationKey kind ''lock_1'') \<and>
      contains_key (pending two_locks) (ObligationKey kind ''lock_2'')"
    then obtain kind where "contains_key (pending two_locks) (ObligationKey kind ''lock_1'')"
      "contains_key (pending two_locks) (ObligationKey kind ''lock_2'')"
      by blast
    with at_entry(2,3) show False by (cases kind) (simp_all del: contains_key_iff)
  qed
  have "''lock_1'' \<noteq> ''lock_2''" by simp
  from unified [OF this, unfolded if_not_P [OF no_collision]] at_entry show ?thesis by simp
qed

section \<open>Calls transfer obligations exactly\<close>

lemma identity_of_cong: "aliases s = aliases s' \<Longrightarrow> identity_of s e = identity_of s' e"
  by (induction e) auto

lemma instantiate_call_spec_cong:
  "aliases s = aliases s' \<Longrightarrow>
     instantiate_call_spec_identity spec summary call s = instantiate_call_spec_identity spec summary call s'"
  using identity_of_cong [of s s'] by (simp add: instantiate_call_spec_identity_def split: option.splits)

text \<open>The obligations the unconditional specifications of a callee name at a call.\<close>

fun demands :: "ObligationSpec list \<Rightarrow> FunctionSummary \<Rightarrow> ExprCall \<Rightarrow> LedgerState \<Rightarrow> (ObligationKey \<times> Measure) list" where
  "demands [] summary call s = []"
| "demands (spec # specs) summary call s =
     (if spec_conditional spec then demands specs summary call s
      else case instantiate_call_spec_identity spec summary call s of
        None \<Rightarrow> demands specs summary call s
      | Some identity \<Rightarrow>
          (ObligationKey (spec_kind spec) identity, spec_measure spec) # demands specs summary call s)"

lemma demands_cong: "aliases s = aliases s' \<Longrightarrow> demands specs summary call s = demands specs summary call s'"
  using instantiate_call_spec_cong [of s s']
  by (induction specs) (auto split: option.splits)

lemma consume_or_report_frame:
  "aliases (snd (consume_or_report k i r p offset owner st)) = aliases (snd st)"
  "diagnostics (fst st) \<subseteq> diagnostics (fst (consume_or_report k i r p offset owner st))"
  "levels (snd (consume_or_report k i r p offset owner st)) = levels (snd st)"
  by (auto simp: consume_or_report_def Let_def record_diagnostic_def split: prod.splits)

lemma consume_or_report_clean:
  assumes "\<lparr> diag_kind = CallPermission, diag_offset = offset, diag_owner = owner \<rparr> \<notin>
      diagnostics (fst (consume_or_report k i r p offset owner (an, s)))"
  shows "(\<exists>m. fmlookup (pending s) (ObligationKey k i) = Some m \<and>
       decide_consume (Some m) r (i \<in> bounded_identities s) p = Consume) \<and>
     pending (snd (consume_or_report k i r p offset owner (an, s))) = fmdrop (ObligationKey k i) (pending s)"
proof -
  have "decide_consume (fmlookup (pending s) (ObligationKey k i)) r (i \<in> bounded_identities s) p = Consume"
    using assms by (auto simp: consume_or_report_def Let_def record_diagnostic_def split: if_splits)
  then show ?thesis
    by (cases "fmlookup (pending s) (ObligationKey k i)") (auto simp: consume_or_report_def Let_def)
qed

lemma transfer_ignores_boundedness:
  "decide_consume m r b PositiveCountdownTransfer = decide_consume m r False PositiveCountdownTransfer"
  by (simp add: decide_consume_def)

lemma consume_required_frame:
  assumes "consume_required specs summary call called offset owner (an, s) = Ok (an', s')"
  shows "aliases s' = aliases s \<and> diagnostics an \<subseteq> diagnostics an'"
  using assms
proof (induction specs arbitrary: an s)
  case (Cons spec specs)
  show ?case
  proof (cases "spec_conditional spec")
    case True
    with Cons show ?thesis by simp
  next
    case False
    with Cons.prems obtain i where i: "instantiate_call_spec_identity spec summary call s = Some i"
      by (auto simp: dynamic_call_identity_def obligation_failure_def split: option.splits)
    obtain an2 s2 where step: "consume_or_report (spec_kind spec) i (spec_measure spec)
        PositiveCountdownTransfer offset owner (an, s) = (an2, s2)"
      by fastforce
    with Cons.prems False i have "consume_required specs summary call called offset owner (an2, s2) = Ok (an', s')"
      by simp
    from Cons.IH [OF this] consume_or_report_frame(1,2) [where st = "(an, s)"]
    show ?thesis using step by (metis (no_types, lifting) fst_conv snd_conv subset_trans)
  qed
qed simp

lemma consume_required_clean:
  assumes "consume_required specs summary call called offset owner (an, s) = Ok (an', s')"
    and "\<lparr> diag_kind = CallPermission, diag_offset = offset, diag_owner = owner \<rparr> \<notin> diagnostics an'"
  shows "distinct (map fst (demands specs summary call s)) \<and>
    (\<forall>(k, r) \<in> set (demands specs summary call s).
       \<exists>m. fmlookup (pending s) k = Some m \<and> decide_consume (Some m) r False PositiveCountdownTransfer = Consume) \<and>
    pending s' = fmdrop_set (fst ` set (demands specs summary call s)) (pending s)"
  using assms
proof (induction specs arbitrary: an s)
  case Nil
  then show ?case by simp
next
  case (Cons spec specs)
  show ?case
  proof (cases "spec_conditional spec")
    case True
    with Cons show ?thesis by simp
  next
    case False
    with Cons.prems obtain i where i: "instantiate_call_spec_identity spec summary call s = Some i"
      by (auto simp: dynamic_call_identity_def obligation_failure_def split: option.splits)
    let ?k = "ObligationKey (spec_kind spec) i"
    obtain an2 s2 where step: "consume_or_report (spec_kind spec) i (spec_measure spec)
        PositiveCountdownTransfer offset owner (an, s) = (an2, s2)"
      by fastforce
    with Cons.prems False i have rest: "consume_required specs summary call called offset owner (an2, s2) = Ok (an', s')"
      by simp
    with Cons.prems(2) consume_required_frame [OF rest]
    have "\<lparr> diag_kind = CallPermission, diag_offset = offset, diag_owner = owner \<rparr> \<notin> diagnostics an2" by blast
    with consume_or_report_clean [where an = an and s = s] step
    have here: "\<exists>m. fmlookup (pending s) ?k = Some m \<and>
        decide_consume (Some m) (spec_measure spec) False PositiveCountdownTransfer = Consume"
      "pending s2 = fmdrop ?k (pending s)"
      by (metis fst_conv transfer_ignores_boundedness, metis fst_conv snd_conv)
    have "aliases s2 = aliases s" using consume_or_report_frame(1) step by (metis snd_conv)
    then have same: "demands specs summary call s2 = demands specs summary call s" by (rule demands_cong)
    note IH = Cons.IH [OF rest Cons.prems(2), unfolded same here(2)]
    have "?k \<notin> fst ` set (demands specs summary call s)"
      using IH by (auto dest!: bspec)
    moreover have "\<exists>m. fmlookup (pending s) k = Some m \<and>
        decide_consume (Some m) r False PositiveCountdownTransfer = Consume"
      if "(k, r) \<in> set (demands specs summary call s)" for k r
      using IH that by (fastforce split: if_splits)
    ultimately show ?thesis using IH here(1) False i by auto
  qed
qed

lemma produce_returned_lookup:
  assumes "produce_returned specs summary call s = Ok s'"
  shows "distinct (map fst (demands specs summary call s)) \<and>
    (\<forall>k \<in> fst ` set (demands specs summary call s). fmlookup (pending s) k = None) \<and>
    (\<forall>k. fmlookup (pending s') k =
       (case map_of (demands specs summary call s) k of Some m \<Rightarrow> Some m | None \<Rightarrow> fmlookup (pending s) k))"
  using assms
proof (induction specs arbitrary: s)
  case Nil
  then show ?case by simp
next
  case (Cons spec specs)
  show ?case
  proof (cases "spec_conditional spec \<or> instantiate_call_spec_identity spec summary call s = None")
    case True
    then have "demands (spec # specs) summary call s = demands specs summary call s"
      "produce_returned (spec # specs) summary call s = produce_returned specs summary call s"
      by auto
    with Cons.IH [of s] Cons.prems show ?thesis by (simp only:) simp
  next
    case False
    then obtain i where i: "instantiate_call_spec_identity spec summary call s = Some i" "\<not> spec_conditional spec"
      by auto
    let ?k = "ObligationKey (spec_kind spec) i"
    let ?added = "s \<lparr> pending := fmupd ?k (spec_measure spec) (pending s) \<rparr>"
    let ?s2 = "if spec_bounded spec
        then ?added \<lparr> bounded_identities := insert i (bounded_identities ?added) \<rparr> else ?added"
    from Cons.prems i have "add_pending ?k (spec_measure spec) s = Ok ?added"
      and fresh: "fmlookup (pending s) ?k = None"
      by (auto simp: add_pending_def obligation_failure_def decide_produce_def split: if_splits)
    with Cons.prems i have rest: "produce_returned specs summary call ?s2 = Ok s'" by simp
    have same: "demands specs summary call ?s2 = demands specs summary call s"
      by (rule demands_cong) simp
    have pending2: "pending ?s2 = fmupd ?k (spec_measure spec) (pending s)" by simp
    note IH = Cons.IH [OF rest, unfolded same pending2]
    then have "?k \<notin> fst ` set (demands specs summary call s)" by (auto dest!: bspec)
    moreover from this have "map_of (demands specs summary call s) ?k = None"
      by (simp add: map_of_eq_None_iff)
    moreover have "fmlookup (pending s) k = None" if "k \<in> fst ` set (demands specs summary call s)" for k
      using IH that by (auto split: if_splits)
    ultimately show ?thesis using IH i fresh by (simp add: split: option.splits)
  qed
qed

lemma check_required_levels_frame:
  "snd (check_required_levels specs summary call offset owner (an, s)) = s"
  by (induction specs arbitrary: an) (auto simp: Let_def split: if_splits)

lemma produce_levels_pending: "pending (produce_levels specs summary call s) = pending s"
  by (induction specs arbitrary: s) (auto split: option.splits)

text \<open>
  Property C17. A call through a summary that the analyzer neither refuses nor
  reports as lacking a permission is an exact linear transfer: the obligations the callee requires
  are distinct, all were pending at a measure the transfer policy accepts and are gone afterwards,
  the obligations it returns are distinct and new, and no other obligation changes.
\<close>

theorem call_transfers_exactly:
  assumes "apply_summary summary call called owner offset (analyzer, s) = Ok (analyzer', s')"
    and "\<lparr> diag_kind = CallPermission, diag_offset = offset, diag_owner = owner \<rparr> \<notin> diagnostics analyzer'"
  shows "distinct (map fst (demands (sum_required summary) summary call s)) \<and>
    (\<forall>(k, r) \<in> set (demands (sum_required summary) summary call s).
       \<exists>m. fmlookup (pending s) k = Some m \<and> decide_consume (Some m) r False PositiveCountdownTransfer = Consume) \<and>
    distinct (map fst (demands (sum_returned summary) summary call s)) \<and>
    fmlookup (pending s') k =
      (case map_of (demands (sum_returned summary) summary call s) k of
         Some m \<Rightarrow> Some m
       | None \<Rightarrow> if k \<in> fst ` set (demands (sum_required summary) summary call s) then None
                 else fmlookup (pending s) k)"
proof -
  obtain an1 where levels_checked:
    "check_required_levels (sum_required_levels summary) summary call offset owner (analyzer, s) = (an1, s)"
    by (metis check_required_levels_frame prod.collapse)
  from assms(1) levels_checked obtain an2 s2 where
    consumed: "consume_required (sum_required summary) summary call called offset owner (an1, s) = Ok (an2, s2)"
    unfolding apply_summary_def by auto
  let ?c = "(pending s2 \<noteq> fmempty \<or> termination_required s2) \<and> \<not> sum_terminates summary"
  let ?s3 = "if ?c then s2 \<lparr> boundary_leak_reported := True \<rparr> else s2"
  let ?an3 = "if ?c then record_diagnostic Caller offset owner an2 else an2"
  have "apply_summary summary call called owner offset (analyzer, s) =
      res_bind (produce_returned (sum_returned summary) summary call ?s3)
        (\<lambda>s4. Ok (?an3, produce_levels (sum_returned_levels summary) summary call s4))"
    unfolding apply_summary_def levels_checked consumed by simp
  with assms(1) obtain s4 where
    produced: "produce_returned (sum_returned summary) summary call ?s3 = Ok s4"
    and results: "analyzer' = ?an3" "s' = produce_levels (sum_returned_levels summary) summary call s4"
    by auto
  have "\<lparr> diag_kind = CallPermission, diag_offset = offset, diag_owner = owner \<rparr> \<notin> diagnostics an2"
    using assms(2) results(1) by (auto simp: record_diagnostic_def split: if_splits)
  note clean = consume_required_clean [OF consumed this]
  have "aliases ?s3 = aliases s" using consume_required_frame [OF consumed] by simp
  then have same: "demands specs summary call ?s3 = demands specs summary call s" for specs
    by (rule demands_cong)
  let ?required = "fst ` set (demands (sum_required summary) summary call s)"
  have "pending ?s3 = pending s2" by simp
  note produced' = produce_returned_lookup [OF produced, unfolded same this]
  have "fmlookup (pending s2) k = (if k \<in> ?required then None else fmlookup (pending s) k)"
    using clean by simp
  with produced' have "fmlookup (pending s') k =
      (case map_of (demands (sum_returned summary) summary call s) k of
         Some m \<Rightarrow> Some m | None \<Rightarrow> if k \<in> ?required then None else fmlookup (pending s) k)"
    unfolding results(2) produce_levels_pending
    by (cases "map_of (demands (sum_returned summary) summary call s) k") simp_all
  with produced' clean show ?thesis by blast
qed

definition handover_summary :: FunctionSummary where
  "handover_summary =
     \<lparr> sum_parameters = [''first'', ''second''], sum_lock_parameters = {},
       sum_required = [\<lparr> spec_kind = Invoke, spec_root = ''first'', spec_fields = [], spec_measure = Known 1,
         spec_conditional = False, spec_bounded = True, spec_offset = 0 \<rparr>],
       sum_returned = [\<lparr> spec_kind = Release, spec_root = ''first'', spec_fields = [''lock''], spec_measure = Unbounded,
         spec_conditional = False, spec_bounded = False, spec_offset = 0 \<rparr>],
       sum_required_levels = [], sum_returned_levels = [], sum_terminates = True,
       sum_termination_measure = None, sum_io_token_transform = False,
       sum_level_intrinsics = \<lparr> by_local_name = fmempty \<rparr> \<rparr>"

definition handover_call :: ExprCall where
  "handover_call = ExprCall (Name ''callee'') [Name ''x'', Name ''y''] [] 0"

definition handover_analyzer :: Analyzer where
  "handover_analyzer = \<lparr> summaries = fmempty, bindings =
     \<lparr> primitives = {}, lock_classes = {}, lock_fields = fmempty, level_intrinsics = \<lparr> by_local_name = fmempty \<rparr> \<rparr>, diagnostics = {} \<rparr>"

theorem call_transfers_exactly_witness:
  "\<exists>an' s'. apply_summary handover_summary handover_call ''callee'' ''caller'' 9 (handover_analyzer, two_locks) =
       Ok (an', s') \<and>
     fmlookup (pending s') (ObligationKey Invoke ''lock_1'') = None \<and>
     fmlookup (pending s') (ObligationKey Release ''lock_1.lock'') = Some Unbounded"
proof -
  have "case apply_summary handover_summary handover_call ''callee'' ''caller'' 9 (handover_analyzer, two_locks) of
      Inr (an', s') \<Rightarrow> diagnostics an' = {} | Inl e \<Rightarrow> False"
    by code_simp
  then obtain an' s' where s': "apply_summary handover_summary handover_call ''callee'' ''caller'' 9
      (handover_analyzer, two_locks) = Ok (an', s')" and "diagnostics an' = {}"
    by (auto split: sum.splits)
  then have no_report: "\<lparr> diag_kind = CallPermission, diag_offset = 9, diag_owner = ''caller'' \<rparr> \<notin> diagnostics an'"
    by simp
  have demanded: "demands (sum_required handover_summary) handover_summary handover_call two_locks =
      [(ObligationKey Invoke ''lock_1'', Known 1)]"
    "demands (sum_returned handover_summary) handover_summary handover_call two_locks =
      [(ObligationKey Release ''lock_1.lock'', Unbounded)]"
    by code_simp+
  from call_transfers_exactly [OF s' no_report, of "ObligationKey Invoke ''lock_1''"]
    call_transfers_exactly [OF s' no_report, of "ObligationKey Release ''lock_1.lock''"] s'
  show ?thesis unfolding demanded by simp
qed

end
