(* ===== verification/Obligation_Contracts.thy ===== *)
theory Obligation_Contracts
  imports Obligation_Ledger
begin

text \<open>
  Reading obligation contracts: the clauses of \<open>Requires\<close>, \<open>Ensures\<close> and \<open>Invariant\<close> calls, their
  measures and identity paths, and the static questions the loop rule asks of a loop body
  (\<^verbatim>\<open>src/src/python_obligation_leaks.rs\<close>). Names are ASCII: case and white space are decided there.
\<close>

section \<open>Names and constants\<close>

definition direct_call_name :: "ExprCall \<Rightarrow> string option" where
  "direct_call_name call = (case call_func call of Name name \<Rightarrow> Some name | _ \<Rightarrow> None)"

definition is_direct_call :: "ExprCall \<Rightarrow> string \<Rightarrow> bool" where
  "is_direct_call call expected \<longleftrightarrow> direct_call_name call = Some expected"

definition exception_name :: "Expr \<Rightarrow> string option" where
  "exception_name expression =
     (case expression of
        Name name \<Rightarrow> Some name
      | Call call \<Rightarrow> direct_call_name call
      | _ \<Rightarrow> None)"

definition is_constructor_name :: "string \<Rightarrow> bool" where
  "is_constructor_name name \<longleftrightarrow>
     (case name of [] \<Rightarrow> False | first # rest \<Rightarrow> CHR ''A'' \<le> first \<and> first \<le> CHR ''Z'')"

definition checked_i64 :: "int \<Rightarrow> int option" where
  "checked_i64 v = (if -(2 ^ 63) \<le> v \<and> v < 2 ^ 63 then Some v else None)"

fun eval_int_expression :: "Expr \<Rightarrow> int option" where
  "eval_int_expression (Constant (Constant.Int v)) = checked_i64 (int v)"
| "eval_int_expression (UnaryOp USub operand) =
     (case eval_int_expression operand of None \<Rightarrow> None | Some v \<Rightarrow> checked_i64 (- v))"
| "eval_int_expression (BinOp left_operand op right_operand) =
     (case eval_int_expression left_operand of
        None \<Rightarrow> None
      | Some left \<Rightarrow>
          (case eval_int_expression right_operand of
             None \<Rightarrow> None
           | Some right \<Rightarrow>
               (case op of
                  Add \<Rightarrow> checked_i64 (left + right)
                | Sub \<Rightarrow> checked_i64 (left - right)
                | Mult \<Rightarrow> checked_i64 (left * right)
                | OtherOperator \<Rightarrow> None)))"
| "eval_int_expression _ = None"

definition eval_comparison :: "Expr \<Rightarrow> CmpOp list \<Rightarrow> Expr list \<Rightarrow> bool option" where
  "eval_comparison left_operand ops comparators =
     (case (eval_int_expression left_operand, ops, comparators) of
        (Some left, [op], [right_operand]) \<Rightarrow>
          (case eval_int_expression right_operand of
             None \<Rightarrow> None
           | Some right \<Rightarrow>
               (case op of
                  CmpOp.Eq \<Rightarrow> Some (left = right)
                | CmpOp.NotEq \<Rightarrow> Some (left \<noteq> right)
                | CmpOp.Lt \<Rightarrow> Some (left < right)
                | CmpOp.LtE \<Rightarrow> Some (left \<le> right)
                | CmpOp.Gt \<Rightarrow> Some (left > right)
                | CmpOp.GtE \<Rightarrow> Some (left \<ge> right)
                | _ \<Rightarrow> None))
      | _ \<Rightarrow> None)"

definition expression_is_statically_false :: "Expr \<Rightarrow> bool" where
  "expression_is_statically_false expression =
     (if expression = Constant (Constant.Bool False) then True
      else case expression of
        Compare left_operand ops comparators _ \<Rightarrow>
          (case eval_comparison left_operand ops comparators of None \<Rightarrow> False | Some holds \<Rightarrow> \<not> holds)
      | _ \<Rightarrow> False)"

definition expression_is_statically_true :: "Expr \<Rightarrow> bool" where
  "expression_is_statically_true expression =
     (if expression = Constant (Constant.Bool True) then True
      else case expression of
        Compare left_operand ops comparators _ \<Rightarrow>
          (case eval_comparison left_operand ops comparators of None \<Rightarrow> False | Some holds \<Rightarrow> holds)
      | _ \<Rightarrow> False)"

section \<open>Searching an expression for calls\<close>

text \<open>The walk shared by the two searches: some directly named call whose name satisfies \<open>p\<close>.\<close>

fun contains_named_call :: "(string \<Rightarrow> bool) \<Rightarrow> Expr \<Rightarrow> bool" where
  "contains_named_call p (Call (ExprCall func args keywords offset)) \<longleftrightarrow>
     (case func of Name name \<Rightarrow> p name | _ \<Rightarrow> False) \<or>
     contains_named_call p func \<or>
     list_ex (contains_named_call p) args \<or> list_ex (contains_named_call p) keywords"
| "contains_named_call p (BoolOp op values) \<longleftrightarrow> list_ex (contains_named_call p) values"
| "contains_named_call p (UnaryOp op operand) \<longleftrightarrow> contains_named_call p operand"
| "contains_named_call p (BinOp left op right) \<longleftrightarrow> contains_named_call p left \<or> contains_named_call p right"
| "contains_named_call p (Lambda body) \<longleftrightarrow> contains_named_call p body"
| "contains_named_call p (Tuple elts) \<longleftrightarrow> list_ex (contains_named_call p) elts"
| "contains_named_call p (List elts) \<longleftrightarrow> list_ex (contains_named_call p) elts"
| "contains_named_call p (Compare left ops comparators offset) \<longleftrightarrow>
     contains_named_call p left \<or> list_ex (contains_named_call p) comparators"
| "contains_named_call p _ \<longleftrightarrow> False"

definition expression_contains_call :: "Expr \<Rightarrow> string \<Rightarrow> bool" where
  "expression_contains_call expression expected = contains_named_call (\<lambda>name. name = expected) expression"

definition expression_contains_level_intrinsic :: "Expr \<Rightarrow> ResolvedLevelIntrinsicBindings \<Rightarrow> bool" where
  "expression_contains_level_intrinsic expression known =
     contains_named_call (\<lambda>name. event known name \<noteq> None) expression"

section \<open>Measures and identities\<close>

fun measure_of :: "AstDebug \<Rightarrow> Expr \<Rightarrow> Measure" where
  "measure_of dbg (Constant (Constant.Int v)) =
     (case checked_i64 (int v) of
        Some known \<Rightarrow> Known known
      | None \<Rightarrow> Unknown (debug_expr dbg (Constant (Constant.Int v))))"
| "measure_of dbg (UnaryOp USub operand) =
     (case measure_of dbg operand of
        Known value \<Rightarrow> Known (- value)
      | Unknown value \<Rightarrow> Unknown (''-('' @ value @ '')'')
      | Unbounded \<Rightarrow> Unknown ''-(unbounded)'')"
| "measure_of dbg expression = Unknown (debug_expr dbg expression)"

fun identity_path :: "Expr \<Rightarrow> (string \<times> string list) option" where
  "identity_path (Name name) = Some (name, [])"
| "identity_path (Attribute receiver attr) =
     (case identity_path receiver of
        None \<Rightarrow> None
      | Some (root, path) \<Rightarrow> Some (root, path @ [attr]))"
| "identity_path _ = None"

text \<open>\<open>collect_named_call_measures\<close>; the primitive set does not change in the recursion.\<close>

fun named_call_measures :: "AstDebug \<Rightarrow> string \<Rightarrow> Expr \<Rightarrow> Measure list" where
  "named_call_measures dbg expected (BoolOp op values) =
     (if op = BoolOp.And then concat (map (named_call_measures dbg expected) values) else [])"
| "named_call_measures dbg expected (Call (ExprCall func args keywords offset)) =
     (if func = Name expected then (case args of [] \<Rightarrow> [] | argument # _ \<Rightarrow> [measure_of dbg argument])
      else if func = Name ''Implies''
      then (case args of _ # consequence # _ \<Rightarrow> named_call_measures dbg expected consequence | _ \<Rightarrow> [])
      else [])"
| "named_call_measures dbg expected _ = []"

definition collect_named_call_measures :: "AstDebug \<Rightarrow> Expr \<Rightarrow> string \<Rightarrow> string set \<Rightarrow> Measure list" where
  "collect_named_call_measures dbg expression expected available =
     (if expected \<notin> available then [] else named_call_measures dbg expected expression)"

definition stronger_measure ::
  "Measure option \<Rightarrow> Measure option \<Rightarrow> (ContractFailure, Measure option) result" where
  "stronger_measure left right =
     (case (left, right) of
        (None, right) \<Rightarrow> Ok right
      | (left, None) \<Rightarrow> Ok left
      | (Some (Known l), Some (Known r)) \<Rightarrow> Ok (Some (Known (max l r)))
      | (Some l, Some r) \<Rightarrow>
          (case (l, r) of
             (Unknown x, Unknown y) \<Rightarrow>
               if x = y then Ok (Some (Unknown x))
               else obligation_failure ''frontend.python.obligations.dynamic-measure-order-unsupported''
                      ''obligation precondition ordering requires statically comparable measures''
           | _ \<Rightarrow> obligation_failure ''frontend.python.obligations.dynamic-measure-order-unsupported''
                    ''obligation precondition ordering requires statically comparable measures''))"

definition measure_is_stronger ::
  "Measure option \<Rightarrow> Measure option \<Rightarrow> (ContractFailure, bool) result" where
  "measure_is_stronger child parent =
     (case (child, parent) of
        (None, _) \<Rightarrow> Ok False
      | (Some _, None) \<Rightarrow> Ok True
      | (Some (Known c), Some (Known p)) \<Rightarrow> Ok (c > p)
      | (Some c, Some p) \<Rightarrow>
          (case (c, p) of
             (Unknown x, Unknown y) \<Rightarrow>
               if x = y then Ok False
               else obligation_failure ''frontend.python.obligations.dynamic-measure-order-unsupported''
                      ''obligation override ordering requires statically comparable measures''
           | _ \<Rightarrow> obligation_failure ''frontend.python.obligations.dynamic-measure-order-unsupported''
                    ''obligation override ordering requires statically comparable measures''))"

definition inherited_measure :: "FunctionSummary \<Rightarrow> FunctionSummary \<Rightarrow> ObligationSpec \<Rightarrow> Measure option" where
  "inherited_measure child parent child_spec =
     map_option spec_measure
       (find (\<lambda>parent_spec.
           spec_kind parent_spec = Release \<and> \<not> spec_conditional parent_spec \<and>
           spec_fields parent_spec = spec_fields child_spec \<and>
           position (\<lambda>parameter. parameter = spec_root parent_spec) (sum_parameters parent) =
             position (\<lambda>parameter. parameter = spec_root child_spec) (sum_parameters child))
         (sum_required parent))"

fun any_release_stronger ::
  "FunctionSummary \<Rightarrow> FunctionSummary \<Rightarrow> ObligationSpec list \<Rightarrow> (ContractFailure, bool) result" where
  "any_release_stronger child parent [] = Ok False"
| "any_release_stronger child parent (child_spec # rest) =
     res_bind (measure_is_stronger (Some (spec_measure child_spec)) (inherited_measure child parent child_spec))
       (\<lambda>stronger. if stronger then Ok True else any_release_stronger child parent rest)"

definition release_precondition_is_stronger ::
  "FunctionSummary \<Rightarrow> FunctionSummary \<Rightarrow> (ContractFailure, bool) result" where
  "release_precondition_is_stronger child parent =
     any_release_stronger child parent
       (filter (\<lambda>spec. spec_kind spec = Release \<and> \<not> spec_conditional spec) (sum_required child))"

section \<open>Contract clauses\<close>

definition contract_statement :: "Stmt \<Rightarrow> (string \<times> Expr) option" where
  "contract_statement statement =
     (case statement of
        Stmt.Expr (Call call) offset \<Rightarrow>
          (case direct_call_name call of
             None \<Rightarrow> None
           | Some name \<Rightarrow>
               if name \<notin> {''Requires'', ''Ensures'', ''Exsures'', ''Invariant''} then None
               else (case call_args call of [] \<Rightarrow> None | argument # _ \<Rightarrow> Some (name, argument)))
      | _ \<Rightarrow> None)"

definition is_contract_statement :: "Stmt \<Rightarrow> bool" where
  "is_contract_statement statement \<longleftrightarrow> contract_statement statement \<noteq> None"

definition invariant_argument :: "Stmt \<Rightarrow> Expr option" where
  "invariant_argument statement =
     (case contract_statement statement of
        Some (name, argument) \<Rightarrow> if name = ''Invariant'' then Some argument else None
      | None \<Rightarrow> None)"

definition expression_is_conditionally_guarded :: "Expr \<Rightarrow> bool" where
  "expression_is_conditionally_guarded expression = False"

definition obligation_kind_of :: "string \<Rightarrow> ObligationKind option" where
  "obligation_kind_of name =
     (if name = ''MustRelease'' then Some Release
      else if name = ''MustInvoke'' \<or> name = ''token'' then Some Invoke
      else None)"

text \<open>The leaf of the walk: one call of an obligation primitive.\<close>

definition obligation_clause ::
  "AstDebug \<Rightarrow> ExprCall \<Rightarrow> bool \<Rightarrow> bool \<Rightarrow> string set \<Rightarrow> (ContractFailure, ObligationSpec list) result" where
  "obligation_clause dbg call conditional inside_invariant available =
     (case direct_call_name call of
        None \<Rightarrow> Ok []
      | Some name \<Rightarrow>
          if name \<notin> available then Ok []
          else case obligation_kind_of name of
            None \<Rightarrow> Ok []
          | Some kind \<Rightarrow>
              (case call_args call of
                 [] \<Rightarrow> obligation_failure ''frontend.python.obligations.target-missing''
                         ''obligation clauses require an identity target''
               | target # extra \<Rightarrow>
                   (case identity_path target of
                      None \<Rightarrow> obligation_failure ''frontend.python.obligations.dynamic-identity-unsupported''
                                ''obligation identity must be a direct parameter/local or attribute path''
                    | Some (root, path) \<Rightarrow>
                        Ok [\<lparr> spec_kind = kind, spec_root = root, spec_fields = path,
                              spec_measure = (case extra of [] \<Rightarrow> Unbounded | owed # _ \<Rightarrow> measure_of dbg owed),
                              spec_conditional = conditional \<or>
                                (inside_invariant \<and> expression_is_conditionally_guarded (Call call)),
                              spec_bounded = (extra \<noteq> []),
                              spec_offset = call_offset call \<rparr>])))"

fun collect_obligation_specs_inner ::
  "AstDebug \<Rightarrow> Expr \<Rightarrow> bool \<Rightarrow> bool \<Rightarrow> string set \<Rightarrow> (ContractFailure, ObligationSpec list) result"
and collect_obligation_specs_list ::
  "AstDebug \<Rightarrow> Expr list \<Rightarrow> bool \<Rightarrow> bool \<Rightarrow> string set \<Rightarrow> (ContractFailure, ObligationSpec list) result" where
  "collect_obligation_specs_inner dbg (BoolOp op values) conditional inside_invariant available =
     (if op = BoolOp.And then collect_obligation_specs_list dbg values conditional inside_invariant available
      else Ok [])"
| "collect_obligation_specs_inner dbg (Call (ExprCall func args keywords offset)) conditional inside_invariant available =
     (if func = Name ''Implies''
      then (case args of
              [_, consequence] \<Rightarrow>
                collect_obligation_specs_inner dbg consequence True inside_invariant available
            | _ \<Rightarrow> obligation_failure ''frontend.python.obligations.implies-arity''
                     ''Implies obligation clauses require condition and consequence'')
      else obligation_clause dbg (ExprCall func args keywords offset) conditional inside_invariant available)"
| "collect_obligation_specs_inner dbg _ conditional inside_invariant available = Ok []"
| "collect_obligation_specs_list dbg [] conditional inside_invariant available = Ok []"
| "collect_obligation_specs_list dbg (value # rest) conditional inside_invariant available =
     res_bind (collect_obligation_specs_inner dbg value conditional inside_invariant available) (\<lambda>found.
     res_bind (collect_obligation_specs_list dbg rest conditional inside_invariant available) (\<lambda>others.
     Ok (found @ others)))"

definition collect_obligation_specs ::
  "AstDebug \<Rightarrow> Expr \<Rightarrow> bool \<Rightarrow> string set \<Rightarrow> (ContractFailure, ObligationSpec list) result" where
  "collect_obligation_specs dbg expression inside_invariant available =
     collect_obligation_specs_inner dbg expression False inside_invariant available"

definition malformed_level_relation :: "(ContractFailure, 'a) result" where
  "malformed_level_relation =
     obligation_failure ''frontend.python.obligations.level-relation-malformed''
       ''level-order predicates must have the exact form WaitLevel() < Level(object)''"

definition has_event_kind ::
  "ResolvedLevelIntrinsicBindings \<Rightarrow> string \<Rightarrow> LevelIntrinsicEventKind \<Rightarrow> bool" where
  "has_event_kind known name kind \<longleftrightarrow>
     (case event known name of None \<Rightarrow> False | Some e \<Rightarrow> event_kind e = kind)"

text \<open>The right side of a relation whose left side is the canonical \<open>WaitLevel()\<close>.\<close>

definition level_relation_target ::
  "Expr \<Rightarrow> 32 word \<Rightarrow> ResolvedLevelIntrinsicBindings \<Rightarrow> (ContractFailure, LevelSpec list) result" where
  "level_relation_target comparator offset known =
     (case comparator of
        Call level \<Rightarrow>
          (case direct_call_name level of
             None \<Rightarrow> malformed_level_relation
           | Some level_name \<Rightarrow>
               if \<not> has_event_kind known level_name LevelIntrinsicEventKind.Level
               then malformed_level_relation
               else case call_args level of
                 [target] \<Rightarrow>
                   if call_keywords level \<noteq> []
                   then obligation_failure ''frontend.python.obligations.level-keywords-unsupported''
                          ''canonical Level does not accept keyword arguments''
                   else (case identity_path target of
                      None \<Rightarrow> obligation_failure ''frontend.python.obligations.level-dynamic-identity-unsupported''
                                ''Level target must resolve to a stable parameter, local, or attribute path''
                    | Some (root, path) \<Rightarrow>
                        Ok [\<lparr> level_root = root, level_fields = path, level_offset = offset \<rparr>])
               | _ \<Rightarrow> obligation_failure ''frontend.python.obligations.level-arity''
                        ''canonical Level requires exactly one runtime object'')
      | _ \<Rightarrow> malformed_level_relation)"

definition level_relation ::
  "Expr \<Rightarrow> Expr \<Rightarrow> Expr \<Rightarrow> 32 word \<Rightarrow> ResolvedLevelIntrinsicBindings \<Rightarrow> (ContractFailure, LevelSpec list) result" where
  "level_relation expression left_operand comparator offset known =
     (case left_operand of
        Call wait_level \<Rightarrow>
          (case direct_call_name wait_level of
             None \<Rightarrow> malformed_level_relation
           | Some wait_name \<Rightarrow>
               if \<not> has_event_kind known wait_name LevelIntrinsicEventKind.WaitLevel
               then (if expression_contains_level_intrinsic expression known
                     then malformed_level_relation else Ok [])
               else if call_args wait_level \<noteq> [] \<or> call_keywords wait_level \<noteq> []
               then obligation_failure ''frontend.python.obligations.wait-level-arity''
                      ''canonical WaitLevel takes no arguments''
               else level_relation_target comparator offset known)
      | _ \<Rightarrow>
          if expression_contains_level_intrinsic expression known
          then malformed_level_relation else Ok [])"

definition standalone_level_intrinsic ::
  "Expr \<Rightarrow> ResolvedLevelIntrinsicBindings \<Rightarrow> (ContractFailure, LevelSpec list) result" where
  "standalone_level_intrinsic expression known =
     (if expression_contains_level_intrinsic expression known
      then obligation_failure ''frontend.python.obligations.level-intrinsic-standalone''
             ''Level and WaitLevel are verifier intrinsics and must form WaitLevel() < Level(object)''
      else Ok [])"

fun collect_level_specs_inner ::
  "Expr \<Rightarrow> ResolvedLevelIntrinsicBindings \<Rightarrow> (ContractFailure, LevelSpec list) result"
and collect_level_specs_list ::
  "Expr list \<Rightarrow> ResolvedLevelIntrinsicBindings \<Rightarrow> (ContractFailure, LevelSpec list) result" where
  "collect_level_specs_inner (BoolOp op values) known =
     (if op = BoolOp.And then collect_level_specs_list values known
      else standalone_level_intrinsic (BoolOp op values) known)"
| "collect_level_specs_inner (Call (ExprCall func args keywords offset)) known =
     (if func = Name ''Implies''
      then (case args of
              [_, consequence] \<Rightarrow> collect_level_specs_inner consequence known
            | _ \<Rightarrow> obligation_failure ''frontend.python.obligations.level-implies-arity''
                     ''level-order Implies clauses require condition and consequence'')
      else standalone_level_intrinsic (Call (ExprCall func args keywords offset)) known)"
| "collect_level_specs_inner (Compare left ops comparators offset) known =
     (case (ops, comparators) of
        ([CmpOp.Lt], [comparator]) \<Rightarrow>
          level_relation (Compare left ops comparators offset) left comparator offset known
      | _ \<Rightarrow> standalone_level_intrinsic (Compare left ops comparators offset) known)"
| "collect_level_specs_inner expression known = standalone_level_intrinsic expression known"
| "collect_level_specs_list [] known = Ok []"
| "collect_level_specs_list (value # rest) known =
     res_bind (collect_level_specs_inner value known) (\<lambda>found.
     res_bind (collect_level_specs_list rest known) (\<lambda>others.
     Ok (found @ others)))"

definition collect_level_specs ::
  "Expr \<Rightarrow> ResolvedLevelIntrinsicBindings \<Rightarrow> (ContractFailure, LevelSpec list) result" where
  "collect_level_specs expression known = collect_level_specs_inner expression known"

section \<open>Static questions about a loop body\<close>

fun block_increments_name :: "Stmt list \<Rightarrow> string \<Rightarrow> bool"
and statement_increments_name :: "Stmt \<Rightarrow> string \<Rightarrow> bool" where
  "block_increments_name [] expected = False"
| "block_increments_name (statement # rest) expected =
     (statement_increments_name statement expected \<or> block_increments_name rest expected)"
| "statement_increments_name (AugAssign target op value) expected =
     (op = Add \<and> target = Name expected \<and>
      (case eval_int_expression value of None \<Rightarrow> False | Some v \<Rightarrow> v > 0))"
| "statement_increments_name (Stmt.If test body orelse) expected =
     (block_increments_name body expected \<or> block_increments_name orelse expected)"
| "statement_increments_name _ expected = False"

definition decreasing_measure_variable :: "Expr \<Rightarrow> Stmt list \<Rightarrow> string option" where
  "decreasing_measure_variable expression body =
     (case expression of
        BinOp left Sub (Name name) \<Rightarrow> if block_increments_name body name then Some name else None
      | _ \<Rightarrow> None)"

fun obligation_measure_progresses :: "Expr \<Rightarrow> Stmt list \<Rightarrow> bool" where
  "obligation_measure_progresses (BoolOp op values) body =
     (if op = BoolOp.And then list_ex (\<lambda>value. obligation_measure_progresses value body) values else False)"
| "obligation_measure_progresses (Call (ExprCall func args keywords offset)) body =
     (case func of
        Name name \<Rightarrow>
          if name = ''Implies''
          then (case args of _ # consequence # _ \<Rightarrow> obligation_measure_progresses consequence body | _ \<Rightarrow> False)
          else if name \<in> {''MustRelease'', ''MustInvoke'', ''token''}
          then (case args of _ # owed # _ \<Rightarrow> decreasing_measure_variable owed body \<noteq> None | _ \<Rightarrow> False)
          else False
      | _ \<Rightarrow> False)"
| "obligation_measure_progresses _ body = False"

text \<open>
  The searches of a block look at the statements of the block and of its \<open>if\<close> and \<open>try\<close> blocks
  (not at handlers, nor inside loops). \<open>block_any\<close> is that walk with the test of one statement.
\<close>

fun block_any :: "(Stmt \<Rightarrow> bool) \<Rightarrow> Stmt list \<Rightarrow> bool"
and statement_any :: "(Stmt \<Rightarrow> bool) \<Rightarrow> Stmt \<Rightarrow> bool" where
  "block_any p [] = False"
| "block_any p (statement # rest) = (statement_any p statement \<or> block_any p rest)"
| "statement_any p (Stmt.If test body orelse) = (block_any p body \<or> block_any p orelse)"
| "statement_any p (Stmt.Try body handlers orelse finalbody) =
     (block_any p body \<or> block_any p orelse \<or> block_any p finalbody)"
| "statement_any p statement = p statement"

definition calls_method :: "string \<Rightarrow> Stmt \<Rightarrow> bool" where
  "calls_method expected statement =
     (case statement of
        Stmt.Expr (Call call) offset \<Rightarrow>
          (case call_func call of Attribute receiver attr \<Rightarrow> attr = expected | _ \<Rightarrow> False)
      | _ \<Rightarrow> False)"

definition contains_method :: "Stmt list \<Rightarrow> string \<Rightarrow> bool" where
  "contains_method body expected = block_any (calls_method expected) body"

definition contains_open :: "Stmt list \<Rightarrow> bool" where
  "contains_open body =
     block_any (\<lambda>statement.
       case statement of Stmt.Expr (Call call) offset \<Rightarrow> is_direct_call call ''Open'' | _ \<Rightarrow> False) body"

definition called_summary ::
  "ExprCall \<Rightarrow> string \<Rightarrow> (string, FunctionSummary) fmap \<Rightarrow> FunctionSummary option" where
  "called_summary call owner known =
     (case resolved_call_name call owner known of None \<Rightarrow> None | Some called \<Rightarrow> fmlookup known called)"

definition assigns_io_token ::
  "string \<Rightarrow> (string, FunctionSummary) fmap \<Rightarrow> Stmt \<Rightarrow> bool" where
  "assigns_io_token owner known statement =
     (let transforms = (\<lambda>call. case called_summary call owner known of
                                 None \<Rightarrow> False | Some summary \<Rightarrow> sum_io_token_transform summary)
      in case statement of
           Assign targets (Call call) type_comment offset \<Rightarrow> transforms call
         | AnnAssign target annotation (Some (Call call)) offset \<Rightarrow> transforms call
         | _ \<Rightarrow> False)"

definition contains_io_token_transform ::
  "Stmt list \<Rightarrow> string \<Rightarrow> (string, FunctionSummary) fmap \<Rightarrow> bool" where
  "contains_io_token_transform body owner known = block_any (assigns_io_token owner known) body"

definition statement_call :: "Stmt \<Rightarrow> ExprCall option" where
  "statement_call statement =
     (case statement of
        Stmt.Expr (Call call) offset \<Rightarrow> Some call
      | Assign targets (Call call) type_comment offset \<Rightarrow> Some call
      | AnnAssign target annotation (Some (Call call)) offset \<Rightarrow> Some call
      | _ \<Rightarrow> None)"

definition transfers_release ::
  "string \<Rightarrow> (string, FunctionSummary) fmap \<Rightarrow> bool \<Rightarrow> Stmt \<Rightarrow> bool" where
  "transfers_release owner known returned statement =
     (case Option.bind (statement_call statement) (\<lambda>call. called_summary call owner known) of
        None \<Rightarrow> False
      | Some summary \<Rightarrow>
          list_ex (\<lambda>spec. spec_kind spec = Release)
            (if returned then sum_returned summary else sum_required summary))"

definition contains_release_summary ::
  "Stmt list \<Rightarrow> string \<Rightarrow> (string, FunctionSummary) fmap \<Rightarrow> bool \<Rightarrow> bool" where
  "contains_release_summary body owner known returned =
     block_any (transfers_release owner known returned) body"

definition block_recreates_obligation ::
  "Stmt list \<Rightarrow> string \<Rightarrow> (string, FunctionSummary) fmap \<Rightarrow> bool" where
  "block_recreates_obligation body owner known =
     (let consumes_release = contains_method body ''release'' \<or> contains_release_summary body owner known False;
          produces_release = contains_method body ''acquire'' \<or> contains_release_summary body owner known True
      in (consumes_release \<and> produces_release) \<or>
         (contains_open body \<and> contains_io_token_transform body owner known))"

section \<open>Equalities of identities\<close>

fun flatten_and :: "Expr \<Rightarrow> Expr list" where
  "flatten_and (BoolOp op values) =
     (if op = BoolOp.And then concat (map flatten_and values) else [BoolOp op values])"
| "flatten_and expression = [expression]"

definition unify_required_conjunct :: "LedgerState \<Rightarrow> Expr \<Rightarrow> LedgerState" where
  "unify_required_conjunct state conjunct =
     (case conjunct of
        Compare (Name left) [CmpOp.Is] [Name right] offset \<Rightarrow> unify_names left right state
      | _ \<Rightarrow> state)"

definition apply_required_equalities :: "StmtFunctionDef \<Rightarrow> LedgerState \<Rightarrow> LedgerState" where
  "apply_required_equalities func state =
     foldl (\<lambda>state statement.
        case contract_statement statement of
          Some (name, argument) \<Rightarrow>
            if name = ''Requires'' then foldl unify_required_conjunct state (flatten_and argument) else state
        | None \<Rightarrow> state) state (fn_body func)"

definition refine_identity_condition :: "Expr \<Rightarrow> bool \<Rightarrow> LedgerState \<Rightarrow> LedgerState" where
  "refine_identity_condition expression truthy state =
     (case expression of
        Compare (Name left) [op] [Name right] offset \<Rightarrow>
          (let equal_path = ((op = CmpOp.Is) = truthy)
           in if equal_path then unify_names left right state else state)
      | _ \<Rightarrow> state)"

definition instantiate_state_spec_identity :: "ObligationSpec \<Rightarrow> LedgerState \<Rightarrow> string option" where
  "instantiate_state_spec_identity spec state =
     (case fmlookup (aliases state) (spec_root spec) of
        None \<Rightarrow> None
      | Some identity \<Rightarrow> Some (push_fields identity (spec_fields spec)))"

definition instantiated_root ::
  "string \<Rightarrow> FunctionSummary \<Rightarrow> Expr list \<Rightarrow> LedgerState \<Rightarrow> string option" where
  "instantiated_root root summary arguments state =
     (if arguments = [] then fmlookup (aliases state) root
      else case position (\<lambda>parameter. parameter = root) (sum_parameters summary) of
        None \<Rightarrow> None
      | Some parameter_index \<Rightarrow>
          (case get_at arguments parameter_index of
             None \<Rightarrow> None
           | Some argument \<Rightarrow> identity_of state argument))"

definition instantiate_spec_identity ::
  "ObligationSpec \<Rightarrow> FunctionSummary \<Rightarrow> Expr list \<Rightarrow> LedgerState \<Rightarrow> string option" where
  "instantiate_spec_identity spec summary arguments state =
     (case instantiated_root (spec_root spec) summary arguments state of
        None \<Rightarrow> None
      | Some identity \<Rightarrow> Some (push_fields identity (spec_fields spec)))"

definition instantiate_level_identity ::
  "LevelSpec \<Rightarrow> FunctionSummary \<Rightarrow> Expr list \<Rightarrow> LedgerState \<Rightarrow> LevelIdentity option" where
  "instantiate_level_identity spec summary arguments state =
     (case instantiated_root (level_root spec) summary arguments state of
        None \<Rightarrow> None
      | Some identity \<Rightarrow> Some (certify_resolved_object (push_fields identity (level_fields spec))))"

end
