(* ===== verification/Obligation_Summaries.thy ===== *)
theory Obligation_Summaries
  imports Obligation_Contracts
begin

text \<open>
  What the analyzer knows of a module before it walks any function
  (\<^verbatim>\<open>src/src/python_obligation_leaks.rs\<close>): the names bound to the canonical obligation primitives, the
  lock classes closed under inheritance, the lock fields of each class, and the contract summary
  of every function and method. The closure of the lock classes is a loop that runs while a pass
  over the module adds a class; it is shown to end with the least closed set.
\<close>

section \<open>Bound names\<close>

fun name_target :: "Expr \<Rightarrow> string option" where
  "name_target (Name name) = Some name"
| "name_target _ = None"

definition top_level_bound_names :: "Stmt \<Rightarrow> string list" where
  "top_level_bound_names statement =
     (case statement of
        FunctionDef func \<Rightarrow> [fn_name func]
      | ClassDef name bases body \<Rightarrow> [name]
      | Assign targets value type_comment offset \<Rightarrow> List.map_filter name_target targets
      | AnnAssign target annotation value offset \<Rightarrow>
          (case name_target target of Some name \<Rightarrow> [name] | None \<Rightarrow> [])
      | AugAssign target op value \<Rightarrow>
          (case name_target target of Some name \<Rightarrow> [name] | None \<Rightarrow> [])
      | _ \<Rightarrow> [])"

definition all_arguments :: "StmtFunctionDef \<Rightarrow> (string \<times> Expr option) list" where
  "all_arguments func = fn_posonlyargs func @ fn_args func @ fn_kwonlyargs func"

text \<open>The nested function \<open>collect\<close> of \<open>function_local_bound_names\<close>.\<close>

fun block_bound_names :: "Stmt list \<Rightarrow> string set"
and statement_bound_names :: "Stmt \<Rightarrow> string set" where
  "block_bound_names [] = {}"
| "block_bound_names (statement # rest) = statement_bound_names statement \<union> block_bound_names rest"
| "statement_bound_names (Assign targets value type_comment offset) =
     set (List.map_filter name_target targets)"
| "statement_bound_names (AnnAssign target annotation value offset) =
     (case name_target target of Some name \<Rightarrow> {name} | None \<Rightarrow> {})"
| "statement_bound_names (Stmt.If test body orelse) = block_bound_names body \<union> block_bound_names orelse"
| "statement_bound_names (While test body orelse offset) = block_bound_names body \<union> block_bound_names orelse"
| "statement_bound_names (For body orelse offset) = block_bound_names body \<union> block_bound_names orelse"
| "statement_bound_names (Stmt.Try body handlers orelse finalbody) =
     block_bound_names body \<union> block_bound_names orelse \<union> block_bound_names finalbody"
| "statement_bound_names _ = {}"

definition function_local_bound_names :: "StmtFunctionDef \<Rightarrow> string set" where
  "function_local_bound_names func = set (map fst (all_arguments func)) \<union> block_bound_names (fn_body func)"

section \<open>Text that names a lock class\<close>

definition is_white_space :: "char \<Rightarrow> bool" where
  "is_white_space c \<longleftrightarrow> c \<in> {CHR 0x09, CHR 0x0A, CHR 0x0B, CHR 0x0C, CHR 0x0D, CHR '' ''}"

definition trim :: "string \<Rightarrow> string" where
  "trim text = rev (dropWhile is_white_space (rev (dropWhile is_white_space text)))"

definition strip_start :: "string \<Rightarrow> string \<Rightarrow> string option" where
  "strip_start start text =
     (if take (length start) text = start then Some (drop (length start) text) else None)"

definition strip_end :: "char \<Rightarrow> string \<Rightarrow> string option" where
  "strip_end c text = (if text \<noteq> [] \<and> last text = c then Some (butlast text) else None)"

fun split_on :: "char \<Rightarrow> string \<Rightarrow> string list" where
  "split_on c [] = [[]]"
| "split_on c (x # xs) =
     (if x = c then [] # split_on c xs
      else case split_on c xs of [] \<Rightarrow> [[x]] | part # parts \<Rightarrow> (x # part) # parts)"

text \<open>What stands between the brackets of \<open>wrapper[...]\<close>.\<close>

definition wrapped :: "string \<Rightarrow> string \<Rightarrow> string option" where
  "wrapped wrapper text =
     Option.bind (strip_start wrapper text) (\<lambda>rest.
     Option.bind (strip_start ''['' rest) (strip_end (CHR '']'')))"

lemma trim_length: "length (trim text) \<le> length text"
proof -
  have "length (dropWhile is_white_space (rev (dropWhile is_white_space text)))
          \<le> length (rev (dropWhile is_white_space text))"
    by (rule length_dropWhile_le)
  also have "\<dots> \<le> length text" by (simp add: length_dropWhile_le)
  finally show ?thesis by (simp add: trim_def)
qed

lemma split_on_length: "part \<in> set (split_on c s) \<Longrightarrow> length part \<le> length s"
proof (induction s arbitrary: part)
  case Nil
  then show ?case by simp
next
  case (Cons x xs)
  then show ?case by (fastforce split: if_splits list.splits intro: le_SucI)
qed

lemma wrapped_length: "wrapped wrapper text = Some inner \<Longrightarrow> length inner < length text"
  by (auto simp: wrapped_def strip_start_def strip_end_def bind_eq_Some_conv split: if_splits)

function type_text_names_lock_class :: "string \<Rightarrow> string set \<Rightarrow> bool" where
  "type_text_names_lock_class text classes \<longleftrightarrow>
     trim text \<in> classes \<or>
     list_ex (\<lambda>wrapper.
       case wrapped wrapper (trim text) of
         None \<Rightarrow> False
       | Some inner \<Rightarrow> list_ex (\<lambda>part. type_text_names_lock_class part classes) (split_on (CHR '','') inner))
       [''Optional'', ''Union'']"
  by pat_completeness auto
termination
proof (relation "measure (\<lambda>(text, classes). length text)", goal_cases)
  case 1
  then show ?case by simp
next
  case (2 s classes wrapper inner part)
  have "length part \<le> length inner" using 2 split_on_length by blast
  also have "length inner < length (trim s)" using 2 wrapped_length by blast
  also have "length (trim s) \<le> length s" by (rule trim_length)
  finally show ?case by simp
qed

declare type_text_names_lock_class.simps [simp del]

fun annotation_names_lock_class :: "Expr \<Rightarrow> string set \<Rightarrow> bool" where
  "annotation_names_lock_class (Name name) classes = (name \<in> classes)"
| "annotation_names_lock_class (Subscript value index) classes =
     (annotation_names_lock_class value classes \<or> annotation_names_lock_class index classes)"
| "annotation_names_lock_class (Constant (Str value)) classes = type_text_names_lock_class value classes"
| "annotation_names_lock_class _ classes = False"

section \<open>Canonical bindings\<close>

definition exported_names :: "string \<Rightarrow> string list" where
  "exported_names module =
     (if module = ''nagini_contracts.obligations'' then [''MustRelease'', ''MustTerminate'']
      else if module = ''nagini_contracts.io_contracts'' then [''token'', ''Open'']
      else if module = ''nagini_contracts.lock'' then [''Lock'']
      else [])"

definition bind_exported :: "CanonicalBindings \<Rightarrow> string \<Rightarrow> CanonicalBindings" where
  "bind_exported known name =
     (if name = ''Lock'' then known \<lparr> lock_classes := insert name (lock_classes known) \<rparr>
      else known \<lparr> primitives := insert name (primitives known) \<rparr>)"

definition bind_alias :: "string list \<Rightarrow> CanonicalBindings \<Rightarrow> string \<times> string option \<Rightarrow> CanonicalBindings" where
  "bind_alias exported known alias =
     (if fst alias = ''*'' then foldl bind_exported known exported
      else if snd alias = None \<and> fst alias \<in> set exported then bind_exported known (fst alias)
      else known)"

definition unbind_name :: "CanonicalBindings \<Rightarrow> string \<Rightarrow> CanonicalBindings" where
  "unbind_name known name =
     known \<lparr> primitives := Set.remove name (primitives known),
             lock_classes := Set.remove name (lock_classes known) \<rparr>"

definition is_absolute :: "nat option \<Rightarrow> bool" where
  "is_absolute level \<longleftrightarrow> (case level of None \<Rightarrow> True | Some l \<Rightarrow> l = 0)"

definition bind_statement :: "CanonicalBindings \<Rightarrow> Stmt \<Rightarrow> CanonicalBindings" where
  "bind_statement known statement =
     (case statement of
        ImportFrom (Some module) level names \<Rightarrow>
          if is_absolute level then foldl (bind_alias (exported_names module)) known names
          else foldl unbind_name known (top_level_bound_names statement)
      | _ \<Rightarrow> foldl unbind_name known (top_level_bound_names statement))"

text \<open>One pass of the loop \<open>while changed\<close>, and the loop.\<close>

definition lock_class_step :: "string set \<times> bool \<Rightarrow> Stmt \<Rightarrow> string set \<times> bool" where
  "lock_class_step pass statement =
     (case statement of
        ClassDef name bases body \<Rightarrow>
          if list_ex (\<lambda>base. annotation_names_lock_class base (fst pass)) bases \<and> name \<notin> fst pass
          then (insert name (fst pass), True) else pass
      | _ \<Rightarrow> pass)"

definition lock_class_pass :: "Stmt list \<Rightarrow> string set \<Rightarrow> string set \<times> bool" where
  "lock_class_pass suite classes = foldl lock_class_step (classes, False) suite"

fun class_name :: "Stmt \<Rightarrow> string option" where
  "class_name (ClassDef name bases body) = Some name"
| "class_name _ = None"

definition class_names :: "Stmt list \<Rightarrow> string set" where
  "class_names suite = set (List.map_filter class_name suite)"

lemma lock_class_foldl:
  assumes "foldl lock_class_step (classes, changed) suite = (classes', changed')"
  shows "classes \<subseteq> classes' \<and> classes' \<subseteq> classes \<union> class_names suite \<and>
         (changed' \<longleftrightarrow> changed \<or> classes' \<noteq> classes)"
  using assms
proof (induction suite arbitrary: classes changed)
  case Nil
  then show ?case by simp
next
  case (Cons statement suite)
  obtain c1 b1 where step: "lock_class_step (classes, changed) statement = (c1, b1)" by fastforce
  have one: "classes \<subseteq> c1 \<and> c1 \<subseteq> classes \<union> class_names [statement] \<and> (b1 \<longleftrightarrow> changed \<or> c1 \<noteq> classes)"
    using step by (cases statement) (auto simp: lock_class_step_def class_names_def map_filter_simps split: if_splits)
  have "foldl lock_class_step (c1, b1) suite = (classes', changed')"
    using Cons.prems step by simp
  from Cons.IH [OF this] one show ?case
    by (auto simp: class_names_def map_filter_simps split: option.splits)
qed

function close_lock_classes :: "Stmt list \<Rightarrow> string set \<Rightarrow> string set" where
  "close_lock_classes suite classes =
     (case lock_class_pass suite classes of
        (classes', changed) \<Rightarrow> if changed then close_lock_classes suite classes' else classes')"
  by pat_completeness auto
termination
proof (relation "measure (\<lambda>(suite, classes). card (class_names suite - classes))", goal_cases)
  case 1
  then show ?case by simp
next
  case (2 suite classes classes' changed)
  then have "foldl lock_class_step (classes, False) suite = (classes', True)"
    by (simp add: lock_class_pass_def)
  from lock_class_foldl [OF this]
  have "class_names suite - classes' \<subset> class_names suite - classes" by blast
  then show ?case
    by (simp add: class_names_def psubset_card_mono)
qed

declare close_lock_classes.simps [simp del]

section \<open>Lock fields\<close>

fun self_attribute :: "Expr \<Rightarrow> string option" where
  "self_attribute (Attribute (Name receiver) attr) = (if receiver = ''self'' then Some attr else None)"
| "self_attribute _ = None"

definition constructs_lock :: "Expr \<Rightarrow> string set \<Rightarrow> bool" where
  "constructs_lock value classes =
     (case value of
        Call call \<Rightarrow> (case direct_call_name call of None \<Rightarrow> False | Some name \<Rightarrow> name \<in> classes)
      | _ \<Rightarrow> False)"

text \<open>A statement of \<open>__init__\<close>.\<close>

definition init_lock_field :: "string set \<Rightarrow> string set \<Rightarrow> Stmt \<Rightarrow> string set" where
  "init_lock_field classes found statement =
     (case statement of
        AnnAssign target annotation value offset \<Rightarrow>
          if annotation_names_lock_class annotation classes
          then (case self_attribute target of Some attr \<Rightarrow> insert attr found | None \<Rightarrow> found)
          else found
      | Assign targets value type_comment offset \<Rightarrow>
          (let attrs = List.map_filter self_attribute targets
           in if case type_comment of
                   None \<Rightarrow> False | Some comment \<Rightarrow> type_text_names_lock_class comment classes
              then foldl (\<lambda>found attr. insert attr found) found attrs
              else if constructs_lock value classes
              then foldl (\<lambda>found attr. insert attr found) found attrs
              else foldl (\<lambda>found attr. Set.remove attr found) found attrs)
      | AugAssign target op value \<Rightarrow>
          (case self_attribute target of Some attr \<Rightarrow> Set.remove attr found | None \<Rightarrow> found)
      | _ \<Rightarrow> found)"

definition class_lock_field :: "string set \<Rightarrow> string set \<Rightarrow> Stmt \<Rightarrow> string set" where
  "class_lock_field classes found statement =
     (case statement of
        AnnAssign target annotation value offset \<Rightarrow>
          (case name_target target of
             Some name \<Rightarrow> if annotation_names_lock_class annotation classes then insert name found else found
           | None \<Rightarrow> found)
      | FunctionDef func \<Rightarrow>
          if fn_name func = ''__init__'' then foldl (init_lock_field classes) found (fn_body func) else found
      | _ \<Rightarrow> found)"

definition class_lock_fields :: "Stmt list \<Rightarrow> string set \<Rightarrow> string set" where
  "class_lock_fields body classes = foldl (class_lock_field classes) {} body"

definition bind_lock_fields :: "string set \<Rightarrow> (string, string set) fmap \<Rightarrow> Stmt \<Rightarrow> (string, string set) fmap" where
  "bind_lock_fields classes known statement =
     (case statement of
        ClassDef name bases body \<Rightarrow>
          (let found = class_lock_fields body classes
           in if found \<noteq> {} then fmupd name found known else known)
      | _ \<Rightarrow> known)"

definition default_bindings :: CanonicalBindings where
  "default_bindings =
     \<lparr> primitives = {}, lock_classes = {}, lock_fields = fmempty, level_intrinsics = \<lparr> by_local_name = fmempty \<rparr> \<rparr>"

definition canonical_bindings :: "Stmt list \<Rightarrow> CanonicalBindings" where
  "canonical_bindings suite =
     (let known = foldl bind_statement default_bindings suite;
          classes = close_lock_classes suite (lock_classes known)
      in known \<lparr> lock_classes := classes,
                 lock_fields := foldl (bind_lock_fields classes) (lock_fields known) suite \<rparr>)"

section \<open>Function summaries\<close>

definition default_summary :: FunctionSummary where
  "default_summary =
     \<lparr> sum_parameters = [], sum_lock_parameters = {}, sum_required = [], sum_returned = [],
       sum_required_levels = [], sum_returned_levels = [], sum_terminates = False,
       sum_termination_measure = None, sum_io_token_transform = False,
       sum_level_intrinsics = \<lparr> by_local_name = fmempty \<rparr> \<rparr>"

definition is_io_contract :: "Stmt \<Rightarrow> bool" where
  "is_io_contract statement \<longleftrightarrow>
     (case statement of
        Stmt.Expr value offset \<Rightarrow>
          list_all (expression_contains_call value) [''IOExists1'', ''Requires'', ''Ensures'', ''token'', ''Result'']
      | _ \<Rightarrow> False)"

definition lock_parameter_names :: "StmtFunctionDef \<Rightarrow> string set \<Rightarrow> string set" where
  "lock_parameter_names func classes =
     set (map fst (filter (\<lambda>(name, annotation).
        case annotation of None \<Rightarrow> False | Some a \<Rightarrow> annotation_names_lock_class a classes) (all_arguments func)))"

fun strengthen_measure ::
  "Measure list \<Rightarrow> Measure option \<Rightarrow> (ContractFailure, Measure option) result" where
  "strengthen_measure [] strongest = Ok strongest"
| "strengthen_measure (owed # rest) strongest =
     res_bind (stronger_measure strongest (Some owed)) (strengthen_measure rest)"

text \<open>A contract statement adds to the summary.\<close>

definition summarize_statement ::
  "AstDebug \<Rightarrow> string set \<Rightarrow> ResolvedLevelIntrinsicBindings \<Rightarrow> Stmt \<Rightarrow> FunctionSummary \<Rightarrow>
     (ContractFailure, FunctionSummary) result" where
  "summarize_statement dbg available known statement summary =
     (case contract_statement statement of
        None \<Rightarrow> Ok summary
      | Some (contract_name, argument) \<Rightarrow>
          if contract_name = ''Requires'' then
            (let terminates = sum_terminates summary \<or>
                   (''MustTerminate'' \<in> available \<and> expression_contains_call argument ''MustTerminate'')
             in res_bind (strengthen_measure
                            (collect_named_call_measures dbg argument ''MustTerminate'' available)
                            (sum_termination_measure summary)) (\<lambda>strongest.
                res_bind (collect_obligation_specs dbg argument False available) (\<lambda>required.
                res_bind (collect_level_specs argument known) (\<lambda>required_levels.
                Ok (summary \<lparr> sum_terminates := terminates,
                              sum_termination_measure := strongest,
                              sum_required := sum_required summary @ required,
                              sum_required_levels := sum_required_levels summary @ required_levels \<rparr>)))))
          else if contract_name = ''Ensures'' then
            res_bind (collect_obligation_specs dbg argument False available) (\<lambda>returned.
            res_bind (collect_level_specs argument known) (\<lambda>returned_levels.
            Ok (summary \<lparr> sum_returned := sum_returned summary @ returned,
                          sum_returned_levels := sum_returned_levels summary @ returned_levels \<rparr>)))
          else Ok summary)"

definition remove_local_bindings ::
  "string set \<Rightarrow> ResolvedLevelIntrinsicBindings \<Rightarrow> ResolvedLevelIntrinsicBindings" where
  "remove_local_bindings locals known = foldl remove_local_binding known (sorted_list_of_set locals)"

definition summarize_function ::
  "AstDebug \<Rightarrow> StmtFunctionDef \<Rightarrow> CanonicalBindings \<Rightarrow> (ContractFailure, FunctionSummary) result" where
  "summarize_function dbg func known =
     (let locals = function_local_bound_names func;
          available = primitives known - locals;
          intrinsics = remove_local_bindings locals (level_intrinsics known);
          summary = default_summary
            \<lparr> sum_parameters := map fst (all_arguments func),
              sum_lock_parameters := lock_parameter_names func (lock_classes known),
              sum_io_token_transform := list_ex is_io_contract (fn_body func),
              sum_level_intrinsics := intrinsics \<rparr>
      in sticky_loop (summarize_statement dbg available intrinsics) (fn_body func) summary)"

definition method_owner :: "string \<Rightarrow> StmtFunctionDef \<Rightarrow> string" where
  "method_owner cls func = cls @ ''.'' @ fn_name func"

fun functions_of_class :: "string \<Rightarrow> Stmt list \<Rightarrow> (string \<times> StmtFunctionDef) list" where
  "functions_of_class cls [] = []"
| "functions_of_class cls (FunctionDef func # rest) = (method_owner cls func, func) # functions_of_class cls rest"
| "functions_of_class cls (_ # rest) = functions_of_class cls rest"

text \<open>The functions and methods of a module with their owner names, in source order.\<close>

fun functions_of_suite :: "Stmt list \<Rightarrow> (string \<times> StmtFunctionDef) list" where
  "functions_of_suite [] = []"
| "functions_of_suite (FunctionDef func # rest) = (fn_name func, func) # functions_of_suite rest"
| "functions_of_suite (ClassDef cls bases body # rest) = functions_of_class cls body @ functions_of_suite rest"
| "functions_of_suite (_ # rest) = functions_of_suite rest"

definition collect_function_summaries ::
  "AstDebug \<Rightarrow> Stmt list \<Rightarrow> CanonicalBindings \<Rightarrow>
     (ContractFailure, (string, FunctionSummary) fmap) result" where
  "collect_function_summaries dbg suite known =
     sticky_loop (\<lambda>(owner, func) collected.
        res_bind (summarize_function dbg func known) (\<lambda>summary. Ok (fmupd owner summary collected)))
       (functions_of_suite suite) fmempty"

section \<open>Rebound level intrinsics\<close>

definition last_index :: "('a \<Rightarrow> bool) \<Rightarrow> 'a list \<Rightarrow> nat option" where
  "last_index p xs =
     (case filter (\<lambda>i. p (xs ! i)) [0..<length xs] of [] \<Rightarrow> None | i # rest \<Rightarrow> Some (last (i # rest)))"

definition imports_intrinsic :: "string \<Rightarrow> Stmt \<Rightarrow> bool" where
  "imports_intrinsic local_name statement \<longleftrightarrow>
     (case statement of
        ImportFrom module level names \<Rightarrow>
          is_absolute level \<and> module = Some CANONICAL_OBLIGATIONS_MODULE \<and>
          list_ex (\<lambda>(name, asname).
            name = ''*'' \<or> (case asname of None \<Rightarrow> name | Some bound \<Rightarrow> bound) = local_name) names
      | _ \<Rightarrow> False)"

definition is_import_from :: "Stmt \<Rightarrow> bool" where
  "is_import_from statement \<longleftrightarrow> (case statement of ImportFrom _ _ _ \<Rightarrow> True | _ \<Rightarrow> False)"

definition rebinds :: "string \<Rightarrow> Stmt \<Rightarrow> bool" where
  "rebinds local_name statement \<longleftrightarrow>
     \<not> is_import_from statement \<and> local_name \<in> set (top_level_bound_names statement)"

definition invalidate_rebound_name ::
  "Stmt list \<Rightarrow> ResolvedLevelIntrinsicBindings \<Rightarrow> string \<Rightarrow> ResolvedLevelIntrinsicBindings" where
  "invalidate_rebound_name suite known local_name =
     (case last_index (rebinds local_name) suite of
        None \<Rightarrow> known
      | Some rebind \<Rightarrow>
          if (case last_index (imports_intrinsic local_name) suite of
                None \<Rightarrow> True | Some imported \<Rightarrow> rebind > imported)
          then remove_local_binding known local_name else known)"

definition invalidate_rebound_level_intrinsics ::
  "Stmt list \<Rightarrow> ResolvedLevelIntrinsicBindings \<Rightarrow> ResolvedLevelIntrinsicBindings" where
  "invalidate_rebound_level_intrinsics suite known =
     foldl (invalidate_rebound_name suite) known
       (sorted_list_of_set (set (concat (map top_level_bound_names suite))))"

section \<open>Lock operations with a proven receiver\<close>

definition assigned_lock :: "string set \<Rightarrow> Stmt \<Rightarrow> string option" where
  "assigned_lock classes statement =
     (case statement of
        Assign [Name target] value type_comment offset \<Rightarrow>
          if constructs_lock value classes then Some target else None
      | _ \<Rightarrow> None)"

definition receiver_is_lock :: "Expr \<Rightarrow> string set \<Rightarrow> string option \<Rightarrow> CanonicalBindings \<Rightarrow> bool" where
  "receiver_is_lock receiver lock_roots cls known =
     (case receiver of
        Name name \<Rightarrow> name \<in> lock_roots
      | Attribute value attr \<Rightarrow>
          value = Name ''self'' \<and>
          (case Option.bind cls (fmlookup (lock_fields known)) of None \<Rightarrow> False | Some found \<Rightarrow> attr \<in> found)
      | _ \<Rightarrow> False)"

fun statements_contain :: "Stmt list \<Rightarrow> string set \<Rightarrow> string option \<Rightarrow> CanonicalBindings \<Rightarrow> bool"
and statement_contains :: "Stmt \<Rightarrow> string set \<Rightarrow> string option \<Rightarrow> CanonicalBindings \<Rightarrow> bool" where
  "statements_contain [] lock_roots cls known = False"
| "statements_contain (statement # rest) lock_roots cls known =
     (statement_contains statement lock_roots cls known \<or> statements_contain rest lock_roots cls known)"
| "statement_contains (Stmt.Expr value offset) lock_roots cls known =
     (case value of
        Call call \<Rightarrow>
          (case call_func call of
             Attribute receiver attr \<Rightarrow>
               attr \<in> {''acquire'', ''release''} \<and> receiver_is_lock receiver lock_roots cls known
           | _ \<Rightarrow> False)
      | _ \<Rightarrow> False)"
| "statement_contains (Stmt.If test body orelse) lock_roots cls known =
     (statements_contain body lock_roots cls known \<or> statements_contain orelse lock_roots cls known)"
| "statement_contains (While test body orelse offset) lock_roots cls known =
     (statements_contain body lock_roots cls known \<or> statements_contain orelse lock_roots cls known)"
| "statement_contains (For body orelse offset) lock_roots cls known =
     (statements_contain body lock_roots cls known \<or> statements_contain orelse lock_roots cls known)"
| "statement_contains (Stmt.Try body handlers orelse finalbody) lock_roots cls known =
     (statements_contain body lock_roots cls known \<or> statements_contain orelse lock_roots cls known \<or>
      statements_contain finalbody lock_roots cls known)"
| "statement_contains _ lock_roots cls known = False"

definition function_contains ::
  "StmtFunctionDef \<Rightarrow> string \<Rightarrow> FunctionSummary \<Rightarrow> CanonicalBindings \<Rightarrow> bool" where
  "function_contains func owner summary known =
     (let lock_roots = sum_lock_parameters summary \<union>
            set (List.map_filter (assigned_lock (lock_classes known)) (fn_body func));
          cls = map_option fst (split_once (CHR ''.'') owner)
      in statements_contain (fn_body func) lock_roots cls known)"

definition suite_contains_proven_lock_operation ::
  "Stmt list \<Rightarrow> (string, FunctionSummary) fmap \<Rightarrow> CanonicalBindings \<Rightarrow> bool" where
  "suite_contains_proven_lock_operation suite collected known =
     list_ex (\<lambda>(owner, func).
       case fmlookup collected owner of
         None \<Rightarrow> False
       | Some summary \<Rightarrow> function_contains func owner summary known) (functions_of_suite suite)"

end
