(* ===== verification/Obligation_Execution.thy ===== *)
theory Obligation_Execution
  imports Obligation_Summaries Rust_Text
begin

text \<open>
  The path-sensitive execution of a function body (\<^verbatim>\<open>src/src/python_obligation_leaks.rs\<close>): a statement
  turns one ledger into the ledgers of its exits, a block threads every path that is still in
  normal flow through its statements, a loop is cut by its invariants, and \<open>try\<close> sends each path
  to the handler that catches it and then through \<open>finally\<close>. The analyzer is threaded through
  all of them; a failure ends the analysis. \<open>execute_block\<close> and \<open>execute_statement\<close> recurse on the
  syntax tree only.
\<close>

type_synonym outcome = "(ContractFailure, Analyzer \<times> LedgerState list) result"

section \<open>Simple statements\<close>

definition unsupported_dynamic_identity :: "AstDebug \<Rightarrow> Stmt \<Rightarrow> (ContractFailure, 'a) result" where
  "unsupported_dynamic_identity dbg statement =
     obligation_failure ''frontend.python.obligations.dynamic-identity-unsupported''
       (''statement at '' @ debug_range dbg statement @
        '' changes an obligation identity through unsupported dynamic syntax'')"

definition set_flow :: "Flow \<Rightarrow> LedgerState \<Rightarrow> LedgerState" where
  "set_flow f state = state \<lparr> flow := f \<rparr>"

definition bind_alias_to :: "string \<Rightarrow> string \<Rightarrow> LedgerState \<Rightarrow> LedgerState" where
  "bind_alias_to target identity state = state \<lparr> aliases := fmupd target identity (aliases state) \<rparr>"

definition own_lock :: "string \<Rightarrow> LedgerState \<Rightarrow> LedgerState" where
  "own_lock identity state =
     state \<lparr> lock_identities := insert identity (lock_identities state),
             levels := snd (assert_current_below (certify_resolved_object identity) (levels state)) \<rparr>"

definition disown_lock :: "string \<Rightarrow> LedgerState \<Rightarrow> LedgerState" where
  "disown_lock identity state =
     state \<lparr> lock_identities := Set.remove identity (lock_identities state),
             levels := forget_identity (certify_resolved_object identity) (levels state) \<rparr>"

definition constructor_call :: "Expr \<Rightarrow> bool" where
  "constructor_call value \<longleftrightarrow>
     (case value of
        Call call \<Rightarrow> (case direct_call_name call of None \<Rightarrow> False | Some name \<Rightarrow> is_constructor_name name)
      | _ \<Rightarrow> False)"

text \<open>A plain assignment does not apply calls of constructors and of \<open>object\<close>.\<close>

definition assigned_call :: "Expr \<Rightarrow> ExprCall option" where
  "assigned_call value =
     (case value of
        Call call \<Rightarrow>
          (case direct_call_name call of
             None \<Rightarrow> Some call
           | Some name \<Rightarrow> if \<not> is_constructor_name name \<and> name \<noteq> ''object'' then Some call else None)
      | _ \<Rightarrow> None)"

definition assign_attribute :: "bool \<Rightarrow> LedgerState \<Rightarrow> Expr \<Rightarrow> LedgerState" where
  "assign_attribute assigns_canonical_lock state target =
     (case target of
        Attribute receiver attr \<Rightarrow>
          (case identity_of state target of
             None \<Rightarrow> state
           | Some identity \<Rightarrow>
               if assigns_canonical_lock then own_lock identity state else disown_lock identity state)
      | _ \<Rightarrow> state)"

definition assign_name ::
  "bool \<Rightarrow> string \<Rightarrow> Expr \<Rightarrow> 32 word \<Rightarrow> string \<Rightarrow> LedgerState \<Rightarrow> LedgerState" where
  "assign_name assigns_canonical_lock target value offset owner state =
     (case identity_of state value of
        Some identity \<Rightarrow> bind_alias_to target identity state
      | None \<Rightarrow>
          if constructor_call value
          then (let identity = owner @ ''::'' @ target @ ''@'' @ decimal (unat offset)
                in bind_alias_to target identity
                     (if assigns_canonical_lock then own_lock identity state else state))
          else case fmlookup (aliases state) target of
            None \<Rightarrow> state
          | Some identity \<Rightarrow> disown_lock identity (state \<lparr> aliases := fmdrop target (aliases state) \<rparr>))"

definition is_path_target :: "Expr \<Rightarrow> bool" where
  "is_path_target target \<longleftrightarrow>
     (case target of Attribute _ _ \<Rightarrow> True | Subscript _ _ \<Rightarrow> True | _ \<Rightarrow> False)"

definition apply_optional_call ::
  "ExprCall option \<Rightarrow> string \<Rightarrow> 32 word \<Rightarrow> Analyzer \<times> LedgerState \<Rightarrow>
     (ContractFailure, Analyzer \<times> LedgerState) result" where
  "apply_optional_call called owner offset st =
     (case called of None \<Rightarrow> Ok st | Some call \<Rightarrow> apply_call call owner offset st)"

definition execute_assign ::
  "AstDebug \<Rightarrow> Stmt \<Rightarrow> Expr list \<Rightarrow> Expr \<Rightarrow> 32 word \<Rightarrow> string \<Rightarrow> LedgerState \<Rightarrow> Analyzer \<Rightarrow> outcome" where
  "execute_assign dbg statement targets value offset owner state analyzer =
     res_bind (apply_optional_call (assigned_call value) owner offset (analyzer, state)) (\<lambda>(analyzer, state).
       (let assigns_canonical_lock = constructs_lock value (lock_classes (bindings analyzer));
            state = foldl (assign_attribute assigns_canonical_lock) state targets
        in case targets of
             [Name target] \<Rightarrow>
               Ok (analyzer, [assign_name assigns_canonical_lock target value offset owner state])
           | _ \<Rightarrow>
               if \<not> list_all is_path_target targets then unsupported_dynamic_identity dbg statement
               else Ok (analyzer, [state])))"

definition execute_ann_assign ::
  "Expr \<Rightarrow> Expr option \<Rightarrow> 32 word \<Rightarrow> string \<Rightarrow> LedgerState \<Rightarrow> Analyzer \<Rightarrow> outcome" where
  "execute_ann_assign target value offset owner state analyzer =
     (case (target, value) of
        (Name name, Some v) \<Rightarrow>
          res_bind (apply_optional_call (case v of Call call \<Rightarrow> Some call | _ \<Rightarrow> None) owner offset (analyzer, state))
            (\<lambda>(analyzer, state). Ok (analyzer,
               [case identity_of state v of
                  Some identity \<Rightarrow> bind_alias_to name identity state
                | None \<Rightarrow> state]))
      | _ \<Rightarrow> Ok (analyzer, [state]))"

definition is_false_literal :: "Expr \<Rightarrow> bool" where
  "is_false_literal expression \<longleftrightarrow> expression = Constant (Constant.Bool False)"

definition is_true_literal :: "Expr \<Rightarrow> bool" where
  "is_true_literal expression \<longleftrightarrow> expression = Constant (Constant.Bool True)"

definition execute_expression ::
  "Stmt \<Rightarrow> Expr \<Rightarrow> 32 word \<Rightarrow> string \<Rightarrow> LedgerState \<Rightarrow> Analyzer \<Rightarrow> outcome" where
  "execute_expression statement value offset owner state analyzer =
     (if is_contract_statement statement then Ok (analyzer, [state])
      else case value of
        Call call \<Rightarrow>
          if is_direct_call call ''Assert'' \<and>
             (case call_args call of [argument] \<Rightarrow> is_false_literal argument | _ \<Rightarrow> False)
          then Ok (analyzer, [set_flow Flow.Unreachable state])
          else res_bind (apply_call call owner offset (analyzer, state))
                 (\<lambda>(analyzer, state). Ok (analyzer, [state]))
      | _ \<Rightarrow> Ok (analyzer, [state]))"

text \<open>The arms of \<open>execute_statement\<close> that do not walk into blocks.\<close>

definition execute_simple :: "AstDebug \<Rightarrow> Stmt \<Rightarrow> string \<Rightarrow> LedgerState \<Rightarrow> Analyzer \<Rightarrow> outcome" where
  "execute_simple dbg statement owner state analyzer =
     (case statement of
        Pass \<Rightarrow> Ok (analyzer, [state])
      | Import \<Rightarrow> Ok (analyzer, [state])
      | ImportFrom _ _ _ \<Rightarrow> Ok (analyzer, [state])
      | Assign targets value type_comment offset \<Rightarrow>
          execute_assign dbg statement targets value offset owner state analyzer
      | AnnAssign target annotation value offset \<Rightarrow>
          execute_ann_assign target value offset owner state analyzer
      | AugAssign _ _ _ \<Rightarrow> Ok (analyzer, [state])
      | Stmt.Expr value offset \<Rightarrow> execute_expression statement value offset owner state analyzer
      | Stmt.Return \<Rightarrow> Ok (analyzer, [set_flow Flow.Return state])
      | Stmt.Raise raised \<Rightarrow>
          Ok (analyzer, [set_flow (Flow.Raise
            (case Option.bind raised exception_name of
               None \<Rightarrow> ''BaseException'' | Some name \<Rightarrow> name)) state])
      | Stmt.Break \<Rightarrow> Ok (analyzer, [set_flow Flow.Break state])
      | Stmt.Continue \<Rightarrow> Ok (analyzer, [set_flow Flow.Continue state])
      | Stmt.Assert test \<Rightarrow>
          Ok (analyzer, [if is_false_literal test then set_flow Flow.Unreachable state else state])
      | _ \<Rightarrow> if pending state = fmempty then Ok (analyzer, [state])
             else unsupported_dynamic_identity dbg statement)"

section \<open>Loop invariants\<close>

text \<open>
  What the scan of a loop's invariant prefix builds up: the state the body starts from, the keys
  of the conditional obligations released at the exit, and the invariants to be preserved.
\<close>

record LoopScan =
  scan_state :: LedgerState
  conditional_exit_keys :: "ObligationKey list"
  release_invariants :: "(ObligationSpec \<times> 32 word \<times> bool) list"
  level_invariants :: "(LevelSpec \<times> 32 word) list"
  has_conditional_obligation_invariant :: bool
  has_any_obligation_invariant :: bool

definition loop_invariants :: "Stmt list \<Rightarrow> Stmt list" where
  "loop_invariants body = takeWhile (\<lambda>item. invariant_argument item \<noteq> None) body"

definition loop_body :: "Stmt list \<Rightarrow> Stmt list" where
  "loop_body body = dropWhile (\<lambda>item. invariant_argument item \<noteq> None) body"

definition statement_offset :: "Stmt \<Rightarrow> 32 word" where
  "statement_offset statement = (case statement of Stmt.Expr value offset \<Rightarrow> offset | _ \<Rightarrow> 0)"

definition is_termination_invariant :: "string set \<Rightarrow> Stmt \<Rightarrow> bool" where
  "is_termination_invariant available invariant \<longleftrightarrow>
     ''MustTerminate'' \<in> available \<and>
     (case invariant_argument invariant of
        None \<Rightarrow> False | Some argument \<Rightarrow> expression_contains_call argument ''MustTerminate'')"

definition owner_summary :: "string \<Rightarrow> Analyzer \<Rightarrow> FunctionSummary" where
  "owner_summary owner analyzer =
     (case fmlookup (summaries analyzer) owner of None \<Rightarrow> default_summary | Some summary \<Rightarrow> summary)"

definition scan_level ::
  "32 word \<Rightarrow> string \<Rightarrow> FunctionSummary \<Rightarrow> Analyzer \<times> LoopScan \<Rightarrow> LevelSpec \<Rightarrow> Analyzer \<times> LoopScan" where
  "scan_level offset owner summary = (\<lambda>(analyzer, scan) level.
     (case instantiate_level_identity level summary [] (scan_state scan) of
        None \<Rightarrow> (record_diagnostic InvariantLevelOrder offset owner analyzer, scan)
      | Some identity \<Rightarrow>
          (if require_current_below identity LoopInvariantEntry (levels (scan_state scan)) \<noteq> Satisfied
           then record_diagnostic InvariantLevelOrder offset owner analyzer else analyzer,
           scan \<lparr> scan_state := (scan_state scan)
                    \<lparr> levels := snd (assert_current_below identity (levels (scan_state scan))) \<rparr>,
                  level_invariants := level_invariants scan @ [(level, offset)] \<rparr>)))"

text \<open>A clause with a known identity: bounded ownership, a new measure, a conditional exit.\<close>

definition scan_clause_identity :: "bool \<Rightarrow> ObligationSpec \<Rightarrow> string \<Rightarrow> LoopScan \<Rightarrow> LoopScan" where
  "scan_clause_identity progresses clause identity scan =
     (let key = ObligationKey (spec_kind clause) identity;
          state = scan_state scan;
          state = (if spec_bounded clause
                   then state \<lparr> bounded_identities := insert identity (bounded_identities state) \<rparr> else state);
          state = (if \<not> spec_conditional clause \<and> \<not> progresses \<and> contains_key (pending state) key
                   then state \<lparr> pending := fmupd key (spec_measure clause) (pending state) \<rparr> else state)
      in scan \<lparr> scan_state := state,
                conditional_exit_keys := conditional_exit_keys scan @ (if spec_conditional clause then [key] else []) \<rparr>)"

definition scan_clause :: "32 word \<Rightarrow> bool \<Rightarrow> LoopScan \<Rightarrow> ObligationSpec \<Rightarrow> LoopScan" where
  "scan_clause offset progresses scan clause =
     (let scan = (case instantiate_state_spec_identity clause (scan_state scan) of
                    None \<Rightarrow> scan
                  | Some identity \<Rightarrow> scan_clause_identity progresses clause identity scan)
      in if spec_kind clause = Release \<and> \<not> spec_conditional clause
         then scan \<lparr> release_invariants := release_invariants scan @ [(clause, offset, progresses)] \<rparr>
         else scan)"

definition report_leak :: "LoopScan \<Rightarrow> LoopScan" where
  "report_leak scan = scan \<lparr> scan_state := (scan_state scan) \<lparr> boundary_leak_reported := True \<rparr> \<rparr>"

text \<open>One invariant of the prefix; \<open>excused\<close> gathers the loop's facts that allow it unchanged.\<close>

definition scan_invariant ::
  "AstDebug \<Rightarrow> Stmt list \<Rightarrow> bool \<Rightarrow> string \<Rightarrow> FunctionSummary \<Rightarrow> Stmt \<Rightarrow> Analyzer \<times> LoopScan \<Rightarrow>
     (ContractFailure, Analyzer \<times> LoopScan) result" where
  "scan_invariant dbg executable excused owner summary invariant = (\<lambda>(analyzer, scan).
     (case invariant_argument invariant of
        None \<Rightarrow> Ok (analyzer, scan)
      | Some argument \<Rightarrow>
          (let offset = statement_offset invariant in
           res_bind (collect_level_specs argument (sum_level_intrinsics summary)) (\<lambda>level_specs.
           (let (analyzer, scan) = foldl (scan_level offset owner summary) (analyzer, scan) level_specs in
            res_bind (collect_obligation_specs dbg argument True (primitives (bindings analyzer))) (\<lambda>clauses.
            (let progresses = obligation_measure_progresses argument executable;
                 scan = scan \<lparr> has_any_obligation_invariant := has_any_obligation_invariant scan \<or> clauses \<noteq> [] \<rparr>;
                 scan = foldl (scan_clause offset progresses) scan clauses;
                 scan = scan \<lparr> has_conditional_obligation_invariant :=
                                 has_conditional_obligation_invariant scan \<or>
                                 (list_ex spec_conditional clauses \<and> \<not> progresses) \<rparr>
             in Ok (if clauses \<noteq> [] \<and> \<not> excused \<and> \<not> progresses
                    then (record_diagnostic InvariantPermission offset owner analyzer, report_leak scan)
                    else (analyzer, scan)))))))))"

definition loop_is_unreachable :: "Expr option \<Rightarrow> bool" where
  "loop_is_unreachable test \<longleftrightarrow> (case test of None \<Rightarrow> False | Some t \<Rightarrow> expression_is_statically_false t)"

definition recreates_obligation :: "Stmt list \<Rightarrow> string \<Rightarrow> Analyzer \<Rightarrow> bool" where
  "recreates_obligation body owner analyzer =
     block_recreates_obligation (loop_body body) owner (summaries analyzer)"

definition has_termination_invariant :: "Stmt list \<Rightarrow> Analyzer \<Rightarrow> bool" where
  "has_termination_invariant body analyzer =
     list_ex (is_termination_invariant (primitives (bindings analyzer))) (loop_invariants body)"

definition report_loop_context ::
  "32 word \<Rightarrow> string \<Rightarrow> bool \<Rightarrow> Analyzer \<times> LoopScan \<Rightarrow> Analyzer \<times> LoopScan" where
  "report_loop_context loop_offset owner terminates = (\<lambda>(analyzer, scan).
     (let owes = pending (scan_state scan) \<noteq> fmempty;
          (analyzer, scan) =
            (if owes \<and> \<not> terminates \<and> \<not> has_any_obligation_invariant scan
             then (record_diagnostic LoopContext loop_offset owner analyzer, report_leak scan)
             else (analyzer, scan))
      in if owes \<and> has_conditional_obligation_invariant scan
         then (record_diagnostic LoopBody loop_offset owner analyzer, report_leak scan)
         else (analyzer, scan)))"

text \<open>\<open>execute_loop\<close> up to the execution of the body.\<close>

definition enter_loop ::
  "AstDebug \<Rightarrow> Expr option \<Rightarrow> Stmt list \<Rightarrow> 32 word \<Rightarrow> string \<Rightarrow> LedgerState \<Rightarrow> Analyzer \<Rightarrow>
     (ContractFailure, Analyzer \<times> LoopScan) result" where
  "enter_loop dbg test body loop_offset owner state analyzer =
     (let terminates = has_termination_invariant body analyzer;
          excused = terminates \<or> loop_is_unreachable test \<or> recreates_obligation body owner analyzer;
          scan = \<lparr> scan_state = state, conditional_exit_keys = [], release_invariants = [],
                   level_invariants = [], has_conditional_obligation_invariant = False,
                   has_any_obligation_invariant = False \<rparr>
      in res_bind (sticky_loop (scan_invariant dbg (loop_body body) excused owner (owner_summary owner analyzer))
                     (loop_invariants body) (analyzer, scan))
           (\<lambda>scanned. Ok (report_loop_context loop_offset owner terminates scanned)))"

text \<open>The paths that come back to the loop head, and the checks they owe.\<close>

definition comes_back :: "LedgerState \<Rightarrow> bool" where
  "comes_back path \<longleftrightarrow> flow path = Flow.Normal \<or> flow path = Flow.Continue"

definition level_not_preserved :: "FunctionSummary \<Rightarrow> LedgerState list \<Rightarrow> LevelSpec \<Rightarrow> bool" where
  "level_not_preserved summary paths invariant \<longleftrightarrow>
     list_ex (\<lambda>path.
        case instantiate_level_identity invariant summary [] path of
          None \<Rightarrow> True
        | Some identity \<Rightarrow>
            require_current_below identity LoopInvariantPreservation (levels path) \<noteq> Satisfied)
       (filter comes_back paths)"

definition release_not_preserved :: "LedgerState \<Rightarrow> LedgerState list \<Rightarrow> ObligationSpec \<Rightarrow> bool" where
  "release_not_preserved state paths invariant \<longleftrightarrow>
     (case instantiate_state_spec_identity invariant state of
        None \<Rightarrow> False
      | Some identity \<Rightarrow>
          list_ex (\<lambda>path. \<not> preserves_loop_invariant
                     (fmlookup (pending path) (ObligationKey (spec_kind invariant) identity))
                     (spec_measure invariant))
            (filter comes_back paths))"

definition check_preservation ::
  "Expr option \<Rightarrow> Stmt list \<Rightarrow> string \<Rightarrow> LoopScan \<Rightarrow> LedgerState list \<Rightarrow> FunctionSummary \<Rightarrow> bool \<Rightarrow>
     Analyzer \<Rightarrow> Analyzer" where
  "check_preservation test body owner scan paths summary recreates analyzer =
     (let analyzer = foldl (\<lambda>analyzer (invariant, offset).
            if level_not_preserved summary paths invariant \<and> \<not> loop_is_unreachable test
            then record_diagnostic InvariantLevelOrder offset owner analyzer else analyzer)
            analyzer (level_invariants scan)
      in foldl (\<lambda>analyzer (invariant, offset, progresses).
            if recreates \<and> \<not> progresses \<and>
               release_not_preserved (scan_state scan) paths invariant \<and> \<not> loop_is_unreachable test
            then record_diagnostic InvariantPermission offset owner analyzer else analyzer)
            analyzer (release_invariants scan))"

definition drop_exit_key :: "LedgerState \<Rightarrow> ObligationKey \<Rightarrow> LedgerState" where
  "drop_exit_key state key =
     state \<lparr> pending := fmdrop key (pending state),
             bounded_identities := Set.remove (key_identity key) (bounded_identities state) \<rparr>"

definition loop_results :: "Expr option \<Rightarrow> LoopScan \<Rightarrow> LedgerState list \<Rightarrow> LedgerState list" where
  "loop_results test scan paths =
     (let exit_state = foldl drop_exit_key (scan_state scan) (conditional_exit_keys scan);
          never_exits = (case test of None \<Rightarrow> False | Some t \<Rightarrow> expression_is_statically_true t)
      in (if never_exits then [] else [exit_state]) @
         List.map_filter (\<lambda>path.
            case flow path of
              Flow.Break \<Rightarrow> Some (set_flow Flow.Normal path)
            | Flow.Normal \<Rightarrow> None
            | Flow.Continue \<Rightarrow> None
            | _ \<Rightarrow> Some path) paths)"

text \<open>
  \<open>execute_loop\<close> after the body; summaries and bindings do not change while a body runs, so the
  entry values of \<open>recreates_obligation\<close> and of the owner's summary are read again here.
\<close>

definition leave_loop ::
  "Expr option \<Rightarrow> Stmt list \<Rightarrow> string \<Rightarrow> LoopScan \<Rightarrow> Analyzer \<times> LedgerState list \<Rightarrow> Analyzer \<times> LedgerState list" where
  "leave_loop test body owner scan = (\<lambda>(analyzer, paths).
     (check_preservation test body owner scan paths (owner_summary owner analyzer)
        (recreates_obligation body owner analyzer) analyzer,
      loop_results test scan paths))"

section \<open>Blocks and statements\<close>

text \<open>The paths of several starting states, one after the other.\<close>

fun collect_paths :: "(LedgerState \<Rightarrow> Analyzer \<Rightarrow> outcome) \<Rightarrow> LedgerState list \<Rightarrow> Analyzer \<Rightarrow> outcome" where
  "collect_paths run [] analyzer = Ok (analyzer, [])"
| "collect_paths run (state # states) analyzer =
     res_bind (run state analyzer) (\<lambda>(analyzer, paths).
     res_bind (collect_paths run states analyzer) (\<lambda>(analyzer, others).
     Ok (analyzer, paths @ others)))"

lemma collect_paths_cong [fundef_cong]:
  "states = states' \<Longrightarrow> analyzer = analyzer' \<Longrightarrow>
   (\<And>s a. s \<in> set states' \<Longrightarrow> run s a = run' s a) \<Longrightarrow>
   collect_paths run states analyzer = collect_paths run' states' analyzer'"
proof (induction states' arbitrary: states analyzer analyzer')
  case Nil
  then show ?case by simp
next
  case (Cons s ss)
  have "collect_paths run ss a = collect_paths run' ss a" for a
    by (rule Cons.IH) (use Cons.prems(3) in auto)
  with Cons.prems show ?case by simp
qed

definition handles :: "string \<Rightarrow> ExceptHandler \<Rightarrow> bool" where
  "handles raised handler \<longleftrightarrow>
     (case handler_type handler of
        None \<Rightarrow> True
      | Some type \<Rightarrow>
          (case exception_name type of
             None \<Rightarrow> False
           | Some caught \<Rightarrow> caught = raised \<or> caught = ''Exception'' \<or> caught = ''BaseException''))"

lemma find_handler_size:
  assumes "find p handlers = Some handler"
  shows "size_list size (handler_body handler) < size_list size handlers"
proof -
  have "handler \<in> set handlers" using assms by (auto simp: find_Some_iff)
  then have "size handler < Suc (size_list size handlers)" by (induction handlers) auto
  moreover have "size_list size (handler_body handler) < size handler" by (cases handler) simp
  ultimately show ?thesis by simp
qed

lemma loop_body_size: "size_list size (loop_body body) \<le> size_list size body"
  unfolding loop_body_def by (induction body) auto

function (sequential) execute_block ::
  "AstDebug \<Rightarrow> Stmt list \<Rightarrow> string \<Rightarrow> LedgerState list \<Rightarrow> Analyzer \<Rightarrow> outcome"
and execute_statement ::
  "AstDebug \<Rightarrow> Stmt \<Rightarrow> string \<Rightarrow> LedgerState \<Rightarrow> Analyzer \<Rightarrow> outcome" where
  "execute_block dbg [] owner states analyzer = Ok (analyzer, states)"
| "execute_block dbg (statement # rest) owner states analyzer =
     res_bind (collect_paths (\<lambda>state analyzer.
                 if flow state \<noteq> Flow.Normal then Ok (analyzer, [state])
                 else execute_statement dbg statement owner state analyzer) states analyzer)
       (\<lambda>(analyzer, states). execute_block dbg rest owner states analyzer)"
| "execute_statement dbg (Stmt.If test body orelse) owner state analyzer =
     (if is_true_literal test then execute_block dbg body owner [state] analyzer
      else if is_false_literal test then execute_block dbg orelse owner [state] analyzer
      else
        res_bind (execute_block dbg body owner [refine_identity_condition test True state] analyzer)
          (\<lambda>(analyzer, paths).
        res_bind (execute_block dbg orelse owner [refine_identity_condition test False state] analyzer)
          (\<lambda>(analyzer, others). Ok (analyzer, paths @ others))))"
| "execute_statement dbg (While test body orelse offset) owner state analyzer =
     res_bind (enter_loop dbg (Some test) body offset owner state analyzer) (\<lambda>(analyzer, scan).
     res_bind (execute_block dbg (loop_body body) owner [scan_state scan] analyzer) (\<lambda>paths.
     Ok (leave_loop (Some test) body owner scan paths)))"
| "execute_statement dbg (For body orelse offset) owner state analyzer =
     res_bind (enter_loop dbg None body offset owner state analyzer) (\<lambda>(analyzer, scan).
     res_bind (execute_block dbg (loop_body body) owner [scan_state scan] analyzer) (\<lambda>paths.
     Ok (leave_loop None body owner scan paths)))"
| "execute_statement dbg (Stmt.Try body handlers orelse finalbody) owner state analyzer =
     res_bind (execute_block dbg body owner [state] analyzer) (\<lambda>(analyzer, body_paths).
     res_bind (collect_paths (\<lambda>path analyzer.
                 case flow path of
                   Flow.Normal \<Rightarrow> execute_block dbg orelse owner [path] analyzer
                 | Flow.Raise raised \<Rightarrow>
                     (case find (handles raised) handlers of
                        None \<Rightarrow> Ok (analyzer, [path])
                      | Some handler \<Rightarrow>
                          execute_block dbg (handler_body handler) owner [set_flow Flow.Normal path] analyzer)
                 | _ \<Rightarrow> Ok (analyzer, [path])) body_paths analyzer)
       (\<lambda>(analyzer, handled).
     if finalbody = [] then Ok (analyzer, handled)
     else collect_paths (\<lambda>path analyzer.
            res_bind (execute_block dbg finalbody owner [set_flow Flow.Normal path] analyzer)
              (\<lambda>(analyzer, final_paths). Ok (analyzer,
                 map (\<lambda>final_path. if flow final_path = Flow.Normal
                                   then set_flow (flow path) final_path else final_path) final_paths)))
            handled analyzer))"
| "execute_statement dbg statement owner state analyzer = execute_simple dbg statement owner state analyzer"
  by pat_completeness auto
termination
  by (relation "measure (\<lambda>x. case x of
        Inl (dbg, statements, owner, states, analyzer) \<Rightarrow> size_list size statements
      | Inr (dbg, statement, owner, state, analyzer) \<Rightarrow> size statement)")
    (auto simp: le_imp_less_Suc less_SucI loop_body_size le_less_trans [OF loop_body_size] dest!: find_handler_size)

section \<open>Functions\<close>

definition enter_parameters ::
  "string \<Rightarrow> FunctionSummary \<Rightarrow> (string, string) fmap \<times> string set" where
  "enter_parameters owner summary =
     foldl (\<lambda>(names, locks) parameter.
        (let identity = owner @ ''::'' @ parameter
         in (fmupd parameter identity names,
             if parameter \<in> sum_lock_parameters summary then insert identity locks else locks)))
       (fmempty, {}) (sum_parameters summary)"

definition self_lock_identities :: "string \<Rightarrow> (string, string) fmap \<Rightarrow> CanonicalBindings \<Rightarrow> string set" where
  "self_lock_identities owner names known =
     (case (split_once (CHR ''.'') owner, fmlookup names ''self'') of
        (Some (cls, _), Some self_identity) \<Rightarrow>
          (case fmlookup (lock_fields known) cls of
             None \<Rightarrow> {}
           | Some found \<Rightarrow> (\<lambda>field. self_identity @ ''.'' @ field) ` found)
      | _ \<Rightarrow> {})"

definition initial_state :: "string \<Rightarrow> FunctionSummary \<Rightarrow> CanonicalBindings \<Rightarrow> LedgerState" where
  "initial_state owner summary known =
     (let (names, locks) = enter_parameters owner summary
      in \<lparr> aliases = names, pending = fmempty, bounded_identities = {},
           lock_identities = locks \<union> self_lock_identities owner names known,
           flow = Flow.Normal, termination_required = sum_terminates summary,
           boundary_leak_reported = False, levels = level_state_default \<rparr>)"

text \<open>The obligations the caller hands over; two in one slot cannot be, so the path ends.\<close>

fun enter_required :: "ObligationSpec list \<Rightarrow> FunctionSummary \<Rightarrow> LedgerState \<Rightarrow> LedgerState" where
  "enter_required [] summary state = state"
| "enter_required (required # rest) summary state =
     (if spec_conditional required then enter_required rest summary state
      else case instantiate_spec_identity required summary [] state of
        None \<Rightarrow> enter_required rest summary state
      | Some identity \<Rightarrow>
          (let key = ObligationKey (spec_kind required) identity
           in if contains_key (pending state) key then set_flow Flow.Unreachable state
              else enter_required rest summary
                     (state \<lparr> pending := fmupd key (spec_measure required) (pending state) \<rparr>)))"

definition enter_required_level :: "FunctionSummary \<Rightarrow> LedgerState \<Rightarrow> LevelSpec \<Rightarrow> LedgerState" where
  "enter_required_level summary state required =
     (case instantiate_level_identity required summary [] state of
        None \<Rightarrow> state
      | Some identity \<Rightarrow> state \<lparr> levels := snd (assert_current_below identity (levels state)) \<rparr>)"

definition entry_state :: "StmtFunctionDef \<Rightarrow> string \<Rightarrow> FunctionSummary \<Rightarrow> CanonicalBindings \<Rightarrow> LedgerState" where
  "entry_state func owner summary known =
     foldl (enter_required_level summary)
       (enter_required (sum_required summary) summary
          (apply_required_equalities func (initial_state owner summary known)))
       (sum_required_levels summary)"

text \<open>An exit gives back one promised obligation.\<close>

definition return_obligation ::
  "string \<Rightarrow> FunctionSummary \<Rightarrow> Analyzer \<times> LedgerState \<Rightarrow> ObligationSpec \<Rightarrow> Analyzer \<times> LedgerState" where
  "return_obligation owner summary = (\<lambda>(analyzer, state) returned.
     (if spec_conditional returned then (analyzer, state)
      else case instantiate_spec_identity returned summary [] state of
        None \<Rightarrow> (analyzer, state)
      | Some identity \<Rightarrow>
          (let key = ObligationKey (spec_kind returned) identity
           in if decide_consume (fmlookup (pending state) key) (spec_measure returned)
                   (identity \<in> bounded_identities state) UnboundedRequiresUnboundedOwner = Consume
              then (analyzer, state \<lparr> pending := fmdrop key (pending state) \<rparr>)
              else (record_diagnostic PostconditionPermission (spec_offset returned) owner analyzer,
                    state \<lparr> boundary_leak_reported := True \<rparr>))))"

definition return_level ::
  "string \<Rightarrow> FunctionSummary \<Rightarrow> LedgerState \<Rightarrow> Analyzer \<Rightarrow> LevelSpec \<Rightarrow> Analyzer" where
  "return_level owner summary state analyzer returned =
     (let satisfied =
            (case instantiate_level_identity returned summary [] state of
               None \<Rightarrow> False
             | Some identity \<Rightarrow>
                 require_current_below identity FunctionPostcondition (levels state) = Satisfied)
      in if \<not> satisfied then record_diagnostic PostconditionLevelOrder (level_offset returned) owner analyzer
         else analyzer)"

definition close_exit ::
  "StmtFunctionDef \<Rightarrow> string \<Rightarrow> FunctionSummary \<Rightarrow> Analyzer \<Rightarrow> LedgerState \<Rightarrow> Analyzer" where
  "close_exit func owner summary analyzer state =
     (if flow state = Flow.Unreachable then analyzer
      else
        (let (analyzer, state) = foldl (return_obligation owner summary) (analyzer, state) (sum_returned summary);
             analyzer = foldl (return_level owner summary state) analyzer (sum_returned_levels summary)
         in if decide_close (pending state \<noteq> fmempty) (boundary_leak_reported state) = ReportLeak
            then record_diagnostic MethodBody (fn_offset func) owner analyzer else analyzer))"

definition executable_body :: "StmtFunctionDef \<Rightarrow> Stmt list" where
  "executable_body func = filter (\<lambda>statement. \<not> is_contract_statement statement) (fn_body func)"

definition analyze_function ::
  "AstDebug \<Rightarrow> StmtFunctionDef \<Rightarrow> string \<Rightarrow> Analyzer \<Rightarrow> (ContractFailure, Analyzer) result" where
  "analyze_function dbg func owner analyzer =
     (case fmlookup (summaries analyzer) owner of
        None \<Rightarrow> Ok analyzer
      | Some summary \<Rightarrow>
          res_bind (execute_block dbg (executable_body func) owner
                      [entry_state func owner summary (bindings analyzer)] analyzer)
            (\<lambda>(analyzer, states). Ok (foldl (close_exit func owner summary) analyzer states)))"

section \<open>Overrides\<close>

definition analyze_override ::
  "string \<Rightarrow> string \<Rightarrow> Stmt \<Rightarrow> Analyzer \<Rightarrow> (ContractFailure, Analyzer) result" where
  "analyze_override base cls statement analyzer =
     (case statement of
        FunctionDef func \<Rightarrow>
          (case (fmlookup (summaries analyzer) (method_owner base func),
                 fmlookup (summaries analyzer) (method_owner cls func)) of
             (Some parent, Some child) \<Rightarrow>
               res_bind (measure_is_stronger (sum_termination_measure child) (sum_termination_measure parent))
                 (\<lambda>stronger.
                  (let analyzer = (if stronger
                         then record_diagnostic Caller (fn_offset func) (method_owner cls func) analyzer
                         else analyzer)
                   in res_bind (release_precondition_is_stronger child parent) (\<lambda>stronger.
                      Ok (if stronger
                          then record_diagnostic CallPermission (fn_offset func) (method_owner cls func) analyzer
                          else analyzer))))
           | _ \<Rightarrow> Ok analyzer)
      | _ \<Rightarrow> Ok analyzer)"

definition analyze_class_overrides :: "Stmt \<Rightarrow> Analyzer \<Rightarrow> (ContractFailure, Analyzer) result" where
  "analyze_class_overrides statement analyzer =
     (case statement of
        ClassDef cls (Name base # bases) body \<Rightarrow> sticky_loop (analyze_override base cls) body analyzer
      | _ \<Rightarrow> Ok analyzer)"

definition analyze_overrides :: "Stmt list \<Rightarrow> Analyzer \<Rightarrow> (ContractFailure, Analyzer) result" where
  "analyze_overrides suite analyzer = sticky_loop analyze_class_overrides suite analyzer"

end
