(* ===== verification/Obligation_Frame.thy ===== *)
theory Obligation_Frame
  imports Obligation_Execution
begin

text \<open>
  What a step of the obligation analyzer may change: diagnostics are only added, summaries and
  bindings stay, and a path is marked as reported only when a diagnostic has been recorded. The
  lemmas follow the code from calls through statements to loops and blocks.
\<close>

section \<open>What a step may change\<close>

definition extends :: "Analyzer \<Rightarrow> Analyzer \<Rightarrow> bool" where
  "extends a a' \<longleftrightarrow>
     summaries a' = summaries a \<and> bindings a' = bindings a \<and> diagnostics a \<subseteq> diagnostics a' \<and>
     (finite (diagnostics a) \<longrightarrow> finite (diagnostics a'))"

lemma extends_refl [simp]: "extends a a"
  by (simp add: extends_def)

lemma extends_trans [trans]: "extends a b \<Longrightarrow> extends b c \<Longrightarrow> extends a c"
  by (auto simp: extends_def)

lemma extends_record [simp]: "extends a (record_diagnostic kind offset owner a)"
  by (auto simp: extends_def record_diagnostic_def)

lemma extends_record_if: "extends a b \<Longrightarrow> extends a (if c then record_diagnostic kind offset owner b else b)"
  using extends_trans [OF _ extends_record] by simp

lemma record_diagnostic_nonempty [simp]: "diagnostics (record_diagnostic kind offset owner a) \<noteq> {}"
  by (simp add: record_diagnostic_def)

lemma extends_nonempty: "extends a a' \<Longrightarrow> diagnostics a \<noteq> {} \<Longrightarrow> diagnostics a' \<noteq> {}"
  by (auto simp: extends_def)

text \<open>A marked leak has a diagnostic behind it.\<close>

definition reported :: "Analyzer \<Rightarrow> LedgerState \<Rightarrow> bool" where
  "reported a s \<longleftrightarrow> (boundary_leak_reported s \<longrightarrow> diagnostics a \<noteq> {})"

definition steps :: "Analyzer \<times> LedgerState \<Rightarrow> Analyzer \<times> LedgerState \<Rightarrow> bool" where
  "steps st st' \<longleftrightarrow>
     extends (fst st) (fst st') \<and> (reported (fst st) (snd st) \<longrightarrow> reported (fst st') (snd st'))"

lemma steps_refl [simp]: "steps st st"
  by (simp add: steps_def)

lemma steps_trans [trans]: "steps p q \<Longrightarrow> steps q r \<Longrightarrow> steps p r"
  by (auto simp: steps_def dest: extends_trans)

lemma reported_extends: "reported a s \<Longrightarrow> extends a a' \<Longrightarrow> reported a' s"
  by (auto simp: reported_def extends_def)

lemma steps_state:
  "extends a a' \<Longrightarrow> boundary_leak_reported s' = boundary_leak_reported s \<Longrightarrow> steps (a, s) (a', s')"
  by (auto simp: steps_def reported_def extends_def)

lemma steps_report:
  "extends a a' \<Longrightarrow> diagnostics a' \<noteq> {} \<Longrightarrow> steps (a, s) (a', s')"
  by (simp add: steps_def reported_def)

lemma steps_reportD: "steps (a, s) (a', s') \<Longrightarrow> reported a s \<Longrightarrow> reported a' s'"
  by (simp add: steps_def)

definition ok_steps ::
  "Analyzer \<times> LedgerState \<Rightarrow> (ContractFailure, Analyzer \<times> LedgerState) result \<Rightarrow> bool" where
  "ok_steps st r \<longleftrightarrow> (\<forall>st'. r = Ok st' \<longrightarrow> steps st st')"

lemma ok_steps_Ok [simp]: "ok_steps st (Ok st') \<longleftrightarrow> steps st st'"
  by (simp add: ok_steps_def)

lemma ok_steps_Err [simp]: "ok_steps st (Err e)"
  by (simp add: ok_steps_def)

lemma ok_steps_failure [simp]:
  "ok_steps st (obligation_failure code message)" "ok_steps st (dynamic_call_identity target)"
  by (simp_all add: obligation_failure_def dynamic_call_identity_def)

lemma ok_steps_bind:
  "ok_steps st m \<Longrightarrow> (\<And>st'. m = Ok st' \<Longrightarrow> ok_steps st' (f st')) \<Longrightarrow> ok_steps st (res_bind m f)"
  by (cases m) (auto simp: ok_steps_def dest: steps_trans)

lemma ok_steps_trans: "steps st st' \<Longrightarrow> ok_steps st' r \<Longrightarrow> ok_steps st r"
  by (auto simp: ok_steps_def dest: steps_trans)

lemma ok_stepsD: "ok_steps st r \<Longrightarrow> r = Ok st' \<Longrightarrow> steps st st'"
  by (simp add: ok_steps_def)

section \<open>Calls\<close>

lemma consume_or_report_steps: "steps st (consume_or_report kind identity required policy offset owner st)"
  by (cases st) (auto simp: consume_or_report_def Let_def intro: steps_state steps_report)

lemma add_pending_boundary:
  "add_pending key owed s = Ok s' \<Longrightarrow> boundary_leak_reported s' = boundary_leak_reported s"
  by (auto simp: add_pending_def obligation_failure_def split: if_splits)

lemma acquire_lock_steps: "ok_steps st (acquire_lock identity offset owner st)"
  by (cases st)
    (auto simp: acquire_lock_def Let_def ok_steps_def add_pending_boundary intro: steps_state)

lemma check_required_levels_steps:
  "steps (a, s) (check_required_levels specs summary call offset owner (a, s))"
proof (induction specs arbitrary: a)
  case (Cons spec specs)
  have "steps (a, s) (record_diagnostic CallLevelOrder offset owner a, s)"
    by (simp add: steps_state)
  from steps_trans [OF this Cons.IH] Cons.IH show ?case by (simp add: Let_def)
qed simp

lemma consume_required_steps: "ok_steps st (consume_required specs summary call called offset owner st)"
proof (induction specs arbitrary: st)
  case (Cons spec specs)
  show ?case
    using Cons.IH ok_steps_trans [OF consume_or_report_steps Cons.IH] by (simp split: option.splits)
qed simp

lemma produce_returned_boundary:
  "produce_returned specs summary call s = Ok s' \<Longrightarrow> boundary_leak_reported s' = boundary_leak_reported s"
proof (induction specs arbitrary: s)
  case (Cons spec specs)
  show ?case
    using Cons.prems by (auto dest!: Cons.IH add_pending_boundary split: if_splits option.splits)
qed simp

lemma produce_levels_boundary:
  "boundary_leak_reported (produce_levels specs summary call s) = boundary_leak_reported s"
  by (induction specs arbitrary: s) (auto split: option.splits)

lemma apply_summary_steps: "ok_steps st (apply_summary summary call called owner offset st)"
proof -
  obtain a s where st: "st = (a, s)" by fastforce
  let ?checked = "check_required_levels (sum_required_levels summary) summary call offset owner st"
  have "ok_steps st (consume_required (sum_required summary) summary call called offset owner ?checked)"
    using ok_steps_trans [OF check_required_levels_steps consume_required_steps] by (simp add: st)
  then show ?thesis
    unfolding apply_summary_def
    by (rule ok_steps_bind)
      (auto simp: ok_steps_def Let_def produce_levels_boundary split: prod.splits if_splits
        dest!: produce_returned_boundary intro: steps_state steps_report)
qed

lemma apply_resolved_call_steps: "ok_steps st (apply_resolved_call call owner offset st)"
  by (cases st)
    (auto simp: apply_resolved_call_def apply_summary_steps intro: steps_report split: option.splits)

lemma apply_call_steps: "ok_steps st (apply_call call owner offset st)"
  by (auto simp: apply_call_def acquire_lock_steps apply_resolved_call_steps release_lock_def
      consume_or_report_steps split: Expr.splits option.splits)

section \<open>Statements\<close>

definition runs :: "Analyzer \<Rightarrow> LedgerState list \<Rightarrow> outcome \<Rightarrow> bool" where
  "runs a states r \<longleftrightarrow>
     (\<forall>a' paths. r = Ok (a', paths) \<longrightarrow>
        extends a a' \<and> ((\<forall>s \<in> set states. reported a s) \<longrightarrow> (\<forall>p \<in> set paths. reported a' p)))"

lemma runsI:
  "(\<And>a' paths. r = Ok (a', paths) \<Longrightarrow> extends a a') \<Longrightarrow>
   (\<And>a' paths p. r = Ok (a', paths) \<Longrightarrow> (\<And>s. s \<in> set states \<Longrightarrow> reported a s) \<Longrightarrow> p \<in> set paths \<Longrightarrow> reported a' p) \<Longrightarrow>
   runs a states r"
  unfolding runs_def by blast

lemma runsD:
  assumes "runs a states r" "r = Ok (a', paths)"
  shows "extends a a'" "(\<And>s. s \<in> set states \<Longrightarrow> reported a s) \<Longrightarrow> p \<in> set paths \<Longrightarrow> reported a' p"
  using assms unfolding runs_def by blast+

lemma runs_failure [simp]:
  "runs a states (Err e)" "runs a states (obligation_failure code message)"
  "runs a states (unsupported_dynamic_identity dbg statement)"
  by (simp_all add: runs_def obligation_failure_def unsupported_dynamic_identity_def)

lemma runs_same [simp]: "runs a states (Ok (a, states))"
  by (simp add: runs_def)

lemma runs_single: "steps (a, s) (a', s') \<Longrightarrow> runs a [s] (Ok (a', [s']))"
  by (simp add: runs_def steps_def)

lemma runs_boundary:
  "boundary_leak_reported s' = boundary_leak_reported s \<Longrightarrow> runs a [s] (Ok (a, [s']))"
  by (rule runs_single) (simp add: steps_state)

lemma runs_bind_steps:
  assumes "ok_steps (a, s) m" and "\<And>a' s'. m = Ok (a', s') \<Longrightarrow> runs a' [s'] (f (a', s'))"
  shows "runs a [s] (res_bind m f)"
proof (rule runsI)
  fix b paths assume "res_bind m f = Ok (b, paths)"
  then obtain a' s' where m: "m = Ok (a', s')" and f: "f (a', s') = Ok (b, paths)" by auto
  have st: "steps (a, s) (a', s')" using ok_stepsD [OF assms(1) m] .
  note rest = runsD [OF assms(2) [OF m] f]
  show "extends a b" using st rest(1) by (auto simp: steps_def dest: extends_trans)
  fix p assume "\<And>s'. s' \<in> set [s] \<Longrightarrow> reported a s'" "p \<in> set paths"
  then have "reported a s" by simp
  with st have "reported a' s'" by (rule steps_reportD)
  with rest(2) \<open>p \<in> set paths\<close> show "reported b p" by simp
qed

lemma runs_bind:
  assumes "runs a states m" and "\<And>a' states'. m = Ok (a', states') \<Longrightarrow> runs a' states' (f (a', states'))"
  shows "runs a states (res_bind m f)"
proof (rule runsI)
  fix b paths assume "res_bind m f = Ok (b, paths)"
  then obtain a' states' where m: "m = Ok (a', states')" and f: "f (a', states') = Ok (b, paths)" by auto
  note first = runsD [OF assms(1) m]
  note rest = runsD [OF assms(2) [OF m] f]
  show "extends a b" using first(1) rest(1) by (rule extends_trans)
  fix p assume "\<And>s. s \<in> set states \<Longrightarrow> reported a s" "p \<in> set paths"
  then show "reported b p" using first(2) rest(2) by blast
qed

lemma runs_map:
  assumes "runs a states m" and "\<And>p. boundary_leak_reported (g p) = boundary_leak_reported p"
  shows "runs a states (res_bind m (\<lambda>(a', paths). Ok (a', map g paths)))"
  using assms unfolding runs_def by (cases m) (auto simp: reported_def)

lemma runs_collect:
  assumes "\<And>s a. s \<in> set states \<Longrightarrow> runs a [s] (run s a)"
  shows "runs a states (collect_paths run states a)"
  using assms
proof (induction states arbitrary: a)
  case Nil
  then show ?case by (simp add: runs_def)
next
  case (Cons s states)
  have first: "runs b [s] (run s b)" for b using Cons.prems by simp
  have rest: "runs b states (collect_paths run states b)" for b using Cons by simp
  show ?case
  proof (rule runsI)
    fix b paths assume "collect_paths run (s # states) a = Ok (b, paths)"
    then obtain c ps qs where c: "run s a = Ok (c, ps)" "collect_paths run states c = Ok (b, qs)" "paths = ps @ qs"
      by auto
    note one = runsD [OF first c(1)] and two = runsD [OF rest c(2)]
    show "extends a b" using one(1) two(1) by (rule extends_trans)
    fix p assume all: "\<And>t. t \<in> set (s # states) \<Longrightarrow> reported a t" and "p \<in> set paths"
    then consider "p \<in> set ps" | "p \<in> set qs" using c(3) by auto
    then show "reported b p"
    proof cases
      case 1
      with one(2) all two(1) show ?thesis by (auto intro: reported_extends)
    next
      case 2
      with two(2) all one(1) show ?thesis by (auto intro: reported_extends)
    qed
  qed
qed

lemma reported_cong: "boundary_leak_reported s = boundary_leak_reported t \<Longrightarrow> reported a s = reported a t"
  by (simp add: reported_def)

lemma runs_both:
  assumes m: "runs a [s1] m" and n: "\<And>a' paths. m = Ok (a', paths) \<Longrightarrow> runs a' [s2] (n a')"
    and same: "boundary_leak_reported s1 = boundary_leak_reported s" "boundary_leak_reported s2 = boundary_leak_reported s"
  shows "runs a [s] (res_bind m (\<lambda>(a', paths). res_bind (n a') (\<lambda>(a', others). Ok (a', paths @ others))))"
proof (rule runsI)
  fix b paths
  assume "res_bind m (\<lambda>(a', paths). res_bind (n a') (\<lambda>(a', others). Ok (a', paths @ others))) = Ok (b, paths)"
  then obtain c ps qs where c: "m = Ok (c, ps)" "n c = Ok (b, qs)" "paths = ps @ qs" by auto
  note one = runsD [OF m c(1)] and two = runsD [OF n [OF c(1)] c(2)]
  show "extends a b" using one(1) two(1) by (rule extends_trans)
  fix p assume all: "\<And>t. t \<in> set [s] \<Longrightarrow> reported a t" and "p \<in> set paths"
  then consider "p \<in> set ps" | "p \<in> set qs" using c(3) by auto
  then show "reported b p"
  proof cases
    case 1
    then have "reported c p" using one(2) all reported_cong [OF same(1)] by simp
    then show ?thesis using two(1) by (rule reported_extends)
  next
    case 2
    have "reported c s2" using all one(1) reported_cong [OF same(2)] by (auto intro: reported_extends)
    with 2 show ?thesis using two(2) by simp
  qed
qed

lemma move_pending_boundary:
  "boundary_leak_reported (move_pending i moved s) = boundary_leak_reported s"
  by (induction i moved s rule: move_pending.induct) (auto simp: Let_def)

lemma unify_names_boundary [simp]:
  "boundary_leak_reported (unify_names left right s) = boundary_leak_reported s"
  by (simp add: unify_names_def move_pending_boundary Let_def split: option.splits)

lemma refine_identity_boundary [simp]:
  "boundary_leak_reported (refine_identity_condition test truthy s) = boundary_leak_reported s"
  by (auto simp: refine_identity_condition_def Let_def split: Expr.splits list.splits)

lemma small_boundary [simp]:
  "boundary_leak_reported (set_flow f s) = boundary_leak_reported s"
  "boundary_leak_reported (bind_alias_to target identity s) = boundary_leak_reported s"
  "boundary_leak_reported (own_lock identity s) = boundary_leak_reported s"
  "boundary_leak_reported (disown_lock identity s) = boundary_leak_reported s"
  by (simp_all add: set_flow_def bind_alias_to_def own_lock_def disown_lock_def)

lemma assign_boundary [simp]:
  "boundary_leak_reported (assign_attribute lock s target) = boundary_leak_reported s"
  "boundary_leak_reported (assign_name lock name value offset owner s) = boundary_leak_reported s"
  by (auto simp: assign_attribute_def assign_name_def Let_def split: Expr.splits option.splits)

lemma assign_attributes_boundary [simp]:
  "boundary_leak_reported (foldl (assign_attribute lock) s targets) = boundary_leak_reported s"
  by (induction targets arbitrary: s) auto

lemma apply_optional_call_steps: "ok_steps st (apply_optional_call called owner offset st)"
  by (simp add: apply_optional_call_def apply_call_steps split: option.splits)

lemma execute_assign_runs: "runs a [s] (execute_assign dbg statement targets value offset owner s a)"
  unfolding execute_assign_def
  by (rule runs_bind_steps [OF apply_optional_call_steps])
    (auto simp: Let_def runs_boundary split: list.splits Expr.splits)

lemma execute_ann_assign_runs: "runs a [s] (execute_ann_assign target value offset owner s a)"
  unfolding execute_ann_assign_def
  by (auto split: Expr.splits option.splits intro!: runs_bind_steps [OF apply_optional_call_steps] runs_boundary)

lemma execute_expression_runs: "runs a [s] (execute_expression statement value offset owner s a)"
  unfolding execute_expression_def
  by (auto split: Expr.splits intro!: runs_bind_steps [OF apply_call_steps] runs_boundary)

lemma execute_simple_runs: "runs a [s] (execute_simple dbg statement owner s a)"
  unfolding execute_simple_def
  by (auto simp: execute_assign_runs execute_ann_assign_runs execute_expression_runs
      intro: runs_boundary split: Stmt.splits)

section \<open>Loops and blocks\<close>

lemma scan_level_steps:
  "scan_level offset owner summary (a, scan) level = (a', scan') \<Longrightarrow>
     steps (a, scan_state scan) (a', scan_state scan')"
  by (auto simp: scan_level_def intro: steps_state split: option.splits if_splits)

lemma scan_levels_steps:
  "foldl (scan_level offset owner summary) (a, scan) specs = (a', scan') \<Longrightarrow>
     steps (a, scan_state scan) (a', scan_state scan')"
proof (induction specs arbitrary: a scan)
  case (Cons spec specs)
  obtain b scan1 where one: "scan_level offset owner summary (a, scan) spec = (b, scan1)" by fastforce
  with Cons.prems have "foldl (scan_level offset owner summary) (b, scan1) specs = (a', scan')" by simp
  with scan_level_steps [OF one] show ?case by (auto dest: Cons.IH intro: steps_trans)
qed simp

lemma scan_clause_boundary:
  "boundary_leak_reported (scan_state (scan_clause offset progresses scan clause)) =
     boundary_leak_reported (scan_state scan)"
  by (auto simp: scan_clause_def scan_clause_identity_def Let_def split: option.splits)

lemma scan_clauses_boundary:
  "boundary_leak_reported (scan_state (foldl (scan_clause offset progresses) scan clauses)) =
     boundary_leak_reported (scan_state scan)"
  by (induction clauses arbitrary: scan) (auto simp: scan_clause_boundary)

lemma scan_invariant_steps:
  assumes "scan_invariant dbg executable excused owner summary invariant (a, scan) = Ok (a', scan')"
  shows "steps (a, scan_state scan) (a', scan_state scan')"
proof (cases "invariant_argument invariant")
  case None
  with assms show ?thesis by (simp add: scan_invariant_def)
next
  case (Some argument)
  let ?offset = "statement_offset invariant"
  from assms Some obtain level_specs where
    "collect_level_specs argument (sum_level_intrinsics summary) = Ok level_specs"
    by (auto simp: scan_invariant_def Let_def)
  moreover obtain b scan1 where
    levels: "foldl (scan_level ?offset owner summary) (a, scan) level_specs = (b, scan1)" by fastforce
  ultimately have rest: "a' = b \<and> boundary_leak_reported (scan_state scan') = boundary_leak_reported (scan_state scan1) \<or>
       a' = record_diagnostic InvariantPermission ?offset owner b"
    using assms Some
    by (auto simp: scan_invariant_def Let_def scan_clauses_boundary report_leak_def split: if_splits)
  have "steps (a, scan_state scan) (b, scan_state scan1)" using levels by (rule scan_levels_steps)
  also have "steps (b, scan_state scan1) (a', scan_state scan')"
    using rest by (auto intro: steps_state steps_report)
  finally show ?thesis .
qed

lemma scan_invariants_steps:
  "sticky_loop (scan_invariant dbg executable excused owner summary) invariants (a, scan) = Ok (a', scan') \<Longrightarrow>
     steps (a, scan_state scan) (a', scan_state scan')"
proof (induction invariants arbitrary: a scan)
  case (Cons invariant invariants)
  then obtain b scan1 where
    "scan_invariant dbg executable excused owner summary invariant (a, scan) = Ok (b, scan1)"
    "sticky_loop (scan_invariant dbg executable excused owner summary) invariants (b, scan1) = Ok (a', scan')"
    by auto
  then show ?case by (auto dest: scan_invariant_steps Cons.IH intro: steps_trans)
qed simp

lemma report_loop_context_steps:
  "report_loop_context loop_offset owner terminates (a, scan) = (a', scan') \<Longrightarrow>
     steps (a, scan_state scan) (a', scan_state scan')"
  by (auto simp: report_loop_context_def Let_def report_leak_def split: if_splits prod.splits
      intro: steps_report extends_trans [OF extends_record extends_record])

lemma enter_loop_steps:
  assumes "enter_loop dbg test body loop_offset owner s a = Ok (a', scan)"
  shows "steps (a, s) (a', scan_state scan)"
proof -
  let ?terminates = "has_termination_invariant body a"
  let ?excused = "?terminates \<or> loop_is_unreachable test \<or> recreates_obligation body owner a"
  let ?scan = "\<lparr> scan_state = s, conditional_exit_keys = [], release_invariants = [],
    level_invariants = [], has_conditional_obligation_invariant = False, has_any_obligation_invariant = False \<rparr>"
  from assms obtain b scan1 where
    scanned: "sticky_loop (scan_invariant dbg (loop_body body) ?excused owner (owner_summary owner a))
       (loop_invariants body) (a, ?scan) = Ok (b, scan1)" and
    headed: "report_loop_context loop_offset owner ?terminates (b, scan1) = (a', scan)"
    unfolding enter_loop_def Let_def by auto
  have "steps (a, s) (b, scan_state scan1)" using scan_invariants_steps [OF scanned] by simp
  also have "steps (b, scan_state scan1) (a', scan_state scan)"
    using headed by (rule report_loop_context_steps)
  finally show ?thesis .
qed

lemma extends_foldl:
  assumes "\<And>a x. extends a (f a x)"
  shows "extends a (foldl f a xs)"
  using assms by (induction xs arbitrary: a) (auto intro: extends_trans)

lemma check_preservation_extends:
  "extends a (check_preservation test body owner scan paths summary recreates a)"
  unfolding check_preservation_def Let_def
  by (rule extends_trans [OF extends_foldl extends_foldl]) auto

lemma drop_exit_keys_boundary:
  "boundary_leak_reported (foldl drop_exit_key s keys) = boundary_leak_reported s"
  by (induction keys arbitrary: s) (auto simp: drop_exit_key_def)

lemma loop_results_reported:
  assumes "p \<in> set (loop_results test scan paths)" "reported a (scan_state scan)"
    "\<And>q. q \<in> set paths \<Longrightarrow> reported a q"
  shows "reported a p"
proof -
  consider "p = foldl drop_exit_key (scan_state scan) (conditional_exit_keys scan)"
    | q where "q \<in> set paths" "p = q \<or> p = set_flow Flow.Normal q"
    using assms(1) unfolding loop_results_def Let_def set_append
    by (elim UnE) (fastforce simp: List.map_filter_def split: Flow.splits if_splits)+
  then show ?thesis
  proof cases
    case 1
    then have "boundary_leak_reported p = boundary_leak_reported (scan_state scan)"
      by (simp add: drop_exit_keys_boundary)
    with assms(2) show ?thesis by (simp add: reported_def)
  next
    case 2
    then have "boundary_leak_reported p = boundary_leak_reported q" by auto
    with assms(3) [OF 2(1)] show ?thesis by (simp add: reported_def)
  qed
qed

lemma leave_loop_extends: "leave_loop test body owner scan (a, paths) = (a', results) \<Longrightarrow> extends a a'"
  by (auto simp: leave_loop_def check_preservation_extends)

lemma run_loop:
  assumes "\<And>a' scan. enter_loop dbg test body offset owner s a = Ok (a', scan) \<Longrightarrow>
      runs a' [scan_state scan] (block scan a')"
  shows "runs a [s] (res_bind (enter_loop dbg test body offset owner s a) (\<lambda>(a', scan).
     res_bind (block scan a') (\<lambda>paths. Ok (leave_loop test body owner scan paths))))"
proof (rule runsI)
  fix b results
  assume "res_bind (enter_loop dbg test body offset owner s a) (\<lambda>(a', scan).
     res_bind (block scan a') (\<lambda>paths. Ok (leave_loop test body owner scan paths))) = Ok (b, results)"
  then obtain a' scan c paths where e: "enter_loop dbg test body offset owner s a = Ok (a', scan)"
    and r: "block scan a' = Ok (c, paths)" and l: "leave_loop test body owner scan (c, paths) = (b, results)"
    by auto
  note in_steps = enter_loop_steps [OF e]
  note body = runsD [OF assms [OF e] r]
  have out: "extends c b" using l by (rule leave_loop_extends)
  show "extends a b" using in_steps body(1) out by (auto simp: steps_def dest: extends_trans)
  fix p assume "\<And>t. t \<in> set [s] \<Longrightarrow> reported a t" and p: "p \<in> set results"
  then have "reported a s" by simp
  then have "reported a' (scan_state scan)" using in_steps steps_reportD by blast
  moreover from this have "reported c q" if "q \<in> set paths" for q using body(2) that by simp
  ultimately have "reported c p"
    using loop_results_reported [of p test scan paths c] p l body(1)
    by (auto simp: leave_loop_def intro: reported_extends)
  then show "reported b p" using out by (rule reported_extends)
qed

lemma runs_cong1: "boundary_leak_reported s' = boundary_leak_reported s \<Longrightarrow> runs a [s'] r = runs a [s] r"
  by (simp add: runs_def reported_def)

lemma execute_runs:
  "runs a states (execute_block dbg statements owner states a)"
  "runs a [s] (execute_statement dbg statement owner s a)"
proof (induction dbg statements owner states a and dbg statement owner s a
    rule: execute_block_execute_statement.induct)
  case (1 dbg owner states a)
  then show ?case by simp
next
  case (2 dbg statement rest owner states a)
  show ?case
    unfolding execute_block.simps
    by (rule runs_bind [OF runs_collect]) (auto intro: 2)
next
  case (3 dbg test body orelse owner s a)
  show ?case
    unfolding execute_statement.simps
    using 3 by (auto intro!: runs_both)
next
  case (4 dbg test body orelse offset owner s a)
  show ?case unfolding execute_statement.simps by (rule run_loop) (auto intro: 4)
next
  case (5 dbg body orelse offset owner s a)
  show ?case unfolding execute_statement.simps by (rule run_loop) (auto intro: 5)
next
  case (6 dbg body handlers orelse finalbody owner s a)
  have raised: "runs b [p] (execute_block dbg stmts owner [set_flow Flow.Normal p] b)"
    if "runs b [set_flow Flow.Normal p] (execute_block dbg stmts owner [set_flow Flow.Normal p] b)" for b p stmts
    using that by (simp add: runs_cong1 [of "set_flow Flow.Normal p" p])
  show ?case
    unfolding execute_statement.simps
    apply (rule runs_bind, rule 6(1))
    apply (simp only: prod.case)
    apply (rule runs_bind, rule runs_collect)
     apply (auto split: Flow.splits option.splits intro: 6(2,3) raised)[1]
    apply (auto intro!: runs_collect runs_map raised 6(4) split: if_splits)
    done
qed (simp_all add: execute_simple_runs)

end
