(* ===== verification/VC_Term.thy ===== *)
theory VC_Term
  imports Prelude "HOL-Library.Word"
begin

text \<open>
  The data of the verification conditions, \<^verbatim>\<open>src/src/vc.rs\<close>: sorts, the contexts and the closed
  error type of the sort checker, and terms. \<open>i64\<close> and \<open>i128\<close> literals are only stored and
  compared here and are modelled as \<open>int\<close>; \<open>u8\<close>, \<open>u32\<close> and \<open>u64\<close> keep their width. A slice
  step of type \<open>NonZeroI128\<close> is an \<open>int\<close>.
\<close>

section \<open>Sorts\<close>

datatype Sort =
    Bool
  | Int
  | Float
  | String
  | Unit
  | Reference
  | Class
  | Bytes
  | Range
  | Tuple "Sort list"
  | VariadicTuple Sort
  | List Sort
  | Set Sort
  | Dict Sort Sort
  | FiniteDict Sort Sort
  | DictKeys Sort

datatype SortContext =
    IntEnumNumericValue
  | RuntimeClassOperand
  | SubclassActualOperand
  | SubclassExpectedOperand
  | FieldReceiver
  | PermissionReceiver
  | NotOperand
  | BooleanOperand
  | ImplicationLeftOperand
  | ImplicationRightOperand
  | ConditionalGuard
  | IntegerLeftOperand
  | IntegerRightOperand
  | FloorDivisionOperand
  | NegationOperand
  | StringConcatenationOperand
  | StringLengthOperand
  | StringSliceReceiver
  | StringSliceStart
  | StringSliceLength
  | BytesConcatenationOperand
  | BytesLengthOperand
  | BytesIndexReceiver
  | BytesIndex
  | VariadicTupleIndex
  | ListElement
  | ListIndex
  | ListMembershipValue
  | SetMembershipValue
  | DictionaryValue
  | DictionaryKey
  | DictionaryMembershipKey
  | DictionaryLookupKey
  | PermissionTransferReceiver
  | FiniteDictionaryKey
  | FiniteDictionaryValue
  | ComprehensionMapper
  | ComprehensionFilter
  | QuantifierBody

primrec as_str :: "SortContext \<Rightarrow> string" where
  "as_str IntEnumNumericValue = ''IntEnum numeric value''"
| "as_str RuntimeClassOperand = ''runtime-class operand''"
| "as_str SubclassActualOperand = ''subclass actual operand''"
| "as_str SubclassExpectedOperand = ''subclass expected operand''"
| "as_str FieldReceiver = ''field receiver''"
| "as_str PermissionReceiver = ''permission receiver''"
| "as_str NotOperand = ''not operand''"
| "as_str BooleanOperand = ''boolean operand''"
| "as_str ImplicationLeftOperand = ''implication left operand''"
| "as_str ImplicationRightOperand = ''implication right operand''"
| "as_str ConditionalGuard = ''conditional guard''"
| "as_str IntegerLeftOperand = ''integer left operand''"
| "as_str IntegerRightOperand = ''integer right operand''"
| "as_str FloorDivisionOperand = ''floor-division operand''"
| "as_str NegationOperand = ''negation operand''"
| "as_str StringConcatenationOperand = ''string concatenation operand''"
| "as_str StringLengthOperand = ''string length operand''"
| "as_str StringSliceReceiver = ''string slice receiver''"
| "as_str StringSliceStart = ''string slice start''"
| "as_str StringSliceLength = ''string slice length''"
| "as_str BytesConcatenationOperand = ''bytes concatenation operand''"
| "as_str BytesLengthOperand = ''bytes length operand''"
| "as_str BytesIndexReceiver = ''bytes index receiver''"
| "as_str BytesIndex = ''bytes index''"
| "as_str VariadicTupleIndex = ''variadic tuple index''"
| "as_str ListElement = ''list element''"
| "as_str ListIndex = ''list index''"
| "as_str ListMembershipValue = ''list membership value''"
| "as_str SetMembershipValue = ''set membership value''"
| "as_str DictionaryValue = ''dictionary value''"
| "as_str DictionaryKey = ''dictionary key''"
| "as_str DictionaryMembershipKey = ''dictionary membership key''"
| "as_str DictionaryLookupKey = ''dictionary lookup key''"
| "as_str PermissionTransferReceiver = ''permission-transfer receiver''"
| "as_str FiniteDictionaryKey = ''finite dictionary key''"
| "as_str FiniteDictionaryValue = ''finite dictionary value''"
| "as_str ComprehensionMapper = ''comprehension mapper''"
| "as_str ComprehensionFilter = ''comprehension filter''"
| "as_str QuantifierBody = ''quantifier body''"

section \<open>Errors of the sort checker\<close>

datatype (plugins only: code size) SortError =
    IntEnumDescriptorMissingClassOrMember
  | IntEnumDescriptorMembersNotUnique
  | IntEnumProjectionRequiresValue
  | IntEnumIdentityRequiresValues
  | NominalReferenceClassEmpty
  | ClassLiteralNameEmpty
  | PredicateInstanceNameEmpty
  | PredicateInstanceArgumentsEmpty
  | PredicateArgumentSortUnsupported
  | SequenceElementSortUnsupported Sort
  | HeapFieldSortUnsupported
  | HeapListElementSortUnsupported Sort
  | PermissionFractionOutsideUnit "32 word" "32 word"
  | PermissionTransferFractionOutsideUnit "32 word" "32 word"
  | PermissionMaskFieldEmpty
  | PermissionMaskTransitionDoesNotAdvance
  | PermissionMaskTransitionFieldEmpty
  | ConditionalBranchSortMismatch Sort Sort
  | EqualityOperandSortMismatch Sort Sort
  | FloorDivisionDivisorNotPositive
  | TupleOperandRequired
  | TupleIndexOutsideLength nat nat
  | VariadicTupleElementSortUnsupported Sort
  | VariadicTupleElementSortMismatch Sort Sort
  | VariadicTupleLengthOperandNotTuple Sort
  | VariadicTupleOperandRequiredForIndex
  | VariadicTupleSliceOperandNotTuple Sort
  | ListLengthOperandNotList Sort
  | ListOperandRequiredForIndex
  | ListOperandRequiredForMembership
  | ListSliceOperandNotList Sort
  | ListConcatLeftOperandNotList Sort
  | ListConcatRightOperandNotList Sort
  | ListConcatElementSortMismatch Sort Sort
  | ListSumOperandNotIntegerList Sort
  | ListSortedOperandNotIntegerList Sort
  | ListSourceRequiredForComprehension
  | SetSourceRequiredForComprehension
  | SetComprehensionElementSortUnsupported Sort
  | SetLengthOperandNotSet Sort
  | SetOperandRequiredForMembership
  | DictionarySourceRequiredForComprehension
  | DictionaryComprehensionSortsUnsupported Sort Sort
  | DictionaryLengthOperandNotDictionary Sort
  | DictionaryOperandRequiredForMembership
  | DictionaryOperandRequiredForLookup
  | QuantifierBinderEmpty
  | ComprehensionBinderEmpty
  | FiniteDictionaryKeySortUnsupported Sort
  | FiniteDictionaryValueSortUnsupported Sort
  | DictionaryKeySortUnsupported Sort
  | BinderSortMismatch string Sort Sort
  | NestedBinderCapture string
  | UnexpectedSort SortContext Sort Sort

section \<open>Terms\<close>

record IntEnumDescriptor =
  enum_class :: string
  enum_members :: "(string \<times> int) list"

text \<open>A transferred amount, over the terms it is part of: receiver, numerator, denominator.\<close>

datatype 'term PermissionTransferAmount =
  PermissionTransferAmount (transfer_receiver: 'term) (transfer_numerator: "32 word") (transfer_denominator: "32 word")

datatype (plugins only: size) Term =
    Bool bool
  | Int int
  | IntEnumValue IntEnumDescriptor Term
  | IntEnumProjection Term
  | IntEnumDomain Term
  | IntEnumIdentity Term Term
  | String string
  | Bytes "8 word list"
  | Range "int list"
  | Unit
  | NullReference
  | NominalReference string string
  | ClassLiteral string
  | RuntimeClass Term
  | PredicateInstance string "Term list"
  | ClassSubtype Term Term
  | Variable string Sort
  | FieldRead "32 word" Term string Sort
  | PermissionAtLeast "32 word" Term string "32 word" "32 word"
  | PermissionAtMost "32 word" Term string "32 word" "32 word"
  | PermissionPositive "32 word" Term string
  | PermissionMaskValid "32 word" string
  | PermissionMaskTransition "32 word" "32 word" string
      "Term PermissionTransferAmount list" "Term PermissionTransferAmount list"
  | Not Term
  | And "Term list"
  | Or "Term list"
  | Implies Term Term
  | IfThenElse Term Term Term
  | Equal Term Term
  | Less Term Term
  | LessEqual Term Term
  | Greater Term Term
  | GreaterEqual Term Term
  | Add Term Term
  | Subtract Term Term
  | Multiply Term Term
  | FloorDivideByPositive Term "64 word"
  | Negate Term
  | StringConcat "Term list"
  | StringLength Term
  | StringSlice Term Term Term
  | BytesConcat "Term list"
  | BytesLength Term
  | BytesGet Term Term
  | Tuple "Term list"
  | TupleGet Term nat
  | VariadicTuple Sort "Term list"
  | VariadicTupleLength Term
  | VariadicTupleGet Term Term
  | VariadicTupleSlice Term "int option" "int option" int
  | List Sort "Term list"
  | ListLength Term
  | ListGet Term Term
  | ListContains Term Term
  | ListSlice Term "int option" "int option" int
  | ListConcat Term Term
  | ListSum Term
  | ListSorted Term
  | ListComprehension string Term string Sort Term "Term option"
  | SetComprehension string Term string Sort Term "Term option"
  | SetLength Term
  | SetContains Term Term
  | DictComprehension string Term string Sort Sort Term Term "Term option"
  | DictLength Term
  | DictContains Term Term
  | DictGet Term Term
  | ForAll string Sort Term
  | FiniteDict Sort Sort "(Term \<times> Term) list"
  | DictKeys Sort "Term list"

end
