(* ===== verification/VC_Sort.thy ===== *)
theory VC_Sort
  imports VC_Term
begin

text \<open>
  The sort checker of the verification conditions, \<^verbatim>\<open>Term::sort_typed\<close> and its helpers in
  \<^verbatim>\<open>src/src/vc.rs\<close>. A helper that checks a subterm first calls the checker on it, so it takes the
  checker's result for that subterm; a loop over subterms takes the list of their results. The
  arms of \<open>sort_typed\<close> that do more than that are definitions of their own.
\<close>

section \<open>Sort predicates\<close>

fun is_finite_dict_key_sort :: "Sort \<Rightarrow> bool" where
  "is_finite_dict_key_sort Sort.Bool = True"
| "is_finite_dict_key_sort Sort.Int = True"
| "is_finite_dict_key_sort Sort.String = True"
| "is_finite_dict_key_sort Sort.Bytes = True"
| "is_finite_dict_key_sort (Sort.Tuple elements) = loop_while_true is_finite_dict_key_sort elements"
| "is_finite_dict_key_sort (Sort.VariadicTuple element) = is_finite_dict_key_sort element"
| "is_finite_dict_key_sort _ = False"

fun is_list_element_sort :: "Sort \<Rightarrow> bool" where
  "is_list_element_sort Sort.Bool = True"
| "is_list_element_sort Sort.Int = True"
| "is_list_element_sort Sort.String = True"
| "is_list_element_sort Sort.Reference = True"
| "is_list_element_sort Sort.Bytes = True"
| "is_list_element_sort (Sort.Tuple elements) = loop_while_true is_list_element_sort elements"
| "is_list_element_sort (Sort.VariadicTuple element) = is_list_element_sort element"
| "is_list_element_sort (Sort.List element) = is_list_element_sort element"
| "is_list_element_sort (Sort.Set element) = is_finite_dict_key_sort element"
| "is_list_element_sort (Sort.Dict key value) = (is_finite_dict_key_sort key \<and> is_list_element_sort value)"
| "is_list_element_sort (Sort.FiniteDict key value) = (is_finite_dict_key_sort key \<and> is_list_element_sort value)"
| "is_list_element_sort _ = False"

fun is_variadic_tuple_element_sort :: "Sort \<Rightarrow> bool" where
  "is_variadic_tuple_element_sort srt =
     (srt = Sort.Float \<or> is_list_element_sort srt \<or>
      (case srt of Sort.VariadicTuple element \<Rightarrow> is_variadic_tuple_element_sort element | _ \<Rightarrow> False))"

declare is_variadic_tuple_element_sort.simps [simp del]

fun is_finite_dict_value_sort :: "Sort \<Rightarrow> bool" where
  "is_finite_dict_value_sort Sort.Bool = True"
| "is_finite_dict_value_sort Sort.Int = True"
| "is_finite_dict_value_sort Sort.String = True"
| "is_finite_dict_value_sort Sort.Reference = True"
| "is_finite_dict_value_sort Sort.Bytes = True"
| "is_finite_dict_value_sort (Sort.Tuple elements) = loop_while_true is_finite_dict_value_sort elements"
| "is_finite_dict_value_sort (Sort.VariadicTuple element) = is_finite_dict_value_sort element"
| "is_finite_dict_value_sort (Sort.List element) = is_finite_dict_value_sort element"
| "is_finite_dict_value_sort (Sort.Set element) = is_finite_dict_key_sort element"
| "is_finite_dict_value_sort (Sort.Dict key value) = (is_finite_dict_key_sort key \<and> is_finite_dict_value_sort value)"
| "is_finite_dict_value_sort (Sort.FiniteDict key value) = (is_finite_dict_key_sort key \<and> is_finite_dict_value_sort value)"
| "is_finite_dict_value_sort _ = False"

section \<open>Syntactic checks\<close>

text \<open>One member: the sets of seen names and values and whether all members so far were valid.\<close>

fun int_enum_member_step ::
  "string set \<times> int set \<times> bool \<Rightarrow> string \<times> int \<Rightarrow> string set \<times> int set \<times> bool" where
  "int_enum_member_step (names, values, valid) (name, value) =
     (if valid
      then if name \<noteq> [] then
             if name \<notin> names then (insert name names, insert value values, value \<notin> values)
             else (names, values, False)
           else (names, values, False)
      else (names, values, valid))"

definition int_enum_members_valid :: "(string \<times> int) list \<Rightarrow> bool" where
  "int_enum_members_valid members =
     (case foldl int_enum_member_step ({}, {}, True) members of (names, values, valid) \<Rightarrow> valid)"

definition validate_int_enum_descriptor :: "IntEnumDescriptor \<Rightarrow> (SortError, unit) result" where
  "validate_int_enum_descriptor descriptor =
     (if enum_class descriptor = [] \<or> enum_members descriptor = []
      then Err IntEnumDescriptorMissingClassOrMember
      else if \<not> int_enum_members_valid (enum_members descriptor)
      then Err IntEnumDescriptorMembersNotUnique
      else Ok ())"

definition is_int_enum_value :: "Term \<Rightarrow> bool" where
  "is_int_enum_value term = (case term of Term.IntEnumValue _ _ \<Rightarrow> True | _ \<Rightarrow> False)"

definition is_nominal_reference :: "Term \<Rightarrow> bool" where
  "is_nominal_reference term = (case term of Term.NominalReference _ _ \<Rightarrow> True | _ \<Rightarrow> False)"

definition all_nominal_references :: "Term list \<Rightarrow> bool" where
  "all_nominal_references values = loop_while_true is_nominal_reference values"

definition is_exact_nominal_reference_list :: "Term \<Rightarrow> bool" where
  "is_exact_nominal_reference_list source =
     (case source of
        Term.List element_sort values \<Rightarrow> element_sort = Sort.Reference \<and> all_nominal_references values
      | _ \<Rightarrow> False)"

definition is_reference_binder_projection :: "Term \<Rightarrow> string \<Rightarrow> bool" where
  "is_reference_binder_projection mapped binder =
     (case mapped of
        Term.Variable name srt \<Rightarrow> srt = Sort.Reference \<and> name = binder
      | _ \<Rightarrow> False)"

definition all_nominal_reference_keys :: "(Term \<times> Term) list \<Rightarrow> bool" where
  "all_nominal_reference_keys entries = loop_while_true (\<lambda>(key, _). is_nominal_reference key) entries"

section \<open>Bound occurrences\<close>

text \<open>
  The recursion returns a check of the binder and its sort; \<open>one\<close>, \<open>two\<close>, \<open>all\<close>,
  \<open>all_transfers\<close> and \<open>all_entries\<close> combine the checks of subterms.
\<close>

type_synonym bound_check = "string \<Rightarrow> Sort \<Rightarrow> (SortError, unit) result"

definition bound_two :: "bound_check \<Rightarrow> bound_check \<Rightarrow> bound_check" where
  "bound_two left right binder binder_sort =
     res_bind (left binder binder_sort) (\<lambda>_. right binder binder_sort)"

definition bound_all :: "bound_check list \<Rightarrow> bound_check" where
  "bound_all terms binder binder_sort = loop_while_ok (\<lambda>check. check binder binder_sort) terms"

definition bound_all_transfers :: "bound_check PermissionTransferAmount list \<Rightarrow> bound_check" where
  "bound_all_transfers amounts binder binder_sort =
     loop_while_ok (\<lambda>amount. transfer_receiver amount binder binder_sort) amounts"

definition bound_all_entries :: "(bound_check \<times> bound_check) list \<Rightarrow> bound_check" where
  "bound_all_entries entries binder binder_sort =
     loop_while_ok (\<lambda>(key, value). bound_two key value binder binder_sort) entries"

definition bound_option :: "bound_check option \<Rightarrow> bound_check" where
  "bound_option condition binder binder_sort =
     (case condition of None \<Rightarrow> Ok () | Some condition \<Rightarrow> condition binder binder_sort)"

definition bound_variable :: "string \<Rightarrow> Sort \<Rightarrow> bound_check" where
  "bound_variable name srt binder binder_sort =
     (if name = binder
      then if srt = binder_sort then Ok () else Err (BinderSortMismatch binder srt binder_sort)
      else Ok ())"

text \<open>A nested binder of the same name is refused before its subterms are visited.\<close>

definition bound_nested :: "string \<Rightarrow> bound_check \<Rightarrow> bound_check" where
  "bound_nested nested body binder binder_sort =
     (if nested = binder then Err (NestedBinderCapture binder) else body binder binder_sort)"

definition bound_none :: bound_check where
  "bound_none binder binder_sort = Ok ()"

primrec validate_bound_occurrences :: "Term \<Rightarrow> bound_check" where
  "validate_bound_occurrences (Term.Variable name srt) = bound_variable name srt"
| "validate_bound_occurrences (Term.PredicateInstance predicate arguments) =
     bound_all (map validate_bound_occurrences arguments)"
| "validate_bound_occurrences (Term.And values) = bound_all (map validate_bound_occurrences values)"
| "validate_bound_occurrences (Term.Or values) = bound_all (map validate_bound_occurrences values)"
| "validate_bound_occurrences (Term.StringConcat values) = bound_all (map validate_bound_occurrences values)"
| "validate_bound_occurrences (Term.BytesConcat values) = bound_all (map validate_bound_occurrences values)"
| "validate_bound_occurrences (Term.Tuple values) = bound_all (map validate_bound_occurrences values)"
| "validate_bound_occurrences (Term.VariadicTuple element_sort values) = bound_all (map validate_bound_occurrences values)"
| "validate_bound_occurrences (Term.List element_sort values) = bound_all (map validate_bound_occurrences values)"
| "validate_bound_occurrences (Term.DictKeys key_sort values) = bound_all (map validate_bound_occurrences values)"
| "validate_bound_occurrences (Term.RuntimeClass value) = validate_bound_occurrences value"
| "validate_bound_occurrences (Term.IntEnumValue descriptor value) = validate_bound_occurrences value"
| "validate_bound_occurrences (Term.IntEnumProjection value) = validate_bound_occurrences value"
| "validate_bound_occurrences (Term.IntEnumDomain value) = validate_bound_occurrences value"
| "validate_bound_occurrences (Term.FieldRead heap receiver field srt) = validate_bound_occurrences receiver"
| "validate_bound_occurrences (Term.PermissionAtLeast mask_version receiver field numerator denominator) =
     validate_bound_occurrences receiver"
| "validate_bound_occurrences (Term.PermissionAtMost mask_version receiver field numerator denominator) =
     validate_bound_occurrences receiver"
| "validate_bound_occurrences (Term.PermissionPositive mask_version receiver field) = validate_bound_occurrences receiver"
| "validate_bound_occurrences (Term.Not value) = validate_bound_occurrences value"
| "validate_bound_occurrences (Term.FloorDivideByPositive value divisor) = validate_bound_occurrences value"
| "validate_bound_occurrences (Term.Negate value) = validate_bound_occurrences value"
| "validate_bound_occurrences (Term.StringLength value) = validate_bound_occurrences value"
| "validate_bound_occurrences (Term.BytesLength value) = validate_bound_occurrences value"
| "validate_bound_occurrences (Term.TupleGet tuple index) = validate_bound_occurrences tuple"
| "validate_bound_occurrences (Term.VariadicTupleLength value) = validate_bound_occurrences value"
| "validate_bound_occurrences (Term.VariadicTupleSlice source lower upper step) = validate_bound_occurrences source"
| "validate_bound_occurrences (Term.ListLength value) = validate_bound_occurrences value"
| "validate_bound_occurrences (Term.ListSlice source lower upper step) = validate_bound_occurrences source"
| "validate_bound_occurrences (Term.ListSum source) = validate_bound_occurrences source"
| "validate_bound_occurrences (Term.ListSorted source) = validate_bound_occurrences source"
| "validate_bound_occurrences (Term.SetLength value) = validate_bound_occurrences value"
| "validate_bound_occurrences (Term.DictLength value) = validate_bound_occurrences value"
| "validate_bound_occurrences (Term.StringSlice source start len) =
     bound_all [validate_bound_occurrences source, validate_bound_occurrences start, validate_bound_occurrences len]"
| "validate_bound_occurrences (Term.ClassSubtype actual expected) =
     bound_two (validate_bound_occurrences actual) (validate_bound_occurrences expected)"
| "validate_bound_occurrences (Term.Implies left right) =
     bound_two (validate_bound_occurrences left) (validate_bound_occurrences right)"
| "validate_bound_occurrences (Term.Equal left right) =
     bound_two (validate_bound_occurrences left) (validate_bound_occurrences right)"
| "validate_bound_occurrences (Term.Less left right) =
     bound_two (validate_bound_occurrences left) (validate_bound_occurrences right)"
| "validate_bound_occurrences (Term.LessEqual left right) =
     bound_two (validate_bound_occurrences left) (validate_bound_occurrences right)"
| "validate_bound_occurrences (Term.Greater left right) =
     bound_two (validate_bound_occurrences left) (validate_bound_occurrences right)"
| "validate_bound_occurrences (Term.GreaterEqual left right) =
     bound_two (validate_bound_occurrences left) (validate_bound_occurrences right)"
| "validate_bound_occurrences (Term.Add left right) =
     bound_two (validate_bound_occurrences left) (validate_bound_occurrences right)"
| "validate_bound_occurrences (Term.Subtract left right) =
     bound_two (validate_bound_occurrences left) (validate_bound_occurrences right)"
| "validate_bound_occurrences (Term.Multiply left right) =
     bound_two (validate_bound_occurrences left) (validate_bound_occurrences right)"
| "validate_bound_occurrences (Term.IntEnumIdentity left right) =
     bound_two (validate_bound_occurrences left) (validate_bound_occurrences right)"
| "validate_bound_occurrences (Term.BytesGet bytes index) =
     bound_two (validate_bound_occurrences bytes) (validate_bound_occurrences index)"
| "validate_bound_occurrences (Term.VariadicTupleGet tuple index) =
     bound_two (validate_bound_occurrences tuple) (validate_bound_occurrences index)"
| "validate_bound_occurrences (Term.ListGet xs index) =
     bound_two (validate_bound_occurrences xs) (validate_bound_occurrences index)"
| "validate_bound_occurrences (Term.ListContains xs value) =
     bound_two (validate_bound_occurrences xs) (validate_bound_occurrences value)"
| "validate_bound_occurrences (Term.ListConcat left right) =
     bound_two (validate_bound_occurrences left) (validate_bound_occurrences right)"
| "validate_bound_occurrences (Term.SetContains collection value) =
     bound_two (validate_bound_occurrences collection) (validate_bound_occurrences value)"
| "validate_bound_occurrences (Term.DictContains dict key) =
     bound_two (validate_bound_occurrences dict) (validate_bound_occurrences key)"
| "validate_bound_occurrences (Term.DictGet dict key) =
     bound_two (validate_bound_occurrences dict) (validate_bound_occurrences key)"
| "validate_bound_occurrences (Term.IfThenElse condition then_value else_value) =
     bound_two (validate_bound_occurrences condition)
       (bound_two (validate_bound_occurrences then_value) (validate_bound_occurrences else_value))"
| "validate_bound_occurrences (Term.PermissionMaskTransition pre_mask post_mask field consumed produced) =
     bound_two (bound_all_transfers (map (map_PermissionTransferAmount validate_bound_occurrences) consumed))
       (bound_all_transfers (map (map_PermissionTransferAmount validate_bound_occurrences) produced))"
| "validate_bound_occurrences (Term.FiniteDict key_sort value_sort entries) =
     bound_all_entries (map (map_prod validate_bound_occurrences validate_bound_occurrences) entries)"
| "validate_bound_occurrences (Term.ListComprehension identifier source nested element_sort mapped condition) =
     bound_nested nested
       (bound_two (validate_bound_occurrences source)
         (bound_two (validate_bound_occurrences mapped)
           (bound_option (map_option validate_bound_occurrences condition))))"
| "validate_bound_occurrences (Term.SetComprehension identifier source nested element_sort mapped condition) =
     bound_nested nested
       (bound_two (validate_bound_occurrences source)
         (bound_two (validate_bound_occurrences mapped)
           (bound_option (map_option validate_bound_occurrences condition))))"
| "validate_bound_occurrences (Term.DictComprehension identifier source nested key_sort value_sort key value condition) =
     bound_nested nested
       (bound_two (validate_bound_occurrences source)
         (bound_two (bound_two (validate_bound_occurrences key) (validate_bound_occurrences value))
           (bound_option (map_option validate_bound_occurrences condition))))"
| "validate_bound_occurrences (Term.ForAll nested nested_sort body) =
     bound_nested nested (validate_bound_occurrences body)"
| "validate_bound_occurrences (Term.Bool b) = bound_none"
| "validate_bound_occurrences (Term.Int i) = bound_none"
| "validate_bound_occurrences (Term.String s) = bound_none"
| "validate_bound_occurrences (Term.Bytes bs) = bound_none"
| "validate_bound_occurrences (Term.Range values) = bound_none"
| "validate_bound_occurrences Term.Unit = bound_none"
| "validate_bound_occurrences Term.NullReference = bound_none"
| "validate_bound_occurrences (Term.NominalReference name cls) = bound_none"
| "validate_bound_occurrences (Term.ClassLiteral name) = bound_none"
| "validate_bound_occurrences (Term.PermissionMaskValid mask_version field) = bound_none"

section \<open>Checks of operands\<close>

text \<open>From here a subterm is represented by the checker's result for it.\<close>

type_synonym sort_result = "(SortError, Sort) result"
type_synonym sort_check = "(SortError, unit) result"

definition require_sort :: "sort_result \<Rightarrow> Sort \<Rightarrow> SortContext \<Rightarrow> sort_check" where
  "require_sort checked expected context =
     res_bind checked (\<lambda>actual.
       if actual = expected then Ok () else Err (UnexpectedSort context actual expected))"

definition require_all_sorts :: "sort_result list \<Rightarrow> Sort \<Rightarrow> SortContext \<Rightarrow> sort_check" where
  "require_all_sorts values expected context =
     loop_while_ok (\<lambda>value. require_sort value expected context) values"

definition collect_sorts :: "sort_result list \<Rightarrow> (SortError, Sort list) result" where
  "collect_sorts values = collect_while_ok (\<lambda>value. value) values"

definition require_predicate_argument_sorts :: "sort_result list \<Rightarrow> sort_check" where
  "require_predicate_argument_sorts arguments =
     loop_while_ok (\<lambda>argument.
       case argument of
         Inr actual \<Rightarrow>
           (case actual of
              Sort.Bool \<Rightarrow> Ok () | Sort.Int \<Rightarrow> Ok () | Sort.String \<Rightarrow> Ok ()
            | Sort.Reference \<Rightarrow> Ok () | Sort.Class \<Rightarrow> Ok ()
            | _ \<Rightarrow> Err PredicateArgumentSortUnsupported)
       | Inl error \<Rightarrow> Err error) arguments"

definition require_permission_transfer_amounts :: "sort_result PermissionTransferAmount list \<Rightarrow> sort_check" where
  "require_permission_transfer_amounts amounts =
     loop_while_ok (\<lambda>amount.
       case require_sort (transfer_receiver amount) Sort.Reference PermissionTransferReceiver of
         Inr _ \<Rightarrow>
           if transfer_denominator amount = 0 \<or> transfer_numerator amount > transfer_denominator amount
           then Err (PermissionTransferFractionOutsideUnit (transfer_numerator amount) (transfer_denominator amount))
           else Ok ()
       | Inl error \<Rightarrow> Err error) amounts"

definition require_finite_dict_entry_sorts :: "(sort_result \<times> sort_result) list \<Rightarrow> Sort \<Rightarrow> Sort \<Rightarrow> sort_check" where
  "require_finite_dict_entry_sorts entries key_sort value_sort =
     loop_while_ok (\<lambda>(key, value).
       case require_sort key key_sort FiniteDictionaryKey of
         Inr _ \<Rightarrow> require_sort value value_sort FiniteDictionaryValue
       | Inl error \<Rightarrow> Err error) entries"

definition require_variadic_tuple_element_sorts :: "sort_result list \<Rightarrow> Sort \<Rightarrow> sort_check" where
  "require_variadic_tuple_element_sorts values expected =
     loop_while_ok (\<lambda>value.
       case value of
         Inr actual \<Rightarrow>
           if actual = expected then Ok () else Err (VariadicTupleElementSortMismatch expected actual)
       | Inl error \<Rightarrow> Err error) values"

text \<open>A term under a binder, with the checker's result for it.\<close>

definition require_bound_term_sort ::
  "string \<Rightarrow> Sort \<Rightarrow> Term \<times> sort_result \<Rightarrow> Sort \<Rightarrow> SortContext \<Rightarrow> sort_check" where
  "require_bound_term_sort binder binder_sort checked expected context =
     res_bind (validate_bound_occurrences (fst checked) binder binder_sort)
       (\<lambda>_. require_sort (snd checked) expected context)"

definition require_comprehension_body ::
  "string \<Rightarrow> Sort \<Rightarrow> Term \<times> sort_result \<Rightarrow> Sort \<Rightarrow> (Term \<times> sort_result) option \<Rightarrow> sort_check" where
  "require_comprehension_body binder binder_sort mapped mapped_sort condition =
     (if binder = [] then Err ComprehensionBinderEmpty
      else res_bind (require_bound_term_sort binder binder_sort mapped mapped_sort ComprehensionMapper) (\<lambda>_.
        case condition of
          Some condition \<Rightarrow> require_bound_term_sort binder binder_sort condition Sort.Bool ComprehensionFilter
        | None \<Rightarrow> Ok ()))"

section \<open>The arms of the checker\<close>

definition sort_int_enum_value :: "IntEnumDescriptor \<Rightarrow> sort_result \<Rightarrow> sort_result" where
  "sort_int_enum_value descriptor value =
     res_bind (validate_int_enum_descriptor descriptor) (\<lambda>_.
     res_bind (require_sort value Sort.Int IntEnumNumericValue) (\<lambda>_.
     Ok Sort.Int))"

definition sort_int_enum_projection :: "Sort \<Rightarrow> Term \<Rightarrow> sort_result \<Rightarrow> sort_result" where
  "sort_int_enum_projection projected operand value =
     (if \<not> is_int_enum_value operand then Err IntEnumProjectionRequiresValue
      else res_bind value (\<lambda>_. Ok projected))"

definition sort_int_enum_identity :: "Term \<Rightarrow> Term \<Rightarrow> sort_result \<Rightarrow> sort_result \<Rightarrow> sort_result" where
  "sort_int_enum_identity left_operand right_operand left right =
     (if \<not> is_int_enum_value left_operand \<or> \<not> is_int_enum_value right_operand
      then Err IntEnumIdentityRequiresValues
      else res_bind left (\<lambda>_. res_bind right (\<lambda>_. Ok Sort.Bool)))"

definition sort_predicate_instance :: "string \<Rightarrow> sort_result list \<Rightarrow> sort_result" where
  "sort_predicate_instance predicate arguments =
     (if predicate = [] then Err PredicateInstanceNameEmpty
      else if arguments = [] then Err PredicateInstanceArgumentsEmpty
      else res_bind (require_predicate_argument_sorts arguments) (\<lambda>_. Ok Sort.Reference))"

definition sort_variable :: "Sort \<Rightarrow> sort_result" where
  "sort_variable srt =
     (case srt of
        Sort.List element \<Rightarrow>
          if is_list_element_sort element then Ok srt else Err (SequenceElementSortUnsupported element)
      | Sort.VariadicTuple element \<Rightarrow>
          if is_variadic_tuple_element_sort element then Ok srt
          else Err (VariadicTupleElementSortUnsupported element)
      | _ \<Rightarrow> Ok srt)"

definition sort_field_read :: "sort_result \<Rightarrow> Sort \<Rightarrow> sort_result" where
  "sort_field_read receiver srt =
     res_bind (require_sort receiver Sort.Reference FieldReceiver) (\<lambda>_.
     case srt of
       Sort.Unit \<Rightarrow> Err HeapFieldSortUnsupported
     | Sort.Class \<Rightarrow> Err HeapFieldSortUnsupported
     | Sort.Range \<Rightarrow> Err HeapFieldSortUnsupported
     | Sort.FiniteDict _ _ \<Rightarrow> Err HeapFieldSortUnsupported
     | Sort.DictKeys _ \<Rightarrow> Err HeapFieldSortUnsupported
     | Sort.VariadicTuple element \<Rightarrow>
         if is_variadic_tuple_element_sort element then Ok srt
         else Err (VariadicTupleElementSortUnsupported element)
     | Sort.List element \<Rightarrow>
         if is_list_element_sort element then Ok srt else Err (HeapListElementSortUnsupported element)
     | _ \<Rightarrow> Ok srt)"

text \<open>\<open>PermissionAtLeast\<close> and \<open>PermissionAtMost\<close> have the same arm.\<close>

definition sort_permission_bound :: "sort_result \<Rightarrow> 32 word \<Rightarrow> 32 word \<Rightarrow> sort_result" where
  "sort_permission_bound receiver numerator denominator =
     res_bind (require_sort receiver Sort.Reference PermissionReceiver) (\<lambda>_.
     if denominator = 0 \<or> numerator > denominator
     then Err (PermissionFractionOutsideUnit numerator denominator)
     else Ok Sort.Bool)"

definition sort_permission_mask_transition ::
  "32 word \<Rightarrow> 32 word \<Rightarrow> string \<Rightarrow> sort_result PermissionTransferAmount list \<Rightarrow>
   sort_result PermissionTransferAmount list \<Rightarrow> sort_result" where
  "sort_permission_mask_transition pre_mask post_mask field consumed produced =
     (if pre_mask = post_mask then Err PermissionMaskTransitionDoesNotAdvance
      else if field = [] then Err PermissionMaskTransitionFieldEmpty
      else
        res_bind (require_permission_transfer_amounts consumed) (\<lambda>_.
        res_bind (require_permission_transfer_amounts produced) (\<lambda>_.
        Ok Sort.Bool)))"

definition sort_if_then_else :: "sort_result \<Rightarrow> sort_result \<Rightarrow> sort_result \<Rightarrow> sort_result" where
  "sort_if_then_else condition then_value else_value =
     res_bind (require_sort condition Sort.Bool ConditionalGuard) (\<lambda>_.
     res_bind then_value (\<lambda>then_sort.
     res_bind else_value (\<lambda>else_sort.
     if then_sort \<noteq> else_sort then Err (ConditionalBranchSortMismatch then_sort else_sort)
     else Ok then_sort)))"

definition sort_equal :: "sort_result \<Rightarrow> sort_result \<Rightarrow> sort_result" where
  "sort_equal left right =
     res_bind left (\<lambda>left_sort.
     res_bind right (\<lambda>right_sort.
     if left_sort \<noteq> right_sort then Err (EqualityOperandSortMismatch left_sort right_sort)
     else Ok Sort.Bool))"

text \<open>The comparisons give \<open>Sort.Bool\<close>, the arithmetic operators \<open>Sort.Int\<close>.\<close>

definition sort_integer_operator :: "Sort \<Rightarrow> sort_result \<Rightarrow> sort_result \<Rightarrow> sort_result" where
  "sort_integer_operator operator_sort left right =
     res_bind (require_sort left Sort.Int IntegerLeftOperand) (\<lambda>_.
     res_bind (require_sort right Sort.Int IntegerRightOperand) (\<lambda>_.
     Ok operator_sort))"

definition sort_floor_divide :: "sort_result \<Rightarrow> 64 word \<Rightarrow> sort_result" where
  "sort_floor_divide value divisor =
     res_bind (require_sort value Sort.Int FloorDivisionOperand) (\<lambda>_.
     if divisor = 0 then Err FloorDivisionDivisorNotPositive else Ok Sort.Int)"

definition sort_string_slice :: "sort_result \<Rightarrow> sort_result \<Rightarrow> sort_result \<Rightarrow> sort_result" where
  "sort_string_slice source start len =
     res_bind (require_sort source Sort.String StringSliceReceiver) (\<lambda>_.
     res_bind (require_sort start Sort.Int StringSliceStart) (\<lambda>_.
     res_bind (require_sort len Sort.Int StringSliceLength) (\<lambda>_.
     Ok Sort.String)))"

definition sort_bytes_get :: "sort_result \<Rightarrow> sort_result \<Rightarrow> sort_result" where
  "sort_bytes_get bytes index =
     res_bind (require_sort bytes Sort.Bytes BytesIndexReceiver) (\<lambda>_.
     res_bind (require_sort index Sort.Int BytesIndex) (\<lambda>_.
     Ok Sort.Int))"

definition sort_tuple :: "sort_result list \<Rightarrow> sort_result" where
  "sort_tuple values = res_bind (collect_sorts values) (\<lambda>elements. Ok (Sort.Tuple elements))"

definition sort_tuple_get :: "sort_result \<Rightarrow> nat \<Rightarrow> sort_result" where
  "sort_tuple_get tuple index =
     res_bind tuple (\<lambda>tuple_sort.
     case tuple_sort of
       Sort.Tuple elements \<Rightarrow>
         if index < length elements then Ok (elements ! index)
         else Err (TupleIndexOutsideLength index (length elements))
     | _ \<Rightarrow> Err TupleOperandRequired)"

definition sort_variadic_tuple :: "Sort \<Rightarrow> sort_result list \<Rightarrow> sort_result" where
  "sort_variadic_tuple element_sort values =
     (if \<not> is_variadic_tuple_element_sort element_sort
      then Err (VariadicTupleElementSortUnsupported element_sort)
      else res_bind (require_variadic_tuple_element_sorts values element_sort) (\<lambda>_.
        Ok (Sort.VariadicTuple element_sort)))"

definition sort_variadic_tuple_length :: "sort_result \<Rightarrow> sort_result" where
  "sort_variadic_tuple_length value =
     res_bind value (\<lambda>actual.
     case actual of
       Sort.VariadicTuple _ \<Rightarrow> Ok Sort.Int
     | _ \<Rightarrow> Err (VariadicTupleLengthOperandNotTuple actual))"

definition sort_variadic_tuple_get :: "sort_result \<Rightarrow> sort_result \<Rightarrow> sort_result" where
  "sort_variadic_tuple_get tuple index =
     res_bind (require_sort index Sort.Int VariadicTupleIndex) (\<lambda>_.
     res_bind tuple (\<lambda>tuple_sort.
     case tuple_sort of
       Sort.VariadicTuple element \<Rightarrow> Ok element
     | _ \<Rightarrow> Err VariadicTupleOperandRequiredForIndex))"

definition sort_variadic_tuple_slice :: "sort_result \<Rightarrow> sort_result" where
  "sort_variadic_tuple_slice source =
     res_bind source (\<lambda>actual.
     case actual of
       Sort.VariadicTuple _ \<Rightarrow> Ok actual
     | _ \<Rightarrow> Err (VariadicTupleSliceOperandNotTuple actual))"

definition sort_list :: "Sort \<Rightarrow> sort_result list \<Rightarrow> sort_result" where
  "sort_list element_sort values =
     (if \<not> is_list_element_sort element_sort then Err (SequenceElementSortUnsupported element_sort)
      else res_bind (require_all_sorts values element_sort ListElement) (\<lambda>_.
        Ok (Sort.List element_sort)))"

definition sort_list_length :: "sort_result \<Rightarrow> sort_result" where
  "sort_list_length value =
     res_bind value (\<lambda>actual.
     case actual of
       Sort.List _ \<Rightarrow> Ok Sort.Int
     | _ \<Rightarrow> Err (ListLengthOperandNotList actual))"

definition sort_list_get :: "sort_result \<Rightarrow> sort_result \<Rightarrow> sort_result" where
  "sort_list_get xs index =
     res_bind (require_sort index Sort.Int ListIndex) (\<lambda>_.
     res_bind xs (\<lambda>list_sort.
     case list_sort of
       Sort.List element \<Rightarrow> Ok element
     | _ \<Rightarrow> Err ListOperandRequiredForIndex))"

definition sort_list_contains :: "sort_result \<Rightarrow> sort_result \<Rightarrow> sort_result" where
  "sort_list_contains xs value =
     res_bind xs (\<lambda>list_sort.
     case list_sort of
       Sort.List element \<Rightarrow>
         res_bind (require_sort value element ListMembershipValue) (\<lambda>_. Ok Sort.Bool)
     | _ \<Rightarrow> Err ListOperandRequiredForMembership)"

definition sort_list_slice :: "sort_result \<Rightarrow> sort_result" where
  "sort_list_slice source =
     res_bind source (\<lambda>actual.
     case actual of
       Sort.List _ \<Rightarrow> Ok actual
     | _ \<Rightarrow> Err (ListSliceOperandNotList actual))"

definition sort_list_concat :: "sort_result \<Rightarrow> sort_result \<Rightarrow> sort_result" where
  "sort_list_concat left right =
     res_bind (res_bind left (\<lambda>actual.
       case actual of Sort.List element \<Rightarrow> Ok element
       | _ \<Rightarrow> Err (ListConcatLeftOperandNotList actual))) (\<lambda>left_element.
     res_bind (res_bind right (\<lambda>actual.
       case actual of Sort.List element \<Rightarrow> Ok element
       | _ \<Rightarrow> Err (ListConcatRightOperandNotList actual))) (\<lambda>right_element.
     if left_element \<noteq> right_element then Err (ListConcatElementSortMismatch left_element right_element)
     else Ok (Sort.List left_element)))"

definition sort_list_sum :: "sort_result \<Rightarrow> sort_result" where
  "sort_list_sum source =
     res_bind source (\<lambda>actual.
     if actual = Sort.List Sort.Int then Ok Sort.Int else Err (ListSumOperandNotIntegerList actual))"

definition sort_list_sorted :: "sort_result \<Rightarrow> sort_result" where
  "sort_list_sorted source =
     res_bind source (\<lambda>actual.
     if actual = Sort.List Sort.Int then Ok actual else Err (ListSortedOperandNotIntegerList actual))"

definition sort_list_comprehension ::
  "sort_result \<Rightarrow> string \<Rightarrow> Sort \<Rightarrow> Term \<times> sort_result \<Rightarrow> (Term \<times> sort_result) option \<Rightarrow> sort_result" where
  "sort_list_comprehension source binder element_sort mapped condition =
     res_bind source (\<lambda>source_sort.
     case source_sort of
       Sort.List source_element \<Rightarrow>
         res_bind (require_comprehension_body binder source_element mapped element_sort condition) (\<lambda>_.
         Ok (Sort.List element_sort))
     | _ \<Rightarrow> Err ListSourceRequiredForComprehension)"

text \<open>
  Members of a set must be hashable; references are allowed only when the set is the identity image of
  a literal list of nominal references.
\<close>

definition sort_set_comprehension ::
  "Term \<times> sort_result \<Rightarrow> string \<Rightarrow> Sort \<Rightarrow> Term \<times> sort_result \<Rightarrow> (Term \<times> sort_result) option \<Rightarrow> sort_result" where
  "sort_set_comprehension source binder element_sort mapped condition =
     res_bind (snd source) (\<lambda>source_sort.
     case source_sort of
       Sort.List source_element \<Rightarrow>
         (let exact_reference_identity_set =
                element_sort = Sort.Reference \<and> is_exact_nominal_reference_list (fst source)
                \<and> is_reference_binder_projection (fst mapped) binder
          in if \<not> is_finite_dict_key_sort element_sort \<and> \<not> exact_reference_identity_set
             then Err (SetComprehensionElementSortUnsupported element_sort)
             else res_bind (require_comprehension_body binder source_element mapped element_sort condition) (\<lambda>_.
               Ok (Sort.Set element_sort)))
     | _ \<Rightarrow> Err SetSourceRequiredForComprehension)"

definition sort_set_length :: "sort_result \<Rightarrow> sort_result" where
  "sort_set_length value =
     res_bind value (\<lambda>actual.
     case actual of
       Sort.Set _ \<Rightarrow> Ok Sort.Int
     | _ \<Rightarrow> Err (SetLengthOperandNotSet actual))"

definition sort_set_contains :: "sort_result \<Rightarrow> sort_result \<Rightarrow> sort_result" where
  "sort_set_contains collection value =
     res_bind collection (\<lambda>set_sort.
     case set_sort of
       Sort.Set element \<Rightarrow>
         res_bind (require_sort value element SetMembershipValue) (\<lambda>_. Ok Sort.Bool)
     | _ \<Rightarrow> Err SetOperandRequiredForMembership)"

definition sort_dict_comprehension ::
  "sort_result \<Rightarrow> string \<Rightarrow> Sort \<Rightarrow> Sort \<Rightarrow> Term \<times> sort_result \<Rightarrow> Term \<times> sort_result \<Rightarrow>
   (Term \<times> sort_result) option \<Rightarrow> sort_result" where
  "sort_dict_comprehension source binder key_sort value_sort key value condition =
     res_bind source (\<lambda>source_sort.
     case source_sort of
       Sort.List source_element \<Rightarrow>
         if \<not> is_finite_dict_key_sort key_sort \<or> \<not> is_finite_dict_value_sort value_sort
         then Err (DictionaryComprehensionSortsUnsupported key_sort value_sort)
         else
           res_bind (require_comprehension_body binder source_element key key_sort condition) (\<lambda>_.
           res_bind (require_bound_term_sort binder source_element value value_sort DictionaryValue) (\<lambda>_.
           Ok (Sort.Dict key_sort value_sort)))
     | _ \<Rightarrow> Err DictionarySourceRequiredForComprehension)"

definition sort_dict_length :: "sort_result \<Rightarrow> sort_result" where
  "sort_dict_length value =
     res_bind value (\<lambda>actual.
     case actual of
       Sort.Dict _ _ \<Rightarrow> Ok Sort.Int
     | Sort.FiniteDict _ _ \<Rightarrow> Ok Sort.Int
     | _ \<Rightarrow> Err (DictionaryLengthOperandNotDictionary actual))"

definition sort_dict_contains :: "sort_result \<Rightarrow> sort_result \<Rightarrow> sort_result" where
  "sort_dict_contains dict key =
     res_bind dict (\<lambda>dict_sort.
     case dict_sort of
       Sort.Dict expected _ \<Rightarrow>
         res_bind (require_sort key expected DictionaryMembershipKey) (\<lambda>_. Ok Sort.Bool)
     | _ \<Rightarrow> Err DictionaryOperandRequiredForMembership)"

definition sort_dict_get :: "sort_result \<Rightarrow> sort_result \<Rightarrow> sort_result" where
  "sort_dict_get dict key =
     res_bind dict (\<lambda>dict_sort.
     case dict_sort of
       Sort.Dict expected value \<Rightarrow>
         res_bind (require_sort key expected DictionaryLookupKey) (\<lambda>_. Ok value)
     | _ \<Rightarrow> Err DictionaryOperandRequiredForLookup)"

definition sort_for_all :: "string \<Rightarrow> Sort \<Rightarrow> Term \<times> sort_result \<Rightarrow> sort_result" where
  "sort_for_all binder binder_sort body =
     (if binder = [] then Err QuantifierBinderEmpty
      else res_bind (require_bound_term_sort binder binder_sort body Sort.Bool QuantifierBody) (\<lambda>_.
        Ok Sort.Bool))"

definition sort_finite_dict ::
  "Sort \<Rightarrow> Sort \<Rightarrow> (Term \<times> Term) list \<Rightarrow> (sort_result \<times> sort_result) list \<Rightarrow> sort_result" where
  "sort_finite_dict key_sort value_sort entries checked_entries =
     (let exact_reference_keys = key_sort = Sort.Reference \<and> all_nominal_reference_keys entries
      in if \<not> is_finite_dict_key_sort key_sort \<and> \<not> exact_reference_keys
         then Err (FiniteDictionaryKeySortUnsupported key_sort)
         else if \<not> is_finite_dict_value_sort value_sort
         then Err (FiniteDictionaryValueSortUnsupported value_sort)
         else res_bind (require_finite_dict_entry_sorts checked_entries key_sort value_sort) (\<lambda>_.
           Ok (Sort.FiniteDict key_sort value_sort)))"

definition sort_dict_keys :: "Sort \<Rightarrow> sort_result list \<Rightarrow> sort_result" where
  "sort_dict_keys key_sort values =
     (if \<not> is_finite_dict_key_sort key_sort then Err (DictionaryKeySortUnsupported key_sort)
      else res_bind (require_all_sorts values key_sort DictionaryKey) (\<lambda>_.
        Ok (Sort.DictKeys key_sort)))"

section \<open>The checker\<close>

text \<open>An arm that looks at a subterm besides checking it gets the subterm and its result.\<close>

primrec sort_typed :: "Term \<Rightarrow> sort_result" where
  "sort_typed (Term.Bool b) = Ok Sort.Bool"
| "sort_typed (Term.Int i) = Ok Sort.Int"
| "sort_typed (Term.IntEnumValue descriptor value) = sort_int_enum_value descriptor (sort_typed value)"
| "sort_typed (Term.IntEnumProjection value) = sort_int_enum_projection Sort.Int value (sort_typed value)"
| "sort_typed (Term.IntEnumDomain value) = sort_int_enum_projection Sort.Bool value (sort_typed value)"
| "sort_typed (Term.IntEnumIdentity left right) =
     sort_int_enum_identity left right (sort_typed left) (sort_typed right)"
| "sort_typed (Term.String s) = Ok Sort.String"
| "sort_typed (Term.Bytes bs) = Ok Sort.Bytes"
| "sort_typed (Term.Range values) = Ok Sort.Range"
| "sort_typed Term.Unit = Ok Sort.Unit"
| "sort_typed Term.NullReference = Ok Sort.Reference"
| "sort_typed (Term.NominalReference name cls) =
     (if cls = [] then Err NominalReferenceClassEmpty else Ok Sort.Reference)"
| "sort_typed (Term.ClassLiteral name) = (if name = [] then Err ClassLiteralNameEmpty else Ok Sort.Class)"
| "sort_typed (Term.RuntimeClass value) =
     res_bind (require_sort (sort_typed value) Sort.Reference RuntimeClassOperand) (\<lambda>_. Ok Sort.Class)"
| "sort_typed (Term.PredicateInstance predicate arguments) =
     sort_predicate_instance predicate (map sort_typed arguments)"
| "sort_typed (Term.ClassSubtype actual expected) =
     res_bind (require_sort (sort_typed actual) Sort.Class SubclassActualOperand) (\<lambda>_.
     res_bind (require_sort (sort_typed expected) Sort.Class SubclassExpectedOperand) (\<lambda>_.
     Ok Sort.Bool))"
| "sort_typed (Term.Variable name srt) = sort_variable srt"
| "sort_typed (Term.FieldRead heap receiver field srt) = sort_field_read (sort_typed receiver) srt"
| "sort_typed (Term.PermissionAtLeast mask_version receiver field numerator denominator) =
     sort_permission_bound (sort_typed receiver) numerator denominator"
| "sort_typed (Term.PermissionAtMost mask_version receiver field numerator denominator) =
     sort_permission_bound (sort_typed receiver) numerator denominator"
| "sort_typed (Term.PermissionPositive mask_version receiver field) =
     res_bind (require_sort (sort_typed receiver) Sort.Reference PermissionReceiver) (\<lambda>_. Ok Sort.Bool)"
| "sort_typed (Term.PermissionMaskValid mask_version field) =
     (if field = [] then Err PermissionMaskFieldEmpty else Ok Sort.Bool)"
| "sort_typed (Term.PermissionMaskTransition pre_mask post_mask field consumed produced) =
     sort_permission_mask_transition pre_mask post_mask field
       (map (map_PermissionTransferAmount sort_typed) consumed)
       (map (map_PermissionTransferAmount sort_typed) produced)"
| "sort_typed (Term.Not value) =
     res_bind (require_sort (sort_typed value) Sort.Bool NotOperand) (\<lambda>_. Ok Sort.Bool)"
| "sort_typed (Term.And values) =
     res_bind (require_all_sorts (map sort_typed values) Sort.Bool BooleanOperand) (\<lambda>_. Ok Sort.Bool)"
| "sort_typed (Term.Or values) =
     res_bind (require_all_sorts (map sort_typed values) Sort.Bool BooleanOperand) (\<lambda>_. Ok Sort.Bool)"
| "sort_typed (Term.Implies left right) =
     res_bind (require_sort (sort_typed left) Sort.Bool ImplicationLeftOperand) (\<lambda>_.
     res_bind (require_sort (sort_typed right) Sort.Bool ImplicationRightOperand) (\<lambda>_.
     Ok Sort.Bool))"
| "sort_typed (Term.IfThenElse condition then_value else_value) =
     sort_if_then_else (sort_typed condition) (sort_typed then_value) (sort_typed else_value)"
| "sort_typed (Term.Equal left right) = sort_equal (sort_typed left) (sort_typed right)"
| "sort_typed (Term.Less left right) = sort_integer_operator Sort.Bool (sort_typed left) (sort_typed right)"
| "sort_typed (Term.LessEqual left right) = sort_integer_operator Sort.Bool (sort_typed left) (sort_typed right)"
| "sort_typed (Term.Greater left right) = sort_integer_operator Sort.Bool (sort_typed left) (sort_typed right)"
| "sort_typed (Term.GreaterEqual left right) = sort_integer_operator Sort.Bool (sort_typed left) (sort_typed right)"
| "sort_typed (Term.Add left right) = sort_integer_operator Sort.Int (sort_typed left) (sort_typed right)"
| "sort_typed (Term.Subtract left right) = sort_integer_operator Sort.Int (sort_typed left) (sort_typed right)"
| "sort_typed (Term.Multiply left right) = sort_integer_operator Sort.Int (sort_typed left) (sort_typed right)"
| "sort_typed (Term.FloorDivideByPositive value divisor) = sort_floor_divide (sort_typed value) divisor"
| "sort_typed (Term.Negate value) =
     res_bind (require_sort (sort_typed value) Sort.Int NegationOperand) (\<lambda>_. Ok Sort.Int)"
| "sort_typed (Term.StringConcat values) =
     res_bind (require_all_sorts (map sort_typed values) Sort.String StringConcatenationOperand) (\<lambda>_.
     Ok Sort.String)"
| "sort_typed (Term.StringLength value) =
     res_bind (require_sort (sort_typed value) Sort.String StringLengthOperand) (\<lambda>_. Ok Sort.Int)"
| "sort_typed (Term.StringSlice source start len) =
     sort_string_slice (sort_typed source) (sort_typed start) (sort_typed len)"
| "sort_typed (Term.BytesConcat values) =
     res_bind (require_all_sorts (map sort_typed values) Sort.Bytes BytesConcatenationOperand) (\<lambda>_.
     Ok Sort.Bytes)"
| "sort_typed (Term.BytesLength value) =
     res_bind (require_sort (sort_typed value) Sort.Bytes BytesLengthOperand) (\<lambda>_. Ok Sort.Int)"
| "sort_typed (Term.BytesGet bytes index) = sort_bytes_get (sort_typed bytes) (sort_typed index)"
| "sort_typed (Term.Tuple values) = sort_tuple (map sort_typed values)"
| "sort_typed (Term.TupleGet tuple index) = sort_tuple_get (sort_typed tuple) index"
| "sort_typed (Term.VariadicTuple element_sort values) =
     sort_variadic_tuple element_sort (map sort_typed values)"
| "sort_typed (Term.VariadicTupleLength value) = sort_variadic_tuple_length (sort_typed value)"
| "sort_typed (Term.VariadicTupleGet tuple index) =
     sort_variadic_tuple_get (sort_typed tuple) (sort_typed index)"
| "sort_typed (Term.VariadicTupleSlice source lower upper step) = sort_variadic_tuple_slice (sort_typed source)"
| "sort_typed (Term.List element_sort values) = sort_list element_sort (map sort_typed values)"
| "sort_typed (Term.ListLength value) = sort_list_length (sort_typed value)"
| "sort_typed (Term.ListGet xs index) = sort_list_get (sort_typed xs) (sort_typed index)"
| "sort_typed (Term.ListContains xs value) = sort_list_contains (sort_typed xs) (sort_typed value)"
| "sort_typed (Term.ListSlice source lower upper step) = sort_list_slice (sort_typed source)"
| "sort_typed (Term.ListConcat left right) = sort_list_concat (sort_typed left) (sort_typed right)"
| "sort_typed (Term.ListSum source) = sort_list_sum (sort_typed source)"
| "sort_typed (Term.ListSorted source) = sort_list_sorted (sort_typed source)"
| "sort_typed (Term.ListComprehension identifier source binder element_sort mapped condition) =
     sort_list_comprehension (sort_typed source) binder element_sort (mapped, sort_typed mapped)
       (map_option (\<lambda>condition. (condition, sort_typed condition)) condition)"
| "sort_typed (Term.SetComprehension identifier source binder element_sort mapped condition) =
     sort_set_comprehension (source, sort_typed source) binder element_sort (mapped, sort_typed mapped)
       (map_option (\<lambda>condition. (condition, sort_typed condition)) condition)"
| "sort_typed (Term.SetLength value) = sort_set_length (sort_typed value)"
| "sort_typed (Term.SetContains collection value) = sort_set_contains (sort_typed collection) (sort_typed value)"
| "sort_typed (Term.DictComprehension identifier source binder key_sort value_sort key value condition) =
     sort_dict_comprehension (sort_typed source) binder key_sort value_sort (key, sort_typed key)
       (value, sort_typed value) (map_option (\<lambda>condition. (condition, sort_typed condition)) condition)"
| "sort_typed (Term.DictLength value) = sort_dict_length (sort_typed value)"
| "sort_typed (Term.DictContains dict key) = sort_dict_contains (sort_typed dict) (sort_typed key)"
| "sort_typed (Term.DictGet dict key) = sort_dict_get (sort_typed dict) (sort_typed key)"
| "sort_typed (Term.ForAll binder binder_sort body) = sort_for_all binder binder_sort (body, sort_typed body)"
| "sort_typed (Term.FiniteDict key_sort value_sort entries) =
     sort_finite_dict key_sort value_sort entries (map (map_prod sort_typed sort_typed) entries)"
| "sort_typed (Term.DictKeys key_sort values) = sort_dict_keys key_sort (map sort_typed values)"

section \<open>Obligations\<close>

datatype ObligationExpectation = Prove | Refute

datatype ObligationStatus = Proved | Refuted | Unknown

record Obligation =
  obligation_id :: string
  obligation_expectation :: ObligationExpectation
  assumptions :: "Term list"
  conclusion :: Term
  obligation_path :: string
  obligation_byte_offset :: "32 word"
  obligation_line :: "32 word"
  obligation_column :: "32 word"

record ObligationResult =
  result_id :: string
  result_expectation :: ObligationExpectation
  result_status :: ObligationStatus
  counterexample :: "string option"
  result_path :: string
  result_byte_offset :: "32 word"
  result_line :: "32 word"
  result_column :: "32 word"

definition satisfied :: "ObligationResult \<Rightarrow> bool" where
  "satisfied obligation_result =
     (case (result_expectation obligation_result, result_status obligation_result) of
        (Prove, Proved) \<Rightarrow> True
      | (Refute, Refuted) \<Rightarrow> True
      | _ \<Rightarrow> False)"

end
