(* ===== verification/VC_Display.thy ===== *)
theory VC_Display
  imports VC_Sort Rust_Text
begin

text \<open>
  The messages of the sort checker's errors (\<^verbatim>\<open>src/src/vc.rs\<close>, \<open>impl Display for SortError\<close>) and
  the untyped front end \<open>Term::sort\<close> that returns them.
\<close>

fun debug_sort :: "Sort \<Rightarrow> string" where
  "debug_sort Sort.Bool = ''Bool''"
| "debug_sort Sort.Int = ''Int''"
| "debug_sort Sort.Float = ''Float''"
| "debug_sort Sort.String = ''String''"
| "debug_sort Sort.Unit = ''Unit''"
| "debug_sort Sort.Reference = ''Reference''"
| "debug_sort Sort.Class = ''Class''"
| "debug_sort Sort.Bytes = ''Bytes''"
| "debug_sort Sort.Range = ''Range''"
| "debug_sort (Sort.Tuple elements) = debug_tuple ''Tuple'' [debug_list (map debug_sort elements)]"
| "debug_sort (Sort.VariadicTuple element) = debug_tuple ''VariadicTuple'' [debug_sort element]"
| "debug_sort (Sort.List element) = debug_tuple ''List'' [debug_sort element]"
| "debug_sort (Sort.Set element) = debug_tuple ''Set'' [debug_sort element]"
| "debug_sort (Sort.Dict key val) = debug_tuple ''Dict'' [debug_sort key, debug_sort val]"
| "debug_sort (Sort.FiniteDict key val) = debug_tuple ''FiniteDict'' [debug_sort key, debug_sort val]"
| "debug_sort (Sort.DictKeys key) = debug_tuple ''DictKeys'' [debug_sort key]"

primrec display_sort_error :: "SortError \<Rightarrow> string" where
  "display_sort_error IntEnumDescriptorMissingClassOrMember =
     ''IntEnum descriptor requires a class and at least one member''"
| "display_sort_error IntEnumDescriptorMembersNotUnique =
     ''IntEnum descriptor member names and integer values must be nonempty and unique''"
| "display_sort_error IntEnumProjectionRequiresValue =
     ''IntEnum projection/domain requires a descriptor-carrying IntEnum value''"
| "display_sort_error IntEnumIdentityRequiresValues =
     ''IntEnum identity requires two descriptor-carrying IntEnum values''"
| "display_sort_error NominalReferenceClassEmpty =
     ''nominal reference class cannot be empty''"
| "display_sort_error ClassLiteralNameEmpty =
     ''class literal name cannot be empty''"
| "display_sort_error PredicateInstanceNameEmpty =
     ''predicate instance name cannot be empty''"
| "display_sort_error PredicateInstanceArgumentsEmpty =
     ''predicate instance requires at least one argument''"
| "display_sort_error PredicateArgumentSortUnsupported =
     ''predicate instance arguments must have a first-order scalar, reference, or class sort''"
| "display_sort_error (SequenceElementSortUnsupported elem) =
     ''list element sort '' @ debug_sort elem @ '' is not supported by the sequence VC''"
| "display_sort_error HeapFieldSortUnsupported =
     ''heap fields cannot have Unit, Class, Range, or Tuple sort''"
| "display_sort_error (HeapListElementSortUnsupported elem) =
     ''heap list field element sort '' @ debug_sort elem @ '' is not supported by the sequence VC''"
| "display_sort_error (PermissionFractionOutsideUnit numerator denominator) =
     ''permission fraction '' @ decimal (unat numerator) @ ''/'' @ decimal (unat denominator) @ '' is outside [0, 1]''"
| "display_sort_error (PermissionTransferFractionOutsideUnit numerator denominator) =
     ''permission-transfer fraction '' @ decimal (unat numerator) @ ''/'' @ decimal (unat denominator) @ '' is outside [0, 1]''"
| "display_sort_error PermissionMaskFieldEmpty =
     ''permission-mask field cannot be empty''"
| "display_sort_error PermissionMaskTransitionDoesNotAdvance =
     ''permission-mask transition must advance the mask''"
| "display_sort_error PermissionMaskTransitionFieldEmpty =
     ''permission-mask transition field cannot be empty''"
| "display_sort_error (ConditionalBranchSortMismatch then_sort else_sort) =
     ''conditional branches have different sorts: '' @ debug_sort then_sort @ '' and '' @ debug_sort else_sort"
| "display_sort_error (EqualityOperandSortMismatch left_sort right_sort) =
     ''equality operands have different sorts: '' @ debug_sort left_sort @ '' and '' @ debug_sort right_sort"
| "display_sort_error FloorDivisionDivisorNotPositive =
     ''floor-division divisor must be positive''"
| "display_sort_error TupleOperandRequired =
     ''tuple indexing requires a Tuple operand''"
| "display_sort_error (TupleIndexOutsideLength index len) =
     ''tuple index '' @ decimal index @ '' is outside fixed tuple length '' @ decimal len"
| "display_sort_error (VariadicTupleElementSortUnsupported elem) =
     ''variadic tuple element sort '' @ debug_sort elem @ '' is unsupported''"
| "display_sort_error (VariadicTupleElementSortMismatch expected actual) =
     ''variadic tuple element has sort '' @ debug_sort actual @ '', expected '' @ debug_sort expected"
| "display_sort_error (VariadicTupleLengthOperandNotTuple actual) =
     ''variadic tuple length operand has sort '' @ debug_sort actual @ '', expected VariadicTuple''"
| "display_sort_error VariadicTupleOperandRequiredForIndex =
     ''variadic tuple indexing requires a VariadicTuple operand''"
| "display_sort_error (VariadicTupleSliceOperandNotTuple actual) =
     ''variadic tuple slicing operand has sort '' @ debug_sort actual @ '', expected VariadicTuple''"
| "display_sort_error (ListLengthOperandNotList actual) =
     ''list length operand has sort '' @ debug_sort actual @ '', expected List''"
| "display_sort_error ListOperandRequiredForIndex =
     ''list indexing requires a List operand''"
| "display_sort_error ListOperandRequiredForMembership =
     ''list membership requires a List operand''"
| "display_sort_error (ListSliceOperandNotList actual) =
     ''list slicing operand has sort '' @ debug_sort actual @ '', expected List''"
| "display_sort_error (ListConcatLeftOperandNotList actual) =
     ''left list-concatenation operand has sort '' @ debug_sort actual @ '', expected List''"
| "display_sort_error (ListConcatRightOperandNotList actual) =
     ''right list-concatenation operand has sort '' @ debug_sort actual @ '', expected List''"
| "display_sort_error (ListConcatElementSortMismatch left_element right_element) =
     ''list-concatenation operands have different element sorts: '' @ debug_sort left_element @ '' and '' @ debug_sort right_element"
| "display_sort_error (ListSumOperandNotIntegerList actual) =
     ''list sum operand has sort '' @ debug_sort actual @ '', expected List[Int]''"
| "display_sort_error (ListSortedOperandNotIntegerList actual) =
     ''list sorted operand has sort '' @ debug_sort actual @ '', expected List[Int]''"
| "display_sort_error ListSourceRequiredForComprehension =
     ''list comprehension requires a List source''"
| "display_sort_error SetSourceRequiredForComprehension =
     ''set comprehension requires a List source''"
| "display_sort_error (SetComprehensionElementSortUnsupported elem) =
     ''set-comprehension element sort '' @ debug_sort elem @ '' is unsupported''"
| "display_sort_error (SetLengthOperandNotSet actual) =
     ''set length operand has sort '' @ debug_sort actual @ '', expected Set''"
| "display_sort_error SetOperandRequiredForMembership =
     ''set membership requires a Set operand''"
| "display_sort_error DictionarySourceRequiredForComprehension =
     ''dictionary comprehension requires a List source''"
| "display_sort_error (DictionaryComprehensionSortsUnsupported key_sort value_sort) =
     ''dictionary-comprehension sorts '' @ debug_sort key_sort @ ''/'' @ debug_sort value_sort @ '' are unsupported''"
| "display_sort_error (DictionaryLengthOperandNotDictionary actual) =
     ''dictionary length operand has sort '' @ debug_sort actual @ '', expected Dict''"
| "display_sort_error DictionaryOperandRequiredForMembership =
     ''dictionary membership requires a Dict operand''"
| "display_sort_error DictionaryOperandRequiredForLookup =
     ''dictionary lookup requires a Dict operand''"
| "display_sort_error QuantifierBinderEmpty =
     ''quantifier binder cannot be empty''"
| "display_sort_error ComprehensionBinderEmpty =
     ''comprehension binder cannot be empty''"
| "display_sort_error (FiniteDictionaryKeySortUnsupported elem) =
     ''finite dictionary key sort '' @ debug_sort elem @ '' is unsupported''"
| "display_sort_error (FiniteDictionaryValueSortUnsupported elem) =
     ''finite dictionary value sort '' @ debug_sort elem @ '' is unsupported''"
| "display_sort_error (DictionaryKeySortUnsupported elem) =
     ''dictionary-key sort '' @ debug_sort elem @ '' is unsupported''"
| "display_sort_error (BinderSortMismatch binder actual expected) =
     ''binder '' @ debug_str binder @ '' occurs with sort '' @ debug_sort actual @ '', expected '' @ debug_sort expected"
| "display_sort_error (NestedBinderCapture binder) =
     ''nested binder '' @ debug_str binder @ '' captures an outer bound variable''"
| "display_sort_error (UnexpectedSort context actual expected) =
     as_str context @ '' has sort '' @ debug_sort actual @ '', expected '' @ debug_sort expected"

text \<open>\<open>Term::sort\<close>.\<close>

definition term_sort :: "Term \<Rightarrow> (string, Sort) result" where
  "term_sort term =
     (case sort_typed term of Inl error \<Rightarrow> Err (display_sort_error error) | Inr s \<Rightarrow> Ok s)"

end
