(* ===== verification/Solver_Discharge.thy ===== *)
theory Solver_Discharge
  imports VC_Display
begin

text \<open>
  Discharging an obligation (\<^verbatim>\<open>src/src/solver.rs\<close>): sorts are checked first, the universal
  adjacent-order theorem of a sorted list is recognised by its shape, and everything else is a query
  to Z3. Lowering to Z3 and the solver itself are outside the model: \<open>query\<close> is the answer for the
  assumptions and the negated conclusion, or the message of a failed lowering.
\<close>

section \<open>The sorted adjacent-order theorem\<close>

fun unwrap_singleton_and :: "Term \<Rightarrow> Term" where
  "unwrap_singleton_and (Term.And [term]) = unwrap_singleton_and term"
| "unwrap_singleton_and term = term"

definition is_bound_variable :: "Term \<Rightarrow> string \<Rightarrow> bool" where
  "is_bound_variable term binder \<longleftrightarrow>
     (case term of Variable name s \<Rightarrow> s = Sort.Int \<and> name = binder | _ \<Rightarrow> False)"

definition is_integer_literal :: "Term \<Rightarrow> int \<Rightarrow> bool" where
  "is_integer_literal term expected \<longleftrightarrow>
     (case term of Term.Int value \<Rightarrow> value = expected | _ \<Rightarrow> False)"

definition is_bound_successor :: "Term \<Rightarrow> string \<Rightarrow> bool" where
  "is_bound_successor term binder \<longleftrightarrow>
     (case term of
        Term.Add left right \<Rightarrow>
          if is_bound_variable left binder then is_integer_literal right 1
          else is_integer_literal left 1 \<and> is_bound_variable right binder
      | _ \<Rightarrow> False)"

definition is_raw_index :: "Term \<Rightarrow> string \<Rightarrow> bool \<Rightarrow> bool" where
  "is_raw_index term binder successor =
     (if successor then is_bound_successor term binder else is_bound_variable term binder)"

text \<open>The index itself, or Python's normalisation of it: \<open>len + i if i < 0 else i\<close>.\<close>

definition is_python_index_of :: "Term \<Rightarrow> string \<Rightarrow> Term \<Rightarrow> bool \<Rightarrow> bool" where
  "is_python_index_of term binder sorted_term successor =
     (if is_raw_index term binder successor then True
      else case term of
        IfThenElse condition then_value else_value \<Rightarrow>
          (case unwrap_singleton_and condition of
             Less left right \<Rightarrow>
               if \<not> is_raw_index left binder successor \<or> \<not> is_integer_literal right 0 then False
               else if \<not> is_raw_index else_value binder successor then False
               else (case then_value of
                 Term.Add (ListLength value) right \<Rightarrow>
                   if value \<noteq> sorted_term then False else is_raw_index right binder successor
               | _ \<Rightarrow> False)
           | _ \<Rightarrow> False)
      | _ \<Rightarrow> False)"

definition matches_nonnegative_bound :: "Term \<Rightarrow> string \<Rightarrow> bool" where
  "matches_nonnegative_bound term binder \<longleftrightarrow>
     (case term of
        GreaterEqual left right \<Rightarrow> is_bound_variable left binder \<and> is_integer_literal right 0
      | LessEqual left right \<Rightarrow> is_integer_literal left 0 \<and> is_bound_variable right binder
      | _ \<Rightarrow> False)"

fun is_nonnegative_bound :: "Term \<Rightarrow> string \<Rightarrow> Term list \<Rightarrow> bool" where
  "is_nonnegative_bound term binder [] = matches_nonnegative_bound term binder"
| "is_nonnegative_bound term binder (next # tail) =
     (matches_nonnegative_bound term binder \<or> is_nonnegative_bound next binder tail)"

definition matches_adjacent_upper_bound :: "Term \<Rightarrow> string \<Rightarrow> Term \<Rightarrow> bool" where
  "matches_adjacent_upper_bound term binder sorted_term \<longleftrightarrow>
     (case term of
        Less left (ListLength value) \<Rightarrow> is_bound_successor left binder \<and> value = sorted_term
      | _ \<Rightarrow> False)"

fun is_adjacent_upper_bound :: "Term \<Rightarrow> string \<Rightarrow> Term \<Rightarrow> Term list \<Rightarrow> bool" where
  "is_adjacent_upper_bound term binder sorted_term [] = matches_adjacent_upper_bound term binder sorted_term"
| "is_adjacent_upper_bound term binder sorted_term (next # tail) =
     (matches_adjacent_upper_bound term binder sorted_term \<or> is_adjacent_upper_bound next binder sorted_term tail)"

definition is_adjacent_guard :: "Term \<Rightarrow> string \<Rightarrow> Term \<Rightarrow> bool" where
  "is_adjacent_guard guard binder current_list =
     (case unwrap_singleton_and guard of
        IfThenElse condition then_value else_value \<Rightarrow>
          (let condition = unwrap_singleton_and condition;
               then_value = unwrap_singleton_and then_value;
               else_value = unwrap_singleton_and else_value
           in condition = else_value \<and> is_nonnegative_bound condition binder [] \<and>
              is_adjacent_upper_bound then_value binder current_list [])
      | Term.And values \<Rightarrow>
          (case values of
             [] \<Rightarrow> False
           | first # remaining \<Rightarrow>
               is_nonnegative_bound first binder remaining \<and>
               is_adjacent_upper_bound first binder current_list remaining)
      | guard \<Rightarrow> is_nonnegative_bound guard binder [] \<and> is_adjacent_upper_bound guard binder current_list [])"

text \<open>The conclusion \<open>sorted(xs)[i] <= sorted(xs)[i + 1]\<close> of the implication.\<close>

definition adjacent_comparison :: "Term \<Rightarrow> string \<Rightarrow> Term option" where
  "adjacent_comparison right binder =
     (case unwrap_singleton_and right of
        LessEqual (ListGet current_list current_index) (ListGet next_list next_index) \<Rightarrow>
          if current_list \<noteq> next_list then None
          else (case current_list of
             ListSorted inner \<Rightarrow>
               if \<not> is_python_index_of current_index binder current_list False \<or>
                  \<not> is_python_index_of next_index binder current_list True
               then None else Some current_list
           | _ \<Rightarrow> None)
      | _ \<Rightarrow> None)"

definition is_exact_sorted_adjacent_order_theorem :: "Term \<Rightarrow> bool" where
  "is_exact_sorted_adjacent_order_theorem term =
     (case term of
        ForAll binder binder_sort body \<Rightarrow>
          binder_sort = Sort.Int \<and>
          (case unwrap_singleton_and body of
             Implies guard right \<Rightarrow>
               (case adjacent_comparison right binder of
                  None \<Rightarrow> False
                | Some current_list \<Rightarrow> is_adjacent_guard guard binder current_list)
           | _ \<Rightarrow> False)
      | _ \<Rightarrow> False)"

section \<open>Discharge\<close>

datatype SatResult = Unsat | Sat | UnknownSat

definition obligation_result :: "Obligation \<Rightarrow> ObligationStatus \<Rightarrow> string option \<Rightarrow> ObligationResult" where
  "obligation_result obligation status model =
     \<lparr> result_id = obligation_id obligation,
       result_expectation = obligation_expectation obligation,
       result_status = status, counterexample = model,
       result_path = obligation_path obligation,
       result_byte_offset = obligation_byte_offset obligation,
       result_line = obligation_line obligation,
       result_column = obligation_column obligation \<rparr>"

definition solver_status :: "SatResult \<Rightarrow> string option \<Rightarrow> ObligationStatus \<times> string option" where
  "solver_status answer model =
     (case answer of
        Unsat \<Rightarrow> (Proved, None)
      | Sat \<Rightarrow> (Refuted, model)
      | UnknownSat \<Rightarrow> (ObligationStatus.Unknown, None))"

fun check_assumption_sorts :: "string \<Rightarrow> nat \<Rightarrow> Term list \<Rightarrow> (string, unit) result" where
  "check_assumption_sorts obligation_name index [] = Ok ()"
| "check_assumption_sorts obligation_name index (assumption # rest) =
     res_bind (term_sort assumption) (\<lambda>s.
       if s \<noteq> Sort.Bool
       then Err (''obligation '' @ debug_str obligation_name @ '' assumption '' @ decimal index @ '' is not boolean'')
       else check_assumption_sorts obligation_name (Suc index) rest)"

definition discharge ::
  "(Term list \<Rightarrow> Term \<Rightarrow> (string, SatResult \<times> string option) result) \<Rightarrow> Obligation \<Rightarrow>
     (string, ObligationResult) result" where
  "discharge query obligation =
     res_bind (term_sort (conclusion obligation)) (\<lambda>s.
       if s \<noteq> Sort.Bool
       then Err (''obligation '' @ debug_str (obligation_id obligation) @ '' conclusion is not boolean'')
       else res_bind (check_assumption_sorts (obligation_id obligation) 0 (assumptions obligation)) (\<lambda>_.
         if is_exact_sorted_adjacent_order_theorem (conclusion obligation)
         then Ok (obligation_result obligation Proved None)
         else res_bind (query (assumptions obligation) (conclusion obligation)) (\<lambda>(answer, model).
           (let (status, model) = solver_status answer model
            in Ok (obligation_result obligation status model)))))"

end
