(* ===== verification/Obligation_Module.thy ===== *)
theory Obligation_Module
  imports Obligation_Execution Solver_Discharge "HOL-Library.Product_Lexorder"
begin

text \<open>
  The entry point of the obligation analyzer (\<^verbatim>\<open>src/src/python_obligation_leaks.rs\<close>): collect what
  the module declares, decide whether obligations are in play at all, analyze overrides and every
  function, and turn the diagnostics into failed obligations next to one closed obligation per
  analyzed function. Parsing is outside the model: the suite, or the parser's message, is an input.
\<close>

section \<open>Diagnostics in order\<close>

text \<open>The derived order of \<open>DiagnosticKind\<close> is that of its variants.\<close>

fun kind_index :: "DiagnosticKind \<Rightarrow> nat" where
  "kind_index Caller = 0"
| "kind_index MethodBody = 1"
| "kind_index LoopContext = 2"
| "kind_index LoopBody = 3"
| "kind_index CallPermission = 4"
| "kind_index InvariantPermission = 5"
| "kind_index PostconditionPermission = 6"
| "kind_index CallLevelOrder = 7"
| "kind_index InvariantLevelOrder = 8"
| "kind_index PostconditionLevelOrder = 9"

lemma kind_index_inject: "kind_index a = kind_index b \<longleftrightarrow> a = b"
  by (cases a; cases b) simp_all

instantiation DiagnosticKind :: linorder
begin

definition less_eq_DiagnosticKind :: "DiagnosticKind \<Rightarrow> DiagnosticKind \<Rightarrow> bool" where
  "less_eq_DiagnosticKind a b \<longleftrightarrow> kind_index a \<le> kind_index b"

definition less_DiagnosticKind :: "DiagnosticKind \<Rightarrow> DiagnosticKind \<Rightarrow> bool" where
  "less_DiagnosticKind a b \<longleftrightarrow> kind_index a < kind_index b"

instance
  by standard (auto simp: less_eq_DiagnosticKind_def less_DiagnosticKind_def kind_index_inject)

end

definition diagnostic_key :: "PendingDiagnostic \<Rightarrow> DiagnosticKind \<times> 32 word \<times> string" where
  "diagnostic_key d = (diag_kind d, diag_offset d, diag_owner d)"

text \<open>Iteration over the \<open>BTreeSet\<close> of diagnostics: kind, then offset, then owner.\<close>

definition ordered_diagnostics :: "PendingDiagnostic set \<Rightarrow> (DiagnosticKind \<times> 32 word \<times> string) list" where
  "ordered_diagnostics ds = sorted_list_of_set (diagnostic_key ` ds)"

fun diagnostic_marker :: "DiagnosticKind \<Rightarrow> string" where
  "diagnostic_marker Caller = ''obligation-leak:caller''"
| "diagnostic_marker MethodBody = ''obligation-leak:method-body''"
| "diagnostic_marker LoopContext = ''obligation-leak:loop-context''"
| "diagnostic_marker LoopBody = ''obligation-leak:loop-body''"
| "diagnostic_marker CallPermission = ''obligation-release-precondition''"
| "diagnostic_marker InvariantPermission = ''obligation-invariant-preservation-permission''"
| "diagnostic_marker PostconditionPermission = ''obligation-postcondition-permission''"
| "diagnostic_marker CallLevelOrder = ''call-precondition''"
| "diagnostic_marker InvariantLevelOrder = ''obligation-level-invariant''"
| "diagnostic_marker PostconditionLevelOrder = ''obligation-level-postcondition''"

section \<open>Source positions\<close>

definition u32_saturated :: "nat \<Rightarrow> 32 word" where
  "u32_saturated n = (if n < 2 ^ 32 then of_nat n else - 1)"

text \<open>The characters of a UTF-8 text are its bytes that are not continuation bytes.\<close>

definition is_continuation_byte :: "char \<Rightarrow> bool" where
  "is_continuation_byte c \<longleftrightarrow> (of_char c :: nat) div 64 = 2"

definition chars_count :: "string \<Rightarrow> nat" where
  "chars_count text = length (filter (\<lambda>c. \<not> is_continuation_byte c) text)"

definition last_line :: "string \<Rightarrow> string" where
  "last_line prefix = rev (takeWhile (\<lambda>c. c \<noteq> CHR 0x0A) (rev prefix))"

definition location :: "string \<Rightarrow> 32 word \<Rightarrow> 32 word \<times> 32 word" where
  "location source offset =
     (let prefix = take (min (unat offset) (length source)) source
      in (u32_saturated (length (filter (\<lambda>c. c = CHR 0x0A) prefix) + 1),
          u32_saturated (chars_count (last_line prefix) + 1)))"

definition make_obligation :: "string \<Rightarrow> bool \<Rightarrow> string \<Rightarrow> string \<Rightarrow> 32 word \<Rightarrow> Obligation" where
  "make_obligation name concluded source path offset =
     (let (line, column) = location source offset
      in \<lparr> obligation_id = name, obligation_expectation = Prove, assumptions = [],
           conclusion = Term.Bool concluded, obligation_path = path,
           obligation_byte_offset = offset, obligation_line = line, obligation_column = column \<rparr>)"

section \<open>The module\<close>

definition SCHEMA :: string where
  "SCHEMA = ''maledictus-python-obligation-leaks/v1''"

record HeapContractVerification =
  verification_schema :: string
  verification_path :: string
  verification_methods :: "string list"
  verification_obligations :: "ObligationResult list"
  verification_passed :: bool

definition has_contract_clause :: "FunctionSummary \<Rightarrow> bool" where
  "has_contract_clause summary \<longleftrightarrow>
     sum_required summary \<noteq> [] \<or> sum_returned summary \<noteq> [] \<or>
     sum_required_levels summary \<noteq> [] \<or> sum_returned_levels summary \<noteq> []"

definition module_bindings :: "Stmt list \<Rightarrow> ResolvedLevelIntrinsicBindings \<Rightarrow> CanonicalBindings" where
  "module_bindings suite intrinsics =
     (canonical_bindings suite)
       \<lparr> level_intrinsics := invalidate_rebound_level_intrinsics suite intrinsics \<rparr>"

definition obligations_in_play :: "Stmt list \<Rightarrow> (string, FunctionSummary) fmap \<Rightarrow> CanonicalBindings \<Rightarrow> bool" where
  "obligations_in_play suite collected known \<longleftrightarrow>
     list_ex has_contract_clause (btree_values collected) \<or>
     suite_contains_proven_lock_operation suite collected known"

definition analyze_functions ::
  "AstDebug \<Rightarrow> Stmt list \<Rightarrow> Analyzer \<Rightarrow> (ContractFailure, Analyzer) result" where
  "analyze_functions dbg suite analyzer =
     sticky_loop (\<lambda>(owner, func) analyzer. analyze_function dbg func owner analyzer)
       (functions_of_suite suite) analyzer"

definition diagnostic_obligation ::
  "string \<Rightarrow> string \<Rightarrow> DiagnosticKind \<times> 32 word \<times> string \<Rightarrow> Obligation" where
  "diagnostic_obligation source path = (\<lambda>(kind, offset, owner).
     make_obligation
       (owner @ '':'' @ diagnostic_marker kind @ '':'' @ decimal (unat offset)) False source path offset)"

definition closed_obligation :: "string \<Rightarrow> string \<Rightarrow> string \<Rightarrow> Obligation" where
  "closed_obligation source path method =
     make_obligation (method @ '':obligation-ledger-closed'') True source path 0"

definition module_obligations ::
  "string \<Rightarrow> string \<Rightarrow> PendingDiagnostic set \<Rightarrow> string list \<Rightarrow> Obligation list" where
  "module_obligations source path ds methods =
     map (diagnostic_obligation source path) (ordered_diagnostics ds) @
     map (closed_obligation source path) methods"

fun discharge_all ::
  "(Term list \<Rightarrow> Term \<Rightarrow> (string, SatResult \<times> string option) result) \<Rightarrow> Obligation list \<Rightarrow>
     (ContractFailure, ObligationResult list) result" where
  "discharge_all query [] = Ok []"
| "discharge_all query (obligation # rest) =
     (case discharge query obligation of
        Inl message \<Rightarrow> Err \<lparr> failure_code = ''solver.translation-failed'', failure_message = message \<rparr>
      | Inr answer \<Rightarrow> res_bind (discharge_all query rest) (\<lambda>answers. Ok (answer # answers)))"

definition verify_obligation_module_with_intrinsics ::
  "AstDebug \<Rightarrow> (Term list \<Rightarrow> Term \<Rightarrow> (string, SatResult \<times> string option) result) \<Rightarrow>
     (string, Stmt list) result \<Rightarrow> string \<Rightarrow> string \<Rightarrow> ResolvedLevelIntrinsicBindings \<Rightarrow>
     (ContractFailure, HeapContractVerification option) result" where
  "verify_obligation_module_with_intrinsics dbg query parsed source path intrinsics =
     (case parsed of
        Inl message \<Rightarrow> Err \<lparr> failure_code = ''frontend.python.parse-error'', failure_message = message \<rparr>
      | Inr suite \<Rightarrow>
          (let known = module_bindings suite intrinsics
           in if primitives known = {} \<and> by_local_name (level_intrinsics known) = fmempty then Ok None
              else res_bind (collect_function_summaries dbg suite known) (\<lambda>collected.
                if \<not> obligations_in_play suite collected known then Ok None
                else
                  res_bind (analyze_overrides suite
                    \<lparr> summaries = collected, bindings = known, diagnostics = {} \<rparr>) (\<lambda>analyzer.
                  res_bind (analyze_functions dbg suite analyzer) (\<lambda>analyzer.
                    (let methods = map fst (functions_of_suite suite)
                     in res_bind (discharge_all query
                          (module_obligations source path (diagnostics analyzer) methods)) (\<lambda>answers.
                        Ok (Some
                          \<lparr> verification_schema = SCHEMA, verification_path = path,
                            verification_methods = methods, verification_obligations = answers,
                            verification_passed = list_all satisfied answers \<rparr>))))))))"

end
