(* ===== verification/Obligation_Properties.thy ===== *)
theory Obligation_Properties
  imports Obligation_Frame Obligation_Module
begin

text \<open>
  The analyzer's guarantees. An analysis that ends without a diagnostic means that every feasible
  exit of the function owns exactly the obligations it promised to give back, and a module that
  passes has such functions only. The lock classes are the least set closed under inheritance.
\<close>

section \<open>Reports\<close>

text \<open>
  Property C25. Executing a block never withdraws a diagnostic and never
  changes what the analyzer knows of the module, and no path is marked as already reported
  without a diagnostic: if that held of every starting state, it holds of every path that leaves.
\<close>

theorem execution_only_adds_reports:
  assumes "execute_block dbg statements owner states a = Ok (a', paths)"
  shows "summaries a' = summaries a \<and> bindings a' = bindings a \<and> diagnostics a \<subseteq> diagnostics a' \<and>
    ((\<forall>s \<in> set states. boundary_leak_reported s \<longrightarrow> diagnostics a \<noteq> {}) \<longrightarrow>
     (\<forall>p \<in> set paths. boundary_leak_reported p \<longrightarrow> diagnostics a' \<noteq> {}))"
  using runsD [OF execute_runs(1) assms] unfolding extends_def reported_def by blast

section \<open>Exits of a function\<close>

text \<open>The obligations a function promised to give back, as one of its exits names them.\<close>

definition owed_back :: "FunctionSummary \<Rightarrow> ObligationSpec list \<Rightarrow> LedgerState \<Rightarrow> (ObligationKey \<times> Measure) list" where
  "owed_back summary specs s =
     List.map_filter (\<lambda>r. if spec_conditional r then None
       else map_option (\<lambda>i. (ObligationKey (spec_kind r) i, spec_measure r)) (instantiate_spec_identity r summary [] s))
       specs"

lemma instantiate_spec_cong:
  "aliases s = aliases s' \<Longrightarrow> instantiate_spec_identity r summary [] s = instantiate_spec_identity r summary [] s'"
  by (simp add: instantiate_spec_identity_def instantiated_root_def)

lemma owed_back_cong: "aliases s = aliases s' \<Longrightarrow> owed_back summary specs s = owed_back summary specs s'"
proof -
  assume "aliases s = aliases s'"
  then have "instantiate_spec_identity r summary [] s = instantiate_spec_identity r summary [] s'" for r
    by (rule instantiate_spec_cong)
  then show ?thesis by (simp add: owed_back_def cong: if_cong)
qed

lemma owed_back_Cons:
  "owed_back summary (r # rs) s =
     (if spec_conditional r then owed_back summary rs s
      else case instantiate_spec_identity r summary [] s of
        None \<Rightarrow> owed_back summary rs s
      | Some i \<Rightarrow> (ObligationKey (spec_kind r) i, spec_measure r) # owed_back summary rs s)"
  by (simp add: owed_back_def map_filter_simps split: option.splits)

lemma return_obligation_extends:
  "extends (fst st) (fst (return_obligation owner summary st r))"
  by (cases st) (auto simp: return_obligation_def Let_def split: option.splits)

lemma return_obligations_extends:
  "extends (fst st) (fst (foldl (return_obligation owner summary) st rs))"
proof (induction rs arbitrary: st)
  case (Cons r rs)
  show ?case using extends_trans [OF return_obligation_extends Cons.IH] by simp
qed simp

lemma return_consumed:
  "decide_consume m r b UnboundedRequiresUnboundedOwner = Consume \<longleftrightarrow>
     (\<exists>owned. m = Some owned \<and> measure_satisfies owned r \<and> \<not> (r = Unbounded \<and> b))"
  by (auto simp: decide_consume_def Let_def split: option.splits)

lemma return_obligations_clean:
  assumes "foldl (return_obligation owner summary) (a, s) rs = (a', s')" "diagnostics a' = {}"
  shows "distinct (map fst (owed_back summary rs s)) \<and>
    (\<forall>(k, r) \<in> set (owed_back summary rs s). \<exists>m. fmlookup (pending s) k = Some m \<and> measure_satisfies m r) \<and>
    pending s' = fmdrop_set (fst ` set (owed_back summary rs s)) (pending s) \<and>
    boundary_leak_reported s' = boundary_leak_reported s \<and> aliases s' = aliases s \<and> levels s' = levels s"
  using assms
proof (induction rs arbitrary: a s)
  case Nil
  then show ?case by (simp add: owed_back_def map_filter_simps)
next
  case (Cons r rs)
  obtain b t where step: "return_obligation owner summary (a, s) r = (b, t)" by fastforce
  with Cons.prems have rest: "foldl (return_obligation owner summary) (b, t) rs = (a', s')" by simp
  have "extends b a'" using return_obligations_extends [of "(b, t)"] rest by (metis fst_conv)
  with Cons.prems(2) have clean: "diagnostics b = {}" by (auto simp: extends_def)
  note IH = Cons.IH [OF rest Cons.prems(2)]
  show ?case
  proof (cases "spec_conditional r \<or> instantiate_spec_identity r summary [] s = None")
    case True
    with step have "b = a" "t = s" by (auto simp: return_obligation_def split: option.splits)
    with True IH show ?thesis by (auto simp: owed_back_Cons)
  next
    case False
    then obtain i where i: "instantiate_spec_identity r summary [] s = Some i" by auto
    let ?k = "ObligationKey (spec_kind r) i"
    from step False i clean have consumed: "decide_consume (fmlookup (pending s) ?k) (spec_measure r)
        (i \<in> bounded_identities s) UnboundedRequiresUnboundedOwner = Consume"
      and t: "t = s \<lparr> pending := fmdrop ?k (pending s) \<rparr>"
      by (auto simp: return_obligation_def Let_def split: if_splits)
    have same: "owed_back summary rs t = owed_back summary rs s" by (rule owed_back_cong) (simp add: t)
    have fresh: "?k \<notin> fst ` set (owed_back summary rs s)"
      using IH unfolding same by (auto simp: t dest!: bspec)
    have "\<exists>m. fmlookup (pending s) k = Some m \<and> measure_satisfies m q"
      if "(k, q) \<in> set (owed_back summary rs s)" for k q
      using IH that unfolding same by (fastforce simp: t split: if_splits)
    with IH fresh consumed False i show ?thesis
      unfolding same return_consumed by (auto simp: owed_back_Cons t)
  qed
qed

lemma return_level_extends: "extends a (return_level owner summary s a r)"
  by (simp add: return_level_def Let_def)

lemma return_levels_clean:
  assumes "diagnostics (foldl (return_level owner summary s) a rs) = {}" "r \<in> set rs"
  shows "\<exists>i. instantiate_level_identity r summary [] s = Some i \<and>
    require_current_below i FunctionPostcondition (levels s) = Satisfied"
  using assms
proof (induction rs arbitrary: a)
  case (Cons r' rs)
  have "diagnostics (return_level owner summary s a r') = {}"
    using Cons.prems(1) extends_foldl [of "return_level owner summary s" _ rs, OF return_level_extends]
    by (fastforce simp: extends_def)
  then have "\<exists>i. instantiate_level_identity r' summary [] s = Some i \<and>
    require_current_below i FunctionPostcondition (levels s) = Satisfied"
    by (auto simp: return_level_def Let_def split: if_splits option.splits)
  with Cons show ?case by auto
qed simp

lemma close_exit_extends: "extends a (close_exit func owner summary a s)"
proof -
  obtain b t where r: "foldl (return_obligation owner summary) (a, s) (sum_returned summary) = (b, t)" by fastforce
  have "extends a b" using return_obligations_extends [of "(a, s)"] r by (metis fst_conv)
  also have "extends b (foldl (return_level owner summary t) b (sum_returned_levels summary))"
    by (rule extends_foldl) (rule return_level_extends)
  finally show ?thesis by (auto simp: close_exit_def r Let_def intro: extends_trans)
qed

text \<open>What an exit that was closed without a diagnostic owns.\<close>

definition closed_exit :: "FunctionSummary \<Rightarrow> LedgerState \<Rightarrow> bool" where
  "closed_exit summary s \<longleftrightarrow>
     (let owed = owed_back summary (sum_returned summary) s
      in distinct (map fst owed) \<and> fset (fmdom (pending s)) = fst ` set owed \<and>
         (\<forall>(k, r) \<in> set owed. \<exists>m. fmlookup (pending s) k = Some m \<and> measure_satisfies m r) \<and>
         (\<forall>r \<in> set (sum_returned_levels summary). \<exists>i. instantiate_level_identity r summary [] s = Some i \<and>
            require_current_below i FunctionPostcondition (levels s) = Satisfied))"

lemma instantiate_level_cong:
  "aliases s = aliases s' \<Longrightarrow> instantiate_level_identity r summary [] s = instantiate_level_identity r summary [] s'"
  by (simp add: instantiate_level_identity_def instantiated_root_def)

lemma close_exit_clean:
  assumes "diagnostics (close_exit func owner summary a s) = {}" "flow s \<noteq> Flow.Unreachable"
    "reported a s"
  shows "closed_exit summary s"
proof -
  obtain b t where r: "foldl (return_obligation owner summary) (a, s) (sum_returned summary) = (b, t)" by fastforce
  let ?c = "foldl (return_level owner summary t) b (sum_returned_levels summary)"
  have last: "diagnostics (if decide_close (pending t \<noteq> fmempty) (boundary_leak_reported t) = ReportLeak
      then record_diagnostic MethodBody (fn_offset func) owner ?c else ?c) = {}"
    using assms(1,2) by (simp add: close_exit_def r Let_def)
  then have c: "diagnostics ?c = {}" and closed: "decide_close (pending t \<noteq> fmempty) (boundary_leak_reported t) \<noteq> ReportLeak"
    by (auto split: if_splits)
  have "extends b ?c" by (rule extends_foldl) (rule return_level_extends)
  with c have b: "diagnostics b = {}" by (auto simp: extends_def)
  note clean = return_obligations_clean [OF r b]
  have "diagnostics a = {}"
    using extends_nonempty [OF return_obligations_extends [of "(a, s)" owner summary "sum_returned summary"]] b
    by (auto simp: r)
  with assms(3) clean have "\<not> boundary_leak_reported t" by (simp add: reported_def)
  with closed have "pending t = fmempty" by (simp add: decide_close_def split: bool.splits)
  with clean have empty: "fmdrop_set (fst ` set (owed_back summary (sum_returned summary) s)) (pending s) = fmempty"
    by simp
  have "k \<in> fst ` set (owed_back summary (sum_returned summary) s)" if "k \<in> fset (fmdom (pending s))" for k
  proof (rule ccontr)
    assume "k \<notin> fst ` set (owed_back summary (sum_returned summary) s)"
    with that have "fmlookup (fmdrop_set (fst ` set (owed_back summary (sum_returned summary) s)) (pending s)) k \<noteq> None"
      by (simp add: fmlookup_dom_iff)
    with empty show False by simp
  qed
  moreover have "k \<in> fset (fmdom (pending s))" if "k \<in> fst ` set (owed_back summary (sum_returned summary) s)" for k
    using that clean by (fastforce simp: fmlookup_dom_iff)
  ultimately have "fset (fmdom (pending s)) = fst ` set (owed_back summary (sum_returned summary) s)" by blast
  moreover have "\<exists>i. instantiate_level_identity q summary [] s = Some i \<and>
      require_current_below i FunctionPostcondition (levels s) = Satisfied"
    if "q \<in> set (sum_returned_levels summary)" for q
    using return_levels_clean [OF c that] clean instantiate_level_cong [of t s q summary] by simp
  ultimately show ?thesis using clean by (auto simp: closed_exit_def Let_def)
qed

lemma close_exits_clean:
  assumes "diagnostics (foldl (close_exit func owner summary) a states) = {}" "s \<in> set states"
    "flow s \<noteq> Flow.Unreachable" "reported a s"
  shows "closed_exit summary s"
  using assms
proof (induction states arbitrary: a)
  case (Cons t states)
  have rest: "diagnostics (foldl (close_exit func owner summary) (close_exit func owner summary a t) states) = {}"
    using Cons.prems(1) by simp
  with extends_foldl [of "close_exit func owner summary" _ states, OF close_exit_extends]
  have first: "diagnostics (close_exit func owner summary a t) = {}" by (fastforce simp: extends_def)
  have "reported (close_exit func owner summary a t) s"
    using Cons.prems(4) close_exit_extends by (rule reported_extends)
  with Cons rest first show ?case by (auto intro: close_exit_clean)
qed simp

lemma entry_state_unreported: "\<not> boundary_leak_reported (entry_state func owner summary known)"
proof -
  have levels: "boundary_leak_reported (foldl (enter_required_level summary) s rs) = boundary_leak_reported s" for s rs
    by (induction rs arbitrary: s) (auto simp: enter_required_level_def split: option.splits)
  have required: "boundary_leak_reported (enter_required rs summary s) = boundary_leak_reported s" for s rs
    by (induction rs arbitrary: s) (auto simp: Let_def split: option.splits)
  have conjuncts: "boundary_leak_reported (foldl unify_required_conjunct s es) = boundary_leak_reported s" for s es
    by (induction es arbitrary: s)
      (auto simp: unify_required_conjunct_def split: Expr.splits list.splits CmpOp.splits)
  have "boundary_leak_reported (apply_required_equalities func s) = boundary_leak_reported s" for s
  proof -
    have "boundary_leak_reported (foldl (\<lambda>state statement. case contract_statement statement of
          Some (name, argument) \<Rightarrow>
            if name = ''Requires'' then foldl unify_required_conjunct state (flatten_and argument) else state
        | None \<Rightarrow> state) s body) = boundary_leak_reported s" for body
      by (induction body arbitrary: s) (auto simp: conjuncts split: option.splits)
    then show ?thesis by (simp add: apply_required_equalities_def)
  qed
  then show ?thesis
    by (simp add: entry_state_def levels required initial_state_def split: prod.splits)
qed

lemma function_exits_are_closed:
  assumes "analyze_function dbg func owner a = Ok a'" and "diagnostics a' = {}"
    and "fmlookup (summaries a) owner = Some summary"
  shows "\<exists>b states.
    execute_block dbg (executable_body func) owner [entry_state func owner summary (bindings a)] a = Ok (b, states) \<and>
    (\<forall>s \<in> set states. flow s \<noteq> Flow.Unreachable \<longrightarrow> closed_exit summary s)"
proof -
  let ?entry = "entry_state func owner summary (bindings a)"
  from assms obtain b states where
    run: "execute_block dbg (executable_body func) owner [?entry] a = Ok (b, states)" and
    a': "a' = foldl (close_exit func owner summary) b states"
    by (auto simp: analyze_function_def)
  have "reported b s" if "s \<in> set states" for s
    using runsD(2) [OF execute_runs(1) run] that entry_state_unreported by (auto simp: reported_def)
  then have "closed_exit summary s" if "s \<in> set states" "flow s \<noteq> Flow.Unreachable" for s
    using close_exits_clean [of func owner summary b states] assms(2) a' that by simp
  with run show ?thesis by blast
qed

text \<open>
  Property C4. If analyzing a function leaves no diagnostic, every feasible path out
  of its body owns exactly the obligations the function promised to return, each with a measure
  that satisfies the promise and no two promises for one slot, and knows every level order it
  promised. Nothing leaks: not on a return, not on an exception, not past a loop.
\<close>

theorem clean_analysis_pays_every_exit:
  assumes "analyze_function dbg func owner a = Ok a'" and "diagnostics a' = {}"
    and "fmlookup (summaries a) owner = Some summary"
  shows "\<exists>b states.
    execute_block dbg (executable_body func) owner [entry_state func owner summary (bindings a)] a = Ok (b, states) \<and>
    (\<forall>s \<in> set states. flow s \<noteq> Flow.Unreachable \<longrightarrow> closed_exit summary s)"
  using function_exits_are_closed [OF assms] .

section \<open>The module's verdict\<close>

lemma analyze_function_extends: "analyze_function dbg func owner a = Ok a' \<Longrightarrow> extends a a'"
proof -
  assume run: "analyze_function dbg func owner a = Ok a'"
  show "extends a a'"
  proof (cases "fmlookup (summaries a) owner")
    case None
    with run show ?thesis by (simp add: analyze_function_def)
  next
    case (Some summary)
    with run obtain b states where
      "execute_block dbg (executable_body func) owner [entry_state func owner summary (bindings a)] a = Ok (b, states)"
      "a' = foldl (close_exit func owner summary) b states"
      by (auto simp: analyze_function_def)
    then show ?thesis
      using runsD(1) [OF execute_runs(1)] extends_foldl [of "close_exit func owner summary", OF close_exit_extends]
      by (metis extends_trans)
  qed
qed

lemma sticky_loop_extends:
  assumes "\<And>x a a'. x \<in> set xs \<Longrightarrow> f x a = Ok a' \<Longrightarrow> extends a a'" "sticky_loop f xs a = Ok a'"
  shows "extends a a'"
  using assms
proof (induction xs arbitrary: a)
  case (Cons x xs)
  then obtain b where "f x a = Ok b" "sticky_loop f xs b = Ok a'" by auto
  with Cons show ?case by (meson extends_trans list.set_intros)
qed simp

lemma analyze_override_extends: "analyze_override base cls statement a = Ok a' \<Longrightarrow> extends a a'"
  by (auto simp: analyze_override_def Let_def split: Stmt.splits option.splits if_splits
      intro: extends_trans [OF extends_record extends_record])

lemma analyze_overrides_extends: "analyze_overrides suite a = Ok a' \<Longrightarrow> extends a a'"
proof -
  have "extends a a'" if "analyze_class_overrides statement a = Ok a'" for statement a a'
    using that sticky_loop_extends [OF analyze_override_extends]
    by (auto simp: analyze_class_overrides_def split: Stmt.splits list.splits Expr.splits)
  then show "analyze_overrides suite a = Ok a' \<Longrightarrow> extends a a'"
    unfolding analyze_overrides_def by (rule sticky_loop_extends)
qed

lemma analyze_functions_reached:
  assumes "analyze_functions dbg suite a = Ok a'" "(owner, func) \<in> set (functions_of_suite suite)"
  shows "\<exists>b c. analyze_function dbg func owner b = Ok c \<and> extends a b \<and> extends c a'"
proof -
  have "\<exists>b c. analyze_function dbg func owner b = Ok c \<and> extends a b \<and> extends c a'"
    if "sticky_loop (\<lambda>(owner, func) analyzer. analyze_function dbg func owner analyzer) fs a = Ok a'"
      "(owner, func) \<in> set fs" for fs
    using that
  proof (induction fs arbitrary: a)
    case (Cons f fs)
    obtain o1 f1 where f: "f = (o1, f1)" by fastforce
    from Cons.prems(1) f obtain d where d: "analyze_function dbg f1 o1 a = Ok d"
      "sticky_loop (\<lambda>(owner, func) analyzer. analyze_function dbg func owner analyzer) fs d = Ok a'"
      by auto
    have ext: "extends a d" using d(1) by (rule analyze_function_extends)
    have rest: "extends d a'"
      using d(2) by (rule sticky_loop_extends [rotated]) (auto intro: analyze_function_extends)
    show ?case
    proof (cases "(owner, func) = f")
      case True
      with f d rest extends_refl [of a] show ?thesis by blast
    next
      case False
      with Cons.prems(2) have "(owner, func) \<in> set fs" by auto
      from Cons.IH [OF d(2) this] ext show ?thesis by (blast intro: extends_trans)
    qed
  qed simp
  from this [of "functions_of_suite suite"] assms show ?thesis by (simp add: analyze_functions_def)
qed

lemma collected_lookup:
  assumes "collect_function_summaries dbg suite known = Ok collected" "(owner, func) \<in> set (functions_of_suite suite)"
  shows "\<exists>summary. fmlookup collected owner = Some summary"
proof -
  let ?f = "\<lambda>(owner, func) collected.
    res_bind (summarize_function dbg func known) (\<lambda>summary. Ok (fmupd owner summary collected))"
  have keep: "fmlookup m owner \<noteq> None \<Longrightarrow> sticky_loop ?f fs m = Ok m' \<Longrightarrow> fmlookup m' owner \<noteq> None" for fs m m'
  proof (induction fs arbitrary: m)
    case (Cons f fs)
    from Cons.prems(2) obtain m1 where m1: "?f f m = Ok m1" "sticky_loop ?f fs m1 = Ok m'" by auto
    from m1(1) Cons.prems(1) have "fmlookup m1 owner \<noteq> None" by (cases f) auto
    from Cons.IH [OF this m1(2)] show ?case .
  qed simp
  have "fmlookup m' owner \<noteq> None" if "sticky_loop ?f fs m = Ok m'" "(owner, func) \<in> set fs" for fs m m'
    using that
  proof (induction fs arbitrary: m)
    case (Cons f fs)
    from Cons.prems(1) obtain m1 where m1: "?f f m = Ok m1" "sticky_loop ?f fs m1 = Ok m'" by auto
    show ?case
    proof (cases "(owner, func) = f")
      case True
      with m1(1) have "fmlookup m1 owner \<noteq> None" by auto
      with m1(2) show ?thesis by (rule keep [rotated])
    next
      case False
      with Cons m1(2) show ?thesis by auto
    qed
  qed simp
  from this [of "functions_of_suite suite" fmempty collected] assms show ?thesis
    by (auto simp: collect_function_summaries_def)
qed

text \<open>The solver on the constant conclusions of this analyzer.\<close>

definition decides_constants ::
  "(Term list \<Rightarrow> Term \<Rightarrow> (string, SatResult \<times> string option) result) \<Rightarrow> bool" where
  "decides_constants query \<longleftrightarrow>
     (\<exists>m. query [] (Term.Bool True) = Ok (Unsat, m)) \<and> (\<exists>m. query [] (Term.Bool False) = Ok (Sat, m))"

lemma discharge_constant:
  assumes "decides_constants query" "discharge query (make_obligation name concluded source path offset) = Ok r"
  shows "satisfied r \<longleftrightarrow> concluded"
  using assms
  by (cases concluded)
    (auto simp: decides_constants_def discharge_def make_obligation_def term_sort_def
      is_exact_sorted_adjacent_order_theorem_def obligation_result_def solver_status_def satisfied_def
      split: prod.splits)

lemma discharge_all_satisfied:
  assumes "discharge_all query os = Ok rs" "\<And>ob r. ob \<in> set os \<Longrightarrow> discharge query ob = Ok r \<Longrightarrow> satisfied r = good ob"
  shows "list_all satisfied rs \<longleftrightarrow> (\<forall>ob \<in> set os. good ob)"
  using assms
proof (induction os arbitrary: rs)
  case (Cons ob os)
  from Cons.prems(1) obtain r rs1 where "discharge query ob = Ok r" "discharge_all query os = Ok rs1" "rs = r # rs1"
    by (auto split: sum.splits)
  moreover from this Cons.IH Cons.prems(2) have "list_all satisfied rs1 \<longleftrightarrow> (\<forall>ob \<in> set os. good ob)" by simp
  ultimately show ?case using Cons.prems(2) [of ob r] by simp
qed simp

lemma ordered_diagnostics_empty: "finite ds \<Longrightarrow> ordered_diagnostics ds = [] \<longleftrightarrow> ds = {}"
  by (simp add: ordered_diagnostics_def)

lemma module_verdict:
  assumes "decides_constants query" "finite ds" "discharge_all query (module_obligations source path ds methods) = Ok answers"
  shows "list_all satisfied answers \<longleftrightarrow> ds = {}"
proof -
  let ?good = "\<lambda>ob. conclusion ob = Term.Bool True"
  have "list_all satisfied answers \<longleftrightarrow> (\<forall>ob \<in> set (module_obligations source path ds methods). ?good ob)"
  proof (rule discharge_all_satisfied [OF assms(3)])
    fix ob r assume ob: "ob \<in> set (module_obligations source path ds methods)" and r: "discharge query ob = Ok r"
    from ob obtain name c offset where "ob = make_obligation name c source path offset"
      by (auto simp: module_obligations_def diagnostic_obligation_def closed_obligation_def)
    with discharge_constant [OF assms(1)] r show "satisfied r = ?good ob"
      by (simp add: make_obligation_def split: prod.splits)
  qed
  also have "\<dots> \<longleftrightarrow> ordered_diagnostics ds = []"
    by (cases "ordered_diagnostics ds")
      (auto simp: module_obligations_def diagnostic_obligation_def closed_obligation_def make_obligation_def
        split: prod.splits)
  finally show ?thesis using ordered_diagnostics_empty [OF assms(2)] by simp
qed

text \<open>
  Property C3. When the module's verification passes, every function and method of the
  module has a summary, and the execution of its body from the state its contract describes
  leaves every feasible exit with exactly the obligations the contract returns. Conversely a
  recorded diagnostic always fails the module. The solver is only relied on for constants.
\<close>

theorem passed_module_leaks_nothing:
  assumes "decides_constants query"
    and "verify_obligation_module_with_intrinsics dbg query (Ok suite) source path intrinsics = Ok (Some v)"
    and "verification_passed v" and "(owner, func) \<in> set (functions_of_suite suite)"
  shows "\<exists>collected summary a b states.
    collect_function_summaries dbg suite (module_bindings suite intrinsics) = Ok collected \<and>
    fmlookup collected owner = Some summary \<and>
    summaries a = collected \<and> bindings a = module_bindings suite intrinsics \<and>
    execute_block dbg (executable_body func) owner
      [entry_state func owner summary (module_bindings suite intrinsics)] a = Ok (b, states) \<and>
    (\<forall>s \<in> set states. flow s \<noteq> Flow.Unreachable \<longrightarrow> closed_exit summary s)"
proof -
  let ?known = "module_bindings suite intrinsics"
  from assms(2) obtain collected a1 a2 answers where
    collected: "collect_function_summaries dbg suite ?known = Ok collected" and
    over: "analyze_overrides suite \<lparr> summaries = collected, bindings = ?known, diagnostics = {} \<rparr> = Ok a1" and
    run: "analyze_functions dbg suite a1 = Ok a2" and
    answers: "discharge_all query (module_obligations source path (diagnostics a2)
        (map fst (functions_of_suite suite))) = Ok answers" and
    v: "verification_passed v = list_all satisfied answers"
    by (fastforce simp: verify_obligation_module_with_intrinsics_def Let_def split: if_splits)
  note start = analyze_overrides_extends [OF over]
  have all: "extends a1 a2"
    using run unfolding analyze_functions_def
    by (rule sticky_loop_extends [rotated]) (auto intro: analyze_function_extends)
  have "finite (diagnostics a2)" using start all by (auto simp: extends_def)
  with module_verdict [OF assms(1) _ answers] v assms(3) have clean: "diagnostics a2 = {}" by simp
  from analyze_functions_reached [OF run assms(4)] obtain b c where
    f: "analyze_function dbg func owner b = Ok c" "extends a1 b" "extends c a2" by blast
  from start f(2) have b: "summaries b = collected" "bindings b = ?known" by (auto simp: extends_def)
  from f(3) clean have c: "diagnostics c = {}" by (auto simp: extends_def)
  from collected_lookup [OF collected assms(4)] obtain summary where s: "fmlookup collected owner = Some summary" by blast
  from function_exits_are_closed [OF f(1) c] s b show ?thesis using collected by auto
qed

section \<open>The lock classes\<close>

text \<open>
  A lock class is bound to the canonical class or has a base that names one: directly, inside a
  subscript, or in a string annotation. Sets of classes named at once are premises.
\<close>

inductive is_lock_class :: "Stmt list \<Rightarrow> string set \<Rightarrow> string \<Rightarrow> bool" for suite bound where
  bound: "name \<in> bound \<Longrightarrow> is_lock_class suite bound name"
| inherits: "ClassDef name bases body \<in> set suite \<Longrightarrow> base \<in> set bases \<Longrightarrow>
    annotation_names_lock_class base known \<Longrightarrow> (\<And>k. k \<in> known \<Longrightarrow> is_lock_class suite bound k) \<Longrightarrow>
    is_lock_class suite bound name"

lemma type_text_mono:
  "type_text_names_lock_class s known \<Longrightarrow> known \<subseteq> known' \<Longrightarrow> type_text_names_lock_class s known'"
proof (induction s known rule: type_text_names_lock_class.induct)
  case (1 s known)
  show ?case
  proof (cases "trim s \<in> known")
    case True
    with 1(3) show ?thesis by (subst type_text_names_lock_class.simps) auto
  next
    case False
    with 1(2) obtain wrapper inner part where
      w: "wrapper \<in> {''Optional'', ''Union''}" "wrapped wrapper (trim s) = Some inner"
         "part \<in> set (split_on (CHR '','') inner)" "type_text_names_lock_class part known"
      by (subst (asm) type_text_names_lock_class.simps) (auto simp: list_ex_iff split: option.splits)
    have "type_text_names_lock_class part known'" using 1(1) [of wrapper inner part] w 1(3) by auto
    with w show ?thesis
      by (subst type_text_names_lock_class.simps) (auto simp: list_ex_iff split: option.splits)
  qed
qed

lemma annotation_mono:
  "annotation_names_lock_class e known \<Longrightarrow> known \<subseteq> known' \<Longrightarrow> annotation_names_lock_class e known'"
  by (induction e known rule: annotation_names_lock_class.induct) (auto intro: type_text_mono)

lemma lock_class_pass_sound:
  assumes "foldl lock_class_step (classes, changed) part = (classes', changed')" "set part \<subseteq> set suite"
    "\<forall>k \<in> classes. is_lock_class suite bound k"
  shows "\<forall>k \<in> classes'. is_lock_class suite bound k"
  using assms
proof (induction part arbitrary: classes changed)
  case (Cons statement part)
  obtain c1 b1 where step: "lock_class_step (classes, changed) statement = (c1, b1)" by fastforce
  have "\<forall>k \<in> c1. is_lock_class suite bound k"
  proof (cases statement)
    case (ClassDef name bases body)
    with step Cons.prems(2,3) show ?thesis
      by (auto simp: lock_class_step_def list_ex_iff split: if_splits
          intro: is_lock_class.inherits [where known = classes])
  qed (use step Cons.prems(3) in \<open>auto simp: lock_class_step_def\<close>)
  with Cons step show ?case by simp
qed simp

text \<open>A pass that changes nothing has seen a closed set.\<close>

lemma lock_class_pass_stable:
  assumes "foldl lock_class_step (classes, False) suite = (classes, False)" "ClassDef name bases body \<in> set suite"
    "base \<in> set bases" "annotation_names_lock_class base classes"
  shows "name \<in> classes"
  using assms(1,2)
proof (induction suite)
  case (Cons statement suite)
  obtain c1 b1 where step: "lock_class_step (classes, False) statement = (c1, b1)" by fastforce
  with Cons.prems(1) have rest: "foldl lock_class_step (c1, b1) suite = (classes, False)" by simp
  have "\<not> b1" using lock_class_foldl [OF rest] by simp
  with step have same: "c1 = classes" "b1 = False"
    by (auto simp: lock_class_step_def split: Stmt.splits if_splits)
  show ?case
  proof (cases "statement = ClassDef name bases body")
    case True
    with step same assms(3,4) show ?thesis by (auto simp: lock_class_step_def list_ex_iff split: if_splits)
  next
    case False
    with Cons rest same show ?thesis by auto
  qed
qed simp

lemma close_lock_classes_spec:
  "(\<forall>k \<in> classes. is_lock_class suite bound k) \<Longrightarrow>
     classes \<subseteq> close_lock_classes suite classes \<and>
     (\<forall>k \<in> close_lock_classes suite classes. is_lock_class suite bound k) \<and>
     (\<forall>name bases body base. ClassDef name bases body \<in> set suite \<longrightarrow> base \<in> set bases \<longrightarrow>
        annotation_names_lock_class base (close_lock_classes suite classes) \<longrightarrow>
        name \<in> close_lock_classes suite classes)"
proof (induction suite classes rule: close_lock_classes.induct)
  case (1 suite classes)
  obtain classes' changed where pass: "lock_class_pass suite classes = (classes', changed)" by fastforce
  then have fold: "foldl lock_class_step (classes, False) suite = (classes', changed)"
    by (simp add: lock_class_pass_def)
  note grown = lock_class_foldl [OF fold]
  have sound: "\<forall>k \<in> classes'. is_lock_class suite bound k"
    using lock_class_pass_sound [OF fold] 1(2) by simp
  show ?case
  proof (cases changed)
    case True
    with pass have "close_lock_classes suite classes = close_lock_classes suite classes'"
      by (simp add: close_lock_classes.simps [of suite classes])
    moreover from 1(1) [OF pass [symmetric] True sound]
    have "classes' \<subseteq> close_lock_classes suite classes' \<and>
      (\<forall>k \<in> close_lock_classes suite classes'. is_lock_class suite bound k) \<and>
      (\<forall>name bases body base. ClassDef name bases body \<in> set suite \<longrightarrow> base \<in> set bases \<longrightarrow>
        annotation_names_lock_class base (close_lock_classes suite classes') \<longrightarrow>
        name \<in> close_lock_classes suite classes')"
      .
    ultimately show ?thesis using grown by (metis subset_trans)
  next
    case False
    with pass have final: "close_lock_classes suite classes = classes'"
      by (simp add: close_lock_classes.simps [of suite classes])
    from False grown have "classes' = classes" by simp
    with fold False lock_class_pass_stable final sound show ?thesis by auto
  qed
qed

text \<open>
  Property C26. The loop that collects the lock classes runs until a pass adds none, which
  happens after at most as many passes as the module has classes, and what it returns is the least
  set that contains the imported lock classes and every class with a lock class among its bases,
  in whatever order the module declares them.
\<close>

theorem lock_classes_closed_under_inheritance:
  "name \<in> lock_classes (canonical_bindings suite) \<longleftrightarrow>
     is_lock_class suite (lock_classes (foldl bind_statement default_bindings suite)) name"
proof -
  let ?bound = "lock_classes (foldl bind_statement default_bindings suite)"
  have result: "lock_classes (canonical_bindings suite) = close_lock_classes suite ?bound"
    by (simp add: canonical_bindings_def Let_def)
  have spec: "?bound \<subseteq> close_lock_classes suite ?bound"
    "\<forall>k \<in> close_lock_classes suite ?bound. is_lock_class suite ?bound k"
    "\<And>name bases body base. ClassDef name bases body \<in> set suite \<Longrightarrow> base \<in> set bases \<Longrightarrow>
       annotation_names_lock_class base (close_lock_classes suite ?bound) \<Longrightarrow> name \<in> close_lock_classes suite ?bound"
    using close_lock_classes_spec [of ?bound suite ?bound] is_lock_class.bound [of _ ?bound suite] by blast+
  have "is_lock_class suite ?bound name \<Longrightarrow> name \<in> close_lock_classes suite ?bound"
  proof (induction rule: is_lock_class.induct)
    case (bound name)
    with spec(1) show ?case by blast
  next
    case (inherits name bases body base known)
    then have "annotation_names_lock_class base (close_lock_classes suite ?bound)"
      using annotation_mono by blast
    with inherits spec(3) show ?case by blast
  qed
  with spec(2) result show ?thesis by auto
qed

section \<open>An accepted module\<close>

text \<open>
  A function that borrows a held lock and gives it back, in a module that imports the canonical
  primitive: the hypotheses of the theorems above hold for it.
\<close>

definition held_lock_spec :: ObligationSpec where
  "held_lock_spec = \<lparr> spec_kind = Release, spec_root = ''l'', spec_fields = [], spec_measure = Unbounded,
     spec_conditional = False, spec_bounded = False, spec_offset = 0 \<rparr>"

definition must_release_l :: Expr where
  "must_release_l = Call (ExprCall (Name ''MustRelease'') [Name ''l''] [] 0)"

definition contract_call :: "string \<Rightarrow> Expr \<Rightarrow> Stmt" where
  "contract_call name argument = Stmt.Expr (Call (ExprCall (Name name) [argument] [] 0)) 0"

definition borrower :: StmtFunctionDef where
  "borrower = StmtFunctionDef ''f'' [] [(''l'', None)] []
     [contract_call ''Requires'' must_release_l, contract_call ''Ensures'' must_release_l, Pass] 0"

definition borrower_module :: "Stmt list" where
  "borrower_module = [ImportFrom (Some ''nagini_contracts.obligations'') None [(''MustRelease'', None)],
     FunctionDef borrower]"

definition borrower_summary :: FunctionSummary where
  "borrower_summary = default_summary \<lparr> sum_parameters := [''l''], sum_required := [held_lock_spec],
     sum_returned := [held_lock_spec] \<rparr>"

definition plain_debug :: AstDebug where
  "plain_debug = \<lparr> debug_expr = (\<lambda>_. ''expr''), debug_range = (\<lambda>_. ''range'') \<rparr>"

definition constant_query :: "Term list \<Rightarrow> Term \<Rightarrow> (string, SatResult \<times> string option) result" where
  "constant_query premises goal =
     (case goal of Term.Bool True \<Rightarrow> Ok (Unsat, None) | Term.Bool False \<Rightarrow> Ok (Sat, None) | _ \<Rightarrow> Ok (UnknownSat, None))"

lemma constant_query_decides: "decides_constants constant_query"
  by (simp add: decides_constants_def constant_query_def)

definition no_intrinsics :: ResolvedLevelIntrinsicBindings where
  "no_intrinsics = \<lparr> by_local_name = fmempty \<rparr>"

lemma borrower_bindings:
  "module_bindings borrower_module no_intrinsics = default_bindings \<lparr> primitives := {''MustRelease''} \<rparr>"
  by (simp add: module_bindings_def canonical_bindings_def borrower_module_def bind_statement_def
      default_bindings_def is_absolute_def bind_alias_def exported_names_def bind_exported_def
      top_level_bound_names_def unbind_name_def borrower_def close_lock_classes.simps lock_class_pass_def
      lock_class_step_def bind_lock_fields_def invalidate_rebound_level_intrinsics_def
      invalidate_rebound_name_def no_intrinsics_def remove_local_binding_def Let_def last_index_def
      rebinds_def is_import_from_def)

lemma borrower_summarized:
  "summarize_function plain_debug borrower (default_bindings \<lparr> primitives := {''MustRelease''} \<rparr>) = Ok borrower_summary"
  by (simp add: summarize_function_def borrower_def function_local_bound_names_def all_arguments_def
     remove_local_bindings_def default_bindings_def remove_local_binding_def lock_parameter_names_def
     is_io_contract_def contract_call_def must_release_l_def expression_contains_call_def
     summarize_statement_def contract_statement_def direct_call_name_def collect_named_call_measures_def
     collect_obligation_specs_def obligation_clause_def obligation_kind_of_def collect_level_specs_def
     standalone_level_intrinsic_def expression_contains_level_intrinsic_def event_def
     default_summary_def borrower_summary_def held_lock_spec_def expression_is_conditionally_guarded_def Let_def)

definition borrower_analyzer :: Analyzer where
  "borrower_analyzer = \<lparr> summaries = fmupd ''f'' borrower_summary fmempty,
     bindings = default_bindings \<lparr> primitives := {''MustRelease''} \<rparr>, diagnostics = {} \<rparr>"

lemma borrower_analyzed: "analyze_function plain_debug borrower ''f'' borrower_analyzer = Ok borrower_analyzer"
  by (simp add: analyze_function_def borrower_analyzer_def executable_body_def borrower_def contract_call_def
      must_release_l_def is_contract_statement_def contract_statement_def direct_call_name_def
      entry_state_def initial_state_def enter_parameters_def borrower_summary_def default_summary_def
      self_lock_identities_def apply_required_equalities_def unify_required_conjunct_def held_lock_spec_def
      instantiate_spec_identity_def instantiated_root_def push_fields_def execute_simple_def
      close_exit_def return_obligation_def decide_consume_def decide_close_def Let_def fmdrop_fmupd)

lemma borrower_collected:
  "collect_function_summaries plain_debug borrower_module (default_bindings \<lparr> primitives := {''MustRelease''} \<rparr>)
     = Ok (summaries borrower_analyzer)"
  using borrower_summarized
  by (simp add: collect_function_summaries_def borrower_module_def borrower_analyzer_def) (simp add: borrower_def)

lemma borrower_obligations:
  "\<exists>answers. discharge_all constant_query (module_obligations source path {} [''f'']) = Ok answers \<and>
     list_all satisfied answers"
  by (simp add: module_obligations_def ordered_diagnostics_def closed_obligation_def make_obligation_def
      discharge_def term_sort_def is_exact_sorted_adjacent_order_theorem_def constant_query_def
      solver_status_def obligation_result_def satisfied_def Let_def split: prod.splits)

lemma borrower_verified:
  "\<exists>v. verify_obligation_module_with_intrinsics plain_debug constant_query (Ok borrower_module) source path no_intrinsics = Ok (Some v) \<and>
       verification_passed v"
proof -
  have play: "obligations_in_play borrower_module (summaries borrower_analyzer) known" for known
    by (simp add: obligations_in_play_def borrower_analyzer_def list_ex_iff Bex_def set_btree_values
        has_contract_clause_def borrower_summary_def)
  have names: "functions_of_suite borrower_module = [(''f'', borrower)]"
    by (simp add: borrower_module_def) (simp add: borrower_def)
  have over: "analyze_overrides borrower_module a = Ok a" for a
    by (simp add: analyze_overrides_def borrower_module_def analyze_class_overrides_def)
  obtain answers where "discharge_all constant_query (module_obligations source path {} [''f'']) = Ok answers"
     "list_all satisfied answers"
    using borrower_obligations by blast
  moreover have "analyze_functions plain_debug borrower_module borrower_analyzer = Ok borrower_analyzer"
    by (simp add: analyze_functions_def names borrower_analyzed)
  moreover have "\<lparr> summaries = summaries borrower_analyzer,
     bindings = default_bindings \<lparr> primitives := {''MustRelease''} \<rparr>, diagnostics = {} \<rparr> = borrower_analyzer"
    by (simp add: borrower_analyzer_def)
  moreover have "diagnostics borrower_analyzer = {}" by (simp add: borrower_analyzer_def)
  ultimately show ?thesis
    by (simp add: verify_obligation_module_with_intrinsics_def borrower_bindings Let_def borrower_collected
        play over names)
qed

theorem clean_analysis_pays_every_exit_witness:
  "\<exists>b states. execute_block plain_debug (executable_body borrower) ''f''
       [entry_state borrower ''f'' borrower_summary (bindings borrower_analyzer)] borrower_analyzer = Ok (b, states) \<and>
     (\<forall>s \<in> set states. flow s \<noteq> Flow.Unreachable \<longrightarrow> closed_exit borrower_summary s)"
  by (rule clean_analysis_pays_every_exit [OF borrower_analyzed]) (simp_all add: borrower_analyzer_def)

theorem passed_module_leaks_nothing_witness:
  "\<exists>collected summary a b states.
    collect_function_summaries plain_debug borrower_module (module_bindings borrower_module no_intrinsics) = Ok collected \<and>
    fmlookup collected ''f'' = Some summary \<and>
    summaries a = collected \<and> bindings a = module_bindings borrower_module no_intrinsics \<and>
    execute_block plain_debug (executable_body borrower) ''f''
      [entry_state borrower ''f'' summary (module_bindings borrower_module no_intrinsics)] a = Ok (b, states) \<and>
    (\<forall>s \<in> set states. flow s \<noteq> Flow.Unreachable \<longrightarrow> closed_exit summary s)"
proof -
  obtain v where v: "verify_obligation_module_with_intrinsics plain_debug constant_query (Ok borrower_module)
      '''' ''m.py'' no_intrinsics = Ok (Some v)" "verification_passed v"
    using borrower_verified by blast
  have "(''f'', borrower) \<in> set (functions_of_suite borrower_module)"
    by (simp add: borrower_module_def) (simp add: borrower_def)
  from passed_module_leaks_nothing [OF constant_query_decides v this] show ?thesis .
qed

text \<open>An unknown callee while the lock is held: the call is reported and the path is marked.\<close>

definition holding_state :: LedgerState where
  "holding_state = initial_state ''f'' borrower_summary default_bindings
     \<lparr> pending := fmupd (ObligationKey Release ''f::l'') Unbounded fmempty \<rparr>"

theorem execution_only_adds_reports_witness:
  "\<exists>a' paths. execute_block plain_debug [Stmt.Expr (Call (ExprCall (Name ''g'') [] [] 0)) 4] ''f'' [holding_state]
       borrower_analyzer = Ok (a', paths) \<and>
     (\<exists>p \<in> set paths. boundary_leak_reported p) \<and> diagnostics a' \<noteq> {}"
proof -
  let ?a = "record_diagnostic Caller 4 ''f'' borrower_analyzer"
  let ?p = "holding_state \<lparr> boundary_leak_reported := True \<rparr>"
  have run: "execute_block plain_debug [Stmt.Expr (Call (ExprCall (Name ''g'') [] [] 0)) 4] ''f'' [holding_state]
      borrower_analyzer = Ok (?a, [?p])"
    by (simp add: holding_state_def initial_state_def enter_parameters_def self_lock_identities_def
        borrower_summary_def default_summary_def borrower_analyzer_def default_bindings_def execute_simple_def
        execute_expression_def is_contract_statement_def contract_statement_def direct_call_name_def
        is_direct_call_def apply_call_def apply_resolved_call_def resolved_call_name_def
        is_runtime_contract_name_def Let_def)
  have "\<forall>s \<in> set [holding_state]. boundary_leak_reported s \<longrightarrow> diagnostics borrower_analyzer \<noteq> {}"
    by (simp add: holding_state_def initial_state_def enter_parameters_def borrower_summary_def Let_def)
  with execution_only_adds_reports [OF run] run show ?thesis by simp
qed

end
