(* ===== verification/Obligation_Control.thy ===== *)
theory Obligation_Control
  imports Obligation_Execution
begin

text \<open>
  Control flow and conditions in the obligation analyzer: static evaluation against unbounded
  integer arithmetic, the flows that can leave a block, and what a comparison teaches about
  identities.
\<close>

section \<open>Static conditions\<close>

text \<open>The value of an integer expression over unbounded integers, and whether all of it fits \<open>i64\<close>.\<close>

fun int_value :: "Expr \<Rightarrow> int option" where
  "int_value (Constant (Constant.Int v)) = Some (int v)"
| "int_value (UnaryOp USub operand) = map_option uminus (int_value operand)"
| "int_value (BinOp left op right) =
     (case (int_value left, op, int_value right) of
        (Some l, Add, Some r) \<Rightarrow> Some (l + r)
      | (Some l, Sub, Some r) \<Rightarrow> Some (l - r)
      | (Some l, Mult, Some r) \<Rightarrow> Some (l * r)
      | _ \<Rightarrow> None)"
| "int_value _ = None"

definition fits_i64 :: "int option \<Rightarrow> bool" where
  "fits_i64 v \<longleftrightarrow> (case v of None \<Rightarrow> False | Some n \<Rightarrow> -(2 ^ 63) \<le> n \<and> n < 2 ^ 63)"

fun all_fit :: "Expr \<Rightarrow> bool" where
  "all_fit (UnaryOp op operand) \<longleftrightarrow> all_fit operand \<and> fits_i64 (int_value (UnaryOp op operand))"
| "all_fit (BinOp left op right) \<longleftrightarrow> all_fit left \<and> all_fit right \<and> fits_i64 (int_value (BinOp left op right))"
| "all_fit expression \<longleftrightarrow> fits_i64 (int_value expression)"

lemma checked_i64_fits: "checked_i64 v = (if fits_i64 (Some v) then Some v else None)"
  by (simp add: checked_i64_def fits_i64_def)

lemma all_fit_value: "all_fit e \<Longrightarrow> \<exists>v. int_value e = Some v"
  by (cases e) (auto simp: fits_i64_def split: option.splits)

lemma eval_int_fits: "eval_int_expression e = (if all_fit e then int_value e else None)"
proof (induction e rule: eval_int_expression.induct)
  case (2 operand)
  then show ?case
    using all_fit_value [of operand] by (auto simp: checked_i64_fits)
next
  case (3 left op right)
  show ?case
  proof (cases "all_fit left \<and> all_fit right")
    case True
    then obtain l r where "int_value left = Some l" "int_value right = Some r"
      using all_fit_value by blast
    with 3 True show ?thesis by (cases op) (auto simp: checked_i64_fits fits_i64_def)
  next
    case False
    with 3 show ?thesis by (auto split: option.splits)
  qed
qed (auto simp: checked_i64_fits fits_i64_def)

text \<open>The truth of a condition the analyzer may decide: a literal, or one integer comparison.\<close>

fun compare_ints :: "CmpOp \<Rightarrow> int \<Rightarrow> int \<Rightarrow> bool option" where
  "compare_ints CmpOp.Eq l r = Some (l = r)"
| "compare_ints CmpOp.NotEq l r = Some (l \<noteq> r)"
| "compare_ints CmpOp.Lt l r = Some (l < r)"
| "compare_ints CmpOp.LtE l r = Some (l \<le> r)"
| "compare_ints CmpOp.Gt l r = Some (l > r)"
| "compare_ints CmpOp.GtE l r = Some (l \<ge> r)"
| "compare_ints _ l r = None"

fun condition_value :: "Expr \<Rightarrow> bool option" where
  "condition_value (Constant (Constant.Bool b)) = Some b"
| "condition_value (Compare left [op] [right] offset) =
     (case (int_value left, int_value right) of
        (Some l, Some r) \<Rightarrow> compare_ints op l r
      | _ \<Rightarrow> None)"
| "condition_value _ = None"

fun operands_fit :: "Expr \<Rightarrow> bool" where
  "operands_fit (Compare left [op] [right] offset) \<longleftrightarrow> all_fit left \<and> all_fit right"
| "operands_fit _ \<longleftrightarrow> True"

lemma eval_comparison_value:
  "eval_comparison left [op] [right] =
     (if all_fit left \<and> all_fit right then condition_value (Compare left [op] [right] offset) else None)"
  using all_fit_value [of left] all_fit_value [of right]
  by (cases op) (auto simp: eval_comparison_def eval_int_fits split: option.splits)

lemma eval_comparison_shape:
  "eval_comparison left ops comparators = Some v \<Longrightarrow> \<exists>op right. ops = [op] \<and> comparators = [right]"
  by (auto simp: eval_comparison_def split: option.splits list.splits)

text \<open>
  Property C28. A condition counts as statically true, or false, exactly when it is a literal
  or one comparison whose value over unbounded integers is that and none of whose subexpressions
  leaves the range of \<open>i64\<close>: checked arithmetic never decides a condition wrongly, and overflow
  only makes it undecided.
\<close>

theorem static_conditions_are_exact:
  "(expression_is_statically_true e \<longleftrightarrow> condition_value e = Some True \<and> operands_fit e) \<and>
   (expression_is_statically_false e \<longleftrightarrow> condition_value e = Some False \<and> operands_fit e)"
proof (cases "\<exists>left ops comparators offset. e = Compare left ops comparators offset")
  case True
  then obtain left ops comparators offset where e: "e = Compare left ops comparators offset" by blast
  show ?thesis
  proof (cases "\<exists>op right. ops = [op] \<and> comparators = [right]")
    case True
    then obtain op right where single: "ops = [op]" "comparators = [right]" by blast
    have "eval_comparison left ops comparators = (if operands_fit e then condition_value e else None)"
      unfolding single e operands_fit.simps by (rule eval_comparison_value)
    moreover have "expression_is_statically_true e \<longleftrightarrow> eval_comparison left ops comparators = Some True"
      "expression_is_statically_false e \<longleftrightarrow> eval_comparison left ops comparators = Some False"
      by (auto simp: e expression_is_statically_true_def expression_is_statically_false_def split: option.splits)
    ultimately show ?thesis by (cases "operands_fit e") simp_all
  next
    case False
    then have "eval_comparison left ops comparators = None"
      using eval_comparison_shape by (cases "eval_comparison left ops comparators") blast+
    moreover have "condition_value e = None" using e False
      by (cases ops rule: remdups_adj.cases; cases comparators rule: remdups_adj.cases) auto
    ultimately show ?thesis
      by (simp add: e expression_is_statically_true_def expression_is_statically_false_def)
  qed
next
  case False
  then show ?thesis
    by (cases e rule: condition_value.cases)
      (auto simp: expression_is_statically_true_def expression_is_statically_false_def split: Expr.splits)
qed

section \<open>Flows\<close>

named_theorems flow_kept

lemma consume_or_report_flow [flow_kept]:
  "flow (snd (consume_or_report kind identity required policy offset owner st)) = flow (snd st)"
  by (cases st) (auto simp: consume_or_report_def Let_def)

lemma add_pending_flow [flow_kept]: "add_pending key owed s = Ok s' \<Longrightarrow> flow s' = flow s"
  by (auto simp: add_pending_def obligation_failure_def split: if_splits)

lemma check_required_levels_flow [flow_kept]:
  "flow (snd (check_required_levels specs summary call offset owner st)) = flow (snd st)"
  by (induction specs summary call offset owner st rule: check_required_levels.induct) (auto simp: Let_def)

lemma consume_required_flow [flow_kept]:
  "consume_required specs summary call called offset owner st = Ok st' \<Longrightarrow> flow (snd st') = flow (snd st)"
  by (induction specs arbitrary: st)
    (auto simp: flow_kept dynamic_call_identity_def obligation_failure_def split: if_splits option.splits)

lemma produce_returned_flow [flow_kept]:
  "produce_returned specs summary call s = Ok s' \<Longrightarrow> flow s' = flow s"
  by (induction specs arbitrary: s) (auto simp: flow_kept split: if_splits option.splits dest!: add_pending_flow)

lemma produce_levels_flow [flow_kept]: "flow (produce_levels specs summary call s) = flow s"
  by (induction specs arbitrary: s) (auto split: option.splits)

lemma apply_summary_flow [flow_kept]:
  "apply_summary summary call called owner offset st = Ok st' \<Longrightarrow> flow (snd st') = flow (snd st)"
  by (auto simp: apply_summary_def Let_def flow_kept split: prod.splits if_splits
      dest!: consume_required_flow produce_returned_flow)

lemma apply_resolved_call_flow [flow_kept]:
  "apply_resolved_call call owner offset st = Ok st' \<Longrightarrow> flow (snd st') = flow (snd st)"
  by (cases st)
    (auto simp: apply_resolved_call_def dynamic_call_identity_def obligation_failure_def
      split: option.splits if_splits dest!: apply_summary_flow)

lemma acquire_lock_flow [flow_kept]:
  "acquire_lock identity offset owner st = Ok st' \<Longrightarrow> flow (snd st') = flow (snd st)"
  by (cases st) (auto simp: acquire_lock_def Let_def dest!: add_pending_flow)

lemma apply_call_flow [flow_kept]:
  "apply_call call owner offset st = Ok st' \<Longrightarrow> flow (snd st') = flow (snd st)"
  by (auto simp: apply_call_def release_lock_def flow_kept split: Expr.splits option.splits if_splits)

lemma apply_optional_call_flow [flow_kept]:
  "apply_optional_call called owner offset st = Ok st' \<Longrightarrow> flow (snd st') = flow (snd st)"
  by (auto simp: apply_optional_call_def flow_kept split: option.splits)

lemma small_flow [simp]:
  "flow (set_flow f s) = f"
  "flow (bind_alias_to target identity s) = flow s"
  "flow (own_lock identity s) = flow s"
  "flow (disown_lock identity s) = flow s"
  by (simp_all add: set_flow_def bind_alias_to_def own_lock_def disown_lock_def)

lemma assign_flow [simp]:
  "flow (assign_attribute lock s target) = flow s"
  "flow (assign_name lock name value offset owner s) = flow s"
  by (auto simp: assign_attribute_def assign_name_def Let_def split: Expr.splits option.splits)

lemma assign_attributes_flow [simp]: "flow (foldl (assign_attribute lock) s targets) = flow s"
  by (induction targets arbitrary: s) auto

lemma move_pending_flow: "flow (move_pending i moved s) \<in> {flow s, Flow.Unreachable}"
  by (induction i moved s rule: move_pending.induct) (auto simp: Let_def)

lemma refine_identity_flow: "flow (refine_identity_condition test truthy s) \<in> {flow s, Flow.Unreachable}"
  using move_pending_flow
  by (auto simp: refine_identity_condition_def unify_names_def Let_def split: Expr.splits list.splits option.splits)
    (metis (no_types, lifting) LedgerState.select_convs(5) LedgerState.surjective LedgerState.update_convs(1,3,4)
      insertE singletonD)+

text \<open>A loop head may send no path on with \<open>break\<close> or \<open>continue\<close> pending.\<close>

definition leaves_loop :: "LedgerState \<Rightarrow> bool" where
  "leaves_loop s \<longleftrightarrow> flow s = Flow.Break \<or> flow s = Flow.Continue"

text \<open>A \<open>break\<close> or \<open>continue\<close> of the block that no loop of the block encloses.\<close>

fun stray_block :: "Stmt list \<Rightarrow> bool"
and stray_statement :: "Stmt \<Rightarrow> bool"
and stray_handlers :: "ExceptHandler list \<Rightarrow> bool" where
  "stray_block [] = False"
| "stray_block (statement # rest) = (stray_statement statement \<or> stray_block rest)"
| "stray_statement Stmt.Break = True"
| "stray_statement Stmt.Continue = True"
| "stray_statement (Stmt.If test body orelse) = (stray_block body \<or> stray_block orelse)"
| "stray_statement (Stmt.Try body handlers orelse finalbody) =
     (stray_block body \<or> stray_handlers handlers \<or> stray_block orelse \<or> stray_block finalbody)"
| "stray_statement _ = False"
| "stray_handlers [] = False"
| "stray_handlers (ExceptHandler type body # rest) = (stray_block body \<or> stray_handlers rest)"

lemma stray_handlers_iff: "stray_handlers handlers \<longleftrightarrow> (\<exists>h \<in> set handlers. stray_block (handler_body h))"
proof (induction handlers)
  case (Cons h handlers)
  then show ?case by (cases h) simp
qed simp

definition stays :: "LedgerState list \<Rightarrow> outcome \<Rightarrow> bool" where
  "stays states r \<longleftrightarrow>
     (\<forall>a' paths. r = Ok (a', paths) \<longrightarrow> (\<forall>s \<in> set states. \<not> leaves_loop s) \<longrightarrow> (\<forall>p \<in> set paths. \<not> leaves_loop p))"

lemma staysD: "stays states r \<Longrightarrow> r = Ok (a', paths) \<Longrightarrow> (\<And>s. s \<in> set states \<Longrightarrow> \<not> leaves_loop s) \<Longrightarrow>
    p \<in> set paths \<Longrightarrow> \<not> leaves_loop p"
  unfolding stays_def by blast

lemma stays_Ok: "(\<And>p. p \<in> set paths \<Longrightarrow> (\<And>s. s \<in> set states \<Longrightarrow> \<not> leaves_loop s) \<Longrightarrow> \<not> leaves_loop p) \<Longrightarrow>
    stays states (Ok (a, paths))"
  unfolding stays_def by blast

lemma stays_failure [simp]:
  "stays states (Err e)" "stays states (obligation_failure code message)"
  "stays states (unsupported_dynamic_identity dbg statement)"
  by (simp_all add: stays_def obligation_failure_def unsupported_dynamic_identity_def)

lemma stays_bind:
  assumes "stays states m" "\<And>a' states'. m = Ok (a', states') \<Longrightarrow> stays states' (f (a', states'))"
  shows "stays states (res_bind m f)"
  using assms unfolding stays_def by (cases m) fastforce+

lemma stays_collect:
  assumes "\<And>s a. s \<in> set states \<Longrightarrow> stays [s] (run s a)"
  shows "stays states (collect_paths run states a)"
  using assms
proof (induction states arbitrary: a)
  case Nil
  then show ?case by (simp add: stays_def)
next
  case (Cons s states)
  have first: "stays [s] (run s b)" for b using Cons.prems by simp
  have rest: "stays states (collect_paths run states b)" for b using Cons by simp
  show ?case using first rest unfolding stays_def by (fastforce split: prod.splits)
qed

lemma stays_any_start: "\<not> leaves_loop s' \<Longrightarrow> stays [s'] r \<Longrightarrow> stays states r"
  unfolding stays_def by auto

lemma not_leaving [simp]:
  "leaves_loop (set_flow f s) \<longleftrightarrow> f = Flow.Break \<or> f = Flow.Continue"
  by (simp add: leaves_loop_def)

lemma leaves_cong: "flow s = flow t \<Longrightarrow> leaves_loop s = leaves_loop t"
  by (simp add: leaves_loop_def)

lemma stays_same: "flow t = flow s \<Longrightarrow> stays [s] (Ok (b, [t]))"
  by (simp add: stays_def leaves_loop_def)

lemma stays_call:
  assumes "\<And>st'. m = Ok st' \<Longrightarrow> flow (snd st') = flow s" "\<And>a' s'. m = Ok (a', s') \<Longrightarrow> stays [s'] (f (a', s'))"
  shows "stays [s] (res_bind m f)"
proof (cases m)
  case (Inr st')
  obtain a' s' where st': "st' = (a', s')" by fastforce
  from assms(1) [OF Inr] have "leaves_loop s' = leaves_loop s" by (simp add: st' leaves_loop_def)
  with assms(2) [of a' s'] Inr show ?thesis by (simp add: st' stays_def)
qed simp

lemma stays_assign: "stays [s] (execute_assign dbg statement targets value offset owner s a)"
  unfolding execute_assign_def
proof (rule stays_call)
  fix st' assume "apply_optional_call (assigned_call value) owner offset (a, s) = Ok st'"
  then show "flow (snd st') = flow s" by (auto dest: apply_optional_call_flow)
next
  fix a' s'
  show "stays [s'] (case (a', s') of (analyzer, state) \<Rightarrow>
      let assigns_canonical_lock = constructs_lock value (lock_classes (bindings analyzer));
          state = foldl (assign_attribute assigns_canonical_lock) state targets
      in case targets of
           [Name target] \<Rightarrow> Ok (analyzer, [assign_name assigns_canonical_lock target value offset owner state])
         | _ \<Rightarrow> if \<not> list_all is_path_target targets then unsupported_dynamic_identity dbg statement
                else Ok (analyzer, [state]))"
    by (auto simp: Let_def stays_same split: list.split Expr.split)
qed

lemma stays_ann_assign: "stays [s] (execute_ann_assign target value offset owner s a)"
  unfolding execute_ann_assign_def
  by (auto simp: stays_same dest!: apply_optional_call_flow intro!: stays_call split: Expr.split option.split)

lemma stays_expression: "stays [s] (execute_expression statement value offset owner s a)"
  unfolding execute_expression_def
  by (auto simp: stays_same dest!: apply_call_flow intro!: stays_call stays_Ok split: Expr.split)

lemma stays_simple: "\<not> stray_statement statement \<Longrightarrow> stays [s] (execute_simple dbg statement owner s a)"
  unfolding execute_simple_def
  by (auto simp: stays_assign stays_ann_assign stays_expression stays_same split: Stmt.split intro!: stays_Ok)

lemma scan_levels_flow:
  "flow (scan_state (snd (foldl (scan_level offset owner summary) st specs))) = flow (scan_state (snd st))"
  by (induction specs arbitrary: st) (auto simp: scan_level_def split: option.splits prod.splits)

lemma scan_clauses_flow:
  "flow (scan_state (foldl (scan_clause offset progresses) scan clauses)) = flow (scan_state scan)"
  by (induction clauses arbitrary: scan)
    (auto simp: scan_clause_def scan_clause_identity_def Let_def split: option.splits)

lemma scan_invariant_flow:
  assumes "scan_invariant dbg executable excused owner summary invariant st = Ok st'"
  shows "flow (scan_state (snd st')) = flow (scan_state (snd st))"
proof (cases "invariant_argument invariant")
  case None
  with assms show ?thesis by (cases st) (simp add: scan_invariant_def)
next
  case (Some argument)
  obtain a scan where st: "st = (a, scan)" by fastforce
  from assms Some obtain level_specs where
    "collect_level_specs argument (sum_level_intrinsics summary) = Ok level_specs"
    by (auto simp: scan_invariant_def Let_def st)
  moreover obtain b scan1 where
    levels: "foldl (scan_level (statement_offset invariant) owner summary) (a, scan) level_specs = (b, scan1)" by fastforce
  ultimately have "flow (scan_state (snd st')) = flow (scan_state scan1)"
    using assms Some
    by (auto simp: scan_invariant_def Let_def scan_clauses_flow report_leak_def st split: if_splits)
  with scan_levels_flow [of "statement_offset invariant" owner summary "(a, scan)" level_specs] levels st
  show ?thesis by simp
qed

lemma scan_invariants_flow:
  "sticky_loop (scan_invariant dbg executable excused owner summary) invariants st = Ok st' \<Longrightarrow>
     flow (scan_state (snd st')) = flow (scan_state (snd st))"
proof (induction invariants arbitrary: st)
  case (Cons invariant invariants)
  then obtain t where "scan_invariant dbg executable excused owner summary invariant st = Ok t"
    "sticky_loop (scan_invariant dbg executable excused owner summary) invariants t = Ok st'" by auto
  with Cons.IH scan_invariant_flow show ?case by metis
qed simp

lemma enter_loop_flow:
  assumes "enter_loop dbg test body offset owner s a = Ok (a', scan)"
  shows "flow (scan_state scan) = flow s"
proof -
  have headed: "flow (scan_state (snd (report_loop_context offset owner t st))) = flow (scan_state (snd st))" for t st
    by (cases st) (auto simp: report_loop_context_def report_leak_def Let_def)
  let ?terminates = "has_termination_invariant body a"
  let ?excused = "?terminates \<or> loop_is_unreachable test \<or> recreates_obligation body owner a"
  let ?scan = "\<lparr> scan_state = s, conditional_exit_keys = [], release_invariants = [],
    level_invariants = [], has_conditional_obligation_invariant = False, has_any_obligation_invariant = False \<rparr>"
  from assms obtain st where
    scanned: "sticky_loop (scan_invariant dbg (loop_body body) ?excused owner (owner_summary owner a))
       (loop_invariants body) (a, ?scan) = Ok st" and
    "(a', scan) = report_loop_context offset owner ?terminates st"
    unfolding enter_loop_def Let_def by auto
  then have "flow (scan_state scan) = flow (scan_state (snd st))" using headed by (metis snd_conv)
  with scan_invariants_flow [OF scanned] show ?thesis by simp
qed

lemma loop_results_stay:
  assumes "p \<in> set (loop_results test scan paths)" "\<not> leaves_loop (scan_state scan)"
  shows "\<not> leaves_loop p"
proof -
  have "flow (foldl drop_exit_key s keys) = flow s" for s keys
    by (induction keys arbitrary: s) (auto simp: drop_exit_key_def)
  with assms show ?thesis
    unfolding loop_results_def Let_def set_append
    by (elim UnE) (fastforce simp: leaves_loop_def List.map_filter_def split: Flow.splits if_splits)+
qed

lemma stays_loop:
  "stays [s] (res_bind (enter_loop dbg test body offset owner s a) (\<lambda>(a', scan).
     res_bind (block scan a') (\<lambda>paths. Ok (leave_loop test body owner scan paths))))"
  unfolding stays_def
  by (auto simp: leave_loop_def leaves_cong [OF enter_loop_flow] dest!: loop_results_stay)

lemma stays_both:
  assumes m: "stays [s1] m" and n: "\<And>a' paths. m = Ok (a', paths) \<Longrightarrow> stays [s2] (n a')"
    and "\<not> leaves_loop s1" "\<not> leaves_loop s2"
  shows "stays [s] (res_bind m (\<lambda>(a', paths). res_bind (n a') (\<lambda>(a', others). Ok (a', paths @ others))))"
  using assms unfolding stays_def by (cases m) (fastforce split: prod.splits)+

lemma refine_not_leaving: "\<not> leaves_loop s \<Longrightarrow> \<not> leaves_loop (refine_identity_condition test truthy s)"
  using refine_identity_flow [of test truthy s] by (auto simp: leaves_loop_def)

lemma stays_map:
  assumes "stays states m" "\<And>p. \<not> leaves_loop p \<Longrightarrow> \<not> leaves_loop (g p)"
  shows "stays states (res_bind m (\<lambda>(a', paths). Ok (a', map g paths)))"
  using assms unfolding stays_def by (cases m) (auto split: prod.splits)

lemma stays_start: "\<not> leaves_loop s' \<Longrightarrow> stays [s'] r \<Longrightarrow> stays [s] r"
  by (simp add: stays_def)

lemma stays_case: "(\<not> leaves_loop s \<Longrightarrow> stays [s] r) \<Longrightarrow> stays [s] r"
  by (auto simp: stays_def)

lemma execute_stays:
  "\<not> stray_block statements \<Longrightarrow> stays states (execute_block dbg statements owner states a)"
  "\<not> stray_statement statement \<Longrightarrow> stays [s] (execute_statement dbg statement owner s a)"
proof (induction dbg statements owner states a and dbg statement owner s a
    rule: execute_block_execute_statement.induct)
  case (1 dbg owner states a)
  then show ?case by (simp add: stays_def)
next
  case (2 dbg statement rest owner states a)
  then show ?case
    unfolding execute_block.simps
    by (intro stays_bind [OF stays_collect]) (auto simp: stays_same intro: 2)
next
  case (3 dbg test body orelse owner s a)
  show ?case
  proof (rule stays_case)
    assume "\<not> leaves_loop s"
    note calm = refine_not_leaving [OF this, of test True] refine_not_leaving [OF this, of test False]
    from 3(5) have "\<not> stray_block body" "\<not> stray_block orelse" by simp_all
    note IH = 3(1) [OF _ this(1)] 3(2) [OF _ _ this(2)] 3(3) [OF _ _ this(1)] 3(4) [OF _ _ _ _ this(2)]
    show "stays [s] (execute_statement dbg (Stmt.If test body orelse) owner s a)"
      unfolding execute_statement.simps
      by (auto intro: IH stays_both [OF IH(3) IH(4) calm])
  qed
next
  case (6 dbg body handlers orelse finalbody owner s a)
  have raised: "stays [p] (execute_block dbg stmts owner [set_flow Flow.Normal p] b)"
    if "stays [set_flow Flow.Normal p] (execute_block dbg stmts owner [set_flow Flow.Normal p] b)" for b p stmts
    by (rule stays_start [OF _ that]) simp
  from 6(5) have calm: "\<not> stray_block body" "\<not> stray_block orelse" "\<not> stray_block finalbody"
    "\<And>h. h \<in> set handlers \<Longrightarrow> \<not> stray_block (handler_body h)"
    by (auto simp: stray_handlers_iff)
  show ?case
    unfolding execute_statement.simps
    apply (rule stays_bind, rule 6(1) [OF calm(1)])
    apply (simp only: prod.case)
    apply (rule stays_bind, rule stays_collect)
     apply (auto simp: stays_same find_Some_iff split: Flow.splits option.splits
        intro!: 6(2) 6(3) raised calm)[1]
    apply (cases "finalbody = []", simp add: stays_def, simp only: prod.case if_False)
    apply (rule stays_collect)
    apply (rule stays_case)
    apply (rule stays_map)
     apply (rule raised)
     apply (rule 6(4), auto simp: calm)[1]
    apply (auto simp: leaves_loop_def)
    done
qed (auto simp: stays_simple stays_loop simp del: stray_statement.simps)

text \<open>
  Property C27. In a block all of whose \<open>break\<close> and \<open>continue\<close> statements stand inside loops
  of the block, as Python requires of a function body, no path leaves with one of these flows
  pending, through branches, exception handlers and \<open>finally\<close> blocks alike. So the exits that are
  closed at the end of a function are returns, exceptions and normal ends.
\<close>

theorem break_and_continue_stay_inside:
  assumes "execute_block dbg statements owner states a = Ok (a', paths)" and "\<not> stray_block statements"
    and "\<forall>s \<in> set states. flow s = Flow.Normal" and "p \<in> set paths"
  shows "flow p \<in> {Flow.Normal, Flow.Return, Flow.Unreachable} \<or> (\<exists>raised. flow p = Flow.Raise raised)"
proof -
  have "\<not> leaves_loop p"
    using staysD [OF execute_stays(1) [OF assms(2)] assms(1)] assms(3,4) by (simp add: leaves_loop_def)
  then show ?thesis by (cases "flow p") (auto simp: leaves_loop_def)
qed

definition sample_debug :: AstDebug where
  "sample_debug = \<lparr> debug_expr = (\<lambda>_. ''expr''), debug_range = (\<lambda>_. ''range'') \<rparr>"

definition sample_state :: LedgerState where
  "sample_state =
     \<lparr> aliases = fmempty, pending = fmempty, bounded_identities = {}, lock_identities = {},
       flow = Flow.Normal, termination_required = False, boundary_leak_reported = False,
       levels = level_state_default \<rparr>"

definition sample_analyzer :: Analyzer where
  "sample_analyzer = \<lparr> summaries = fmempty, bindings = default_bindings, diagnostics = {} \<rparr>"

definition sample_loop :: "Stmt list" where
  "sample_loop = [While (Name ''more'') [Stmt.If (Name ''done'') [Stmt.Break] [Stmt.Raise None]] [] 0]"

theorem break_and_continue_stay_inside_witness:
  "\<exists>a' paths. execute_block sample_debug sample_loop ''f'' [sample_state] sample_analyzer = Ok (a', paths) \<and>
     length paths = 3 \<and>
     (\<forall>p \<in> set paths. flow p \<in> {Flow.Normal, Flow.Return, Flow.Unreachable} \<or> (\<exists>raised. flow p = Flow.Raise raised))"
proof -
  let ?raised = "set_flow (Flow.Raise ''BaseException'') sample_state"
  have run: "execute_block sample_debug sample_loop ''f'' [sample_state] sample_analyzer =
      Ok (sample_analyzer, [sample_state, sample_state, ?raised])"
    by (simp add: sample_loop_def sample_state_def sample_analyzer_def is_true_literal_def is_false_literal_def
        refine_identity_condition_def execute_simple_def enter_loop_def leave_loop_def loop_body_def
        loop_invariants_def invariant_argument_def contract_statement_def has_termination_invariant_def
        report_loop_context_def check_preservation_def loop_results_def set_flow_def map_filter_simps
        expression_is_statically_true_def Let_def)
  have "\<not> stray_block sample_loop" by (simp add: sample_loop_def)
  moreover have "\<forall>s \<in> set [sample_state]. flow s = Flow.Normal" by (simp add: sample_state_def)
  ultimately show ?thesis
    using break_and_continue_stay_inside [OF run] by (simp add: run)
qed

section \<open>Comparisons that refine identities\<close>

lemma unify_names_collision:
  assumes "fmlookup (aliases s) left = Some a" "fmlookup (aliases s) right = Some b" "a \<noteq> b"
    "fmlookup (pending s) (ObligationKey kind a) = Some m" "fmlookup (pending s) (ObligationKey kind b) = Some n"
  shows "flow (unify_names left right s) = Flow.Unreachable"
proof -
  let ?moved = "filter (\<lambda>(key, _). key_identity key = b) (sorted_list_of_fmap (pending s))"
  have "(ObligationKey kind b, n) \<in> set ?moved" using assms(5) by (simp add: set_sorted_list_of_fmap)
  moreover have "distinct (map fst ?moved)" by (rule distinct_map_fst_filter) simp
  moreover have "\<forall>(k, m) \<in> set ?moved. key_identity k = b" by auto
  moreover have "contains_key (pending s) (ObligationKey (key_kind (ObligationKey kind b)) a)"
    using assms(4) by simp
  ultimately have collision: "flow (move_pending a ?moved t) = Flow.Unreachable" if "pending t = pending s" for t
    unfolding that [symmetric] by (intro move_pending_collision [OF _ _ assms(3)])
  show ?thesis
    unfolding unify_names_def assms(1,2) Let_def option.case if_not_P [OF assms(3)]
    by (simp add: collision del: set_filter)
qed

definition two_owned_locks :: LedgerState where
  "two_owned_locks =
     \<lparr> aliases = fmupd ''a'' ''f::a'' (fmupd ''b'' ''f::b'' fmempty),
       pending = fmupd (ObligationKey Release ''f::a'') Unbounded
                   (fmupd (ObligationKey Release ''f::b'') Unbounded fmempty),
       bounded_identities = {}, lock_identities = {''f::a'', ''f::b''}, flow = Flow.Normal,
       termination_required = False, boundary_leak_reported = False, levels = level_state_default \<rparr>"

definition release_statement :: "string \<Rightarrow> Stmt" where
  "release_statement name = Stmt.Expr (Call (ExprCall (Attribute (Name name) ''release'') [] [] 0)) 0"

definition release_if :: "Expr \<Rightarrow> Stmt list" where
  "release_if test = [Stmt.If test [release_statement ''a'', release_statement ''b''] []]"

lemma execute_single:
  "flow s = Flow.Normal \<Longrightarrow> execute_block dbg [statement] owner [s] an = execute_statement dbg statement owner s an"
  by (cases "execute_statement dbg statement owner s an") auto

definition equality_test :: Expr where
  "equality_test = Compare (Name ''a'') [CmpOp.Eq] [Name ''b''] 0"

lemma equality_else_unreachable:
  "flow (refine_identity_condition equality_test False two_owned_locks) = Flow.Unreachable"
proof -
  have "refine_identity_condition equality_test False two_owned_locks = unify_names ''a'' ''b'' two_owned_locks"
    by (simp add: refine_identity_condition_def equality_test_def)
  moreover have "flow (unify_names ''a'' ''b'' two_owned_locks) = Flow.Unreachable"
    by (rule unify_names_collision [where kind = Release and a = "''f::a''" and b = "''f::b''"])
      (simp_all add: two_owned_locks_def)
  ultimately show ?thesis by simp
qed

lemma release_both:
  "\<exists>p. execute_block dbg [release_statement ''a'', release_statement ''b''] owner [two_owned_locks] an = Ok (an, [p]) \<and>
     pending p = fmempty"
  by (simp add: release_statement_def two_owned_locks_def execute_simple_def execute_expression_def
      is_contract_statement_def contract_statement_def direct_call_name_def is_direct_call_def apply_call_def
      release_lock_def consume_or_report_def Let_def decide_consume_def)
    (rule fmap_ext, simp)

text \<open>
  Property C29. Only \<open>is\<close> and \<open>is not\<close> say anything about identity, but every comparison other than
  \<open>is\<close> is read like \<open>is not\<close>: in the \<open>else\<close> branch of \<open>a == b\<close> the two names are unified, the two
  locks they own collide, and the branch counts as unreachable. The program that releases both
  locks only when they are equal leaks them otherwise; it is accepted without a diagnostic, though
  the same program under an opaque condition is left with both obligations on its second path.
\<close>

theorem equality_hides_a_leak:
  "(\<exists>p q. execute_block dbg (release_if equality_test) owner [two_owned_locks] an = Ok (an, [p, q]) \<and>
      pending p = fmempty \<and> flow q = Flow.Unreachable) \<and>
   (\<exists>p q. execute_block dbg (release_if (Name ''c'')) owner [two_owned_locks] an = Ok (an, [p, q]) \<and>
      pending p = fmempty \<and> flow q = Flow.Normal \<and>
      fset (fmdom (pending q)) = {ObligationKey Release ''f::a'', ObligationKey Release ''f::b''})"
proof -
  have branch: "refine_identity_condition equality_test True two_owned_locks = two_owned_locks"
    by (simp add: refine_identity_condition_def equality_test_def)
  have opaque: "refine_identity_condition (Name ''c'') truthy two_owned_locks = two_owned_locks" for truthy
    by (simp add: refine_identity_condition_def)
  have undecided: "\<not> is_true_literal equality_test" "\<not> is_false_literal equality_test"
    "\<not> is_true_literal (Name ''c'')" "\<not> is_false_literal (Name ''c'')"
    by (simp_all add: is_true_literal_def is_false_literal_def equality_test_def)
  have normal: "flow two_owned_locks = Flow.Normal" by (simp add: two_owned_locks_def)
  obtain p where p: "execute_block dbg [release_statement ''a'', release_statement ''b''] owner [two_owned_locks] an
      = Ok (an, [p])" "pending p = fmempty"
    using release_both by blast
  have owes: "fset (fmdom (pending two_owned_locks)) = {ObligationKey Release ''f::a'', ObligationKey Release ''f::b''}"
    by (simp add: two_owned_locks_def)
  have run: "execute_block dbg (release_if test) owner [two_owned_locks] an =
      Ok (an, [p, refine_identity_condition test False two_owned_locks])"
    if "\<not> is_true_literal test" "\<not> is_false_literal test"
      "refine_identity_condition test True two_owned_locks = two_owned_locks" for test
    unfolding release_if_def execute_single [OF normal] by (simp add: that p(1) del: execute_block.simps(2))
  show ?thesis
    using run [OF undecided(1,2) branch] run [OF undecided(3,4) opaque] p(2) equality_else_unreachable normal owes
    by (simp add: opaque)
qed

end
