(* ===== verification/Call_Binding.thy ===== *)
theory Call_Binding
  imports Prelude
begin

text \<open>
  The call-argument binder of \<^verbatim>\<open>src/src/call_binding.rs\<close>: it validates a signature, expands the
  evaluated actuals, validates the call and builds one binding cell per formal parameter. Types
  and values are the frontend's own, so every definition is polymorphic in them; the type
  compatibility relation and the allocator are arguments. An allocator is a function on its own
  state that grants or refuses a buffer; a granted buffer is the empty list. \<open>usize\<close> counters
  are naturals with checked addition.
\<close>

section \<open>Signatures and actuals\<close>

record ('ty, 'val) TypedValue =
  type_tag :: 'ty
  tv_value :: 'val

record ('ty, 'val) FormalParameter =
  formal_name :: string
  expected_type :: 'ty
  default_value :: "('ty, 'val) TypedValue option"

record ('ty, 'val) CallSignature =
  positional_only :: "('ty, 'val) FormalParameter list"
  positional :: "('ty, 'val) FormalParameter list"
  keyword_only :: "('ty, 'val) FormalParameter list"
  var_args :: "('ty, 'val) FormalParameter option"
  keyword_args :: "('ty, 'val) FormalParameter option"

datatype ('ty, 'val) ActualItem =
    Positional "('ty, 'val) TypedValue"
  | Named string "('ty, 'val) TypedValue"
  | FixedStar "('ty, 'val) TypedValue list"
  | DynamicStar
  | KeywordMapping

record ('ty, 'val) Receiver =
  receiver_value :: "('ty, 'val) TypedValue"

datatype PositionalOrigin = Explicit | FixedStar | Receiver

datatype EvaluationPosition =
    Receiver
  | Actual (position_item: nat) (position_expansion: nat)

datatype EvaluationEvent =
    Receiver
  | Positional nat
  | Named nat string
  | FixedStar nat nat

record ('ty, 'val) PositionalActual =
  pos_value :: "('ty, 'val) TypedValue"
  pos_origin :: PositionalOrigin
  pos_position :: EvaluationPosition

record ('ty, 'val) NamedActual =
  named_name :: string
  named_value :: "('ty, 'val) TypedValue"
  named_position :: EvaluationPosition

record ('ty, 'val) ExpandedCall =
  call_positional :: "('ty, 'val) PositionalActual list"
  call_named :: "('ty, 'val) NamedActual list"
  call_evaluation_order :: "EvaluationEvent list"

datatype ParameterKind = PositionalOnly | Positional | KeywordOnly | VarArgs | KeywordArgs

datatype ('ty, 'val) BoundArgument =
    SuppliedPositional "('ty, 'val) PositionalActual"
  | SuppliedNamed "('ty, 'val) NamedActual"
  | Defaulted "('ty, 'val) TypedValue"
  | ResidualPositionals "('ty, 'val) PositionalActual list"
  | ResidualKeywords "('ty, 'val) NamedActual list"

record ('ty, 'val) BindingCell =
  cell_parameter :: "('ty, 'val) FormalParameter"
  cell_kind :: ParameterKind
  cell_argument :: "('ty, 'val) BoundArgument"

record ('ty, 'val) BindingEnvironment =
  env_cells :: "('ty, 'val) BindingCell list"
  env_evaluation_order :: "EvaluationEvent list"

definition environment_get ::
  "('ty, 'val) BindingEnvironment \<Rightarrow> string \<Rightarrow> ('ty, 'val) BindingCell option" where
  "environment_get self name = List.find (\<lambda>cell. formal_name (cell_parameter cell) = name) (env_cells self)"

text \<open>The derived order on positions: the receiver first, then item and expansion index.\<close>

instantiation EvaluationPosition :: linorder
begin

definition less_eq_EvaluationPosition :: "EvaluationPosition \<Rightarrow> EvaluationPosition \<Rightarrow> bool" where
  "less_eq_EvaluationPosition a b \<longleftrightarrow>
     (case (a, b) of
        (EvaluationPosition.Receiver, _) \<Rightarrow> True
      | (Actual _ _, EvaluationPosition.Receiver) \<Rightarrow> False
      | (Actual i j, Actual k l) \<Rightarrow> i < k \<or> (i = k \<and> j \<le> l))"

definition less_EvaluationPosition :: "EvaluationPosition \<Rightarrow> EvaluationPosition \<Rightarrow> bool" where
  "less_EvaluationPosition a b \<longleftrightarrow>
     (case (a, b) of
        (_, EvaluationPosition.Receiver) \<Rightarrow> False
      | (EvaluationPosition.Receiver, Actual _ _) \<Rightarrow> True
      | (Actual i j, Actual k l) \<Rightarrow> i < k \<or> (i = k \<and> j < l))"

instance
proof
  fix x y z :: EvaluationPosition
  note defs = less_eq_EvaluationPosition_def less_EvaluationPosition_def
  show "(x < y) = (x \<le> y \<and> \<not> y \<le> x)" by (cases x; cases y) (auto simp: defs)
  show "x \<le> x" by (cases x) (auto simp: defs)
  show "x \<le> y \<Longrightarrow> y \<le> z \<Longrightarrow> x \<le> z" by (cases x; cases y; cases z) (auto simp: defs)
  show "x \<le> y \<Longrightarrow> y \<le> x \<Longrightarrow> x = y" by (cases x; cases y) (auto simp: defs)
  show "x \<le> y \<or> y \<le> x" by (cases x; cases y) (auto simp: defs)
qed

end

section \<open>Errors\<close>

datatype 'ty MalformedSignature =
    ParameterCountOverflow nat nat
  | EmptyParameterName
  | DuplicateParameter string
  | VariadicDefault string
  | DefaultTypeMismatch string 'ty 'ty

datatype AllocationSite =
    SignatureNames
  | ExpandedPositionals
  | ExpandedNamed
  | EvaluationOrder
  | BindingCells
  | ResidualPositionals
  | ResidualKeywords

datatype 'ty BindingError =
    MalformedSignature "'ty MalformedSignature"
  | DynamicStarUnsupported nat
  | KeywordMappingUnsupported nat
  | SourceExpressionCountOverflow nat nat
  | ExpandedArgumentCountOverflow nat nat nat
  | AllocationFailed AllocationSite nat
  | DuplicateNamedArgument string
  | DuplicateBinding string
  | TooManyPositionals nat nat
  | UnexpectedKeyword string
  | MissingRequiredArgument string
  | TypeMismatch string 'ty 'ty "EvaluationPosition option"

section \<open>Allocation\<close>

text \<open>
  \<open>Ok(Vec::new())\<close> is \<open>True\<close>. A computation over an allocator threads the allocator's state,
  which survives an error.
\<close>

type_synonym 's allocator = "AllocationSite \<Rightarrow> nat \<Rightarrow> 's \<Rightarrow> bool \<times> 's"
type_synonym ('s, 'e, 'a) allocating = "'s \<Rightarrow> ('e, 'a) result \<times> 's"

definition alloc_return :: "('e, 'a) result \<Rightarrow> ('s, 'e, 'a) allocating" where
  "alloc_return r = (\<lambda>s. (r, s))"

definition alloc_bind ::
  "('s, 'e, 'a) allocating \<Rightarrow> ('a \<Rightarrow> ('s, 'e, 'b) allocating) \<Rightarrow> ('s, 'e, 'b) allocating" where
  "alloc_bind m f = (\<lambda>s. case m s of (Inl e, s') \<Rightarrow> (Inl e, s') | (Inr x, s') \<Rightarrow> f x s')"

definition allocate_buffer ::
  "'s allocator \<Rightarrow> AllocationSite \<Rightarrow> nat \<Rightarrow> ('s, 'ty BindingError, 'a list) allocating" where
  "allocate_buffer allocate site requested = (\<lambda>s.
     (case allocate site requested s of
        (True, s') \<Rightarrow> (Ok [], s')
      | (False, s') \<Rightarrow> (Err (AllocationFailed site requested), s')))"

text \<open>
  The system allocator asks the host for exactly the requested capacity; whether the host grants
  it (\<open>Vec::try_reserve_exact\<close>) depends on the element type, fixed by the site, and the host.
\<close>

datatype BufferElement = NameElement | PositionalElement | NamedElement | EventElement | CellElement

fun buffer_element :: "AllocationSite \<Rightarrow> BufferElement" where
  "buffer_element SignatureNames = NameElement"
| "buffer_element ExpandedPositionals = PositionalElement"
| "buffer_element ExpandedNamed = NamedElement"
| "buffer_element EvaluationOrder = EventElement"
| "buffer_element BindingCells = CellElement"
| "buffer_element ResidualPositionals = PositionalElement"
| "buffer_element ResidualKeywords = NamedElement"

type_synonym 's host = "BufferElement \<Rightarrow> nat \<Rightarrow> 's \<Rightarrow> bool \<times> 's"

definition system_allocator :: "'s host \<Rightarrow> 's allocator" where
  "system_allocator try_reserve_exact site requested = try_reserve_exact (buffer_element site) requested"

section \<open>Type compatibility\<close>

type_synonym 'ty compatibility = "'ty \<Rightarrow> 'ty \<Rightarrow> bool"

definition exact_compatibility :: "'ty compatibility" where
  "exact_compatibility expected actual \<longleftrightarrow> expected = actual"

definition compatibility_mismatch :: "'ty compatibility \<Rightarrow> 'ty \<Rightarrow> 'ty \<Rightarrow> bool" where
  "compatibility_mismatch accepts expected actual = (if accepts expected actual then False else True)"

section \<open>Expansion of the actuals\<close>

fun preflight_item ::
  "nat \<times> ('ty, 'val) ActualItem \<Rightarrow> nat \<Rightarrow> ('ty BindingError, nat) result" where
  "preflight_item (item_index, item) expanded_count =
     res_bind
       (case item of
          ActualItem.Positional _ \<Rightarrow> Ok 1
        | ActualItem.Named _ _ \<Rightarrow> Ok 1
        | ActualItem.FixedStar values \<Rightarrow> Ok (length values)
        | ActualItem.DynamicStar \<Rightarrow> Err (DynamicStarUnsupported item_index)
        | ActualItem.KeywordMapping \<Rightarrow> Err (KeywordMappingUnsupported item_index))
       (\<lambda>contribution.
          case checked_add_usize expanded_count contribution of
            Some count \<Rightarrow> Ok count
          | None \<Rightarrow> Err (ExpandedArgumentCountOverflow item_index expanded_count contribution))"

definition preflight_actual_items ::
  "('ty, 'val) ActualItem list \<Rightarrow> bool \<Rightarrow> ('ty BindingError, nat \<times> nat) result" where
  "preflight_actual_items items has_receiver =
     (let receiver_count = (if has_receiver then 1 else 0)
      in case checked_add_usize (length items) receiver_count of
        None \<Rightarrow> Err (SourceExpressionCountOverflow (length items) receiver_count)
      | Some source_count \<Rightarrow>
          res_bind (sticky_loop preflight_item (enumerate 0 items) receiver_count)
            (\<lambda>expanded_count. Ok (source_count, expanded_count)))"

fun expand_item ::
  "nat \<times> ('ty, 'val) ActualItem \<Rightarrow> ('ty, 'val) ExpandedCall \<Rightarrow>
     ('ty BindingError, ('ty, 'val) ExpandedCall) result" where
  "expand_item (item_index, item) call =
     (case item of
        ActualItem.Positional v \<Rightarrow>
          Ok (call
            \<lparr> call_evaluation_order := call_evaluation_order call @ [EvaluationEvent.Positional item_index],
              call_positional := call_positional call @
                [\<lparr> pos_value = v, pos_origin = PositionalOrigin.Explicit, pos_position = Actual item_index 0 \<rparr>] \<rparr>)
      | ActualItem.Named name v \<Rightarrow>
          Ok (call
            \<lparr> call_evaluation_order := call_evaluation_order call @ [EvaluationEvent.Named item_index name],
              call_named := call_named call @
                [\<lparr> named_name = name, named_value = v, named_position = Actual item_index 0 \<rparr>] \<rparr>)
      | ActualItem.FixedStar values \<Rightarrow>
          Ok (call
            \<lparr> call_evaluation_order := call_evaluation_order call @ [EvaluationEvent.FixedStar item_index (length values)],
              call_positional := call_positional call @
                map (\<lambda>(expansion_index, v).
                  \<lparr> pos_value = v, pos_origin = PositionalOrigin.FixedStar,
                    pos_position = Actual item_index expansion_index \<rparr>) (enumerate 0 values) \<rparr>)
      | ActualItem.DynamicStar \<Rightarrow> Err (DynamicStarUnsupported item_index)
      | ActualItem.KeywordMapping \<Rightarrow> Err (KeywordMappingUnsupported item_index))"

definition push_receiver ::
  "('ty, 'val) Receiver option \<Rightarrow> ('ty, 'val) ExpandedCall \<Rightarrow> ('ty, 'val) ExpandedCall" where
  "push_receiver receiver call =
     (case receiver of
        None \<Rightarrow> call
      | Some receiver \<Rightarrow>
          call \<lparr> call_evaluation_order := call_evaluation_order call @ [EvaluationEvent.Receiver],
                 call_positional := call_positional call @
                   [\<lparr> pos_value = receiver_value receiver, pos_origin = PositionalOrigin.Receiver,
                      pos_position = EvaluationPosition.Receiver \<rparr>] \<rparr>)"

definition expand_actual_items_with_allocator ::
  "('ty, 'val) ActualItem list \<Rightarrow> ('ty, 'val) Receiver option \<Rightarrow> 's allocator \<Rightarrow>
     ('s, 'ty BindingError, ('ty, 'val) ExpandedCall) allocating" where
  "expand_actual_items_with_allocator items receiver allocate =
     alloc_bind (alloc_return (preflight_actual_items items (receiver \<noteq> None)))
       (\<lambda>(source_count, expanded_count).
     alloc_bind (allocate_buffer allocate ExpandedPositionals expanded_count) (\<lambda>positional.
     alloc_bind (allocate_buffer allocate ExpandedNamed source_count) (\<lambda>named.
     alloc_bind (allocate_buffer allocate EvaluationOrder source_count) (\<lambda>evaluation_order.
       alloc_return
         (sticky_loop expand_item (enumerate 0 items)
           (push_receiver receiver
             \<lparr> call_positional = positional, call_named = named,
               call_evaluation_order = evaluation_order \<rparr>))))))"

definition expand_actual_items ::
  "'s host \<Rightarrow> ('ty, 'val) ActualItem list \<Rightarrow> ('ty, 'val) Receiver option \<Rightarrow>
     ('s, 'ty BindingError, ('ty, 'val) ExpandedCall) allocating" where
  "expand_actual_items host items receiver =
     expand_actual_items_with_allocator items receiver (system_allocator host)"

section \<open>Signature counts\<close>

record SignatureCounts =
  parameter_count :: nat
  positional_count :: nat

definition add_parameter_count :: "nat \<Rightarrow> nat \<Rightarrow> ('ty BindingError, nat) result" where
  "add_parameter_count accumulated contribution =
     (case checked_add_usize accumulated contribution of
        Some new_count \<Rightarrow> Ok new_count
      | None \<Rightarrow> Err (BindingError.MalformedSignature (ParameterCountOverflow accumulated contribution)))"

definition signature_counts :: "('ty, 'val) CallSignature \<Rightarrow> ('ty BindingError, SignatureCounts) result" where
  "signature_counts signature =
     res_bind (add_parameter_count (length (positional_only signature)) (length (positional signature)))
       (\<lambda>positional_total.
     res_bind (add_parameter_count positional_total (length (keyword_only signature))) (\<lambda>all_count.
     res_bind (add_parameter_count all_count (if var_args signature \<noteq> None then 1 else 0)) (\<lambda>all_count.
     res_bind (add_parameter_count all_count (if keyword_args signature \<noteq> None then 1 else 0)) (\<lambda>all_count.
       Ok \<lparr> parameter_count = all_count, positional_count = positional_total \<rparr>))))"

section \<open>Searches over the expanded call\<close>

definition named_actual_index :: "('ty, 'val) NamedActual list \<Rightarrow> string \<Rightarrow> nat" where
  "named_actual_index actuals name =
     (let actual_count = length actuals;
          (index, found) = scan_from (\<lambda>index. named_name (actuals ! index) = name) actual_count 0 False
      in if found then index - 1 else actual_count)"

definition find_named_actual ::
  "('ty, 'val) NamedActual list \<Rightarrow> string \<Rightarrow> ('ty, 'val) NamedActual option" where
  "find_named_actual actuals name =
     (let index = named_actual_index actuals name
      in if index < length actuals then Some (actuals ! index) else None)"

text \<open>The outer loop stops at the first index whose name occurs before it.\<close>

definition first_duplicate_named_actual :: "('ty, 'val) NamedActual list \<Rightarrow> string option" where
  "first_duplicate_named_actual actuals =
     (let seen = (\<lambda>outer_index. snd (scan_from
            (\<lambda>inner_index. named_name (actuals ! inner_index) = named_name (actuals ! outer_index))
            outer_index 0 False));
          (outer_index, duplicate) = scan_from seen (length actuals) 0 False
      in if duplicate then Some (named_name (actuals ! (outer_index - 1))) else None)"

definition first_duplicate_binding ::
  "('ty, 'val) CallSignature \<Rightarrow> ('ty, 'val) ExpandedCall \<Rightarrow> 'ty BindingError option" where
  "first_duplicate_binding signature call =
     (let (parameter_index, duplicate) = scan_from
            (\<lambda>parameter_index.
               length (positional_only signature) + parameter_index < length (call_positional call) \<and>
               named_actual_index (call_named call) (formal_name (positional signature ! parameter_index))
                 < length (call_named call))
            (length (positional signature)) 0 False
      in if duplicate
         then Some (DuplicateBinding (formal_name (positional signature ! (parameter_index - 1))))
         else None)"

definition first_missing_positional_only ::
  "('ty, 'val) CallSignature \<Rightarrow> ('ty, 'val) ExpandedCall \<Rightarrow> 'ty BindingError option" where
  "first_missing_positional_only signature call =
     (let (index, is_missing) = scan_from
            (\<lambda>index. index \<ge> length (call_positional call) \<and>
               default_value (positional_only signature ! index) = None)
            (length (positional_only signature)) 0 False
      in if is_missing
         then Some (MissingRequiredArgument (formal_name (positional_only signature ! (index - 1))))
         else None)"

definition first_missing_ordinary ::
  "('ty, 'val) CallSignature \<Rightarrow> ('ty, 'val) ExpandedCall \<Rightarrow> 'ty BindingError option" where
  "first_missing_ordinary signature call =
     (let positional_offset = length (positional_only signature);
          (parameter_index, is_missing) = scan_from
            (\<lambda>parameter_index.
               (let index = positional_offset + parameter_index;
                    parameter_name = formal_name (positional signature ! parameter_index);
                    has_default = (default_value (positional signature ! parameter_index) \<noteq> None);
                    named_index = named_actual_index (call_named call) parameter_name
                in index \<ge> length (call_positional call) \<and> named_index = length (call_named call) \<and>
                   \<not> has_default))
            (length (positional signature)) 0 False
      in if is_missing
         then Some (MissingRequiredArgument (formal_name (positional signature ! (parameter_index - 1))))
         else None)"

definition first_missing_keyword_only ::
  "('ty, 'val) CallSignature \<Rightarrow> ('ty, 'val) ExpandedCall \<Rightarrow> 'ty BindingError option" where
  "first_missing_keyword_only signature call =
     (let (keyword_index, is_missing) = scan_from
            (\<lambda>keyword_index.
               (let parameter_name = formal_name (keyword_only signature ! keyword_index);
                    has_default = (default_value (keyword_only signature ! keyword_index) \<noteq> None);
                    named_index = named_actual_index (call_named call) parameter_name
                in named_index = length (call_named call) \<and> \<not> has_default))
            (length (keyword_only signature)) 0 False
      in if is_missing
         then Some (MissingRequiredArgument (formal_name (keyword_only signature ! (keyword_index - 1))))
         else None)"

definition first_missing_required_argument ::
  "('ty, 'val) CallSignature \<Rightarrow> ('ty, 'val) ExpandedCall \<Rightarrow> 'ty BindingError option" where
  "first_missing_required_argument signature call =
     (let error = first_missing_positional_only signature call;
          error = (if error = None then first_missing_ordinary signature call else error);
          error = (if error = None then first_missing_keyword_only signature call else error)
      in error)"

section \<open>Type mismatches\<close>

definition positional_mismatch ::
  "('ty, 'val) FormalParameter \<Rightarrow> ('ty, 'val) PositionalActual \<Rightarrow> 'ty BindingError" where
  "positional_mismatch parameter actual =
     TypeMismatch (formal_name parameter) (expected_type parameter) (type_tag (pos_value actual))
       (Some (pos_position actual))"

definition named_mismatch ::
  "('ty, 'val) FormalParameter \<Rightarrow> ('ty, 'val) NamedActual \<Rightarrow> 'ty BindingError" where
  "named_mismatch parameter actual =
     TypeMismatch (formal_name parameter) (expected_type parameter) (type_tag (named_value actual))
       (Some (named_position actual))"

definition first_positional_only_type_mismatch ::
  "('ty, 'val) CallSignature \<Rightarrow> ('ty, 'val) ExpandedCall \<Rightarrow> 'ty compatibility \<Rightarrow> 'ty BindingError option" where
  "first_positional_only_type_mismatch signature call accepts =
     (let comparable_count = min (length (positional_only signature)) (length (call_positional call));
          (index, mismatch) = scan_from
            (\<lambda>index. compatibility_mismatch accepts (expected_type (positional_only signature ! index))
               (type_tag (pos_value (call_positional call ! index))))
            comparable_count 0 False
      in if mismatch
         then Some (positional_mismatch (positional_only signature ! (index - 1)) (call_positional call ! (index - 1)))
         else None)"

definition ordinary_actual_mismatch ::
  "('ty, 'val) FormalParameter \<Rightarrow> ('ty, 'val) ExpandedCall \<Rightarrow> nat \<Rightarrow> 'ty compatibility \<Rightarrow>
     bool \<times> nat \<times> bool" where
  "ordinary_actual_mismatch parameter call positional_index accepts =
     (let named_index = named_actual_index (call_named call) (formal_name parameter)
      in if positional_index < length (call_positional call)
         then (compatibility_mismatch accepts (expected_type parameter)
                 (type_tag (pos_value (call_positional call ! positional_index))), positional_index, False)
         else if named_index < length (call_named call)
         then (compatibility_mismatch accepts (expected_type parameter)
                 (type_tag (named_value (call_named call ! named_index))), named_index, True)
         else (False, 0, False))"

text \<open>
  The index and the source of the mismatching actual are those of the last iteration, which is
  the one that stopped the loop.
\<close>

definition first_ordinary_type_mismatch ::
  "('ty, 'val) CallSignature \<Rightarrow> ('ty, 'val) ExpandedCall \<Rightarrow> 'ty compatibility \<Rightarrow> 'ty BindingError option" where
  "first_ordinary_type_mismatch signature call accepts =
     (let positional_offset = length (positional_only signature);
          outcome = (\<lambda>parameter_index. ordinary_actual_mismatch (positional signature ! parameter_index) call
             (positional_offset + parameter_index) accepts);
          (parameter_index, mismatch) =
            scan_from (\<lambda>parameter_index. fst (outcome parameter_index)) (length (positional signature)) 0 False
      in if mismatch
         then (let parameter = positional signature ! (parameter_index - 1);
                   (_, actual_index, supplied_by_name) = outcome (parameter_index - 1)
               in if supplied_by_name then Some (named_mismatch parameter (call_named call ! actual_index))
                  else Some (positional_mismatch parameter (call_positional call ! actual_index)))
         else None)"

definition first_keyword_only_type_mismatch ::
  "('ty, 'val) CallSignature \<Rightarrow> ('ty, 'val) ExpandedCall \<Rightarrow> 'ty compatibility \<Rightarrow> 'ty BindingError option" where
  "first_keyword_only_type_mismatch signature call accepts =
     (let candidate_index = (\<lambda>keyword_index.
            named_actual_index (call_named call) (formal_name (keyword_only signature ! keyword_index)));
          (keyword_index, mismatch) = scan_from
            (\<lambda>keyword_index.
               candidate_index keyword_index < length (call_named call) \<and>
               compatibility_mismatch accepts (expected_type (keyword_only signature ! keyword_index))
                 (type_tag (named_value (call_named call ! candidate_index keyword_index))))
            (length (keyword_only signature)) 0 False
      in if mismatch
         then Some (named_mismatch (keyword_only signature ! (keyword_index - 1))
                (call_named call ! candidate_index (keyword_index - 1)))
         else None)"

definition ordinary_parameter_name :: "('ty, 'val) CallSignature \<Rightarrow> string \<Rightarrow> bool" where
  "ordinary_parameter_name signature candidate =
     (let (_, found) = scan_from (\<lambda>index. formal_name (positional signature ! index) = candidate)
            (length (positional signature)) 0 False;
          (_, found) = scan_from (\<lambda>index. formal_name (keyword_only signature ! index) = candidate)
            (length (keyword_only signature)) 0 found
      in found)"

definition first_extra_positional_type_mismatch ::
  "('ty, 'val) FormalParameter \<Rightarrow> ('ty, 'val) ExpandedCall \<Rightarrow> nat \<Rightarrow> 'ty compatibility \<Rightarrow>
     'ty BindingError option" where
  "first_extra_positional_type_mismatch parameter call positional_total accepts =
     (let (index, mismatch) = scan_from
            (\<lambda>index. compatibility_mismatch accepts (expected_type parameter)
               (type_tag (pos_value (call_positional call ! index))))
            (length (call_positional call)) positional_total False
      in if mismatch then Some (positional_mismatch parameter (call_positional call ! (index - 1))) else None)"

definition first_extra_named_type_mismatch ::
  "('ty, 'val) FormalParameter \<Rightarrow> ('ty, 'val) CallSignature \<Rightarrow> ('ty, 'val) ExpandedCall \<Rightarrow>
     'ty compatibility \<Rightarrow> 'ty BindingError option" where
  "first_extra_named_type_mismatch parameter signature call accepts =
     (let (index, mismatch) = scan_from
            (\<lambda>index. \<not> ordinary_parameter_name signature (named_name (call_named call ! index)) \<and>
               compatibility_mismatch accepts (expected_type parameter)
                 (type_tag (named_value (call_named call ! index))))
            (length (call_named call)) 0 False
      in if mismatch then Some (named_mismatch parameter (call_named call ! (index - 1))) else None)"

definition first_variadic_type_mismatch ::
  "('ty, 'val) CallSignature \<Rightarrow> ('ty, 'val) ExpandedCall \<Rightarrow> nat \<Rightarrow> 'ty compatibility \<Rightarrow>
     'ty BindingError option" where
  "first_variadic_type_mismatch signature call positional_total accepts =
     (let error = (case var_args signature of
            None \<Rightarrow> None
          | Some parameter \<Rightarrow> first_extra_positional_type_mismatch parameter call positional_total accepts)
      in if error = None
         then (case keyword_args signature of
                 None \<Rightarrow> error
               | Some parameter \<Rightarrow> first_extra_named_type_mismatch parameter signature call accepts)
         else error)"

definition first_unexpected_keyword ::
  "('ty, 'val) NamedActual list \<Rightarrow> ('ty, 'val) CallSignature \<Rightarrow> nat" where
  "first_unexpected_keyword actuals signature =
     (let actual_count = length actuals;
          (index, found) = scan_from
            (\<lambda>index. \<not> ordinary_parameter_name signature (named_name (actuals ! index))) actual_count 0 False
      in if found then index - 1 else actual_count)"

section \<open>Validation of the signature\<close>

definition string_list_contains :: "string list \<Rightarrow> string \<Rightarrow> bool" where
  "string_list_contains names candidate =
     snd (scan_from (\<lambda>index. names ! index = candidate) (length names) 0 False)"

definition validate_formal_parameter ::
  "bool \<Rightarrow> 'ty compatibility \<Rightarrow> ('ty, 'val) FormalParameter \<Rightarrow> string list \<Rightarrow>
     ('ty BindingError, string list) result" where
  "validate_formal_parameter variadic accepts parameter names =
     (if formal_name parameter = [] then Err (BindingError.MalformedSignature EmptyParameterName)
      else if string_list_contains names (formal_name parameter)
      then Err (BindingError.MalformedSignature (DuplicateParameter (formal_name parameter)))
      else
        (let names = names @ [formal_name parameter]
         in if variadic \<and> default_value parameter \<noteq> None
            then Err (BindingError.MalformedSignature (VariadicDefault (formal_name parameter)))
            else case default_value parameter of
              None \<Rightarrow> Ok names
            | Some default_given \<Rightarrow>
                if \<not> accepts (expected_type parameter) (type_tag default_given)
                then Err (BindingError.MalformedSignature
                       (DefaultTypeMismatch (formal_name parameter) (expected_type parameter) (type_tag default_given)))
                else Ok names))"

definition validate_variadic ::
  "'ty compatibility \<Rightarrow> ('ty, 'val) FormalParameter option \<Rightarrow> string list \<Rightarrow>
     ('ty BindingError, string list) result" where
  "validate_variadic accepts parameter names =
     (case parameter of
        None \<Rightarrow> Ok names
      | Some parameter \<Rightarrow> validate_formal_parameter True accepts parameter names)"

definition validate_signature ::
  "('ty, 'val) CallSignature \<Rightarrow> 'ty compatibility \<Rightarrow> 's allocator \<Rightarrow>
     ('s, 'ty BindingError, SignatureCounts) allocating" where
  "validate_signature signature accepts allocate =
     alloc_bind (alloc_return (signature_counts signature)) (\<lambda>counts.
     alloc_bind (allocate_buffer allocate SignatureNames (parameter_count counts)) (\<lambda>names.
       alloc_return
         (res_bind (sticky_loop (validate_formal_parameter False accepts) (positional_only signature) names) (\<lambda>names.
          res_bind (sticky_loop (validate_formal_parameter False accepts) (positional signature) names) (\<lambda>names.
          res_bind (sticky_loop (validate_formal_parameter False accepts) (keyword_only signature) names) (\<lambda>names.
          res_bind (validate_variadic accepts (var_args signature) names) (\<lambda>names.
          res_bind (validate_variadic accepts (keyword_args signature) names) (\<lambda>names.
            Ok counts))))))))"

section \<open>Validation of the call\<close>

definition fail_with :: "'e option \<Rightarrow> ('e, unit) result" where
  "fail_with error = (case error of Some e \<Rightarrow> Err e | None \<Rightarrow> Ok ())"

definition validate_call ::
  "('ty, 'val) CallSignature \<Rightarrow> ('ty, 'val) ExpandedCall \<Rightarrow> nat \<Rightarrow> 'ty compatibility \<Rightarrow>
     ('ty BindingError, unit) result" where
  "validate_call signature call positional_total accepts =
     res_bind (fail_with (map_option DuplicateNamedArgument (first_duplicate_named_actual (call_named call)))) (\<lambda>_.
     res_bind (fail_with (first_duplicate_binding signature call)) (\<lambda>_.
     if length (call_positional call) > positional_total \<and> var_args signature = None
     then Err (TooManyPositionals positional_total (length (call_positional call)))
     else
       (let unexpected_keyword = first_unexpected_keyword (call_named call) signature
        in if keyword_args signature = None \<and> unexpected_keyword < length (call_named call)
           then Err (UnexpectedKeyword (named_name (call_named call ! unexpected_keyword)))
           else
             res_bind (fail_with (first_missing_required_argument signature call)) (\<lambda>_.
             res_bind (fail_with (first_positional_only_type_mismatch signature call accepts)) (\<lambda>_.
             res_bind (fail_with (first_ordinary_type_mismatch signature call accepts)) (\<lambda>_.
             res_bind (fail_with (first_keyword_only_type_mismatch signature call accepts)) (\<lambda>_.
               fail_with (first_variadic_type_mismatch signature call positional_total accepts))))))))"

section \<open>The canonical environment\<close>

definition get_positional :: "('ty, 'val) ExpandedCall \<Rightarrow> nat \<Rightarrow> ('ty, 'val) PositionalActual option" where
  "get_positional call index =
     (if index < length (call_positional call) then Some (call_positional call ! index) else None)"

definition push_cell ::
  "ParameterKind \<Rightarrow> ('ty, 'val) FormalParameter \<Rightarrow> ('ty, 'val) BoundArgument option \<Rightarrow>
     ('ty, 'val) BindingCell list \<Rightarrow> ('ty BindingError, ('ty, 'val) BindingCell list) result" where
  "push_cell kind parameter argument cells =
     (case argument of
        Some argument \<Rightarrow>
          Ok (cells @ [\<lparr> cell_parameter = parameter, cell_kind = kind, cell_argument = argument \<rparr>])
      | None \<Rightarrow> Err (MissingRequiredArgument (formal_name parameter)))"

definition positional_only_argument ::
  "('ty, 'val) ExpandedCall \<Rightarrow> nat \<Rightarrow> ('ty, 'val) FormalParameter \<Rightarrow> ('ty, 'val) BoundArgument option" where
  "positional_only_argument call index parameter =
     (case get_positional call index of
        Some actual \<Rightarrow> Some (SuppliedPositional actual)
      | None \<Rightarrow> map_option Defaulted (default_value parameter))"

definition ordinary_argument ::
  "('ty, 'val) ExpandedCall \<Rightarrow> nat \<Rightarrow> ('ty, 'val) FormalParameter \<Rightarrow> ('ty, 'val) BoundArgument option" where
  "ordinary_argument call index parameter =
     (case get_positional call index of
        Some actual \<Rightarrow> Some (SuppliedPositional actual)
      | None \<Rightarrow>
          (case find_named_actual (call_named call) (formal_name parameter) of
             Some actual \<Rightarrow> Some (SuppliedNamed actual)
           | None \<Rightarrow> map_option Defaulted (default_value parameter)))"

definition keyword_only_argument ::
  "('ty, 'val) ExpandedCall \<Rightarrow> ('ty, 'val) FormalParameter \<Rightarrow> ('ty, 'val) BoundArgument option" where
  "keyword_only_argument call parameter =
     (case find_named_actual (call_named call) (formal_name parameter) of
        Some actual \<Rightarrow> Some (SuppliedNamed actual)
      | None \<Rightarrow> map_option Defaulted (default_value parameter))"

definition bind_var_args ::
  "('ty, 'val) CallSignature \<Rightarrow> ('ty, 'val) ExpandedCall \<Rightarrow> SignatureCounts \<Rightarrow> 's allocator \<Rightarrow>
     ('ty, 'val) BindingCell list \<Rightarrow> ('s, 'ty BindingError, ('ty, 'val) BindingCell list) allocating" where
  "bind_var_args signature call counts allocate cells =
     (case var_args signature of
        None \<Rightarrow> alloc_return (Ok cells)
      | Some parameter \<Rightarrow>
          (let residual_start = positional_count counts;
               residual_count =
                 (if length (call_positional call) > residual_start
                  then length (call_positional call) - residual_start else 0)
           in alloc_bind (allocate_buffer allocate AllocationSite.ResidualPositionals residual_count) (\<lambda>residuals.
                alloc_return
                  (let residuals = residuals @ map (\<lambda>index. call_positional call ! index)
                         [residual_start ..< length (call_positional call)]
                   in Ok (cells @ [\<lparr> cell_parameter = parameter, cell_kind = VarArgs,
                        cell_argument = BoundArgument.ResidualPositionals residuals \<rparr>])))))"

definition bind_keyword_args ::
  "('ty, 'val) CallSignature \<Rightarrow> ('ty, 'val) ExpandedCall \<Rightarrow> 's allocator \<Rightarrow>
     ('ty, 'val) BindingCell list \<Rightarrow> ('s, 'ty BindingError, ('ty, 'val) BindingCell list) allocating" where
  "bind_keyword_args signature call allocate cells =
     (case keyword_args signature of
        None \<Rightarrow> alloc_return (Ok cells)
      | Some parameter \<Rightarrow>
          alloc_bind (allocate_buffer allocate AllocationSite.ResidualKeywords (length (call_named call))) (\<lambda>residuals.
            alloc_return
              (let residuals = foldl (\<lambda>residuals actual.
                     if \<not> ordinary_parameter_name signature (named_name actual)
                     then residuals @ [actual] else residuals) residuals (call_named call)
               in Ok (cells @ [\<lparr> cell_parameter = parameter, cell_kind = KeywordArgs,
                    cell_argument = BoundArgument.ResidualKeywords residuals \<rparr>]))))"

definition canonical_environment ::
  "('ty, 'val) CallSignature \<Rightarrow> ('ty, 'val) ExpandedCall \<Rightarrow> SignatureCounts \<Rightarrow> 's allocator \<Rightarrow>
     ('s, 'ty BindingError, ('ty, 'val) BindingEnvironment) allocating" where
  "canonical_environment signature call counts allocate =
     alloc_bind (allocate_buffer allocate BindingCells (parameter_count counts)) (\<lambda>cells.
     alloc_bind (alloc_return
       (sticky_loop (\<lambda>(index, parameter).
            push_cell PositionalOnly parameter (positional_only_argument call index parameter))
          (enumerate 0 (positional_only signature)) cells)) (\<lambda>cells.
     alloc_bind (alloc_return
       (sticky_loop (\<lambda>(parameter_index, parameter).
            push_cell ParameterKind.Positional parameter
              (ordinary_argument call (length (positional_only signature) + parameter_index) parameter))
          (enumerate 0 (positional signature)) cells)) (\<lambda>cells.
     alloc_bind (alloc_return
       (sticky_loop (\<lambda>parameter.
            push_cell KeywordOnly parameter (keyword_only_argument call parameter))
          (keyword_only signature) cells)) (\<lambda>cells.
     alloc_bind (bind_var_args signature call counts allocate cells) (\<lambda>cells.
     alloc_bind (bind_keyword_args signature call allocate cells) (\<lambda>cells.
       alloc_return (Ok \<lparr> env_cells = cells, env_evaluation_order = call_evaluation_order call \<rparr>)))))))"

section \<open>Binding a call\<close>

definition bind_expanded_call_with ::
  "('ty, 'val) CallSignature \<Rightarrow> ('ty, 'val) ExpandedCall \<Rightarrow> SignatureCounts \<Rightarrow> 'ty compatibility \<Rightarrow>
     's allocator \<Rightarrow> ('s, 'ty BindingError, ('ty, 'val) BindingEnvironment) allocating" where
  "bind_expanded_call_with signature expanded counts accepts allocate =
     alloc_bind (alloc_return (validate_call signature expanded (positional_count counts) accepts)) (\<lambda>_.
       canonical_environment signature expanded counts allocate)"

definition bind_call_with_relation ::
  "('ty, 'val) CallSignature \<Rightarrow> ('ty, 'val) ActualItem list \<Rightarrow> ('ty, 'val) Receiver option \<Rightarrow>
     'ty compatibility \<Rightarrow> 's allocator \<Rightarrow> ('s, 'ty BindingError, ('ty, 'val) BindingEnvironment) allocating" where
  "bind_call_with_relation signature items receiver accepts allocate =
     alloc_bind (validate_signature signature accepts allocate) (\<lambda>counts.
     alloc_bind (expand_actual_items_with_allocator items receiver allocate) (\<lambda>expanded.
       bind_expanded_call_with signature expanded counts accepts allocate))"

definition bind_call_with_allocator ::
  "('ty, 'val) CallSignature \<Rightarrow> ('ty, 'val) ActualItem list \<Rightarrow> ('ty, 'val) Receiver option \<Rightarrow>
     's allocator \<Rightarrow> ('s, 'ty BindingError, ('ty, 'val) BindingEnvironment) allocating" where
  "bind_call_with_allocator signature items receiver allocate =
     bind_call_with_relation signature items receiver exact_compatibility allocate"

definition bind_call ::
  "'s host \<Rightarrow> ('ty, 'val) CallSignature \<Rightarrow> ('ty, 'val) ActualItem list \<Rightarrow> ('ty, 'val) Receiver option \<Rightarrow>
     ('s, 'ty BindingError, ('ty, 'val) BindingEnvironment) allocating" where
  "bind_call host signature items receiver =
     bind_call_with_allocator signature items receiver (system_allocator host)"

definition bind_call_with ::
  "'s host \<Rightarrow> ('ty, 'val) CallSignature \<Rightarrow> ('ty, 'val) ActualItem list \<Rightarrow> ('ty, 'val) Receiver option \<Rightarrow>
     'ty compatibility \<Rightarrow> ('s, 'ty BindingError, ('ty, 'val) BindingEnvironment) allocating" where
  "bind_call_with host signature items receiver compatible =
     bind_call_with_relation signature items receiver compatible (system_allocator host)"

end
