(* ===== verification/Call_Binding_Spec.thy ===== *)
theory Call_Binding_Spec
  imports Call_Binding "HOL-Library.Multiset"
begin

text \<open>
  What binding a call means, and that the binder does it: a declarative account of well-formed
  signatures, of the expansion of the actuals and of the environments that bind a call, and the
  theorems that the binder's result is the one environment this account allows. Allocation is
  factored out first: every allocator either yields the result of the allocator that grants every
  request, or reports its own failure.
\<close>

section \<open>Allocators\<close>

definition grant_all :: "unit allocator" where
  "grant_all site requested s = (True, s)"

lemma allocate_grant_all [simp]: "allocate_buffer grant_all site requested s = (Inr [], s)"
  by (simp add: allocate_buffer_def grant_all_def)

lemma alloc_return_apply [simp]: "alloc_return r s = (r, s)"
  by (simp add: alloc_return_def)

lemma fst_alloc_bind_unit [simp]:
  "fst (alloc_bind m f ()) = res_bind (fst (m ())) (\<lambda>x. fst (f x ()))"
  by (cases "m ()") (auto simp: alloc_bind_def split: sum.splits)

text \<open>The outcome of a computation, up to a refused buffer.\<close>

definition same_or_refused ::
  "('s, 'ty BindingError, 'a) allocating \<Rightarrow> (unit, 'ty BindingError, 'a) allocating \<Rightarrow> bool" where
  "same_or_refused m m' \<longleftrightarrow>
     (\<forall>s. fst (m s) = fst (m' ()) \<or> (\<exists>site requested. fst (m s) = Inl (AllocationFailed site requested)))"

lemma same_or_refused_return: "same_or_refused (alloc_return r) (alloc_return r)"
  by (simp add: same_or_refused_def)

lemma same_or_refused_allocate:
  "same_or_refused (allocate_buffer allocate site requested) (allocate_buffer grant_all site requested)"
  by (auto simp: same_or_refused_def allocate_buffer_def grant_all_def split: prod.splits bool.splits)

lemma same_or_refused_bind:
  assumes "same_or_refused m m'" and "\<And>x. same_or_refused (f x) (f' x)"
  shows "same_or_refused (alloc_bind m f) (alloc_bind m' f')"
  unfolding same_or_refused_def
proof
  fix s
  obtain r s' where m: "m s = (r, s')" by fastforce
  from assms(1) m have "r = fst (m' ()) \<or> (\<exists>site requested. r = Inl (AllocationFailed site requested))"
    unfolding same_or_refused_def by (metis fst_conv)
  then show "fst (alloc_bind m f s) = fst (alloc_bind m' f' ()) \<or>
      (\<exists>site requested. fst (alloc_bind m f s) = Inl (AllocationFailed site requested))"
  proof
    assume "r = fst (m' ())"
    then have "m' () = (r, ())" by (simp add: prod_eq_iff)
    then show ?thesis
      using m assms(2) by (cases r) (auto simp: alloc_bind_def same_or_refused_def)
  next
    assume "\<exists>site requested. r = Inl (AllocationFailed site requested)"
    then show ?thesis using m by (auto simp: alloc_bind_def)
  qed
qed

lemmas same_or_refused_intros =
  same_or_refused_bind same_or_refused_return same_or_refused_allocate

lemma same_or_refused_validate:
  "same_or_refused (validate_signature sig acc allocate) (validate_signature sig acc grant_all)"
  unfolding validate_signature_def by (intro same_or_refused_intros)

lemma same_or_refused_expand:
  "same_or_refused (expand_actual_items_with_allocator items receiver allocate)
     (expand_actual_items_with_allocator items receiver grant_all)"
  unfolding expand_actual_items_with_allocator_def
  by (intro same_or_refused_intros; simp split: prod.splits; intro allI impI same_or_refused_intros)

lemma same_or_refused_var_args:
  "same_or_refused (bind_var_args sig call counts allocate cells) (bind_var_args sig call counts grant_all cells)"
  unfolding bind_var_args_def Let_def
  by (cases "var_args sig") (simp_all add: same_or_refused_intros)

lemma same_or_refused_keyword_args:
  "same_or_refused (bind_keyword_args sig call allocate cells) (bind_keyword_args sig call grant_all cells)"
  unfolding bind_keyword_args_def Let_def
  by (cases "keyword_args sig") (simp_all add: same_or_refused_intros)

lemma same_or_refused_environment:
  "same_or_refused (canonical_environment sig call counts allocate) (canonical_environment sig call counts grant_all)"
  unfolding canonical_environment_def
  by (intro same_or_refused_intros same_or_refused_var_args same_or_refused_keyword_args)

lemma same_or_refused_relation:
  "same_or_refused (bind_call_with_relation sig items receiver acc allocate)
     (bind_call_with_relation sig items receiver acc grant_all)"
  unfolding bind_call_with_relation_def bind_expanded_call_with_def
  by (intro same_or_refused_intros same_or_refused_validate same_or_refused_expand same_or_refused_environment)

section \<open>Expansion\<close>

text \<open>What each source item contributes.\<close>

fun item_positionals :: "nat \<times> ('ty, 'val) ActualItem \<Rightarrow> ('ty, 'val) PositionalActual list" where
  "item_positionals (i, ActualItem.Positional v) =
     [\<lparr> pos_value = v, pos_origin = PositionalOrigin.Explicit, pos_position = Actual i 0 \<rparr>]"
| "item_positionals (i, ActualItem.FixedStar vs) =
     map (\<lambda>(j, v). \<lparr> pos_value = v, pos_origin = PositionalOrigin.FixedStar, pos_position = Actual i j \<rparr>)
       (enumerate 0 vs)"
| "item_positionals (i, _) = []"

fun item_named :: "nat \<times> ('ty, 'val) ActualItem \<Rightarrow> ('ty, 'val) NamedActual list" where
  "item_named (i, ActualItem.Named name v) =
     [\<lparr> named_name = name, named_value = v, named_position = Actual i 0 \<rparr>]"
| "item_named (i, _) = []"

fun item_events :: "nat \<times> ('ty, 'val) ActualItem \<Rightarrow> EvaluationEvent list" where
  "item_events (i, ActualItem.Positional v) = [EvaluationEvent.Positional i]"
| "item_events (i, ActualItem.Named name v) = [EvaluationEvent.Named i name]"
| "item_events (i, ActualItem.FixedStar vs) = [EvaluationEvent.FixedStar i (length vs)]"
| "item_events (i, _) = []"

fun static_item :: "('ty, 'val) ActualItem \<Rightarrow> bool" where
  "static_item DynamicStar = False"
| "static_item KeywordMapping = False"
| "static_item _ = True"

definition empty_call :: "('ty, 'val) ExpandedCall" where
  "empty_call = \<lparr> call_positional = [], call_named = [], call_evaluation_order = [] \<rparr>"

definition append_items ::
  "(nat \<times> ('ty, 'val) ActualItem) list \<Rightarrow> ('ty, 'val) ExpandedCall \<Rightarrow> ('ty, 'val) ExpandedCall" where
  "append_items xs call =
     \<lparr> call_positional = call_positional call @ concat (map item_positionals xs),
       call_named = call_named call @ concat (map item_named xs),
       call_evaluation_order = call_evaluation_order call @ concat (map item_events xs) \<rparr>"

definition expansion ::
  "('ty, 'val) ActualItem list \<Rightarrow> ('ty, 'val) Receiver option \<Rightarrow> ('ty, 'val) ExpandedCall" where
  "expansion items receiver = append_items (enumerate 0 items) (push_receiver receiver empty_call)"

lemma expand_loop:
  "sticky_loop expand_item xs call = Inr call' \<longleftrightarrow>
     (\<forall>(i, item) \<in> set xs. static_item item) \<and> call' = append_items xs call"
proof (induction xs arbitrary: call)
  case Nil
  then show ?case by (auto simp: append_items_def)
next
  case (Cons x xs)
  obtain i item where x: "x = (i, item)" by fastforce
  from Cons show ?case
    by (cases item) (auto simp: x append_items_def)
qed

definition item_contribution :: "nat \<times> ('ty, 'val) ActualItem \<Rightarrow> nat" where
  "item_contribution x = length (item_positionals x) + length (item_named x)"

lemma preflight_item_Ok:
  "preflight_item x acc = Inr acc' \<longleftrightarrow>
     static_item (snd x) \<and> acc + item_contribution x \<le> usize_max \<and> acc' = acc + item_contribution x"
  by (cases x; cases "snd x") (auto simp: item_contribution_def split: option.splits)

lemma preflight_loop:
  "acc \<le> usize_max \<Longrightarrow>
   sticky_loop preflight_item xs acc = Inr acc' \<longleftrightarrow>
     (\<forall>x \<in> set xs. static_item (snd x)) \<and>
     acc + sum_list (map item_contribution xs) \<le> usize_max \<and> acc' = acc + sum_list (map item_contribution xs)"
  by (induction xs arbitrary: acc) (auto simp: preflight_item_Ok)

lemma contributions_length:
  "sum_list (map item_contribution xs) =
     length (concat (map item_positionals xs)) + length (concat (map item_named xs))"
  by (induction xs) (auto simp: item_contribution_def)

definition receiver_count :: "('ty, 'val) Receiver option \<Rightarrow> nat" where
  "receiver_count receiver = (if receiver \<noteq> None then 1 else 0)"

lemma push_receiver_lengths [simp]:
  "length (call_positional (push_receiver r empty_call)) = receiver_count r"
  "call_named (push_receiver r empty_call) = []"
  "length (call_evaluation_order (push_receiver r empty_call)) = receiver_count r"
  by (auto simp: push_receiver_def empty_call_def receiver_count_def split: option.splits)

definition expandable :: "('ty, 'val) ActualItem list \<Rightarrow> ('ty, 'val) Receiver option \<Rightarrow> bool" where
  "expandable items receiver \<longleftrightarrow>
     (\<forall>item \<in> set items. static_item item) \<and>
     length items + receiver_count receiver \<le> usize_max \<and>
     length (call_positional (expansion items receiver)) + length (call_named (expansion items receiver)) \<le> usize_max"

lemma set_enumerate_snd: "(\<forall>x \<in> set (enumerate n xs). P (snd x)) \<longleftrightarrow> (\<forall>x \<in> set xs. P x)"
  by (metis map_snd_enumerate in_set_conv_nth length_map nth_map set_map imageE imageI)

lemma usize_max_pos: "Suc 0 \<le> usize_max"
  by (simp add: usize_max_def)

lemma preflight_Ok:
  "preflight_actual_items items (receiver \<noteq> None) = Inr (n, m) \<longleftrightarrow>
     expandable items receiver \<and> n = length items + receiver_count receiver \<and>
     m = length (call_positional (expansion items receiver)) + length (call_named (expansion items receiver))"
proof -
  have loop: "sticky_loop preflight_item (enumerate 0 items) (receiver_count receiver) = Inr m \<longleftrightarrow>
      (\<forall>item \<in> set items. static_item item) \<and>
      receiver_count receiver + sum_list (map item_contribution (enumerate 0 items)) \<le> usize_max \<and>
      m = receiver_count receiver + sum_list (map item_contribution (enumerate 0 items))"
    using preflight_loop [of "receiver_count receiver" "enumerate 0 items" m]
      set_enumerate_snd [of 0 items static_item] usize_max_pos
    by (auto simp: receiver_count_def)
  have "receiver_count receiver + sum_list (map item_contribution (enumerate 0 items)) =
      length (call_positional (expansion items receiver)) + length (call_named (expansion items receiver))"
    by (simp add: contributions_length expansion_def append_items_def)
  with loop show ?thesis
    unfolding preflight_actual_items_def expandable_def Let_def receiver_count_def [symmetric]
    by (auto split: option.splits)
qed

lemma expand_pure:
  "fst (expand_actual_items_with_allocator items receiver grant_all ()) = Inr call \<longleftrightarrow>
     expandable items receiver \<and> call = expansion items receiver"
proof (cases "preflight_actual_items items (receiver \<noteq> None)")
  case (Inl e)
  then have "\<not> expandable items receiver"
    using preflight_Ok [of items receiver] by (metis Inl_Inr_False)
  with Inl show ?thesis by (simp add: expand_actual_items_with_allocator_def)
next
  case (Inr nm)
  then have ok: "expandable items receiver" using preflight_Ok [of items receiver] by (cases nm) auto
  then have "\<forall>x \<in> set (enumerate 0 items). static_item (snd x)"
    unfolding set_enumerate_snd by (simp add: expandable_def)
  then have "sticky_loop expand_item (enumerate 0 items) (push_receiver receiver empty_call) = Inr call \<longleftrightarrow>
      call = expansion items receiver"
    unfolding expand_loop expansion_def by auto
  with Inr ok show ?thesis
    by (cases nm) (simp add: expand_actual_items_with_allocator_def empty_call_def)
qed

section \<open>Well-formed signatures\<close>

definition ordinary_formals :: "('ty, 'val) CallSignature \<Rightarrow> ('ty, 'val) FormalParameter list" where
  "ordinary_formals sig = positional_only sig @ positional sig @ keyword_only sig"

definition variadic_formals :: "('ty, 'val) CallSignature \<Rightarrow> ('ty, 'val) FormalParameter list" where
  "variadic_formals sig =
     (case var_args sig of None \<Rightarrow> [] | Some p \<Rightarrow> [p]) @ (case keyword_args sig of None \<Rightarrow> [] | Some p \<Rightarrow> [p])"

definition formals :: "('ty, 'val) CallSignature \<Rightarrow> ('ty, 'val) FormalParameter list" where
  "formals sig = ordinary_formals sig @ variadic_formals sig"

definition default_ok :: "'ty compatibility \<Rightarrow> ('ty, 'val) FormalParameter \<Rightarrow> bool" where
  "default_ok accepts p \<longleftrightarrow>
     (case default_value p of None \<Rightarrow> True | Some d \<Rightarrow> accepts (expected_type p) (type_tag d))"

definition signature_ok :: "'ty compatibility \<Rightarrow> ('ty, 'val) CallSignature \<Rightarrow> bool" where
  "signature_ok accepts sig \<longleftrightarrow>
     length (formals sig) \<le> usize_max \<and>
     distinct (map formal_name (formals sig)) \<and>
     [] \<notin> formal_name ` set (formals sig) \<and>
     (\<forall>p \<in> set (ordinary_formals sig). default_ok accepts p) \<and>
     (\<forall>p \<in> set (variadic_formals sig). default_value p = None)"

definition counts_of :: "('ty, 'val) CallSignature \<Rightarrow> SignatureCounts" where
  "counts_of sig =
     \<lparr> parameter_count = length (formals sig),
       positional_count = length (positional_only sig) + length (positional sig) \<rparr>"

lemma variadic_length:
  "length (variadic_formals sig) =
     (if var_args sig \<noteq> None then 1 else 0) + (if keyword_args sig \<noteq> None then 1 else 0)"
  by (auto simp: variadic_formals_def split: option.splits)

lemma signature_counts_Ok:
  "signature_counts sig = Inr counts \<longleftrightarrow> length (formals sig) \<le> usize_max \<and> counts = counts_of sig"
proof -
  have "length (formals sig) = length (positional_only sig) + length (positional sig) + length (keyword_only sig) +
      (if var_args sig \<noteq> None then 1 else 0) + (if keyword_args sig \<noteq> None then 1 else 0)"
    by (simp add: formals_def ordinary_formals_def variadic_length)
  then show ?thesis
    by (auto simp: signature_counts_def add_parameter_count_def counts_of_def split: option.splits)
qed

lemma string_list_contains_iff [simp]: "string_list_contains names x \<longleftrightarrow> x \<in> set names"
  by (auto simp: string_list_contains_def scan_from_found_iff in_set_conv_nth)

lemma validate_formal_Ok:
  "validate_formal_parameter variadic accepts p names = Inr names' \<longleftrightarrow>
     formal_name p \<noteq> [] \<and> formal_name p \<notin> set names \<and>
     (variadic \<longrightarrow> default_value p = None) \<and> default_ok accepts p \<and>
     names' = names @ [formal_name p]"
  by (auto simp: validate_formal_parameter_def default_ok_def Let_def split: option.splits)

lemma validate_formals_Ok:
  "sticky_loop (validate_formal_parameter variadic accepts) ps names = Inr names' \<longleftrightarrow>
     names' = names @ map formal_name ps \<and>
     [] \<notin> formal_name ` set ps \<and> distinct (map formal_name ps) \<and>
     formal_name ` set ps \<inter> set names = {} \<and>
     (\<forall>p \<in> set ps. (variadic \<longrightarrow> default_value p = None) \<and> default_ok accepts p)"
  by (induction ps arbitrary: names) (auto simp: validate_formal_Ok)

lemma validate_variadic_loop:
  "validate_variadic accepts p names =
     sticky_loop (validate_formal_parameter True accepts) (case p of None \<Rightarrow> [] | Some p \<Rightarrow> [p]) names"
  by (cases p; cases "validate_formal_parameter True accepts (the p) names") (auto simp: validate_variadic_def)

lemma default_ok_None: "default_value p = None \<Longrightarrow> default_ok accepts p"
  by (simp add: default_ok_def)

lemma validate_pure:
  "fst (validate_signature sig accepts grant_all ()) = Inr counts \<longleftrightarrow>
     signature_ok accepts sig \<and> counts = counts_of sig"
proof -
  let ?loop = "\<lambda>v. sticky_loop (validate_formal_parameter v accepts)"
  have "fst (validate_signature sig accepts grant_all ()) =
      res_bind (signature_counts sig) (\<lambda>counts.
        res_bind (?loop False (ordinary_formals sig) []) (\<lambda>names.
        res_bind (?loop True (variadic_formals sig) names) (\<lambda>_. Inr counts)))"
    unfolding validate_signature_def ordinary_formals_def variadic_formals_def
    by (simp add: sticky_loop_append validate_variadic_loop res_bind_assoc)
  then show ?thesis
    by (auto simp: signature_counts_Ok validate_formals_Ok signature_ok_def formals_def default_ok_None)
qed

section \<open>Accepted calls\<close>

lemma find_nth:
  "List.find p xs = (case List.find (\<lambda>i. p (xs ! i)) [0..<length xs] of None \<Rightarrow> None | Some i \<Rightarrow> Some (xs ! i))"
proof (cases "List.find (\<lambda>i. p (xs ! i)) [0..<length xs]")
  case None
  then have "\<forall>i < length xs. \<not> p (xs ! i)" by (simp add: find_upt_None)
  then have "List.find p xs = None" by (auto simp: find_None_iff in_set_conv_nth)
  with None show ?thesis by simp
next
  case (Some i)
  then have "i < length xs" "p (xs ! i)" "\<forall>j < i. \<not> p (xs ! j)" by (auto simp: find_upt_Some)
  then have "List.find p xs = Some (xs ! i)" by (auto simp: find_Some_iff)
  with Some show ?thesis by simp
qed

lemma named_actual_index_find:
  "named_actual_index N name =
     (case List.find (\<lambda>i. named_name (N ! i) = name) [0..<length N] of Some i \<Rightarrow> i | None \<Rightarrow> length N)"
  unfolding named_actual_index_def Let_def
  using scan_from_result [of 0 "length N" "\<lambda>i. named_name (N ! i) = name" "\<lambda>i. i" "length N"]
  by (simp add: Let_def)

lemma find_named_actual_find: "find_named_actual N name = List.find (\<lambda>a. named_name a = name) N"
proof (cases "List.find (\<lambda>i. named_name (N ! i) = name) [0..<length N]")
  case None
  then show ?thesis
    using find_nth [of "\<lambda>a. named_name a = name" N]
    by (simp add: find_named_actual_def named_actual_index_find)
next
  case (Some i)
  then have "i < length N" by (simp add: find_upt_Some)
  with Some show ?thesis
    using find_nth [of "\<lambda>a. named_name a = name" N]
    by (simp add: find_named_actual_def named_actual_index_find)
qed

lemma find_named_actual_None: "find_named_actual N name = None \<longleftrightarrow> name \<notin> named_name ` set N"
  by (auto simp: find_named_actual_find find_None_iff)

lemma find_named_actual_Some:
  "find_named_actual N name = Some a \<Longrightarrow> a \<in> set N \<and> named_name a = name"
  by (auto simp: find_named_actual_find find_Some_iff)

lemma find_named_actual_distinct:
  assumes "distinct (map named_name N)" and "a \<in> set N"
  shows "find_named_actual N (named_name a) = Some a"
proof -
  from assms(2) have "find_named_actual N (named_name a) \<noteq> None" by (simp add: find_named_actual_None)
  then obtain b where b: "find_named_actual N (named_name a) = Some b" by blast
  from find_named_actual_Some [OF b] assms have "b = a"
    by (auto simp: distinct_map dest: inj_onD)
  with b show ?thesis by simp
qed

lemma named_actual_index_bounds:
  "named_actual_index N name < length N \<longleftrightarrow> name \<in> named_name ` set N"
  "named_actual_index N name = length N \<longleftrightarrow> name \<notin> named_name ` set N"
  "name \<in> named_name ` set N \<Longrightarrow> find_named_actual N name = Some (N ! named_actual_index N name)"
proof -
  show lt: "named_actual_index N name < length N \<longleftrightarrow> name \<in> named_name ` set N"
    using find_named_actual_None [of N name]
    by (auto simp: find_named_actual_def Let_def split: if_splits)
  show "named_actual_index N name = length N \<longleftrightarrow> name \<notin> named_name ` set N"
    using lt by (auto simp: named_actual_index_find find_upt_Some split: option.splits)
  show "name \<in> named_name ` set N \<Longrightarrow> find_named_actual N name = Some (N ! named_actual_index N name)"
    using lt by (simp add: find_named_actual_def Let_def)
qed

lemma ordinary_parameter_name_iff:
  "ordinary_parameter_name sig name \<longleftrightarrow> name \<in> formal_name ` set (positional sig @ keyword_only sig)"
proof -
  have scan: "snd (scan_from (\<lambda>i. formal_name (ps ! i) = name) (length ps) 0 found) \<longleftrightarrow>
      found \<or> name \<in> formal_name ` set ps" for ps :: "('ty, 'val) FormalParameter list" and found
    by (cases found) (auto simp: scan_from_found_iff set_conv_nth)
  have "ordinary_parameter_name sig name \<longleftrightarrow>
      snd (scan_from (\<lambda>i. formal_name (keyword_only sig ! i) = name) (length (keyword_only sig)) 0
        (snd (scan_from (\<lambda>i. formal_name (positional sig ! i) = name) (length (positional sig)) 0 False)))"
    by (simp add: ordinary_parameter_name_def Let_def case_prod_beta)
  then show ?thesis by (simp add: scan image_Un)
qed

lemma first_duplicate_named_None:
  "first_duplicate_named_actual N = None \<longleftrightarrow> distinct (map named_name N)"
proof -
  have "first_duplicate_named_actual N = None \<longleftrightarrow>
      (\<forall>j < length N. \<not> (\<exists>i < j. named_name (N ! i) = named_name (N ! j)))"
    by (simp add: first_duplicate_named_actual_def Let_def scan_from_option_None scan_from_found_iff)
  also have "\<dots> \<longleftrightarrow> distinct (map named_name N)"
    by (auto simp: distinct_conv_nth) (metis linorder_neqE_nat)
  finally show ?thesis .
qed

lemmas first_errors_None =
  first_duplicate_binding_def first_missing_positional_only_def first_missing_ordinary_def
  first_missing_keyword_only_def first_positional_only_type_mismatch_def
  first_extra_positional_type_mismatch_def first_extra_named_type_mismatch_def

lemma first_duplicate_binding_None:
  "first_duplicate_binding sig call = None \<longleftrightarrow>
     (\<forall>i < length (positional sig). length (positional_only sig) + i < length (call_positional call) \<longrightarrow>
        formal_name (positional sig ! i) \<notin> named_name ` set (call_named call))"
  by (auto simp: first_errors_None scan_from_option_None named_actual_index_bounds)

lemma all_set_nth: "(\<forall>x \<in> set xs. P x) \<longleftrightarrow> (\<forall>i < length xs. P (xs ! i))"
  by (metis in_set_conv_nth)

text \<open>The argument each ordinary parameter takes; \<open>None\<close> when it is missing.\<close>

lemma positional_only_argument_None:
  "positional_only_argument call i p = None \<longleftrightarrow> length (call_positional call) \<le> i \<and> default_value p = None"
  by (auto simp: positional_only_argument_def get_positional_def split: option.splits)

lemma ordinary_argument_None:
  "ordinary_argument call i p = None \<longleftrightarrow>
     length (call_positional call) \<le> i \<and> formal_name p \<notin> named_name ` set (call_named call) \<and> default_value p = None"
  by (auto simp: ordinary_argument_def get_positional_def find_named_actual_None [symmetric] split: option.splits)

lemma keyword_only_argument_None:
  "keyword_only_argument call p = None \<longleftrightarrow>
     formal_name p \<notin> named_name ` set (call_named call) \<and> default_value p = None"
  by (auto simp: keyword_only_argument_def find_named_actual_None [symmetric] split: option.splits)

lemma first_missing_None:
  "first_missing_required_argument sig call = None \<longleftrightarrow>
     (\<forall>i < length (positional_only sig). positional_only_argument call i (positional_only sig ! i) \<noteq> None) \<and>
     (\<forall>i < length (positional sig).
        ordinary_argument call (length (positional_only sig) + i) (positional sig ! i) \<noteq> None) \<and>
     (\<forall>i < length (keyword_only sig). keyword_only_argument call (keyword_only sig ! i) \<noteq> None)"
proof -
  have "first_missing_positional_only sig call = None \<longleftrightarrow>
      (\<forall>i < length (positional_only sig). positional_only_argument call i (positional_only sig ! i) \<noteq> None)"
    by (auto simp: first_errors_None scan_from_option_None positional_only_argument_None)
  moreover have "first_missing_ordinary sig call = None \<longleftrightarrow>
      (\<forall>i < length (positional sig).
        ordinary_argument call (length (positional_only sig) + i) (positional sig ! i) \<noteq> None)"
    by (auto simp: first_errors_None Let_def scan_from_option_None ordinary_argument_None
        named_actual_index_bounds)
  moreover have "first_missing_keyword_only sig call = None \<longleftrightarrow>
      (\<forall>i < length (keyword_only sig). keyword_only_argument call (keyword_only sig ! i) \<noteq> None)"
    by (auto simp: first_errors_None Let_def scan_from_option_None keyword_only_argument_None
        named_actual_index_bounds)
  moreover have required: "first_missing_required_argument sig call = None \<longleftrightarrow>
      first_missing_positional_only sig call = None \<and> first_missing_ordinary sig call = None \<and>
      first_missing_keyword_only sig call = None"
    by (auto simp: first_missing_required_argument_def Let_def)
  ultimately show ?thesis
    unfolding required by (simp only:)
qed

text \<open>Supplied arguments have the parameter's type; defaults are checked with the signature.\<close>

fun supplied_typed :: "'ty compatibility \<Rightarrow> ('ty, 'val) FormalParameter \<Rightarrow> ('ty, 'val) BoundArgument \<Rightarrow> bool" where
  "supplied_typed accepts p (SuppliedPositional a) = accepts (expected_type p) (type_tag (pos_value a))"
| "supplied_typed accepts p (SuppliedNamed a) = accepts (expected_type p) (type_tag (named_value a))"
| "supplied_typed accepts p (Defaulted d) = True"
| "supplied_typed accepts p (BoundArgument.ResidualPositionals as) =
     (\<forall>a \<in> set as. accepts (expected_type p) (type_tag (pos_value a)))"
| "supplied_typed accepts p (BoundArgument.ResidualKeywords as) =
     (\<forall>a \<in> set as. accepts (expected_type p) (type_tag (named_value a)))"

lemma mismatch_iff [simp]: "compatibility_mismatch accepts e a \<longleftrightarrow> \<not> accepts e a"
  by (simp add: compatibility_mismatch_def)

lemma defaulted_typed [simp]: "pred_option (supplied_typed accepts p) (map_option Defaulted d)"
  by (cases d) simp_all

lemma positional_only_typed_None:
  "first_positional_only_type_mismatch sig call accepts = None \<longleftrightarrow>
     (\<forall>i < length (positional_only sig).
        pred_option (supplied_typed accepts (positional_only sig ! i))
          (positional_only_argument call i (positional_only sig ! i)))"
  by (auto simp: first_errors_None Let_def scan_from_option_None positional_only_argument_def
      get_positional_def pred_option_def)

lemma ordinary_outcome:
  "fst (ordinary_actual_mismatch p call i accepts) \<longleftrightarrow>
     \<not> pred_option (supplied_typed accepts p) (ordinary_argument call i p)"
  using named_actual_index_bounds(1,3) [where N = "call_named call" and name = "formal_name p"]
    find_named_actual_None [of "call_named call" "formal_name p"]
  by (auto simp: ordinary_actual_mismatch_def ordinary_argument_def get_positional_def Let_def
      split: option.splits)

lemma ordinary_typed_None:
  "first_ordinary_type_mismatch sig call accepts = None \<longleftrightarrow>
     (\<forall>i < length (positional sig).
        pred_option (supplied_typed accepts (positional sig ! i))
          (ordinary_argument call (length (positional_only sig) + i) (positional sig ! i)))"
proof -
  let ?p = "\<lambda>i. fst (ordinary_actual_mismatch (positional sig ! i) call (length (positional_only sig) + i) accepts)"
  have "first_ordinary_type_mismatch sig call accepts = None \<longleftrightarrow>
      \<not> snd (scan_from ?p (length (positional sig)) 0 False)"
    by (auto simp: first_ordinary_type_mismatch_def Let_def split: prod.splits)
  then show ?thesis by (auto simp: scan_from_found_iff ordinary_outcome)
qed

lemma keyword_only_typed_None:
  "first_keyword_only_type_mismatch sig call accepts = None \<longleftrightarrow>
     (\<forall>i < length (keyword_only sig).
        pred_option (supplied_typed accepts (keyword_only sig ! i))
          (keyword_only_argument call (keyword_only sig ! i)))"
proof -
  have outcome: "(named_actual_index (call_named call) (formal_name p) < length (call_named call) \<and>
      compatibility_mismatch accepts (expected_type p)
        (type_tag (named_value (call_named call ! named_actual_index (call_named call) (formal_name p))))) \<longleftrightarrow>
      \<not> pred_option (supplied_typed accepts p) (keyword_only_argument call p)" for p :: "('a, 'b) FormalParameter"
    using named_actual_index_bounds(1,3) [where N = "call_named call" and name = "formal_name p"]
      find_named_actual_None [of "call_named call" "formal_name p"]
    by (auto simp: keyword_only_argument_def split: option.splits)
  show ?thesis
    unfolding first_keyword_only_type_mismatch_def Let_def scan_from_option_None outcome by simp
qed

text \<open>The leftovers a variadic parameter collects.\<close>

definition extra_positionals :: "('ty, 'val) CallSignature \<Rightarrow> ('ty, 'val) ExpandedCall \<Rightarrow> ('ty, 'val) PositionalActual list" where
  "extra_positionals sig call = drop (length (positional_only sig) + length (positional sig)) (call_positional call)"

definition extra_keywords :: "('ty, 'val) CallSignature \<Rightarrow> ('ty, 'val) ExpandedCall \<Rightarrow> ('ty, 'val) NamedActual list" where
  "extra_keywords sig call =
     filter (\<lambda>a. named_name a \<notin> formal_name ` set (positional sig @ keyword_only sig)) (call_named call)"

lemma set_drop_nth: "x \<in> set (drop n xs) \<longleftrightarrow> (\<exists>i. n \<le> i \<and> i < length xs \<and> x = xs ! i)"
proof
  assume "x \<in> set (drop n xs)"
  then obtain j where "j < length xs - n" "x = drop n xs ! j" by (auto simp: in_set_conv_nth)
  then show "\<exists>i. n \<le> i \<and> i < length xs \<and> x = xs ! i" by (intro exI [of _ "n + j"]) auto
next
  assume "\<exists>i. n \<le> i \<and> i < length xs \<and> x = xs ! i"
  then obtain i where "n \<le> i" "i < length xs" "x = xs ! i" by blast
  then have "drop n xs ! (i - n) = x" "i - n < length (drop n xs)" by auto
  then show "x \<in> set (drop n xs)" by (metis nth_mem)
qed

lemma all_set_drop: "(\<forall>x \<in> set (drop n xs). Q x) \<longleftrightarrow> (\<forall>i. n \<le> i \<and> i < length xs \<longrightarrow> Q (xs ! i))"
  unfolding Ball_def set_drop_nth by blast

lemma extra_positional_typed_None:
  "first_extra_positional_type_mismatch p call (length (positional_only sig) + length (positional sig)) accepts = None \<longleftrightarrow>
     supplied_typed accepts p (BoundArgument.ResidualPositionals (extra_positionals sig call))"
  by (auto simp: first_errors_None scan_from_option_None extra_positionals_def all_set_drop)

lemma extra_named_typed_None:
  "first_extra_named_type_mismatch p sig call accepts = None \<longleftrightarrow>
     supplied_typed accepts p (BoundArgument.ResidualKeywords (extra_keywords sig call))"
  unfolding first_extra_named_type_mismatch_def Let_def scan_from_option_None
  by (auto simp: extra_keywords_def ordinary_parameter_name_iff in_set_conv_nth)

lemma first_unexpected_keyword_bound:
  "first_unexpected_keyword N sig < length N \<longleftrightarrow>
     (\<exists>a \<in> set N. named_name a \<notin> formal_name ` set (positional sig @ keyword_only sig))"
proof -
  let ?p = "\<lambda>i. \<not> ordinary_parameter_name sig (named_name (N ! i))"
  have "first_unexpected_keyword N sig < length N \<longleftrightarrow> snd (scan_from ?p (length N) 0 False)"
    using scan_from_foundD [of ?p "length N" 0] by (auto simp: first_unexpected_keyword_def Let_def split: prod.splits)
  then show ?thesis
    unfolding scan_from_found_iff ordinary_parameter_name_iff by (metis in_set_conv_nth le0)
qed

definition call_accepted :: "'ty compatibility \<Rightarrow> ('ty, 'val) CallSignature \<Rightarrow> ('ty, 'val) ExpandedCall \<Rightarrow> bool" where
  "call_accepted accepts sig call \<longleftrightarrow>
     distinct (map named_name (call_named call)) \<and>
     (\<forall>i < length (positional sig). length (positional_only sig) + i < length (call_positional call) \<longrightarrow>
        formal_name (positional sig ! i) \<notin> named_name ` set (call_named call)) \<and>
     (var_args sig = None \<longrightarrow> extra_positionals sig call = []) \<and>
     (keyword_args sig = None \<longrightarrow> extra_keywords sig call = []) \<and>
     (\<forall>i < length (positional_only sig).
        \<exists>a. positional_only_argument call i (positional_only sig ! i) = Some a \<and>
            supplied_typed accepts (positional_only sig ! i) a) \<and>
     (\<forall>i < length (positional sig).
        \<exists>a. ordinary_argument call (length (positional_only sig) + i) (positional sig ! i) = Some a \<and>
            supplied_typed accepts (positional sig ! i) a) \<and>
     (\<forall>i < length (keyword_only sig).
        \<exists>a. keyword_only_argument call (keyword_only sig ! i) = Some a \<and>
            supplied_typed accepts (keyword_only sig ! i) a) \<and>
     pred_option (\<lambda>p. supplied_typed accepts p (BoundArgument.ResidualPositionals (extra_positionals sig call)))
       (var_args sig) \<and>
     pred_option (\<lambda>p. supplied_typed accepts p (BoundArgument.ResidualKeywords (extra_keywords sig call)))
       (keyword_args sig)"

lemma fail_with_Ok [simp]: "fail_with e = Inr () \<longleftrightarrow> e = None"
  by (simp add: fail_with_def split: option.splits)

lemma variadic_typed_None:
  "first_variadic_type_mismatch sig call (length (positional_only sig) + length (positional sig)) accepts = None \<longleftrightarrow>
     pred_option (\<lambda>p. supplied_typed accepts p (BoundArgument.ResidualPositionals (extra_positionals sig call)))
       (var_args sig) \<and>
     pred_option (\<lambda>p. supplied_typed accepts p (BoundArgument.ResidualKeywords (extra_keywords sig call)))
       (keyword_args sig)"
  unfolding first_variadic_type_mismatch_def Let_def
  by (cases "var_args sig"; cases "keyword_args sig";
      simp only: extra_positional_typed_None extra_named_typed_None option.case option.pred_inject if_True;
      auto simp: extra_positional_typed_None extra_named_typed_None)

lemma option_all_typed:
  "(\<forall>i < n. f i \<noteq> None) \<and> (\<forall>i < n. pred_option (P i) (f i)) \<longleftrightarrow> (\<forall>i < n. \<exists>a. f i = Some a \<and> P i a)"
  by (metis option.distinct(1) option.exhaust option.pred_inject(2))

lemma validate_call_Ok:
  "validate_call sig call (length (positional_only sig) + length (positional sig)) accepts = Inr () \<longleftrightarrow>
     call_accepted accepts sig call"
proof -
  have extra_pos: "length (call_positional call) > length (positional_only sig) + length (positional sig) \<longleftrightarrow>
      extra_positionals sig call \<noteq> []"
    by (auto simp: extra_positionals_def)
  have extra_kw: "first_unexpected_keyword (call_named call) sig < length (call_named call) \<longleftrightarrow>
      extra_keywords sig call \<noteq> []"
    by (auto simp: first_unexpected_keyword_bound extra_keywords_def filter_empty_conv)
  have "validate_call sig call (length (positional_only sig) + length (positional sig)) accepts = Inr () \<longleftrightarrow>
      distinct (map named_name (call_named call)) \<and> first_duplicate_binding sig call = None \<and>
      \<not> (extra_positionals sig call \<noteq> [] \<and> var_args sig = None) \<and>
      \<not> (keyword_args sig = None \<and> extra_keywords sig call \<noteq> []) \<and>
      first_missing_required_argument sig call = None \<and>
      first_positional_only_type_mismatch sig call accepts = None \<and>
      first_ordinary_type_mismatch sig call accepts = None \<and>
      first_keyword_only_type_mismatch sig call accepts = None \<and>
      first_variadic_type_mismatch sig call (length (positional_only sig) + length (positional sig)) accepts = None"
    unfolding validate_call_def Let_def extra_pos extra_kw
    by (simp add: first_duplicate_named_None)
  then show ?thesis
    unfolding call_accepted_def first_duplicate_binding_None first_missing_None positional_only_typed_None
      ordinary_typed_None keyword_only_typed_None variadic_typed_None option_all_typed [symmetric]
    by argo
qed

section \<open>The environment\<close>

definition make_cell ::
  "ParameterKind \<Rightarrow> ('ty, 'val) FormalParameter \<Rightarrow> ('ty, 'val) BoundArgument \<Rightarrow> ('ty, 'val) BindingCell" where
  "make_cell kind p a = \<lparr> cell_parameter = p, cell_kind = kind, cell_argument = a \<rparr>"

lemma make_cell_simps [simp]:
  "cell_parameter (make_cell kind p a) = p"
  "cell_kind (make_cell kind p a) = kind"
  "cell_argument (make_cell kind p a) = a"
  by (simp_all add: make_cell_def)

definition positional_only_cells :: "('ty, 'val) CallSignature \<Rightarrow> ('ty, 'val) ExpandedCall \<Rightarrow> ('ty, 'val) BindingCell list" where
  "positional_only_cells sig call =
     map (\<lambda>(i, p). make_cell PositionalOnly p (the (positional_only_argument call i p)))
       (enumerate 0 (positional_only sig))"

definition ordinary_cells :: "('ty, 'val) CallSignature \<Rightarrow> ('ty, 'val) ExpandedCall \<Rightarrow> ('ty, 'val) BindingCell list" where
  "ordinary_cells sig call =
     map (\<lambda>(i, p). make_cell ParameterKind.Positional p
         (the (ordinary_argument call (length (positional_only sig) + i) p)))
       (enumerate 0 (positional sig))"

definition keyword_only_cells :: "('ty, 'val) CallSignature \<Rightarrow> ('ty, 'val) ExpandedCall \<Rightarrow> ('ty, 'val) BindingCell list" where
  "keyword_only_cells sig call =
     map (\<lambda>p. make_cell KeywordOnly p (the (keyword_only_argument call p))) (keyword_only sig)"

definition var_args_cells :: "('ty, 'val) CallSignature \<Rightarrow> ('ty, 'val) ExpandedCall \<Rightarrow> ('ty, 'val) BindingCell list" where
  "var_args_cells sig call =
     (case var_args sig of None \<Rightarrow> []
      | Some p \<Rightarrow> [make_cell VarArgs p (BoundArgument.ResidualPositionals (extra_positionals sig call))])"

definition keyword_args_cells :: "('ty, 'val) CallSignature \<Rightarrow> ('ty, 'val) ExpandedCall \<Rightarrow> ('ty, 'val) BindingCell list" where
  "keyword_args_cells sig call =
     (case keyword_args sig of None \<Rightarrow> []
      | Some p \<Rightarrow> [make_cell KeywordArgs p (BoundArgument.ResidualKeywords (extra_keywords sig call))])"

definition environment_of ::
  "('ty, 'val) CallSignature \<Rightarrow> ('ty, 'val) ExpandedCall \<Rightarrow> ('ty, 'val) BindingEnvironment" where
  "environment_of sig call =
     \<lparr> env_cells = positional_only_cells sig call @ ordinary_cells sig call @ keyword_only_cells sig call @
         var_args_cells sig call @ keyword_args_cells sig call,
       env_evaluation_order = call_evaluation_order call \<rparr>"

lemma push_cells_loop:
  "sticky_loop (\<lambda>x. push_cell kind (par x) (arg x)) xs cells = Inr cells' \<longleftrightarrow>
     (\<forall>x \<in> set xs. arg x \<noteq> None) \<and>
     cells' = cells @ map (\<lambda>x. make_cell kind (par x) (the (arg x))) xs"
  by (induction xs arbitrary: cells) (auto simp: push_cell_def make_cell_def split: option.splits)

lemma all_enumerate: "(\<forall>x \<in> set (enumerate 0 xs). P x) \<longleftrightarrow> (\<forall>i < length xs. P (i, xs ! i))"
  by (auto simp: in_set_enumerate_eq)

lemma residual_map: "map (\<lambda>i. xs ! i) [n..<length xs] = drop n xs"
  by (rule nth_equalityI) auto

lemma residual_fold:
  "foldl (\<lambda>acc x. if P x then acc @ [x] else acc) acc xs = acc @ filter P xs"
  by (induction xs arbitrary: acc) auto

lemma bind_var_args_pure:
  "fst (bind_var_args sig call (counts_of sig) grant_all cells ()) = Inr (cells @ var_args_cells sig call)"
  by (auto simp: bind_var_args_def var_args_cells_def counts_of_def residual_map extra_positionals_def
      make_cell_def Let_def split: option.splits)

lemma bind_keyword_args_pure:
  "fst (bind_keyword_args sig call grant_all cells ()) = Inr (cells @ keyword_args_cells sig call)"
proof -
  have "filter (\<lambda>a. \<not> ordinary_parameter_name sig (named_name a)) (call_named call) = extra_keywords sig call"
    by (simp add: extra_keywords_def ordinary_parameter_name_iff)
  then show ?thesis
    using residual_fold [of "\<lambda>a. \<not> ordinary_parameter_name sig (named_name a)" "[]" "call_named call"]
    by (auto simp: bind_keyword_args_def keyword_args_cells_def make_cell_def Let_def split: option.splits)
qed

definition all_supplied :: "('ty, 'val) CallSignature \<Rightarrow> ('ty, 'val) ExpandedCall \<Rightarrow> bool" where
  "all_supplied sig call \<longleftrightarrow>
     (\<forall>i < length (positional_only sig). positional_only_argument call i (positional_only sig ! i) \<noteq> None) \<and>
     (\<forall>i < length (positional sig).
        ordinary_argument call (length (positional_only sig) + i) (positional sig ! i) \<noteq> None) \<and>
     (\<forall>p \<in> set (keyword_only sig). keyword_only_argument call p \<noteq> None)"

lemma canonical_pure:
  "fst (canonical_environment sig call (counts_of sig) grant_all ()) = Inr env \<longleftrightarrow>
     all_supplied sig call \<and> env = environment_of sig call"
proof -
  have po: "sticky_loop (\<lambda>(index, parameter).
        push_cell PositionalOnly parameter (positional_only_argument call index parameter))
      (enumerate 0 (positional_only sig)) cells = Inr cells' \<longleftrightarrow>
      (\<forall>i < length (positional_only sig). positional_only_argument call i (positional_only sig ! i) \<noteq> None) \<and>
      cells' = cells @ positional_only_cells sig call" for cells cells'
    using push_cells_loop [of PositionalOnly snd "\<lambda>(i, p). positional_only_argument call i p"
        "enumerate 0 (positional_only sig)" cells cells']
    by (simp add: case_prod_beta' all_enumerate positional_only_cells_def)
  have ord: "sticky_loop (\<lambda>(parameter_index, parameter).
        push_cell ParameterKind.Positional parameter
          (ordinary_argument call (length (positional_only sig) + parameter_index) parameter))
      (enumerate 0 (positional sig)) cells = Inr cells' \<longleftrightarrow>
      (\<forall>i < length (positional sig).
        ordinary_argument call (length (positional_only sig) + i) (positional sig ! i) \<noteq> None) \<and>
      cells' = cells @ ordinary_cells sig call" for cells cells'
    using push_cells_loop [of ParameterKind.Positional snd
        "\<lambda>(i, p). ordinary_argument call (length (positional_only sig) + i) p"
        "enumerate 0 (positional sig)" cells cells']
    by (simp add: case_prod_beta' all_enumerate ordinary_cells_def)
  have kw: "sticky_loop (\<lambda>parameter. push_cell KeywordOnly parameter (keyword_only_argument call parameter))
      (keyword_only sig) cells = Inr cells' \<longleftrightarrow>
      (\<forall>p \<in> set (keyword_only sig). keyword_only_argument call p \<noteq> None) \<and>
      cells' = cells @ keyword_only_cells sig call" for cells cells'
    using push_cells_loop [of KeywordOnly "\<lambda>p. p" "keyword_only_argument call" "keyword_only sig" cells cells']
    by (simp add: keyword_only_cells_def)
  show ?thesis
    by (auto simp: canonical_environment_def po ord kw bind_var_args_pure bind_keyword_args_pure
        all_supplied_def environment_of_def)
qed

lemma accepted_all_supplied: "call_accepted accepts sig call \<Longrightarrow> all_supplied sig call"
  by (auto simp: call_accepted_def all_supplied_def all_set_nth [of "keyword_only sig"])

lemma bind_pure:
  "fst (bind_call_with_relation sig items receiver accepts grant_all ()) = Inr env \<longleftrightarrow>
     signature_ok accepts sig \<and> expandable items receiver \<and>
     call_accepted accepts sig (expansion items receiver) \<and> env = environment_of sig (expansion items receiver)"
  using accepted_all_supplied [of accepts sig "expansion items receiver"]
  by (auto simp: bind_call_with_relation_def bind_expanded_call_with_def validate_pure expand_pure canonical_pure
      validate_call_Ok counts_of_def [of sig, THEN arg_cong [of _ _ positional_count], simplified])

section \<open>What it means to bind a call\<close>

definition kinded_formals :: "('ty, 'val) CallSignature \<Rightarrow> (ParameterKind \<times> ('ty, 'val) FormalParameter) list" where
  "kinded_formals sig =
     map (Pair PositionalOnly) (positional_only sig) @ map (Pair ParameterKind.Positional) (positional sig) @
     map (Pair KeywordOnly) (keyword_only sig) @
     (case var_args sig of None \<Rightarrow> [] | Some p \<Rightarrow> [(VarArgs, p)]) @
     (case keyword_args sig of None \<Rightarrow> [] | Some p \<Rightarrow> [(KeywordArgs, p)])"

fun supplied_positionals :: "('ty, 'val) BoundArgument \<Rightarrow> ('ty, 'val) PositionalActual list" where
  "supplied_positionals (SuppliedPositional a) = [a]"
| "supplied_positionals (BoundArgument.ResidualPositionals as) = as"
| "supplied_positionals _ = []"

fun supplied_named :: "('ty, 'val) BoundArgument \<Rightarrow> ('ty, 'val) NamedActual list" where
  "supplied_named (SuppliedNamed a) = [a]"
| "supplied_named (BoundArgument.ResidualKeywords as) = as"
| "supplied_named _ = []"

text \<open>The argument forms each kind of parameter admits.\<close>

fun admissible ::
  "('ty, 'val) CallSignature \<Rightarrow> ParameterKind \<Rightarrow> ('ty, 'val) FormalParameter \<Rightarrow> ('ty, 'val) BoundArgument \<Rightarrow> bool" where
  "admissible sig kind p (SuppliedPositional a) \<longleftrightarrow> kind = PositionalOnly \<or> kind = ParameterKind.Positional"
| "admissible sig kind p (SuppliedNamed a) \<longleftrightarrow>
     (kind = ParameterKind.Positional \<or> kind = KeywordOnly) \<and> named_name a = formal_name p"
| "admissible sig kind p (Defaulted d) \<longleftrightarrow>
     (kind = PositionalOnly \<or> kind = ParameterKind.Positional \<or> kind = KeywordOnly) \<and> default_value p = Some d"
| "admissible sig kind p (BoundArgument.ResidualPositionals as) \<longleftrightarrow> kind = VarArgs"
| "admissible sig kind p (BoundArgument.ResidualKeywords as) \<longleftrightarrow>
     kind = KeywordArgs \<and> distinct (map named_name as) \<and>
     named_name ` set as \<inter> formal_name ` set (positional sig @ keyword_only sig) = {}"

text \<open>
  An environment binds a call when it has one cell per parameter in formal order; positional
  actuals fill the leading cells one to one and the rest is collected in order; every named actual
  is held exactly once; each cell has a form its kind admits; leftovers keep the source order; and
  everything supplied has the declared type.
\<close>

definition binds_call ::
  "'ty compatibility \<Rightarrow> ('ty, 'val) CallSignature \<Rightarrow> ('ty, 'val) ExpandedCall \<Rightarrow>
     ('ty, 'val) BindingEnvironment \<Rightarrow> bool" where
  "binds_call accepts sig call env \<longleftrightarrow>
     (let arguments = map cell_argument (env_cells env);
          slots = length (positional_only sig) + length (positional sig)
      in map (\<lambda>c. (cell_kind c, cell_parameter c)) (env_cells env) = kinded_formals sig \<and>
         env_evaluation_order env = call_evaluation_order call \<and>
         (\<forall>i < slots. \<forall>a. arguments ! i = SuppliedPositional a \<longleftrightarrow>
            i < length (call_positional call) \<and> a = call_positional call ! i) \<and>
         concat (map supplied_positionals arguments) = call_positional call \<and>
         mset (concat (map supplied_named arguments)) = mset (call_named call) \<and>
         (\<forall>as. BoundArgument.ResidualKeywords as \<in> set arguments \<longrightarrow>
            as = filter (\<lambda>a. a \<in> set as) (call_named call)) \<and>
         (\<forall>c \<in> set (env_cells env).
            admissible sig (cell_kind c) (cell_parameter c) (cell_argument c) \<and>
            supplied_typed accepts (cell_parameter c) (cell_argument c)))"

lemma kinded_formals_formals: "map snd (kinded_formals sig) = formals sig"
  by (simp add: kinded_formals_def formals_def ordinary_formals_def variadic_formals_def comp_def
      split: option.splits)

lemma environment_formals:
  "map (\<lambda>c. (cell_kind c, cell_parameter c)) (env_cells (environment_of sig call)) = kinded_formals sig"
proof -
  have "map (\<lambda>c. (cell_kind c, cell_parameter c)) (positional_only_cells sig call) =
      map (Pair PositionalOnly) (positional_only sig)"
    by (rule nth_equalityI) (simp_all add: positional_only_cells_def nth_enumerate_eq)
  moreover have "map (\<lambda>c. (cell_kind c, cell_parameter c)) (ordinary_cells sig call) =
      map (Pair ParameterKind.Positional) (positional sig)"
    by (rule nth_equalityI) (simp_all add: ordinary_cells_def nth_enumerate_eq)
  ultimately show ?thesis
    by (simp add: environment_of_def kinded_formals_def keyword_only_cells_def var_args_cells_def
        keyword_args_cells_def split: option.splits)
qed

lemma take_append_drop_concat:
  "concat (map (\<lambda>i. if i < length xs then [xs ! i] else []) [m..<n]) = take (n - m) (drop m xs)"
proof (induction n)
  case 0
  then show ?case by simp
next
  case (Suc n)
  show ?case
  proof (cases "m \<le> n")
    case True
    then show ?thesis
      using Suc by (auto simp: Suc_diff_le take_Suc_conv_app_nth)
  next
    case False
    then show ?thesis by simp
  qed
qed

lemma map_enumerate_upt: "map f (enumerate 0 xs) = map (\<lambda>i. f (i, xs ! i)) [0..<length xs]"
  by (rule nth_equalityI) (simp_all add: nth_enumerate_eq)

lemma positional_only_cells_positionals:
  assumes "\<forall>i < length (positional_only sig). positional_only_argument call i (positional_only sig ! i) \<noteq> None"
  shows "concat (map (supplied_positionals \<circ> cell_argument) (positional_only_cells sig call)) =
     take (length (positional_only sig)) (call_positional call)"
proof -
  let ?P = "call_positional call" and ?m = "length (positional_only sig)"
  have "supplied_positionals (the (positional_only_argument call i p)) = (if i < length ?P then [?P ! i] else [])"
    if "positional_only_argument call i p \<noteq> None" for i p
    using that by (auto simp: positional_only_argument_def get_positional_def split: option.splits)
  then have slots: "map (\<lambda>i. supplied_positionals (the (positional_only_argument call i (positional_only sig ! i)))) [0..<?m] =
      map (\<lambda>i. if i < length ?P then [?P ! i] else []) [0..<?m]"
    by (intro map_cong) (use assms in auto)
  show ?thesis
    unfolding positional_only_cells_def map_enumerate_upt map_map comp_def prod.case make_cell_simps slots
    by (simp add: take_append_drop_concat)
qed

lemma ordinary_cells_positionals:
  assumes "\<forall>i < length (positional sig).
     ordinary_argument call (length (positional_only sig) + i) (positional sig ! i) \<noteq> None"
  shows "concat (map (supplied_positionals \<circ> cell_argument) (ordinary_cells sig call)) =
     take (length (positional sig)) (drop (length (positional_only sig)) (call_positional call))"
proof -
  let ?P = "call_positional call" and ?m = "length (positional_only sig)" and ?n = "length (positional sig)"
  have "supplied_positionals (the (ordinary_argument call i p)) = (if i < length ?P then [?P ! i] else [])"
    if "ordinary_argument call i p \<noteq> None" for i p
    using that by (auto simp: ordinary_argument_def get_positional_def split: option.splits)
  then have slots: "map (\<lambda>i. supplied_positionals (the (ordinary_argument call (?m + i) (positional sig ! i)))) [0..<?n] =
      map (\<lambda>i. if ?m + i < length ?P then [?P ! (?m + i)] else []) [0..<?n]"
    by (intro map_cong) (use assms in auto)
  have shifted: "map (\<lambda>i. if i < length ?P then [?P ! i] else []) [?m..<?m + ?n] =
      map (\<lambda>i. if ?m + i < length ?P then [?P ! (?m + i)] else []) [0..<?n]"
    by (rule nth_equalityI) simp_all
  show ?thesis
    unfolding ordinary_cells_def map_enumerate_upt map_map comp_def prod.case make_cell_simps slots
      shifted [symmetric] by (simp add: take_append_drop_concat)
qed

lemma take_take_drop: "take m xs @ take n (drop m xs) = take (m + n) xs"
  by (simp add: take_add)

lemma environment_positionals:
  assumes "call_accepted accepts sig call"
  shows "concat (map (supplied_positionals \<circ> cell_argument) (env_cells (environment_of sig call))) = call_positional call"
proof -
  let ?P = "call_positional call" and ?m = "length (positional_only sig)" and ?n = "length (positional sig)"
  note supplied = accepted_all_supplied [OF assms, unfolded all_supplied_def]
  have kw: "supplied_positionals (the (keyword_only_argument call p)) = []"
    if "keyword_only_argument call p \<noteq> None" for p
    using that by (auto simp: keyword_only_argument_def split: option.splits)
  have "concat (map (supplied_positionals \<circ> cell_argument) (keyword_only_cells sig call)) = []"
    using kw supplied by (auto simp: keyword_only_cells_def)
  moreover have "concat (map (supplied_positionals \<circ> cell_argument) (var_args_cells sig call)) = drop (?m + ?n) ?P"
    using assms by (auto simp: var_args_cells_def call_accepted_def extra_positionals_def split: option.splits)
  moreover have "concat (map (supplied_positionals \<circ> cell_argument) (keyword_args_cells sig call)) = []"
    by (auto simp: keyword_args_cells_def split: option.splits)
  moreover have "take ?m ?P @ take ?n (drop ?m ?P) @ drop (?m + ?n) ?P = ?P"
    by (metis append.assoc append_take_drop_id take_take_drop)
  moreover note positional_only_cells_positionals [OF supplied [THEN conjunct1]]
    ordinary_cells_positionals [OF supplied [THEN conjunct2, THEN conjunct1]]
  ultimately show ?thesis
    by (simp add: environment_of_def del: concat_eq_Nil_conv)
qed

definition matching_named :: "('ty, 'val) NamedActual list \<Rightarrow> ('ty, 'val) FormalParameter \<Rightarrow> ('ty, 'val) NamedActual list" where
  "matching_named N p = (case find_named_actual N (formal_name p) of None \<Rightarrow> [] | Some a \<Rightarrow> [a])"

lemma set_matching_named:
  "distinct (map named_name N) \<Longrightarrow>
     set (matching_named N p) = {a \<in> set N. named_name a = formal_name p}"
proof (cases "find_named_actual N (formal_name p)")
  case None
  then have "formal_name p \<notin> named_name ` set N" by (simp add: find_named_actual_None)
  then have "{a \<in> set N. named_name a = formal_name p} = {}" by force
  with None show ?thesis by (simp add: matching_named_def)
next
  case (Some a)
  assume d: "distinct (map named_name N)"
  have "b = a" if "b \<in> set N" "named_name b = formal_name p" for b
    using find_named_actual_distinct [OF d that(1)] that(2) Some by simp
  then show ?thesis using find_named_actual_Some [OF Some] Some by (auto simp: matching_named_def)
qed

lemma mset_matching_named:
  assumes "distinct (map named_name N)" and "distinct (map formal_name ps)"
  shows "mset (concat (map (matching_named N) ps)) = mset (filter (\<lambda>a. named_name a \<in> formal_name ` set ps) N)"
proof -
  have sets: "set (concat (map (matching_named N) qs)) = {a \<in> set N. named_name a \<in> formal_name ` set qs}" for qs
    by (auto simp: set_matching_named [OF assms(1)])
  have "distinct (matching_named N p)" for p
    by (simp add: matching_named_def split: option.splits)
  then have "distinct (concat (map (matching_named N) ps))"
    using assms(2)
  proof (induction ps)
    case (Cons p ps)
    have "set (matching_named N p) \<inter> set (concat (map (matching_named N) ps)) = {}"
      unfolding sets set_matching_named [OF assms(1)] using Cons.prems(2) by (force simp: image_iff)
    with Cons show ?case by simp
  qed simp
  moreover have "distinct (filter (\<lambda>a. named_name a \<in> formal_name ` set ps) N)"
    using assms(1) by (simp add: distinct_map)
  ultimately show ?thesis
    by (intro iffD1 [OF set_eq_iff_mset_eq_distinct]) (auto simp: set_matching_named [OF assms(1)])
qed

lemma ordinary_formals_distinct:
  "signature_ok accepts sig \<Longrightarrow> distinct (map formal_name (positional sig @ keyword_only sig))"
  by (auto simp: signature_ok_def formals_def ordinary_formals_def)

lemma ordinary_cell_named:
  assumes "call_accepted accepts sig call" and "i < length (positional sig)"
  shows "supplied_named (the (ordinary_argument call (length (positional_only sig) + i) (positional sig ! i))) =
     matching_named (call_named call) (positional sig ! i)"
proof (cases "length (positional_only sig) + i < length (call_positional call)")
  case True
  with assms have "formal_name (positional sig ! i) \<notin> named_name ` set (call_named call)"
    by (simp add: call_accepted_def)
  then have "find_named_actual (call_named call) (formal_name (positional sig ! i)) = None"
    by (simp add: find_named_actual_None)
  with True show ?thesis by (simp add: ordinary_argument_def get_positional_def matching_named_def)
next
  case False
  have "ordinary_argument call (length (positional_only sig) + i) (positional sig ! i) \<noteq> None"
    using accepted_all_supplied [OF assms(1)] assms(2) by (simp add: all_supplied_def)
  with False show ?thesis
    by (auto simp: ordinary_argument_def get_positional_def matching_named_def split: option.splits)
qed

lemma environment_named:
  assumes "call_accepted accepts sig call" and "signature_ok accepts sig"
  shows "mset (concat (map (supplied_named \<circ> cell_argument) (env_cells (environment_of sig call)))) = mset (call_named call)"
proof -
  let ?N = "call_named call" and ?names = "formal_name ` set (positional sig @ keyword_only sig)"
  have po: "supplied_named (the (positional_only_argument call i p)) = []"
    if "positional_only_argument call i p \<noteq> None" for i p
    using that by (auto simp: positional_only_argument_def split: option.splits)
  have kw: "supplied_named (the (keyword_only_argument call p)) = matching_named ?N p"
    if "keyword_only_argument call p \<noteq> None" for p
    using that by (auto simp: keyword_only_argument_def matching_named_def split: option.splits)
  note supplied = accepted_all_supplied [OF assms(1), unfolded all_supplied_def]
  have "concat (map (supplied_named \<circ> cell_argument) (positional_only_cells sig call)) = []"
    using po supplied by (auto simp: positional_only_cells_def map_enumerate_upt)
  moreover have "map (supplied_named \<circ> cell_argument) (ordinary_cells sig call) = map (matching_named ?N) (positional sig)"
    by (rule nth_equalityI) (simp_all add: ordinary_cells_def nth_enumerate_eq ordinary_cell_named [OF assms(1)])
  moreover have "map (supplied_named \<circ> cell_argument) (keyword_only_cells sig call) = map (matching_named ?N) (keyword_only sig)"
    using kw supplied by (auto simp: keyword_only_cells_def)
  moreover have "concat (map (supplied_named \<circ> cell_argument) (var_args_cells sig call)) = []"
    by (auto simp: var_args_cells_def split: option.splits)
  moreover have "concat (map (supplied_named \<circ> cell_argument) (keyword_args_cells sig call)) = extra_keywords sig call"
    using assms(1) by (auto simp: keyword_args_cells_def call_accepted_def split: option.splits)
  ultimately have "mset (concat (map (supplied_named \<circ> cell_argument) (env_cells (environment_of sig call)))) =
      mset (concat (map (matching_named ?N) (positional sig @ keyword_only sig))) + mset (extra_keywords sig call)"
    by (simp add: environment_of_def del: concat_eq_Nil_conv)
  also have "\<dots> = mset (filter (\<lambda>a. named_name a \<in> ?names) ?N) + mset (filter (\<lambda>a. named_name a \<notin> ?names) ?N)"
    using assms(1) mset_matching_named [OF _ ordinary_formals_distinct [OF assms(2)], of ?N]
    by (simp only: extra_keywords_def call_accepted_def)
  also have "\<dots> = mset ?N" by (simp only: mset_filter multiset_partition [symmetric])
  finally show ?thesis .
qed

lemma environment_slots:
  assumes "i < length (positional_only sig) + length (positional sig)"
  shows "cell_argument (env_cells (environment_of sig call) ! i) =
     (if i < length (positional_only sig) then the (positional_only_argument call i (positional_only sig ! i))
      else the (ordinary_argument call i (positional sig ! (i - length (positional_only sig)))))"
  using assms
  by (auto simp: environment_of_def nth_append positional_only_cells_def ordinary_cells_def nth_enumerate_eq)

lemma environment_positional_slots:
  assumes "call_accepted accepts sig call" and "i < length (positional_only sig) + length (positional sig)"
  shows "cell_argument (env_cells (environment_of sig call) ! i) = SuppliedPositional a \<longleftrightarrow>
     i < length (call_positional call) \<and> a = call_positional call ! i"
proof -
  note supplied = accepted_all_supplied [OF assms(1), unfolded all_supplied_def]
  show ?thesis
  proof (cases "i < length (positional_only sig)")
    case True
    then have "positional_only_argument call i (positional_only sig ! i) \<noteq> None" using supplied by blast
    with True show ?thesis
      unfolding environment_slots [OF assms(2)]
      by (auto simp: positional_only_argument_def get_positional_def split: option.splits)
  next
    case False
    let ?j = "i - length (positional_only sig)"
    from False assms(2) have "?j < length (positional sig)" by simp
    moreover have "length (positional_only sig) + ?j = i" using False by simp
    ultimately have "ordinary_argument call i (positional sig ! ?j) \<noteq> None" using supplied by metis
    with False show ?thesis
      unfolding environment_slots [OF assms(2)]
      by (auto simp: ordinary_argument_def get_positional_def split: option.splits)
  qed
qed

lemma ordinary_argument_named: "ordinary_argument call i p = Some (SuppliedNamed a) \<Longrightarrow> named_name a = formal_name p"
  by (auto simp: ordinary_argument_def dest: find_named_actual_Some split: option.splits)

lemma keyword_only_argument_named: "keyword_only_argument call p = Some (SuppliedNamed a) \<Longrightarrow> named_name a = formal_name p"
  by (auto simp: keyword_only_argument_def dest: find_named_actual_Some split: option.splits)

lemma argument_admissible:
  "positional_only_argument call i p = Some a \<Longrightarrow> admissible sig PositionalOnly p a"
  "ordinary_argument call i p = Some a \<Longrightarrow> admissible sig ParameterKind.Positional p a"
  "keyword_only_argument call p = Some a \<Longrightarrow> admissible sig KeywordOnly p a"
  by (auto simp: positional_only_argument_def ordinary_argument_def keyword_only_argument_def
      dest: find_named_actual_Some split: option.splits)

lemma in_cells:
  "c \<in> set (positional_only_cells sig call) \<longleftrightarrow>
     (\<exists>i < length (positional_only sig). c = make_cell PositionalOnly (positional_only sig ! i)
        (the (positional_only_argument call i (positional_only sig ! i))))"
  "c \<in> set (ordinary_cells sig call) \<longleftrightarrow>
     (\<exists>i < length (positional sig). c = make_cell ParameterKind.Positional (positional sig ! i)
        (the (ordinary_argument call (length (positional_only sig) + i) (positional sig ! i))))"
  "c \<in> set (keyword_only_cells sig call) \<longleftrightarrow>
     (\<exists>i < length (keyword_only sig). c = make_cell KeywordOnly (keyword_only sig ! i)
        (the (keyword_only_argument call (keyword_only sig ! i))))"
  "c \<in> set (var_args_cells sig call) \<longleftrightarrow>
     (\<exists>p. var_args sig = Some p \<and>
        c = make_cell VarArgs p (BoundArgument.ResidualPositionals (extra_positionals sig call)))"
  "c \<in> set (keyword_args_cells sig call) \<longleftrightarrow>
     (\<exists>p. keyword_args sig = Some p \<and>
        c = make_cell KeywordArgs p (BoundArgument.ResidualKeywords (extra_keywords sig call)))"
proof -
  show "c \<in> set (keyword_only_cells sig call) \<longleftrightarrow>
     (\<exists>i < length (keyword_only sig). c = make_cell KeywordOnly (keyword_only sig ! i)
        (the (keyword_only_argument call (keyword_only sig ! i))))"
    by (auto simp: keyword_only_cells_def image_iff) (metis in_set_conv_nth)
  show "c \<in> set (var_args_cells sig call) \<longleftrightarrow>
     (\<exists>p. var_args sig = Some p \<and>
        c = make_cell VarArgs p (BoundArgument.ResidualPositionals (extra_positionals sig call)))"
    by (cases "var_args sig") (auto simp: var_args_cells_def)
  show "c \<in> set (keyword_args_cells sig call) \<longleftrightarrow>
     (\<exists>p. keyword_args sig = Some p \<and>
        c = make_cell KeywordArgs p (BoundArgument.ResidualKeywords (extra_keywords sig call)))"
    by (cases "keyword_args sig") (auto simp: keyword_args_cells_def)
qed (auto simp: positional_only_cells_def ordinary_cells_def map_enumerate_upt)

lemma environment_cells:
  "set (env_cells (environment_of sig call)) =
     set (positional_only_cells sig call) \<union> set (ordinary_cells sig call) \<union> set (keyword_only_cells sig call) \<union>
     set (var_args_cells sig call) \<union> set (keyword_args_cells sig call)"
  by (auto simp: environment_of_def)

lemma environment_cells_ok:
  assumes "call_accepted accepts sig call" and "c \<in> set (env_cells (environment_of sig call))"
  shows "admissible sig (cell_kind c) (cell_parameter c) (cell_argument c) \<and>
     supplied_typed accepts (cell_parameter c) (cell_argument c)"
proof -
  from assms(1) have distinct: "distinct (map named_name (extra_keywords sig call))"
    by (simp add: call_accepted_def extra_keywords_def distinct_map inj_on_def)
  from assms(2) consider
      i where "i < length (positional_only sig)"
        "c = make_cell PositionalOnly (positional_only sig ! i) (the (positional_only_argument call i (positional_only sig ! i)))"
    | i where "i < length (positional sig)"
        "c = make_cell ParameterKind.Positional (positional sig ! i)
           (the (ordinary_argument call (length (positional_only sig) + i) (positional sig ! i)))"
    | i where "i < length (keyword_only sig)"
        "c = make_cell KeywordOnly (keyword_only sig ! i) (the (keyword_only_argument call (keyword_only sig ! i)))"
    | p where "var_args sig = Some p" "c = make_cell VarArgs p (BoundArgument.ResidualPositionals (extra_positionals sig call))"
    | p where "keyword_args sig = Some p" "c = make_cell KeywordArgs p (BoundArgument.ResidualKeywords (extra_keywords sig call))"
    unfolding environment_cells Un_iff in_cells by blast
  then show ?thesis
  proof cases
    case 1
    with assms(1) show ?thesis
      using argument_admissible(1) [of call i "positional_only sig ! i"] by (auto simp: call_accepted_def)
  next
    case 2
    with assms(1) show ?thesis
      using argument_admissible(2) [of call _ "positional sig ! i"] by (auto simp: call_accepted_def)
  next
    case 3
    with assms(1) show ?thesis
      using argument_admissible(3) [of call "keyword_only sig ! i"] by (auto simp: call_accepted_def)
  next
    case 4
    with assms(1) show ?thesis by (simp add: call_accepted_def)
  next
    case 5
    with assms(1) distinct show ?thesis
      by (auto simp: call_accepted_def) (auto simp: extra_keywords_def)
  qed
qed

lemma environment_residual_order:
  assumes "call_accepted accepts sig call"
    and "BoundArgument.ResidualKeywords as \<in> cell_argument ` set (env_cells (environment_of sig call))"
  shows "as = filter (\<lambda>a. a \<in> set as) (call_named call)"
proof -
  have "as = extra_keywords sig call"
  proof -
    from assms(2) obtain c where c: "c \<in> set (env_cells (environment_of sig call))"
      "cell_argument c = BoundArgument.ResidualKeywords as" by force
    with environment_cells_ok [OF assms(1) c(1)] have "cell_kind c = KeywordArgs" by simp
    with c show ?thesis unfolding environment_cells Un_iff in_cells by auto
  qed
  then show ?thesis by (auto simp: extra_keywords_def intro: filter_cong)
qed

lemma environment_binds:
  assumes "call_accepted accepts sig call" and "signature_ok accepts sig"
  shows "binds_call accepts sig call (environment_of sig call)"
proof -
  let ?env = "environment_of sig call"
  have slots: "length (positional_only sig) + length (positional sig) \<le> length (env_cells ?env)"
    by (simp add: environment_of_def positional_only_cells_def ordinary_cells_def)
  have "env_evaluation_order ?env = call_evaluation_order call" by (simp add: environment_of_def)
  then show ?thesis
    unfolding binds_call_def Let_def map_map [symmetric]
    using environment_formals [of sig call] environment_positionals [OF assms(1)] environment_named [OF assms]
      environment_positional_slots [OF assms(1)] environment_cells_ok [OF assms(1)]
      environment_residual_order [OF assms(1)] slots
    by (simp add: comp_def)
qed

section \<open>A binding environment is unique\<close>

text \<open>The facts about an arbitrary environment that binds a call.\<close>

lemma distinct_concat_map:
  "distinct cs \<Longrightarrow> (\<And>c. c \<in> set cs \<Longrightarrow> distinct (f c)) \<Longrightarrow>
   (\<And>c c'. c \<in> set cs \<Longrightarrow> c' \<in> set cs \<Longrightarrow> c \<noteq> c' \<Longrightarrow> set (f c) \<inter> set (f c') = {}) \<Longrightarrow>
   distinct (concat (map f cs))"
proof (induction cs)
  case (Cons c cs)
  have "set (f c) \<inter> set (f c') = {}" if "c' \<in> set cs" for c'
    using Cons.prems(1,3) that by (metis distinct.simps(2) list.set_intros)
  with Cons show ?case by auto
qed simp

lemma binds_call_parts:
  assumes "binds_call accepts sig call env" and "signature_ok accepts sig"
  shows "inj_on (formal_name \<circ> cell_parameter) (set (env_cells env))" and "distinct (env_cells env)"
    and "c \<in> set (env_cells env) \<Longrightarrow> (cell_kind c, cell_parameter c) \<in> set (kinded_formals sig)"
    and "set (call_named call) = (\<Union>c \<in> set (env_cells env). set (supplied_named (cell_argument c)))"
proof -
  from assms(1) have kinds: "map (\<lambda>c. (cell_kind c, cell_parameter c)) (env_cells env) = kinded_formals sig"
    by (simp add: binds_call_def Let_def)
  then have "map cell_parameter (env_cells env) = formals sig"
    unfolding kinded_formals_formals [symmetric] by (simp add: kinds [symmetric])
  then have "map (formal_name \<circ> cell_parameter) (env_cells env) = map formal_name (formals sig)"
    by (metis map_map)
  then have d: "distinct (map (formal_name \<circ> cell_parameter) (env_cells env))"
    using assms(2) by (simp add: signature_ok_def)
  then show "inj_on (formal_name \<circ> cell_parameter) (set (env_cells env))" "distinct (env_cells env)"
    by (simp_all add: distinct_map)
  show "c \<in> set (env_cells env) \<Longrightarrow> (cell_kind c, cell_parameter c) \<in> set (kinded_formals sig)"
    unfolding kinds [symmetric] by force
  from assms(1) have "mset (call_named call) = mset (concat (map supplied_named (map cell_argument (env_cells env))))"
    by (simp add: binds_call_def Let_def)
  from mset_eq_setD [OF this]
  show "set (call_named call) = (\<Union>c \<in> set (env_cells env). set (supplied_named (cell_argument c)))"
    by auto
qed

lemma kinded_formals_iff:
  "(PositionalOnly, p) \<in> set (kinded_formals sig) \<longleftrightarrow> p \<in> set (positional_only sig)"
  "(ParameterKind.Positional, p) \<in> set (kinded_formals sig) \<longleftrightarrow> p \<in> set (positional sig)"
  "(KeywordOnly, p) \<in> set (kinded_formals sig) \<longleftrightarrow> p \<in> set (keyword_only sig)"
  "(VarArgs, p) \<in> set (kinded_formals sig) \<longleftrightarrow> var_args sig = Some p"
  "(KeywordArgs, p) \<in> set (kinded_formals sig) \<longleftrightarrow> keyword_args sig = Some p"
  by (auto simp: kinded_formals_def split: option.splits)

text \<open>Who holds a named actual: the parameter of its name, or else the keyword leftovers.\<close>

lemma binds_call_holder:
  assumes binds: "binds_call accepts sig call env" and ok: "signature_ok accepts sig"
    and a: "a \<in> set (call_named call)"
  obtains (formal) c where "c \<in> set (env_cells env)" "cell_argument c = SuppliedNamed a"
      "named_name a = formal_name (cell_parameter c)" "cell_parameter c \<in> set (positional sig @ keyword_only sig)"
  | (leftover) c as where "c \<in> set (env_cells env)" "cell_argument c = BoundArgument.ResidualKeywords as" "a \<in> set as"
      "cell_kind c = KeywordArgs" "keyword_args sig = Some (cell_parameter c)"
      "named_name a \<notin> formal_name ` set (positional sig @ keyword_only sig)"
proof -
  from a binds_call_parts(4) [OF binds ok] obtain c where
    c: "c \<in> set (env_cells env)" "a \<in> set (supplied_named (cell_argument c))" by auto
  have adm: "admissible sig (cell_kind c) (cell_parameter c) (cell_argument c)"
    using binds c(1) by (simp add: binds_call_def Let_def)
  note kinded = binds_call_parts(3) [OF binds ok c(1)]
  show thesis
  proof (cases "cell_argument c")
    case (SuppliedNamed b)
    with c adm kinded show thesis by (intro formal [of c]) (auto simp: kinded_formals_iff)
  next
    case (ResidualKeywords as)
    with c adm kinded show thesis by (intro leftover [of c as]) (auto simp: kinded_formals_iff)
  qed (use c in auto)
qed

lemma binds_distinct_named:
  assumes binds: "binds_call accepts sig call env" and ok: "signature_ok accepts sig"
  shows "distinct (map named_name (call_named call))"
proof -
  let ?names = "\<lambda>c. map named_name (supplied_named (cell_argument c))"
  have adm: "admissible sig (cell_kind c) (cell_parameter c) (cell_argument c)" if "c \<in> set (env_cells env)" for c
    using binds that by (simp add: binds_call_def Let_def)
  let ?ordinary = "formal_name ` set (positional sig @ keyword_only sig)"
  note parts = binds_call_parts [OF binds ok]
  have shape: "set (?names c) \<subseteq> {formal_name (cell_parameter c)} \<inter> ?ordinary \<or>
      (cell_kind c = KeywordArgs \<and> set (?names c) \<inter> ?ordinary = {})"
    if "c \<in> set (env_cells env)" for c
    using adm [OF that] parts(3) [OF that] by (cases "cell_argument c") (auto simp: kinded_formals_iff)
  have "distinct (concat (map ?names (env_cells env)))"
  proof (rule distinct_concat_map)
    show "distinct (env_cells env)" by (rule parts)
    show "distinct (?names c)" if "c \<in> set (env_cells env)" for c
      using adm [OF that] by (cases "cell_argument c") auto
    show "set (?names c) \<inter> set (?names c') = {}"
      if c: "c \<in> set (env_cells env)" "c' \<in> set (env_cells env)" "c \<noteq> c'" for c c'
    proof -
      have diff: "formal_name (cell_parameter c) \<noteq> formal_name (cell_parameter c')"
        using parts(1) c by (metis comp_apply inj_onD)
      have "cell_parameter c = cell_parameter c'" if "cell_kind c = KeywordArgs" "cell_kind c' = KeywordArgs"
        using that parts(3) [OF c(1)] parts(3) [OF c(2)] by (simp add: kinded_formals_iff)
      with diff have "cell_kind c \<noteq> KeywordArgs \<or> cell_kind c' \<noteq> KeywordArgs" by auto
      with diff shape [OF c(1)] shape [OF c(2)] show ?thesis by blast
    qed
  qed
  moreover have "mset (map named_name (call_named call)) = mset (concat (map ?names (env_cells env)))"
  proof -
    have "mset (call_named call) = mset (concat (map supplied_named (map cell_argument (env_cells env))))"
      using binds by (simp add: binds_call_def Let_def)
    then have "mset (map named_name (call_named call)) =
        mset (map named_name (concat (map supplied_named (map cell_argument (env_cells env)))))"
      by simp
    then show ?thesis by (simp add: map_concat comp_def)
  qed
  ultimately show ?thesis by (metis mset_eq_imp_distinct_iff)
qed

lemma binds_named_argument:
  assumes binds: "binds_call accepts sig call env" and ok: "signature_ok accepts sig"
    and c: "c \<in> set (env_cells env)" "cell_parameter c \<in> set (positional sig @ keyword_only sig)"
  shows "find_named_actual (call_named call) (formal_name (cell_parameter c)) =
     (case cell_argument c of SuppliedNamed a \<Rightarrow> Some a | _ \<Rightarrow> None)"
proof (cases "find_named_actual (call_named call) (formal_name (cell_parameter c))")
  case (Some a)
  then have a: "a \<in> set (call_named call)" "named_name a = formal_name (cell_parameter c)"
    using find_named_actual_Some by blast+
  from binds ok a(1) show ?thesis
  proof (cases rule: binds_call_holder)
    case (formal c')
    then have "c' = c"
      using binds_call_parts(1) [OF binds ok] c(1) a(2) by (metis comp_apply inj_onD)
    with formal Some show ?thesis by simp
  next
    case (leftover c' as)
    then show ?thesis using a(2) c(2) by auto
  qed
next
  case None
  have "\<forall>a. cell_argument c \<noteq> SuppliedNamed a"
  proof (intro allI notI)
    fix a assume a: "cell_argument c = SuppliedNamed a"
    have "admissible sig (cell_kind c) (cell_parameter c) (cell_argument c)"
      using binds c(1) by (simp add: binds_call_def Let_def)
    moreover have "a \<in> set (call_named call)"
      using binds_call_parts(4) [OF binds ok] c(1) a by force
    ultimately show False using a None by (simp add: find_named_actual_None) (metis image_eqI)
  qed
  with None show ?thesis by (cases "cell_argument c") simp_all
qed

lemma signature_lengths:
  "length (kinded_formals sig) = length (positional_only sig) + length (positional sig) + length (keyword_only sig) +
     length (variadic_formals sig)"
  by (simp add: kinded_formals_def variadic_formals_def split: option.splits)

text \<open>Each leading cell holds the argument the binder computes for it.\<close>

lemma binds_leading_arguments:
  assumes binds: "binds_call accepts sig call env" and ok: "signature_ok accepts sig"
  shows "i < length (positional_only sig) \<Longrightarrow>
      positional_only_argument call i (positional_only sig ! i) = Some (cell_argument (env_cells env ! i))"
    and "i < length (positional sig) \<Longrightarrow>
      ordinary_argument call (length (positional_only sig) + i) (positional sig ! i) =
        Some (cell_argument (env_cells env ! (length (positional_only sig) + i)))"
    and "i < length (keyword_only sig) \<Longrightarrow>
      keyword_only_argument call (keyword_only sig ! i) =
        Some (cell_argument (env_cells env ! (length (positional_only sig) + length (positional sig) + i)))"
proof -
  let ?m = "length (positional_only sig)" and ?n = "length (positional sig)"
  have kinds: "map (\<lambda>c. (cell_kind c, cell_parameter c)) (env_cells env) = kinded_formals sig"
    using binds by (simp add: binds_call_def Let_def)
  then have len: "length (env_cells env) = length (kinded_formals sig)" by (metis length_map)
  have kind_at: "(cell_kind (env_cells env ! j), cell_parameter (env_cells env ! j)) = kinded_formals sig ! j"
    if "j < length (env_cells env)" for j
    using that kinds by (metis (mono_tags, lifting) nth_map)
  have slot: "cell_argument (env_cells env ! j) = SuppliedPositional a \<longleftrightarrow>
      j < length (call_positional call) \<and> a = call_positional call ! j"
    if "j < ?m + ?n" for j a
    using binds that len signature_lengths [of sig] by (simp add: binds_call_def Let_def)
  have filled: "cell_argument (env_cells env ! j) = SuppliedPositional (call_positional call ! j)"
    if "j < ?m + ?n" "j < length (call_positional call)" for j
    using slot [OF that(1)] that(2) by simp
  have unfilled: "cell_argument (env_cells env ! j) \<noteq> SuppliedPositional a"
    if "j < ?m + ?n" "\<not> j < length (call_positional call)" for j a
    using slot [OF that(1)] that(2) by simp
  have adm: "admissible sig (cell_kind (env_cells env ! j)) (cell_parameter (env_cells env ! j))
      (cell_argument (env_cells env ! j))" if "j < length (env_cells env)" for j
    using binds that by (simp add: binds_call_def Let_def)
  show "positional_only_argument call i (positional_only sig ! i) = Some (cell_argument (env_cells env ! i))"
    if i: "i < ?m" for i
  proof -
    have j: "i < length (env_cells env)" using i len signature_lengths [of sig] by simp
    have "kinded_formals sig ! i = (PositionalOnly, positional_only sig ! i)"
      using i by (simp add: kinded_formals_def nth_append)
    with adm [OF j] filled [of i] unfilled [of i] kind_at [OF j] i show ?thesis
      by (cases "i < length (call_positional call)"; cases "cell_argument (env_cells env ! i)")
         (auto simp: positional_only_argument_def get_positional_def)
  qed
  show "ordinary_argument call (?m + i) (positional sig ! i) = Some (cell_argument (env_cells env ! (?m + i)))"
    if i: "i < ?n" for i
  proof -
    have j: "?m + i < length (env_cells env)" using i len signature_lengths [of sig] by simp
    have at: "kinded_formals sig ! (?m + i) = (ParameterKind.Positional, positional sig ! i)"
      using i by (simp add: kinded_formals_def nth_append)
    have "find_named_actual (call_named call) (formal_name (positional sig ! i)) =
        (case cell_argument (env_cells env ! (?m + i)) of SuppliedNamed a \<Rightarrow> Some a | _ \<Rightarrow> None)"
      using binds_named_argument [OF binds ok nth_mem [OF j]] kind_at [OF j] at i by simp
    with adm [OF j] filled [of "?m + i"] unfilled [of "?m + i"] kind_at [OF j] at i show ?thesis
      by (cases "?m + i < length (call_positional call)"; cases "cell_argument (env_cells env ! (?m + i))")
         (auto simp: ordinary_argument_def get_positional_def)
  qed
  show "keyword_only_argument call (keyword_only sig ! i) = Some (cell_argument (env_cells env ! (?m + ?n + i)))"
    if i: "i < length (keyword_only sig)" for i
  proof -
    have j: "?m + ?n + i < length (env_cells env)" using i len signature_lengths [of sig] by simp
    have at: "kinded_formals sig ! (?m + ?n + i) = (KeywordOnly, keyword_only sig ! i)"
      using i by (simp add: kinded_formals_def nth_append)
    have "find_named_actual (call_named call) (formal_name (keyword_only sig ! i)) =
        (case cell_argument (env_cells env ! (?m + ?n + i)) of SuppliedNamed a \<Rightarrow> Some a | _ \<Rightarrow> None)"
      using binds_named_argument [OF binds ok nth_mem [OF j]] kind_at [OF j] at i by simp
    with adm [OF j] kind_at [OF j] at show ?thesis
      by (cases "cell_argument (env_cells env ! (?m + ?n + i))")
         (auto simp: keyword_only_argument_def)
  qed
qed

lemma cell_eq: "make_cell (cell_kind c) (cell_parameter c) (cell_argument c) = (c :: ('ty, 'val) BindingCell)"
  by (cases c) (simp add: make_cell_def)

lemma kinded_formals_nth:
  "i < length (positional_only sig) \<Longrightarrow> kinded_formals sig ! i = (PositionalOnly, positional_only sig ! i)"
  "i < length (positional sig) \<Longrightarrow>
     kinded_formals sig ! (length (positional_only sig) + i) = (ParameterKind.Positional, positional sig ! i)"
  "i < length (keyword_only sig) \<Longrightarrow>
     kinded_formals sig ! (length (positional_only sig) + length (positional sig) + i) = (KeywordOnly, keyword_only sig ! i)"
  by (simp_all add: kinded_formals_def nth_append)

lemma binds_leading_cells:
  assumes binds: "binds_call accepts sig call env" and ok: "signature_ok accepts sig"
  shows "take (length (positional_only sig) + length (positional sig) + length (keyword_only sig)) (env_cells env) =
     positional_only_cells sig call @ ordinary_cells sig call @ keyword_only_cells sig call"
proof (rule nth_equalityI)
  let ?m = "length (positional_only sig)" and ?n = "length (positional sig)" and ?k = "length (keyword_only sig)"
  have kinds: "map (\<lambda>c. (cell_kind c, cell_parameter c)) (env_cells env) = kinded_formals sig"
    using binds by (simp add: binds_call_def Let_def)
  then have len: "length (env_cells env) = length (kinded_formals sig)" by (metis length_map)
  then have le: "?m + ?n + ?k \<le> length (env_cells env)" using signature_lengths [of sig] by simp
  have at: "make_cell (fst (kinded_formals sig ! j)) (snd (kinded_formals sig ! j)) (cell_argument (env_cells env ! j)) =
      env_cells env ! j" if "j < length (env_cells env)" for j
  proof -
    have "kinded_formals sig ! j = (cell_kind (env_cells env ! j), cell_parameter (env_cells env ! j))"
      using that kinds by (metis (mono_tags, lifting) nth_map)
    then show ?thesis by (simp add: cell_eq)
  qed
  show "length (take (?m + ?n + ?k) (env_cells env)) =
      length (positional_only_cells sig call @ ordinary_cells sig call @ keyword_only_cells sig call)"
    using le by (simp add: positional_only_cells_def ordinary_cells_def keyword_only_cells_def)
  fix j assume "j < length (take (?m + ?n + ?k) (env_cells env))"
  then have j: "j < ?m + ?n + ?k" "j < length (env_cells env)" by simp_all
  note leading = binds_leading_arguments [OF binds ok]
  consider (po) "j < ?m" | (ord) i where "i < ?n" "j = ?m + i" | (kw) i where "i < ?k" "j = ?m + ?n + i"
    using j(1) by (metis add.assoc add_less_cancel_left le_add_diff_inverse linorder_not_less)
  then show "take (?m + ?n + ?k) (env_cells env) ! j =
      (positional_only_cells sig call @ ordinary_cells sig call @ keyword_only_cells sig call) ! j"
  proof cases
    case po
    with j leading(1) [OF po] at [OF j(2)] show ?thesis
      by (simp add: kinded_formals_nth nth_append positional_only_cells_def nth_enumerate_eq)
  next
    case ord
    with j leading(2) [OF ord(1)] at [OF j(2)] show ?thesis
      by (simp add: kinded_formals_nth nth_append positional_only_cells_def ordinary_cells_def nth_enumerate_eq)
  next
    case kw
    with j leading(3) [OF kw(1)] at [OF j(2)] show ?thesis
      by (simp add: kinded_formals_nth nth_append positional_only_cells_def ordinary_cells_def
          keyword_only_cells_def nth_enumerate_eq)
  qed
qed

lemma binds_residual_keywords:
  assumes binds: "binds_call accepts sig call env" and ok: "signature_ok accepts sig"
  shows "keyword_args sig = None \<Longrightarrow> extra_keywords sig call = []"
    and "c \<in> set (env_cells env) \<Longrightarrow> cell_kind c = KeywordArgs \<Longrightarrow>
      cell_argument c = BoundArgument.ResidualKeywords (extra_keywords sig call)"
proof -
  let ?ordinary = "formal_name ` set (positional sig @ keyword_only sig)"
  have held: "\<exists>c as. c \<in> set (env_cells env) \<and> cell_kind c = KeywordArgs \<and> a \<in> set as \<and>
      cell_argument c = BoundArgument.ResidualKeywords as \<and> keyword_args sig = Some (cell_parameter c)"
    if "a \<in> set (extra_keywords sig call)" for a
  proof -
    from that have a: "a \<in> set (call_named call)" "named_name a \<notin> ?ordinary" by (simp_all add: extra_keywords_def)
    from binds ok a(1) show ?thesis
    proof (cases rule: binds_call_holder)
      case (formal c)
      with a(2) show ?thesis by (metis image_eqI)
    next
      case (leftover c as)
      then show ?thesis by blast
    qed
  qed
  show "keyword_args sig = None \<Longrightarrow> extra_keywords sig call = []"
    using held by (metis last_in_set option.distinct(1))
  assume c: "c \<in> set (env_cells env)" "cell_kind c = KeywordArgs"
  have "admissible sig (cell_kind c) (cell_parameter c) (cell_argument c)"
    using binds c(1) by (simp add: binds_call_def Let_def)
  with c(2) obtain as where as: "cell_argument c = BoundArgument.ResidualKeywords as"
      "named_name ` set as \<inter> ?ordinary = {}"
    by (cases "cell_argument c") auto
  have order: "as = filter (\<lambda>a. a \<in> set as) (call_named call)"
  proof -
    have "BoundArgument.ResidualKeywords as \<in> set (map cell_argument (env_cells env))"
      unfolding as(1) [symmetric] using c(1) by simp
    with binds show ?thesis unfolding binds_call_def Let_def by blast
  qed
  have only: "c' = c" if "c' \<in> set (env_cells env)" "cell_kind c' = KeywordArgs" for c'
  proof -
    have "cell_parameter c' = cell_parameter c"
      using binds_call_parts(3) [OF binds ok that(1)] binds_call_parts(3) [OF binds ok c(1)] that(2) c(2)
      by (simp add: kinded_formals_iff)
    then show ?thesis using binds_call_parts(1) [OF binds ok] that(1) c(1) by (metis comp_apply inj_onD)
  qed
  have "a \<in> set as \<longleftrightarrow> named_name a \<notin> ?ordinary" if "a \<in> set (call_named call)" for a
  proof
    show "a \<in> set as \<Longrightarrow> named_name a \<notin> ?ordinary" using as(2) by blast
    assume "named_name a \<notin> ?ordinary"
    then have "a \<in> set (extra_keywords sig call)" using that by (simp add: extra_keywords_def)
    from held [OF this] only as(1) show "a \<in> set as" by auto
  qed
  then have "filter (\<lambda>a. a \<in> set as) (call_named call) = extra_keywords sig call"
    unfolding extra_keywords_def by (rule filter_cong [OF refl])
  with order as(1) show "cell_argument c = BoundArgument.ResidualKeywords (extra_keywords sig call)" by simp
qed

lemma binds_trailing_cells:
  assumes binds: "binds_call accepts sig call env" and ok: "signature_ok accepts sig"
  shows "drop (length (positional_only sig) + length (positional sig) + length (keyword_only sig)) (env_cells env) =
     var_args_cells sig call @ keyword_args_cells sig call \<and>
     (var_args sig = None \<longrightarrow> extra_positionals sig call = [])"
proof -
  let ?m = "length (positional_only sig)" and ?n = "length (positional sig)" and ?k = "length (keyword_only sig)"
  let ?rest = "drop (?m + ?n + ?k) (env_cells env)"
  let ?sp = "supplied_positionals \<circ> cell_argument"
  have "map (\<lambda>c. (cell_kind c, cell_parameter c)) ?rest = drop (?m + ?n + ?k) (kinded_formals sig)"
    using binds by (simp add: binds_call_def Let_def drop_map [symmetric])
  also have "\<dots> = (case var_args sig of None \<Rightarrow> [] | Some p \<Rightarrow> [(VarArgs, p)]) @
      (case keyword_args sig of None \<Rightarrow> [] | Some p \<Rightarrow> [(KeywordArgs, p)])"
    by (simp add: kinded_formals_def)
  finally obtain cv ck where rest: "?rest = cv @ ck"
    and cv: "map (\<lambda>c. (cell_kind c, cell_parameter c)) cv = (case var_args sig of None \<Rightarrow> [] | Some p \<Rightarrow> [(VarArgs, p)])"
    and ck: "map (\<lambda>c. (cell_kind c, cell_parameter c)) ck = (case keyword_args sig of None \<Rightarrow> [] | Some p \<Rightarrow> [(KeywordArgs, p)])"
    by (auto simp: map_eq_append_conv)
  have in_env: "set cv \<subseteq> set (env_cells env)" "set ck \<subseteq> set (env_cells env)"
    using set_drop_subset [of "?m + ?n + ?k" "env_cells env"] unfolding rest by auto
  have ck_cells: "ck = keyword_args_cells sig call"
  proof (cases "keyword_args sig")
    case None
    with ck show ?thesis by (simp add: keyword_args_cells_def)
  next
    case (Some p)
    with ck obtain c where c: "ck = [c]" "cell_kind c = KeywordArgs" "cell_parameter c = p" by auto
    with binds_residual_keywords(2) [OF binds ok _ c(2)] in_env(2) cell_eq [of c] Some show ?thesis
      by (simp add: keyword_args_cells_def)
  qed
  have "positional_only_argument call i (positional_only sig ! i) \<noteq> None" if "i < ?m" for i
    using binds_leading_arguments(1) [OF binds ok that] by simp
  moreover have "ordinary_argument call (?m + i) (positional sig ! i) \<noteq> None" if "i < ?n" for i
    using binds_leading_arguments(2) [OF binds ok that] by simp
  moreover have no_positionals: "?sp c = []" if "c \<in> set (keyword_only_cells sig call)" for c
  proof -
    from that obtain i where i: "i < ?k" "cell_argument c = the (keyword_only_argument call (keyword_only sig ! i))"
      unfolding in_cells by auto
    have "keyword_only_argument call (keyword_only sig ! i) \<noteq> None"
      using binds_leading_arguments(3) [OF binds ok i(1)] by simp
    with i(2) show ?thesis by (auto simp: keyword_only_argument_def split: option.splits)
  qed
  then have "concat (map ?sp (keyword_only_cells sig call)) = []" by simp
  ultimately have lead: "concat (map ?sp (take (?m + ?n + ?k) (env_cells env))) = take (?m + ?n) (call_positional call)"
    unfolding binds_leading_cells [OF binds ok] map_append concat_append
    by (simp add: positional_only_cells_positionals ordinary_cells_positionals take_take_drop
        del: concat_eq_Nil_conv)
  have "concat (map ?sp (env_cells env)) = call_positional call"
    using binds by (simp add: binds_call_def Let_def)
  then have "concat (map ?sp (take (?m + ?n + ?k) (env_cells env))) @ concat (map ?sp ?rest) = call_positional call"
    by (metis append_take_drop_id concat_append map_append)
  moreover have "concat (map ?sp ck) = []"
    by (auto simp: ck_cells keyword_args_cells_def split: option.splits)
  ultimately have "take (?m + ?n) (call_positional call) @ concat (map ?sp cv) = call_positional call"
    unfolding lead rest by simp
  then have sp_cv: "concat (map ?sp cv) = extra_positionals sig call"
    unfolding extra_positionals_def by (metis append_take_drop_id same_append_eq)
  show ?thesis
  proof (cases "var_args sig")
    case None
    with cv sp_cv rest ck_cells show ?thesis by (simp add: var_args_cells_def)
  next
    case (Some p)
    with cv obtain c where c: "cv = [c]" "cell_kind c = VarArgs" "cell_parameter c = p" by auto
    moreover have "admissible sig (cell_kind c) (cell_parameter c) (cell_argument c)"
      using binds in_env(1) c(1) by (simp add: binds_call_def Let_def)
    ultimately have "cell_argument c = BoundArgument.ResidualPositionals (extra_positionals sig call)"
      using sp_cv by (cases "cell_argument c") auto
    with c cell_eq [of c] Some rest ck_cells show ?thesis by (simp add: var_args_cells_def)
  qed
qed

text \<open>Binding is complete and deterministic: whatever binds the call is what the binder builds.\<close>

lemma binds_call_unique:
  assumes binds: "binds_call accepts sig call env" and ok: "signature_ok accepts sig"
  shows "env = environment_of sig call"
proof -
  have "env_cells env = env_cells (environment_of sig call)"
    using binds_leading_cells [OF binds ok] binds_trailing_cells [OF binds ok]
      append_take_drop_id [of "length (positional_only sig) + length (positional sig) + length (keyword_only sig)" "env_cells env"]
    by (simp add: environment_of_def)
  moreover have "env_evaluation_order env = env_evaluation_order (environment_of sig call)"
    using binds by (simp add: binds_call_def Let_def environment_of_def)
  ultimately show ?thesis by simp
qed

lemma binds_call_accepted:
  assumes binds: "binds_call accepts sig call env" and ok: "signature_ok accepts sig"
  shows "call_accepted accepts sig call"
proof -
  let ?m = "length (positional_only sig)" and ?n = "length (positional sig)"
  note env = binds_call_unique [OF binds ok]
  note leading = binds_leading_arguments [OF binds ok]
  have typed: "supplied_typed accepts (cell_parameter c) (cell_argument c)" if "c \<in> set (env_cells env)" for c
    using binds that by (simp add: binds_call_def Let_def)
  have po: "supplied_typed accepts (positional_only sig ! i) (the (positional_only_argument call i (positional_only sig ! i)))"
    if "i < ?m" for i
    using typed that unfolding env environment_cells Un_iff in_cells by (metis make_cell_simps(1,3))
  have ord: "supplied_typed accepts (positional sig ! i) (the (ordinary_argument call (?m + i) (positional sig ! i)))"
    if "i < ?n" for i
    using typed that unfolding env environment_cells Un_iff in_cells by (metis make_cell_simps(1,3))
  have kw: "supplied_typed accepts (keyword_only sig ! i) (the (keyword_only_argument call (keyword_only sig ! i)))"
    if "i < length (keyword_only sig)" for i
    using typed that unfolding env environment_cells Un_iff in_cells by (metis make_cell_simps(1,3))
  have va: "supplied_typed accepts p (BoundArgument.ResidualPositionals (extra_positionals sig call))"
    if "var_args sig = Some p" for p
    using typed that unfolding env environment_cells Un_iff in_cells by (metis make_cell_simps(1,3))
  have ka: "supplied_typed accepts p (BoundArgument.ResidualKeywords (extra_keywords sig call))"
    if "keyword_args sig = Some p" for p
    using typed that unfolding env environment_cells Un_iff in_cells by (metis make_cell_simps(1,3))
  have "formal_name (positional sig ! i) \<notin> named_name ` set (call_named call)"
    if i: "i < ?n" "?m + i < length (call_positional call)" for i
  proof -
    let ?c = "make_cell ParameterKind.Positional (positional sig ! i) (the (ordinary_argument call (?m + i) (positional sig ! i)))"
    have "?c \<in> set (env_cells env)" unfolding env environment_cells Un_iff in_cells using i(1) by blast
    from binds_named_argument [OF binds ok this] i
    have "find_named_actual (call_named call) (formal_name (positional sig ! i)) = None"
      by (simp add: ordinary_argument_def get_positional_def)
    then show ?thesis by (simp add: find_named_actual_None)
  qed
  with leading po ord kw va ka binds_distinct_named [OF binds ok] binds_trailing_cells [OF binds ok]
    binds_residual_keywords(1) [OF binds ok]
  show ?thesis
    unfolding call_accepted_def by (auto simp: pred_option_def)
qed

end
