(* ===== verification/Call_Binding_Properties.thy ===== *)
theory Call_Binding_Properties
  imports Call_Binding_Spec
begin

text \<open>
  The theorems about the call binder: soundness and completeness against \<open>binds_call\<close>,
  independence of the allocator, evaluation order, the requests it makes of the allocator, and what
  each of its errors says of the signature, the actuals, the call or the host.
\<close>

section \<open>Reliable allocators\<close>

text \<open>The contract of an allocator that serves every request up to a limit.\<close>

locale reliable_allocator =
  fixes allocate :: "'s allocator" and limit :: nat
  assumes grants: "requested \<le> limit \<Longrightarrow> fst (allocate site requested s)"
begin

definition agrees :: "('s, 'e, 'a) allocating \<Rightarrow> (unit, 'e, 'a) allocating \<Rightarrow> bool" where
  "agrees m m' \<longleftrightarrow> (\<forall>s. fst (m s) = fst (m' ()))"

lemma agrees_return: "agrees (alloc_return r) (alloc_return r)"
  by (simp add: agrees_def)

lemma agrees_allocate:
  "requested \<le> limit \<Longrightarrow> agrees (allocate_buffer allocate site requested) (allocate_buffer grant_all site requested)"
  using grants [of requested site]
  by (auto simp: agrees_def allocate_buffer_def grant_all_def split: prod.splits bool.splits)
     (metis fst_conv)

lemma agrees_bind:
  assumes "agrees m m'" and "\<And>x. fst (m' ()) = Inr x \<Longrightarrow> agrees (f x) (f' x)"
  shows "agrees (alloc_bind m f) (alloc_bind m' f')"
  unfolding agrees_def
proof
  fix s
  obtain r s' where m: "m s = (r, s')" by fastforce
  with assms(1) have "m' () = (r, ())" unfolding agrees_def by (metis fst_conv prod.collapse old.unit.exhaust)
  with m assms(2) show "fst (alloc_bind m f s) = fst (alloc_bind m' f' ())"
    by (cases r) (auto simp: alloc_bind_def agrees_def)
qed

lemma agrees_validate:
  assumes "length (formals sig) \<le> limit"
  shows "agrees (validate_signature sig accepts allocate) (validate_signature sig accepts grant_all)"
  unfolding validate_signature_def
  by (intro agrees_bind agrees_return agrees_allocate)
     (use assms in \<open>auto simp: signature_counts_Ok counts_of_def\<close>)

lemma agrees_expand:
  assumes "length items + receiver_count receiver \<le> limit"
    and "length (call_positional (expansion items receiver)) + length (call_named (expansion items receiver)) \<le> limit"
  shows "agrees (expand_actual_items_with_allocator items receiver allocate)
     (expand_actual_items_with_allocator items receiver grant_all)"
  unfolding expand_actual_items_with_allocator_def
proof (rule agrees_bind [OF agrees_return])
  fix x :: "nat \<times> nat"
  assume "fst (alloc_return (preflight_actual_items items (receiver \<noteq> None)) ()) = Inr x"
  then obtain n m where x: "x = (n, m)" and "n \<le> limit" "m \<le> limit"
    using assms by (cases x) (simp only: alloc_return_apply fst_conv preflight_Ok)
  then show "agrees
      (case x of (source_count, expanded_count) \<Rightarrow>
        alloc_bind (allocate_buffer allocate ExpandedPositionals expanded_count) (\<lambda>positional.
        alloc_bind (allocate_buffer allocate ExpandedNamed source_count) (\<lambda>named.
        alloc_bind (allocate_buffer allocate EvaluationOrder source_count) (\<lambda>evaluation_order.
          alloc_return (sticky_loop expand_item (enumerate 0 items)
            (push_receiver receiver \<lparr> call_positional = positional, call_named = named,
               call_evaluation_order = evaluation_order \<rparr>))))))
      (case x of (source_count, expanded_count) \<Rightarrow>
        alloc_bind (allocate_buffer grant_all ExpandedPositionals expanded_count) (\<lambda>positional.
        alloc_bind (allocate_buffer grant_all ExpandedNamed source_count) (\<lambda>named.
        alloc_bind (allocate_buffer grant_all EvaluationOrder source_count) (\<lambda>evaluation_order.
          alloc_return (sticky_loop expand_item (enumerate 0 items)
            (push_receiver receiver \<lparr> call_positional = positional, call_named = named,
               call_evaluation_order = evaluation_order \<rparr>))))))"
    unfolding x prod.case by (intro agrees_bind agrees_return agrees_allocate)
qed

lemma agrees_environment:
  assumes "length (formals sig) \<le> limit" and "length (call_positional call) \<le> limit" and "length (call_named call) \<le> limit"
  shows "agrees (canonical_environment sig call (counts_of sig) allocate)
     (canonical_environment sig call (counts_of sig) grant_all)"
proof -
  have var: "agrees (bind_var_args sig call (counts_of sig) allocate cells)
      (bind_var_args sig call (counts_of sig) grant_all cells)" for cells
    unfolding bind_var_args_def Let_def
    by (cases "var_args sig")
       (use assms(2) in \<open>auto intro!: agrees_return agrees_bind agrees_allocate\<close>)
  have kw: "agrees (bind_keyword_args sig call allocate cells) (bind_keyword_args sig call grant_all cells)" for cells
    unfolding bind_keyword_args_def Let_def
    by (cases "keyword_args sig")
       (use assms(3) in \<open>auto intro!: agrees_return agrees_bind agrees_allocate\<close>)
  show ?thesis
    unfolding canonical_environment_def
    by (intro agrees_bind agrees_return agrees_allocate var kw) (use assms(1) in \<open>simp add: counts_of_def\<close>)
qed

text \<open>Within the limit, the binder behaves as if every request were granted.\<close>

lemma bind_as_granted:
  assumes "length (formals sig) \<le> limit" and "length items + receiver_count receiver \<le> limit"
    and "length (call_positional (expansion items receiver)) + length (call_named (expansion items receiver)) \<le> limit"
  shows "fst (bind_call_with_relation sig items receiver accepts allocate s) =
     fst (bind_call_with_relation sig items receiver accepts grant_all ())"
proof -
  have "agrees (bind_call_with_relation sig items receiver accepts allocate)
      (bind_call_with_relation sig items receiver accepts grant_all)"
    unfolding bind_call_with_relation_def bind_expanded_call_with_def
    using assms
    by (intro agrees_bind agrees_return agrees_validate agrees_expand)
       (auto simp: validate_pure expand_pure intro: agrees_environment)
  then show ?thesis by (simp add: agrees_def)
qed

end

text \<open>A host that serves every request up to a budget.\<close>

definition budget_host :: "nat \<Rightarrow> 's host" where
  "budget_host budget element requested s = (requested \<le> budget, s)"

interpretation budgeted: reliable_allocator "system_allocator (budget_host budget)" budget for budget
  by unfold_locales (simp add: system_allocator_def budget_host_def)

section \<open>Example call\<close>

text \<open>
  \<^verbatim>\<open>def f(a, /, b, c=0, *rest, d, **extra)\<close> called as \<^verbatim>\<open>f(1, *(2, 3, 4), x=5, d=6)\<close>.
\<close>

definition int_value :: "nat \<Rightarrow> (string, nat) TypedValue" where
  "int_value n = \<lparr> type_tag = ''int'', tv_value = n \<rparr>"

definition int_formal :: "string \<Rightarrow> (string, nat) TypedValue option \<Rightarrow> (string, nat) FormalParameter" where
  "int_formal name default_given = \<lparr> formal_name = name, expected_type = ''int'', default_value = default_given \<rparr>"

definition sample_signature :: "(string, nat) CallSignature" where
  "sample_signature =
     \<lparr> positional_only = [int_formal ''a'' None],
       positional = [int_formal ''b'' None, int_formal ''c'' (Some (int_value 0))],
       keyword_only = [int_formal ''d'' None],
       var_args = Some (int_formal ''rest'' None), keyword_args = Some (int_formal ''extra'' None) \<rparr>"

definition sample_items :: "(string, nat) ActualItem list" where
  "sample_items =
     [ActualItem.Positional (int_value 1), ActualItem.FixedStar [int_value 2, int_value 3, int_value 4],
      ActualItem.Named ''x'' (int_value 5), ActualItem.Named ''d'' (int_value 6)]"

definition sample_environment :: "(string, nat) BindingEnvironment" where
  "sample_environment = environment_of sample_signature (expansion sample_items None)"

lemma sample_binds:
  "fst (bind_call_with (budget_host 9) sample_signature sample_items None (=) ()) = Ok sample_environment"
  unfolding sample_environment_def by code_simp

lemma sample_signature_ok: "signature_ok (=) sample_signature"
  by (simp add: signature_ok_def formals_def ordinary_formals_def variadic_formals_def default_ok_def
      sample_signature_def int_formal_def int_value_def usize_max_def)

lemma sample_expandable: "expandable sample_items (None :: (string, nat) Receiver option)"
  by (simp add: expandable_def sample_items_def expansion_def append_items_def push_receiver_def
      empty_call_def receiver_count_def usize_max_def)

section \<open>Soundness and completeness\<close>

lemma bind_any_allocator:
  "fst (bind_call_with_relation sig items receiver accepts allocate s) = Inr env \<Longrightarrow>
     fst (bind_call_with_relation sig items receiver accepts grant_all ()) = Inr env"
  using same_or_refused_relation [of sig items receiver accepts allocate]
  unfolding same_or_refused_def by (metis Inl_Inr_False)

text \<open>
  Property C1. Whatever the host grants, an environment the binder returns is one
  that binds the call: the signature is well formed, the actuals expand statically within the
  machine's counts, and every actual, default and leftover is where the declarative account puts it.
\<close>

theorem bind_call_sound:
  assumes "fst (bind_call_with host sig items receiver accepts s) = Ok env"
  shows "signature_ok accepts sig \<and> expandable items receiver \<and>
     binds_call accepts sig (expansion items receiver) env"
  using bind_any_allocator [OF assms [unfolded bind_call_with_def]] environment_binds
  unfolding bind_pure by blast

theorem bind_call_sound_witness:
  "binds_call (=) sample_signature (expansion sample_items None) sample_environment"
  using bind_call_sound [OF sample_binds] by simp

text \<open>
  Property C2. The binder misses no binding: when the host serves requests up to
  a limit that covers the parameters and the expanded actuals, any environment that binds a call
  on a well-formed signature is the one returned. Hence binding is deterministic and a call is
  refused only when nothing binds it.
\<close>

theorem bind_call_complete:
  assumes "\<And>element requested s. requested \<le> limit \<Longrightarrow> fst (host element requested s)"
    and "signature_ok accepts sig" and "expandable items receiver"
    and "binds_call accepts sig (expansion items receiver) env"
    and "length (formals sig) \<le> limit" and "length items + receiver_count receiver \<le> limit"
    and "length (call_positional (expansion items receiver)) + length (call_named (expansion items receiver)) \<le> limit"
  shows "fst (bind_call_with host sig items receiver accepts s) = Ok env"
proof -
  have "reliable_allocator (system_allocator host) limit"
    by unfold_locales (simp add: system_allocator_def assms(1))
  from reliable_allocator.bind_as_granted [OF this assms(5,6,7)] show ?thesis
    unfolding bind_call_with_def
    using assms(2,3) binds_call_accepted [OF assms(4,2)] binds_call_unique [OF assms(4,2)]
    by (simp add: bind_pure)
qed

theorem bind_call_complete_witness:
  "fst (bind_call_with (budget_host 9) sample_signature sample_items None (=) ()) = Ok sample_environment"
proof (rule bind_call_complete [where limit = 9])
  show "\<And>element requested s. requested \<le> 9 \<Longrightarrow> fst (budget_host 9 element requested (s :: unit))"
    by (simp add: budget_host_def)
  show "signature_ok (=) sample_signature" by (rule sample_signature_ok)
  show "expandable sample_items (None :: (string, nat) Receiver option)" by (rule sample_expandable)
  have "call_accepted (=) sample_signature (expansion sample_items None)"
    using bind_any_allocator [OF sample_binds [unfolded bind_call_with_def]] by (simp add: bind_pure)
  then show "binds_call (=) sample_signature (expansion sample_items None) sample_environment"
    unfolding sample_environment_def by (rule environment_binds [OF _ sample_signature_ok])
qed code_simp+

section \<open>Allocation\<close>

definition refused :: "('ty BindingError, 'a) result \<Rightarrow> bool" where
  "refused r \<longleftrightarrow> (case r of Inl (AllocationFailed _ _) \<Rightarrow> True | _ \<Rightarrow> False)"

lemma granted_or_refused:
  "refused (fst (bind_call_with host sig items receiver accepts s)) \<or>
   fst (bind_call_with host sig items receiver accepts s) =
     fst (bind_call_with_relation sig items receiver accepts grant_all ())"
  using same_or_refused_relation [of sig items receiver accepts "system_allocator host"]
  by (auto simp: same_or_refused_def bind_call_with_def refused_def)

text \<open>
  The allocator decides only whether the binder finishes: under
  two hosts, in any states, the results are equal unless one of them reports a refused buffer.
\<close>

theorem allocation_only_refuses:
  "refused (fst (bind_call_with host sig items receiver accepts s)) \<or>
   refused (fst (bind_call_with host' sig items receiver accepts s')) \<or>
   fst (bind_call_with host sig items receiver accepts s) =
     fst (bind_call_with host' sig items receiver accepts s')"
  using granted_or_refused [of host sig items receiver accepts s]
    granted_or_refused [of host' sig items receiver accepts s']
  by metis

text \<open>The requests of a run, recorded by an allocator that grants them all.\<close>

definition recording :: "(AllocationSite \<times> nat) list allocator" where
  "recording site requested tr = (True, tr @ [(site, requested)])"

definition planned_requests ::
  "('ty, 'val) CallSignature \<Rightarrow> ('ty, 'val) ExpandedCall \<Rightarrow> nat \<Rightarrow> (AllocationSite \<times> nat) list" where
  "planned_requests sig call source_count =
     [(SignatureNames, length (formals sig)),
      (ExpandedPositionals, length (call_positional call) + length (call_named call)),
      (ExpandedNamed, source_count), (EvaluationOrder, source_count),
      (BindingCells, length (formals sig))] @
     (if var_args sig = None then [] else [(AllocationSite.ResidualPositionals, length (extra_positionals sig call))]) @
     (if keyword_args sig = None then [] else [(AllocationSite.ResidualKeywords, length (call_named call))])"

lemma recording_allocate [simp]:
  "alloc_bind (allocate_buffer recording site requested) f tr = f [] (tr @ [(site, requested)])"
  by (simp add: alloc_bind_def allocate_buffer_def recording_def)

lemma recording_return [simp]:
  "alloc_bind (alloc_return r) f tr = (case r of Inl e \<Rightarrow> (Inl e, tr) | Inr x \<Rightarrow> f x tr)"
  by (simp add: alloc_bind_def)

lemma alloc_bind_run: "m s = (Inr x, s') \<Longrightarrow> alloc_bind m f s = f x s'"
  by (simp add: alloc_bind_def)

lemma counts_simps:
  "parameter_count (counts_of sig) = length (formals sig)"
  "positional_count (counts_of sig) = length (positional_only sig) + length (positional sig)"
  by (simp_all add: counts_of_def)

lemma alloc_bind_Ok:
  "alloc_bind m f s = (Inr y, s'') \<Longrightarrow> \<exists>x s'. m s = (Inr x, s') \<and> f x s' = (Inr y, s'')"
  by (auto simp: alloc_bind_def split: prod.splits sum.splits)

lemma recording_validate:
  "validate_signature sig accepts recording tr = (Inr counts, tr') \<Longrightarrow>
     counts = counts_of sig \<and> tr' = tr @ [(SignatureNames, length (formals sig))]"
  by (auto simp: validate_signature_def signature_counts_Ok counts_of_def split: sum.splits)

lemma recording_expand:
  "expand_actual_items_with_allocator items receiver recording tr = (Inr call, tr') \<Longrightarrow>
     call = expansion items receiver \<and>
     tr' = tr @ [(ExpandedPositionals, length (call_positional call) + length (call_named call)),
       (ExpandedNamed, length items + receiver_count receiver), (EvaluationOrder, length items + receiver_count receiver)]"
proof -
  assume run: "expand_actual_items_with_allocator items receiver recording tr = (Inr call, tr')"
  then obtain n m where pre: "preflight_actual_items items (receiver \<noteq> None) = Inr (n, m)"
    by (auto simp: expand_actual_items_with_allocator_def split: sum.splits)
  note nm = pre [unfolded preflight_Ok]
  from run pre have "sticky_loop expand_item (enumerate 0 items) (push_receiver receiver empty_call) = Inr call"
    and tr': "tr' = tr @ [(ExpandedPositionals, m), (ExpandedNamed, n), (EvaluationOrder, n)]"
    by (auto simp: expand_actual_items_with_allocator_def empty_call_def)
  then have "call = expansion items receiver" unfolding expand_loop expansion_def by simp
  with tr' nm show ?thesis by simp
qed

lemma recording_environment:
  "canonical_environment sig call (counts_of sig) recording tr = (Inr env, tr') \<Longrightarrow>
     tr' = tr @ (BindingCells, length (formals sig)) #
       (if var_args sig = None then [] else [(AllocationSite.ResidualPositionals, length (extra_positionals sig call))]) @
       (if keyword_args sig = None then [] else [(AllocationSite.ResidualKeywords, length (call_named call))])"
proof -
  have "bind_var_args sig call (counts_of sig) recording cells tr =
      (Inr (cells @ var_args_cells sig call),
       tr @ (if var_args sig = None then [] else [(AllocationSite.ResidualPositionals, length (extra_positionals sig call))]))"
    for cells tr
    by (auto simp: bind_var_args_def var_args_cells_def counts_of_def residual_map extra_positionals_def
        make_cell_def Let_def split: option.splits)
  note var = alloc_bind_run [OF this]
  have "filter (\<lambda>a. \<not> ordinary_parameter_name sig (named_name a)) (call_named call) = extra_keywords sig call"
    by (simp add: extra_keywords_def ordinary_parameter_name_iff)
  then have "bind_keyword_args sig call recording cells tr =
      (Inr (cells @ keyword_args_cells sig call),
       tr @ (if keyword_args sig = None then [] else [(AllocationSite.ResidualKeywords, length (call_named call))]))"
    for cells tr
    using residual_fold [of "\<lambda>a. \<not> ordinary_parameter_name sig (named_name a)" "[]" "call_named call"]
    by (auto simp: bind_keyword_args_def keyword_args_cells_def make_cell_def Let_def split: option.splits)
  note kw = alloc_bind_run [OF this]
  assume "canonical_environment sig call (counts_of sig) recording tr = (Inr env, tr')"
  then show ?thesis
    unfolding canonical_environment_def var kw recording_allocate recording_return alloc_return_apply counts_simps
    by (auto split: sum.splits)
qed

lemma environment_length: "length (env_cells (environment_of sig call)) = length (formals sig)"
  by (metis environment_formals kinded_formals_formals length_map)

lemma expansion_lengths:
  "length (call_named (expansion items receiver)) \<le> length items + receiver_count receiver"
  "length (call_evaluation_order (expansion items receiver)) \<le> length items + receiver_count receiver"
proof -
  have "length (concat (map item_named xs)) \<le> length xs" "length (concat (map item_events xs)) \<le> length xs"
    for xs :: "(nat \<times> ('ty, 'val) ActualItem) list"
  proof (induction xs)
    case (Cons x xs)
    have "length (item_named x) \<le> 1" "length (item_events x) \<le> 1"
      by (cases x rule: item_named.cases; simp; fail) (cases x rule: item_events.cases; simp; fail)
    with Cons show "length (concat (map item_named (x # xs))) \<le> length (x # xs)"
      "length (concat (map item_events (x # xs))) \<le> length (x # xs)"
      by simp_all
  qed simp_all
  from this [of "enumerate 0 items"]
  show "length (call_named (expansion items receiver)) \<le> length items + receiver_count receiver"
    "length (call_evaluation_order (expansion items receiver)) \<le> length items + receiver_count receiver"
    by (simp_all add: expansion_def append_items_def)
qed

text \<open>
  Property C31. A successful binding asks for its buffers in a fixed order and for
  sizes known beforehand, and nothing it stores outgrows what it asked for: the cells, events and
  keyword leftovers fit the capacities requested for them, so no buffer is ever reallocated.
\<close>

theorem allocation_plan:
  assumes "bind_call_with_relation sig items receiver accepts recording tr = (Ok env, tr')"
  shows "tr' = tr @ planned_requests sig (expansion items receiver) (length items + receiver_count receiver) \<and>
    length (env_cells env) = length (formals sig) \<and>
    length (env_evaluation_order env) \<le> length items + receiver_count receiver \<and>
    length (call_named (expansion items receiver)) \<le> length items + receiver_count receiver \<and>
    length (extra_keywords sig (expansion items receiver)) \<le> length (call_named (expansion items receiver))"
proof -
  from assms obtain counts call tr1 tr2 where
    validated: "validate_signature sig accepts recording tr = (Inr counts, tr1)"
    and expanded: "expand_actual_items_with_allocator items receiver recording tr1 = (Inr call, tr2)"
    and bound: "canonical_environment sig call counts recording tr2 = (Inr env, tr')"
    unfolding bind_call_with_relation_def bind_expanded_call_with_def
    by (auto dest!: alloc_bind_Ok split: sum.splits)
  have counts: "counts = counts_of sig" and call: "call = expansion items receiver"
    using recording_validate [OF validated] recording_expand [OF expanded] by simp_all
  have "fst (bind_call_with_relation sig items receiver accepts grant_all ()) = Inr env"
    using bind_any_allocator [of sig items receiver accepts recording tr] assms by simp
  then have env: "env = environment_of sig (expansion items receiver)" by (simp add: bind_pure)
  show ?thesis
    using recording_validate [OF validated] recording_expand [OF expanded]
      recording_environment [OF bound [unfolded counts call]] call
      environment_length [of sig] expansion_lengths [of items receiver]
    unfolding env planned_requests_def extra_keywords_def
    by (auto simp: environment_of_def)
qed

theorem allocation_plan_witness:
  "\<exists>env. bind_call_with_relation sample_signature sample_items None (=) recording [] =
     (Ok env, [(SignatureNames, 6), (ExpandedPositionals, 6), (ExpandedNamed, 4), (EvaluationOrder, 4),
       (BindingCells, 6), (AllocationSite.ResidualPositionals, 1), (AllocationSite.ResidualKeywords, 2)])"
proof -
  have "fst (bind_call_with_relation sample_signature sample_items None (=) recording []) = Ok sample_environment"
    unfolding sample_environment_def by code_simp
  then obtain tr' where run: "bind_call_with_relation sample_signature sample_items None (=) recording [] =
      (Ok sample_environment, tr')" by (metis prod.collapse)
  have "planned_requests sample_signature (expansion sample_items (None :: (string, nat) Receiver option)) 4 =
      [(SignatureNames, 6), (ExpandedPositionals, 6), (ExpandedNamed, 4), (EvaluationOrder, 4),
       (BindingCells, 6), (AllocationSite.ResidualPositionals, 1), (AllocationSite.ResidualKeywords, 2)]"
    by code_simp
  moreover have "length sample_items + receiver_count (None :: (string, nat) Receiver option) = 4"
    by code_simp
  ultimately show ?thesis using allocation_plan [OF run] run by auto
qed

declare recording_return [simp del]

section \<open>Evaluation order\<close>

lemma less_position_simps [simp]:
  "EvaluationPosition.Receiver < Actual i j"
  "Actual i j < Actual k l \<longleftrightarrow> i < k \<or> (i = k \<and> j < l)"
  by (simp_all add: less_EvaluationPosition_def)

lemma item_positions:
  "sorted_wrt (<) (map pos_position (item_positionals (i, item)))"
  "a \<in> set (item_positionals (i, item)) \<Longrightarrow> \<exists>j. pos_position a = Actual i j"
  "sorted_wrt (<) (map named_position (item_named (i, item)))"
  "b \<in> set (item_named (i, item)) \<Longrightarrow> named_position b = Actual i 0"
  "a \<in> set (item_positionals (i, item)) \<Longrightarrow> b \<in> set (item_named (i, item)) \<Longrightarrow> False"
  by (cases item; auto simp: sorted_wrt_iff_nth_less nth_enumerate_eq in_set_enumerate_eq)+

lemma items_positions:
  fixes items :: "('ty, 'val) ActualItem list"
  shows "sorted_wrt (<) (map pos_position (concat (map item_positionals (enumerate n items)))) \<and>
    sorted_wrt (<) (map named_position (concat (map item_named (enumerate n items)))) \<and>
    (\<forall>a \<in> set (concat (map item_positionals (enumerate n items))). \<exists>i j. n \<le> i \<and> pos_position a = Actual i j) \<and>
    (\<forall>b \<in> set (concat (map item_named (enumerate n items))). \<exists>i. n \<le> i \<and> named_position b = Actual i 0) \<and>
    pos_position ` set (concat (map item_positionals (enumerate n items))) \<inter>
      named_position ` set (concat (map item_named (enumerate n items))) = {}"
proof (induction items arbitrary: n)
  case Nil
  then show ?case by simp
next
  case (Cons item items)
  let ?P = "concat (map item_positionals (enumerate (Suc n) items))"
  let ?N = "concat (map item_named (enumerate (Suc n) items))"
  note IH = Cons.IH [of "Suc n"]
  have later: "\<exists>i j. n < i \<and> pos_position a = Actual i j" if "a \<in> set ?P" for a
    using IH that by (meson Suc_le_eq)
  have later_named: "\<exists>i. n < i \<and> named_position b = Actual i 0" if "b \<in> set ?N" for b
    using IH that by (meson Suc_le_eq)
  have here: "\<exists>j. pos_position a = Actual n j" if "a \<in> set (item_positionals (n, item))" for a
    using item_positions(2) [OF that] .
  have here_named: "named_position b = Actual n 0" if "b \<in> set (item_named (n, item))" for b
    using item_positions(4) [OF that] .
  have "sorted_wrt (<) (map pos_position (item_positionals (n, item) @ ?P))"
    unfolding map_append sorted_wrt_append
    using item_positions(1) IH here later by fastforce
  moreover have "sorted_wrt (<) (map named_position (item_named (n, item) @ ?N))"
    unfolding map_append sorted_wrt_append
    using item_positions(3) IH here_named later_named by fastforce
  moreover have "pos_position ` set (item_positionals (n, item) @ ?P) \<inter>
      named_position ` set (item_named (n, item) @ ?N) = {}"
  proof -
    have "pos_position a \<noteq> named_position b"
      if "a \<in> set (item_positionals (n, item) @ ?P)" "b \<in> set (item_named (n, item) @ ?N)" for a b
    proof -
      have "a \<in> set (item_positionals (n, item)) \<Longrightarrow> b \<in> set ?N \<Longrightarrow> ?thesis"
        using here [of a] later_named [of b] by auto
      moreover have "a \<in> set ?P \<Longrightarrow> b \<in> set (item_named (n, item)) \<Longrightarrow> ?thesis"
        using later [of a] here_named [of b] by auto
      moreover have "a \<in> set ?P \<Longrightarrow> b \<in> set ?N \<Longrightarrow> ?thesis" using IH by blast
      moreover have "a \<in> set (item_positionals (n, item)) \<Longrightarrow> b \<in> set (item_named (n, item)) \<Longrightarrow> ?thesis"
        using item_positions(5) by blast
      ultimately show ?thesis using that by auto
    qed
    then show ?thesis by blast
  qed
  moreover have "\<exists>i j. n \<le> i \<and> pos_position a = Actual i j" if "a \<in> set (item_positionals (n, item) @ ?P)" for a
    using that here [of a] later [of a] unfolding set_append Un_iff by (metis less_imp_le order_refl)
  moreover have "\<exists>i. n \<le> i \<and> named_position b = Actual i 0" if "b \<in> set (item_named (n, item) @ ?N)" for b
    using that here_named [of b] later_named [of b] unfolding set_append Un_iff by (metis less_imp_le order_refl)
  ultimately show ?case by simp
qed

lemma disjoint_cons: "r \<subseteq> {x} \<Longrightarrow> x \<notin> n \<Longrightarrow> p \<inter> n = {} \<Longrightarrow> (r \<union> p) \<inter> n = {}"
  by blast

lemma expansion_positions:
  "sorted_wrt (<) (map pos_position (call_positional (expansion items receiver)))"
  "sorted_wrt (<) (map named_position (call_named (expansion items receiver)))"
  "pos_position ` set (call_positional (expansion items receiver)) \<inter>
     named_position ` set (call_named (expansion items receiver)) = {}"
proof -
  let ?P = "concat (map item_positionals (enumerate 0 items))" and ?N = "concat (map item_named (enumerate 0 items))"
  let ?R = "call_positional (push_receiver receiver empty_call)"
  note positions = items_positions [of 0 items]
  have named: "call_named (expansion items receiver) = ?N"
    and pos: "call_positional (expansion items receiver) = ?R @ ?P"
    by (simp_all add: expansion_def append_items_def)
  have recv: "?R = [] \<or> (\<exists>r. ?R = [r] \<and> pos_position r = EvaluationPosition.Receiver)"
    by (cases receiver) (auto simp: push_receiver_def empty_call_def)
  then have recv_positions: "pos_position ` set ?R \<subseteq> {EvaluationPosition.Receiver}" by auto
  show "sorted_wrt (<) (map named_position (call_named (expansion items receiver)))"
    unfolding named using positions by blast
  have "EvaluationPosition.Receiver < p" if "p \<in> pos_position ` set ?P" for p
    using positions that by fastforce
  moreover have "sorted_wrt (<) (map pos_position ?P)" using positions by blast
  ultimately show "sorted_wrt (<) (map pos_position (call_positional (expansion items receiver)))"
    unfolding pos using recv by (auto simp del: map_concat)
  have "EvaluationPosition.Receiver \<notin> named_position ` set ?N"
    using positions by fastforce
  moreover have "pos_position ` set ?P \<inter> named_position ` set ?N = {}" using positions by blast
  ultimately show "pos_position ` set (call_positional (expansion items receiver)) \<inter>
      named_position ` set (call_named (expansion items receiver)) = {}"
    unfolding pos named set_append image_Un by (rule disjoint_cons [OF recv_positions])
qed

lemma item_events_length: "static_item item \<Longrightarrow> length (item_events (i, item)) = 1"
  by (cases item) auto

lemma expansion_events_length:
  "\<forall>item \<in> set items. static_item item \<Longrightarrow>
     length (call_evaluation_order (expansion items receiver)) = length items + receiver_count receiver"
proof -
  assume "\<forall>item \<in> set items. static_item item"
  then have "length (concat (map item_events (enumerate n items))) = length items" for n
    by (induction items arbitrary: n) (simp_all add: item_events_length)
  then show ?thesis by (simp add: expansion_def append_items_def)
qed

text \<open>
  Property C22. Binding keeps source order: the environment lists one
  evaluation event per source expression, the receiver first and the items in order; the
  positional actuals held by the cells, read in formal order, are in strictly increasing source
  position, so are the keyword leftovers, and no two actuals share a position.
\<close>

theorem evaluation_order_kept:
  assumes "fst (bind_call_with host sig items receiver accepts s) = Ok env"
  shows "env_evaluation_order env =
      (if receiver = None then [] else [EvaluationEvent.Receiver]) @ concat (map item_events (enumerate 0 items)) \<and>
    length (env_evaluation_order env) = length items + receiver_count receiver \<and>
    sorted_wrt (<) (map pos_position (concat (map (supplied_positionals \<circ> cell_argument) (env_cells env)))) \<and>
    distinct (map pos_position (concat (map (supplied_positionals \<circ> cell_argument) (env_cells env))) @
      map named_position (concat (map (supplied_named \<circ> cell_argument) (env_cells env)))) \<and>
    (\<forall>c \<in> set (env_cells env). \<forall>as. cell_argument c = BoundArgument.ResidualKeywords as \<longrightarrow>
      sorted_wrt (<) (map named_position as))"
proof -
  let ?call = "expansion items receiver"
  from bind_call_sound [OF assms] have ok: "signature_ok accepts sig" "expandable items receiver"
    and binds: "binds_call accepts sig ?call env" by simp_all
  have env: "env_evaluation_order env = call_evaluation_order ?call"
    and pos: "concat (map (supplied_positionals \<circ> cell_argument) (env_cells env)) = call_positional ?call"
    and named: "mset (concat (map (supplied_named \<circ> cell_argument) (env_cells env))) = mset (call_named ?call)"
    using binds by (simp_all add: binds_call_def Let_def)
  have events: "env_evaluation_order env =
      (if receiver = None then [] else [EvaluationEvent.Receiver]) @ concat (map item_events (enumerate 0 items))"
    unfolding env by (cases receiver) (simp_all add: expansion_def append_items_def push_receiver_def empty_call_def)
  have len: "length (env_evaluation_order env) = length items + receiver_count receiver"
    unfolding env using ok(2) by (intro expansion_events_length) (simp add: expandable_def)
  have "mset (map named_position (concat (map (supplied_named \<circ> cell_argument) (env_cells env)))) =
      mset (map named_position (call_named ?call))"
    using named by simp
  moreover have "distinct (map named_position (call_named ?call))"
    using expansion_positions(2) strict_sorted_iff by blast
  ultimately have distinct_named: "distinct (map named_position (concat (map (supplied_named \<circ> cell_argument) (env_cells env))))"
    by (metis mset_eq_imp_distinct_iff)
  have "distinct (map pos_position (call_positional ?call))"
    using expansion_positions(1) strict_sorted_iff by blast
  moreover have "named_position ` set (concat (map (supplied_named \<circ> cell_argument) (env_cells env))) =
      named_position ` set (call_named ?call)"
    using mset_eq_setD [OF named] by simp
  ultimately have all_distinct: "distinct (map pos_position (concat (map (supplied_positionals \<circ> cell_argument) (env_cells env))) @
      map named_position (concat (map (supplied_named \<circ> cell_argument) (env_cells env))))"
    unfolding pos distinct_append using distinct_named expansion_positions(3) [of items receiver]
    by (simp only: set_map)
  have "sorted_wrt (<) (map named_position as)"
    if c: "c \<in> set (env_cells env)" "cell_argument c = BoundArgument.ResidualKeywords as" for c as
  proof -
    have "BoundArgument.ResidualKeywords as \<in> set (map cell_argument (env_cells env))"
      unfolding c(2) [symmetric] using c(1) by simp
    with binds have "as = filter (\<lambda>a. a \<in> set as) (call_named ?call)"
      unfolding binds_call_def Let_def by blast
    with expansion_positions(2) [of items receiver] show ?thesis
      by (metis sorted_wrt_filter sorted_wrt_map)
  qed
  with events len all_distinct expansion_positions(1) [of items receiver] show ?thesis
    unfolding pos by blast
qed

theorem evaluation_order_kept_witness:
  "env_evaluation_order sample_environment =
     [EvaluationEvent.Positional 0, EvaluationEvent.FixedStar 1 3, EvaluationEvent.Named 2 ''x'', EvaluationEvent.Named 3 ''d'']"
  using evaluation_order_kept [OF sample_binds] by (simp add: sample_items_def)

section \<open>Errors\<close>

datatype ErrorPhase = SignaturePhase | ExpansionPhase | CallPhase | AllocationPhase

fun error_phase :: "'ty BindingError \<Rightarrow> ErrorPhase" where
  "error_phase (BindingError.MalformedSignature _) = SignaturePhase"
| "error_phase (DynamicStarUnsupported _) = ExpansionPhase"
| "error_phase (KeywordMappingUnsupported _) = ExpansionPhase"
| "error_phase (SourceExpressionCountOverflow _ _) = ExpansionPhase"
| "error_phase (ExpandedArgumentCountOverflow _ _ _) = ExpansionPhase"
| "error_phase (AllocationFailed _ _) = AllocationPhase"
| "error_phase _ = CallPhase"

text \<open>What a call error claims about the call.\<close>

fun explains :: "'ty compatibility \<Rightarrow> ('ty, 'val) CallSignature \<Rightarrow> ('ty, 'val) ExpandedCall \<Rightarrow> 'ty BindingError \<Rightarrow> bool" where
  "explains accepts sig call (DuplicateNamedArgument name) \<longleftrightarrow>
     (\<exists>j < length (call_named call). \<exists>i < j. named_name (call_named call ! i) = name \<and> named_name (call_named call ! j) = name)"
| "explains accepts sig call (DuplicateBinding name) \<longleftrightarrow>
     (\<exists>i < length (positional sig). formal_name (positional sig ! i) = name \<and>
        length (positional_only sig) + i < length (call_positional call) \<and> name \<in> named_name ` set (call_named call))"
| "explains accepts sig call (TooManyPositionals expected actual) \<longleftrightarrow>
     var_args sig = None \<and> expected = length (positional_only sig) + length (positional sig) \<and>
     actual = length (call_positional call) \<and> expected < actual"
| "explains accepts sig call (UnexpectedKeyword name) \<longleftrightarrow>
     keyword_args sig = None \<and> name \<in> named_name ` set (call_named call) \<and>
     name \<notin> formal_name ` set (positional sig @ keyword_only sig)"
| "explains accepts sig call (MissingRequiredArgument name) \<longleftrightarrow>
     (\<exists>i < length (positional_only sig). formal_name (positional_only sig ! i) = name \<and>
        default_value (positional_only sig ! i) = None \<and> length (call_positional call) \<le> i) \<or>
     (\<exists>i < length (positional sig). formal_name (positional sig ! i) = name \<and>
        default_value (positional sig ! i) = None \<and> name \<notin> named_name ` set (call_named call) \<and>
        length (call_positional call) \<le> length (positional_only sig) + i) \<or>
     (\<exists>i < length (keyword_only sig). formal_name (keyword_only sig ! i) = name \<and>
        default_value (keyword_only sig ! i) = None \<and> name \<notin> named_name ` set (call_named call))"
| "explains accepts sig call (TypeMismatch name expected actual position) \<longleftrightarrow>
     \<not> accepts expected actual \<and>
     ((\<exists>(p, a) \<in> set (zip (positional_only sig @ positional sig) (call_positional call)).
         name = formal_name p \<and> expected = expected_type p \<and>
         actual = type_tag (pos_value a) \<and> position = Some (pos_position a)) \<or>
      (\<exists>p \<in> set (positional sig @ keyword_only sig). \<exists>a \<in> set (call_named call).
         name = formal_name p \<and> expected = expected_type p \<and> named_name a = name \<and>
         actual = type_tag (named_value a) \<and> position = Some (named_position a)) \<or>
      (\<exists>p. var_args sig = Some p \<and> name = formal_name p \<and> expected = expected_type p \<and>
         (\<exists>a \<in> set (extra_positionals sig call).
            actual = type_tag (pos_value a) \<and> position = Some (pos_position a))) \<or>
      (\<exists>p. keyword_args sig = Some p \<and> name = formal_name p \<and> expected = expected_type p \<and>
         (\<exists>a \<in> set (extra_keywords sig call).
            actual = type_tag (named_value a) \<and> position = Some (named_position a))))"
| "explains accepts sig call _ \<longleftrightarrow> False"

lemma fail_with_Err [simp]: "fail_with e = Inl x \<longleftrightarrow> e = Some x"
  by (simp add: fail_with_def split: option.splits)

lemma duplicate_named_explained:
  assumes "first_duplicate_named_actual (call_named call) = Some name"
  shows "explains accepts sig call (DuplicateNamedArgument name)"
proof -
  from assms obtain j i where "j < length (call_named call)" "name = named_name (call_named call ! j)"
    "i < j" "named_name (call_named call ! i) = named_name (call_named call ! j)"
    unfolding first_duplicate_named_actual_def Let_def scan_from_found_iff
    by (auto dest!: scan_from_option_Some)
  then show ?thesis by auto
qed

lemma duplicate_binding_explained:
  "first_duplicate_binding sig call = Some e \<Longrightarrow> error_phase e = CallPhase \<and> explains accepts sig call e"
  unfolding first_duplicate_binding_def Let_def named_actual_index_bounds
  by (drule scan_from_option_Some) auto

lemma missing_explained:
  assumes "first_missing_required_argument sig call = Some e"
  shows "error_phase e = CallPhase \<and> explains accepts sig call e"
proof -
  have po: "explains accepts sig call e \<and> error_phase e = CallPhase"
    if "first_missing_positional_only sig call = Some e"
    using that unfolding first_missing_positional_only_def Let_def
    by (auto dest!: scan_from_option_Some)
  have ord: "explains accepts sig call e \<and> error_phase e = CallPhase"
    if "first_missing_ordinary sig call = Some e"
    using that unfolding first_missing_ordinary_def Let_def named_actual_index_bounds
    by (auto dest!: scan_from_option_Some)
  have kw: "explains accepts sig call e \<and> error_phase e = CallPhase"
    if "first_missing_keyword_only sig call = Some e"
    using that unfolding first_missing_keyword_only_def Let_def named_actual_index_bounds
    by (auto dest!: scan_from_option_Some)
  show ?thesis
    using assms po ord kw unfolding first_missing_required_argument_def Let_def by (auto split: if_splits)
qed

lemma positional_mismatch_explained:
  assumes "i < length (positional_only sig) + length (positional sig)" "i < length (call_positional call)"
    and "p = (positional_only sig @ positional sig) ! i"
    and "\<not> accepts (expected_type p) (type_tag (pos_value (call_positional call ! i)))"
    and "e = positional_mismatch p (call_positional call ! i)"
  shows "error_phase e = CallPhase \<and> explains accepts sig call e"
proof -
  have "(p, call_positional call ! i) \<in> set (zip (positional_only sig @ positional sig) (call_positional call))"
    using assms(1-3) by (auto simp: set_zip)
  with assms(4,5) show ?thesis
    by (auto simp: positional_mismatch_def simp del: zip_append1 zip_append2 intro!: bexI)
qed

lemma named_mismatch_explained:
  assumes "p \<in> set (positional sig @ keyword_only sig)"
    and "i = named_actual_index (call_named call) (formal_name p)" "i < length (call_named call)"
    and "\<not> accepts (expected_type p) (type_tag (named_value (call_named call ! i)))"
    and "e = named_mismatch p (call_named call ! i)"
  shows "error_phase e = CallPhase \<and> explains accepts sig call e"
proof -
  have "named_name (call_named call ! i) = formal_name p" "call_named call ! i \<in> set (call_named call)"
    using assms(2,3) named_actual_index_bounds(1,3) find_named_actual_Some by metis+
  with assms(1,4,5) show ?thesis by (auto simp: named_mismatch_def)
qed

lemma positional_only_type_explained:
  assumes "first_positional_only_type_mismatch sig call accepts = Some e"
  shows "error_phase e = CallPhase \<and> explains accepts sig call e"
proof -
  from assms obtain i where "i < length (positional_only sig)" "i < length (call_positional call)"
    "\<not> accepts (expected_type (positional_only sig ! i)) (type_tag (pos_value (call_positional call ! i)))"
    "e = positional_mismatch (positional_only sig ! i) (call_positional call ! i)"
    unfolding first_positional_only_type_mismatch_def Let_def by (auto dest!: scan_from_option_Some)
  then show ?thesis
    by (intro positional_mismatch_explained [of i]) (auto simp: nth_append)
qed

lemma ordinary_type_explained:
  assumes "first_ordinary_type_mismatch sig call accepts = Some e"
  shows "error_phase e = CallPhase \<and> explains accepts sig call e"
proof -
  let ?o = "\<lambda>i. ordinary_actual_mismatch (positional sig ! i) call (length (positional_only sig) + i) accepts"
  from assms obtain j where scan: "scan_from (\<lambda>i. fst (?o i)) (length (positional sig)) 0 False = (j, True)"
    and e: "e = (case ?o (j - 1) of (_, actual_index, supplied_by_name) \<Rightarrow>
        if supplied_by_name then named_mismatch (positional sig ! (j - 1)) (call_named call ! actual_index)
        else positional_mismatch (positional sig ! (j - 1)) (call_positional call ! actual_index))"
    unfolding first_ordinary_type_mismatch_def Let_def by (auto split: prod.splits if_splits)
  from scan_from_foundD [OF scan] obtain i where i: "j = Suc i" "i < length (positional sig)" "fst (?o i)" by auto
  let ?p = "positional sig ! i" and ?n = "named_actual_index (call_named call) (formal_name (positional sig ! i))"
  from i(3) consider
      (pos) "length (positional_only sig) + i < length (call_positional call)"
        "\<not> accepts (expected_type ?p) (type_tag (pos_value (call_positional call ! (length (positional_only sig) + i))))"
        "e = positional_mismatch ?p (call_positional call ! (length (positional_only sig) + i))"
    | (named) "?n < length (call_named call)"
        "\<not> accepts (expected_type ?p) (type_tag (named_value (call_named call ! ?n)))"
        "e = named_mismatch ?p (call_named call ! ?n)"
    using e i(1) by (auto simp: ordinary_actual_mismatch_def Let_def split: if_splits)
  then show ?thesis
  proof cases
    case pos
    then show ?thesis
      using i(2) by (intro positional_mismatch_explained [of "length (positional_only sig) + i"]) auto
  next
    case named
    then show ?thesis using i(2) by (intro named_mismatch_explained) auto
  qed
qed

lemma keyword_only_type_explained:
  assumes "first_keyword_only_type_mismatch sig call accepts = Some e"
  shows "error_phase e = CallPhase \<and> explains accepts sig call e"
proof -
  let ?n = "\<lambda>i. named_actual_index (call_named call) (formal_name (keyword_only sig ! i))"
  from assms obtain i where "i < length (keyword_only sig)" "?n i < length (call_named call)"
    "\<not> accepts (expected_type (keyword_only sig ! i)) (type_tag (named_value (call_named call ! ?n i)))"
    "e = named_mismatch (keyword_only sig ! i) (call_named call ! ?n i)"
    unfolding first_keyword_only_type_mismatch_def Let_def by (auto dest!: scan_from_option_Some)
  then show ?thesis by (intro named_mismatch_explained) auto
qed

lemma variadic_type_explained:
  assumes "first_variadic_type_mismatch sig call (length (positional_only sig) + length (positional sig)) accepts = Some e"
  shows "error_phase e = CallPhase \<and> explains accepts sig call e"
proof -
  let ?n = "length (positional_only sig) + length (positional sig)"
  from assms consider
      (pos) p where "var_args sig = Some p" "first_extra_positional_type_mismatch p call ?n accepts = Some e"
    | (named) p where "keyword_args sig = Some p" "first_extra_named_type_mismatch p sig call accepts = Some e"
    unfolding first_variadic_type_mismatch_def Let_def by (auto split: option.splits if_splits)
  then show ?thesis
  proof cases
    case pos
    from pos(2) obtain i where i: "?n \<le> i" "i < length (call_positional call)"
      and bad: "\<not> accepts (expected_type p) (type_tag (pos_value (call_positional call ! i)))"
      "e = positional_mismatch p (call_positional call ! i)"
      unfolding first_extra_positional_type_mismatch_def Let_def by (auto dest!: scan_from_option_Some)
    have "call_positional call ! i \<in> set (extra_positionals sig call)"
      using i by (auto simp: extra_positionals_def in_set_conv_nth intro!: exI [of _ "i - ?n"])
    with pos(1) bad show ?thesis by (auto simp: positional_mismatch_def)
  next
    case named
    from named(2) obtain i where "i < length (call_named call)"
      "\<not> ordinary_parameter_name sig (named_name (call_named call ! i))"
      and bad: "\<not> accepts (expected_type p) (type_tag (named_value (call_named call ! i)))"
      "e = named_mismatch p (call_named call ! i)"
      unfolding first_extra_named_type_mismatch_def Let_def by (auto dest!: scan_from_option_Some)
    then have "call_named call ! i \<in> set (extra_keywords sig call)"
      by (simp add: extra_keywords_def ordinary_parameter_name_iff)
    with named(1) bad show ?thesis by (auto simp: named_mismatch_def)
  qed
qed

lemma validate_call_explained:
  assumes "validate_call sig call (length (positional_only sig) + length (positional sig)) accepts = Inl e"
  shows "error_phase e = CallPhase \<and> explains accepts sig call e"
proof -
  let ?slots = "length (positional_only sig) + length (positional sig)"
  let ?unexpected = "first_unexpected_keyword (call_named call) sig"
  have unexpected: "explains accepts sig call (UnexpectedKeyword (named_name (call_named call ! ?unexpected)))"
    if "keyword_args sig = None" "?unexpected < length (call_named call)"
  proof -
    obtain j b where scan: "scan_from (\<lambda>i. \<not> ordinary_parameter_name sig (named_name (call_named call ! i)))
        (length (call_named call)) 0 False = (j, b)" by fastforce
    with that(2) have "b" by (auto simp: first_unexpected_keyword_def Let_def split: if_splits)
    with scan scan_from_foundD have "\<not> ordinary_parameter_name sig (named_name (call_named call ! ?unexpected))"
      by (fastforce simp: first_unexpected_keyword_def Let_def)
    with that show ?thesis by (simp add: ordinary_parameter_name_iff)
  qed
  from assms consider
      "first_duplicate_named_actual (call_named call) \<noteq> None"
        "e = DuplicateNamedArgument (the (first_duplicate_named_actual (call_named call)))"
    | "first_duplicate_binding sig call = Some e"
    | "?slots < length (call_positional call)" "var_args sig = None"
        "e = TooManyPositionals ?slots (length (call_positional call))"
    | "keyword_args sig = None" "?unexpected < length (call_named call)"
        "e = UnexpectedKeyword (named_name (call_named call ! ?unexpected))"
    | "first_missing_required_argument sig call = Some e"
    | "first_positional_only_type_mismatch sig call accepts = Some e"
    | "first_ordinary_type_mismatch sig call accepts = Some e"
    | "first_keyword_only_type_mismatch sig call accepts = Some e"
    | "first_variadic_type_mismatch sig call ?slots accepts = Some e"
    unfolding validate_call_def Let_def
    by (auto simp: res_bind_eq_Inl split: if_splits)
  then show ?thesis
  proof cases
    case 1
    then show ?thesis using duplicate_named_explained [of call _ accepts sig] by auto
  next
    case 4
    then show ?thesis using unexpected by (simp del: explains.simps)
  qed (auto dest: duplicate_binding_explained missing_explained positional_only_type_explained
      ordinary_type_explained keyword_only_type_explained variadic_type_explained simp del: explains.simps
      | simp)+
qed

text \<open>A loop with an error flag stops at the first element that fails.\<close>

lemma sticky_loop_error:
  "sticky_loop f xs s = Inl e \<Longrightarrow>
     \<exists>ys x zs s'. xs = ys @ x # zs \<and> sticky_loop f ys s = Inr s' \<and> f x s' = Inl e"
proof (induction xs arbitrary: s)
  case (Cons x xs)
  show ?case
  proof (cases "f x s")
    case (Inl e')
    with Cons.prems show ?thesis by (intro exI [of _ "[]"] exI [of _ x] exI [of _ xs] exI [of _ s]) simp
  next
    case (Inr s1)
    with Cons.prems have "sticky_loop f xs s1 = Inl e" by simp
    from Cons.IH [OF this] obtain ys y zs s' where
      "xs = ys @ y # zs" "sticky_loop f ys s1 = Inr s'" "f y s' = Inl e" by blast
    with Inr show ?thesis by (intro exI [of _ "x # ys"] exI [of _ y] exI [of _ zs] exI [of _ s']) simp
  qed
qed simp

subsection \<open>Faults of a signature\<close>

text \<open>The parameter groups in the order their sizes are added up.\<close>

definition parameter_groups :: "('ty, 'val) CallSignature \<Rightarrow> nat list" where
  "parameter_groups sig =
     [length (positional_only sig), length (positional sig), length (keyword_only sig),
      if var_args sig \<noteq> None then 1 else 0, if keyword_args sig \<noteq> None then 1 else 0]"

text \<open>The first \<open>j\<close> formals have nothing wrong with them.\<close>

definition sound_prefix :: "'ty compatibility \<Rightarrow> ('ty, 'val) CallSignature \<Rightarrow> nat \<Rightarrow> bool" where
  "sound_prefix accepts sig j \<longleftrightarrow>
     length (formals sig) \<le> usize_max \<and>
     distinct (map formal_name (take j (formals sig))) \<and>
     [] \<notin> formal_name ` set (take j (formals sig)) \<and>
     (\<forall>p \<in> set (take j (ordinary_formals sig)). default_ok accepts p) \<and>
     (\<forall>p \<in> set (take (j - length (ordinary_formals sig)) (variadic_formals sig)). default_value p = None)"

text \<open>What a signature error claims: the overflowing addition, or the first formal at fault.\<close>

fun signature_fault :: "'ty compatibility \<Rightarrow> ('ty, 'val) CallSignature \<Rightarrow> 'ty MalformedSignature \<Rightarrow> bool" where
  "signature_fault accepts sig (ParameterCountOverflow accumulated contribution) \<longleftrightarrow>
     (\<exists>k < length (parameter_groups sig). 0 < k \<and> accumulated = sum_list (take k (parameter_groups sig)) \<and>
        contribution = parameter_groups sig ! k \<and> usize_max < accumulated + contribution \<and>
        (1 < k \<longrightarrow> accumulated \<le> usize_max))"
| "signature_fault accepts sig EmptyParameterName \<longleftrightarrow>
     (\<exists>j < length (formals sig). sound_prefix accepts sig j \<and> formal_name (formals sig ! j) = [])"
| "signature_fault accepts sig (DuplicateParameter name) \<longleftrightarrow>
     (\<exists>j < length (formals sig). sound_prefix accepts sig j \<and> formal_name (formals sig ! j) = name \<and>
        name \<noteq> [] \<and> (\<exists>i < j. formal_name (formals sig ! i) = name))"
| "signature_fault accepts sig (VariadicDefault name) \<longleftrightarrow>
     (\<exists>j < length (formals sig). sound_prefix accepts sig j \<and> formal_name (formals sig ! j) = name \<and>
        length (ordinary_formals sig) \<le> j \<and> default_value (formals sig ! j) \<noteq> None)"
| "signature_fault accepts sig (DefaultTypeMismatch name expected actual) \<longleftrightarrow>
     (\<exists>j < length (ordinary_formals sig). sound_prefix accepts sig j \<and> formal_name (formals sig ! j) = name \<and>
        expected = expected_type (formals sig ! j) \<and> \<not> accepts expected actual \<and>
        (\<exists>d. default_value (formals sig ! j) = Some d \<and> actual = type_tag d))"

lemma count_added: "add_parameter_count a c = Inr n \<longleftrightarrow> a + c \<le> usize_max \<and> n = a + c"
  by (auto simp: add_parameter_count_def split: option.splits)

lemma count_overflow:
  "add_parameter_count a c = Inl e \<longleftrightarrow>
     usize_max < a + c \<and> e = BindingError.MalformedSignature (ParameterCountOverflow a c)"
  by (auto simp: add_parameter_count_def split: option.splits)

lemma counts_fault:
  assumes "signature_counts sig = Inl e"
  shows "\<exists>m. e = BindingError.MalformedSignature m \<and> signature_fault accepts sig m"
proof -
  let ?g = "parameter_groups sig"
  have sums: "sum_list (take 1 ?g) = length (positional_only sig)"
    "sum_list (take 2 ?g) = length (positional_only sig) + length (positional sig)"
    "sum_list (take 3 ?g) = length (positional_only sig) + length (positional sig) + length (keyword_only sig)"
    "sum_list (take 4 ?g) = length (positional_only sig) + length (positional sig) + length (keyword_only sig) + ?g ! 3"
    by (simp_all add: parameter_groups_def numeral_eq_Suc)
  have groups: "length ?g = 5" "?g ! 1 = length (positional sig)" "?g ! 2 = length (keyword_only sig)"
    "?g ! 3 = (if var_args sig \<noteq> None then 1 else 0)" "?g ! 4 = (if keyword_args sig \<noteq> None then 1 else 0)"
    by (simp_all add: parameter_groups_def)
  have fault: ?thesis
    if "e = BindingError.MalformedSignature (ParameterCountOverflow acc c)" "0 < k" "k < 5" "acc = sum_list (take k ?g)"
      "c = ?g ! k" "usize_max < acc + c" "1 < k \<longrightarrow> acc \<le> usize_max" for k acc c
    using that groups(1) by (intro exI [of _ "ParameterCountOverflow acc c"]) auto
  from assms consider (one) "add_parameter_count (sum_list (take 1 ?g)) (?g ! 1) = Inl e"
    | (two) "sum_list (take 2 ?g) \<le> usize_max" "add_parameter_count (sum_list (take 2 ?g)) (?g ! 2) = Inl e"
    | (three) "sum_list (take 3 ?g) \<le> usize_max" "add_parameter_count (sum_list (take 3 ?g)) (?g ! 3) = Inl e"
    | (four) "sum_list (take 4 ?g) \<le> usize_max" "add_parameter_count (sum_list (take 4 ?g)) (?g ! 4) = Inl e"
    unfolding signature_counts_def sums groups
    by (auto simp only: res_bind_eq_Inl count_added)
  then show ?thesis
  proof cases
    case one
    then show ?thesis unfolding count_overflow by (intro fault [where k = 1]) auto
  next
    case two
    then show ?thesis unfolding count_overflow by (intro fault [where k = 2]) auto
  next
    case three
    then show ?thesis unfolding count_overflow by (intro fault [where k = 3]) auto
  next
    case four
    then show ?thesis unfolding count_overflow by (intro fault [where k = 4]) auto
  qed
qed

lemma earlier_name: "name \<in> formal_name ` set (take j ps) \<Longrightarrow> \<exists>i < j. formal_name (ps ! i) = name"
  by (force simp: in_set_conv_nth)

lemma formal_fault:
  assumes "validate_formal_parameter (length (ordinary_formals sig) \<le> j) accepts (formals sig ! j)
      (map formal_name (take j (formals sig))) = Inl e"
    and "j < length (formals sig)" "sound_prefix accepts sig j"
  shows "\<exists>m. e = BindingError.MalformedSignature m \<and> signature_fault accepts sig m"
  using assms earlier_name [of "formal_name (formals sig ! j)" j "formals sig"]
  by (fastforce simp: validate_formal_parameter_def Let_def not_le split: if_splits option.splits)

lemma formals_fault:
  assumes "length (formals sig) \<le> usize_max"
    and "res_bind (sticky_loop (validate_formal_parameter False accepts) (ordinary_formals sig) [])
      (sticky_loop (validate_formal_parameter True accepts) (variadic_formals sig)) = Inl e"
  shows "\<exists>m. e = BindingError.MalformedSignature m \<and> signature_fault accepts sig m"
proof -
  let ?loop = "\<lambda>v. sticky_loop (validate_formal_parameter v accepts)"
  from assms(2) consider (ordinary) "?loop False (ordinary_formals sig) [] = Inl e"
    | (variadic) names where "?loop False (ordinary_formals sig) [] = Inr names" "?loop True (variadic_formals sig) names = Inl e"
    by (auto simp: res_bind_eq_Inl)
  then show ?thesis
  proof cases
    case ordinary
    from sticky_loop_error [OF this] obtain ps p rest names where split: "ordinary_formals sig = ps @ p # rest"
      and before: "?loop False ps [] = Inr names" and e: "validate_formal_parameter False accepts p names = Inl e" by blast
    then show ?thesis
      using assms(1) e [unfolded] before [unfolded validate_formals_Ok]
      by (intro formal_fault [of sig "length ps"]) (auto simp: sound_prefix_def formals_def nth_append)
  next
    case variadic
    from sticky_loop_error [OF variadic(2)] obtain ps p rest names' where split: "variadic_formals sig = ps @ p # rest"
      and before: "?loop True ps names = Inr names'" and e: "validate_formal_parameter True accepts p names' = Inl e" by blast
    then show ?thesis
      using assms(1) variadic(1) [unfolded validate_formals_Ok] before [unfolded validate_formals_Ok]
      by (intro formal_fault [of sig "length (ordinary_formals sig) + length ps"])
        (auto simp: sound_prefix_def formals_def nth_append)
  qed
qed

lemma validated_names:
  "res_bind (sticky_loop (validate_formal_parameter False accepts) (positional_only sig) names) (\<lambda>names.
     res_bind (sticky_loop (validate_formal_parameter False accepts) (positional sig) names) (\<lambda>names.
     res_bind (sticky_loop (validate_formal_parameter False accepts) (keyword_only sig) names) (\<lambda>names.
     res_bind (validate_variadic accepts (var_args sig) names) (\<lambda>names.
     res_bind (validate_variadic accepts (keyword_args sig) names) (\<lambda>names. Inr counts))))) =
   res_bind (res_bind (sticky_loop (validate_formal_parameter False accepts) (ordinary_formals sig) names)
     (sticky_loop (validate_formal_parameter True accepts) (variadic_formals sig))) (\<lambda>_. Inr counts)"
  unfolding ordinary_formals_def variadic_formals_def
  by (simp add: sticky_loop_append validate_variadic_loop res_bind_assoc)

lemma signature_faulty:
  assumes "fst (validate_signature sig accepts grant_all ()) = Inl e"
  shows "\<exists>m. e = BindingError.MalformedSignature m \<and> signature_fault accepts sig m"
  using assms counts_fault [of sig e accepts] formals_fault [of sig accepts e]
  unfolding validate_signature_def validated_names
  by (auto simp: res_bind_eq_Inl [of "signature_counts sig"] res_bind_eq_Inl [of "res_bind _ _"] signature_counts_Ok)

subsection \<open>Faults of an expansion\<close>

text \<open>What an expansion error claims: the overflowing count, or the first item at fault.\<close>

fun expansion_fault :: "('ty, 'val) ActualItem list \<Rightarrow> ('ty, 'val) Receiver option \<Rightarrow> 'ty BindingError \<Rightarrow> bool" where
  "expansion_fault items receiver (SourceExpressionCountOverflow sources receivers) \<longleftrightarrow>
     sources = length items \<and> receivers = receiver_count receiver \<and> usize_max < sources + receivers"
| "expansion_fault items receiver (DynamicStarUnsupported i) \<longleftrightarrow>
     i < length items \<and> expandable (take i items) receiver \<and> items ! i = DynamicStar"
| "expansion_fault items receiver (KeywordMappingUnsupported i) \<longleftrightarrow>
     i < length items \<and> expandable (take i items) receiver \<and> items ! i = KeywordMapping"
| "expansion_fault items receiver (ExpandedArgumentCountOverflow i accumulated contribution) \<longleftrightarrow>
     i < length items \<and> expandable (take i items) receiver \<and>
     accumulated = length (call_positional (expansion (take i items) receiver)) +
       length (call_named (expansion (take i items) receiver)) \<and>
     contribution = (case items ! i of ActualItem.FixedStar values \<Rightarrow> length values | _ \<Rightarrow> 1) \<and>
     usize_max < accumulated + contribution"
| "expansion_fault items receiver _ \<longleftrightarrow> False"

lemma take_enumerate_split:
  "enumerate 0 items = ys @ x # zs \<Longrightarrow>
     length ys < length items \<and> ys = enumerate 0 (take (length ys) items) \<and> x = (length ys, items ! length ys)"
proof -
  assume split: "enumerate 0 items = ys @ x # zs"
  then have len: "length ys < length items" by (metis length_append length_Cons length_enumerate less_add_same_cancel1 zero_less_Suc)
  have "ys = take (length ys) (enumerate 0 items)" "x = enumerate 0 items ! length ys" using split by simp_all
  with len show ?thesis by (simp add: nth_enumerate_eq enumerate_eq_zip take_zip)
qed

lemma preflight_faulty:
  assumes "preflight_actual_items items (receiver \<noteq> None) = Inl e"
  shows "error_phase e = ExpansionPhase \<and> expansion_fault items receiver e"
proof -
  let ?r = "receiver_count receiver"
  from assms consider
      (source) "usize_max < length items + ?r" "e = SourceExpressionCountOverflow (length items) ?r"
    | (item) "length items + ?r \<le> usize_max" "sticky_loop preflight_item (enumerate 0 items) ?r = Inl e"
    unfolding preflight_actual_items_def Let_def receiver_count_def [symmetric]
    by (auto simp: res_bind_eq_Inl split: option.splits)
  then show ?thesis
  proof cases
    case source
    then show ?thesis by simp
  next
    case item
    from sticky_loop_error [OF item(2)] obtain ys x zs acc where split: "enumerate 0 items = ys @ x # zs"
      and before: "sticky_loop preflight_item ys ?r = Inr acc" and e: "preflight_item x acc = Inl e" by blast
    define i where "i = length ys"
    note at = take_enumerate_split [OF split, folded i_def]
    have "preflight_actual_items (take i items) (receiver \<noteq> None) = Inr (length (take i items) + ?r, acc)"
      using before at item(1)
      unfolding preflight_actual_items_def Let_def receiver_count_def [symmetric]
      by (auto split: option.splits)
    then have "expandable (take i items) receiver" and acc: "acc = length (call_positional (expansion (take i items) receiver)) +
        length (call_named (expansion (take i items) receiver))"
      unfolding preflight_Ok by simp_all
    with e at show ?thesis
      by (cases "items ! i") (auto simp: res_bind_eq_Inl split: option.splits)
  qed
qed

lemma expansion_faulty:
  assumes "fst (expand_actual_items_with_allocator items receiver grant_all ()) = Inl e"
  shows "error_phase e = ExpansionPhase \<and> expansion_fault items receiver e"
proof (cases "preflight_actual_items items (receiver \<noteq> None)")
  case (Inl e')
  with assms preflight_faulty [OF Inl] show ?thesis by (simp add: expand_actual_items_with_allocator_def)
next
  case (Inr counts)
  then have "expandable items receiver" using preflight_Ok [of items receiver] by (cases counts) auto
  then show ?thesis using assms expand_pure [of items receiver] by (metis Inl_Inr_False)
qed

subsection \<open>Refused buffers\<close>

text \<open>
  The host serving a list of requests in order: the first request it refuses, if any, and the state
  it is left in.
\<close>

fun serve :: "'s host \<Rightarrow> (AllocationSite \<times> nat) list \<Rightarrow> 's \<Rightarrow> (AllocationSite \<times> nat) option \<times> 's" where
  "serve host [] s = (None, s)"
| "serve host ((site, requested) # rest) s =
     (case host (buffer_element site) requested s of
        (True, s') \<Rightarrow> serve host rest s'
      | (False, s') \<Rightarrow> (Some (site, requested), s'))"

lemma serve_append:
  "serve host (p @ q) s = (case serve host p s of (None, s') \<Rightarrow> serve host q s' | (Some r, s') \<Rightarrow> (Some r, s'))"
  by (induction host p s rule: serve.induct) (auto split: prod.splits bool.splits)

lemma serve_in_plan: "fst (serve host p s) = Some r \<Longrightarrow> r \<in> set p"
  by (induction host p s rule: serve.induct) (auto split: prod.splits bool.splits)

text \<open>A computation that makes the requests of a plan, and stops at the first one refused.\<close>

definition follows ::
  "'s host \<Rightarrow> (AllocationSite \<times> nat) list \<Rightarrow> ('s, 'ty BindingError, 'a) allocating \<Rightarrow> 's \<Rightarrow> bool" where
  "follows host plan m s \<longleftrightarrow>
     (case m s of
        (Inr x, s') \<Rightarrow> serve host plan s = (None, s')
      | (Inl e, s') \<Rightarrow> (\<forall>site requested. e = AllocationFailed site requested \<longrightarrow> fst (serve host plan s) = Some (site, requested)))"

lemma follows_return: "(\<And>e. r = Inl e \<Longrightarrow> error_phase e \<noteq> AllocationPhase) \<Longrightarrow> follows host [] (alloc_return r) s"
  by (cases r) (auto simp: follows_def)

lemma follows_allocate: "follows host [(site, requested)] (allocate_buffer (system_allocator host) site requested) s"
  by (auto simp: follows_def allocate_buffer_def system_allocator_def split: prod.splits bool.splits)

lemma follows_bind:
  "follows host p m s \<Longrightarrow> (\<And>x s'. m s = (Inr x, s') \<Longrightarrow> follows host q (f x) s') \<Longrightarrow>
     follows host (p @ q) (alloc_bind m f) s"
  by (cases "m s"; cases "fst (m s)") (auto simp: follows_def alloc_bind_def serve_append split: prod.splits sum.splits option.splits)

lemma follows_refused:
  "follows host plan m s \<Longrightarrow> fst (m s) = Inl (AllocationFailed site requested) \<Longrightarrow>
     fst (serve host plan s) = Some (site, requested)"
  by (cases "m s") (auto simp: follows_def)

lemma follows_validate:
  fixes sig :: "('ty, 'val) CallSignature"
  shows "follows host [(SignatureNames, length (formals sig))] (validate_signature sig accepts (system_allocator host)) s"
proof -
  have names: "error_phase e = SignaturePhase"
    if "length (formals sig) \<le> usize_max"
      "res_bind (res_bind (sticky_loop (validate_formal_parameter False accepts) (ordinary_formals sig) [])
        (sticky_loop (validate_formal_parameter True accepts) (variadic_formals sig))) (\<lambda>_. Inr counts) = Inl e"
    for e and counts :: SignatureCounts
    using formals_fault [OF that(1), of accepts e] that(2)
    by (auto simp: res_bind_eq_Inl [of "res_bind _ _"])
  have "follows host ([] @ [(SignatureNames, length (formals sig))] @ []) (validate_signature sig accepts (system_allocator host)) s"
    unfolding validate_signature_def
  proof (rule follows_bind [OF follows_return])
    show "error_phase e \<noteq> AllocationPhase" if "signature_counts sig = Inl e" for e :: "'ty BindingError"
      using counts_fault [OF that, of "\<lambda>_ _. True"] by auto
    fix counts s'
    assume "alloc_return (signature_counts sig) s = (Inr counts :: ('ty BindingError, SignatureCounts) result, s')"
    then have counts: "length (formals sig) \<le> usize_max" "counts = counts_of sig" by (simp_all add: signature_counts_Ok)
    show "follows host ([(SignatureNames, length (formals sig))] @ [])
        (alloc_bind (allocate_buffer (system_allocator host) SignatureNames (parameter_count counts)) (\<lambda>names.
          alloc_return
         (res_bind (sticky_loop (validate_formal_parameter False accepts) (positional_only sig) names) (\<lambda>names.
          res_bind (sticky_loop (validate_formal_parameter False accepts) (positional sig) names) (\<lambda>names.
          res_bind (sticky_loop (validate_formal_parameter False accepts) (keyword_only sig) names) (\<lambda>names.
          res_bind (validate_variadic accepts (var_args sig) names) (\<lambda>names.
          res_bind (validate_variadic accepts (keyword_args sig) names) (\<lambda>names. Inr counts)))))))) s'"
      unfolding counts(2) counts_simps validated_names
      using names [OF counts(1)]
      by (intro follows_bind follows_allocate follows_return) (auto simp: allocate_buffer_def split: prod.splits bool.splits)
  qed
  then show ?thesis by simp
qed

lemma follows_expand:
  fixes items :: "('ty, 'val) ActualItem list"
  shows "follows host [(ExpandedPositionals, length (call_positional (expansion items receiver)) + length (call_named (expansion items receiver))),
      (ExpandedNamed, length items + receiver_count receiver), (EvaluationOrder, length items + receiver_count receiver)]
     (expand_actual_items_with_allocator items receiver (system_allocator host) ::
        ('s, 'ty BindingError, ('ty, 'val) ExpandedCall) allocating) s"
  (is "follows host [?p, ?n, ?o] ?m s")
proof -
  have "follows host ([] @ [?p] @ [?n] @ [?o] @ []) ?m s"
    unfolding expand_actual_items_with_allocator_def
  proof (rule follows_bind [OF follows_return])
    show "error_phase e \<noteq> AllocationPhase" if "preflight_actual_items items (receiver \<noteq> None) = Inl e" for e :: "'ty BindingError"
      using preflight_faulty [OF that] by simp
    fix counts s'
    assume pre: "alloc_return (preflight_actual_items items (receiver \<noteq> None)) s =
      (Inr counts :: ('ty BindingError, nat \<times> nat) result, s')"
    obtain n m where nm: "counts = (n, m)" by fastforce
    with pre have counts: "expandable items receiver" "n = length items + receiver_count receiver"
      "m = length (call_positional (expansion items receiver)) + length (call_named (expansion items receiver))"
      by (simp_all only: alloc_return_apply prod.inject preflight_Ok)
    have static: "sticky_loop expand_item (enumerate 0 items) (push_receiver receiver empty_call) \<noteq> (Inl e :: ('ty BindingError, ('ty, 'val) ExpandedCall) result)" for e
    proof -
      have "\<forall>x \<in> set (enumerate 0 items). static_item (snd x)"
        unfolding set_enumerate_snd using counts(1) by (simp add: expandable_def)
      then have "sticky_loop expand_item (enumerate 0 items) (push_receiver receiver empty_call) =
          (Inr (append_items (enumerate 0 items) (push_receiver receiver empty_call)) :: ('ty BindingError, ('ty, 'val) ExpandedCall) result)"
        unfolding expand_loop by auto
      then show ?thesis by simp
    qed
    show "follows host ([?p] @ [?n] @ [?o] @ [])
        (case counts of (source_count, expanded_count) \<Rightarrow>
          alloc_bind (allocate_buffer (system_allocator host) ExpandedPositionals expanded_count) (\<lambda>positional.
          alloc_bind (allocate_buffer (system_allocator host) ExpandedNamed source_count) (\<lambda>named.
          alloc_bind (allocate_buffer (system_allocator host) EvaluationOrder source_count) (\<lambda>evaluation_order.
            alloc_return (sticky_loop expand_item (enumerate 0 items)
              (push_receiver receiver \<lparr> call_positional = positional, call_named = named,
                 call_evaluation_order = evaluation_order \<rparr>)))))) s'"
      unfolding nm prod.case counts(2,3)
      using static [unfolded empty_call_def]
      by (intro follows_bind follows_allocate follows_return)
        (auto simp: allocate_buffer_def split: prod.splits bool.splits)
  qed
  then show ?thesis by simp
qed

lemma push_cell_phase: "push_cell kind p argument cells = Inl e \<Longrightarrow> error_phase e \<noteq> AllocationPhase"
  by (auto simp: push_cell_def split: option.splits)

lemma follows_environment:
  "follows host
     ((BindingCells, length (formals sig)) #
      (if var_args sig = None then [] else [(AllocationSite.ResidualPositionals, length (extra_positionals sig call))]) @
      (if keyword_args sig = None then [] else [(AllocationSite.ResidualKeywords, length (call_named call))]))
     (canonical_environment sig call (counts_of sig) (system_allocator host)) s"
  (is "follows host (?c # ?v @ ?k) ?m s")
proof -
  let ?alloc = "system_allocator host"
  have var: "follows host ?v (bind_var_args sig call (counts_of sig) ?alloc cells) s'" for cells s'
  proof (cases "var_args sig")
    case (Some p)
    then show ?thesis
      using follows_bind [OF follows_allocate follows_return]
      by (fastforce simp: bind_var_args_def counts_simps Let_def extra_positionals_def)
  qed (auto simp: bind_var_args_def intro!: follows_return)
  have kw: "follows host ?k (bind_keyword_args sig call ?alloc cells) s'" for cells s'
  proof (cases "keyword_args sig")
    case (Some p)
    then show ?thesis
      using follows_bind [OF follows_allocate follows_return]
      by (fastforce simp: bind_keyword_args_def Let_def)
  qed (auto simp: bind_keyword_args_def intro!: follows_return)
  have "follows host ([?c] @ [] @ [] @ [] @ ?v @ ?k @ []) ?m s"
    unfolding canonical_environment_def counts_simps
    by (intro follows_bind follows_allocate follows_return var kw)
      (auto dest!: sticky_loop_error dest: push_cell_phase)
  then show ?thesis by simp
qed

subsection \<open>Every error is truthful\<close>

lemma same_or_refused_Ok: "same_or_refused m m' \<Longrightarrow> m s = (Inr x, s') \<Longrightarrow> fst (m' ()) = Inr x"
  by (auto simp: same_or_refused_def dest!: spec [of _ s])

lemma validated_signature:
  "validate_signature sig accepts allocate s = (Inr counts, s') \<Longrightarrow> signature_ok accepts sig \<and> counts = counts_of sig"
  using same_or_refused_Ok [OF same_or_refused_validate] validate_pure by metis

lemma expanded_items:
  "expand_actual_items_with_allocator items receiver allocate s = (Inr call, s') \<Longrightarrow>
     expandable items receiver \<and> call = expansion items receiver"
  using same_or_refused_Ok [OF same_or_refused_expand] expand_pure by metis

lemma bind_follows_plan:
  fixes sig :: "('ty, 'val) CallSignature"
  shows "follows host (planned_requests sig (expansion items receiver) (length items + receiver_count receiver))
     (bind_call_with host sig items receiver accepts) s"
proof -
  let ?alloc = "system_allocator host" and ?call = "expansion items receiver"
  have checked: "error_phase e \<noteq> AllocationPhase"
    if "validate_call sig ?call (length (positional_only sig) + length (positional sig)) accepts = Inl e" for e
    using validate_call_explained [OF that] by simp
  let ?cells = "(BindingCells, length (formals sig)) #
      (if var_args sig = None then [] else [(AllocationSite.ResidualPositionals, length (extra_positionals sig ?call))]) @
      (if keyword_args sig = None then [] else [(AllocationSite.ResidualKeywords, length (call_named ?call))])"
  have cells: "follows host ([] @ ?cells) (bind_expanded_call_with sig ?call (counts_of sig) accepts ?alloc) s'" for s'
    unfolding bind_expanded_call_with_def
    by (intro follows_bind follows_return follows_environment) (use checked in \<open>simp add: counts_simps\<close>)
  have "follows host
      ([(SignatureNames, length (formals sig))] @
       [(ExpandedPositionals, length (call_positional ?call) + length (call_named ?call)),
        (ExpandedNamed, length items + receiver_count receiver), (EvaluationOrder, length items + receiver_count receiver)] @
       ([] @ ?cells))
      (bind_call_with host sig items receiver accepts) s"
    unfolding bind_call_with_def bind_call_with_relation_def
  proof (intro follows_bind follows_validate follows_expand)
    fix counts s1 call s2
    assume "validate_signature sig accepts ?alloc s = (Inr counts, s1)"
      "expand_actual_items_with_allocator items receiver ?alloc s1 =
        (Inr call :: ('ty BindingError, ('ty, 'val) ExpandedCall) result, s2)"
    then show "follows host ([] @ ?cells) (bind_expanded_call_with sig call counts accepts ?alloc) s2"
      using cells by (auto dest!: validated_signature expanded_items simp del: append_Nil)
  qed
  then show ?thesis by (simp add: planned_requests_def)
qed

lemma refused_stage:
  assumes "fst (bind_call_with host sig items receiver accepts s) = Inl (AllocationFailed site requested)"
  shows "(site \<noteq> SignatureNames \<longrightarrow> signature_ok accepts sig \<and> expandable items receiver) \<and>
    (site \<in> {BindingCells, AllocationSite.ResidualPositionals, AllocationSite.ResidualKeywords} \<longrightarrow>
       (\<exists>env. binds_call accepts sig (expansion items receiver) env))"
proof -
  let ?alloc = "system_allocator host" and ?call = "expansion items receiver"
  obtain r1 s1 where validated: "validate_signature sig accepts ?alloc s = (r1, s1)" by fastforce
  show ?thesis
  proof (cases r1)
    case (Inl e)
    with assms validated have "fst (validate_signature sig accepts ?alloc s) = Inl (AllocationFailed site requested)"
      by (simp add: bind_call_with_def bind_call_with_relation_def alloc_bind_def)
    from serve_in_plan [OF follows_refused [OF follows_validate this]] show ?thesis by simp
  next
    case (Inr counts)
    note ok = validated_signature [OF validated [unfolded Inr]]
    obtain r2 s2 where expanded: "expand_actual_items_with_allocator items receiver ?alloc s1 =
        (r2 :: ('a BindingError, ('a, 'b) ExpandedCall) result, s2)" by fastforce
    show ?thesis
    proof (cases r2)
      case (Inl e)
      with assms validated expanded Inr have failed: "fst (expand_actual_items_with_allocator items receiver ?alloc s1) =
          Inl (AllocationFailed site requested :: 'a BindingError)"
        by (simp add: bind_call_with_def bind_call_with_relation_def alloc_bind_def)
      have "expandable items receiver"
      proof (cases "preflight_actual_items items (receiver \<noteq> None) :: ('a BindingError, nat \<times> nat) result")
        case (Inl e')
        with failed have "e' = AllocationFailed site requested"
          by (simp add: expand_actual_items_with_allocator_def alloc_bind_def)
        with preflight_faulty [OF Inl] show ?thesis by simp
      next
        case (Inr nm)
        then show ?thesis by (cases nm) (simp only: preflight_Ok)
      qed
      with ok serve_in_plan [OF follows_refused [OF follows_expand failed]] show ?thesis by auto
    next
      case (Inr call)
      note expandable = expanded_items [OF expanded [unfolded Inr]]
      have "call_accepted accepts sig ?call"
      proof (rule ccontr)
        assume "\<not> call_accepted accepts sig ?call"
        then obtain e where e: "validate_call sig ?call (length (positional_only sig) + length (positional sig)) accepts = Inl e"
          using validate_call_Ok [of sig ?call accepts] by (metis (full_types) old.unit.exhaust sum.exhaust)
        with assms validated expanded ok expandable \<open>r1 = Inr counts\<close> Inr have "e = AllocationFailed site requested"
          by (simp add: bind_call_with_def bind_call_with_relation_def bind_expanded_call_with_def alloc_bind_def counts_simps)
        with validate_call_explained [OF e] show False by simp
      qed
      with environment_binds ok expandable show ?thesis by blast
    qed
  qed
qed

text \<open>
  Property C18. Every error is truthful and from the right phase. A malformed
  signature is reported before anything about the actuals, with the overflowing addition or the name
  and the default's types of the first formal at fault. Actuals that do not expand are reported before
  anything about the match, with the overflowing count or the index of the first item at fault. A call
  error is reported only for a well-formed signature and expandable actuals that nothing binds, and
  states a fact of the call. A refused buffer is the first request of the plan the host refuses, with
  its site and its size, and is reported only after the phases before its site went through.
\<close>

theorem bind_errors_explained:
  assumes "fst (bind_call_with host sig items receiver accepts s) = Err e"
  shows "case error_phase e of
      SignaturePhase \<Rightarrow> \<not> signature_ok accepts sig \<and>
        (\<exists>m. e = BindingError.MalformedSignature m \<and> signature_fault accepts sig m)
    | ExpansionPhase \<Rightarrow> signature_ok accepts sig \<and> \<not> expandable items receiver \<and>
        expansion_fault items receiver e
    | CallPhase \<Rightarrow> signature_ok accepts sig \<and> expandable items receiver \<and>
        \<not> (\<exists>env. binds_call accepts sig (expansion items receiver) env) \<and>
        explains accepts sig (expansion items receiver) e
    | AllocationPhase \<Rightarrow> \<exists>site requested. e = AllocationFailed site requested \<and>
        fst (serve host (planned_requests sig (expansion items receiver) (length items + receiver_count receiver)) s) =
          Some (site, requested) \<and>
        (site \<noteq> SignatureNames \<longrightarrow> signature_ok accepts sig \<and> expandable items receiver) \<and>
        (site \<in> {BindingCells, AllocationSite.ResidualPositionals, AllocationSite.ResidualKeywords} \<longrightarrow>
          (\<exists>env. binds_call accepts sig (expansion items receiver) env))"
proof (cases "refused (fst (bind_call_with host sig items receiver accepts s))")
  case True
  with assms obtain site requested where e: "e = AllocationFailed site requested"
    by (auto simp: refused_def split: BindingError.splits)
  with assms show ?thesis
    using follows_refused [OF bind_follows_plan] refused_stage [of host sig items receiver accepts s site requested]
    by simp
next
  case False
  let ?call = "expansion items receiver"
  have run: "fst (bind_call_with_relation sig items receiver accepts grant_all ()) = Inl e"
    using granted_or_refused [of host sig items receiver accepts s] False assms by simp
  show ?thesis
  proof (cases "fst (validate_signature sig accepts grant_all ())")
    case (Inl e')
    then have "\<not> signature_ok accepts sig" using validate_pure [of sig accepts] by (metis Inl_Inr_False)
    moreover have "e' = e" using run Inl by (simp add: bind_call_with_relation_def)
    ultimately show ?thesis using signature_faulty [OF Inl] by auto
  next
    case (Inr counts)
    then have ok: "signature_ok accepts sig" and counts: "counts = counts_of sig" by (simp_all add: validate_pure)
    show ?thesis
    proof (cases "fst (expand_actual_items_with_allocator items receiver grant_all ())")
      case (Inl e')
      then have "\<not> expandable items receiver" using expand_pure [of items receiver] by (metis Inl_Inr_False)
      moreover have "e' = e" using run Inl Inr by (simp add: bind_call_with_relation_def)
      ultimately show ?thesis using expansion_faulty [OF Inl] ok by simp
    next
      case (Inr call)
      then have expandable: "expandable items receiver" and call: "call = ?call" by (simp_all add: expand_pure)
      have "validate_call sig ?call (length (positional_only sig) + length (positional sig)) accepts = Inl e"
      proof (cases "call_accepted accepts sig ?call")
        case True
        then have "fst (bind_call_with_relation sig items receiver accepts grant_all ()) = Inr (environment_of sig ?call)"
          using ok expandable by (simp add: bind_pure)
        with run show ?thesis by simp
      next
        case False
        then obtain e' where e': "validate_call sig ?call (length (positional_only sig) + length (positional sig)) accepts = Inl e'"
          using validate_call_Ok [of sig ?call accepts] by (metis (full_types) old.unit.exhaust sum.exhaust)
        with run Inr \<open>fst (validate_signature sig accepts grant_all ()) = Inr counts\<close> show ?thesis
          by (simp add: bind_call_with_relation_def bind_expanded_call_with_def call counts counts_simps)
      qed
      from validate_call_explained [OF this] this show ?thesis
        using ok expandable binds_call_accepted [of accepts sig ?call] validate_call_Ok [of sig ?call accepts]
        by auto
    qed
  qed
qed

definition short_items :: "(string, nat) ActualItem list" where
  "short_items = [ActualItem.Positional (int_value 1), ActualItem.Positional (int_value 2)]"

text \<open>\<^verbatim>\<open>def f(a, b=True)\<close> with an integer \<open>b\<close>, and a call with a dynamic star.\<close>

definition wrong_default :: "(string, nat) CallSignature" where
  "wrong_default =
     \<lparr> positional_only = [],
       positional = [int_formal ''a'' None, int_formal ''b'' (Some \<lparr> type_tag = ''bool'', tv_value = 1 \<rparr>)],
       keyword_only = [], var_args = None, keyword_args = None \<rparr>"

definition starred_items :: "(string, nat) ActualItem list" where
  "starred_items = [ActualItem.Positional (int_value 1), ActualItem.DynamicStar]"

theorem bind_errors_explained_witness:
  "\<not> (\<exists>env. binds_call (=) sample_signature (expansion short_items None) env) \<and>
   signature_fault (=) wrong_default (DefaultTypeMismatch ''b'' ''int'' ''bool'') \<and>
   expansion_fault starred_items (None :: (string, nat) Receiver option) (DynamicStarUnsupported 1 :: string BindingError) \<and>
   fst (serve (budget_host 5) (planned_requests sample_signature (expansion sample_items None) 4) ()) = Some (SignatureNames, 6)"
proof (intro conjI)
  have "fst (bind_call_with (budget_host 9) sample_signature short_items None (=) ()) = Err (MissingRequiredArgument ''d'')"
    by code_simp
  from bind_errors_explained [OF this]
  show "\<not> (\<exists>env. binds_call (=) sample_signature (expansion short_items None) env)" by simp
  have "fst (bind_call_with (budget_host 9) wrong_default short_items None (=) ()) =
      Err (BindingError.MalformedSignature (DefaultTypeMismatch ''b'' ''int'' ''bool''))"
    by code_simp
  from bind_errors_explained [OF this]
  show "signature_fault (=) wrong_default (DefaultTypeMismatch ''b'' ''int'' ''bool'')" by simp
  have "fst (bind_call_with (budget_host 9) sample_signature starred_items None (=) ()) = Err (DynamicStarUnsupported 1)"
    by code_simp
  from bind_errors_explained [OF this]
  show "expansion_fault starred_items (None :: (string, nat) Receiver option) (DynamicStarUnsupported 1 :: string BindingError)"
    by simp
  have len: "length sample_items + receiver_count (None :: (string, nat) Receiver option) = 4" by code_simp
  have "fst (bind_call_with (budget_host 5) sample_signature sample_items None (=) ()) = Err (AllocationFailed SignatureNames 6)"
    by code_simp
  from bind_errors_explained [OF this]
  show "fst (serve (budget_host 5) (planned_requests sample_signature (expansion sample_items None) 4) ()) = Some (SignatureNames, 6)"
    by (simp add: len)
qed

end
