(* ===== verification/VC_Scope.thy ===== *)
theory VC_Scope
  imports VC_Sort
begin

text \<open>
  Scopes of the terms of \<^verbatim>\<open>src/src/vc.rs\<close>: immediate subterms inside and outside a term's own
  binder, free occurrences, and the meaning of the occurrence check \<open>validate_bound_occurrences\<close>.
\<close>

section \<open>Scopes\<close>

text \<open>The immediate subterms of a term outside the scope of its own binder.\<close>

definition outer_terms :: "Term \<Rightarrow> Term list" where
  "outer_terms t =
     (case t of
        Term.IntEnumValue _ v \<Rightarrow> [v] | Term.IntEnumProjection v \<Rightarrow> [v] | Term.IntEnumDomain v \<Rightarrow> [v]
      | Term.IntEnumIdentity l r \<Rightarrow> [l, r] | Term.RuntimeClass v \<Rightarrow> [v]
      | Term.PredicateInstance _ vs \<Rightarrow> vs | Term.ClassSubtype l r \<Rightarrow> [l, r]
      | Term.FieldRead _ v _ _ \<Rightarrow> [v] | Term.PermissionAtLeast _ v _ _ _ \<Rightarrow> [v]
      | Term.PermissionAtMost _ v _ _ _ \<Rightarrow> [v] | Term.PermissionPositive _ v _ \<Rightarrow> [v]
      | Term.PermissionMaskTransition _ _ _ cs ps \<Rightarrow> map transfer_receiver cs @ map transfer_receiver ps
      | Term.Not v \<Rightarrow> [v] | Term.And vs \<Rightarrow> vs | Term.Or vs \<Rightarrow> vs | Term.Implies l r \<Rightarrow> [l, r]
      | Term.IfThenElse c l r \<Rightarrow> [c, l, r] | Term.Equal l r \<Rightarrow> [l, r]
      | Term.Less l r \<Rightarrow> [l, r] | Term.LessEqual l r \<Rightarrow> [l, r]
      | Term.Greater l r \<Rightarrow> [l, r] | Term.GreaterEqual l r \<Rightarrow> [l, r]
      | Term.Add l r \<Rightarrow> [l, r] | Term.Subtract l r \<Rightarrow> [l, r] | Term.Multiply l r \<Rightarrow> [l, r]
      | Term.FloorDivideByPositive v _ \<Rightarrow> [v] | Term.Negate v \<Rightarrow> [v]
      | Term.StringConcat vs \<Rightarrow> vs | Term.StringLength v \<Rightarrow> [v] | Term.StringSlice v l r \<Rightarrow> [v, l, r]
      | Term.BytesConcat vs \<Rightarrow> vs | Term.BytesLength v \<Rightarrow> [v] | Term.BytesGet l r \<Rightarrow> [l, r]
      | Term.Tuple vs \<Rightarrow> vs | Term.TupleGet v _ \<Rightarrow> [v] | Term.VariadicTuple _ vs \<Rightarrow> vs
      | Term.VariadicTupleLength v \<Rightarrow> [v] | Term.VariadicTupleGet l r \<Rightarrow> [l, r]
      | Term.VariadicTupleSlice v _ _ _ \<Rightarrow> [v]
      | Term.List _ vs \<Rightarrow> vs | Term.ListLength v \<Rightarrow> [v] | Term.ListGet l r \<Rightarrow> [l, r]
      | Term.ListContains l r \<Rightarrow> [l, r] | Term.ListSlice v _ _ _ \<Rightarrow> [v] | Term.ListConcat l r \<Rightarrow> [l, r]
      | Term.ListSum v \<Rightarrow> [v] | Term.ListSorted v \<Rightarrow> [v]
      | Term.ListComprehension _ source _ _ _ _ \<Rightarrow> [source]
      | Term.SetComprehension _ source _ _ _ _ \<Rightarrow> [source]
      | Term.SetLength v \<Rightarrow> [v] | Term.SetContains l r \<Rightarrow> [l, r]
      | Term.DictComprehension _ source _ _ _ _ _ _ \<Rightarrow> [source]
      | Term.DictLength v \<Rightarrow> [v] | Term.DictContains l r \<Rightarrow> [l, r] | Term.DictGet l r \<Rightarrow> [l, r]
      | Term.FiniteDict _ _ es \<Rightarrow> map fst es @ map snd es
      | Term.DictKeys _ vs \<Rightarrow> vs
      | _ \<Rightarrow> [])"

text \<open>The binder of a term, its immediate subterms in the binder's scope.\<close>

definition binder_of :: "Term \<Rightarrow> string option" where
  "binder_of t =
     (case t of
        Term.ListComprehension _ _ binder _ _ _ \<Rightarrow> Some binder
      | Term.SetComprehension _ _ binder _ _ _ \<Rightarrow> Some binder
      | Term.DictComprehension _ _ binder _ _ _ _ _ \<Rightarrow> Some binder
      | Term.ForAll binder _ _ \<Rightarrow> Some binder
      | _ \<Rightarrow> None)"

definition scoped_terms :: "Term \<Rightarrow> Term list" where
  "scoped_terms t =
     (case t of
        Term.ListComprehension _ _ _ _ mapped condition \<Rightarrow> mapped # case_option [] (\<lambda>c. [c]) condition
      | Term.SetComprehension _ _ _ _ mapped condition \<Rightarrow> mapped # case_option [] (\<lambda>c. [c]) condition
      | Term.DictComprehension _ _ _ _ _ key value condition \<Rightarrow>
          key # value # case_option [] (\<lambda>c. [c]) condition
      | Term.ForAll _ _ body \<Rightarrow> [body]
      | _ \<Rightarrow> [])"

abbreviation child_terms :: "Term \<Rightarrow> Term set" where
  "child_terms t \<equiv> set (outer_terms t) \<union> set (scoped_terms t)"

lemmas scope_defs = outer_terms_def binder_of_def scoped_terms_def

lemma size_member: "u \<in> set us \<Longrightarrow> f u \<le> size_list f us"
  by (rule size_list_estimation' [OF _ order.refl])

lemma size_transfer_receiver:
  "a \<in> set as \<Longrightarrow> size (transfer_receiver a) \<le> size_list (size_PermissionTransferAmount size) as"
  by (rule size_list_estimation', assumption) (cases a, simp)

lemma size_entry:
  "(a, b) \<in> set es \<Longrightarrow> size a \<le> size_list (size_prod size size) es"
  "(a, b) \<in> set es \<Longrightarrow> size b \<le> size_list (size_prod size size) es"
  by (rule size_list_estimation', assumption, simp)+

lemma size_child: "u \<in> child_terms t \<Longrightarrow> size u < size t"
  by (cases t)
    (auto simp: scope_defs less_Suc_eq_le size_member size_entry
      intro: trans_le_add1 trans_le_add2 size_transfer_receiver split: option.splits)

lemma term_children_induct [case_names step]:
  assumes "\<And>t. (\<And>u. u \<in> child_terms t \<Longrightarrow> P u) \<Longrightarrow> P t"
  shows "P t"
proof (induction "size t" arbitrary: t rule: less_induct)
  case less
  show ?case by (rule assms, rule less, rule size_child)
qed

lemma binder_of_eq_Some:
  "binder_of t = Some b \<longleftrightarrow>
     (\<exists>i source e m c. t = Term.ListComprehension i source b e m c) \<or>
     (\<exists>i source e m c. t = Term.SetComprehension i source b e m c) \<or>
     (\<exists>i source k v key value c. t = Term.DictComprehension i source b k v key value c) \<or>
     (\<exists>s body. t = Term.ForAll b s body)"
  by (cases t) (simp_all add: binder_of_def)

lemma scoped_terms_binder: "binder_of t = None \<Longrightarrow> scoped_terms t = []"
  by (cases t) (simp_all add: scope_defs)

section \<open>Occurrences\<close>

text \<open>
  A free occurrence of a variable with its annotation; an occurrence in the scope of a binder of the
  same name is not free.
\<close>

inductive free_occurrence :: "Term \<Rightarrow> string \<Rightarrow> Sort \<Rightarrow> bool" where
  variable: "free_occurrence (Term.Variable x s) x s"
| outer: "u \<in> set (outer_terms t) \<Longrightarrow> free_occurrence u x s \<Longrightarrow> free_occurrence t x s"
| scoped: "u \<in> set (scoped_terms t) \<Longrightarrow> binder_of t \<noteq> Some x \<Longrightarrow> free_occurrence u x s \<Longrightarrow>
    free_occurrence t x s"

inductive binds_name :: "Term \<Rightarrow> string \<Rightarrow> bool" where
  at_root: "binder_of t = Some x \<Longrightarrow> binds_name t x"
| below: "u \<in> child_terms t \<Longrightarrow> binds_name u x \<Longrightarrow> binds_name t x"

lemma free_occurrence_Variable [simp]:
  "free_occurrence (Term.Variable y s') x s \<longleftrightarrow> y = x \<and> s' = s"
  by (subst free_occurrence.simps) (auto simp: scope_defs)

lemma free_occurrence_children:
  "binder_of t \<noteq> Some x \<Longrightarrow> (\<And>y s. t \<noteq> Term.Variable y s) \<Longrightarrow>
   free_occurrence t x s \<longleftrightarrow> (\<exists>u \<in> child_terms t. free_occurrence u x s)"
  by (subst free_occurrence.simps) auto

lemma binds_name_children:
  "binds_name t x \<longleftrightarrow> binder_of t = Some x \<or> (\<exists>u \<in> child_terms t. binds_name u x)"
  by (subst binds_name.simps) auto

section \<open>The occurrence check\<close>

lemmas bound_defs =
  bound_two_def bound_all_def bound_all_transfers_def bound_all_entries_def bound_option_def
  bound_variable_def bound_nested_def bound_none_def loop_while_ok_eq_Inr

lemma ball_entries: "(\<forall>(a, b) \<in> A. P a \<and> P b) \<longleftrightarrow> (\<forall>u \<in> fst ` A \<union> snd ` A. P u)"
  by force

lemma validate_children:
  "(\<And>y s. t \<noteq> Term.Variable y s) \<Longrightarrow>
   validate_bound_occurrences t x s = Inr () \<longleftrightarrow>
     binder_of t \<noteq> Some x \<and> (\<forall>u \<in> child_terms t. validate_bound_occurrences u x s = Inr ())"
  by (cases t)
    (simp_all add: scope_defs bound_defs ball_Un PermissionTransferAmount.map_sel case_prod_beta
      split: option.splits, auto)


lemma binds_name_Variable [simp]: "\<not> binds_name (Term.Variable y s') x"
  by (subst binds_name.simps) (simp add: scope_defs)

lemma occurrence_check:
  "validate_bound_occurrences t x s = Inr () \<longleftrightarrow>
     \<not> binds_name t x \<and> (\<forall>s'. free_occurrence t x s' \<longrightarrow> s' = s)"
proof (induction t rule: term_children_induct)
  case (step t)
  show ?case
  proof (cases "\<exists>y s'. t = Term.Variable y s'")
    case True
    then show ?thesis by (auto simp: bound_variable_def split: if_splits)
  next
    case False
    then have "validate_bound_occurrences t x s = Inr () \<longleftrightarrow>
        binder_of t \<noteq> Some x \<and> (\<forall>u \<in> child_terms t.
          \<not> binds_name u x \<and> (\<forall>s'. free_occurrence u x s' \<longrightarrow> s' = s))"
      using step validate_children [of t x s] by blast
    moreover have "binder_of t \<noteq> Some x \<Longrightarrow>
        free_occurrence t x s' \<longleftrightarrow> (\<exists>u \<in> child_terms t. free_occurrence u x s')" for s'
      using False free_occurrence_children [of t x s'] by blast
    ultimately show ?thesis
      unfolding binds_name_children [of t x] by blast
  qed
qed

end
