(* ===== verification/VC_Typing.thy ===== *)
theory VC_Typing
  imports VC_Scope
begin

text \<open>
  The type system the sort checker implements: a judgement over an environment of variable sorts,
  with lexical scoping, and the theorem that \<open>sort_typed\<close> decides it.
\<close>

section \<open>Operators of a fixed signature\<close>

text \<open>
  The operands of a term with the sorts they must have and the sort of the term, for every operator
  whose operand sorts do not depend on each other. \<open>None\<close> for the others and for a term whose own
  attributes are refused.
\<close>

definition heap_field_sort :: "Sort \<Rightarrow> bool" where
  "heap_field_sort s \<longleftrightarrow>
     (case s of
        Sort.Unit \<Rightarrow> False | Sort.Class \<Rightarrow> False | Sort.Range \<Rightarrow> False
      | Sort.FiniteDict _ _ \<Rightarrow> False | Sort.DictKeys _ \<Rightarrow> False
      | Sort.VariadicTuple e \<Rightarrow> is_variadic_tuple_element_sort e
      | Sort.List e \<Rightarrow> is_list_element_sort e
      | _ \<Rightarrow> True)"

definition variable_sort :: "Sort \<Rightarrow> bool" where
  "variable_sort s \<longleftrightarrow>
     (case s of
        Sort.VariadicTuple e \<Rightarrow> is_variadic_tuple_element_sort e
      | Sort.List e \<Rightarrow> is_list_element_sort e
      | _ \<Rightarrow> True)"

definition unit_fraction :: "32 word \<Rightarrow> 32 word \<Rightarrow> bool" where
  "unit_fraction n d \<longleftrightarrow> d \<noteq> 0 \<and> n \<le> d"

definition provided :: "bool \<Rightarrow> 'a \<Rightarrow> 'a option" where
  "provided b x = (if b then Some x else None)"

lemma provided_eq_Some [simp]: "provided b x = Some y \<longleftrightarrow> b \<and> y = x" "Some y = provided b x \<longleftrightarrow> b \<and> y = x"
  by (auto simp: provided_def)

lemma provided_eq_None [simp]: "provided b x = None \<longleftrightarrow> \<not> b"
  by (simp add: provided_def)

definition all_of :: "Sort \<Rightarrow> Term list \<Rightarrow> (Term \<times> Sort) list" where
  "all_of s ts = map (\<lambda>t. (t, s)) ts"

lemma fst_all_of [simp]: "fst ` set (all_of s ts) = set ts"
  by (auto simp: all_of_def image_image)

definition fixed_signature :: "Term \<Rightarrow> ((Term \<times> Sort) list \<times> Sort) option" where
  "fixed_signature t =
     (case t of
        Term.Bool _ \<Rightarrow> Some ([], Sort.Bool)
      | Term.Int _ \<Rightarrow> Some ([], Sort.Int)
      | Term.IntEnumValue d v \<Rightarrow>
          provided (validate_int_enum_descriptor d = Ok ()) ([(v, Sort.Int)], Sort.Int)
      | Term.String _ \<Rightarrow> Some ([], Sort.String)
      | Term.Bytes _ \<Rightarrow> Some ([], Sort.Bytes)
      | Term.Range _ \<Rightarrow> Some ([], Sort.Range)
      | Term.Unit \<Rightarrow> Some ([], Sort.Unit)
      | Term.NullReference \<Rightarrow> Some ([], Sort.Reference)
      | Term.NominalReference _ c \<Rightarrow> provided (c \<noteq> []) ([], Sort.Reference)
      | Term.ClassLiteral n \<Rightarrow> provided (n \<noteq> []) ([], Sort.Class)
      | Term.RuntimeClass v \<Rightarrow> Some ([(v, Sort.Reference)], Sort.Class)
      | Term.ClassSubtype l r \<Rightarrow> Some ([(l, Sort.Class), (r, Sort.Class)], Sort.Bool)
      | Term.FieldRead _ v _ s \<Rightarrow> provided (heap_field_sort s) ([(v, Sort.Reference)], s)
      | Term.PermissionAtLeast _ v _ n d \<Rightarrow> provided (unit_fraction n d) ([(v, Sort.Reference)], Sort.Bool)
      | Term.PermissionAtMost _ v _ n d \<Rightarrow> provided (unit_fraction n d) ([(v, Sort.Reference)], Sort.Bool)
      | Term.PermissionPositive _ v _ \<Rightarrow> Some ([(v, Sort.Reference)], Sort.Bool)
      | Term.PermissionMaskValid _ f \<Rightarrow> provided (f \<noteq> []) ([], Sort.Bool)
      | Term.PermissionMaskTransition before after f cs ps \<Rightarrow>
          provided (before \<noteq> after \<and> f \<noteq> [] \<and>
              (\<forall>a \<in> set cs \<union> set ps. unit_fraction (transfer_numerator a) (transfer_denominator a)))
            (all_of Sort.Reference (map transfer_receiver cs @ map transfer_receiver ps), Sort.Bool)
      | Term.Not v \<Rightarrow> Some ([(v, Sort.Bool)], Sort.Bool)
      | Term.And vs \<Rightarrow> Some (all_of Sort.Bool vs, Sort.Bool)
      | Term.Or vs \<Rightarrow> Some (all_of Sort.Bool vs, Sort.Bool)
      | Term.Implies l r \<Rightarrow> Some ([(l, Sort.Bool), (r, Sort.Bool)], Sort.Bool)
      | Term.Less l r \<Rightarrow> Some ([(l, Sort.Int), (r, Sort.Int)], Sort.Bool)
      | Term.LessEqual l r \<Rightarrow> Some ([(l, Sort.Int), (r, Sort.Int)], Sort.Bool)
      | Term.Greater l r \<Rightarrow> Some ([(l, Sort.Int), (r, Sort.Int)], Sort.Bool)
      | Term.GreaterEqual l r \<Rightarrow> Some ([(l, Sort.Int), (r, Sort.Int)], Sort.Bool)
      | Term.Add l r \<Rightarrow> Some ([(l, Sort.Int), (r, Sort.Int)], Sort.Int)
      | Term.Subtract l r \<Rightarrow> Some ([(l, Sort.Int), (r, Sort.Int)], Sort.Int)
      | Term.Multiply l r \<Rightarrow> Some ([(l, Sort.Int), (r, Sort.Int)], Sort.Int)
      | Term.FloorDivideByPositive v d \<Rightarrow> provided (d \<noteq> 0) ([(v, Sort.Int)], Sort.Int)
      | Term.Negate v \<Rightarrow> Some ([(v, Sort.Int)], Sort.Int)
      | Term.StringConcat vs \<Rightarrow> Some (all_of Sort.String vs, Sort.String)
      | Term.StringLength v \<Rightarrow> Some ([(v, Sort.String)], Sort.Int)
      | Term.StringSlice v l r \<Rightarrow> Some ([(v, Sort.String), (l, Sort.Int), (r, Sort.Int)], Sort.String)
      | Term.BytesConcat vs \<Rightarrow> Some (all_of Sort.Bytes vs, Sort.Bytes)
      | Term.BytesLength v \<Rightarrow> Some ([(v, Sort.Bytes)], Sort.Int)
      | Term.BytesGet l r \<Rightarrow> Some ([(l, Sort.Bytes), (r, Sort.Int)], Sort.Int)
      | Term.VariadicTuple e vs \<Rightarrow> provided (is_variadic_tuple_element_sort e) (all_of e vs, Sort.VariadicTuple e)
      | Term.List e vs \<Rightarrow> provided (is_list_element_sort e) (all_of e vs, Sort.List e)
      | Term.ListSum v \<Rightarrow> Some ([(v, Sort.List Sort.Int)], Sort.Int)
      | Term.ListSorted v \<Rightarrow> Some ([(v, Sort.List Sort.Int)], Sort.List Sort.Int)
      | Term.FiniteDict k v es \<Rightarrow>
          provided ((is_finite_dict_key_sort k \<or> k = Sort.Reference \<and> (\<forall>e \<in> set es. is_nominal_reference (fst e)))
              \<and> is_finite_dict_value_sort v)
            (all_of k (map fst es) @ all_of v (map snd es), Sort.FiniteDict k v)
      | Term.DictKeys k vs \<Rightarrow> provided (is_finite_dict_key_sort k) (all_of k vs, Sort.DictKeys k)
      | _ \<Rightarrow> None)"

lemma case_Ok_eq [simp]:
  "(case r of Inl e \<Rightarrow> Inl e | Inr x \<Rightarrow> f x) = Inr y \<longleftrightarrow> (\<exists>x. r = Inr x \<and> f x = Inr y)"
  by (cases r) auto

lemma require_sort_eq_Ok [simp]: "require_sort r s ctx = Inr () \<longleftrightarrow> r = Inr s"
  by (cases r) (auto simp: require_sort_def)

lemma require_all_sorts_eq_Ok [simp]: "require_all_sorts rs s ctx = Inr () \<longleftrightarrow> (\<forall>r \<in> set rs. r = Inr s)"
  by (simp add: require_all_sorts_def loop_while_ok_eq_Inr)

lemma require_transfers_eq_Ok [simp]:
  "require_permission_transfer_amounts as = Inr () \<longleftrightarrow>
     (\<forall>a \<in> set as. transfer_receiver a = Inr Sort.Reference \<and>
        unit_fraction (transfer_numerator a) (transfer_denominator a))"
  by (auto simp: require_permission_transfer_amounts_def loop_while_ok_eq_Inr unit_fraction_def not_less)

lemma require_variadic_eq_Ok [simp]:
  "require_variadic_tuple_element_sorts rs s = Inr () \<longleftrightarrow> (\<forall>r \<in> set rs. r = Inr s)"
  by (simp add: require_variadic_tuple_element_sorts_def loop_while_ok_eq_Inr)

lemma require_entries_eq_Ok [simp]:
  "require_finite_dict_entry_sorts es k v = Inr () \<longleftrightarrow> (\<forall>e \<in> set es. fst e = Inr k \<and> snd e = Inr v)"
  by (simp add: require_finite_dict_entry_sorts_def loop_while_ok_eq_Inr case_prod_beta)


lemmas fixed_arm_defs =
  sort_int_enum_value_def sort_permission_bound_def sort_permission_mask_transition_def
  sort_integer_operator_def sort_floor_divide_def sort_string_slice_def sort_bytes_get_def
  sort_variadic_tuple_def sort_list_def sort_list_sum_def sort_list_sorted_def sort_finite_dict_def
  sort_dict_keys_def

lemma all_nominal_keys [simp]:
  "all_nominal_reference_keys es \<longleftrightarrow> (\<forall>e \<in> set es. is_nominal_reference (fst e))"
  by (auto simp: all_nominal_reference_keys_def loop_while_true_iff)

lemma sort_field_read_eq_Ok [simp]:
  "sort_field_read r s' = Inr s \<longleftrightarrow> r = Inr Sort.Reference \<and> heap_field_sort s' \<and> s = s'"
  by (cases s') (auto simp: sort_field_read_def heap_field_sort_def)

lemma sort_variable_eq_Ok [simp]: "sort_variable s' = Inr s \<longleftrightarrow> variable_sort s' \<and> s = s'"
  by (cases s') (auto simp: sort_variable_def variable_sort_def)

lemma dict_operands:
  "(\<forall>x \<in> set (all_of k (map fst es) @ all_of v (map snd es)). P (fst x) (snd x)) \<longleftrightarrow>
     (\<forall>e \<in> set es. P (fst e) k \<and> P (snd e) v)"
  by (auto simp: all_of_def ball_Un)

lemma fixed_signature_sort:
  assumes "fixed_signature t = Some (ops, r)"
  shows "sort_typed t = Inr s \<longleftrightarrow> s = r \<and> (\<forall>x \<in> set ops. sort_typed (fst x) = Inr (snd x))"
proof (cases t)
  case (FiniteDict k v es)
  with assms dict_operands [of k es v "\<lambda>u a. sort_typed u = Inr a"] show ?thesis
    by (auto simp: fixed_signature_def sort_finite_dict_def simp del: set_append)
qed (use assms in \<open>simp_all add: fixed_signature_def\<close>,
  auto simp: fixed_arm_defs all_of_def ball_Un unit_fraction_def not_less PermissionTransferAmount.map_sel)

lemma fixed_signature_operands:
  assumes "fixed_signature t = Some (ops, r)"
  shows "set (outer_terms t) = fst ` set ops \<and> binder_of t = None \<and> scoped_terms t = [] \<and> (\<forall>x s. t \<noteq> Term.Variable x s)"
  using assms [symmetric] by (cases t) (simp_all add: fixed_signature_def scope_defs image_Un image_image)


section \<open>The judgement\<close>

type_synonym sort_env = "string \<Rightarrow> Sort option"

definition argument_sorts :: "Sort set" where
  "argument_sorts = {Sort.Bool, Sort.Int, Sort.String, Sort.Reference, Sort.Class}"

definition set_member_sort :: "Term \<Rightarrow> string \<Rightarrow> Term \<Rightarrow> Sort \<Rightarrow> bool" where
  "set_member_sort source b mapped e \<longleftrightarrow> is_finite_dict_key_sort e \<or>
     e = Sort.Reference \<and> mapped = Term.Variable b Sort.Reference \<and>
     (\<exists>us. source = Term.List Sort.Reference us \<and> (\<forall>u \<in> set us. is_nominal_reference u))"

inductive typed :: "sort_env \<Rightarrow> Term \<Rightarrow> Sort \<Rightarrow> bool"
  and scoped_typed :: "sort_env \<Rightarrow> string \<Rightarrow> Sort \<Rightarrow> Term \<Rightarrow> Sort \<Rightarrow> bool" where
  operator: "fixed_signature t = Some (ops, r) \<Longrightarrow> (\<And>x. x \<in> set ops \<Longrightarrow> typed \<Gamma> (fst x) (snd x)) \<Longrightarrow> typed \<Gamma> t r"
| var: "\<Gamma> x = Some s \<Longrightarrow> variable_sort s \<Longrightarrow> typed \<Gamma> (Term.Variable x s) s"
| enum_projection: "typed \<Gamma> (Term.IntEnumValue d v) s \<Longrightarrow>
    typed \<Gamma> (Term.IntEnumProjection (Term.IntEnumValue d v)) Sort.Int"
| enum_domain: "typed \<Gamma> (Term.IntEnumValue d v) s \<Longrightarrow>
    typed \<Gamma> (Term.IntEnumDomain (Term.IntEnumValue d v)) Sort.Bool"
| enum_identity: "typed \<Gamma> (Term.IntEnumValue d v) s \<Longrightarrow> typed \<Gamma> (Term.IntEnumValue d' v') s' \<Longrightarrow>
    typed \<Gamma> (Term.IntEnumIdentity (Term.IntEnumValue d v) (Term.IntEnumValue d' v')) Sort.Bool"
| predicate: "p \<noteq> [] \<Longrightarrow> us \<noteq> [] \<Longrightarrow> (\<And>u. u \<in> set us \<Longrightarrow> \<exists>a \<in> argument_sorts. typed \<Gamma> u a) \<Longrightarrow>
    typed \<Gamma> (Term.PredicateInstance p us) Sort.Reference"
| conditional: "typed \<Gamma> c Sort.Bool \<Longrightarrow> typed \<Gamma> l s \<Longrightarrow> typed \<Gamma> r s \<Longrightarrow> typed \<Gamma> (Term.IfThenElse c l r) s"
| equality: "typed \<Gamma> l s \<Longrightarrow> typed \<Gamma> r s \<Longrightarrow> typed \<Gamma> (Term.Equal l r) Sort.Bool"
| tuple: "list_all2 (typed \<Gamma>) us ss \<Longrightarrow> typed \<Gamma> (Term.Tuple us) (Sort.Tuple ss)"
| tuple_get: "typed \<Gamma> u (Sort.Tuple ss) \<Longrightarrow> i < length ss \<Longrightarrow> typed \<Gamma> (Term.TupleGet u i) (ss ! i)"
| variadic_length: "typed \<Gamma> u (Sort.VariadicTuple e) \<Longrightarrow> typed \<Gamma> (Term.VariadicTupleLength u) Sort.Int"
| variadic_get: "typed \<Gamma> u (Sort.VariadicTuple e) \<Longrightarrow> typed \<Gamma> i Sort.Int \<Longrightarrow> typed \<Gamma> (Term.VariadicTupleGet u i) e"
| variadic_slice: "typed \<Gamma> u (Sort.VariadicTuple e) \<Longrightarrow>
    typed \<Gamma> (Term.VariadicTupleSlice u lower upper step) (Sort.VariadicTuple e)"
| list_length: "typed \<Gamma> u (Sort.List e) \<Longrightarrow> typed \<Gamma> (Term.ListLength u) Sort.Int"
| list_get: "typed \<Gamma> u (Sort.List e) \<Longrightarrow> typed \<Gamma> i Sort.Int \<Longrightarrow> typed \<Gamma> (Term.ListGet u i) e"
| list_contains: "typed \<Gamma> u (Sort.List e) \<Longrightarrow> typed \<Gamma> v e \<Longrightarrow> typed \<Gamma> (Term.ListContains u v) Sort.Bool"
| list_slice: "typed \<Gamma> u (Sort.List e) \<Longrightarrow> typed \<Gamma> (Term.ListSlice u lower upper step) (Sort.List e)"
| list_concat: "typed \<Gamma> l (Sort.List e) \<Longrightarrow> typed \<Gamma> r (Sort.List e) \<Longrightarrow> typed \<Gamma> (Term.ListConcat l r) (Sort.List e)"
| set_length: "typed \<Gamma> u (Sort.Set e) \<Longrightarrow> typed \<Gamma> (Term.SetLength u) Sort.Int"
| set_contains: "typed \<Gamma> u (Sort.Set e) \<Longrightarrow> typed \<Gamma> v e \<Longrightarrow> typed \<Gamma> (Term.SetContains u v) Sort.Bool"
| dict_length: "typed \<Gamma> u d \<Longrightarrow> d \<in> {Sort.Dict k v, Sort.FiniteDict k v} \<Longrightarrow> typed \<Gamma> (Term.DictLength u) Sort.Int"
| dict_contains: "typed \<Gamma> u (Sort.Dict k v) \<Longrightarrow> typed \<Gamma> key k \<Longrightarrow> typed \<Gamma> (Term.DictContains u key) Sort.Bool"
| dict_get: "typed \<Gamma> u (Sort.Dict k v) \<Longrightarrow> typed \<Gamma> key k \<Longrightarrow> typed \<Gamma> (Term.DictGet u key) v"
| list_comprehension: "typed \<Gamma> source (Sort.List a) \<Longrightarrow> scoped_typed \<Gamma> b a mapped e \<Longrightarrow>
    (\<And>c. condition = Some c \<Longrightarrow> scoped_typed \<Gamma> b a c Sort.Bool) \<Longrightarrow>
    typed \<Gamma> (Term.ListComprehension n source b e mapped condition) (Sort.List e)"
| set_comprehension: "typed \<Gamma> source (Sort.List a) \<Longrightarrow> set_member_sort source b mapped e \<Longrightarrow>
    scoped_typed \<Gamma> b a mapped e \<Longrightarrow> (\<And>c. condition = Some c \<Longrightarrow> scoped_typed \<Gamma> b a c Sort.Bool) \<Longrightarrow>
    typed \<Gamma> (Term.SetComprehension n source b e mapped condition) (Sort.Set e)"
| dict_comprehension: "typed \<Gamma> source (Sort.List a) \<Longrightarrow> is_finite_dict_key_sort k \<Longrightarrow>
    is_finite_dict_value_sort v \<Longrightarrow> scoped_typed \<Gamma> b a key k \<Longrightarrow> scoped_typed \<Gamma> b a val v \<Longrightarrow>
    (\<And>c. condition = Some c \<Longrightarrow> scoped_typed \<Gamma> b a c Sort.Bool) \<Longrightarrow>
    typed \<Gamma> (Term.DictComprehension n source b k v key val condition) (Sort.Dict k v)"
| for_all: "scoped_typed \<Gamma> b a body Sort.Bool \<Longrightarrow> typed \<Gamma> (Term.ForAll b a body) Sort.Bool"
| scope: "b \<noteq> [] \<Longrightarrow> \<not> binds_name u b \<Longrightarrow> typed (\<Gamma>(b \<mapsto> a)) u s \<Longrightarrow> scoped_typed \<Gamma> b a u s"


section \<open>Soundness and completeness of the checker\<close>

definition agrees :: "sort_env \<Rightarrow> Term \<Rightarrow> bool" where
  "agrees \<Gamma> t \<longleftrightarrow> (\<forall>x s. free_occurrence t x s \<longrightarrow> \<Gamma> x = Some s)"

definition agrees_except :: "string \<Rightarrow> sort_env \<Rightarrow> Term \<Rightarrow> bool" where
  "agrees_except b \<Gamma> t \<longleftrightarrow> (\<forall>x s. free_occurrence t x s \<longrightarrow> x \<noteq> b \<longrightarrow> \<Gamma> x = Some s)"

lemma agrees_Variable [simp]: "agrees \<Gamma> (Term.Variable x s) \<longleftrightarrow> \<Gamma> x = Some s"
  by (simp add: agrees_def)

lemma agrees_children:
  "binder_of t = None \<Longrightarrow> (\<forall>y s. t \<noteq> Term.Variable y s) \<Longrightarrow>
   agrees \<Gamma> t \<longleftrightarrow> (\<forall>u \<in> set (outer_terms t). agrees \<Gamma> u)"
  using free_occurrence_children [of t] unfolding agrees_def by (simp add: scoped_terms_binder) blast

lemma agrees_binder:
  assumes "binder_of t = Some b"
  shows "agrees \<Gamma> t \<longleftrightarrow>
     (\<forall>u \<in> set (outer_terms t). agrees \<Gamma> u) \<and> (\<forall>u \<in> set (scoped_terms t). agrees_except b \<Gamma> u)"
proof -
  have "t \<noteq> Term.Variable y s" for y s using assms by (auto simp: binder_of_def)
  then have "free_occurrence t x s \<longleftrightarrow>
      (\<exists>u \<in> set (outer_terms t). free_occurrence u x s) \<or>
      x \<noteq> b \<and> (\<exists>u \<in> set (scoped_terms t). free_occurrence u x s)" for x s
    using assms by (subst free_occurrence.simps) auto
  then show ?thesis unfolding agrees_def agrees_except_def by blast
qed

lemma scoped_agrees:
  "validate_bound_occurrences u b a = Inr () \<and> agrees_except b \<Gamma> u \<longleftrightarrow>
     \<not> binds_name u b \<and> agrees (\<Gamma>(b \<mapsto> a)) u"
  unfolding occurrence_check agrees_def agrees_except_def by auto

lemma require_bound_term_eq_Ok:
  "require_bound_term_sort b a (u, r) s ctx = Inr () \<longleftrightarrow>
     validate_bound_occurrences u b a = Inr () \<and> r = Inr s"
  by (simp add: require_bound_term_sort_def)

definition checked :: "sort_env \<Rightarrow> Term \<Rightarrow> Sort \<Rightarrow> bool" where
  "checked \<Gamma> t s \<longleftrightarrow> sort_typed t = Inr s \<and> agrees \<Gamma> t"

definition scoped_checked :: "sort_env \<Rightarrow> string \<Rightarrow> Sort \<Rightarrow> Term \<Rightarrow> Sort \<Rightarrow> bool" where
  "scoped_checked \<Gamma> b a u s \<longleftrightarrow> b \<noteq> [] \<and> \<not> binds_name u b \<and> checked (\<Gamma>(b \<mapsto> a)) u s"

lemma scoped_checked_iff:
  "scoped_checked \<Gamma> b a u s \<longleftrightarrow>
     b \<noteq> [] \<and> validate_bound_occurrences u b a = Inr () \<and> sort_typed u = Inr s \<and> agrees_except b \<Gamma> u"
  using scoped_agrees [of u b a \<Gamma>] by (auto simp: scoped_checked_def checked_def)


lemma checked_operator:
  assumes "fixed_signature t = Some (ops, r)"
  shows "checked \<Gamma> t s \<longleftrightarrow> s = r \<and> (\<forall>x \<in> set ops. checked \<Gamma> (fst x) (snd x))"
  using fixed_signature_sort [OF assms, of s] fixed_signature_operands [OF assms] agrees_children [of t \<Gamma>]
  unfolding checked_def by auto

lemma collect_sorts_eq_Ok: "collect_sorts rs = Inr ss \<longleftrightarrow> list_all2 (\<lambda>r s. r = Inr s) rs ss"
  by (simp add: collect_sorts_def collect_while_ok_eq_Inr)

lemma case_Sort_eq_Ok [simp]:
  "(case s of Sort.Tuple es \<Rightarrow> f es | _ \<Rightarrow> Inl err) = Inr x \<longleftrightarrow> (\<exists>es. s = Sort.Tuple es \<and> f es = Inr x)"
  "(case s of Sort.VariadicTuple e \<Rightarrow> g e | _ \<Rightarrow> Inl err) = Inr x \<longleftrightarrow> (\<exists>e. s = Sort.VariadicTuple e \<and> g e = Inr x)"
  "(case s of Sort.List e \<Rightarrow> g e | _ \<Rightarrow> Inl err) = Inr x \<longleftrightarrow> (\<exists>e. s = Sort.List e \<and> g e = Inr x)"
  "(case s of Sort.Set e \<Rightarrow> g e | _ \<Rightarrow> Inl err) = Inr x \<longleftrightarrow> (\<exists>e. s = Sort.Set e \<and> g e = Inr x)"
  "(case s of Sort.Dict k v \<Rightarrow> h k v | _ \<Rightarrow> Inl err) = Inr x \<longleftrightarrow> (\<exists>k v. s = Sort.Dict k v \<and> h k v = Inr x)"
  "(case s of Sort.Dict k v \<Rightarrow> h k v | Sort.FiniteDict k v \<Rightarrow> h k v | _ \<Rightarrow> Inl err) = Inr x \<longleftrightarrow>
     (\<exists>k v. s \<in> {Sort.Dict k v, Sort.FiniteDict k v} \<and> h k v = Inr x)"
  by (cases s; simp)+

lemmas checked_defs = checked_def agrees_children agrees_binder scope_defs scoped_checked_iff

lemma checked_Variable [simp]:
  "checked \<Gamma> (Term.Variable x s') s \<longleftrightarrow> s = s' \<and> \<Gamma> x = Some s \<and> variable_sort s"
  by (auto simp: checked_def)

lemma checked_enum [simp]:
  "checked \<Gamma> (Term.IntEnumProjection v) s \<longleftrightarrow> s = Sort.Int \<and> is_int_enum_value v \<and> (\<exists>s'. checked \<Gamma> v s')"
  "checked \<Gamma> (Term.IntEnumDomain v) s \<longleftrightarrow> s = Sort.Bool \<and> is_int_enum_value v \<and> (\<exists>s'. checked \<Gamma> v s')"
  "checked \<Gamma> (Term.IntEnumIdentity v w) s \<longleftrightarrow>
     s = Sort.Bool \<and> is_int_enum_value v \<and> is_int_enum_value w \<and> (\<exists>s'. checked \<Gamma> v s') \<and> (\<exists>s'. checked \<Gamma> w s')"
  by (auto simp: checked_defs sort_int_enum_projection_def sort_int_enum_identity_def)

lemma checked_predicate [simp]:
  "checked \<Gamma> (Term.PredicateInstance p us) s \<longleftrightarrow>
     s = Sort.Reference \<and> p \<noteq> [] \<and> us \<noteq> [] \<and> (\<forall>u \<in> set us. \<exists>a \<in> argument_sorts. checked \<Gamma> u a)"
proof -
  have argument: "(case a of
              Sort.Bool \<Rightarrow> Ok () | Sort.Int \<Rightarrow> Ok () | Sort.String \<Rightarrow> Ok ()
            | Sort.Reference \<Rightarrow> Ok () | Sort.Class \<Rightarrow> Ok ()
            | _ \<Rightarrow> Err PredicateArgumentSortUnsupported) = Inr () \<longleftrightarrow> a \<in> argument_sorts" for a
    by (cases a) (simp_all add: argument_sorts_def)
  show ?thesis
    by (auto simp: checked_defs sort_predicate_instance_def require_predicate_argument_sorts_def
        loop_while_ok_eq_Inr argument)
qed

lemma checked_conditional [simp]:
  "checked \<Gamma> (Term.IfThenElse c l r) s \<longleftrightarrow> checked \<Gamma> c Sort.Bool \<and> checked \<Gamma> l s \<and> checked \<Gamma> r s"
  "checked \<Gamma> (Term.Equal l r) s \<longleftrightarrow> s = Sort.Bool \<and> (\<exists>a. checked \<Gamma> l a \<and> checked \<Gamma> r a)"
  by (auto simp: checked_defs sort_if_then_else_def sort_equal_def)

lemma checked_tuple [simp]:
  "checked \<Gamma> (Term.Tuple us) s \<longleftrightarrow> (\<exists>ss. s = Sort.Tuple ss \<and> list_all2 (checked \<Gamma>) us ss)"
  "checked \<Gamma> (Term.TupleGet u i) s \<longleftrightarrow> (\<exists>ss. checked \<Gamma> u (Sort.Tuple ss) \<and> i < length ss \<and> s = ss ! i)"
proof -
  have "list_all2 (checked \<Gamma>) us ss \<longleftrightarrow>
      list_all2 (\<lambda>u a. sort_typed u = Inr a) us ss \<and> (\<forall>u \<in> set us. agrees \<Gamma> u)" for ss
    by (induction us arbitrary: ss) (auto simp: list_all2_Cons1 checked_def)
  then show "checked \<Gamma> (Term.Tuple us) s \<longleftrightarrow> (\<exists>ss. s = Sort.Tuple ss \<and> list_all2 (checked \<Gamma>) us ss)"
    by (auto simp: checked_defs sort_tuple_def collect_sorts_eq_Ok list_all2_map1)
qed (auto simp: checked_defs sort_tuple_get_def split: if_splits)

lemma checked_variadic [simp]:
  "checked \<Gamma> (Term.VariadicTupleLength u) s \<longleftrightarrow> s = Sort.Int \<and> (\<exists>e. checked \<Gamma> u (Sort.VariadicTuple e))"
  "checked \<Gamma> (Term.VariadicTupleGet u i) s \<longleftrightarrow> checked \<Gamma> u (Sort.VariadicTuple s) \<and> checked \<Gamma> i Sort.Int"
  "checked \<Gamma> (Term.VariadicTupleSlice u lower upper step) s \<longleftrightarrow>
     (\<exists>e. s = Sort.VariadicTuple e \<and> checked \<Gamma> u (Sort.VariadicTuple e))"
  by (auto simp: checked_defs sort_variadic_tuple_length_def sort_variadic_tuple_get_def
      sort_variadic_tuple_slice_def)

lemma checked_list [simp]:
  "checked \<Gamma> (Term.ListLength u) s \<longleftrightarrow> s = Sort.Int \<and> (\<exists>e. checked \<Gamma> u (Sort.List e))"
  "checked \<Gamma> (Term.ListGet u i) s \<longleftrightarrow> checked \<Gamma> u (Sort.List s) \<and> checked \<Gamma> i Sort.Int"
  "checked \<Gamma> (Term.ListContains u v) s \<longleftrightarrow> s = Sort.Bool \<and> (\<exists>e. checked \<Gamma> u (Sort.List e) \<and> checked \<Gamma> v e)"
  "checked \<Gamma> (Term.ListSlice u lower upper step) s \<longleftrightarrow> (\<exists>e. s = Sort.List e \<and> checked \<Gamma> u (Sort.List e))"
  "checked \<Gamma> (Term.ListConcat l r) s \<longleftrightarrow>
     (\<exists>e. s = Sort.List e \<and> checked \<Gamma> l (Sort.List e) \<and> checked \<Gamma> r (Sort.List e))"
  by (auto simp: checked_defs sort_list_length_def sort_list_get_def sort_list_contains_def
      sort_list_slice_def sort_list_concat_def split: if_splits)

lemma checked_set_dict [simp]:
  "checked \<Gamma> (Term.SetLength u) s \<longleftrightarrow> s = Sort.Int \<and> (\<exists>e. checked \<Gamma> u (Sort.Set e))"
  "checked \<Gamma> (Term.SetContains u v) s \<longleftrightarrow> s = Sort.Bool \<and> (\<exists>e. checked \<Gamma> u (Sort.Set e) \<and> checked \<Gamma> v e)"
  "checked \<Gamma> (Term.DictLength u) s \<longleftrightarrow>
     s = Sort.Int \<and> (\<exists>k v. checked \<Gamma> u (Sort.Dict k v) \<or> checked \<Gamma> u (Sort.FiniteDict k v))"
  "checked \<Gamma> (Term.DictContains u key) s \<longleftrightarrow>
     s = Sort.Bool \<and> (\<exists>k v. checked \<Gamma> u (Sort.Dict k v) \<and> checked \<Gamma> key k)"
  "checked \<Gamma> (Term.DictGet u key) s \<longleftrightarrow> (\<exists>k. checked \<Gamma> u (Sort.Dict k s) \<and> checked \<Gamma> key k)"
  by (auto simp: checked_defs sort_set_length_def sort_set_contains_def sort_dict_length_def
      sort_dict_contains_def sort_dict_get_def)


lemma exact_reference_list_iff:
  "is_exact_nominal_reference_list u \<longleftrightarrow>
     (\<exists>us. u = Term.List Sort.Reference us \<and> (\<forall>u \<in> set us. is_nominal_reference u))"
  by (cases u) (auto simp: is_exact_nominal_reference_list_def all_nominal_references_def loop_while_true_iff)

lemma reference_projection_iff:
  "is_reference_binder_projection u b \<longleftrightarrow> u = Term.Variable b Sort.Reference"
  by (cases u) (auto simp: is_reference_binder_projection_def)

lemma set_member_sort_iff:
  "set_member_sort source b mapped e \<longleftrightarrow>
     is_finite_dict_key_sort e \<or> e = Sort.Reference \<and> is_exact_nominal_reference_list source \<and>
     is_reference_binder_projection mapped b"
  by (auto simp: set_member_sort_def exact_reference_list_iff reference_projection_iff)

lemma require_body_eq_Ok:
  "require_comprehension_body b a (m, rm) e (map_option (\<lambda>c. (c, f c)) condition) = Inr () \<longleftrightarrow>
     b \<noteq> [] \<and> validate_bound_occurrences m b a = Inr () \<and> rm = Inr e \<and>
     (\<forall>c. condition = Some c \<longrightarrow> validate_bound_occurrences c b a = Inr () \<and> f c = Inr Sort.Bool)"
  by (cases condition) (simp_all add: require_comprehension_body_def require_bound_term_eq_Ok)

lemma agrees_comprehension:
  "agrees \<Gamma> (Term.ListComprehension n source b e mapped condition) \<longleftrightarrow>
     agrees \<Gamma> source \<and> agrees_except b \<Gamma> mapped \<and> (\<forall>c. condition = Some c \<longrightarrow> agrees_except b \<Gamma> c)"
  "agrees \<Gamma> (Term.SetComprehension n source b e mapped condition) \<longleftrightarrow>
     agrees \<Gamma> source \<and> agrees_except b \<Gamma> mapped \<and> (\<forall>c. condition = Some c \<longrightarrow> agrees_except b \<Gamma> c)"
  "agrees \<Gamma> (Term.DictComprehension n source b k v key val condition) \<longleftrightarrow>
     agrees \<Gamma> source \<and> agrees_except b \<Gamma> key \<and> agrees_except b \<Gamma> val \<and>
     (\<forall>c. condition = Some c \<longrightarrow> agrees_except b \<Gamma> c)"
  "agrees \<Gamma> (Term.ForAll b a body) \<longleftrightarrow> agrees_except b \<Gamma> body"
  by (cases condition; simp add: agrees_binder scope_defs)+

lemma checked_binders [simp]:
  "checked \<Gamma> (Term.ListComprehension n source b e mapped condition) s \<longleftrightarrow>
     (\<exists>a. s = Sort.List e \<and> checked \<Gamma> source (Sort.List a) \<and> scoped_checked \<Gamma> b a mapped e \<and>
        (\<forall>c. condition = Some c \<longrightarrow> scoped_checked \<Gamma> b a c Sort.Bool))"
  "checked \<Gamma> (Term.SetComprehension n source b e mapped condition) s \<longleftrightarrow>
     (\<exists>a. s = Sort.Set e \<and> checked \<Gamma> source (Sort.List a) \<and> set_member_sort source b mapped e \<and>
        scoped_checked \<Gamma> b a mapped e \<and> (\<forall>c. condition = Some c \<longrightarrow> scoped_checked \<Gamma> b a c Sort.Bool))"
  "checked \<Gamma> (Term.DictComprehension n source b k v key val condition) s \<longleftrightarrow>
     (\<exists>a. s = Sort.Dict k v \<and> checked \<Gamma> source (Sort.List a) \<and> is_finite_dict_key_sort k \<and>
        is_finite_dict_value_sort v \<and> scoped_checked \<Gamma> b a key k \<and> scoped_checked \<Gamma> b a val v \<and>
        (\<forall>c. condition = Some c \<longrightarrow> scoped_checked \<Gamma> b a c Sort.Bool))"
  "checked \<Gamma> (Term.ForAll b a body) s \<longleftrightarrow> s = Sort.Bool \<and> scoped_checked \<Gamma> b a body Sort.Bool"
  unfolding checked_def scoped_checked_iff agrees_comprehension set_member_sort_iff
  by (auto simp: sort_list_comprehension_def sort_set_comprehension_def sort_dict_comprehension_def
      sort_for_all_def Let_def require_body_eq_Ok require_bound_term_eq_Ok)

lemma typed_checked:
  "(typed \<Gamma> t s \<longrightarrow> checked \<Gamma> t s) \<and> (scoped_typed \<Gamma> b a u s' \<longrightarrow> scoped_checked \<Gamma> b a u s')"
proof (induction rule: typed_scoped_typed.induct)
  case (operator t ops r \<Gamma>)
  then show ?case by (simp add: checked_operator)
next
  case (tuple \<Gamma> us ss)
  then show ?case by (auto elim: list_all2_mono)
next
  case (scope b u \<Gamma> a s)
  then show ?case by (simp add: scoped_checked_def fun_upd_def)
qed (auto simp: is_int_enum_value_def)


lemma typed_sound: "typed \<Gamma> t s \<Longrightarrow> checked \<Gamma> t s"
  using typed_checked by blast

lemma is_int_enum_value_iff: "is_int_enum_value v \<longleftrightarrow> (\<exists>d n. v = Term.IntEnumValue d n)"
  by (cases v) (simp_all add: is_int_enum_value_def)

lemma fixed_signature_refused:
  "fixed_signature t = None \<Longrightarrow> checked \<Gamma> t s \<Longrightarrow>
     (\<exists>x s. t = Term.Variable x s) \<or> (\<exists>v. t \<in> {Term.IntEnumProjection v, Term.IntEnumDomain v}) \<or>
     (\<exists>v w. t = Term.IntEnumIdentity v w) \<or> (\<exists>p us. t = Term.PredicateInstance p us) \<or>
     (\<exists>c l r. t = Term.IfThenElse c l r) \<or> (\<exists>us. t = Term.Tuple us) \<or> (\<exists>u i. t = Term.TupleGet u i) \<or>
     (\<exists>u. t \<in> {Term.VariadicTupleLength u, Term.ListLength u, Term.SetLength u, Term.DictLength u}) \<or>
     (\<exists>u v. t \<in> {Term.Equal u v, Term.VariadicTupleGet u v, Term.ListGet u v, Term.ListContains u v, Term.ListConcat u v,
        Term.SetContains u v, Term.DictContains u v, Term.DictGet u v}) \<or>
     (\<exists>u lower upper step. t \<in> {Term.VariadicTupleSlice u lower upper step, Term.ListSlice u lower upper step}) \<or>
     (\<exists>n source b e m c. t \<in> {Term.ListComprehension n source b e m c, Term.SetComprehension n source b e m c}) \<or>
     (\<exists>n source b k v key val c. t = Term.DictComprehension n source b k v key val c) \<or>
     (\<exists>b a body. t = Term.ForAll b a body)"
  by (cases t)
    (simp_all add: fixed_signature_def,
      auto simp: checked_def fixed_arm_defs unit_fraction_def PermissionTransferAmount.map_sel not_less
        split: if_splits)

lemmas special_rules =
  var enum_projection enum_domain enum_identity predicate conditional equality tuple_get variadic_length
  variadic_get variadic_slice list_length list_get list_contains list_slice list_concat set_length
  set_contains dict_length dict_contains dict_get list_comprehension set_comprehension
  dict_comprehension for_all

lemma checked_typed: "checked \<Gamma> t s \<Longrightarrow> typed \<Gamma> t s"
proof (induction t arbitrary: \<Gamma> s rule: term_children_induct)
  case (step t)
  have scoped: "scoped_checked \<Gamma>' b a u s' \<Longrightarrow> u \<in> set (scoped_terms t) \<Longrightarrow> scoped_typed \<Gamma>' b a u s'" for \<Gamma>' b a u s'
    using step.IH by (auto simp: scoped_checked_def intro: scope)
  show ?case
  proof (cases "fixed_signature t")
    case (Some sig)
    obtain ops r where sig: "sig = (ops, r)" by fastforce
    note fixed = Some [unfolded sig]
    have "typed \<Gamma> (fst x) (snd x)" if "x \<in> set ops" for x
      using that step.prems fixed_signature_operands [OF fixed] by (intro step.IH) (auto simp: checked_operator [OF fixed])
    moreover have "s = r" using step.prems by (simp add: checked_operator [OF fixed])
    ultimately show ?thesis using operator [OF fixed] by blast
  next
    case None
    have child: "u \<in> child_terms t \<Longrightarrow> checked \<Gamma>' u s' \<Longrightarrow> typed \<Gamma>' u s'" for u \<Gamma>' s' by (rule step.IH)
    show ?thesis
    proof (cases "\<exists>us. t = Term.Tuple us")
      case True
      then obtain us ss where t: "t = Term.Tuple us" and s: "s = Sort.Tuple ss" and all: "list_all2 (checked \<Gamma>) us ss"
        using step.prems by auto
      have "list_all2 (typed \<Gamma>) us ss"
        by (rule list.rel_mono_strong [OF all], rule child) (simp_all add: t scope_defs)
      then show ?thesis unfolding t s by (rule tuple)
    next
      case False
      with fixed_signature_refused [OF None step.prems] show ?thesis
      proof (elim disjE exE, goal_cases)
        case (1 x s') then show ?thesis using step.prems by (auto intro: var)
      next
        case (2 v) 
        then show ?thesis using step.prems child 
          by (auto simp: is_int_enum_value_iff scope_defs intro!: enum_projection enum_domain)
      next
        case (3 v w) then show ?thesis using step.prems child 
          by (auto simp: is_int_enum_value_iff scope_defs intro!: enum_identity)
      next
        case (4 p us) then show ?thesis using step.prems child 
          by (auto simp: scope_defs intro!: predicate) blast
      next
        case (5 c l r) then show ?thesis using step.prems child 
          by (auto simp: scope_defs intro!: conditional)
      next
        case (6 us) then show ?thesis by simp
      next
        case (7 u i) then show ?thesis using step.prems child 
          by (auto simp: scope_defs intro!: tuple_get)
      next
        case (8 u)
        then have u: "checked \<Gamma> u a \<Longrightarrow> typed \<Gamma> u a" for a using child [of u \<Gamma> a] by (auto simp: scope_defs)
        from 8 step.prems show ?thesis
          by (auto dest!: u intro: variadic_length list_length set_length dict_length)
      next
        case (9 u v)
        then have u: "checked \<Gamma> u a \<Longrightarrow> typed \<Gamma> u a" and v: "checked \<Gamma> v a \<Longrightarrow> typed \<Gamma> v a" for a
          using child [of u \<Gamma> a] child [of v \<Gamma> a] by (auto simp: scope_defs)
        from 9 step.prems show ?thesis
          by (auto dest!: u v intro: equality variadic_get list_get list_contains list_concat set_contains dict_contains dict_get)
      next
        case (10 u lower upper step)
        then have u: "checked \<Gamma> u a \<Longrightarrow> typed \<Gamma> u a" for a using child [of u \<Gamma> a] by (auto simp: scope_defs)
        from 10 step.prems show ?thesis
          by (auto dest!: u intro: variadic_slice list_slice)
      next
        case (11 n source b e m c)
        then have subterms:
          "checked \<Gamma> source s' \<Longrightarrow> typed \<Gamma> source s'" "scoped_checked \<Gamma> b a m s' \<Longrightarrow> scoped_typed \<Gamma> b a m s'"
          "c = Some k \<Longrightarrow> scoped_checked \<Gamma> b a k s' \<Longrightarrow> scoped_typed \<Gamma> b a k s'" for a k s'
          using child [of source \<Gamma> s'] scoped [of \<Gamma> b a m s'] scoped [of \<Gamma> b a k s'] by (auto simp: scope_defs)
        from 11 consider (list) "t = Term.ListComprehension n source b e m c" | (set) "t = Term.SetComprehension n source b e m c"
          by blast
        then show ?thesis
        proof cases
          case list
          with step.prems obtain a where s: "s = Sort.List e" and a: "checked \<Gamma> source (Sort.List a)"
            "scoped_checked \<Gamma> b a m e" "\<And>k. c = Some k \<Longrightarrow> scoped_checked \<Gamma> b a k Sort.Bool" by auto
          show ?thesis unfolding list s by (rule list_comprehension [where a = a]) (simp_all add: a subterms)
        next
          case set
          with step.prems obtain a where s: "s = Sort.Set e" and a: "checked \<Gamma> source (Sort.List a)"
            "set_member_sort source b m e" "scoped_checked \<Gamma> b a m e"
            "\<And>k. c = Some k \<Longrightarrow> scoped_checked \<Gamma> b a k Sort.Bool" by auto
          show ?thesis unfolding set s by (rule set_comprehension [where a = a]) (simp_all add: a subterms)
        qed
      next
        case (12 n source b k v key val c)
        then have subterms:
          "checked \<Gamma> source s' \<Longrightarrow> typed \<Gamma> source s'" "scoped_checked \<Gamma> b a key s' \<Longrightarrow> scoped_typed \<Gamma> b a key s'"
          "scoped_checked \<Gamma> b a val s' \<Longrightarrow> scoped_typed \<Gamma> b a val s'"
          "c = Some r \<Longrightarrow> scoped_checked \<Gamma> b a r s' \<Longrightarrow> scoped_typed \<Gamma> b a r s'" for a r s'
          using child [of source \<Gamma> s'] scoped [of \<Gamma> b a key s'] scoped [of \<Gamma> b a val s'] scoped [of \<Gamma> b a r s']
          by (auto simp: scope_defs)
        from 12 step.prems obtain a where s: "s = Sort.Dict k v" and a: "checked \<Gamma> source (Sort.List a)"
            "is_finite_dict_key_sort k" "is_finite_dict_value_sort v" "scoped_checked \<Gamma> b a key k"
            "scoped_checked \<Gamma> b a val v" "\<And>r. c = Some r \<Longrightarrow> scoped_checked \<Gamma> b a r Sort.Bool" by auto
        show ?thesis unfolding 12 s by (rule dict_comprehension [where a = a]) (simp_all add: a subterms)
      next
        case (13 b a body)
        then show ?thesis using step.prems scoped [of \<Gamma> b a body Sort.Bool]
          by (auto simp: scope_defs intro!: for_all)
      qed
    qed
  qed
qed


text \<open>
  Property C16. The sort checker decides the typing judgement: a term has
  a sort in an environment exactly when the checker returns that sort and every free variable is
  annotated with the sort the environment gives it. The checker carries no environment; the
  annotations and the occurrence check under each binder replace it.
\<close>

theorem sort_checker_decides_typing:
  "typed \<Gamma> t s \<longleftrightarrow> sort_typed t = Ok s \<and> (\<forall>x a. free_occurrence t x a \<longrightarrow> \<Gamma> x = Some a)"
  using typed_sound checked_typed unfolding checked_def agrees_def by blast

definition self_equal_for_all :: Term where
  "self_equal_for_all =
     Term.ForAll ''x'' Sort.Int (Term.Equal (Term.Variable ''x'' Sort.Int) (Term.Variable ''y'' Sort.Int))"

theorem sort_checker_decides_typing_witness:
  "typed [''y'' \<mapsto> Sort.Int] self_equal_for_all Sort.Bool \<and>
   \<not> typed [''y'' \<mapsto> Sort.Bool] self_equal_for_all Sort.Bool"
proof -
  have "sort_typed self_equal_for_all = Ok Sort.Bool"
    by (simp add: self_equal_for_all_def sort_for_all_def require_bound_term_sort_def bound_two_def
        bound_variable_def sort_variable_def sort_equal_def)
  moreover have "free_occurrence self_equal_for_all x a \<longleftrightarrow> x = ''y'' \<and> a = Sort.Int" for x a
  proof -
    let ?body = "Term.Equal (Term.Variable ''x'' Sort.Int) (Term.Variable ''y'' Sort.Int)"
    have "free_occurrence ?body x a \<longleftrightarrow> x \<in> {''x'', ''y''} \<and> a = Sort.Int"
      by (subst free_occurrence.simps) (auto simp: scope_defs)
    then show ?thesis
      unfolding self_equal_for_all_def by (subst free_occurrence.simps) (auto simp: scope_defs)
  qed
  ultimately show ?thesis
    using sort_checker_decides_typing [of "[''y'' \<mapsto> Sort.Int]" self_equal_for_all Sort.Bool]
      sort_checker_decides_typing [of "[''y'' \<mapsto> Sort.Bool]" self_equal_for_all Sort.Bool] by simp
qed

text \<open>
  The occurrence check of a binder accepts a term exactly when
  no binder inside the term captures the name and every free occurrence of the name carries the
  binder's sort.
\<close>

theorem occurrences_under_binder:
  "validate_bound_occurrences t x s = Ok () \<longleftrightarrow>
     \<not> binds_name t x \<and> (\<forall>s'. free_occurrence t x s' \<longrightarrow> s' = s)"
  by (rule occurrence_check)

theorem occurrences_under_binder_witness:
  "binds_name self_equal_for_all ''x'' \<and> \<not> binds_name self_equal_for_all ''y'' \<and>
   validate_bound_occurrences self_equal_for_all ''y'' Sort.Int = Ok ()"
proof -
  have "validate_bound_occurrences self_equal_for_all ''y'' Sort.Int = Ok ()"
    by (simp add: self_equal_for_all_def bound_defs)
  moreover have "binds_name self_equal_for_all ''x''"
    by (rule at_root) (simp add: self_equal_for_all_def scope_defs)
  ultimately show ?thesis
    using occurrences_under_binder [of self_equal_for_all "''y''" Sort.Int] by blast
qed

text \<open>
  A term has at most one sort, and the environment can only refuse it:
  two environments that type a term give it the same sort, the one the checker computes.
\<close>

theorem sorts_are_unique:
  assumes "typed \<Gamma> t s" and "typed \<Gamma>' t s'"
  shows "s = s' \<and> sort_typed t = Ok s"
  using assms [THEN typed_sound] by (auto simp: checked_def)

theorem sorts_are_unique_witness:
  "sort_typed (Term.Variable ''v'' (Sort.List Sort.Int)) = Ok (Sort.List Sort.Int)"
proof -
  have "typed [''v'' \<mapsto> Sort.List Sort.Int] (Term.Variable ''v'' (Sort.List Sort.Int)) (Sort.List Sort.Int)"
    by (simp add: var variable_sort_def)
  with sorts_are_unique [OF this this] show ?thesis by simp
qed

section \<open>Attributes\<close>

lemma int_enum_foldl:
  "snd (snd (foldl int_enum_member_step (names, values, valid) members)) \<longleftrightarrow>
     valid \<and> (\<forall>m \<in> set members. fst m \<noteq> [] \<and> fst m \<notin> names \<and> snd m \<notin> values) \<and>
     distinct (map fst members) \<and> distinct (map snd members)"
proof (induction members arbitrary: names "values" valid)
  case (Cons m members)
  then show ?case by (cases m) (auto simp: image_iff)
qed simp

lemma int_enum_members_valid_iff:
  "int_enum_members_valid members \<longleftrightarrow>
     [] \<notin> fst ` set members \<and> distinct (map fst members) \<and> distinct (map snd members)"
  unfolding int_enum_members_valid_def case_prod_beta int_enum_foldl by (simp add: image_iff) metis

text \<open>
  A descriptor is accepted exactly when its class is named and its
  members are a nonempty one-to-one correspondence between nonempty names and values.
\<close>

theorem int_enum_descriptors:
  "validate_int_enum_descriptor d = Ok () \<longleftrightarrow>
     enum_class d \<noteq> [] \<and> enum_members d \<noteq> [] \<and> [] \<notin> fst ` set (enum_members d) \<and>
     distinct (map fst (enum_members d)) \<and> distinct (map snd (enum_members d))"
  by (auto simp: validate_int_enum_descriptor_def int_enum_members_valid_iff)

end
