(* ===== verification/Solver_Slice.thy ===== *)
theory Solver_Slice
  imports VC_Term
begin

text \<open>
  Static slices in the solver (\<^verbatim>\<open>src/src/solver.rs\<close>): the normalisation the slice axioms are
  stated with, where the source's length may be symbolic, and the evaluation of a slice of a literal
  list or tuple. A Z3 integer expression is modelled by its value; Z3's division agrees with \<open>div\<close>
  for the positive divisors used here. \<open>i128\<close> arithmetic saturates or is checked as in the code.
  Both are the slice of the Python language.
\<close>

section \<open>Integers of 128 bits\<close>

definition i128_max :: int where
  "i128_max = 2 ^ 127 - 1"

definition in_i128 :: "int \<Rightarrow> bool" where
  "in_i128 v \<longleftrightarrow> - i128_max - 1 \<le> v \<and> v \<le> i128_max"

definition saturating_add_i128 :: "int \<Rightarrow> int \<Rightarrow> int" where
  "saturating_add_i128 a b = max (- i128_max - 1) (min i128_max (a + b))"

definition checked_add_i128 :: "int \<Rightarrow> int \<Rightarrow> int option" where
  "checked_add_i128 a b = (if in_i128 (a + b) then Some (a + b) else None)"

section \<open>Symbolic slices\<close>

definition normalized_static_slice ::
  "int \<Rightarrow> int option \<Rightarrow> int option \<Rightarrow> int \<Rightarrow> (string, int \<times> int) result" where
  "normalized_static_slice source_length lower upper step =
     (if step = 0 then Err ''zero-step sequence slice escaped the typed VC boundary''
      else if step > 0 then
        (let start =
               (case lower of
                  None \<Rightarrow> 0
                | Some bound \<Rightarrow> if bound < 0 then max (source_length + bound) 0 else min bound source_length);
             stop =
               (case upper of
                  None \<Rightarrow> source_length
                | Some bound \<Rightarrow> if bound < 0 then max (source_length + bound) 0 else min bound source_length);
             span = stop - start
         in Ok (start, if span \<le> 0 then 0 else (span + step - 1) div step))
      else
        (let last = source_length - 1;
             start =
               (case lower of
                  None \<Rightarrow> last
                | Some bound \<Rightarrow> if bound < 0 then max (source_length + bound) (- 1) else min bound last);
             stop =
               (case upper of
                  None \<Rightarrow> - 1
                | Some bound \<Rightarrow> if bound < 0 then max (source_length + bound) (- 1) else min bound last);
             span = start - stop;
             magnitude = \<bar>step\<bar>
         in Ok (start, if span \<le> 0 then 0 else (span + magnitude - 1) div magnitude)))"

section \<open>Slices of literals\<close>

definition normalize_forward :: "int \<Rightarrow> int \<Rightarrow> int" where
  "normalize_forward len bound =
     (if bound < 0 then max (saturating_add_i128 len bound) 0 else min bound len)"

definition normalize_backward :: "int \<Rightarrow> int \<Rightarrow> int" where
  "normalize_backward len bound =
     (if bound < 0 then max (saturating_add_i128 len bound) (- 1) else min bound (len - 1))"

definition concrete_slice_range :: "int \<Rightarrow> int option \<Rightarrow> int option \<Rightarrow> int \<Rightarrow> int \<times> int" where
  "concrete_slice_range len lower upper step =
     (if step > 0
      then ((case lower of None \<Rightarrow> 0 | Some bound \<Rightarrow> normalize_forward len bound),
            (case upper of None \<Rightarrow> len | Some bound \<Rightarrow> normalize_forward len bound))
      else ((case lower of None \<Rightarrow> len - 1 | Some bound \<Rightarrow> normalize_backward len bound),
            (case upper of None \<Rightarrow> - 1 | Some bound \<Rightarrow> normalize_backward len bound)))"

text \<open>The loop that selects; the callers have refused a zero step, which would not end.\<close>

function collect_slice :: "'a list \<Rightarrow> int \<Rightarrow> int \<Rightarrow> int \<Rightarrow> 'a list option" where
  "collect_slice values index stop step =
     (if step \<noteq> 0 \<and> (if step > 0 then index < stop else index > stop)
      then (if index < 0 \<or> nat index \<ge> length values then None
            else case checked_add_i128 index step of
              None \<Rightarrow> Some [values ! nat index]
            | Some next \<Rightarrow> map_option ((#) (values ! nat index)) (collect_slice values next stop step))
      else Some [])"
  by pat_completeness auto
termination
  by (relation "measure (\<lambda>(values, index, stop, step). nat (if step > 0 then stop - index else index - stop))")
    (auto simp: checked_add_i128_def split: if_splits)

declare collect_slice.simps [simp del]

definition select_slice :: "'a list \<Rightarrow> int option \<Rightarrow> int option \<Rightarrow> int \<Rightarrow> 'a list option" where
  "select_slice values lower upper step =
     (case concrete_slice_range (int (length values)) lower upper step of
        (start, stop) \<Rightarrow> collect_slice values start stop step)"

definition concrete_static_list_slice :: "Term \<Rightarrow> int option \<Rightarrow> int option \<Rightarrow> int \<Rightarrow> Term option" where
  "concrete_static_list_slice source lower upper step =
     (case source of
        Term.List element_sort values \<Rightarrow>
          if step = 0 then None
          else map_option (Term.List element_sort) (select_slice values lower upper step)
      | _ \<Rightarrow> None)"

definition concrete_static_variadic_tuple_slice :: "Term \<Rightarrow> int option \<Rightarrow> int option \<Rightarrow> int \<Rightarrow> Term option" where
  "concrete_static_variadic_tuple_slice source lower upper step =
     (case source of
        Term.VariadicTuple element_sort values \<Rightarrow>
          if step = 0 then None
          else map_option (Term.VariadicTuple element_sort) (select_slice values lower upper step)
      | _ \<Rightarrow> None)"

section \<open>The slice of the language\<close>

text \<open>
  The reference: a bound counts from the end when negative and is clipped to the sequence, the
  clipping range depending on the direction; a missing bound is the end the direction starts from
  or runs to; the number of elements is the number of steps before the stop.
\<close>

definition python_bound :: "int \<Rightarrow> int \<Rightarrow> int \<Rightarrow> int" where
  "python_bound len step bound =
     (let bound = (if bound < 0 then bound + len else bound)
      in if bound < 0 then (if step < 0 then - 1 else 0)
         else if bound \<ge> len then (if step < 0 then len - 1 else len)
         else bound)"

definition python_slice_indices :: "int \<Rightarrow> int option \<Rightarrow> int option \<Rightarrow> int \<Rightarrow> int \<times> int" where
  "python_slice_indices len lower upper step =
     (let start = (case lower of
                     None \<Rightarrow> if step < 0 then len - 1 else 0
                   | Some bound \<Rightarrow> python_bound len step bound);
          stop = (case upper of
                    None \<Rightarrow> if step < 0 then - 1 else len
                  | Some bound \<Rightarrow> python_bound len step bound)
      in (start,
          if step < 0 then (if stop < start then (start - stop - 1) div (- step) + 1 else 0)
          else (if start < stop then (stop - start - 1) div step + 1 else 0)))"

definition python_slice :: "'a list \<Rightarrow> int option \<Rightarrow> int option \<Rightarrow> int \<Rightarrow> 'a list" where
  "python_slice xs lower upper step =
     (let (start, count) = python_slice_indices (int (length xs)) lower upper step
      in map (\<lambda>k. xs ! nat (start + int k * step)) [0..<nat count])"

section \<open>Agreement\<close>

lemma ceiling_steps: "0 < step \<Longrightarrow> (span + step - 1) div step = (span - 1) div step + (1::int)"
  using div_add_self2 [of step "span - 1"] by (simp add: algebra_simps)

lemma forward_bound:
  "0 \<le> len \<Longrightarrow> 0 < step \<Longrightarrow> (if b < 0 then max (len + b) 0 else min b len) = python_bound len step b"
  by (simp add: python_bound_def Let_def max_def min_def)

lemma backward_bound:
  "0 \<le> len \<Longrightarrow> step < 0 \<Longrightarrow> (if b < 0 then max (len + b) (- 1) else min b (len - 1)) = python_bound len step b"
  by (simp add: python_bound_def Let_def max_def min_def)

lemma step_count:
  "0 < step \<Longrightarrow> (if span \<le> 0 then 0 else (span + step - 1) div step) = (if 0 < span then (span - 1) div step + 1 else (0::int))"
  by (simp add: ceiling_steps)

lemma normalized_is_python:
  assumes "0 \<le> len" "step \<noteq> 0"
  shows "normalized_static_slice len lower upper step = Ok (python_slice_indices len lower upper step)"
proof (cases "step > 0")
  case True
  have bounds: "(case b of None \<Rightarrow> d | Some bound \<Rightarrow> if bound < 0 then max (len + bound) 0 else min bound len) =
      (case b of None \<Rightarrow> d | Some bound \<Rightarrow> python_bound len step bound)" for b d
    using forward_bound [OF assms(1) True] by (simp split: option.split)
  show ?thesis
    using True
    by (simp only: normalized_static_slice_def python_slice_indices_def Let_def bounds step_count [OF True] if_True
        assms(2) if_False)
      (simp add: algebra_simps)
next
  case False
  with assms have neg: "step < 0" and pos: "0 < - step" and magnitude: "\<bar>step\<bar> = - step" by simp_all
  have bounds: "(case b of None \<Rightarrow> d | Some bound \<Rightarrow> if bound < 0 then max (len + bound) (- 1) else min bound (len - 1)) =
      (case b of None \<Rightarrow> d | Some bound \<Rightarrow> python_bound len step bound)" for b d
    using backward_bound [OF assms(1) neg] by (simp split: option.split)
  show ?thesis
    using False
    by (simp only: normalized_static_slice_def python_slice_indices_def Let_def bounds magnitude step_count [OF pos]
        if_True assms(2) if_False neg)
      (simp add: algebra_simps)
qed

definition steps_before :: "int \<Rightarrow> int \<Rightarrow> int \<Rightarrow> int" where
  "steps_before index stop step =
     (if step < 0 then (if stop < index then (index - stop - 1) div (- step) + 1 else 0)
      else (if index < stop then (stop - index - 1) div step + 1 else 0))"

lemma steps_before_nonneg: "step \<noteq> 0 \<Longrightarrow> 0 \<le> steps_before index stop step"
  by (auto simp: steps_before_def pos_imp_zdiv_nonneg_iff intro: add_nonneg_nonneg)

lemma div_minus_self: "0 < (d::int) \<Longrightarrow> (n - d) div d = n div d - 1"
  using div_add_self2 [of d "n - d"] by simp

lemma steps_before_step:
  assumes "if step > 0 then index < stop else index > stop" "step \<noteq> 0"
  shows "steps_before index stop step = 1 + steps_before (index + step) stop step"
proof (cases "step > 0")
  case True
  with assms(1) have less: "index < stop" by simp
  show ?thesis
  proof (cases "index + step < stop")
    case True
    have "stop - (index + step) - 1 = (stop - index - 1) - step" by simp
    with \<open>step > 0\<close> True less show ?thesis
      unfolding steps_before_def by (simp only: div_minus_self) simp
  next
    case False
    with \<open>step > 0\<close> less show ?thesis by (simp add: steps_before_def div_pos_pos_trivial)
  qed
next
  case False
  with assms have less: "stop < index" and neg: "step < 0" by simp_all
  show ?thesis
  proof (cases "stop < index + step")
    case True
    have "index + step - stop - 1 = (index - stop - 1) - (- step)" by simp
    moreover have "0 < - step" using neg by simp
    ultimately show ?thesis
      using True less neg unfolding steps_before_def by (simp only: div_minus_self) simp
  next
    case False
    with neg less show ?thesis by (simp add: steps_before_def div_pos_pos_trivial)
  qed
qed

lemma steps_before_none:
  "\<not> (if step > 0 then index < stop else index > stop) \<Longrightarrow> step \<noteq> 0 \<Longrightarrow> steps_before index stop step = 0"
  by (auto simp: steps_before_def)

lemma map_upt_Suc: "map f [0..<Suc n] = f 0 # map (\<lambda>k. f (Suc k)) [0..<n]"
  by (simp add: upt_conv_Cons map_Suc_upt [symmetric] del: upt_Suc map_Suc_upt)

lemma collect_slice_steps:
  assumes "step \<noteq> 0" "in_i128 stop" "int (length xs) \<le> i128_max"
    "if step > 0 then 0 \<le> index \<and> stop \<le> int (length xs) else index < int (length xs) \<and> - 1 \<le> stop"
  shows "collect_slice xs index stop step =
    Some (map (\<lambda>k. xs ! nat (index + int k * step)) [0..<nat (steps_before index stop step)])"
  using assms
proof (induction xs index stop step rule: collect_slice.induct)
  case (1 xs index stop step)
  let ?go = "if step > 0 then index < stop else index > stop"
  show ?case
  proof (cases ?go)
    case False
    then show ?thesis
      using 1(2) steps_before_none [of step index stop] by (subst collect_slice.simps) simp
  next
    case True
    have range: "0 \<le> index" "nat index < length xs"
      using True 1(2,5) by (auto split: if_splits)
    have more: "nat (steps_before index stop step) = Suc (nat (steps_before (index + step) stop step))"
      using steps_before_step [OF True 1(2)] steps_before_nonneg [OF 1(2), of "index + step" stop] by simp
    show ?thesis
    proof (cases "checked_add_i128 index step")
      case None
      then have out: "\<not> in_i128 (index + step)" by (simp add: checked_add_i128_def split: if_splits)
      have "\<not> (if step > 0 then index + step < stop else index + step > stop)"
        using out 1(3,4,5) range by (auto simp: in_i128_def split: if_splits)
      then have "steps_before (index + step) stop step = 0" using 1(2) by (rule steps_before_none)
      with None True range 1(2) more show ?thesis by (subst collect_slice.simps) simp
    next
      case (Some next_index)
      then have next_index: "next_index = index + step" by (simp add: checked_add_i128_def split: if_splits)
      have "collect_slice xs next_index stop step =
          Some (map (\<lambda>k. xs ! nat (next_index + int k * step)) [0..<nat (steps_before next_index stop step)])"
        using 1(1) [of next_index] 1(2-5) True range Some next_index by (auto split: if_splits)
      with Some True range 1(2) next_index more show ?thesis
        by (subst collect_slice.simps) (simp add: map_upt_Suc algebra_simps del: upt_Suc)
    qed
  qed
qed

lemma saturating_add_length:
  "0 \<le> len \<Longrightarrow> len \<le> i128_max \<Longrightarrow> b < 0 \<Longrightarrow> in_i128 b \<Longrightarrow> saturating_add_i128 len b = len + b"
  by (simp add: saturating_add_i128_def in_i128_def)

lemma concrete_range:
  assumes "0 \<le> len" "len \<le> i128_max" "step \<noteq> 0" "\<And>b. lower = Some b \<Longrightarrow> in_i128 b" "\<And>b. upper = Some b \<Longrightarrow> in_i128 b"
  shows "python_slice_indices len lower upper step =
    (fst (concrete_slice_range len lower upper step),
     steps_before (fst (concrete_slice_range len lower upper step)) (snd (concrete_slice_range len lower upper step)) step)"
proof (cases "step > 0")
  case True
  have "normalize_forward len b = python_bound len step b" if "in_i128 b" for b
    using forward_bound [OF assms(1) True, of b] saturating_add_length [OF assms(1,2) _ that]
    by (auto simp: normalize_forward_def)
  with True assms(4,5) show ?thesis
    by (auto simp: concrete_slice_range_def python_slice_indices_def steps_before_def Let_def split: option.splits)
next
  case False
  with assms(3) have neg: "step < 0" by simp
  have "normalize_backward len b = python_bound len step b" if "in_i128 b" for b
    using backward_bound [OF assms(1) neg, of b] saturating_add_length [OF assms(1,2) _ that]
    by (auto simp: normalize_backward_def)
  with neg assms(4,5) show ?thesis
    by (auto simp: concrete_slice_range_def python_slice_indices_def steps_before_def Let_def split: option.splits)
qed

lemma div_mult_at_most: "0 < (d::int) \<Longrightarrow> n div d * d \<le> n"
  by (simp add: minus_mod_eq_div_mult [symmetric])

lemma slice_index_range:
  assumes "0 \<le> len" "step \<noteq> 0" "python_slice_indices len lower upper step = (start, count)" "int k < count"
  shows "0 \<le> start + int k * step \<and> start + int k * step < len"
proof -
  have bound: "if step < 0 then - 1 \<le> python_bound len step b \<and> python_bound len step b < len
      else 0 \<le> python_bound len step b \<and> python_bound len step b \<le> len" for b
    using assms(1) by (auto simp: python_bound_def Let_def)
  define stop where "stop = (case upper of
      None \<Rightarrow> if step < 0 then - 1 else len | Some bound \<Rightarrow> python_bound len step bound)"
  define start' where "start' = (case lower of
      None \<Rightarrow> if step < 0 then len - 1 else 0 | Some bound \<Rightarrow> python_bound len step bound)"
  have "python_slice_indices len lower upper step = (start', steps_before start' stop step)"
    unfolding python_slice_indices_def steps_before_def Let_def start'_def stop_def by (rule refl)
  with assms(3) have start: "start = start'" and count: "count = steps_before start stop step" by auto
  have ends: "if step < 0 then start < len \<and> - 1 \<le> stop else 0 \<le> start \<and> stop \<le> len"
    using assms(1) bound by (simp add: start start'_def stop_def split: option.splits)
  show ?thesis
  proof (cases "step < 0")
    case True
    with assms(4) count have "stop < start" "int k \<le> (start - stop - 1) div (- step)"
      by (auto simp: steps_before_def split: if_splits)
    then have "int k * (- step) \<le> (start - stop - 1) div (- step) * (- step)"
      using True by (intro mult_right_mono) simp_all
    also have "\<dots> \<le> start - stop - 1"
      using True by (intro div_mult_at_most) simp
    finally have "int k * (- step) \<le> start - stop - 1" .
    moreover have "0 \<le> int k * (- step)" using True by (intro mult_nonneg_nonneg) simp_all
    ultimately show ?thesis using ends True by (simp add: algebra_simps)
  next
    case False
    with assms(2) have pos: "0 < step" by simp
    with assms(4) count have "start < stop" "int k \<le> (stop - start - 1) div step"
      by (auto simp: steps_before_def split: if_splits)
    then have "int k * step \<le> (stop - start - 1) div step * step"
      using pos by (intro mult_right_mono) simp_all
    also have "\<dots> \<le> stop - start - 1"
      using pos by (rule div_mult_at_most)
    finally have "int k * step \<le> stop - start - 1" .
    moreover have "0 \<le> int k * step" using pos by (intro mult_nonneg_nonneg) simp_all
    ultimately show ?thesis using ends False by (simp add: algebra_simps)
  qed
qed

lemma python_bound_i128: "0 \<le> len \<Longrightarrow> len \<le> i128_max \<Longrightarrow> in_i128 (python_bound len step b)"
  by (auto simp: python_bound_def in_i128_def Let_def i128_max_def)

lemma select_slice_python:
  assumes "int (length xs) \<le> i128_max" "step \<noteq> 0"
    "\<And>b. lower = Some b \<Longrightarrow> in_i128 b" "\<And>b. upper = Some b \<Longrightarrow> in_i128 b"
  shows "select_slice xs lower upper step = Some (python_slice xs lower upper step)"
proof -
  let ?len = "int (length xs)"
  obtain start stop where r: "concrete_slice_range ?len lower upper step = (start, stop)" by fastforce
  note indices = concrete_range [of ?len step lower upper, simplified r fst_conv snd_conv]
  have "python_slice_indices ?len lower upper step = (start, steps_before start stop step)"
    using indices assms by simp
  moreover have fwd: "0 \<le> normalize_forward ?len b \<and> normalize_forward ?len b \<le> ?len" for b
    using assms(1) by (auto simp: normalize_forward_def saturating_add_i128_def i128_max_def)
  moreover have bwd: "- 1 \<le> normalize_backward ?len b \<and> normalize_backward ?len b < ?len" for b
    using assms(1) by (auto simp: normalize_backward_def saturating_add_i128_def i128_max_def)
  have ends: "if step > 0 then 0 \<le> start \<and> start \<le> ?len \<and> 0 \<le> stop \<and> stop \<le> ?len
      else - 1 \<le> start \<and> start < ?len \<and> - 1 \<le> stop \<and> stop < ?len"
    using r fwd bwd unfolding concrete_slice_range_def
    by (cases "step > 0") (auto split: option.splits)
  have "in_i128 stop" using ends assms(1) by (auto simp: in_i128_def i128_max_def split: if_splits)
  moreover have "if step > 0 then 0 \<le> start \<and> stop \<le> ?len else start < ?len \<and> - 1 \<le> stop"
    using ends by (auto split: if_splits)
  ultimately show ?thesis
    using collect_slice_steps [OF assms(2) _ assms(1)] by (simp add: select_slice_def python_slice_def r)
qed

text \<open>
  Property C36. A static slice of a literal list or tuple evaluates to Python's slice of it, for
  every direction, missing or out-of-range bound and step; and the start and count the slice
  axioms are stated with describe that same sequence: its length is the count, its elements are
  those of the source at \<open>start + i * step\<close>, and all these indices exist. So the evaluated slice
  and the asserted axioms never contradict each other.
\<close>

theorem slices_are_python_slices:
  assumes "step \<noteq> 0" and "in_i128 step" and "length xs < 2 ^ 64"
    and "\<forall>b. lower = Some b \<or> upper = Some b \<longrightarrow> in_i128 b"
  shows "concrete_static_list_slice (Term.List s xs) lower upper step =
      Some (Term.List s (python_slice xs lower upper step)) \<and>
    concrete_static_variadic_tuple_slice (Term.VariadicTuple s xs) lower upper step =
      Some (Term.VariadicTuple s (python_slice xs lower upper step)) \<and>
    (\<exists>start count. normalized_static_slice (int (length xs)) lower upper step = Ok (start, count) \<and>
       int (length (python_slice xs lower upper step)) = count \<and>
       (\<forall>i < length (python_slice xs lower upper step).
          0 \<le> start + int i * step \<and> start + int i * step < int (length xs) \<and>
          python_slice xs lower upper step ! i = xs ! nat (start + int i * step)))"
proof -
  have len: "int (length xs) \<le> i128_max"
  proof -
    have "int (length xs) < 2 ^ 64" using assms(3) by (simp add: zless_nat_eq_int_zless)
    then show ?thesis by (simp add: i128_max_def)
  qed
  have slice: "select_slice xs lower upper step = Some (python_slice xs lower upper step)"
    using select_slice_python [OF len assms(1)] assms(4) by blast
  obtain start count where indices: "python_slice_indices (int (length xs)) lower upper step = (start, count)" by fastforce
  have "0 \<le> count"
    using indices assms(1) by (auto simp: python_slice_indices_def Let_def pos_imp_zdiv_nonneg_iff split: if_splits)
  then have count: "int (length (python_slice xs lower upper step)) = count"
    by (simp add: python_slice_def indices)
  have "0 \<le> start + int i * step \<and> start + int i * step < int (length xs)"
    if "i < length (python_slice xs lower upper step)" for i
    using slice_index_range [OF _ assms(1) indices, of i] that count by simp
  moreover have "python_slice xs lower upper step ! i = xs ! nat (start + int i * step)"
    if "i < length (python_slice xs lower upper step)" for i
    using that by (simp add: python_slice_def indices)
  ultimately show ?thesis
    using slice count indices assms(1) normalized_is_python [of "int (length xs)" step lower upper]
    by (simp add: concrete_static_list_slice_def concrete_static_variadic_tuple_slice_def)
qed

theorem slices_are_python_slices_witness:
  "concrete_static_list_slice (Term.List Sort.Int [Term.Int 5, Term.Int 6, Term.Int 7, Term.Int 8])
     (Some (- 1)) None (- 2) = Some (Term.List Sort.Int [Term.Int 8, Term.Int 6])"
proof -
  let ?xs = "[Term.Int 5, Term.Int 6, Term.Int 7, Term.Int 8]"
  have "python_slice ?xs (Some (- 1)) None (- 2) = [Term.Int 8, Term.Int 6]"
    by (simp add: python_slice_def python_slice_indices_def python_bound_def upt_conv_Cons)
  with slices_are_python_slices [of "- 2" ?xs "Some (- 1)" None Sort.Int]
  show ?thesis by (simp add: in_i128_def i128_max_def)
qed

end
