(* ===== verification/VC_Semantics.thy ===== *)
theory VC_Semantics
  imports Solver_Slice
begin

text \<open>
  A meaning for the value terms of the verification conditions, the reference the solver's own
  evaluation is measured against: unbounded integers, finite sequences with Python's slices,
  sorting, sums and comprehensions, and quantification over the values of a sort. A value of a sequence sort
  carries its element sort. Everything that depends on heaps, classes or descriptors is left to
  an interpretation, as is indexing outside a sequence.
\<close>

datatype Value =
    VBool bool
  | VInt int
  | VString string
  | VBytes "8 word list"
  | VUnit
  | VObject nat
  | VTuple "Value list"
  | VVariadic Sort "Value list"
  | VList Sort "Value list"

fun truth_of :: "Value \<Rightarrow> bool" where
  "truth_of (VBool b) = b"
| "truth_of _ = False"

fun integer_of :: "Value \<Rightarrow> int" where
  "integer_of (VInt i) = i"
| "integer_of _ = 0"

fun elements_of :: "Value \<Rightarrow> Value list" where
  "elements_of (VTuple vs) = vs"
| "elements_of (VVariadic s vs) = vs"
| "elements_of (VList s vs) = vs"
| "elements_of _ = []"

fun element_sort_of :: "Value \<Rightarrow> Sort" where
  "element_sort_of (VVariadic s vs) = s"
| "element_sort_of (VList s vs) = s"
| "element_sort_of _ = Sort.Unit"

text \<open>The values a bound variable of a sort ranges over.\<close>

fun value_has_sort :: "Value \<Rightarrow> Sort \<Rightarrow> bool" where
  "value_has_sort (VBool b) s \<longleftrightarrow> s = Sort.Bool"
| "value_has_sort (VInt i) s \<longleftrightarrow> s = Sort.Int"
| "value_has_sort (VString x) s \<longleftrightarrow> s = Sort.String"
| "value_has_sort (VBytes x) s \<longleftrightarrow> s = Sort.Bytes"
| "value_has_sort VUnit s \<longleftrightarrow> s = Sort.Unit"
| "value_has_sort (VObject x) s \<longleftrightarrow> s = Sort.Reference"
| "value_has_sort (VTuple vs) s \<longleftrightarrow>
     (case s of Sort.Tuple ss \<Rightarrow> list_all2 value_has_sort vs ss | _ \<Rightarrow> False)"
| "value_has_sort (VVariadic e vs) s \<longleftrightarrow> s = Sort.VariadicTuple e \<and> (\<forall>v \<in> set vs. value_has_sort v e)"
| "value_has_sort (VList e vs) s \<longleftrightarrow> s = Sort.List e \<and> (\<forall>v \<in> set vs. value_has_sort v e)"

record Interpretation =
  opaque_meaning :: "(string \<Rightarrow> Value) \<Rightarrow> Term \<Rightarrow> Value"
  outside :: "Value list \<Rightarrow> int \<Rightarrow> Value"

definition element_at :: "Interpretation \<Rightarrow> Value list \<Rightarrow> int \<Rightarrow> Value" where
  "element_at I vs i = (if 0 \<le> i \<and> i < int (length vs) then vs ! nat i else outside I vs i)"

text \<open>The members and the descriptor an \<open>IntEnum\<close> value carries.\<close>

definition descriptor_of :: "Term \<Rightarrow> IntEnumDescriptor option" where
  "descriptor_of term = (case term of IntEnumValue descriptor _ \<Rightarrow> Some descriptor | _ \<Rightarrow> None)"

definition members_of :: "Term \<Rightarrow> int set" where
  "members_of term = (case descriptor_of term of Some descriptor \<Rightarrow> snd ` set (enum_members descriptor) | None \<Rightarrow> {})"

fun meaning :: "Interpretation \<Rightarrow> (string \<Rightarrow> Value) \<Rightarrow> Term \<Rightarrow> Value" where
  "meaning I env (Term.Bool b) = VBool b"
| "meaning I env (Term.Int i) = VInt i"
| "meaning I env (Term.String s) = VString s"
| "meaning I env (Term.Bytes bs) = VBytes bs"
| "meaning I env Term.Unit = VUnit"
| "meaning I env (Variable name s) = env name"
| "meaning I env (IntEnumValue descriptor value) = VInt (integer_of (meaning I env value))"
| "meaning I env (IntEnumProjection value) = VInt (integer_of (meaning I env value))"
| "meaning I env (IntEnumDomain value) = VBool (integer_of (meaning I env value) \<in> members_of value)"
| "meaning I env (IntEnumIdentity left right) =
     VBool (descriptor_of left = descriptor_of right \<and> integer_of (meaning I env left) = integer_of (meaning I env right))"
| "meaning I env (Term.Not value) = VBool (\<not> truth_of (meaning I env value))"
| "meaning I env (Term.And values) = VBool (\<forall>value \<in> set values. truth_of (meaning I env value))"
| "meaning I env (Term.Or values) = VBool (\<exists>value \<in> set values. truth_of (meaning I env value))"
| "meaning I env (Implies left right) = VBool (truth_of (meaning I env left) \<longrightarrow> truth_of (meaning I env right))"
| "meaning I env (IfThenElse condition then_value else_value) =
     (if truth_of (meaning I env condition) then meaning I env then_value else meaning I env else_value)"
| "meaning I env (Equal left right) = VBool (meaning I env left = meaning I env right)"
| "meaning I env (Less left right) = VBool (integer_of (meaning I env left) < integer_of (meaning I env right))"
| "meaning I env (LessEqual left right) = VBool (integer_of (meaning I env left) \<le> integer_of (meaning I env right))"
| "meaning I env (Greater left right) = VBool (integer_of (meaning I env left) > integer_of (meaning I env right))"
| "meaning I env (GreaterEqual left right) = VBool (integer_of (meaning I env left) \<ge> integer_of (meaning I env right))"
| "meaning I env (Term.Add left right) = VInt (integer_of (meaning I env left) + integer_of (meaning I env right))"
| "meaning I env (Subtract left right) = VInt (integer_of (meaning I env left) - integer_of (meaning I env right))"
| "meaning I env (Multiply left right) = VInt (integer_of (meaning I env left) * integer_of (meaning I env right))"
| "meaning I env (FloorDivideByPositive value divisor) = VInt (integer_of (meaning I env value) div uint divisor)"
| "meaning I env (Negate value) = VInt (- integer_of (meaning I env value))"
| "meaning I env (Term.Tuple values) = VTuple (map (meaning I env) values)"
| "meaning I env (TupleGet tuple index) = element_at I (elements_of (meaning I env tuple)) (int index)"
| "meaning I env (Term.VariadicTuple s values) = VVariadic s (map (meaning I env) values)"
| "meaning I env (VariadicTupleLength value) = VInt (int (length (elements_of (meaning I env value))))"
| "meaning I env (VariadicTupleGet xs index) =
     element_at I (elements_of (meaning I env xs)) (integer_of (meaning I env index))"
| "meaning I env (VariadicTupleSlice source lower upper step) =
     (let xs = meaning I env source
      in VVariadic (element_sort_of xs) (python_slice (elements_of xs) lower upper step))"
| "meaning I env (Term.List s values) = VList s (map (meaning I env) values)"
| "meaning I env (ListLength value) = VInt (int (length (elements_of (meaning I env value))))"
| "meaning I env (ListGet xs index) =
     element_at I (elements_of (meaning I env xs)) (integer_of (meaning I env index))"
| "meaning I env (ListContains xs value) = VBool (meaning I env value \<in> set (elements_of (meaning I env xs)))"
| "meaning I env (ListSlice source lower upper step) =
     (let xs = meaning I env source
      in VList (element_sort_of xs) (python_slice (elements_of xs) lower upper step))"
| "meaning I env (ListConcat left right) =
     (let xs = meaning I env left
      in VList (element_sort_of xs) (elements_of xs @ elements_of (meaning I env right)))"
| "meaning I env (ListSum source) = VInt (sum_list (map integer_of (elements_of (meaning I env source))))"
| "meaning I env (ListSorted source) =
     VList Sort.Int (map VInt (sort (map integer_of (elements_of (meaning I env source)))))"
| "meaning I env (ListComprehension name source binder s mapped condition) =
     VList s (map (\<lambda>v. meaning I (env(binder := v)) mapped)
       (filter (\<lambda>v. case condition of None \<Rightarrow> True | Some test \<Rightarrow> truth_of (meaning I (env(binder := v)) test))
         (elements_of (meaning I env source))))"
| "meaning I env (ForAll binder s body) =
     VBool (\<forall>v. value_has_sort v s \<longrightarrow> truth_of (meaning I (env(binder := v)) body))"
| "meaning I env term = opaque_meaning I env term"

end
