(* ===== verification/Solver_Constant.thy ===== *)
theory Solver_Constant
  imports VC_Semantics
begin

text \<open>
  The solver's own evaluation of terms (\<^verbatim>\<open>src/src/solver.rs\<close>): constant folding of value terms,
  the substitution of a comprehension's binder, and comprehensions over literal sources, which
  never reach Z3. \<open>i64\<close> arithmetic is checked as in the code. The derived \<open>Debug\<close> rendering of a
  term is the parameter \<open>debug_term\<close>; it only fills an error message.
\<close>

section \<open>Integers\<close>

definition narrow_i64 :: "int \<Rightarrow> int option" where
  "narrow_i64 v = (if - (2 ^ 63) \<le> v \<and> v < 2 ^ 63 then Some v else None)"

lemma narrow_i64_Some [simp]: "narrow_i64 v = Some w \<longleftrightarrow> - (2 ^ 63) \<le> v \<and> v < 2 ^ 63 \<and> w = v"
  by (auto simp: narrow_i64_def)

text \<open>On the sorted prefix, \<open>partition_point\<close> is the length of the longest prefix that satisfies the test.\<close>

definition insert_integer :: "int list \<Rightarrow> int \<Rightarrow> int list" where
  "insert_integer ordered v =
     (let insertion = length (takeWhile (\<lambda>current. current \<le> v) ordered)
      in take insertion ordered @ v # drop insertion ordered)"

definition insertion_sort_integers :: "int list \<Rightarrow> int list" where
  "insertion_sort_integers values = foldl insert_integer [] values"

fun checked_sum :: "int \<Rightarrow> int list \<Rightarrow> int option" where
  "checked_sum so_far [] = Some so_far"
| "checked_sum so_far (v # vs) = Option.bind (narrow_i64 (so_far + v)) (\<lambda>so_far. checked_sum so_far vs)"

section \<open>Constant terms\<close>

definition constant_int :: "Term option \<Rightarrow> int option" where
  "constant_int result = (case result of Some (Term.Int v) \<Rightarrow> Some v | _ \<Rightarrow> None)"

definition constant_boolean :: "Term option \<Rightarrow> bool option" where
  "constant_boolean result = (case result of Some (Term.Bool b) \<Rightarrow> Some b | _ \<Rightarrow> None)"

definition both :: "'a option \<Rightarrow> 'b option \<Rightarrow> ('a \<Rightarrow> 'b \<Rightarrow> 'c option) \<Rightarrow> 'c option" where
  "both a b f = Option.bind a (\<lambda>x. Option.bind b (\<lambda>y. f x y))"

definition constant_comparison :: "(int \<Rightarrow> int \<Rightarrow> bool) \<Rightarrow> Term option \<Rightarrow> Term option \<Rightarrow> Term option" where
  "constant_comparison compare left right =
     both (constant_int left) (constant_int right) (\<lambda>l r. Some (Term.Bool (compare l r)))"

definition constant_arithmetic :: "(int \<Rightarrow> int \<Rightarrow> int) \<Rightarrow> Term option \<Rightarrow> Term option \<Rightarrow> Term option" where
  "constant_arithmetic operation left right =
     both (constant_int left) (constant_int right) (\<lambda>l r. map_option Term.Int (narrow_i64 (operation l r)))"

definition constant_concat :: "Term option \<Rightarrow> Term option \<Rightarrow> Term option" where
  "constant_concat left right =
     both left right (\<lambda>l r.
       case l of
         Term.List left_sort left_values \<Rightarrow>
           (case r of
              Term.List right_sort right_values \<Rightarrow>
                if left_sort \<noteq> right_sort then None else Some (Term.List left_sort (left_values @ right_values))
            | _ \<Rightarrow> None)
       | _ \<Rightarrow> None)"

definition constant_tuple_get :: "Term option \<Rightarrow> Term option \<Rightarrow> Term option" where
  "constant_tuple_get tuple index =
     Option.bind tuple (\<lambda>t. case t of
       Term.VariadicTuple s values \<Rightarrow>
         Option.bind (constant_int index) (\<lambda>i.
           if i < 0 \<or> nat i \<ge> length values then None else Some (values ! nat i))
     | _ \<Rightarrow> None)"

definition constant_tuple_length :: "Term option \<Rightarrow> Term option" where
  "constant_tuple_length tuple =
     Option.bind tuple (\<lambda>t. case t of
       Term.VariadicTuple s values \<Rightarrow> map_option Term.Int (narrow_i64 (int (length values)))
     | _ \<Rightarrow> None)"

text \<open>The elements of a literal integer list, given the evaluation of its elements.\<close>

definition integers_of :: "(Term \<Rightarrow> Term option) \<Rightarrow> Term \<Rightarrow> int list option" where
  "integers_of evaluate source =
     (case source of
        Term.List Sort.Int values \<Rightarrow> those (map (\<lambda>value. constant_int (evaluate value)) values)
      | _ \<Rightarrow> None)"

lemma integers_of_cong [fundef_cong]:
  assumes "source = source'" and rec: "\<And>value. size value < size source' \<Longrightarrow> f value = g value"
  shows "integers_of f source = integers_of g source'"
proof -
  have "map (\<lambda>v. constant_int (f v)) vs = map (\<lambda>v. constant_int (g v)) vs" if "source' = Term.List s vs" for s vs
    using that by (auto intro!: arg_cong [of _ _ constant_int] rec simp: less_Suc_eq_le size_list_estimation')
  with assms(1) show ?thesis
    by (cases source') (simp_all add: integers_of_def split: Sort.splits cong: map_cong)
qed

fun evaluate_constant_term :: "Term \<Rightarrow> Term option" where
  "evaluate_constant_term (Term.Bool b) = Some (Term.Bool b)"
| "evaluate_constant_term (Term.Int v) = Some (Term.Int v)"
| "evaluate_constant_term (Term.String s) = Some (Term.String s)"
| "evaluate_constant_term (Term.Bytes bs) = Some (Term.Bytes bs)"
| "evaluate_constant_term NullReference = Some NullReference"
| "evaluate_constant_term (NominalReference name cls) = Some (NominalReference name cls)"
| "evaluate_constant_term (Term.Not value) =
     map_option (\<lambda>b. Term.Bool (\<not> b)) (constant_boolean (evaluate_constant_term value))"
| "evaluate_constant_term (Term.And values) =
     map_option (\<lambda>bs. Term.Bool (\<forall>b \<in> set bs. b)) (those (map (\<lambda>v. constant_boolean (evaluate_constant_term v)) values))"
| "evaluate_constant_term (Term.Or values) =
     map_option (\<lambda>bs. Term.Bool (\<exists>b \<in> set bs. b)) (those (map (\<lambda>v. constant_boolean (evaluate_constant_term v)) values))"
| "evaluate_constant_term (IfThenElse condition then_value else_value) =
     (case constant_boolean (evaluate_constant_term condition) of
        None \<Rightarrow> None
      | Some b \<Rightarrow> if b then evaluate_constant_term then_value else evaluate_constant_term else_value)"
| "evaluate_constant_term (Equal left right) =
     both (evaluate_constant_term left) (evaluate_constant_term right) (\<lambda>l r. Some (Term.Bool (l = r)))"
| "evaluate_constant_term (Less left right) =
     constant_comparison (<) (evaluate_constant_term left) (evaluate_constant_term right)"
| "evaluate_constant_term (LessEqual left right) =
     constant_comparison (\<le>) (evaluate_constant_term left) (evaluate_constant_term right)"
| "evaluate_constant_term (Greater left right) =
     constant_comparison (>) (evaluate_constant_term left) (evaluate_constant_term right)"
| "evaluate_constant_term (GreaterEqual left right) =
     constant_comparison (\<ge>) (evaluate_constant_term left) (evaluate_constant_term right)"
| "evaluate_constant_term (Term.Add left right) =
     constant_arithmetic (+) (evaluate_constant_term left) (evaluate_constant_term right)"
| "evaluate_constant_term (Subtract left right) =
     constant_arithmetic (-) (evaluate_constant_term left) (evaluate_constant_term right)"
| "evaluate_constant_term (Multiply left right) =
     constant_arithmetic (*) (evaluate_constant_term left) (evaluate_constant_term right)"
| "evaluate_constant_term (FloorDivideByPositive value divisor) =
     Option.bind (narrow_i64 (uint divisor)) (\<lambda>d.
       if d > 0 then map_option (\<lambda>v. Term.Int (v div d)) (constant_int (evaluate_constant_term value)) else None)"
| "evaluate_constant_term (Negate value) =
     Option.bind (constant_int (evaluate_constant_term value)) (\<lambda>v. map_option Term.Int (narrow_i64 (- v)))"
| "evaluate_constant_term (ListSlice source lower upper step) = concrete_static_list_slice source lower upper step"
| "evaluate_constant_term (VariadicTupleSlice source lower upper step) =
     concrete_static_variadic_tuple_slice source lower upper step"
| "evaluate_constant_term (ListConcat left right) =
     constant_concat (evaluate_constant_term left) (evaluate_constant_term right)"
| "evaluate_constant_term (ListSum source) =
     Option.bind (integers_of evaluate_constant_term source) (\<lambda>vs. map_option Term.Int (checked_sum 0 vs))"
| "evaluate_constant_term (ListSorted source) =
     map_option (\<lambda>vs. Term.List Sort.Int (map Term.Int (insertion_sort_integers vs)))
       (integers_of evaluate_constant_term source)"
| "evaluate_constant_term (Term.Tuple values) =
     map_option Term.Tuple (those (map evaluate_constant_term values))"
| "evaluate_constant_term (Term.VariadicTuple s values) =
     map_option (Term.VariadicTuple s) (those (map evaluate_constant_term values))"
| "evaluate_constant_term (VariadicTupleLength value) = constant_tuple_length (evaluate_constant_term value)"
| "evaluate_constant_term (VariadicTupleGet tuple index) =
     constant_tuple_get (evaluate_constant_term tuple) (evaluate_constant_term index)"
| "evaluate_constant_term _ = None"

definition concrete_integer_list :: "Term \<Rightarrow> int list option" where
  "concrete_integer_list source = integers_of evaluate_constant_term source"
section \<open>Comprehensions over literal sources\<close>

definition instantiate_both ::
  "(string, Term) result \<Rightarrow> (string, Term) result \<Rightarrow> (Term \<Rightarrow> Term \<Rightarrow> Term) \<Rightarrow> (string, Term) result" where
  "instantiate_both left right build = res_bind left (\<lambda>l. res_bind right (\<lambda>r. Ok (build l r)))"

fun instantiate_comprehension_term :: "(Term \<Rightarrow> string) \<Rightarrow> string \<Rightarrow> Term \<Rightarrow> Term \<Rightarrow> (string, Term) result" where
  "instantiate_comprehension_term debug_term binder replacement (Variable name s) =
     Ok (if name = binder then replacement else Variable name s)"
| "instantiate_comprehension_term debug_term binder replacement (Term.Bool b) = Ok (Term.Bool b)"
| "instantiate_comprehension_term debug_term binder replacement (Term.Int v) = Ok (Term.Int v)"
| "instantiate_comprehension_term debug_term binder replacement (Term.String s) = Ok (Term.String s)"
| "instantiate_comprehension_term debug_term binder replacement (Term.Bytes bs) = Ok (Term.Bytes bs)"
| "instantiate_comprehension_term debug_term binder replacement (Term.Not value) =
     res_bind (instantiate_comprehension_term debug_term binder replacement value) (\<lambda>v. Ok (Term.Not v))"
| "instantiate_comprehension_term debug_term binder replacement (Negate value) =
     res_bind (instantiate_comprehension_term debug_term binder replacement value) (\<lambda>v. Ok (Negate v))"
| "instantiate_comprehension_term debug_term binder replacement (FloorDivideByPositive value divisor) =
     res_bind (instantiate_comprehension_term debug_term binder replacement value)
       (\<lambda>v. Ok (FloorDivideByPositive v divisor))"
| "instantiate_comprehension_term debug_term binder replacement (ListSlice source lower upper step) =
     res_bind (instantiate_comprehension_term debug_term binder replacement source)
       (\<lambda>v. Ok (ListSlice v lower upper step))"
| "instantiate_comprehension_term debug_term binder replacement (VariadicTupleSlice source lower upper step) =
     res_bind (instantiate_comprehension_term debug_term binder replacement source)
       (\<lambda>v. Ok (VariadicTupleSlice v lower upper step))"
| "instantiate_comprehension_term debug_term binder replacement (ListSum source) =
     res_bind (instantiate_comprehension_term debug_term binder replacement source) (\<lambda>v. Ok (ListSum v))"
| "instantiate_comprehension_term debug_term binder replacement (ListSorted source) =
     res_bind (instantiate_comprehension_term debug_term binder replacement source) (\<lambda>v. Ok (ListSorted v))"
| "instantiate_comprehension_term debug_term binder replacement (Term.And values) =
     res_bind (collect_while_ok (instantiate_comprehension_term debug_term binder replacement) values)
       (\<lambda>vs. Ok (Term.And vs))"
| "instantiate_comprehension_term debug_term binder replacement (Term.Or values) =
     res_bind (collect_while_ok (instantiate_comprehension_term debug_term binder replacement) values)
       (\<lambda>vs. Ok (Term.Or vs))"
| "instantiate_comprehension_term debug_term binder replacement (IfThenElse condition then_value else_value) =
     res_bind (instantiate_comprehension_term debug_term binder replacement condition) (\<lambda>c.
     instantiate_both (instantiate_comprehension_term debug_term binder replacement then_value)
       (instantiate_comprehension_term debug_term binder replacement else_value) (IfThenElse c))"
| "instantiate_comprehension_term debug_term binder replacement (Implies left right) =
     instantiate_both (instantiate_comprehension_term debug_term binder replacement left)
       (instantiate_comprehension_term debug_term binder replacement right) Implies"
| "instantiate_comprehension_term debug_term binder replacement (ListConcat left right) =
     instantiate_both (instantiate_comprehension_term debug_term binder replacement left)
       (instantiate_comprehension_term debug_term binder replacement right) ListConcat"
| "instantiate_comprehension_term debug_term binder replacement (Equal left right) =
     instantiate_both (instantiate_comprehension_term debug_term binder replacement left)
       (instantiate_comprehension_term debug_term binder replacement right) Equal"
| "instantiate_comprehension_term debug_term binder replacement (Less left right) =
     instantiate_both (instantiate_comprehension_term debug_term binder replacement left)
       (instantiate_comprehension_term debug_term binder replacement right) Less"
| "instantiate_comprehension_term debug_term binder replacement (LessEqual left right) =
     instantiate_both (instantiate_comprehension_term debug_term binder replacement left)
       (instantiate_comprehension_term debug_term binder replacement right) LessEqual"
| "instantiate_comprehension_term debug_term binder replacement (Greater left right) =
     instantiate_both (instantiate_comprehension_term debug_term binder replacement left)
       (instantiate_comprehension_term debug_term binder replacement right) Greater"
| "instantiate_comprehension_term debug_term binder replacement (GreaterEqual left right) =
     instantiate_both (instantiate_comprehension_term debug_term binder replacement left)
       (instantiate_comprehension_term debug_term binder replacement right) GreaterEqual"
| "instantiate_comprehension_term debug_term binder replacement (Term.Add left right) =
     instantiate_both (instantiate_comprehension_term debug_term binder replacement left)
       (instantiate_comprehension_term debug_term binder replacement right) Term.Add"
| "instantiate_comprehension_term debug_term binder replacement (Subtract left right) =
     instantiate_both (instantiate_comprehension_term debug_term binder replacement left)
       (instantiate_comprehension_term debug_term binder replacement right) Subtract"
| "instantiate_comprehension_term debug_term binder replacement (Multiply left right) =
     instantiate_both (instantiate_comprehension_term debug_term binder replacement left)
       (instantiate_comprehension_term debug_term binder replacement right) Multiply"
| "instantiate_comprehension_term debug_term binder replacement term =
     Err (''unsupported term '' @ debug_term term @ '' escaped the pure comprehension frontend'')"

text \<open>
  One element of the source: whether the filter selects it, \<open>None\<close> when the filter does not
  evaluate, and the evaluated instance of a body.
\<close>

definition select_constant :: "(Term \<Rightarrow> string) \<Rightarrow> string \<Rightarrow> Term option \<Rightarrow> Term \<Rightarrow> (string, bool option) result" where
  "select_constant debug_term binder condition source_value =
     (case condition of
        None \<Rightarrow> Ok (Some True)
      | Some condition \<Rightarrow>
          res_bind (instantiate_comprehension_term debug_term binder source_value condition) (\<lambda>instance.
          Ok (constant_boolean (evaluate_constant_term instance))))"

fun collect_mapped ::
  "(Term \<Rightarrow> string) \<Rightarrow> string \<Rightarrow> Term \<Rightarrow> Term option \<Rightarrow> Term list \<Rightarrow> Term list \<Rightarrow> (string, Term list option) result" where
  "collect_mapped debug_term binder mapped condition [] result = Ok (Some result)"
| "collect_mapped debug_term binder mapped condition (source_value # rest) result =
     res_bind (select_constant debug_term binder condition source_value) (\<lambda>selected.
     case selected of
       None \<Rightarrow> Ok None
     | Some False \<Rightarrow> collect_mapped debug_term binder mapped condition rest result
     | Some True \<Rightarrow>
         res_bind (instantiate_comprehension_term debug_term binder source_value mapped) (\<lambda>instance.
         case evaluate_constant_term instance of
           None \<Rightarrow> Ok None
         | Some value \<Rightarrow> collect_mapped debug_term binder mapped condition rest (result @ [value])))"

definition evaluate_concrete_sequence_comprehension ::
  "(Term \<Rightarrow> string) \<Rightarrow> Term \<Rightarrow> string \<Rightarrow> Term \<Rightarrow> Term option \<Rightarrow> (string, Term list option) result" where
  "evaluate_concrete_sequence_comprehension debug_term source binder mapped condition =
     (case source of
        Term.List s values \<Rightarrow> collect_mapped debug_term binder mapped condition values []
      | _ \<Rightarrow> Ok None)"

text \<open>The list of a set comprehension keeps the first of equal values.\<close>

definition push_unique :: "'a list \<Rightarrow> 'a \<Rightarrow> 'a list" where
  "push_unique unique_values value = (if value \<in> set unique_values then unique_values else unique_values @ [value])"

definition unique_values :: "'a list \<Rightarrow> 'a list" where
  "unique_values values = foldl push_unique [] values"

text \<open>A later value of a key replaces the earlier one in its place.\<close>

fun put_entry :: "'a \<Rightarrow> 'b \<Rightarrow> ('a \<times> 'b) list \<Rightarrow> ('a \<times> 'b) list" where
  "put_entry key value [] = [(key, value)]"
| "put_entry key value ((existing, existing_value) # entries) =
     (if existing = key then (existing, value) # entries
      else (existing, existing_value) # put_entry key value entries)"

fun collect_entries ::
  "(Term \<Rightarrow> string) \<Rightarrow> string \<Rightarrow> Term \<Rightarrow> Term \<Rightarrow> Term option \<Rightarrow> Term list \<Rightarrow> (Term \<times> Term) list \<Rightarrow>
     (string, (Term \<times> Term) list option) result" where
  "collect_entries debug_term binder key value condition [] entries = Ok (Some entries)"
| "collect_entries debug_term binder key value condition (source_value # rest) entries =
     res_bind (select_constant debug_term binder condition source_value) (\<lambda>selected.
     case selected of
       None \<Rightarrow> Ok None
     | Some False \<Rightarrow> collect_entries debug_term binder key value condition rest entries
     | Some True \<Rightarrow>
         res_bind (instantiate_comprehension_term debug_term binder source_value key) (\<lambda>key_instance.
         res_bind (instantiate_comprehension_term debug_term binder source_value value) (\<lambda>value_instance.
         case evaluate_constant_term key_instance of
           None \<Rightarrow> Ok None
         | Some k \<Rightarrow>
             (case evaluate_constant_term value_instance of
                None \<Rightarrow> Ok None
              | Some v \<Rightarrow> collect_entries debug_term binder key value condition rest (put_entry k v entries)))))"

definition evaluate_concrete_dict_comprehension ::
  "(Term \<Rightarrow> string) \<Rightarrow> Term \<Rightarrow> string \<Rightarrow> Term \<Rightarrow> Term \<Rightarrow> Term option \<Rightarrow>
     (string, (Term \<times> Term) list option) result" where
  "evaluate_concrete_dict_comprehension debug_term source binder key value condition =
     (case source of
        Term.List s values \<Rightarrow> collect_entries debug_term binder key value condition values []
      | _ \<Rightarrow> Ok None)"

section \<open>When evaluation succeeds\<close>

named_theorems evaluates

lemma case_list_Some [evaluates]:
  "(case t of Term.List s vs \<Rightarrow> f s vs | _ \<Rightarrow> None) = Some c \<longleftrightarrow> (\<exists>s vs. t = Term.List s vs \<and> f s vs = Some c)"
  by (cases t) simp_all

lemma case_variadic_Some [evaluates]:
  "(case t of Term.VariadicTuple s vs \<Rightarrow> f s vs | _ \<Rightarrow> None) = Some c \<longleftrightarrow>
     (\<exists>s vs. t = Term.VariadicTuple s vs \<and> f s vs = Some c)"
  by (cases t) simp_all

lemma case_int_Some [evaluates]: "(case s of Sort.Int \<Rightarrow> r | _ \<Rightarrow> None) = Some c \<longleftrightarrow> s = Sort.Int \<and> r = Some c"
  by (cases s) simp_all

lemma unless_Some [evaluates]: "(if P then None else r) = Some c \<longleftrightarrow> \<not> P \<and> r = Some c"
  by simp

lemma constant_int_Some [evaluates]: "constant_int r = Some v \<longleftrightarrow> r = Some (Term.Int v)"
  by (auto simp: constant_int_def split: option.splits Term.splits)

lemma constant_boolean_Some [evaluates]: "constant_boolean r = Some b \<longleftrightarrow> r = Some (Term.Bool b)"
  by (auto simp: constant_boolean_def split: option.splits Term.splits)

lemma both_Some [evaluates]: "both a b f = Some c \<longleftrightarrow> (\<exists>x y. a = Some x \<and> b = Some y \<and> f x y = Some c)"
  by (auto simp: both_def Option.bind_eq_Some_conv)

lemma constant_concat_Some [evaluates]:
  "constant_concat left right = Some c \<longleftrightarrow>
     (\<exists>s ls rs. left = Some (Term.List s ls) \<and> right = Some (Term.List s rs) \<and> c = Term.List s (ls @ rs))"
  by (auto simp: constant_concat_def evaluates)

lemma constant_tuple_get_Some [evaluates]:
  "constant_tuple_get tuple index = Some c \<longleftrightarrow>
     (\<exists>s vs i. tuple = Some (Term.VariadicTuple s vs) \<and> index = Some (Term.Int i) \<and> 0 \<le> i \<and>
        nat i < length vs \<and> c = vs ! nat i)"
  by (auto simp: constant_tuple_get_def Option.bind_eq_Some_conv evaluates)

lemma constant_tuple_length_Some [evaluates]:
  "constant_tuple_length tuple = Some c \<longleftrightarrow>
     (\<exists>s vs. tuple = Some (Term.VariadicTuple s vs) \<and> int (length vs) < 2 ^ 63 \<and> c = Term.Int (int (length vs)))"
  by (auto simp: constant_tuple_length_def Option.bind_eq_Some_conv evaluates)

lemma those_map_Some [evaluates]: "those (map f xs) = Some ys \<longleftrightarrow> list_all2 (\<lambda>x y. f x = Some y) xs ys"
  by (induction xs arbitrary: ys) (auto simp: list_all2_Cons1 split: option.splits)

lemma integers_of_Some [evaluates]:
  "integers_of evaluate source = Some is \<longleftrightarrow>
     (\<exists>vs. source = Term.List Sort.Int vs \<and> list_all2 (\<lambda>v i. evaluate v = Some (Term.Int i)) vs is)"
  by (auto simp: integers_of_def evaluates)

lemmas evaluation_simps = evaluates constant_comparison_def constant_arithmetic_def Option.bind_eq_Some_conv

end
