(* ===== verification/Solver_Folding.thy ===== *)
theory Solver_Folding
  imports Solver_Constant VC_Sort "HOL-Library.Multiset" "HOL-Library.Countable"
begin

text \<open>
  The solver's constant folding keeps the meaning of terms: what it computes is a constant with the
  meaning of the term it came from, and a comprehension over literal values has the meaning of the
  elements the loop would collect. The folding of a slice of unevaluated elements is the exception,
  with a counterexample.
\<close>

section \<open>Sorting and sums\<close>

lemma insert_integer_filter:
  "sorted xs \<Longrightarrow> insert_integer xs v = filter (\<lambda>x. x \<le> v) xs @ v # filter (\<lambda>x. \<not> x \<le> v) xs"
proof (induction xs)
  case Nil
  then show ?case by (simp add: insert_integer_def)
next
  case (Cons x xs)
  show ?case
  proof (cases "x \<le> v")
    case True
    with Cons show ?thesis by (simp add: insert_integer_def Let_def)
  next
    case False
    with Cons.prems have "\<forall>y \<in> set xs. \<not> y \<le> v" by auto
    with False show ?thesis by (simp add: insert_integer_def Let_def filter_empty_conv)
  qed
qed

lemma sorted_insert_integer: "sorted xs \<Longrightarrow> sorted (insert_integer xs v)"
  by (auto simp: insert_integer_filter sorted_append sorted_wrt_filter)

lemma mset_insert_integer: "sorted xs \<Longrightarrow> mset (insert_integer xs v) = add_mset v (mset xs)"
  by (simp add: insert_integer_filter)

lemma insertion_sort_fold:
  "sorted ys \<Longrightarrow> sorted (foldl insert_integer ys xs) \<and> mset (foldl insert_integer ys xs) = mset ys + mset xs"
  by (induction xs arbitrary: ys) (auto simp: sorted_insert_integer mset_insert_integer)

lemma insertion_sort_is_sort [simp]: "insertion_sort_integers vs = sort vs"
  unfolding insertion_sort_integers_def
  using insertion_sort_fold [of "[]" vs] properties_for_sort [of "foldl insert_integer [] vs" vs] by simp

lemma checked_sum_exact: "checked_sum so_far vs = Some s \<Longrightarrow> s = so_far + sum_list vs"
  by (induction vs arbitrary: so_far) (fastforce simp: Option.bind_eq_Some_conv)+

section \<open>Constants\<close>

text \<open>The terms evaluation ends with, and an interpretation that tells references apart.\<close>

fun constant_term :: "Term \<Rightarrow> bool" where
  "constant_term (Term.Bool b) \<longleftrightarrow> True"
| "constant_term (Term.Int v) \<longleftrightarrow> True"
| "constant_term (Term.String s) \<longleftrightarrow> True"
| "constant_term (Term.Bytes bs) \<longleftrightarrow> True"
| "constant_term NullReference \<longleftrightarrow> True"
| "constant_term (NominalReference name cls) \<longleftrightarrow> True"
| "constant_term (Term.Tuple vs) \<longleftrightarrow> (\<forall>v \<in> set vs. constant_term v)"
| "constant_term (Term.VariadicTuple s vs) \<longleftrightarrow> (\<forall>v \<in> set vs. constant_term v)"
| "constant_term (Term.List s vs) \<longleftrightarrow> (\<forall>v \<in> set vs. constant_term v)"
| "constant_term _ \<longleftrightarrow> False"

definition reference_term :: "Term \<Rightarrow> bool" where
  "reference_term t \<longleftrightarrow> t = NullReference \<or> (\<exists>name cls. t = NominalReference name cls)"

definition references_distinct :: "Interpretation \<Rightarrow> bool" where
  "references_distinct I \<longleftrightarrow>
     (\<exists>object. inj_on object (Collect reference_term) \<and>
        (\<forall>t env. reference_term t \<longrightarrow> opaque_meaning I env t = VObject (object t)))"
lemma constant_forms:
  "constant_term t \<Longrightarrow>
     (\<exists>b. t = Term.Bool b) \<or> (\<exists>v. t = Term.Int v) \<or> (\<exists>s. t = Term.String s) \<or> (\<exists>bs. t = Term.Bytes bs) \<or>
     reference_term t \<or> (\<exists>vs. t = Term.Tuple vs \<and> (\<forall>v \<in> set vs. constant_term v)) \<or>
     (\<exists>s vs. t = Term.VariadicTuple s vs \<and> (\<forall>v \<in> set vs. constant_term v)) \<or>
     (\<exists>s vs. t = Term.List s vs \<and> (\<forall>v \<in> set vs. constant_term v))"
  by (cases t) (simp_all add: reference_term_def)

lemma constant_cases:
  assumes "constant_term t"
  obtains (bool) b where "t = Term.Bool b" | (int) v where "t = Term.Int v"
    | (string) s where "t = Term.String s" | (bytes) bs where "t = Term.Bytes bs"
    | (reference) "reference_term t"
    | (tuple) vs where "t = Term.Tuple vs" "\<forall>v \<in> set vs. constant_term v"
    | (variadic) s vs where "t = Term.VariadicTuple s vs" "\<forall>v \<in> set vs. constant_term v"
    | (list) s vs where "t = Term.List s vs" "\<forall>v \<in> set vs. constant_term v"
  using constant_forms [OF assms] that by blast

lemma map_eq_by_elements:
  assumes "\<And>a b. a \<in> set xs \<Longrightarrow> b \<in> set ys \<Longrightarrow> f a = g b \<longleftrightarrow> a = b"
  shows "map f xs = map g ys \<longleftrightarrow> xs = ys"
  using assms
proof (induction xs arbitrary: ys)
  case Nil
  then show ?case by auto
next
  case (Cons x xs)
  then show ?case by (cases ys) auto
qed

text \<open>A reference means its object, in every environment.\<close>

lemma reference_meaning:
  assumes "references_distinct I"
  shows "\<exists>object. inj_on object (Collect reference_term) \<and>
    (\<forall>t env. reference_term t \<longrightarrow> meaning I env t = VObject (object t))"
proof -
  from assms obtain object where inj: "inj_on object (Collect reference_term)" and
    object: "\<forall>t env. reference_term t \<longrightarrow> opaque_meaning I env t = VObject (object t)"
    unfolding references_distinct_def by blast
  have "meaning I env t = VObject (object t)" if "reference_term t" for t env
    using that object by (auto simp: reference_term_def)
  with inj show ?thesis by blast
qed

lemma constant_meaning_eq:
  assumes "references_distinct I"
  shows "constant_term a \<Longrightarrow> constant_term b \<Longrightarrow> meaning I env a = meaning I env' b \<longleftrightarrow> a = b"
proof -
  from assms obtain object where inj: "inj_on object (Collect reference_term)" and
    object: "\<And>t env. reference_term t \<Longrightarrow> meaning I env t = VObject (object t)"
    using reference_meaning by blast
  show "constant_term a \<Longrightarrow> constant_term b \<Longrightarrow> meaning I env a = meaning I env' b \<longleftrightarrow> a = b"
  proof (induction a arbitrary: b rule: measure_induct_rule [where f = size])
    case (less a)
    have elements: "map (meaning I env) vs = map (meaning I env') ws \<longleftrightarrow> vs = ws"
      if "\<forall>v \<in> set vs. constant_term v" "\<forall>w \<in> set ws. constant_term w" "\<forall>v \<in> set vs. size v < size a" for vs ws
      by (rule map_eq_by_elements) (use less.IH that in blast)
    have sizes: "a = Term.Tuple vs \<or> (\<exists>s. a = Term.VariadicTuple s vs) \<or> (\<exists>s. a = Term.List s vs) \<Longrightarrow>
        \<forall>v \<in> set vs. size v < size a" for vs
      by (auto simp: less_Suc_eq_le size_list_estimation')
    show ?case
      using less.prems(1)
    proof (cases rule: constant_cases)
      case reference
      with less.prems(2) show ?thesis
        by (cases rule: constant_cases [OF less.prems(2)])
          (auto simp: object reference_term_def inj_on_eq_iff [OF inj])
    next
      case (tuple vs)
      with less.prems(2) show ?thesis
        by (cases rule: constant_cases [OF less.prems(2)])
          (use elements sizes [of vs] in \<open>auto simp: object reference_term_def\<close>)
    next
      case (variadic s vs)
      with less.prems(2) show ?thesis
        by (cases rule: constant_cases [OF less.prems(2)])
          (use elements sizes [of vs] in \<open>auto simp: object reference_term_def\<close>)
    next
      case (list s vs)
      with less.prems(2) show ?thesis
        by (cases rule: constant_cases [OF less.prems(2)])
          (use elements sizes [of vs] in \<open>auto simp: object reference_term_def\<close>)
    qed (use less.prems(2) in \<open>cases rule: constant_cases [OF less.prems(2)]; auto simp: object reference_term_def\<close>)+
  qed
qed
section \<open>Evaluation keeps the meaning\<close>

text \<open>
  Slices evaluate without evaluating their elements. They are settled in a term when the elements of
  every sliced literal are constants; the other conjuncts are what the types of the code enforce.
\<close>

definition settled_slice :: "Term \<Rightarrow> int option \<Rightarrow> int option \<Rightarrow> int \<Rightarrow> bool" where
  "settled_slice source lower upper step \<longleftrightarrow>
     step \<noteq> 0 \<and> (\<forall>b \<in> set_option lower \<union> set_option upper. in_i128 b) \<and>
     (case source of
        Term.List s vs \<Rightarrow> (\<forall>v \<in> set vs. constant_term v) \<and> length vs < 2 ^ 64
      | Term.VariadicTuple s vs \<Rightarrow> (\<forall>v \<in> set vs. constant_term v) \<and> length vs < 2 ^ 64
      | _ \<Rightarrow> True)"

fun slices_settled :: "Term \<Rightarrow> bool" where
  "slices_settled (Term.Not value) = slices_settled value"
| "slices_settled (Term.And values) = (\<forall>value \<in> set values. slices_settled value)"
| "slices_settled (Term.Or values) = (\<forall>value \<in> set values. slices_settled value)"
| "slices_settled (Implies left right) = (slices_settled left \<and> slices_settled right)"
| "slices_settled (IfThenElse condition then_value else_value) =
     (slices_settled condition \<and> slices_settled then_value \<and> slices_settled else_value)"
| "slices_settled (Equal left right) = (slices_settled left \<and> slices_settled right)"
| "slices_settled (Less left right) = (slices_settled left \<and> slices_settled right)"
| "slices_settled (LessEqual left right) = (slices_settled left \<and> slices_settled right)"
| "slices_settled (Greater left right) = (slices_settled left \<and> slices_settled right)"
| "slices_settled (GreaterEqual left right) = (slices_settled left \<and> slices_settled right)"
| "slices_settled (Term.Add left right) = (slices_settled left \<and> slices_settled right)"
| "slices_settled (Subtract left right) = (slices_settled left \<and> slices_settled right)"
| "slices_settled (Multiply left right) = (slices_settled left \<and> slices_settled right)"
| "slices_settled (FloorDivideByPositive value divisor) = slices_settled value"
| "slices_settled (Negate value) = slices_settled value"
| "slices_settled (ListSlice source lower upper step) = (settled_slice source lower upper step \<and> slices_settled source)"
| "slices_settled (VariadicTupleSlice source lower upper step) =
     (settled_slice source lower upper step \<and> slices_settled source)"
| "slices_settled (ListConcat left right) = (slices_settled left \<and> slices_settled right)"
| "slices_settled (ListSum source) = slices_settled source"
| "slices_settled (ListSorted source) = slices_settled source"
| "slices_settled (Term.Tuple values) = (\<forall>value \<in> set values. slices_settled value)"
| "slices_settled (Term.VariadicTuple s values) = (\<forall>value \<in> set values. slices_settled value)"
| "slices_settled (Term.List s values) = (\<forall>value \<in> set values. slices_settled value)"
| "slices_settled (VariadicTupleLength value) = slices_settled value"
| "slices_settled (VariadicTupleGet tuple index) = (slices_settled tuple \<and> slices_settled index)"
| "slices_settled _ = True"

text \<open>A settled slice evaluates to Python's slice of constants.\<close>

lemma settled_length: "length vs < 2 ^ 64 \<Longrightarrow> int (length vs) \<le> i128_max"
  by (simp add: i128_max_def)

lemma settled_slice_select:
  assumes "step \<noteq> 0" "\<forall>b \<in> set_option lower \<union> set_option upper. in_i128 b" "length vs < 2 ^ 64"
  shows "select_slice vs lower upper step = Some (python_slice vs lower upper step)"
  by (rule select_slice_python) (use assms settled_length in auto)

lemma set_python_slice: 
  assumes "step \<noteq> 0" 
  shows "set (python_slice vs lower upper step) \<subseteq> set vs"
proof -
  obtain start count where indices: "python_slice_indices (int (length vs)) lower upper step = (start, count)"
    by fastforce
  have "nat (start + int k * step) < length vs" if "k < nat count" for k
    using slice_index_range [OF _ assms indices, of k] that by (simp add: nat_less_iff zless_nat_eq_int_zless)
  then show ?thesis by (auto simp: python_slice_def indices)
qed

lemma python_slice_map:
  assumes "step \<noteq> 0" 
  shows "python_slice (map f vs) lower upper step = map f (python_slice vs lower upper step)"
proof -
  obtain start count where indices: "python_slice_indices (int (length vs)) lower upper step = (start, count)"
    by fastforce
  have "nat (start + int k * step) < length vs" if "k < nat count" for k
    using slice_index_range [OF _ assms indices, of k] that by (simp add: nat_less_iff zless_nat_eq_int_zless)
  then show ?thesis by (simp add: python_slice_def indices)
qed
lemma settled_list_slice:
  assumes "settled_slice source lower upper step" "concrete_static_list_slice source lower upper step = Some c"
  shows "constant_term c \<and> meaning I env (ListSlice source lower upper step) = meaning I env c"
proof -
  from assms(2) obtain s vs ws where source: "source = Term.List s vs" and
    ws: "select_slice vs lower upper step = Some ws" and c: "c = Term.List s ws"
    by (auto simp: concrete_static_list_slice_def evaluates)
  from assms(1) source have step: "step \<noteq> 0" and constants: "\<forall>v \<in> set vs. constant_term v"
    and slice: "select_slice vs lower upper step = Some (python_slice vs lower upper step)"
    by (auto simp: settled_slice_def intro!: settled_slice_select)
  from ws slice have "ws = python_slice vs lower upper step" by simp
  then show ?thesis
    using constants set_python_slice [OF step, of vs lower upper] by (auto simp: c source python_slice_map [OF step])
qed

lemma settled_variadic_slice:
  assumes "settled_slice source lower upper step"
    "concrete_static_variadic_tuple_slice source lower upper step = Some c"
  shows "constant_term c \<and> meaning I env (VariadicTupleSlice source lower upper step) = meaning I env c"
proof -
  from assms(2) obtain s vs ws where source: "source = Term.VariadicTuple s vs" and
    ws: "select_slice vs lower upper step = Some ws" and c: "c = Term.VariadicTuple s ws"
    by (auto simp: concrete_static_variadic_tuple_slice_def evaluates)
  from assms(1) source have step: "step \<noteq> 0" and constants: "\<forall>v \<in> set vs. constant_term v"
    and slice: "select_slice vs lower upper step = Some (python_slice vs lower upper step)"
    by (auto simp: settled_slice_def intro!: settled_slice_select)
  from ws slice have "ws = python_slice vs lower upper step" by simp
  then show ?thesis
    using constants set_python_slice [OF step, of vs lower upper] by (auto simp: c source python_slice_map [OF step])
qed

text \<open>What each element of a list evaluates to, from the induction over the list's elements.\<close>

lemma elements_evaluate:
  assumes "list_all2 (\<lambda>v c. evaluate v = Some c) vs cs"
    "\<And>v c. v \<in> set vs \<Longrightarrow> evaluate v = Some c \<Longrightarrow> P c \<and> m v = m c"
  shows "(\<forall>c \<in> set cs. P c) \<and> map m vs = map m cs"
  using assms
proof (induction rule: list_all2_induct)
  case Nil
  then show ?case by simp
next
  case (Cons v vs c cs)
  then show ?case by auto
qed

lemma booleans_evaluate:
  assumes "list_all2 (\<lambda>v b. evaluate v = Some (Term.Bool b)) vs bs"
    "\<And>v c. v \<in> set vs \<Longrightarrow> evaluate v = Some c \<Longrightarrow> meaning I env v = meaning I env c"
  shows "map (\<lambda>v. truth_of (meaning I env v)) vs = bs"
  using assms
proof (induction rule: list_all2_induct)
  case Nil
  then show ?case by simp
next
  case (Cons v vs b bs)
  have "meaning I env v = VBool b" using Cons.hyps Cons.prems [of v "Term.Bool b"] by simp
  with Cons show ?case by simp
qed

lemma integers_evaluate:
  assumes "list_all2 (\<lambda>v i. evaluate v = Some (Term.Int i)) vs is"
    "\<And>v c. v \<in> set vs \<Longrightarrow> evaluate v = Some c \<Longrightarrow> meaning I env v = meaning I env c"
  shows "map (\<lambda>v. integer_of (meaning I env v)) vs = is"
  using assms
proof (induction rule: list_all2_induct)
  case Nil
  then show ?case by simp
next
  case (Cons v vs i "is")
  have "meaning I env v = VInt i" using Cons.hyps Cons.prems [of v "Term.Int i"] by simp
  with Cons show ?case by simp
qed
lemma evaluation_keeps_meaning:
  assumes "references_distinct I"
  shows "evaluate_constant_term t = Some c \<Longrightarrow> slices_settled t \<Longrightarrow>
    constant_term c \<and> meaning I env t = meaning I env c"
proof (induction t arbitrary: c rule: evaluate_constant_term.induct)
  case (8 vs)
  then obtain bs where bs: "list_all2 (\<lambda>v b. evaluate_constant_term v = Some (Term.Bool b)) vs bs"
    and c: "c = Term.Bool (\<forall>b \<in> set bs. b)" by (auto simp: evaluates)
  have "map (\<lambda>v. truth_of (meaning I env v)) vs = bs"
    by (rule booleans_evaluate [OF bs]) (use 8 in auto)
  then have "set bs = (\<lambda>v. truth_of (meaning I env v)) ` set vs" by auto
  then show ?case by (simp add: c)
next
  case (9 vs)
  then obtain bs where bs: "list_all2 (\<lambda>v b. evaluate_constant_term v = Some (Term.Bool b)) vs bs"
    and c: "c = Term.Bool (\<exists>b \<in> set bs. b)" by (auto simp: evaluates)
  have "map (\<lambda>v. truth_of (meaning I env v)) vs = bs"
    by (rule booleans_evaluate [OF bs]) (use 9 in auto)
  then have "set bs = (\<lambda>v. truth_of (meaning I env v)) ` set vs" by auto
  then show ?case by (simp add: c)
next
  case (11 left right)
  then obtain l r where parts: "evaluate_constant_term left = Some l" "evaluate_constant_term right = Some r"
    and c: "c = Term.Bool (l = r)" by (auto simp: evaluates)
  from 11 parts have l: "constant_term l" "meaning I env left = meaning I env l"
    and r: "constant_term r" "meaning I env right = meaning I env r" by simp_all
  have "meaning I env left = meaning I env right \<longleftrightarrow> l = r"
    using constant_meaning_eq [OF assms l(1) r(1), of env env] l(2) r(2) by simp
  then show ?case by (simp add: c)
next
  case (21 source lower upper step)
  then show ?case using settled_list_slice [of source lower upper step c] by simp
next
  case (22 source lower upper step)
  then show ?case using settled_variadic_slice [of source lower upper step c] by simp
next
  case (24 source)
  then obtain vs "is" k where source: "source = Term.List Sort.Int vs"
    and vs: "list_all2 (\<lambda>v i. evaluate_constant_term v = Some (Term.Int i)) vs is"
    and c: "checked_sum 0 is = Some k" "c = Term.Int k"
    by (auto simp: evaluation_simps)
  have "size v < size source" if "v \<in> set vs" for v
    using that by (auto simp: source less_Suc_eq_le size_list_estimation')
  then have "map (\<lambda>v. integer_of (meaning I env v)) vs = is"
    by (intro integers_evaluate [OF vs]) (use "24.IH" "24.prems"(2) source in auto)
  then show ?case using c checked_sum_exact [of 0 "is" k] by (auto simp: source comp_def)
next
  case (25 source)
  then obtain vs "is" where source: "source = Term.List Sort.Int vs"
    and vs: "list_all2 (\<lambda>v i. evaluate_constant_term v = Some (Term.Int i)) vs is"
    and c: "c = Term.List Sort.Int (map Term.Int (sort is))"
    by (auto simp: evaluation_simps)
  have "size v < size source" if "v \<in> set vs" for v
    using that by (auto simp: source less_Suc_eq_le size_list_estimation')
  then have "map (\<lambda>v. integer_of (meaning I env v)) vs = is"
    by (intro integers_evaluate [OF vs]) (use "25.IH" "25.prems"(2) source in auto)
  then show ?case by (auto simp: c source comp_def)
next
  case (26 vs)
  then obtain cs where cs: "list_all2 (\<lambda>v c. evaluate_constant_term v = Some c) vs cs" and c: "c = Term.Tuple cs"
    by (auto simp: evaluates)
  have "(\<forall>c \<in> set cs. constant_term c) \<and> map (meaning I env) vs = map (meaning I env) cs"
    by (rule elements_evaluate [OF cs]) (use 26 in auto)
  then show ?case by (simp add: c)
next
  case (27 s vs)
  then obtain cs where cs: "list_all2 (\<lambda>v c. evaluate_constant_term v = Some c) vs cs"
    and c: "c = Term.VariadicTuple s cs"
    by (auto simp: evaluates)
  have "(\<forall>c \<in> set cs. constant_term c) \<and> map (meaning I env) vs = map (meaning I env) cs"
    by (rule elements_evaluate [OF cs]) (use 27 in auto)
  then show ?case by (simp add: c)
next
  case (29 tuple index)
  then obtain s vs i where parts: "evaluate_constant_term tuple = Some (Term.VariadicTuple s vs)"
    "evaluate_constant_term index = Some (Term.Int i)" and i: "0 \<le> i" "nat i < length vs" and c: "c = vs ! nat i"
    by (auto simp: evaluates)
  have "\<forall>v \<in> set vs. constant_term v" "meaning I env tuple = VVariadic s (map (meaning I env) vs)"
    "meaning I env index = VInt i"
    using "29.IH"(1) [OF parts(1)] "29.IH"(2) [OF parts(2)] "29.prems"(2) by simp_all
  with i show ?case by (auto simp: c element_at_def)
qed (auto simp: evaluation_simps split: option.splits if_splits)
section \<open>Substitution\<close>

lemma instantiate_both_Ok [simp]:
  "instantiate_both left right build = Ok t \<longleftrightarrow> (\<exists>l r. left = Ok l \<and> right = Ok r \<and> t = build l r)"
  by (auto simp: instantiate_both_def)

lemma elements_instantiated:
  assumes "list_all2 (\<lambda>v c. instantiate v = Ok c) vs cs"
    "\<And>v c. v \<in> set vs \<Longrightarrow> instantiate v = Ok c \<Longrightarrow> P v \<Longrightarrow> Q c \<and> m c = m' v" "\<forall>v \<in> set vs. P v"
  shows "(\<forall>c \<in> set cs. Q c) \<and> m ` set cs = m' ` set vs"
  using assms
proof (induction rule: list_all2_induct)
  case Nil
  then show ?case by simp
next
  case (Cons v vs c cs)
  have "Q c \<and> m c = m' v" using Cons.prems(1) [of v c] Cons.prems(2) Cons.hyps by simp
  moreover have "(\<forall>c \<in> set cs. Q c) \<and> m ` set cs = m' ` set vs"
    by (rule Cons.IH) (use Cons.prems in auto)
  ultimately show ?case by simp
qed

text \<open>The values the comprehension substitutes, of a length a vector can have.\<close>

definition literal_value :: "Term \<Rightarrow> bool" where
  "literal_value v \<longleftrightarrow> constant_term v \<and>
     (case v of Term.List s vs \<Rightarrow> length vs < 2 ^ 64 | Term.VariadicTuple s vs \<Rightarrow> length vs < 2 ^ 64 | _ \<Rightarrow> True)"

lemma constant_settled: "constant_term t \<Longrightarrow> slices_settled t"
  by (induction t rule: constant_term.induct) simp_all

text \<open>A source that instantiates to a literal sequence is the binder itself.\<close>

lemma instantiates_to_list:
  "instantiate_comprehension_term d x r source = Ok (Term.List s vs) \<Longrightarrow> r = Term.List s vs"
  by (cases source) (auto split: if_splits)

lemma instantiates_to_variadic:
  "instantiate_comprehension_term d x r source = Ok (Term.VariadicTuple s vs) \<Longrightarrow> r = Term.VariadicTuple s vs"
  by (cases source) (auto split: if_splits)

lemma instantiated_slice:
  assumes "literal_value r" "instantiate_comprehension_term d x r source = Ok source'"
    "settled_slice source lower upper step"
  shows "settled_slice source' lower upper step"
proof (cases "(\<exists>s vs. source' = Term.List s vs) \<or> (\<exists>s vs. source' = Term.VariadicTuple s vs)")
  case True
  with assms have "source' = r" using instantiates_to_list instantiates_to_variadic by blast
  with True assms show ?thesis by (auto simp: settled_slice_def literal_value_def)
next
  case False
  with assms(3) show ?thesis by (cases source') (simp_all add: settled_slice_def)
qed

lemma instantiation_keeps_meaning:
  assumes "literal_value r"
  shows "instantiate_comprehension_term d x r t = Ok t' \<Longrightarrow> slices_settled t \<Longrightarrow>
    slices_settled t' \<and> meaning I env t' = meaning I (env(x := meaning I env r)) t"
  using assms
proof (induction d x r t arbitrary: t' rule: instantiate_comprehension_term.induct)
  case (1 d x r y s)
  then show ?case by (auto simp: literal_value_def constant_settled)
next
  case (9 d x r source lower upper step)
  then show ?case by (auto simp: instantiated_slice)
next
  case (10 d x r source lower upper step)
  then show ?case by (auto simp: instantiated_slice)
next
  case (13 d x r vs)
  then have settled: "\<forall>v \<in> set vs. slices_settled v" by simp
  from "13.prems"(1) obtain cs where cs: "list_all2 (\<lambda>v c. instantiate_comprehension_term d x r v = Ok c) vs cs"
    and t': "t' = Term.And cs" by (auto simp: collect_while_ok_eq_Inr)
  have "(\<forall>c \<in> set cs. slices_settled c) \<and>
      meaning I env ` set cs = meaning I (env(x := meaning I env r)) ` set vs"
    by (rule elements_instantiated [OF cs _ settled]) (rule "13.IH" [OF _ _ _ "13.prems"(3)])
  then have cs_settled: "\<forall>c \<in> set cs. slices_settled c" and
    same: "meaning I env ` set cs = meaning I (env(x := meaning I env r)) ` set vs" by (rule conjunct1, rule conjunct2)
  have "meaning I env t' = VBool (\<forall>v \<in> meaning I env ` set cs. truth_of v)" by (simp add: t')
  also have "\<dots> = meaning I (env(x := meaning I env r)) (Term.And vs)" unfolding same by simp
  finally show ?case using cs_settled unfolding t' slices_settled.simps by blast
next
  case (14 d x r vs)
  then have settled: "\<forall>v \<in> set vs. slices_settled v" by simp
  from "14.prems"(1) obtain cs where cs: "list_all2 (\<lambda>v c. instantiate_comprehension_term d x r v = Ok c) vs cs"
    and t': "t' = Term.Or cs" by (auto simp: collect_while_ok_eq_Inr)
  have "(\<forall>c \<in> set cs. slices_settled c) \<and>
      meaning I env ` set cs = meaning I (env(x := meaning I env r)) ` set vs"
    by (rule elements_instantiated [OF cs _ settled]) (rule "14.IH" [OF _ _ _ "14.prems"(3)])
  then have cs_settled: "\<forall>c \<in> set cs. slices_settled c" and
    same: "meaning I env ` set cs = meaning I (env(x := meaning I env r)) ` set vs" by (rule conjunct1, rule conjunct2)
  have "meaning I env t' = VBool (\<exists>v \<in> meaning I env ` set cs. truth_of v)" by (simp add: t')
  also have "\<dots> = meaning I (env(x := meaning I env r)) (Term.Or vs)" unfolding same by simp
  finally show ?case using cs_settled unfolding t' slices_settled.simps by blast
next
  case (15 d x r c l e)
  then obtain c' l' e' where parts: "instantiate_comprehension_term d x r c = Ok c'"
    "instantiate_comprehension_term d x r l = Ok l'" "instantiate_comprehension_term d x r e = Ok e'"
    and t': "t' = IfThenElse c' l' e'" by auto
  from 15 parts show ?case by (simp add: t')
qed auto
section \<open>Comprehensions\<close>

text \<open>The test a comprehension makes of each element of its source, and what it selects.\<close>

definition selects :: "Interpretation \<Rightarrow> (string \<Rightarrow> Value) \<Rightarrow> string \<Rightarrow> Term option \<Rightarrow> Value \<Rightarrow> bool" where
  "selects I env binder condition v =
     (case condition of None \<Rightarrow> True | Some test \<Rightarrow> truth_of (meaning I (env(binder := v)) test))"

lemma selection_keeps_meaning:
  assumes "references_distinct I" "literal_value v" "pred_option slices_settled condition"
    "select_constant d binder condition v = Ok (Some b)"
  shows "selects I env binder condition (meaning I env v) = b"
proof (cases condition)
  case None
  with assms(4) show ?thesis by (simp add: select_constant_def selects_def)
next
  case (Some test)
  with assms(4) obtain t where t: "instantiate_comprehension_term d binder v test = Ok t"
    "evaluate_constant_term t = Some (Term.Bool b)"
    by (auto simp: select_constant_def evaluates)
  from Some assms(3) have "slices_settled test" by simp
  from instantiation_keeps_meaning [OF assms(2) t(1) this, of I env]
  have "slices_settled t" "meaning I env t = meaning I (env(binder := meaning I env v)) test" by blast+
  with evaluation_keeps_meaning [OF assms(1) t(2), of env] Some show ?thesis by (simp add: selects_def)
qed

lemma instance_keeps_meaning:
  assumes "references_distinct I" "literal_value v" "slices_settled mapped"
    "instantiate_comprehension_term d binder v mapped = Ok t" "evaluate_constant_term t = Some c"
  shows "constant_term c \<and> meaning I env c = meaning I (env(binder := meaning I env v)) mapped"
proof -
  from instantiation_keeps_meaning [OF assms(2,4,3), of I env]
  have "slices_settled t" "meaning I env t = meaning I (env(binder := meaning I env v)) mapped" by blast+
  with evaluation_keeps_meaning [OF assms(1,5), of env] show ?thesis by simp
qed

text \<open>Where the loops continue, and with what.\<close>

lemma collect_mapped_step:
  assumes "collect_mapped d binder mapped condition (v # vs) result = Ok (Some cs)"
  obtains (skipped) "select_constant d binder condition v = Ok (Some False)"
      "collect_mapped d binder mapped condition vs result = Ok (Some cs)"
    | (kept) t c where "select_constant d binder condition v = Ok (Some True)"
      "instantiate_comprehension_term d binder v mapped = Ok t" "evaluate_constant_term t = Some c"
      "collect_mapped d binder mapped condition vs (result @ [c]) = Ok (Some cs)"
  using assms by (auto split: option.splits bool.splits)

lemma collect_mapped_meaning:
  assumes "references_distinct I" "slices_settled mapped" "pred_option slices_settled condition"
  shows "collect_mapped d binder mapped condition vs result = Ok (Some cs) \<Longrightarrow> \<forall>v \<in> set vs. literal_value v \<Longrightarrow>
    \<exists>new. cs = result @ new \<and> (\<forall>c \<in> set new. constant_term c) \<and>
      map (meaning I env) new =
        map (\<lambda>v. meaning I (env(binder := v)) mapped) (filter (selects I env binder condition) (map (meaning I env) vs))"
proof (induction vs arbitrary: result)
  case Nil
  then show ?case by simp
next
  case (Cons v vs)
  then have v: "literal_value v" and vs: "\<forall>v \<in> set vs. literal_value v" by simp_all
  from Cons.prems(1) show ?case
  proof (cases rule: collect_mapped_step)
    case skipped
    with selection_keeps_meaning [OF assms(1) v assms(3)] Cons.IH [OF _ vs] show ?thesis by simp
  next
    case (kept t c)
    from Cons.IH [OF kept(4) vs] obtain new where new: "cs = (result @ [c]) @ new" "\<forall>c \<in> set new. constant_term c"
      "map (meaning I env) new =
        map (\<lambda>v. meaning I (env(binder := v)) mapped) (filter (selects I env binder condition) (map (meaning I env) vs))"
      by blast
    have "constant_term c \<and> meaning I env c = meaning I (env(binder := meaning I env v)) mapped"
      by (rule instance_keeps_meaning [OF assms(1) v assms(2) kept(2,3)])
    moreover have "selects I env binder condition (meaning I env v)"
      using selection_keeps_meaning [OF assms(1) v assms(3) kept(1)] by simp
    ultimately show ?thesis using new by (intro exI [of _ "c # new"]) (simp del: fun_upd_apply)
  qed
qed

text \<open>
  Property C37. When the solver folds a term whose sliced literals
  have constant elements, with bounds in range and steps other than zero, the result is a constant and has the term's meaning, in every environment
  and every interpretation in which different references are different objects. So \<open>sum\<close>,
  \<open>sorted\<close>, slices, tuple access, arithmetic and comparisons it decides itself are Python's, and
  \<open>i64\<close> overflow makes it undecided, never wrong. Without the condition on slices this is false, as
  the last property of this theory shows.
\<close>

theorem constants_fold_to_their_meaning:
  assumes "references_distinct I" and "slices_settled t" and "evaluate_constant_term t = Some c"
  shows "constant_term c \<and> meaning I env t = meaning I env c"
  using evaluation_keeps_meaning assms by blast

definition plain_interpretation :: Interpretation where
  "plain_interpretation =
     \<lparr>opaque_meaning = \<lambda>env t. VObject (case t of NominalReference name cls \<Rightarrow> Suc (to_nat (name, cls)) | _ \<Rightarrow> 0),
      outside = \<lambda>vs i. VUnit\<rparr>"

lemma plain_references: "references_distinct plain_interpretation"
proof -
  let ?object = "\<lambda>t. case t of NominalReference name cls \<Rightarrow> Suc (to_nat (name, cls)) | _ \<Rightarrow> 0"
  have "inj_on ?object (Collect reference_term)"
    by (auto simp: inj_on_def reference_term_def)
  then show ?thesis
    unfolding references_distinct_def by (intro exI [of _ ?object]) (simp add: plain_interpretation_def)
qed

theorem constants_fold_to_their_meaning_witness:
  "\<forall>env. meaning plain_interpretation env (ListSum (Term.List Sort.Int [Term.Int 2, Negate (Term.Int 5)])) = VInt (- 3)"
proof -
  let ?t = "ListSum (Term.List Sort.Int [Term.Int 2, Negate (Term.Int 5)])"
  have "evaluate_constant_term ?t = Some (Term.Int (- 3))"
    by (simp add: integers_of_def constant_int_def narrow_i64_def)
  from constants_fold_to_their_meaning [OF plain_references _ this] show ?thesis by simp
qed
section \<open>Sets and dictionaries\<close>

lemma push_unique_fold:
  "set (foldl push_unique us vs) = set us \<union> set vs \<and> (distinct us \<longrightarrow> distinct (foldl push_unique us vs))"
  by (induction vs arbitrary: us) (auto simp: push_unique_def)

lemma set_unique_values [simp]: "set (unique_values vs) = set vs"
  by (simp add: unique_values_def push_unique_fold)

lemma distinct_unique_values [simp]: "distinct (unique_values vs)"
  by (simp add: unique_values_def push_unique_fold)

lemma map_push_unique:
  "inj_on f (set us \<union> set vs) \<Longrightarrow> map f (foldl push_unique us vs) = foldl push_unique (map f us) (map f vs)"
proof (induction vs arbitrary: us)
  case Nil
  then show ?case by simp
next
  case (Cons v vs)
  have "f v \<in> f ` set us \<longleftrightarrow> v \<in> set us"
    using Cons.prems by (auto simp: inj_on_def)
  then have step: "map f (push_unique us v) = push_unique (map f us) (f v)"
    by (simp add: push_unique_def)
  have "inj_on f (set (push_unique us v) \<union> set vs)"
    by (rule inj_on_subset [OF Cons.prems]) (auto simp: push_unique_def)
  from Cons.IH [OF this] step show ?case by simp
qed

lemma constants_injective:
  "references_distinct I \<Longrightarrow> \<forall>c \<in> A. constant_term c \<Longrightarrow> inj_on (meaning I env) A"
  by (auto simp: inj_on_def constant_meaning_eq)

text \<open>What folding \<open>put_entry\<close> over key-value pairs builds: Python's dictionary of them.\<close>

definition put_entries :: "('a \<times> 'b) list \<Rightarrow> ('a \<times> 'b) list \<Rightarrow> ('a \<times> 'b) list" where
  "put_entries entries kvs = foldl (\<lambda>entries (k, v). put_entry k v entries) entries kvs"

lemma put_entries_Nil [simp]: "put_entries entries [] = entries"
  by (simp add: put_entries_def)

lemma put_entries_Cons [simp]: "put_entries entries ((k, v) # kvs) = put_entries (put_entry k v entries) kvs"
  by (simp add: put_entries_def)

lemma map_of_put_entry: "map_of (put_entry k v entries) = (map_of entries)(k \<mapsto> v)"
  by (induction k v entries rule: put_entry.induct) auto

lemma keys_put_entry: "map fst (put_entry k v entries) = push_unique (map fst entries) k"
  by (induction k v entries rule: put_entry.induct) (auto simp: push_unique_def)

lemma map_of_put_entries: "map_of (put_entries entries kvs) = map_of entries ++ map_of (rev kvs)"
proof (induction kvs arbitrary: entries)
  case Nil
  then show ?case by simp
next
  case (Cons kv kvs)
  then show ?case by (cases kv) (simp add: map_of_put_entry del: fun_upd_apply)
qed

lemma keys_put_entries: "map fst (put_entries entries kvs) = foldl push_unique (map fst entries) (map fst kvs)"
proof (induction kvs arbitrary: entries)
  case Nil
  then show ?case by simp
next
  case (Cons kv kvs)
  then show ?case by (cases kv) (simp add: keys_put_entry)
qed

lemma map_put_entry:
  "inj_on f (insert k (fst ` set entries)) \<Longrightarrow>
     map (map_prod f g) (put_entry k v entries) = put_entry (f k) (g v) (map (map_prod f g) entries)"
  by (induction k v entries rule: put_entry.induct) (auto simp: inj_on_def)

lemma set_put_entry: "fst ` set (put_entry k v entries) = insert k (fst ` set entries)"
  by (induction k v entries rule: put_entry.induct) auto

lemma collect_entries_step:
  assumes "collect_entries d binder key value condition (v # vs) entries = Ok (Some es)"
  obtains (skipped) "select_constant d binder condition v = Ok (Some False)"
      "collect_entries d binder key value condition vs entries = Ok (Some es)"
    | (kept) k k' w w' where "select_constant d binder condition v = Ok (Some True)"
      "instantiate_comprehension_term d binder v key = Ok k'" "evaluate_constant_term k' = Some k"
      "instantiate_comprehension_term d binder v value = Ok w'" "evaluate_constant_term w' = Some w"
      "collect_entries d binder key value condition vs (put_entry k w entries) = Ok (Some es)"
proof -
  from assms obtain selected where selected: "select_constant d binder condition v = Ok selected"
    by (cases "select_constant d binder condition v") simp_all
  show thesis
  proof (cases selected)
    case None
    with assms selected show ?thesis by simp
  next
    case (Some b)
    show ?thesis
    proof (cases b)
      case False
      with assms selected Some show ?thesis by (intro skipped) simp_all
    next
      case True
      with assms selected Some obtain k' w' where parts: "instantiate_comprehension_term d binder v key = Ok k'"
        "instantiate_comprehension_term d binder v value = Ok w'" by auto
      show ?thesis
        by (cases "evaluate_constant_term k'"; cases "evaluate_constant_term w'")
          (use assms selected Some True parts kept in simp_all)
    qed
  qed
qed

text \<open>The pairs a dictionary comprehension goes through.\<close>

definition comprehension_pairs ::
  "Interpretation \<Rightarrow> (string \<Rightarrow> Value) \<Rightarrow> string \<Rightarrow> Term \<Rightarrow> Term \<Rightarrow> Term option \<Rightarrow> Value list \<Rightarrow> (Value \<times> Value) list" where
  "comprehension_pairs I env binder key value condition vs =
     map (\<lambda>v. (meaning I (env(binder := v)) key, meaning I (env(binder := v)) value))
       (filter (selects I env binder condition) vs)"

lemma collect_entries_meaning:
  assumes "references_distinct I" "slices_settled key" "slices_settled value" "pred_option slices_settled condition"
  shows "collect_entries d binder key value condition vs entries = Ok (Some es) \<Longrightarrow> \<forall>v \<in> set vs. literal_value v \<Longrightarrow>
    \<forall>k \<in> fst ` set entries. constant_term k \<Longrightarrow>
    map (map_prod (meaning I env) (meaning I env)) es =
      put_entries (map (map_prod (meaning I env) (meaning I env)) entries)
        (comprehension_pairs I env binder key value condition (map (meaning I env) vs))"
proof (induction vs arbitrary: entries)
  case Nil
  then show ?case by (simp add: comprehension_pairs_def)
next
  case (Cons v vs)
  then have v: "literal_value v" and vs: "\<forall>v \<in> set vs. literal_value v" by simp_all
  from Cons.prems(1) show ?case
  proof (cases rule: collect_entries_step)
    case skipped
    with selection_keeps_meaning [OF assms(1) v assms(4)] Cons.IH [OF _ vs Cons.prems(3)] show ?thesis
      by (simp add: comprehension_pairs_def)
  next
    case (kept k k' w w')
    have k: "constant_term k \<and> meaning I env k = meaning I (env(binder := meaning I env v)) key"
      by (rule instance_keeps_meaning [OF assms(1) v assms(2) kept(2,3)])
    have w: "constant_term w \<and> meaning I env w = meaning I (env(binder := meaning I env v)) value"
      by (rule instance_keeps_meaning [OF assms(1) v assms(3) kept(4,5)])
    have keys: "\<forall>k \<in> insert k (fst ` set entries). constant_term k" using k Cons.prems(3) by blast
    have "map (map_prod (meaning I env) (meaning I env)) (put_entry k w entries) =
        put_entry (meaning I env k) (meaning I env w) (map (map_prod (meaning I env) (meaning I env)) entries)"
      by (rule map_put_entry) (rule constants_injective [OF assms(1) keys])
    moreover have "\<forall>k \<in> fst ` set (put_entry k w entries). constant_term k"
      using keys by (simp add: set_put_entry)
    moreover have "selects I env binder condition (meaning I env v)"
      using selection_keeps_meaning [OF assms(1) v assms(4) kept(1)] by simp
    ultimately show ?thesis using Cons.IH [OF kept(6) vs] k w by (simp add: comprehension_pairs_def del: fun_upd_apply)
  qed
qed
text \<open>
  Property C38. A list comprehension over literal values that the solver
  evaluates has the meaning of the comprehension: the mapped values of the selected elements, in
  order. The list it keeps for the set comprehension has each of these values exactly once.
\<close>

theorem comprehensions_over_literals:
  assumes "references_distinct I" and "slices_settled mapped" and "pred_option slices_settled condition"
    and "\<forall>v \<in> set vs. literal_value v"
    and "evaluate_concrete_sequence_comprehension d (Term.List s vs) binder mapped condition = Ok (Some cs)"
  shows "meaning I env (Term.List element_sort cs) =
      meaning I env (ListComprehension name (Term.List s vs) binder element_sort mapped condition) \<and>
    distinct (map (meaning I env) (unique_values cs)) \<and>
    set (map (meaning I env) (unique_values cs)) = set (map (meaning I env) cs)"
proof -
  from assms(5) have collected: "collect_mapped d binder mapped condition vs [] = Ok (Some cs)"
    by (simp add: evaluate_concrete_sequence_comprehension_def)
  obtain new where new: "cs = [] @ new" "\<forall>c \<in> set new. constant_term c" "map (meaning I env) new =
      map (\<lambda>v. meaning I (env(binder := v)) mapped) (filter (selects I env binder condition) (map (meaning I env) vs))"
    using collect_mapped_meaning [OF assms(1-3) collected assms(4), of env] by blast
  have "inj_on (meaning I env) (set cs)"
    by (rule constants_injective [OF assms(1)]) (use new in simp)
  then have "distinct (map (meaning I env) (unique_values cs))" by (simp add: distinct_map)
  moreover have "set (map (meaning I env) (unique_values cs)) = set (map (meaning I env) cs)" by simp
  moreover have "meaning I env (Term.List element_sort cs) =
      meaning I env (ListComprehension name (Term.List s vs) binder element_sort mapped condition)"
    using new by (simp add: selects_def [abs_def] del: fun_upd_apply)
  ultimately show ?thesis by blast
qed

theorem comprehensions_over_literals_witness:
  "meaning plain_interpretation (\<lambda>x. VUnit)
     (ListComprehension ''c'' (Term.List Sort.Int [Term.Int (- 1), Term.Int 3]) ''x'' Sort.Int
        (Multiply (Variable ''x'' Sort.Int) (Variable ''x'' Sort.Int))
        (Some (Less (Term.Int 0) (Variable ''x'' Sort.Int)))) = VList Sort.Int [VInt 9]"
proof -
  let ?x = "Variable ''x'' Sort.Int"
  have "evaluate_concrete_sequence_comprehension (\<lambda>t. []) (Term.List Sort.Int [Term.Int (- 1), Term.Int 3]) ''x''
      (Multiply ?x ?x) (Some (Less (Term.Int 0) ?x)) = Ok (Some [Term.Int 9])"
    by (simp add: evaluate_concrete_sequence_comprehension_def select_constant_def instantiate_both_def
        constant_arithmetic_def constant_comparison_def both_def constant_int_def constant_boolean_def narrow_i64_def)
  from comprehensions_over_literals [OF plain_references _ _ _ this, of "\<lambda>x. VUnit" Sort.Int "''c''"]
  show ?thesis by (simp add: literal_value_def)
qed

text \<open>
  A dictionary comprehension over literal values that the
  solver evaluates is Python's dictionary of the selected pairs: looking up a key gives the value of
  its last pair, and the keys stand once each, in the order of their first pairs.
\<close>

theorem dictionaries_over_literals:
  assumes "references_distinct I" and "slices_settled key" and "slices_settled value"
    and "pred_option slices_settled condition" and "\<forall>v \<in> set vs. literal_value v"
    and "evaluate_concrete_dict_comprehension d (Term.List s vs) binder key value condition = Ok (Some entries)"
  shows "map_of (map (map_prod (meaning I env) (meaning I env)) entries) =
      map_of (rev (comprehension_pairs I env binder key value condition (map (meaning I env) vs))) \<and>
    map (meaning I env) (map fst entries) =
      unique_values (map fst (comprehension_pairs I env binder key value condition (map (meaning I env) vs)))"
proof -
  let ?m = "meaning I env" and ?pairs = "comprehension_pairs I env binder key value condition (map (meaning I env) vs)"
  from assms(6) have "collect_entries d binder key value condition vs [] = Ok (Some entries)"
    by (simp add: evaluate_concrete_dict_comprehension_def)
  from collect_entries_meaning [OF assms(1-4) this assms(5), of env]
  have entries: "map (map_prod ?m ?m) entries = put_entries [] ?pairs" by simp
  have "map ?m (map fst entries) = map fst (map (map_prod ?m ?m) entries)" by (simp add: comp_def)
  also have "\<dots> = unique_values (map fst ?pairs)" unfolding entries by (simp add: keys_put_entries unique_values_def)
  finally show ?thesis unfolding entries by (simp add: map_of_put_entries)
qed

theorem dictionaries_over_literals_witness:
  "evaluate_concrete_dict_comprehension (\<lambda>t. [])
     (Term.List Sort.Int [Term.Int 1, Term.Int 2, Term.Int 1]) ''x'' (Variable ''x'' Sort.Int) (Term.Int 7) None =
     Ok (Some [(Term.Int 1, Term.Int 7), (Term.Int 2, Term.Int 7)]) \<and>
   map_of (rev (comprehension_pairs plain_interpretation (\<lambda>x. VUnit) ''x'' (Variable ''x'' Sort.Int) (Term.Int 7) None
     [VInt 1, VInt 2, VInt 1])) = [VInt 2 \<mapsto> VInt 7, VInt 1 \<mapsto> VInt 7]"
proof -
  let ?vs = "[Term.Int 1, Term.Int 2, Term.Int 1]"
  have evaluated: "evaluate_concrete_dict_comprehension (\<lambda>t. []) (Term.List Sort.Int ?vs) ''x'' (Variable ''x'' Sort.Int)
      (Term.Int 7) None = Ok (Some [(Term.Int 1, Term.Int 7), (Term.Int 2, Term.Int 7)])"
    by (simp add: evaluate_concrete_dict_comprehension_def select_constant_def)
  from dictionaries_over_literals [OF plain_references _ _ _ _ this, of "\<lambda>x. VUnit"]
  have "map_of (rev (comprehension_pairs plain_interpretation (\<lambda>x. VUnit) ''x'' (Variable ''x'' Sort.Int) (Term.Int 7) None
      [VInt 1, VInt 2, VInt 1])) = map_of [(VInt 1, VInt 7), (VInt 2, VInt 7)]"
    by (simp add: literal_value_def)
  with evaluated show ?thesis by simp
qed

section \<open>Slices of unevaluated elements\<close>

text \<open>
  Property C39. The solver slices a literal without evaluating its
  elements and then compares the two terms by their shape. The comprehension
  \<^verbatim>\<open>[x for x in [(1 + 1,)] if x[0:1] == x]\<close>, a well-sorted term, therefore evaluates to the empty
  list, although its meaning is the one-element list of the tuple of 2: the solver proves that its
  length is 0.
\<close>

definition unevaluated_slice_comprehension :: Term where
  "unevaluated_slice_comprehension =
     (let pair = Sort.VariadicTuple Sort.Int; x = Variable ''x'' pair
      in ListComprehension ''c''
           (Term.List pair [Term.VariadicTuple Sort.Int [Term.Add (Term.Int 1) (Term.Int 1)]]) ''x'' pair x
           (Some (Equal (VariadicTupleSlice x (Some 0) (Some 1) 1) x)))"

theorem slices_fold_before_their_elements:
  "\<exists>name source binder element_sort mapped condition.
     unevaluated_slice_comprehension = ListComprehension name source binder element_sort mapped (Some condition) \<and>
     sort_typed unevaluated_slice_comprehension = Ok (Sort.List element_sort) \<and>
     evaluate_concrete_sequence_comprehension d source binder mapped (Some condition) = Ok (Some []) \<and>
     meaning I env unevaluated_slice_comprehension = VList element_sort [VVariadic Sort.Int [VInt 2]]"
proof -
  let ?pair = "Sort.VariadicTuple Sort.Int" and ?t = "Term.VariadicTuple Sort.Int [Term.Add (Term.Int 1) (Term.Int 1)]"
  let ?x = "Variable ''x'' ?pair"
  let ?condition = "Equal (VariadicTupleSlice ?x (Some 0) (Some 1) 1) ?x"
  have slice: "select_slice [Term.Add (Term.Int 1) (Term.Int 1)] (Some 0) (Some 1) 1 =
      Some [Term.Add (Term.Int 1) (Term.Int 1)]"
    by (subst select_slice_python)
      (simp_all add: in_i128_def i128_max_def python_slice_def python_slice_indices_def python_bound_def)
  have "evaluate_concrete_sequence_comprehension d (Term.List ?pair [?t]) ''x'' ?x (Some ?condition) = Ok (Some [])"
    by (simp add: evaluate_concrete_sequence_comprehension_def select_constant_def instantiate_both_def
        concrete_static_variadic_tuple_slice_def slice constant_arithmetic_def both_def constant_int_def
        constant_boolean_def narrow_i64_def)
  moreover have "meaning I env unevaluated_slice_comprehension = VList ?pair [VVariadic Sort.Int [VInt 2]]"
    by (simp add: unevaluated_slice_comprehension_def Let_def python_slice_def python_slice_indices_def python_bound_def)
  moreover have "sort_typed unevaluated_slice_comprehension = Ok (Sort.List ?pair)"
    by (simp add: unevaluated_slice_comprehension_def Let_def sort_list_comprehension_def
        require_comprehension_body_def require_bound_term_sort_def sort_list_def sort_variadic_tuple_def
        sort_integer_operator_def sort_variable_def sort_equal_def sort_variadic_tuple_slice_def bound_variable_def
        bound_two_def require_sort_def require_all_sorts_def require_variadic_tuple_element_sorts_def
        is_variadic_tuple_element_sort.simps [of Sort.Int])
  ultimately show ?thesis by (auto simp: unevaluated_slice_comprehension_def Let_def)
qed

end
