(* ===== verification/Solver_Depth.thy ===== *)
theory Solver_Depth
  imports VC_Scope Solver_Folding
begin

text \<open>
  A depth of terms that justifies the recursion of the solver's lowering: lowering a slice of a
  literal or a comprehension over one continues with the evaluated term, which substitution can
  make larger but never deeper than the term it came from.
\<close>

definition greatest :: "nat list \<Rightarrow> nat" where
  "greatest ns = foldr max ns 0"

lemma greatest_simps [simp]:
  "greatest [] = 0" "greatest (n # ns) = max n (greatest ns)" "greatest (ms @ ns) = max (greatest ms) (greatest ns)"
  by (induction ms) (simp_all add: greatest_def)

lemma greatest_member: "n \<in> set ns \<Longrightarrow> n \<le> greatest ns"
  by (induction ns) auto

lemma greatest_le: "greatest ns \<le> m \<longleftrightarrow> (\<forall>n \<in> set ns. n \<le> m)"
  by (induction ns) auto

function term_depth :: "Term \<Rightarrow> nat" where
  "term_depth t = Suc (Suc (greatest (map term_depth (outer_terms t)) + sum_list (map term_depth (scoped_terms t))))"
  by pat_completeness auto
termination
  by (relation "measure size") (auto intro: size_child)

declare term_depth.simps [simp del]

lemma outer_depth: "u \<in> set (outer_terms t) \<Longrightarrow> term_depth u < term_depth t"
  using greatest_member [of "term_depth u" "map term_depth (outer_terms t)"]
  by (subst (2) term_depth.simps) (auto simp: less_Suc_eq_le intro: trans_le_add1 le_SucI)

lemma scoped_depth: "u \<in> set (scoped_terms t) \<Longrightarrow> term_depth u < term_depth t"
  using member_le_sum_list [of "term_depth u" "map term_depth (scoped_terms t)"]
  by (subst (2) term_depth.simps) (auto simp: less_Suc_eq_le intro: trans_le_add2 le_SucI)

lemma depth_leaves [simp]:
  "term_depth (Term.Bool b) = 2" "term_depth (Term.Int v) = 2" "term_depth (Term.String s) = 2"
  "term_depth (Term.Bytes bs) = 2" "term_depth NullReference = 2" "term_depth (NominalReference name cls) = 2"
  "term_depth (Variable name srt) = 2"
  by (subst term_depth.simps, simp add: scope_defs)+

lemma depth_unary [simp]:
  "term_depth (Term.Not v) = Suc (Suc (term_depth v))" "term_depth (Negate v) = Suc (Suc (term_depth v))"
  "term_depth (FloorDivideByPositive v d) = Suc (Suc (term_depth v))"
  "term_depth (ListSlice v low up step) = Suc (Suc (term_depth v))"
  "term_depth (VariadicTupleSlice v low up step) = Suc (Suc (term_depth v))"
  "term_depth (ListSum v) = Suc (Suc (term_depth v))" "term_depth (ListSorted v) = Suc (Suc (term_depth v))"
  "term_depth (VariadicTupleLength v) = Suc (Suc (term_depth v))"
  by (subst term_depth.simps, simp add: scope_defs)+

lemma depth_binary [simp]:
  "term_depth (Implies l r) = Suc (Suc (max (term_depth l) (term_depth r)))"
  "term_depth (Equal l r) = Suc (Suc (max (term_depth l) (term_depth r)))"
  "term_depth (Less l r) = Suc (Suc (max (term_depth l) (term_depth r)))"
  "term_depth (LessEqual l r) = Suc (Suc (max (term_depth l) (term_depth r)))"
  "term_depth (Greater l r) = Suc (Suc (max (term_depth l) (term_depth r)))"
  "term_depth (GreaterEqual l r) = Suc (Suc (max (term_depth l) (term_depth r)))"
  "term_depth (Term.Add l r) = Suc (Suc (max (term_depth l) (term_depth r)))"
  "term_depth (Subtract l r) = Suc (Suc (max (term_depth l) (term_depth r)))"
  "term_depth (Multiply l r) = Suc (Suc (max (term_depth l) (term_depth r)))"
  "term_depth (ListConcat l r) = Suc (Suc (max (term_depth l) (term_depth r)))"
  "term_depth (VariadicTupleGet l r) = Suc (Suc (max (term_depth l) (term_depth r)))"
  "term_depth (IfThenElse c l r) = Suc (Suc (max (term_depth c) (max (term_depth l) (term_depth r))))"
  by (subst term_depth.simps, simp add: scope_defs)+

lemma depth_lists [simp]:
  "term_depth (Term.And vs) = Suc (Suc (greatest (map term_depth vs)))"
  "term_depth (Term.Or vs) = Suc (Suc (greatest (map term_depth vs)))"
  "term_depth (Term.Tuple vs) = Suc (Suc (greatest (map term_depth vs)))"
  "term_depth (Term.VariadicTuple s vs) = Suc (Suc (greatest (map term_depth vs)))"
  "term_depth (Term.List s vs) = Suc (Suc (greatest (map term_depth vs)))"
  by (subst term_depth.simps, simp add: scope_defs)+

lemma depth_positive: "2 \<le> term_depth t"
  by (subst term_depth.simps) simp

text \<open>A selected slice has no new elements.\<close>

lemma collect_slice_subset: "collect_slice xs i stop step = Some ys \<Longrightarrow> set ys \<subseteq> set xs"
proof (induction xs i stop step arbitrary: ys rule: collect_slice.induct)
  case (1 xs i stop step)
  from 1(2) show ?case
    by (subst (asm) collect_slice.simps)
      (auto split: if_splits option.splits simp: not_le; use 1(1) in \<open>force simp: not_le\<close>)
qed

lemma select_slice_subset: "select_slice xs low up step = Some ys \<Longrightarrow> set ys \<subseteq> set xs"
  by (auto simp: select_slice_def dest: collect_slice_subset split: prod.splits)

lemma greatest_subset: "set ys \<subseteq> set xs \<Longrightarrow> greatest (map f ys) \<le> greatest (map f xs)"
  by (auto simp: greatest_le intro!: greatest_member)

lemma concrete_list_slice_depth:
  "concrete_static_list_slice source low up step = Some c \<Longrightarrow> term_depth c \<le> term_depth source"
  by (cases source)
    (auto simp: concrete_static_list_slice_def dest!: select_slice_subset greatest_subset split: if_splits)

lemma concrete_variadic_slice_depth:
  "concrete_static_variadic_tuple_slice source low up step = Some c \<Longrightarrow> term_depth c \<le> term_depth source"
  by (cases source)
    (auto simp: concrete_static_variadic_tuple_slice_def dest!: select_slice_subset greatest_subset split: if_splits)
section \<open>Evaluation and substitution\<close>

lemma evaluated_depths:
  assumes "list_all2 (\<lambda>v c. evaluate v = Some c) vs cs" "\<And>v c. v \<in> set vs \<Longrightarrow> evaluate v = Some c \<Longrightarrow> term_depth c \<le> term_depth v"
  shows "greatest (map term_depth cs) \<le> greatest (map term_depth vs)"
  using assms
proof (induction rule: list_all2_induct)
  case Nil
  then show ?case by simp
next
  case (Cons v vs c cs)
  have "term_depth c \<le> term_depth v" using Cons.hyps Cons.prems by simp
  with Cons show ?case by (simp add: max.coboundedI1 max.coboundedI2)
qed

lemma integers_depth: "greatest (map term_depth (map Term.Int is)) \<le> 2"
  by (simp add: greatest_le)

lemma evaluation_depth: "evaluate_constant_term t = Some c \<Longrightarrow> term_depth c \<le> term_depth t"
proof (induction t arbitrary: c rule: evaluate_constant_term.induct)
  case (10 condition l e)
  then obtain b where b: "constant_boolean (evaluate_constant_term condition) = Some b" by (auto split: option.splits)
  have "term_depth c \<le> max (term_depth l) (term_depth e)"
    using "10.IH"(2,3) [OF b] "10.prems" b by (cases b) (auto simp: max.coboundedI1 max.coboundedI2)
  then show ?case by simp
next
  case (21 source low up step)
  then show ?case using concrete_list_slice_depth [of source low up step c] by simp
next
  case (22 source low up step)
  then show ?case using concrete_variadic_slice_depth [of source low up step c] by simp
next
  case (23 left right)
  then obtain s ls rs where parts: "evaluate_constant_term left = Some (Term.List s ls)"
    "evaluate_constant_term right = Some (Term.List s rs)" and c: "c = Term.List s (ls @ rs)"
    by (auto simp: evaluates)
  from 23 parts show ?case by (fastforce simp: c)
next
  case (25 source)
  then obtain "is" where c: "c = Term.List Sort.Int (map Term.Int is)" by auto
  show ?case using integers_depth [of "is"] depth_positive [of source] by (simp add: c)
next
  case (26 vs)
  then obtain cs where "list_all2 (\<lambda>v c. evaluate_constant_term v = Some c) vs cs" and "c = Term.Tuple cs"
    by (auto simp: evaluates)
  with evaluated_depths [of evaluate_constant_term vs cs] 26 show ?case by simp
next
  case (27 s vs)
  then obtain cs where "list_all2 (\<lambda>v c. evaluate_constant_term v = Some c) vs cs" and "c = Term.VariadicTuple s cs"
    by (auto simp: evaluates)
  with evaluated_depths [of evaluate_constant_term vs cs] 27 show ?case by simp
next
  case (29 tuple index)
  then obtain s vs i where tuple: "evaluate_constant_term tuple = Some (Term.VariadicTuple s vs)"
    and i: "nat i < length vs" and c: "c = vs ! nat i"
    by (auto simp: evaluates)
  have "term_depth c \<le> greatest (map term_depth vs)" using i by (auto simp: c intro!: greatest_member)
  moreover have "term_depth (Term.VariadicTuple s vs) \<le> term_depth tuple" using 29 tuple by blast
  ultimately show ?case by simp
qed (auto simp: evaluation_simps depth_positive max.coboundedI1 max.coboundedI2 split: option.splits if_splits)
lemma greatest_all2:
  assumes "list_all2 (\<lambda>v c. term_depth c \<le> term_depth v + d) vs cs"
  shows "greatest (map term_depth cs) \<le> greatest (map term_depth vs) + d"
  using assms
proof (induction rule: list_all2_induct)
  case Nil
  then show ?case by simp
next
  case (Cons v vs c cs)
  then show ?case by (auto simp: max_def)
qed

lemma instantiation_depth:
  "instantiate_comprehension_term d x r t = Ok t' \<Longrightarrow> term_depth t' \<le> term_depth t + term_depth r"
proof (induction d x r t arbitrary: t' rule: instantiate_comprehension_term.induct)
  case (13 d x r vs)
  then obtain cs where cs: "list_all2 (\<lambda>v c. instantiate_comprehension_term d x r v = Ok c) vs cs"
    and t': "t' = Term.And cs" by (auto simp: collect_while_ok_eq_Inr)
  have "list_all2 (\<lambda>v c. term_depth c \<le> term_depth v + term_depth r) vs cs"
    by (rule list.rel_mono_strong [OF cs]) (use 13 in blast)
  then show ?case using greatest_all2 by (simp add: t')
next
  case (14 d x r vs)
  then obtain cs where cs: "list_all2 (\<lambda>v c. instantiate_comprehension_term d x r v = Ok c) vs cs"
    and t': "t' = Term.Or cs" by (auto simp: collect_while_ok_eq_Inr)
  have "list_all2 (\<lambda>v c. term_depth c \<le> term_depth v + term_depth r) vs cs"
    by (rule list.rel_mono_strong [OF cs]) (use 14 in blast)
  then show ?case using greatest_all2 by (simp add: t')
next
  case (15 d x r c l e)
  then obtain c' l' e' where parts: "instantiate_comprehension_term d x r c = Ok c'"
    "instantiate_comprehension_term d x r l = Ok l'" "instantiate_comprehension_term d x r e = Ok e'"
    and t': "t' = IfThenElse c' l' e'" by auto
  from 15 parts have "term_depth c' \<le> term_depth c + term_depth r" "term_depth l' \<le> term_depth l + term_depth r"
    "term_depth e' \<le> term_depth e + term_depth r" by blast+
  then show ?case by (simp add: t' max_def)
qed (fastforce simp: max_def split: if_splits)+

lemma instance_depth:
  assumes "instantiate_comprehension_term d x v t = Ok t'" "evaluate_constant_term t' = Some c" "v \<in> set vs"
  shows "term_depth c \<le> term_depth t + greatest (map term_depth vs)"
  using instantiation_depth [OF assms(1)] evaluation_depth [OF assms(2)]
    greatest_member [of "term_depth v" "map term_depth vs"] assms(3) by simp

lemma collect_mapped_depth:
  "collect_mapped d x mapped condition us result = Ok (Some cs) \<Longrightarrow> set us \<subseteq> set vs \<Longrightarrow>
     \<forall>c \<in> set result. term_depth c \<le> term_depth mapped + greatest (map term_depth vs) \<Longrightarrow>
     \<forall>c \<in> set cs. term_depth c \<le> term_depth mapped + greatest (map term_depth vs)"
proof (induction us arbitrary: result)
  case Nil
  then show ?case by simp
next
  case (Cons u us)
  from Cons.prems(1) show ?case
  proof (cases rule: collect_mapped_step)
    case skipped
    show ?thesis by (rule Cons.IH [OF skipped(2) _ Cons.prems(3)]) (use Cons.prems(2) in simp)
  next
    case (kept t c)
    have "term_depth c \<le> term_depth mapped + greatest (map term_depth vs)"
      using instance_depth [OF kept(2,3)] Cons.prems(2) by simp
    with Cons.IH [OF kept(4)] Cons.prems(2,3) show ?thesis by simp
  qed
qed

lemma sequence_comprehension_depth:
  assumes "evaluate_concrete_sequence_comprehension d source x mapped condition = Ok (Some cs)"
  shows "term_depth (Term.List s cs) \<le> term_depth source + term_depth mapped"
proof -
  from assms obtain s' vs where source: "source = Term.List s' vs"
    by (cases source) (simp_all add: evaluate_concrete_sequence_comprehension_def)
  with assms have "collect_mapped d x mapped condition vs [] = Ok (Some cs)"
    by (simp add: evaluate_concrete_sequence_comprehension_def)
  from collect_mapped_depth [OF this order.refl] show ?thesis by (simp add: source greatest_le add.commute)
qed

lemma unique_values_depth: "term_depth (Term.List s (unique_values cs)) \<le> term_depth (Term.List s cs)"
  using greatest_subset [of "unique_values cs" cs term_depth] by simp

definition entry_depth :: "Term \<times> Term \<Rightarrow> nat" where
  "entry_depth entry = max (term_depth (fst entry)) (term_depth (snd entry))"

lemma put_entry_members: "set (put_entry k v entries) \<subseteq> insert (k, v) (set entries) \<union> {(k', v) | k'. k' = k}"
  by (induction k v entries rule: put_entry.induct) auto

lemma collect_entries_depth:
  "collect_entries d x key value condition us entries = Ok (Some es) \<Longrightarrow> set us \<subseteq> set vs \<Longrightarrow>
     \<forall>e \<in> set entries. entry_depth e \<le> max (term_depth key) (term_depth value) + greatest (map term_depth vs) \<Longrightarrow>
     \<forall>e \<in> set es. entry_depth e \<le> max (term_depth key) (term_depth value) + greatest (map term_depth vs)"
proof (induction us arbitrary: entries)
  case Nil
  then show ?case by simp
next
  case (Cons u us)
  let ?bound = "max (term_depth key) (term_depth value) + greatest (map term_depth vs)"
  from Cons.prems(1) show ?case
  proof (cases rule: collect_entries_step)
    case skipped
    show ?thesis by (rule Cons.IH [OF skipped(2) _ Cons.prems(3)]) (use Cons.prems(2) in simp)
  next
    case (kept k k' w w')
    from Cons.prems(2) have u: "u \<in> set vs" by simp
    have "entry_depth (k, w) \<le> ?bound"
      using instance_depth [OF kept(2,3) u] instance_depth [OF kept(4,5) u] by (auto simp: entry_depth_def)
    with Cons.prems(3) put_entry_members [of k w entries]
    have "\<forall>e \<in> set (put_entry k w entries). entry_depth e \<le> ?bound" by blast
    from Cons.IH [OF kept(6) _ this] Cons.prems(2) show ?thesis by simp
  qed
qed

lemma dict_comprehension_depth:
  assumes "evaluate_concrete_dict_comprehension d source x key value condition = Ok (Some es)" "(k, v) \<in> set es"
  shows "term_depth k < term_depth source + max (term_depth key) (term_depth value)"
    "term_depth v < term_depth source + max (term_depth key) (term_depth value)"
proof -
  from assms(1) obtain s' vs where source: "source = Term.List s' vs"
    by (cases source) (simp_all add: evaluate_concrete_dict_comprehension_def)
  with assms(1) have "collect_entries d x key value condition vs [] = Ok (Some es)"
    by (simp add: evaluate_concrete_dict_comprehension_def)
  from collect_entries_depth [OF this order.refl] assms(2)
  have "entry_depth (k, v) \<le> max (term_depth key) (term_depth value) + greatest (map term_depth vs)" by simp
  then show "term_depth k < term_depth source + max (term_depth key) (term_depth value)"
    "term_depth v < term_depth source + max (term_depth key) (term_depth value)"
    by (simp_all add: source entry_depth_def)
qed


lemma comprehension_depths:
  "term_depth source + term_depth mapped < term_depth (ListComprehension name source binder s mapped condition)"
  "term_depth source + term_depth mapped < term_depth (SetComprehension name source binder s mapped condition)"
  "term_depth source + max (term_depth key) (term_depth value) <
     term_depth (DictComprehension name source binder s s' key value condition)"
  by (simp_all add: term_depth.simps [of "ListComprehension name source binder s mapped condition"]
      term_depth.simps [of "SetComprehension name source binder s mapped condition"]
      term_depth.simps [of "DictComprehension name source binder s s' key value condition"] scope_defs)

lemma outer_child_depths:
  "term_depth value < term_depth (IntEnumValue descriptor value)"
  "term_depth value < term_depth (IntEnumProjection value)"
  "term_depth value < term_depth (IntEnumDomain value)"
  "term_depth left < term_depth (IntEnumIdentity left right)"
  "term_depth right < term_depth (IntEnumIdentity left right)"
  "term_depth value < term_depth (RuntimeClass value)"
  "term_depth left < term_depth (ClassSubtype left right)"
  "term_depth right < term_depth (ClassSubtype left right)"
  "term_depth receiver < term_depth (FieldRead heap receiver field s)"
  "term_depth receiver < term_depth (PermissionAtLeast m receiver field n d)"
  "term_depth receiver < term_depth (PermissionAtMost m receiver field n d)"
  "term_depth receiver < term_depth (PermissionPositive m receiver field)"
  "term_depth value < term_depth (StringLength value)"
  "term_depth value < term_depth (StringSlice value start len)"
  "term_depth start < term_depth (StringSlice value start len)"
  "term_depth len < term_depth (StringSlice value start len)"
  "term_depth value < term_depth (BytesLength value)"
  "term_depth left < term_depth (BytesGet left right)"
  "term_depth right < term_depth (BytesGet left right)"
  "term_depth value < term_depth (TupleGet value index)"
  "term_depth value < term_depth (ListLength value)"
  "term_depth left < term_depth (ListGet left right)"
  "term_depth right < term_depth (ListGet left right)"
  "term_depth left < term_depth (ListContains left right)"
  "term_depth right < term_depth (ListContains left right)"
  "term_depth value < term_depth (SetLength value)"
  "term_depth left < term_depth (SetContains left right)"
  "term_depth right < term_depth (SetContains left right)"
  "term_depth value < term_depth (DictLength value)"
  "term_depth left < term_depth (DictContains left right)"
  "term_depth right < term_depth (DictContains left right)"
  "term_depth left < term_depth (DictGet left right)"
  "term_depth right < term_depth (DictGet left right)"
  by (rule outer_depth, simp add: scope_defs)+

lemma member_depths:
  "value \<in> set values \<Longrightarrow> term_depth value < term_depth (Term.And values)"
  "value \<in> set values \<Longrightarrow> term_depth value < term_depth (Term.Or values)"
  "value \<in> set values \<Longrightarrow> term_depth value < term_depth (StringConcat values)"
  "value \<in> set values \<Longrightarrow> term_depth value < term_depth (BytesConcat values)"
  "value \<in> set values \<Longrightarrow> term_depth value < term_depth (Term.Tuple values)"
  "value \<in> set values \<Longrightarrow> term_depth value < term_depth (Term.VariadicTuple s values)"
  "value \<in> set values \<Longrightarrow> term_depth value < term_depth (Term.List s values)"
  "value \<in> set values \<Longrightarrow> term_depth value < term_depth (PredicateInstance name values)"
  "amount \<in> set consumed \<Longrightarrow>
     term_depth (transfer_receiver amount) < term_depth (PermissionMaskTransition m m' field consumed produced)"
  "amount \<in> set produced \<Longrightarrow>
     term_depth (transfer_receiver amount) < term_depth (PermissionMaskTransition m m' field consumed produced)"
  "(left, right) \<in> set entries \<Longrightarrow> term_depth left < term_depth (Term.FiniteDict k v entries)"
  "(left, right) \<in> set entries \<Longrightarrow> term_depth right < term_depth (Term.FiniteDict k v entries)"
  by (rule outer_depth, force simp add: scope_defs)+

lemma body_depth: "term_depth body < term_depth (ForAll binder s body)"
  by (rule scoped_depth) (simp add: scope_defs)

end
