(* ===== verification/Solver_Z3.thy ===== *)
theory Solver_Z3
  imports VC_Display
begin

text \<open>
  The interface of the solver to its libraries and the terms it lowers to (\<^verbatim>\<open>src/src/solver.rs\<close>).
  The Z3 binding, the JSON encoding with its hash and the derived \<open>Debug\<close> rendering of terms are
  operations of the record \<open>Library\<close>, a parameter of every definition that calls them. All abstract
  syntax trees of Z3 have the one type \<open>'ast\<close>, which the binding wraps per sort; \<open>'sort\<close> are its sorts.
  The thread-local caches of tuple and dictionary encodings only memoise the datatype declared for
  a name, so an encoding is a function of its element sorts here.
\<close>

section \<open>Library operations\<close>

text \<open>What the solver fingerprints: the tuples it serialises, one constructor per shape.\<close>

datatype (plugins only: size) Fingerprint =
    SliceFingerprint Term "int option" "int option" int
  | TermFingerprint Term
  | SequenceComprehensionFingerprint string Term string Sort Term "Term option"
  | DictComprehensionFingerprint string Term string Sort Sort Term Term "Term option"
  | DictVariableFingerprint string Sort Sort
  | FiniteDictFingerprint Sort Sort "(Term \<times> Term) list"
  | TupleSortFingerprint "Sort list"
  | DictionarySortFingerprint Sort Sort

record ('ast, 'sort) DatatypeSort =
  datatype_sort :: 'sort
  datatype_constructor :: "'ast list \<Rightarrow> 'ast"
  datatype_accessors :: "('ast \<Rightarrow> 'ast) list"

record ('ast, 'sort) Library =
  encode_digest :: "Fingerprint \<Rightarrow> (string, string) result"
  debug_term :: "Term \<Rightarrow> string"
  sort_bool :: 'sort
  sort_int :: 'sort
  sort_real :: 'sort
  sort_string :: 'sort
  sort_uninterpreted :: "string \<Rightarrow> 'sort"
  sort_seq :: "'sort \<Rightarrow> 'sort"
  sort_array :: "'sort \<Rightarrow> 'sort \<Rightarrow> 'sort"
  datatype_finish :: "string \<Rightarrow> string \<Rightarrow> (string \<times> 'sort) list \<Rightarrow> ('ast, 'sort) DatatypeSort"
  new_const :: "string \<Rightarrow> 'sort \<Rightarrow> 'ast"
  apply_decl :: "string \<Rightarrow> 'sort list \<Rightarrow> 'sort \<Rightarrow> 'ast list \<Rightarrow> 'ast"
  rec_apply :: "string \<Rightarrow> 'sort list \<Rightarrow> 'sort \<Rightarrow> 'ast list \<Rightarrow> 'ast"
  from_bool :: "bool \<Rightarrow> 'ast"
  from_i64 :: "int \<Rightarrow> 'ast"
  from_u64 :: "int \<Rightarrow> 'ast"
  int_from_str :: "string \<Rightarrow> 'ast option"
  string_from_str :: "string \<Rightarrow> (string, 'ast) result"
  from_rational :: "int \<Rightarrow> int \<Rightarrow> 'ast"
  mk_not :: "'ast \<Rightarrow> 'ast"
  mk_and :: "'ast list \<Rightarrow> 'ast"
  mk_or :: "'ast list \<Rightarrow> 'ast"
  mk_implies :: "'ast \<Rightarrow> 'ast \<Rightarrow> 'ast"
  mk_ite :: "'ast \<Rightarrow> 'ast \<Rightarrow> 'ast \<Rightarrow> 'ast"
  mk_eq :: "'ast \<Rightarrow> 'ast \<Rightarrow> 'ast"
  mk_lt :: "'ast \<Rightarrow> 'ast \<Rightarrow> 'ast"
  mk_le :: "'ast \<Rightarrow> 'ast \<Rightarrow> 'ast"
  mk_gt :: "'ast \<Rightarrow> 'ast \<Rightarrow> 'ast"
  mk_ge :: "'ast \<Rightarrow> 'ast \<Rightarrow> 'ast"
  mk_add :: "'ast \<Rightarrow> 'ast \<Rightarrow> 'ast"
  mk_sub :: "'ast \<Rightarrow> 'ast \<Rightarrow> 'ast"
  mk_mul :: "'ast \<Rightarrow> 'ast \<Rightarrow> 'ast"
  mk_div :: "'ast \<Rightarrow> 'ast \<Rightarrow> 'ast"
  mk_neg :: "'ast \<Rightarrow> 'ast"
  mk_forall :: "'ast list \<Rightarrow> 'ast \<Rightarrow> 'ast"
  string_concat :: "'ast list \<Rightarrow> 'ast"
  string_length :: "'ast \<Rightarrow> 'ast"
  string_substr :: "'ast \<Rightarrow> 'ast \<Rightarrow> 'ast \<Rightarrow> 'ast"
  seq_empty :: "'sort \<Rightarrow> 'ast"
  seq_unit :: "'ast \<Rightarrow> 'ast"
  seq_concat :: "'ast list \<Rightarrow> 'ast"
  seq_length :: "'ast \<Rightarrow> 'ast"
  seq_nth :: "'ast \<Rightarrow> 'ast \<Rightarrow> 'ast"
  seq_contains :: "'ast \<Rightarrow> 'ast \<Rightarrow> 'ast"
  array_store :: "'ast \<Rightarrow> 'ast \<Rightarrow> 'ast \<Rightarrow> 'ast"
  array_select :: "'ast \<Rightarrow> 'ast \<Rightarrow> 'ast"
  dynamic_as_bool :: "'ast \<Rightarrow> 'ast option"
  dynamic_as_int :: "'ast \<Rightarrow> 'ast option"
  dynamic_as_real :: "'ast \<Rightarrow> 'ast option"
  dynamic_as_string :: "'ast \<Rightarrow> 'ast option"
  dynamic_as_seq :: "'ast \<Rightarrow> 'ast option"
  dynamic_as_array :: "'ast \<Rightarrow> 'ast option"

text \<open>The decimal text of a signed integer, which the binding parses.\<close>

definition signed_decimal :: "int \<Rightarrow> string" where
  "signed_decimal i = (if i < 0 then CHR ''-'' # decimal (nat (- i)) else decimal (nat i))"

text \<open>\<open>ok_or_else\<close> on an option.\<close>

definition ok_or :: "'e \<Rightarrow> 'a option \<Rightarrow> ('e, 'a) result" where
  "ok_or e r = (case r of None \<Rightarrow> Err e | Some v \<Rightarrow> Ok v)"

definition structural_symbol :: "('ast, 'sort) Library \<Rightarrow> string \<Rightarrow> Fingerprint \<Rightarrow> (string, string) result" where
  "structural_symbol L prefix value =
     (case encode_digest L value of
        Err e \<Rightarrow> Err (''cannot fingerprint '' @ prefix @ '': '' @ e)
      | Ok digest \<Rightarrow> Ok (prefix @ ''::'' @ digest))"

section \<open>Lowered terms\<close>

datatype 'ast Z3Term =
    Bool 'ast
  | Int 'ast
  | Float 'ast
  | String 'ast
  | Unit
  | Reference 'ast
  | Class 'ast
  | Bytes 'ast
  | Range 'ast
  | Tuple "'ast Z3Term list"
  | VariadicTuple 'ast Sort
  | List 'ast Sort
  | Set 'ast Sort
  | Dict 'ast 'ast Sort Sort

fun z3_term_kind :: "'ast Z3Term \<Rightarrow> string" where
  "z3_term_kind (Z3Term.Bool _) = ''Bool''"
| "z3_term_kind (Z3Term.Int _) = ''Int''"
| "z3_term_kind (Z3Term.Float _) = ''Float''"
| "z3_term_kind (Z3Term.String _) = ''String''"
| "z3_term_kind Z3Term.Unit = ''Unit''"
| "z3_term_kind (Z3Term.Reference _) = ''Reference''"
| "z3_term_kind (Z3Term.Class _) = ''Class''"
| "z3_term_kind (Z3Term.Bytes _) = ''Bytes''"
| "z3_term_kind (Z3Term.Range _) = ''Range''"
| "z3_term_kind (Z3Term.Tuple _) = ''Tuple''"
| "z3_term_kind (Z3Term.VariadicTuple _ _) = ''VariadicTuple''"
| "z3_term_kind (Z3Term.List _ _) = ''List''"
| "z3_term_kind (Z3Term.Set _ _) = ''Set''"
| "z3_term_kind (Z3Term.Dict _ _ _ _) = ''Dict''"

text \<open>The word an unexpected term is reported with.\<close>

fun found_kind :: "'ast Z3Term \<Rightarrow> string" where
  "found_kind (Z3Term.Bool _) = ''boolean''"
| "found_kind (Z3Term.Int _) = ''integer''"
| "found_kind (Z3Term.Float _) = ''float''"
| "found_kind (Z3Term.String _) = ''string''"
| "found_kind Z3Term.Unit = ''unit''"
| "found_kind (Z3Term.Reference _) = ''reference''"
| "found_kind (Z3Term.Class _) = ''class object''"
| "found_kind (Z3Term.Bytes _) = ''bytes''"
| "found_kind (Z3Term.Range _) = ''range''"
| "found_kind (Z3Term.Tuple _) = ''tuple''"
| "found_kind (Z3Term.VariadicTuple _ _) = ''variadic tuple''"
| "found_kind (Z3Term.List _ _) = ''list''"
| "found_kind (Z3Term.Set _ _) = ''set''"
| "found_kind (Z3Term.Dict _ _ _ _) = ''dictionary''"

definition as_bool :: "'ast Z3Term \<Rightarrow> (string, 'ast) result" where
  "as_bool t = (case t of Z3Term.Bool v \<Rightarrow> Ok v | _ \<Rightarrow> Err (''expected boolean term, found '' @ found_kind t))"

definition as_int :: "'ast Z3Term \<Rightarrow> (string, 'ast) result" where
  "as_int t = (case t of Z3Term.Int v \<Rightarrow> Ok v | _ \<Rightarrow> Err (''expected integer term, found '' @ found_kind t))"

definition as_reference :: "'ast Z3Term \<Rightarrow> (string, 'ast) result" where
  "as_reference t =
     (case t of Z3Term.Reference v \<Rightarrow> Ok v | _ \<Rightarrow> Err (''expected reference term, found '' @ found_kind t))"

definition as_class :: "'ast Z3Term \<Rightarrow> (string, 'ast) result" where
  "as_class t = (case t of Z3Term.Class v \<Rightarrow> Ok v | _ \<Rightarrow> Err (''expected class object, found '' @ found_kind t))"

definition as_string :: "'ast Z3Term \<Rightarrow> (string, 'ast) result" where
  "as_string t = (case t of Z3Term.String v \<Rightarrow> Ok v | _ \<Rightarrow> Err (''expected string term, found '' @ found_kind t))"

definition as_bytes :: "'ast Z3Term \<Rightarrow> (string, 'ast) result" where
  "as_bytes t = (case t of Z3Term.Bytes v \<Rightarrow> Ok v | _ \<Rightarrow> Err (''expected bytes term, found '' @ found_kind t))"
section \<open>Sorts\<close>

text \<open>The recursions over pairs of lists go to smaller terms and sorts.\<close>

lemma zip_left_size [termination_simp]: "(a, b) \<in> set (zip xs ys) \<Longrightarrow> size a < Suc (size_list size xs)"
  by (auto dest!: set_zip_leftD simp: less_Suc_eq_le size_list_estimation')

lemma zip_right_size [termination_simp]: "(a, b) \<in> set (zip xs ys) \<Longrightarrow> size b < Suc (size_list size ys)"
  by (auto dest!: set_zip_rightD simp: less_Suc_eq_le size_list_estimation')

lemma enumerate_size [termination_simp]: "(i, b) \<in> set (List.enumerate n ys) \<Longrightarrow> size b < Suc (size_list size ys)"
  by (auto simp: enumerate_eq_zip dest!: set_zip_rightD simp: less_Suc_eq_le size_list_estimation')

definition reference_sort :: "('ast, 'sort) Library \<Rightarrow> 'sort" where
  "reference_sort L = sort_uninterpreted L ''MaledictusReference''"

definition class_sort :: "('ast, 'sort) Library \<Rightarrow> 'sort" where
  "class_sort L = sort_string L"

definition float_sort :: "('ast, 'sort) Library \<Rightarrow> 'sort" where
  "float_sort L = sort_uninterpreted L ''MaledictusPythonFloat''"

definition tuple_encoding_name :: "('ast, 'sort) Library \<Rightarrow> Sort list \<Rightarrow> (string, string) result" where
  "tuple_encoding_name L elements = structural_symbol L ''maledictus-tuple-sort'' (TupleSortFingerprint elements)"

definition dictionary_encoding_name :: "('ast, 'sort) Library \<Rightarrow> Sort \<Rightarrow> Sort \<Rightarrow> (string, string) result" where
  "dictionary_encoding_name L key value =
     structural_symbol L ''maledictus-dictionary-sort'' (DictionarySortFingerprint key value)"

definition field_names :: "nat \<Rightarrow> string list" where
  "field_names n = map (\<lambda>index. ''field-'' @ decimal index) [0..<n]"

function z3_sort :: "('ast, 'sort) Library \<Rightarrow> Sort \<Rightarrow> (string, 'sort) result"
  and ensure_tuple_encoding :: "('ast, 'sort) Library \<Rightarrow> Sort list \<Rightarrow> (string, ('ast, 'sort) DatatypeSort) result"
  and ensure_dictionary_encoding ::
    "('ast, 'sort) Library \<Rightarrow> Sort \<Rightarrow> Sort \<Rightarrow> (string, ('ast, 'sort) DatatypeSort) result" where
  "z3_sort L Sort.Bool = Ok (sort_bool L)"
| "z3_sort L Sort.Int = Ok (sort_int L)"
| "z3_sort L Sort.Float = Ok (float_sort L)"
| "z3_sort L Sort.String = Ok (sort_string L)"
| "z3_sort L Sort.Reference = Ok (reference_sort L)"
| "z3_sort L Sort.Class = Ok (class_sort L)"
| "z3_sort L Sort.Bytes = Ok (sort_seq L (sort_int L))"
| "z3_sort L Sort.Range = Ok (sort_seq L (sort_int L))"
| "z3_sort L Sort.Unit = Err ''Unit has no heap-field Z3 sort''"
| "z3_sort L (Sort.Tuple elements) =
     res_bind (ensure_tuple_encoding L elements) (\<lambda>encoding. Ok (datatype_sort encoding))"
| "z3_sort L (Sort.VariadicTuple element) = res_bind (z3_sort L element) (\<lambda>s. Ok (sort_seq L s))"
| "z3_sort L (Sort.List element) = res_bind (z3_sort L element) (\<lambda>s. Ok (sort_seq L s))"
| "z3_sort L (Sort.Set element) = res_bind (z3_sort L element) (\<lambda>s. Ok (sort_seq L s))"
| "z3_sort L (Sort.Dict key value) =
     res_bind (ensure_dictionary_encoding L key value) (\<lambda>encoding. Ok (datatype_sort encoding))"
| "z3_sort L (Sort.FiniteDict key value) =
     res_bind (ensure_dictionary_encoding L key value) (\<lambda>encoding. Ok (datatype_sort encoding))"
| "z3_sort L (Sort.DictKeys key) = Err ''dictionary-key views have no nested Z3 representation''"
| "ensure_tuple_encoding L elements =
     res_bind (tuple_encoding_name L elements) (\<lambda>name.
     res_bind (collect_while_ok (z3_sort L) elements) (\<lambda>field_sorts.
     Ok (datatype_finish L name ''tuple'' (zip (field_names (length elements)) field_sorts))))"
| "ensure_dictionary_encoding L key value =
     res_bind (dictionary_encoding_name L key value) (\<lambda>name.
     res_bind (z3_sort L key) (\<lambda>key_sort.
     res_bind (z3_sort L value) (\<lambda>value_sort.
     Ok (datatype_finish L name ''dictionary''
       [(''keys'', sort_seq L key_sort), (''values'', sort_array L key_sort value_sort)]))))"
  by pat_completeness auto
termination
  by (relation "measure (case_sum (\<lambda>(L, s). 2 * size s)
      (case_sum (\<lambda>(L, es). 2 * size_list size es + 1) (\<lambda>(L, k, v). 2 * (size k + size v) + 1)))")
    (auto simp: less_Suc_eq_le size_list_estimation')

text \<open>Constants of the sorts the binding has constructors for.\<close>

definition bool_const :: "('ast, 'sort) Library \<Rightarrow> string \<Rightarrow> 'ast" where
  "bool_const L name = new_const L name (sort_bool L)"

definition int_const :: "('ast, 'sort) Library \<Rightarrow> string \<Rightarrow> 'ast" where
  "int_const L name = new_const L name (sort_int L)"

definition string_const :: "('ast, 'sort) Library \<Rightarrow> string \<Rightarrow> 'ast" where
  "string_const L name = new_const L name (sort_string L)"

definition seq_const :: "('ast, 'sort) Library \<Rightarrow> string \<Rightarrow> 'sort \<Rightarrow> 'ast" where
  "seq_const L name element = new_const L name (sort_seq L element)"

definition array_const :: "('ast, 'sort) Library \<Rightarrow> string \<Rightarrow> 'sort \<Rightarrow> 'sort \<Rightarrow> 'ast" where
  "array_const L name key value = new_const L name (sort_array L key value)"

fun is_z3_collection_key_sort :: "Sort \<Rightarrow> bool" where
  "is_z3_collection_key_sort Sort.Bool = True"
| "is_z3_collection_key_sort Sort.Int = True"
| "is_z3_collection_key_sort Sort.String = True"
| "is_z3_collection_key_sort Sort.Bytes = True"
| "is_z3_collection_key_sort (Sort.Tuple elements) = loop_while_true is_z3_collection_key_sort elements"
| "is_z3_collection_key_sort (Sort.VariadicTuple element) = is_z3_collection_key_sort element"
| "is_z3_collection_key_sort _ = False"

fun is_z3_collection_value_sort :: "Sort \<Rightarrow> bool" where
  "is_z3_collection_value_sort Sort.Bool = True"
| "is_z3_collection_value_sort Sort.Int = True"
| "is_z3_collection_value_sort Sort.Float = True"
| "is_z3_collection_value_sort Sort.String = True"
| "is_z3_collection_value_sort Sort.Reference = True"
| "is_z3_collection_value_sort Sort.Bytes = True"
| "is_z3_collection_value_sort (Sort.Tuple elements) = loop_while_true is_z3_collection_value_sort elements"
| "is_z3_collection_value_sort (Sort.VariadicTuple element) = is_z3_collection_value_sort element"
| "is_z3_collection_value_sort (Sort.List element) = is_z3_collection_value_sort element"
| "is_z3_collection_value_sort (Sort.Set element) = is_z3_collection_key_sort element"
| "is_z3_collection_value_sort (Sort.Dict key value) = (is_z3_collection_key_sort key \<and> is_z3_collection_value_sort value)"
| "is_z3_collection_value_sort (Sort.FiniteDict key value) =
     (is_z3_collection_key_sort key \<and> is_z3_collection_value_sort value)"
| "is_z3_collection_value_sort _ = False"

fun is_z3_nested_equality_sort :: "Sort \<Rightarrow> bool" where
  "is_z3_nested_equality_sort Sort.Bool = True"
| "is_z3_nested_equality_sort Sort.Int = True"
| "is_z3_nested_equality_sort Sort.String = True"
| "is_z3_nested_equality_sort Sort.Reference = True"
| "is_z3_nested_equality_sort Sort.Class = True"
| "is_z3_nested_equality_sort Sort.Bytes = True"
| "is_z3_nested_equality_sort (Sort.Tuple elements) = loop_while_true is_z3_nested_equality_sort elements"
| "is_z3_nested_equality_sort (Sort.VariadicTuple element) = is_z3_nested_equality_sort element"
| "is_z3_nested_equality_sort (Sort.List element) = is_z3_nested_equality_sort element"
| "is_z3_nested_equality_sort _ = False"

section \<open>Between lowered terms and elements of Z3 collections\<close>

text \<open>The units of a sequence, joined: no concatenation for fewer than two.\<close>

definition join_units :: "('ast, 'sort) Library \<Rightarrow> 'sort \<Rightarrow> 'ast list \<Rightarrow> 'ast" where
  "join_units L element_sort units =
     (case units of [] \<Rightarrow> seq_empty L element_sort | [only] \<Rightarrow> only | many \<Rightarrow> seq_concat L many)"

definition integer_sequence :: "('ast, 'sort) Library \<Rightarrow> int list \<Rightarrow> 'ast" where
  "integer_sequence L values = join_units L (sort_int L) (map (\<lambda>v. seq_unit L (from_i64 L v)) values)"

definition element_mismatch :: "Sort \<Rightarrow> (string, 'ast) result" where
  "element_mismatch expected =
     Err (''collection element did not lower to its declared sort '' @ debug_sort expected)"

definition into_dictionary ::
  "('ast, 'sort) Library \<Rightarrow> 'ast Z3Term \<Rightarrow> Sort \<Rightarrow> Sort \<Rightarrow> Sort \<Rightarrow> (string, 'ast) result" where
  "into_dictionary L term expected expected_key expected_value =
     (case term of
        Z3Term.Dict keys vals key_sort value_sort \<Rightarrow>
          if key_sort = expected_key \<and> value_sort = expected_value
          then res_bind (ensure_dictionary_encoding L expected_key expected_value) (\<lambda>encoding.
                 Ok (datatype_constructor encoding [keys, vals]))
          else element_mismatch expected
      | _ \<Rightarrow> element_mismatch expected)"

function into_dynamic_element :: "('ast, 'sort) Library \<Rightarrow> 'ast Z3Term \<Rightarrow> Sort \<Rightarrow> (string, 'ast) result" where
  "into_dynamic_element L term expected =
     (case expected of
        Sort.Bool \<Rightarrow> (case term of Z3Term.Bool v \<Rightarrow> Ok v | _ \<Rightarrow> element_mismatch expected)
      | Sort.Int \<Rightarrow> (case term of Z3Term.Int v \<Rightarrow> Ok v | _ \<Rightarrow> element_mismatch expected)
      | Sort.Float \<Rightarrow> (case term of Z3Term.Float v \<Rightarrow> Ok v | _ \<Rightarrow> element_mismatch expected)
      | Sort.String \<Rightarrow> (case term of Z3Term.String v \<Rightarrow> Ok v | _ \<Rightarrow> element_mismatch expected)
      | Sort.Reference \<Rightarrow> (case term of Z3Term.Reference v \<Rightarrow> Ok v | _ \<Rightarrow> element_mismatch expected)
      | Sort.Class \<Rightarrow> (case term of Z3Term.Class v \<Rightarrow> Ok v | _ \<Rightarrow> element_mismatch expected)
      | Sort.Bytes \<Rightarrow> (case term of Z3Term.Bytes v \<Rightarrow> Ok v | _ \<Rightarrow> element_mismatch expected)
      | Sort.Tuple elements \<Rightarrow>
          (case term of
             Z3Term.Tuple vs \<Rightarrow>
               if length vs = length elements
               then res_bind (collect_while_ok (\<lambda>(v, s). into_dynamic_element L v s) (zip vs elements)) (\<lambda>arguments.
                    res_bind (ensure_tuple_encoding L elements) (\<lambda>encoding.
                    Ok (datatype_constructor encoding arguments)))
               else element_mismatch expected
           | _ \<Rightarrow> element_mismatch expected)
      | Sort.VariadicTuple element \<Rightarrow>
          (case term of
             Z3Term.VariadicTuple v s \<Rightarrow> if s = element then Ok v else element_mismatch expected
           | _ \<Rightarrow> element_mismatch expected)
      | Sort.List element \<Rightarrow>
          (case term of
             Z3Term.List v s \<Rightarrow> if s = element then Ok v else element_mismatch expected
           | _ \<Rightarrow> element_mismatch expected)
      | Sort.Set element \<Rightarrow>
          (case term of
             Z3Term.Set v s \<Rightarrow> if s = element then Ok v else element_mismatch expected
           | _ \<Rightarrow> element_mismatch expected)
      | Sort.Dict key value \<Rightarrow> into_dictionary L term expected key value
      | Sort.FiniteDict key value \<Rightarrow> into_dictionary L term expected key value
      | _ \<Rightarrow> element_mismatch expected)"
  by pat_completeness auto
termination
  by (relation "measure (\<lambda>(L, term, expected). size expected)")
    (auto simp: zip_right_size)

declare into_dynamic_element.simps [simp del]

definition into_predicate_argument :: "'ast Z3Term \<Rightarrow> Sort \<Rightarrow> (string, 'ast) result" where
  "into_predicate_argument term expected =
     (case (term, expected) of
        (Z3Term.Bool v, Sort.Bool) \<Rightarrow> Ok v
      | (Z3Term.Int v, Sort.Int) \<Rightarrow> Ok v
      | (Z3Term.String v, Sort.String) \<Rightarrow> Ok v
      | (Z3Term.Reference v, Sort.Reference) \<Rightarrow> Ok v
      | (Z3Term.Class v, Sort.Class) \<Rightarrow> Ok v
      | _ \<Rightarrow> Err (''predicate argument did not lower to its declared sort '' @ debug_sort expected))"

definition predicate_instance_symbol :: "string \<Rightarrow> Sort list \<Rightarrow> string" where
  "predicate_instance_symbol predicate argument_sorts =
     ''predicate-instance::'' @ predicate @ ''::'' @ debug_list (map debug_sort argument_sorts)"
text \<open>Reading an element of a Z3 collection back as a lowered term of its sort.\<close>

definition dynamic_dictionary ::
  "('ast, 'sort) Library \<Rightarrow> 'ast \<Rightarrow> Sort \<Rightarrow> Sort \<Rightarrow> (string, 'ast Z3Term) result" where
  "dynamic_dictionary L v key_sort value_sort =
     res_bind (ensure_dictionary_encoding L key_sort value_sort) (\<lambda>encoding.
       (let keys = (datatype_accessors encoding ! 0) v; vals = (datatype_accessors encoding ! 1) v
        in res_bind (ok_or ''nested dictionary keys lowered to a non-sequence'' (dynamic_as_seq L keys)) (\<lambda>keys.
           res_bind (ok_or ''nested dictionary values lowered to a non-array'' (dynamic_as_array L vals)) (\<lambda>vals.
           Ok (Z3Term.Dict keys vals key_sort value_sort)))))"

definition unsupported_element :: "Sort \<Rightarrow> (string, 'a) result" where
  "unsupported_element s =
     Err (''unsupported collection element sort '' @ debug_sort s @ '' reached Z3 lowering'')"

fun dynamic_from_sort :: "('ast, 'sort) Library \<Rightarrow> 'ast \<Rightarrow> Sort \<Rightarrow> (string, 'ast Z3Term) result" where
  "dynamic_from_sort L v Sort.Bool =
     res_bind (ok_or ''list element lowered to a non-boolean Z3 term'' (dynamic_as_bool L v)) (\<lambda>v. Ok (Z3Term.Bool v))"
| "dynamic_from_sort L v Sort.Int =
     res_bind (ok_or ''list element lowered to a non-integer Z3 term'' (dynamic_as_int L v)) (\<lambda>v. Ok (Z3Term.Int v))"
| "dynamic_from_sort L v Sort.Float = Ok (Z3Term.Float v)"
| "dynamic_from_sort L v Sort.String =
     res_bind (ok_or ''list element lowered to a non-string Z3 term'' (dynamic_as_string L v)) (\<lambda>v. Ok (Z3Term.String v))"
| "dynamic_from_sort L v Sort.Reference = Ok (Z3Term.Reference v)"
| "dynamic_from_sort L v Sort.Class =
     res_bind (ok_or ''list element lowered to a non-class Z3 term'' (dynamic_as_string L v)) (\<lambda>v. Ok (Z3Term.Class v))"
| "dynamic_from_sort L v Sort.Bytes =
     res_bind (ok_or ''list element lowered to a non-bytes Z3 term'' (dynamic_as_seq L v)) (\<lambda>v. Ok (Z3Term.Bytes v))"
| "dynamic_from_sort L v (Sort.Tuple elements) =
     res_bind (ensure_tuple_encoding L elements) (\<lambda>encoding.
     res_bind (collect_while_ok (\<lambda>(field, s). dynamic_from_sort L field s)
         (zip (map (\<lambda>accessor. accessor v) (datatype_accessors encoding)) elements)) (\<lambda>vs.
     Ok (Z3Term.Tuple vs)))"
| "dynamic_from_sort L v (Sort.VariadicTuple element) =
     res_bind (ok_or ''variadic tuple element lowered to a non-sequence Z3 term'' (dynamic_as_seq L v))
       (\<lambda>v. Ok (Z3Term.VariadicTuple v element))"
| "dynamic_from_sort L v (Sort.List element) =
     res_bind (ok_or ''nested list element lowered to a non-sequence Z3 term'' (dynamic_as_seq L v))
       (\<lambda>v. Ok (Z3Term.List v element))"
| "dynamic_from_sort L v (Sort.Set element) =
     res_bind (ok_or ''nested set element lowered to a non-sequence Z3 term'' (dynamic_as_seq L v))
       (\<lambda>v. Ok (Z3Term.Set v element))"
| "dynamic_from_sort L v (Sort.Dict key_sort value_sort) = dynamic_dictionary L v key_sort value_sort"
| "dynamic_from_sort L v (Sort.FiniteDict key_sort value_sort) = dynamic_dictionary L v key_sort value_sort"
| "dynamic_from_sort L v Sort.Unit = unsupported_element Sort.Unit"
| "dynamic_from_sort L v Sort.Range = unsupported_element Sort.Range"
| "dynamic_from_sort L v (Sort.DictKeys key) = unsupported_element (Sort.DictKeys key)"

text \<open>Variables: one constant per variable, a constant per component for a fixed tuple.\<close>

definition dictionary_variable ::
  "('ast, 'sort) Library \<Rightarrow> string \<Rightarrow> Sort \<Rightarrow> Sort \<Rightarrow> (string, 'ast Z3Term) result" where
  "dictionary_variable L name key_sort value_sort =
     (if \<not> is_z3_collection_key_sort key_sort
      then Err (''symbolic dictionary key sort '' @ debug_sort key_sort @ '' is unsupported'')
      else if \<not> is_z3_collection_value_sort value_sort
      then Err (''symbolic dictionary value sort '' @ debug_sort value_sort @ '' is unsupported'')
      else res_bind (z3_sort L key_sort) (\<lambda>z3_key.
           res_bind (z3_sort L value_sort) (\<lambda>z3_value.
           res_bind (structural_symbol L ''dict-variable'' (DictVariableFingerprint name key_sort value_sort)) (\<lambda>symbol.
           Ok (Z3Term.Dict (seq_const L (symbol @ ''::keys'') z3_key)
             (array_const L (symbol @ ''::values'') z3_key z3_value) key_sort value_sort)))))"

fun variable_from_sort :: "('ast, 'sort) Library \<Rightarrow> string \<Rightarrow> Sort \<Rightarrow> (string, 'ast Z3Term) result" where
  "variable_from_sort L name Sort.Bool = Ok (Z3Term.Bool (bool_const L name))"
| "variable_from_sort L name Sort.Int = Ok (Z3Term.Int (int_const L name))"
| "variable_from_sort L name Sort.Float = Ok (Z3Term.Float (new_const L name (float_sort L)))"
| "variable_from_sort L name Sort.String = Ok (Z3Term.String (string_const L name))"
| "variable_from_sort L name Sort.Unit = Ok Z3Term.Unit"
| "variable_from_sort L name Sort.Reference = Ok (Z3Term.Reference (new_const L name (reference_sort L)))"
| "variable_from_sort L name Sort.Class = Ok (Z3Term.Class (string_const L name))"
| "variable_from_sort L name Sort.Bytes = Ok (Z3Term.Bytes (seq_const L name (sort_int L)))"
| "variable_from_sort L name Sort.Range = Ok (Z3Term.Range (seq_const L name (sort_int L)))"
| "variable_from_sort L name (Sort.Tuple elements) =
     res_bind (collect_while_ok
         (\<lambda>(index, element). variable_from_sort L (name @ ''::tuple::'' @ decimal index) element)
         (List.enumerate 0 elements)) (\<lambda>vs.
     Ok (Z3Term.Tuple vs))"
| "variable_from_sort L name (Sort.VariadicTuple element) =
     res_bind (z3_sort L element) (\<lambda>s. Ok (Z3Term.VariadicTuple (seq_const L name s) element))"
| "variable_from_sort L name (Sort.List element) =
     res_bind (z3_sort L element) (\<lambda>s. Ok (Z3Term.List (seq_const L name s) element))"
| "variable_from_sort L name (Sort.Set element) =
     res_bind (z3_sort L element) (\<lambda>s. Ok (Z3Term.Set (seq_const L name s) element))"
| "variable_from_sort L name (Sort.Dict key_sort value_sort) = dictionary_variable L name key_sort value_sort"
| "variable_from_sort L name (Sort.FiniteDict key_sort value_sort) =
     Err ''symbolic finite dictionary variables are outside the scalar VC''"
| "variable_from_sort L name (Sort.DictKeys key_sort) =
     Err ''symbolic finite dictionary variables are outside the scalar VC''"

section \<open>Conditionals and equality\<close>

definition branches_differ :: "(string, 'a) result" where
  "branches_differ = Err ''conditional branches have different sorts''"

fun ite_terms :: "('ast, 'sort) Library \<Rightarrow> 'ast \<Rightarrow> 'ast Z3Term \<Rightarrow> 'ast Z3Term \<Rightarrow> (string, 'ast Z3Term) result" where
  "ite_terms L c (Z3Term.Bool a) e = (case e of Z3Term.Bool b \<Rightarrow> Ok (Z3Term.Bool (mk_ite L c a b)) | _ \<Rightarrow> branches_differ)"
| "ite_terms L c (Z3Term.Int a) e = (case e of Z3Term.Int b \<Rightarrow> Ok (Z3Term.Int (mk_ite L c a b)) | _ \<Rightarrow> branches_differ)"
| "ite_terms L c (Z3Term.Float a) e = (case e of Z3Term.Float b \<Rightarrow> Ok (Z3Term.Float (mk_ite L c a b)) | _ \<Rightarrow> branches_differ)"
| "ite_terms L c (Z3Term.String a) e = (case e of Z3Term.String b \<Rightarrow> Ok (Z3Term.String (mk_ite L c a b)) | _ \<Rightarrow> branches_differ)"
| "ite_terms L c Z3Term.Unit e = (case e of Z3Term.Unit \<Rightarrow> Ok Z3Term.Unit | _ \<Rightarrow> branches_differ)"
| "ite_terms L c (Z3Term.Reference a) e =
     (case e of Z3Term.Reference b \<Rightarrow> Ok (Z3Term.Reference (mk_ite L c a b)) | _ \<Rightarrow> branches_differ)"
| "ite_terms L c (Z3Term.Class a) e = (case e of Z3Term.Class b \<Rightarrow> Ok (Z3Term.Class (mk_ite L c a b)) | _ \<Rightarrow> branches_differ)"
| "ite_terms L c (Z3Term.Bytes a) e = (case e of Z3Term.Bytes b \<Rightarrow> Ok (Z3Term.Bytes (mk_ite L c a b)) | _ \<Rightarrow> branches_differ)"
| "ite_terms L c (Z3Term.Range a) e = (case e of Z3Term.Range b \<Rightarrow> Ok (Z3Term.Range (mk_ite L c a b)) | _ \<Rightarrow> branches_differ)"
| "ite_terms L c (Z3Term.Tuple as) e =
     (case e of
        Z3Term.Tuple bs \<Rightarrow>
          if length as = length bs
          then res_bind (collect_while_ok (\<lambda>(a, b). ite_terms L c a b) (zip as bs)) (\<lambda>vs. Ok (Z3Term.Tuple vs))
          else branches_differ
      | _ \<Rightarrow> branches_differ)"
| "ite_terms L c (Z3Term.VariadicTuple a s) e =
     (case e of
        Z3Term.VariadicTuple b s' \<Rightarrow> if s = s' then Ok (Z3Term.VariadicTuple (mk_ite L c a b) s) else branches_differ
      | _ \<Rightarrow> branches_differ)"
| "ite_terms L c (Z3Term.List a s) e =
     (case e of
        Z3Term.List b s' \<Rightarrow> if s = s' then Ok (Z3Term.List (mk_ite L c a b) s) else branches_differ
      | _ \<Rightarrow> branches_differ)"
| "ite_terms L c (Z3Term.Set a s) e =
     (case e of
        Z3Term.Set b s' \<Rightarrow> if s = s' then Ok (Z3Term.Set (mk_ite L c a b) s) else branches_differ
      | _ \<Rightarrow> branches_differ)"
| "ite_terms L c (Z3Term.Dict keys vals k v) e =
     (case e of
        Z3Term.Dict keys' vals' k' v' \<Rightarrow>
          if k = k' \<and> v = v' then Ok (Z3Term.Dict (mk_ite L c keys keys') (mk_ite L c vals vals') k v)
          else branches_differ
      | _ \<Rightarrow> branches_differ)"

definition operands_differ :: "'ast Z3Term \<Rightarrow> 'ast Z3Term \<Rightarrow> (string, 'a) result" where
  "operands_differ l r =
     Err (''equality operands have different sorts: left='' @ z3_term_kind l @ '', right='' @ z3_term_kind r)"

definition equal_lists ::
  "('ast, 'sort) Library \<Rightarrow> 'ast \<Rightarrow> 'ast \<Rightarrow> Sort \<Rightarrow> (string, 'ast) result" where
  "equal_lists L l r s =
     (if is_z3_nested_equality_sort s then Ok (mk_eq L l r)
      else Err (''list equality over nested '' @ debug_sort s
        @ '' values requires the precise Python element equality model''))"

fun equal_terms :: "('ast, 'sort) Library \<Rightarrow> 'ast Z3Term \<Rightarrow> 'ast Z3Term \<Rightarrow> (string, 'ast) result" where
  "equal_terms L (Z3Term.Bool l) right = (case right of Z3Term.Bool r \<Rightarrow> Ok (mk_eq L l r) | _ \<Rightarrow> operands_differ (Z3Term.Bool l) right)"
| "equal_terms L (Z3Term.Int l) right = (case right of Z3Term.Int r \<Rightarrow> Ok (mk_eq L l r) | _ \<Rightarrow> operands_differ (Z3Term.Int l) right)"
| "equal_terms L (Z3Term.Float l) right = (case right of Z3Term.Float r \<Rightarrow> Ok (mk_eq L l r) | _ \<Rightarrow> operands_differ (Z3Term.Float l) right)"
| "equal_terms L (Z3Term.String l) right =
     (case right of Z3Term.String r \<Rightarrow> Ok (mk_eq L l r) | _ \<Rightarrow> operands_differ (Z3Term.String l) right)"
| "equal_terms L Z3Term.Unit right =
     (case right of Z3Term.Unit \<Rightarrow> Ok (from_bool L True) | _ \<Rightarrow> operands_differ Z3Term.Unit right)"
| "equal_terms L (Z3Term.Reference l) right =
     (case right of Z3Term.Reference r \<Rightarrow> Ok (mk_eq L l r) | _ \<Rightarrow> operands_differ (Z3Term.Reference l) right)"
| "equal_terms L (Z3Term.Class l) right = (case right of Z3Term.Class r \<Rightarrow> Ok (mk_eq L l r) | _ \<Rightarrow> operands_differ (Z3Term.Class l) right)"
| "equal_terms L (Z3Term.Bytes l) right = (case right of Z3Term.Bytes r \<Rightarrow> Ok (mk_eq L l r) | _ \<Rightarrow> operands_differ (Z3Term.Bytes l) right)"
| "equal_terms L (Z3Term.Range l) right = (case right of Z3Term.Range r \<Rightarrow> Ok (mk_eq L l r) | _ \<Rightarrow> operands_differ (Z3Term.Range l) right)"
| "equal_terms L (Z3Term.Tuple ls) right =
     (case right of
        Z3Term.Tuple rs \<Rightarrow>
          if length ls = length rs
          then res_bind (collect_while_ok (\<lambda>(l, r). equal_terms L l r) (zip ls rs)) (\<lambda>es. Ok (mk_and L es))
          else operands_differ (Z3Term.Tuple ls) right
      | _ \<Rightarrow> operands_differ (Z3Term.Tuple ls) right)"
| "equal_terms L (Z3Term.VariadicTuple l s) right =
     (case right of
        Z3Term.VariadicTuple r s' \<Rightarrow>
          if s = s' then Ok (mk_eq L l r) else operands_differ (Z3Term.VariadicTuple l s) right
      | _ \<Rightarrow> operands_differ (Z3Term.VariadicTuple l s) right)"
| "equal_terms L (Z3Term.List l s) right =
     (case right of
        Z3Term.List r s' \<Rightarrow> if s = s' then equal_lists L l r s else operands_differ (Z3Term.List l s) right
      | _ \<Rightarrow> operands_differ (Z3Term.List l s) right)"
| "equal_terms L (Z3Term.Set l s) right =
     (case right of
        Z3Term.Set r s' \<Rightarrow>
          Err ''set equality requires extensional membership semantics, not sequence equality''
      | _ \<Rightarrow> operands_differ (Z3Term.Set l s) right)"
| "equal_terms L (Z3Term.Dict keys vals k v) right =
     (case right of
        Z3Term.Dict keys' vals' k' v' \<Rightarrow>
          Err ''dictionary equality requires order-independent key/value semantics''
      | _ \<Rightarrow> operands_differ (Z3Term.Dict keys vals k v) right)"

end
