(* ===== verification/Solver_Lowering.thy ===== *)
theory Solver_Lowering
  imports Solver_Depth Solver_Z3
begin

text \<open>
  The lowering of verification conditions to Z3 terms (\<^verbatim>\<open>src/src/solver.rs\<close>, \<open>lower\<close> and the
  functions it calls), over the library operations of \<open>Solver_Z3\<close>. Every early return is an error
  string. Lowering calls itself on evaluated literals, which \<open>term_depth\<close> shows to end.
\<close>

section \<open>Parts of the lowering that do not recurse\<close>

text \<open>The descriptor and the number of a term that must be an \<open>IntEnumValue\<close>.\<close>

definition int_enum_parts :: "Term \<Rightarrow> (IntEnumDescriptor \<times> Term) option" where
  "int_enum_parts term = (case term of IntEnumValue descriptor value \<Rightarrow> Some (descriptor, value) | _ \<Rightarrow> None)"

definition membership :: "('ast, 'sort) Library \<Rightarrow> 'ast \<Rightarrow> IntEnumDescriptor \<Rightarrow> 'ast" where
  "membership L value descriptor =
     mk_or L (map (\<lambda>(_, member). mk_eq L value (from_i64 L member)) (enum_members descriptor))"

definition string_literal :: "('ast, 'sort) Library \<Rightarrow> string \<Rightarrow> string \<Rightarrow> (string, 'ast) result" where
  "string_literal L problem s =
     (case string_from_str L s of Err e \<Rightarrow> Err (problem @ e) | Ok v \<Rightarrow> Ok v)"

definition nominal_reference :: "('ast, 'sort) Library \<Rightarrow> string \<Rightarrow> string \<Rightarrow> (string, 'ast Z3Term) result" where
  "nominal_reference L name cls =
     (if cls = [] then Err ''nominal reference class cannot be empty''
      else Ok (Z3Term.Reference (new_const L (''nominal::'' @ cls @ ''::'' @ name) (reference_sort L))))"

definition class_literal :: "('ast, 'sort) Library \<Rightarrow> string \<Rightarrow> (string, 'ast Z3Term) result" where
  "class_literal L name =
     (if name = [] then Err ''class literal name cannot be empty''
      else res_bind (string_literal L ''invalid class literal: '' name) (\<lambda>v. Ok (Z3Term.Class v)))"

definition runtime_class :: "('ast, 'sort) Library \<Rightarrow> 'ast \<Rightarrow> (string, 'ast Z3Term) result" where
  "runtime_class L value =
     res_bind (ok_or ''runtime-class projection lowered to a non-class term''
       (dynamic_as_string L (apply_decl L ''MaledictusRuntimeClass'' [reference_sort L] (class_sort L) [value])))
       (\<lambda>v. Ok (Z3Term.Class v))"

definition class_subtype :: "('ast, 'sort) Library \<Rightarrow> 'ast \<Rightarrow> 'ast \<Rightarrow> (string, 'ast Z3Term) result" where
  "class_subtype L actual expected =
     res_bind (ok_or ''class-subtype relation lowered to a non-boolean term''
       (dynamic_as_bool L (apply_decl L ''MaledictusClassSubtype'' [class_sort L, class_sort L] (sort_bool L)
          [actual, expected])))
       (\<lambda>v. Ok (Z3Term.Bool v))"

definition word_text :: "32 word \<Rightarrow> string" where
  "word_text w = decimal (unat w)"

fun field_value :: "('ast, 'sort) Library \<Rightarrow> 'ast \<Rightarrow> Sort \<Rightarrow> (string, 'ast Z3Term) result" where
  "field_value L v Sort.Bool =
     res_bind (ok_or ''boolean field lowered to a non-boolean Z3 term'' (dynamic_as_bool L v)) (\<lambda>v. Ok (Z3Term.Bool v))"
| "field_value L v Sort.Int =
     res_bind (ok_or ''integer field lowered to a non-integer Z3 term'' (dynamic_as_int L v)) (\<lambda>v. Ok (Z3Term.Int v))"
| "field_value L v Sort.Float = Ok (Z3Term.Float v)"
| "field_value L v Sort.String =
     res_bind (ok_or ''string field lowered to a non-string Z3 term'' (dynamic_as_string L v)) (\<lambda>v. Ok (Z3Term.String v))"
| "field_value L v Sort.Reference = Ok (Z3Term.Reference v)"
| "field_value L v Sort.Class = Err ''heap fields cannot have Class sort''"
| "field_value L v Sort.Unit = Err ''heap fields cannot have Unit sort''"
| "field_value L v Sort.Bytes =
     res_bind (ok_or ''bytes field lowered to a non-sequence Z3 term'' (dynamic_as_seq L v)) (\<lambda>v. Ok (Z3Term.Bytes v))"
| "field_value L v Sort.Range = Err ''heap fields cannot have Range sort''"
| "field_value L v (Sort.Tuple elements) = dynamic_from_sort L v (Sort.Tuple elements)"
| "field_value L v (Sort.VariadicTuple element) = dynamic_from_sort L v (Sort.VariadicTuple element)"
| "field_value L v (Sort.List element) =
     res_bind (ok_or ''list field lowered to a non-sequence Z3 term'' (dynamic_as_seq L v))
       (\<lambda>v. Ok (Z3Term.List v element))"
| "field_value L v (Sort.Set element) = Err ''heap fields cannot have Set sort''"
| "field_value L v (Sort.Dict key value) = Err ''heap fields cannot have Dict sort''"
| "field_value L v (Sort.FiniteDict key value) = Err ''heap fields cannot have FiniteDict sort''"
| "field_value L v (Sort.DictKeys key) = Err ''heap fields cannot have DictKeys sort''"

definition field_read ::
  "('ast, 'sort) Library \<Rightarrow> 32 word \<Rightarrow> 'ast \<Rightarrow> string \<Rightarrow> Sort \<Rightarrow> (string, 'ast Z3Term) result" where
  "field_read L heap receiver field s =
     res_bind (z3_sort L s) (\<lambda>range.
     field_value L
       (apply_decl L (''heap::'' @ word_text heap @ ''::field::'' @ field @ ''::'' @ debug_sort s)
          [reference_sort L] range [receiver]) s)"

subsection \<open>Permissions\<close>

definition permission_check :: "32 word \<Rightarrow> 32 word \<Rightarrow> (string, unit) result" where
  "permission_check numerator denominator =
     (if denominator = 0 \<or> numerator > denominator
      then Err (''permission fraction '' @ word_text numerator @ ''/'' @ word_text denominator @ '' is outside [0, 1]'')
      else Ok ())"

definition permission_of ::
  "('ast, 'sort) Library \<Rightarrow> string \<Rightarrow> 32 word \<Rightarrow> string \<Rightarrow> 'ast \<Rightarrow> (string, 'ast) result" where
  "permission_of L problem mask_index field receiver =
     ok_or problem (dynamic_as_real L
       (apply_decl L (''mask::'' @ word_text mask_index @ ''::field::'' @ field) [reference_sort L] (sort_real L) [receiver]))"

definition rational :: "('ast, 'sort) Library \<Rightarrow> 32 word \<Rightarrow> 32 word \<Rightarrow> 'ast" where
  "rational L numerator denominator = from_rational L (uint numerator) (uint denominator)"

definition non_real_mask :: string where
  "non_real_mask = ''permission mask lowered to a non-real Z3 term''"

definition permission_mask_valid :: "('ast, 'sort) Library \<Rightarrow> 32 word \<Rightarrow> string \<Rightarrow> (string, 'ast Z3Term) result" where
  "permission_mask_valid L mask_index field =
     (let receiver = new_const L
            (''permission-mask-valid::'' @ word_text mask_index @ ''::'' @ field @ ''::receiver'') (reference_sort L)
      in res_bind (permission_of L non_real_mask mask_index field receiver) (\<lambda>available.
         Ok (Z3Term.Bool (mk_forall L [receiver]
           (mk_and L [mk_ge L available (from_rational L 0 1), mk_le L available (from_rational L 1 1)])))))"

definition transfer_delta ::
  "('ast, 'sort) Library \<Rightarrow> 'ast \<Rightarrow> Term PermissionTransferAmount \<times> 'ast \<Rightarrow> 'ast" where
  "transfer_delta L receiver entry =
     (case entry of (amount, amount_receiver) \<Rightarrow>
        mk_ite L (mk_eq L receiver amount_receiver)
          (rational L (transfer_numerator amount) (transfer_denominator amount)) (from_rational L 0 1))"

definition transition_receiver ::
  "('ast, 'sort) Library \<Rightarrow> 32 word \<Rightarrow> 32 word \<Rightarrow> string \<Rightarrow> 'ast" where
  "transition_receiver L pre_mask post_mask field =
     new_const L (''permission-mask-transition::'' @ word_text pre_mask @ ''->'' @ word_text post_mask @ ''::''
       @ field @ ''::receiver'') (reference_sort L)"

definition mask_transition ::
  "('ast, 'sort) Library \<Rightarrow> 32 word \<Rightarrow> string \<Rightarrow> 'ast \<Rightarrow> 'ast \<Rightarrow>
     (Term PermissionTransferAmount \<times> 'ast) list \<Rightarrow> (Term PermissionTransferAmount \<times> 'ast) list \<Rightarrow>
     (string, 'ast Z3Term) result" where
  "mask_transition L post_mask field receiver pre consumed produced =
     (let expected = foldl (\<lambda>expected entry. mk_sub L expected (transfer_delta L receiver entry)) pre consumed;
          expected = foldl (\<lambda>expected entry. mk_add L expected (transfer_delta L receiver entry)) expected produced
      in res_bind (permission_of L ''post-call permission mask lowered to a non-real term'' post_mask field receiver)
           (\<lambda>post. Ok (Z3Term.Bool (mk_forall L [receiver] (mk_eq L post expected)))))"
subsection \<open>Operands\<close>

text \<open>The pattern \<open>as_int(lower(left)?)?\<close>, \<open>as_int(lower(right)?)?\<close> and its relatives.\<close>

definition int_operands ::
  "(string, 'ast Z3Term) result \<Rightarrow> (string, 'ast Z3Term) result \<Rightarrow> ('ast \<Rightarrow> 'ast \<Rightarrow> 'ast Z3Term) \<Rightarrow>
     (string, 'ast Z3Term) result" where
  "int_operands left right build =
     res_bind (res_bind left as_int) (\<lambda>l. res_bind (res_bind right as_int) (\<lambda>r. Ok (build l r)))"

definition with_list ::
  "string \<Rightarrow> (string, 'ast Z3Term) result \<Rightarrow> ('ast \<Rightarrow> Sort \<Rightarrow> (string, 'b) result) \<Rightarrow> (string, 'b) result" where
  "with_list problem t f = res_bind t (\<lambda>t. case t of Z3Term.List v s \<Rightarrow> f v s | _ \<Rightarrow> Err problem)"

definition with_variadic ::
  "string \<Rightarrow> (string, 'ast Z3Term) result \<Rightarrow> ('ast \<Rightarrow> Sort \<Rightarrow> (string, 'b) result) \<Rightarrow> (string, 'b) result" where
  "with_variadic problem t f = res_bind t (\<lambda>t. case t of Z3Term.VariadicTuple v s \<Rightarrow> f v s | _ \<Rightarrow> Err problem)"

definition with_set ::
  "string \<Rightarrow> (string, 'ast Z3Term) result \<Rightarrow> ('ast \<Rightarrow> Sort \<Rightarrow> (string, 'b) result) \<Rightarrow> (string, 'b) result" where
  "with_set problem t f = res_bind t (\<lambda>t. case t of Z3Term.Set v s \<Rightarrow> f v s | _ \<Rightarrow> Err problem)"

definition with_dict ::
  "string \<Rightarrow> (string, 'ast Z3Term) result \<Rightarrow> ('ast \<Rightarrow> 'ast \<Rightarrow> Sort \<Rightarrow> Sort \<Rightarrow> (string, 'b) result) \<Rightarrow>
     (string, 'b) result" where
  "with_dict problem t f =
     res_bind t (\<lambda>t. case t of Z3Term.Dict keys vals k v \<Rightarrow> f keys vals k v | _ \<Rightarrow> Err problem)"

definition tuple_item :: "'ast Z3Term \<Rightarrow> nat \<Rightarrow> (string, 'ast Z3Term) result" where
  "tuple_item tuple index =
     (case tuple of
        Z3Term.Tuple vs \<Rightarrow>
          if index \<ge> length vs
          then Err (''tuple index '' @ decimal index @ '' is outside fixed tuple length '' @ decimal (length vs))
          else Ok (vs ! index)
      | _ \<Rightarrow> Err ''tuple indexing lowered a non-tuple term'')"

definition join_strings :: "('ast, 'sort) Library \<Rightarrow> 'ast list \<Rightarrow> (string, 'ast Z3Term) result" where
  "join_strings L vs =
     (case vs of
        [] \<Rightarrow> res_bind (string_literal L ''invalid empty Z3 string literal: '' []) (\<lambda>v. Ok (Z3Term.String v))
      | [v] \<Rightarrow> Ok (Z3Term.String v)
      | many \<Rightarrow> Ok (Z3Term.String (string_concat L many)))"

definition bytes_item :: "('ast, 'sort) Library \<Rightarrow> 'ast \<Rightarrow> 'ast \<Rightarrow> (string, 'ast Z3Term) result" where
  "bytes_item L bytes index =
     res_bind (ok_or ''bytes element lowered to a non-integer Z3 term'' (dynamic_as_int L (seq_nth L bytes index)))
       (\<lambda>v. Ok (Z3Term.Int v))"

text \<open>A dictionary built entry by entry over an unconstrained default.\<close>

definition stored_dictionary ::
  "('ast, 'sort) Library \<Rightarrow> string \<Rightarrow> 'sort \<Rightarrow> 'sort \<Rightarrow> Sort \<Rightarrow> Sort \<Rightarrow> ('ast \<times> 'ast) list \<Rightarrow> 'ast Z3Term" where
  "stored_dictionary L default_symbol z3_key z3_value key_sort value_sort entries =
     Z3Term.Dict (join_units L z3_key (map (\<lambda>(k, _). seq_unit L k) entries))
       (foldl (\<lambda>vals (k, v). array_store L vals k v) (array_const L default_symbol z3_key z3_value) entries)
       key_sort value_sort"

definition symbolic_dictionary ::
  "('ast, 'sort) Library \<Rightarrow> string \<Rightarrow> 'sort \<Rightarrow> 'sort \<Rightarrow> Sort \<Rightarrow> Sort \<Rightarrow> 'ast Z3Term" where
  "symbolic_dictionary L symbol z3_key z3_value key_sort value_sort =
     Z3Term.Dict (seq_const L (symbol @ ''::keys'') z3_key)
       (array_const L (symbol @ ''::values'') z3_key z3_value) key_sort value_sort"

definition list_or_set :: "bool \<Rightarrow> 'ast \<Rightarrow> Sort \<Rightarrow> 'ast Z3Term" where
  "list_or_set unique v s = (if unique then Z3Term.Set v s else Z3Term.List v s)"

definition integer_list_sum :: "('ast, 'sort) Library \<Rightarrow> int list \<Rightarrow> 'ast" where
  "integer_list_sum L vs = foldl (\<lambda>so_far v. mk_add L so_far (from_i64 L v)) (from_i64 L 0) vs"
section \<open>Lowering\<close>

lemma int_enum_parts_depth: "int_enum_parts v = Some (d, inner) \<Longrightarrow> term_depth inner < term_depth v"
  by (cases v) (auto simp: int_enum_parts_def outer_child_depths)

text \<open>A call's depth; the comprehensions are between their own term and the terms they evaluate to.\<close>

definition lowering_measure ::
  "(('ast, 'sort) Library \<times> Term) +
   (('ast, 'sort) Library \<times> string \<times> Term \<times> string \<times> Sort \<times> Term \<times> Term option \<times> bool) +
   (('ast, 'sort) Library \<times> string \<times> Term \<times> string \<times> Sort \<times> Sort \<times> Term \<times> Term \<times> Term option) \<Rightarrow> nat" where
  "lowering_measure call =
     (case call of
        Inl (L, t) \<Rightarrow> 2 * term_depth t
      | Inr (Inl (L, identifier, source, binder, s, mapped, condition, unique)) \<Rightarrow>
          2 * (term_depth source + term_depth mapped) + 1
      | Inr (Inr (L, identifier, source, binder, k, v, key, value, condition)) \<Rightarrow>
          2 * (term_depth source + max (term_depth key) (term_depth value)) + 1)"

lemma lowering_measures [simp]:
  "lowering_measure (Inl (L, t)) = 2 * term_depth t"
  "lowering_measure (Inr (Inl (L, identifier, source, binder, s, mapped, condition, unique))) =
     2 * (term_depth source + term_depth mapped) + 1"
  "lowering_measure (Inr (Inr (L, identifier, source, binder, k, v, key, value, condition))) =
     2 * (term_depth source + max (term_depth key) (term_depth value)) + 1"
  by (simp_all add: lowering_measure_def)

lemma evaluated_list_depth:
  assumes "evaluate_concrete_sequence_comprehension d source x mapped condition = Ok (Some cs)"
  shows "2 * term_depth (Term.List s (if unique then unique_values cs else cs)) <
    2 * (term_depth source + term_depth mapped) + 1"
  using sequence_comprehension_depth [OF assms, of s] unique_values_depth [of s cs] by auto

lemma evaluated_entry_depths:
  assumes "evaluate_concrete_dict_comprehension d source x key value condition = Ok (Some es)" "(k, v) \<in> set es"
  shows "2 * term_depth k < 2 * (term_depth source + max (term_depth key) (term_depth value)) + 1"
    "2 * term_depth v < 2 * (term_depth source + max (term_depth key) (term_depth value)) + 1"
  using dict_comprehension_depth [OF assms] by simp_all

lemma special_depths:
  "int_enum_parts value = Some (d, inner) \<Longrightarrow> term_depth inner < term_depth (IntEnumDomain value)"
  "int_enum_parts left = Some (d, inner) \<Longrightarrow> term_depth inner < term_depth (IntEnumIdentity left right)"
  "int_enum_parts right = Some (d, inner) \<Longrightarrow> term_depth inner < term_depth (IntEnumIdentity left right)"
  "(argument, srt) \<in> set (zip arguments srts) \<Longrightarrow> term_depth argument < term_depth (PredicateInstance name arguments)"
  "concrete_static_list_slice source low up step = Some c \<Longrightarrow> term_depth c < term_depth (ListSlice source low up step)"
  "concrete_static_variadic_tuple_slice source low up step = Some c \<Longrightarrow>
     term_depth c < term_depth (VariadicTupleSlice source low up step)"
  by (fastforce dest: int_enum_parts_depth concrete_list_slice_depth concrete_variadic_slice_depth set_zip_leftD
      intro: member_depths order.strict_trans outer_child_depths)+

lemma odd_less: "m < n \<Longrightarrow> 2 * m + 1 < 2 * (n::nat)"
  by simp

lemma double_less: "m < n \<Longrightarrow> 2 * m < 2 * (n::nat)"
  by simp

function lower :: "('ast, 'sort) Library \<Rightarrow> Term \<Rightarrow> (string, 'ast Z3Term) result"
  and lower_sequence_comprehension ::
    "('ast, 'sort) Library \<Rightarrow> string \<Rightarrow> Term \<Rightarrow> string \<Rightarrow> Sort \<Rightarrow> Term \<Rightarrow> Term option \<Rightarrow> bool \<Rightarrow>
       (string, 'ast Z3Term) result"
  and lower_dict_comprehension ::
    "('ast, 'sort) Library \<Rightarrow> string \<Rightarrow> Term \<Rightarrow> string \<Rightarrow> Sort \<Rightarrow> Sort \<Rightarrow> Term \<Rightarrow> Term \<Rightarrow> Term option \<Rightarrow>
       (string, 'ast Z3Term) result" where
  "lower L (Term.Bool b) = Ok (Z3Term.Bool (from_bool L b))"
| "lower L (Term.Int v) = Ok (Z3Term.Int (from_i64 L v))"
| "lower L (IntEnumValue descriptor value) = res_bind (res_bind (lower L value) as_int) (\<lambda>v. Ok (Z3Term.Int v))"
| "lower L (IntEnumProjection value) = res_bind (res_bind (lower L value) as_int) (\<lambda>v. Ok (Z3Term.Int v))"
| "lower L (IntEnumDomain value) =
     (case int_enum_parts value of
        None \<Rightarrow> Err ''IntEnum domain lost its descriptor-carrying value''
      | Some (descriptor, inner) \<Rightarrow>
          res_bind (res_bind (lower L inner) as_int) (\<lambda>v. Ok (Z3Term.Bool (membership L v descriptor))))"
| "lower L (IntEnumIdentity left right) =
     (case int_enum_parts left of
        None \<Rightarrow> Err ''IntEnum identity lost its left descriptor''
      | Some (left_descriptor, left_value) \<Rightarrow>
          (case int_enum_parts right of
             None \<Rightarrow> Err ''IntEnum identity lost its right descriptor''
           | Some (right_descriptor, right_value) \<Rightarrow>
               if left_descriptor \<noteq> right_descriptor then Ok (Z3Term.Bool (from_bool L False))
               else int_operands (lower L left_value) (lower L right_value) (\<lambda>l r. Z3Term.Bool (mk_eq L l r))))"
| "lower L (Term.String s) =
     res_bind (string_literal L ''invalid Z3 string literal: '' s) (\<lambda>v. Ok (Z3Term.String v))"
| "lower L (Term.Bytes bs) = Ok (Z3Term.Bytes (integer_sequence L (map uint bs)))"
| "lower L (Term.Range vs) = Ok (Z3Term.Range (integer_sequence L vs))"
| "lower L Term.Unit = Ok Z3Term.Unit"
| "lower L NullReference = Ok (Z3Term.Reference (new_const L ''MaledictusNullReference'' (reference_sort L)))"
| "lower L (NominalReference name cls) = nominal_reference L name cls"
| "lower L (ClassLiteral name) = class_literal L name"
| "lower L (RuntimeClass value) = res_bind (res_bind (lower L value) as_reference) (runtime_class L)"
| "lower L (PredicateInstance predicate arguments) =
     (if predicate = [] \<or> arguments = [] then Err ''predicate instance requires a name and arguments''
      else
        res_bind (collect_while_ok term_sort arguments) (\<lambda>argument_sorts.
        res_bind (collect_while_ok (z3_sort L) argument_sorts) (\<lambda>domain.
        res_bind (collect_while_ok (\<lambda>(argument, s). res_bind (lower L argument) (\<lambda>v. into_predicate_argument v s))
            (zip arguments argument_sorts)) (\<lambda>lowered.
        Ok (Z3Term.Reference
          (apply_decl L (predicate_instance_symbol predicate argument_sorts) domain (reference_sort L) lowered))))))"
| "lower L (ClassSubtype actual expected) =
     res_bind (res_bind (lower L actual) as_class) (\<lambda>a.
     res_bind (res_bind (lower L expected) as_class) (\<lambda>e. class_subtype L a e))"
| "lower L (Variable name s) = variable_from_sort L name s"
| "lower L (FieldRead heap receiver field s) =
     res_bind (res_bind (lower L receiver) as_reference) (\<lambda>r. field_read L heap r field s)"
| "lower L (PermissionAtLeast mask_index receiver field numerator denominator) =
     res_bind (permission_check numerator denominator) (\<lambda>_.
     res_bind (res_bind (lower L receiver) as_reference) (\<lambda>r.
     res_bind (permission_of L non_real_mask mask_index field r) (\<lambda>available.
     Ok (Z3Term.Bool (mk_ge L available (rational L numerator denominator))))))"
| "lower L (PermissionAtMost mask_index receiver field numerator denominator) =
     res_bind (permission_check numerator denominator) (\<lambda>_.
     res_bind (res_bind (lower L receiver) as_reference) (\<lambda>r.
     res_bind (permission_of L non_real_mask mask_index field r) (\<lambda>available.
     Ok (Z3Term.Bool (mk_le L available (rational L numerator denominator))))))"
| "lower L (PermissionPositive mask_index receiver field) =
     res_bind (res_bind (lower L receiver) as_reference) (\<lambda>r.
     res_bind (permission_of L non_real_mask mask_index field r) (\<lambda>available.
     Ok (Z3Term.Bool (mk_gt L available (from_rational L 0 1)))))"
| "lower L (PermissionMaskValid mask_index field) = permission_mask_valid L mask_index field"
| "lower L (PermissionMaskTransition pre_mask post_mask field consumed produced) =
     (if pre_mask = post_mask then Err ''permission-mask transition must advance the mask''
      else
        (let receiver = transition_receiver L pre_mask post_mask field
         in res_bind (permission_of L ''pre-call permission mask lowered to a non-real term'' pre_mask field receiver) (\<lambda>pre.
            res_bind (collect_while_ok (\<lambda>amount.
              res_bind (res_bind (lower L (transfer_receiver amount)) as_reference) (\<lambda>r. Ok (amount, r))) consumed) (\<lambda>consumed.
            res_bind (collect_while_ok (\<lambda>amount.
              res_bind (res_bind (lower L (transfer_receiver amount)) as_reference) (\<lambda>r. Ok (amount, r))) produced) (\<lambda>produced.
            mask_transition L post_mask field receiver pre consumed produced)))))"
| "lower L (Term.Not value) = res_bind (res_bind (lower L value) as_bool) (\<lambda>v. Ok (Z3Term.Bool (mk_not L v)))"
| "lower L (Term.And values) =
     res_bind (collect_while_ok (\<lambda>value. res_bind (lower L value) as_bool) values) (\<lambda>vs. Ok (Z3Term.Bool (mk_and L vs)))"
| "lower L (Term.Or values) =
     res_bind (collect_while_ok (\<lambda>value. res_bind (lower L value) as_bool) values) (\<lambda>vs. Ok (Z3Term.Bool (mk_or L vs)))"
| "lower L (Implies left right) =
     res_bind (res_bind (lower L left) as_bool) (\<lambda>l.
     res_bind (res_bind (lower L right) as_bool) (\<lambda>r. Ok (Z3Term.Bool (mk_implies L l r))))"
| "lower L (IfThenElse condition then_value else_value) =
     res_bind (res_bind (lower L condition) as_bool) (\<lambda>c.
     res_bind (lower L then_value) (\<lambda>t. res_bind (lower L else_value) (\<lambda>e. ite_terms L c t e)))"
| "lower L (Equal left right) =
     res_bind (lower L left) (\<lambda>l. res_bind (lower L right) (\<lambda>r.
     res_bind (equal_terms L l r) (\<lambda>v. Ok (Z3Term.Bool v))))"
| "lower L (Less left right) = int_operands (lower L left) (lower L right) (\<lambda>l r. Z3Term.Bool (mk_lt L l r))"
| "lower L (LessEqual left right) = int_operands (lower L left) (lower L right) (\<lambda>l r. Z3Term.Bool (mk_le L l r))"
| "lower L (Greater left right) = int_operands (lower L left) (lower L right) (\<lambda>l r. Z3Term.Bool (mk_gt L l r))"
| "lower L (GreaterEqual left right) = int_operands (lower L left) (lower L right) (\<lambda>l r. Z3Term.Bool (mk_ge L l r))"
| "lower L (Term.Add left right) = int_operands (lower L left) (lower L right) (\<lambda>l r. Z3Term.Int (mk_add L l r))"
| "lower L (Subtract left right) = int_operands (lower L left) (lower L right) (\<lambda>l r. Z3Term.Int (mk_sub L l r))"
| "lower L (Multiply left right) = int_operands (lower L left) (lower L right) (\<lambda>l r. Z3Term.Int (mk_mul L l r))"
| "lower L (FloorDivideByPositive value divisor) =
     (if divisor = 0 then Err ''floor-division divisor must be positive''
      else res_bind (res_bind (lower L value) as_int) (\<lambda>v. Ok (Z3Term.Int (mk_div L v (from_u64 L (uint divisor))))))"
| "lower L (Negate value) = res_bind (res_bind (lower L value) as_int) (\<lambda>v. Ok (Z3Term.Int (mk_neg L v)))"
| "lower L (StringConcat values) =
     res_bind (collect_while_ok (\<lambda>value. res_bind (lower L value) as_string) values) (join_strings L)"
| "lower L (StringLength value) = res_bind (res_bind (lower L value) as_string) (\<lambda>v. Ok (Z3Term.Int (string_length L v)))"
| "lower L (StringSlice source start len) =
     res_bind (res_bind (lower L source) as_string) (\<lambda>v.
     res_bind (res_bind (lower L start) as_int) (\<lambda>i.
     res_bind (res_bind (lower L len) as_int) (\<lambda>n. Ok (Z3Term.String (string_substr L v i n)))))"
| "lower L (BytesConcat values) =
     res_bind (collect_while_ok (\<lambda>value. res_bind (lower L value) as_bytes) values)
       (\<lambda>vs. Ok (Z3Term.Bytes (join_units L (sort_int L) vs)))"
| "lower L (BytesLength value) = res_bind (res_bind (lower L value) as_bytes) (\<lambda>v. Ok (Z3Term.Int (seq_length L v)))"
| "lower L (BytesGet bytes index) =
     res_bind (res_bind (lower L bytes) as_bytes) (\<lambda>v.
     res_bind (res_bind (lower L index) as_int) (\<lambda>i. bytes_item L v i))"
| "lower L (Term.Tuple values) = res_bind (collect_while_ok (lower L) values) (\<lambda>vs. Ok (Z3Term.Tuple vs))"
| "lower L (TupleGet tuple index) = res_bind (lower L tuple) (\<lambda>t. tuple_item t index)"
| "lower L (Term.VariadicTuple element_sort values) =
     res_bind (z3_sort L element_sort) (\<lambda>z3_element.
     res_bind (collect_while_ok (\<lambda>value. res_bind (lower L value) (\<lambda>v.
       res_bind (into_dynamic_element L v element_sort) (\<lambda>d. Ok (seq_unit L d)))) values) (\<lambda>units.
     Ok (Z3Term.VariadicTuple (join_units L z3_element units) element_sort)))"
| "lower L (VariadicTupleLength value) =
     with_variadic ''variadic tuple length lowered a non-tuple term'' (lower L value)
       (\<lambda>v s. Ok (Z3Term.Int (seq_length L v)))"
| "lower L (VariadicTupleGet tuple index) =
     with_variadic ''variadic tuple indexing lowered a non-tuple term'' (lower L tuple) (\<lambda>v s.
       res_bind (res_bind (lower L index) as_int) (\<lambda>i. dynamic_from_sort L (seq_nth L v i) s))"
| "lower L (VariadicTupleSlice source low up step) =
     (case concrete_static_variadic_tuple_slice source low up step of
        Some concrete \<Rightarrow> lower L concrete
      | None \<Rightarrow>
          with_variadic ''variadic tuple slicing lowered a non-tuple term'' (lower L source) (\<lambda>v s.
            res_bind (structural_symbol L ''variadic-tuple-slice'' (SliceFingerprint source low up step)) (\<lambda>symbol.
            res_bind (z3_sort L s) (\<lambda>z3_element. Ok (Z3Term.VariadicTuple (seq_const L symbol z3_element) s)))))"
| "lower L (Term.List element_sort values) =
     res_bind (z3_sort L element_sort) (\<lambda>z3_element.
     res_bind (collect_while_ok (\<lambda>value. res_bind (lower L value) (\<lambda>v.
       res_bind (into_dynamic_element L v element_sort) (\<lambda>d. Ok (seq_unit L d)))) values) (\<lambda>units.
     Ok (Z3Term.List (join_units L z3_element units) element_sort)))"
| "lower L (ListLength value) =
     with_list ''list length lowered a non-list term'' (lower L value) (\<lambda>v s. Ok (Z3Term.Int (seq_length L v)))"
| "lower L (ListGet list index) =
     with_list ''list indexing lowered a non-list term'' (lower L list) (\<lambda>v s.
       res_bind (res_bind (lower L index) as_int) (\<lambda>i. dynamic_from_sort L (seq_nth L v i) s))"
| "lower L (ListContains list value) =
     with_list ''list membership lowered a non-list term'' (lower L list) (\<lambda>v s.
       res_bind (lower L value) (\<lambda>e.
       res_bind (into_dynamic_element L e s) (\<lambda>e. Ok (Z3Term.Bool (seq_contains L v (seq_unit L e))))))"
| "lower L (ListSlice source low up step) =
     (case concrete_static_list_slice source low up step of
        Some concrete \<Rightarrow> lower L concrete
      | None \<Rightarrow>
          with_list ''list slicing lowered a non-list term'' (lower L source) (\<lambda>v s.
            res_bind (structural_symbol L ''list-slice'' (SliceFingerprint source low up step)) (\<lambda>symbol.
            res_bind (z3_sort L s) (\<lambda>z3_element. Ok (Z3Term.List (seq_const L symbol z3_element) s)))))"
| "lower L (ListConcat left right) =
     with_list ''left list concatenation operand lowered to a non-list term'' (lower L left) (\<lambda>l left_sort.
     with_list ''right list concatenation operand lowered to a non-list term'' (lower L right) (\<lambda>r right_sort.
       if left_sort \<noteq> right_sort then Err ''list concatenation operands lowered with different element sorts''
       else Ok (Z3Term.List (seq_concat L [l, r]) left_sort)))"
| "lower L (ListSum source) =
     (case concrete_integer_list source of
        Some vs \<Rightarrow> Ok (Z3Term.Int (integer_list_sum L vs))
      | None \<Rightarrow>
          with_list ''list sum lowered a non-list term'' (lower L source) (\<lambda>v s.
            if s \<noteq> Sort.Int then Err ''list sum lowered a list with non-integer elements''
            else res_bind (structural_symbol L ''list-sum'' (TermFingerprint source)) (\<lambda>symbol.
                 Ok (Z3Term.Int (int_const L symbol)))))"
| "lower L (ListSorted source) =
     (case concrete_integer_list source of
        Some vs \<Rightarrow> Ok (Z3Term.List (integer_sequence L (insertion_sort_integers vs)) Sort.Int)
      | None \<Rightarrow>
          with_list ''list sorted lowered a non-list term'' (lower L source) (\<lambda>v s.
            if s \<noteq> Sort.Int then Err ''list sorted lowered a list with non-integer elements''
            else res_bind (structural_symbol L ''list-sorted'' (TermFingerprint source)) (\<lambda>symbol.
                 Ok (Z3Term.List (seq_const L symbol (sort_int L)) Sort.Int))))"
| "lower L (ListComprehension identifier source binder element_sort mapped condition) =
     lower_sequence_comprehension L identifier source binder element_sort mapped condition False"
| "lower L (SetComprehension identifier source binder element_sort mapped condition) =
     lower_sequence_comprehension L identifier source binder element_sort mapped condition True"
| "lower L (SetLength value) =
     with_set ''set length lowered a non-set term'' (lower L value) (\<lambda>v s. Ok (Z3Term.Int (seq_length L v)))"
| "lower L (SetContains collection value) =
     with_set ''set membership lowered a non-set term'' (lower L collection) (\<lambda>v s.
       res_bind (lower L value) (\<lambda>e.
       res_bind (into_dynamic_element L e s) (\<lambda>e. Ok (Z3Term.Bool (seq_contains L v (seq_unit L e))))))"
| "lower L (DictComprehension identifier source binder key_sort value_sort key value condition) =
     lower_dict_comprehension L identifier source binder key_sort value_sort key value condition"
| "lower L (DictLength value) =
     with_dict ''dictionary length lowered a non-dictionary term'' (lower L value)
       (\<lambda>keys vals k v. Ok (Z3Term.Int (seq_length L keys)))"
| "lower L (DictContains dict key) =
     with_dict ''dictionary membership lowered a non-dictionary term'' (lower L dict) (\<lambda>keys vals k v.
       res_bind (lower L key) (\<lambda>e.
       res_bind (into_dynamic_element L e k) (\<lambda>e. Ok (Z3Term.Bool (seq_contains L keys (seq_unit L e))))))"
| "lower L (DictGet dict key) =
     with_dict ''dictionary lookup lowered a non-dictionary term'' (lower L dict) (\<lambda>keys vals k v.
       res_bind (lower L key) (\<lambda>e.
       res_bind (into_dynamic_element L e k) (\<lambda>e. dynamic_from_sort L (array_select L vals e) v)))"
| "lower L (ForAll binder binder_sort body) =
     (if binder_sort = Sort.Int
      then res_bind (res_bind (lower L body) as_bool) (\<lambda>b. Ok (Z3Term.Bool (mk_forall L [int_const L binder] b)))
      else Err (''quantifier binder sort '' @ debug_sort binder_sort @ '' is not implemented by the scalar solver''))"
| "lower L (Term.FiniteDict key_sort value_sort entries) =
     res_bind (z3_sort L key_sort) (\<lambda>z3_key.
     res_bind (z3_sort L value_sort) (\<lambda>z3_value.
     res_bind (structural_symbol L ''finite-dict-default'' (FiniteDictFingerprint key_sort value_sort entries)) (\<lambda>symbol.
     res_bind (collect_while_ok (\<lambda>(key, value).
         res_bind (res_bind (lower L key) (\<lambda>k. into_dynamic_element L k key_sort)) (\<lambda>k.
         res_bind (res_bind (lower L value) (\<lambda>v. into_dynamic_element L v value_sort)) (\<lambda>v. Ok (k, v)))) entries) (\<lambda>stored.
     Ok (stored_dictionary L symbol z3_key z3_value key_sort value_sort stored)))))"
| "lower L (Term.DictKeys key_sort values) = Err ''dictionary-key views cannot be nested scalar values''"
| "lower_sequence_comprehension L identifier source binder element_sort mapped condition unique =
     res_bind (z3_sort L element_sort) (\<lambda>z3_element.
     res_bind (evaluate_concrete_sequence_comprehension (debug_term L) source binder mapped condition) (\<lambda>evaluated.
     case evaluated of
       Some mapped_values \<Rightarrow>
         with_list ''internal error: entered unreachable code''
           (lower L (Term.List element_sort (if unique then unique_values mapped_values else mapped_values)))
           (\<lambda>v _. Ok (list_or_set unique v element_sort))
     | None \<Rightarrow>
         res_bind (structural_symbol L (if unique then ''set-comprehension'' else ''list-comprehension'')
             (SequenceComprehensionFingerprint identifier source binder element_sort mapped condition)) (\<lambda>symbol.
         Ok (list_or_set unique (seq_const L symbol z3_element) element_sort))))"
| "lower_dict_comprehension L identifier source binder key_sort value_sort key value condition =
     res_bind (z3_sort L key_sort) (\<lambda>z3_key.
     res_bind (z3_sort L value_sort) (\<lambda>z3_value.
     res_bind (evaluate_concrete_dict_comprehension (debug_term L) source binder key value condition) (\<lambda>evaluated.
     case evaluated of
       Some entries \<Rightarrow>
         res_bind (structural_symbol L ''concrete-dict-default''
             (DictComprehensionFingerprint identifier source binder key_sort value_sort key value condition)) (\<lambda>symbol.
         res_bind (collect_while_ok (\<lambda>(k, v).
             res_bind (res_bind (lower L k) (\<lambda>k. into_dynamic_element L k key_sort)) (\<lambda>k.
             res_bind (res_bind (lower L v) (\<lambda>v. into_dynamic_element L v value_sort)) (\<lambda>v. Ok (k, v)))) entries) (\<lambda>stored.
         Ok (stored_dictionary L symbol z3_key z3_value key_sort value_sort stored)))
     | None \<Rightarrow>
         res_bind (structural_symbol L ''dict-comprehension''
             (DictComprehensionFingerprint identifier source binder key_sort value_sort key value condition)) (\<lambda>symbol.
         Ok (symbolic_dictionary L symbol z3_key z3_value key_sort value_sort)))))"
  by pat_completeness auto
termination
  by (relation "measure lowering_measure")
    (simp_all only: wf_measure in_measure lowering_measures,
     ((rule double_less, rule outer_depth, force simp: scope_defs; fail) |
      (rule odd_less, rule comprehension_depths) | (erule evaluated_list_depth; fail) |
      (force dest: evaluated_entry_depths; fail) |
      (rule double_less, rule body_depth) | (rule double_less, force intro: special_depths simp del: depth_unary; fail))+)

end
