(* ===== verification/Solver_Refinement.thy ===== *)
theory Solver_Refinement
  imports Solver_Lowering
begin

text \<open>
  What the lowering relies on in Z3, stated as laws of an evaluation of its terms in a model, and the
  refinement of the meaning of terms by their lowering for booleans, integers, fixed tuples and
  sequences of integers. A quantified symbolic list operation is the exception, with a
  counterexample: its symbol forgets the bound variable.
\<close>

section \<open>The documented behaviour of Z3\<close>

datatype Z3Value = ZBool bool | ZInt int | ZSeq "Z3Value list" | ZOther nat

fun z3_truth :: "Z3Value \<Rightarrow> bool" where
  "z3_truth (ZBool b) = b"
| "z3_truth _ = False"

fun z3_number :: "Z3Value \<Rightarrow> int" where
  "z3_number (ZInt i) = i"
| "z3_number _ = 0"

fun z3_items :: "Z3Value \<Rightarrow> Z3Value list" where
  "z3_items (ZSeq vs) = vs"
| "z3_items _ = []"

text \<open>
  The value of a term in a model, the sort of a term, a model in which an integer constant is given
  a value, and what an index outside an integer sequence yields.
\<close>

record ('ast, 'sort, 'model) Semantics =
  evaluates_to :: "'model \<Rightarrow> 'ast \<Rightarrow> Z3Value"
  ast_sort :: "'ast \<Rightarrow> 'sort"
  bind_int :: "'model \<Rightarrow> string \<Rightarrow> int \<Rightarrow> 'model"
  out_of_range :: "'model \<Rightarrow> int list \<Rightarrow> int \<Rightarrow> int"

definition documented_booleans :: "('ast, 'sort) Library \<Rightarrow> ('ast, 'sort, 'model) Semantics \<Rightarrow> bool" where
  "documented_booleans L S \<longleftrightarrow>
     (\<forall>M b. evaluates_to S M (from_bool L b) = ZBool b) \<and>
     (\<forall>M a. evaluates_to S M (mk_not L a) = ZBool (\<not> z3_truth (evaluates_to S M a))) \<and>
     (\<forall>M as. evaluates_to S M (mk_and L as) = ZBool (\<forall>a \<in> set as. z3_truth (evaluates_to S M a))) \<and>
     (\<forall>M as. evaluates_to S M (mk_or L as) = ZBool (\<exists>a \<in> set as. z3_truth (evaluates_to S M a))) \<and>
     (\<forall>M a b. evaluates_to S M (mk_implies L a b) =
        ZBool (z3_truth (evaluates_to S M a) \<longrightarrow> z3_truth (evaluates_to S M b))) \<and>
     (\<forall>M c a b. evaluates_to S M (mk_ite L c a b) =
        (if z3_truth (evaluates_to S M c) then evaluates_to S M a else evaluates_to S M b)) \<and>
     (\<forall>c a b. ast_sort S (mk_ite L c a b) = ast_sort S a) \<and>
     (\<forall>M a b. evaluates_to S M (mk_eq L a b) = ZBool (evaluates_to S M a = evaluates_to S M b))"

definition documented_integers :: "('ast, 'sort) Library \<Rightarrow> ('ast, 'sort, 'model) Semantics \<Rightarrow> bool" where
  "documented_integers L S \<longleftrightarrow>
     (\<forall>M i. evaluates_to S M (from_i64 L i) = ZInt i \<and> ast_sort S (from_i64 L i) = sort_int L) \<and>
     (\<forall>M i. evaluates_to S M (from_u64 L i) = ZInt i) \<and>
     (\<forall>i. \<exists>a. int_from_str L (signed_decimal i) = Some a \<and> (\<forall>M. evaluates_to S M a = ZInt i)) \<and>
     (\<forall>M a b. evaluates_to S M (mk_lt L a b) =
        ZBool (z3_number (evaluates_to S M a) < z3_number (evaluates_to S M b))) \<and>
     (\<forall>M a b. evaluates_to S M (mk_le L a b) =
        ZBool (z3_number (evaluates_to S M a) \<le> z3_number (evaluates_to S M b))) \<and>
     (\<forall>M a b. evaluates_to S M (mk_gt L a b) =
        ZBool (z3_number (evaluates_to S M a) > z3_number (evaluates_to S M b))) \<and>
     (\<forall>M a b. evaluates_to S M (mk_ge L a b) =
        ZBool (z3_number (evaluates_to S M a) \<ge> z3_number (evaluates_to S M b))) \<and>
     (\<forall>M a b. evaluates_to S M (mk_add L a b) =
        ZInt (z3_number (evaluates_to S M a) + z3_number (evaluates_to S M b)) \<and> ast_sort S (mk_add L a b) = sort_int L) \<and>
     (\<forall>M a b. evaluates_to S M (mk_sub L a b) =
        ZInt (z3_number (evaluates_to S M a) - z3_number (evaluates_to S M b)) \<and> ast_sort S (mk_sub L a b) = sort_int L) \<and>
     (\<forall>M a b. evaluates_to S M (mk_mul L a b) =
        ZInt (z3_number (evaluates_to S M a) * z3_number (evaluates_to S M b)) \<and> ast_sort S (mk_mul L a b) = sort_int L) \<and>
     (\<forall>M a b. z3_number (evaluates_to S M b) > 0 \<longrightarrow> evaluates_to S M (mk_div L a b) =
        ZInt (z3_number (evaluates_to S M a) div z3_number (evaluates_to S M b))) \<and>
     (\<forall>a b. ast_sort S (mk_div L a b) = sort_int L) \<and>
     (\<forall>M a. evaluates_to S M (mk_neg L a) = ZInt (- z3_number (evaluates_to S M a)) \<and>
        ast_sort S (mk_neg L a) = sort_int L) \<and>
     (\<forall>a. dynamic_as_int L a = (if ast_sort S a = sort_int L then Some a else None))"

definition documented_sequences :: "('ast, 'sort) Library \<Rightarrow> ('ast, 'sort, 'model) Semantics \<Rightarrow> bool" where
  "documented_sequences L S \<longleftrightarrow>
     (\<forall>M s. evaluates_to S M (seq_empty L s) = ZSeq [] \<and> ast_sort S (seq_empty L s) = sort_seq L s) \<and>
     (\<forall>M a. evaluates_to S M (seq_unit L a) = ZSeq [evaluates_to S M a] \<and>
        ast_sort S (seq_unit L a) = sort_seq L (ast_sort S a)) \<and>
     (\<forall>M as. evaluates_to S M (seq_concat L as) = ZSeq (concat (map (\<lambda>a. z3_items (evaluates_to S M a)) as))) \<and>
     (\<forall>a as. ast_sort S (seq_concat L (a # as)) = ast_sort S a) \<and>
     (\<forall>M a. evaluates_to S M (seq_length L a) = ZInt (int (length (z3_items (evaluates_to S M a)))) \<and>
        ast_sort S (seq_length L a) = sort_int L) \<and>
     (\<forall>M a e. evaluates_to S M (seq_contains L a (seq_unit L e)) =
        ZBool (evaluates_to S M e \<in> set (z3_items (evaluates_to S M a)))) \<and>
     (\<forall>a i s. ast_sort S a = sort_seq L s \<longrightarrow> ast_sort S (seq_nth L a i) = s) \<and>
     (\<forall>M a i is. evaluates_to S M a = ZSeq (map ZInt is) \<longrightarrow>
        evaluates_to S M (seq_nth L a i) =
          (let k = z3_number (evaluates_to S M i)
           in ZInt (if 0 \<le> k \<and> k < int (length is) then is ! nat k else out_of_range S M is k)))"

definition documented_constants :: "('ast, 'sort) Library \<Rightarrow> ('ast, 'sort, 'model) Semantics \<Rightarrow> bool" where
  "documented_constants L S \<longleftrightarrow>
     sort_int L \<noteq> sort_bool L \<and> sort_int L \<noteq> sort_seq L (sort_int L) \<and>
     (\<forall>x s. ast_sort S (new_const L x s) = s) \<and>
     (\<forall>M x. \<exists>b. evaluates_to S M (new_const L x (sort_bool L)) = ZBool b) \<and>
     (\<forall>M x. \<exists>i. evaluates_to S M (new_const L x (sort_int L)) = ZInt i) \<and>
     (\<forall>M x. \<exists>is. evaluates_to S M (new_const L x (sort_seq L (sort_int L))) = ZSeq (map ZInt is)) \<and>
     (\<forall>M x k y s. evaluates_to S (bind_int S M x k) (new_const L y s) =
        (if y = x \<and> s = sort_int L then ZInt k else evaluates_to S M (new_const L y s))) \<and>
     (\<forall>M x k. out_of_range S (bind_int S M x k) = out_of_range S M) \<and>
     (\<forall>M x body. evaluates_to S M (mk_forall L [new_const L x (sort_int L)] body) =
        ZBool (\<forall>k. z3_truth (evaluates_to S (bind_int S M x k) body)))"

definition documented :: "('ast, 'sort) Library \<Rightarrow> ('ast, 'sort, 'model) Semantics \<Rightarrow> bool" where
  "documented L S \<longleftrightarrow>
     documented_booleans L S \<and> documented_integers L S \<and> documented_sequences L S \<and> documented_constants L S"

section \<open>Denotation of lowered terms\<close>

text \<open>The value a lowered term stands for in a model, for the kinds of values covered here.\<close>

fun denotes :: "('ast, 'sort) Library \<Rightarrow> ('ast, 'sort, 'model) Semantics \<Rightarrow> 'model \<Rightarrow> 'ast Z3Term \<Rightarrow> Value \<Rightarrow> bool" where
  "denotes L S M (Z3Term.Bool a) v \<longleftrightarrow> (\<exists>b. v = VBool b \<and> evaluates_to S M a = ZBool b)"
| "denotes L S M (Z3Term.Int a) v \<longleftrightarrow> (\<exists>i. v = VInt i \<and> evaluates_to S M a = ZInt i \<and> ast_sort S a = sort_int L)"
| "denotes L S M Z3Term.Unit v \<longleftrightarrow> v = VUnit"
| "denotes L S M (Z3Term.Tuple as) v \<longleftrightarrow>
     (case v of VTuple vs \<Rightarrow> length as = length vs \<and> (\<forall>(a, v) \<in> set (zip as vs). denotes L S M a v) | _ \<Rightarrow> False)"
| "denotes L S M (Z3Term.VariadicTuple a s) v \<longleftrightarrow>
     (\<exists>is. s = Sort.Int \<and> v = VVariadic Sort.Int (map VInt is) \<and> evaluates_to S M a = ZSeq (map ZInt is) \<and>
        ast_sort S a = sort_seq L (sort_int L))"
| "denotes L S M (Z3Term.List a s) v \<longleftrightarrow>
     (\<exists>is. s = Sort.Int \<and> v = VList Sort.Int (map VInt is) \<and> evaluates_to S M a = ZSeq (map ZInt is) \<and>
        ast_sort S a = sort_seq L (sort_int L))"
| "denotes L S M _ v \<longleftrightarrow> False"

lemma denotes_Tuple:
  "denotes L S M (Z3Term.Tuple as) v \<longleftrightarrow> (\<exists>vs. v = VTuple vs \<and> list_all2 (denotes L S M) as vs)"
  by (cases v) (auto simp: list_all2_iff)

declare denotes.simps(4) [simp del]
declare denotes_Tuple [simp]
section \<open>The terms covered\<close>

definition machine_slice :: "nat \<Rightarrow> int option \<Rightarrow> int option \<Rightarrow> int \<Rightarrow> bool" where
  "machine_slice len low up step \<longleftrightarrow>
     step \<noteq> 0 \<and> (\<forall>b \<in> set_option low \<union> set_option up. in_i128 b) \<and> len < 2 ^ 64"

definition sliced_literal :: "Term \<Rightarrow> int option \<Rightarrow> int option \<Rightarrow> int \<Rightarrow> bool" where
  "sliced_literal source low up step =
     (case source of
        Term.List s vs \<Rightarrow> machine_slice (length vs) low up step
      | Term.VariadicTuple s vs \<Rightarrow> machine_slice (length vs) low up step
      | _ \<Rightarrow> False)"

text \<open>
  Terms over booleans, integers, fixed tuples and sequences of integers, in which each variable has
  the one sort \<open>\<Gamma>\<close> gives it, and the list operations that have symbolic results are applied to
  literals the solver evaluates.
\<close>

fun covered :: "(string \<Rightarrow> Sort) \<Rightarrow> Term \<Rightarrow> bool" where
  "covered \<Gamma> (Term.Bool b) = True"
| "covered \<Gamma> (Term.Int v) = True"
| "covered \<Gamma> Term.Unit = True"
| "covered \<Gamma> (Variable x s) =
     (\<Gamma> x = s \<and> s \<in> {Sort.Bool, Sort.Int, Sort.List Sort.Int, Sort.VariadicTuple Sort.Int})"
| "covered \<Gamma> (IntEnumValue descriptor value) = covered \<Gamma> value"
| "covered \<Gamma> (IntEnumProjection value) = covered \<Gamma> value"
| "covered \<Gamma> (IntEnumDomain value) = covered \<Gamma> value"
| "covered \<Gamma> (IntEnumIdentity left right) = (covered \<Gamma> left \<and> covered \<Gamma> right)"
| "covered \<Gamma> (Term.Not value) = covered \<Gamma> value"
| "covered \<Gamma> (Term.And values) = (\<forall>value \<in> set values. covered \<Gamma> value)"
| "covered \<Gamma> (Term.Or values) = (\<forall>value \<in> set values. covered \<Gamma> value)"
| "covered \<Gamma> (Implies left right) = (covered \<Gamma> left \<and> covered \<Gamma> right)"
| "covered \<Gamma> (IfThenElse condition left right) = (covered \<Gamma> condition \<and> covered \<Gamma> left \<and> covered \<Gamma> right)"
| "covered \<Gamma> (Equal left right) = (covered \<Gamma> left \<and> covered \<Gamma> right)"
| "covered \<Gamma> (Less left right) = (covered \<Gamma> left \<and> covered \<Gamma> right)"
| "covered \<Gamma> (LessEqual left right) = (covered \<Gamma> left \<and> covered \<Gamma> right)"
| "covered \<Gamma> (Greater left right) = (covered \<Gamma> left \<and> covered \<Gamma> right)"
| "covered \<Gamma> (GreaterEqual left right) = (covered \<Gamma> left \<and> covered \<Gamma> right)"
| "covered \<Gamma> (Term.Add left right) = (covered \<Gamma> left \<and> covered \<Gamma> right)"
| "covered \<Gamma> (Subtract left right) = (covered \<Gamma> left \<and> covered \<Gamma> right)"
| "covered \<Gamma> (Multiply left right) = (covered \<Gamma> left \<and> covered \<Gamma> right)"
| "covered \<Gamma> (FloorDivideByPositive value divisor) = covered \<Gamma> value"
| "covered \<Gamma> (Negate value) = covered \<Gamma> value"
| "covered \<Gamma> (Term.Tuple values) = (\<forall>value \<in> set values. covered \<Gamma> value)"
| "covered \<Gamma> (TupleGet tuple index) = covered \<Gamma> tuple"
| "covered \<Gamma> (Term.VariadicTuple s values) = (s = Sort.Int \<and> (\<forall>value \<in> set values. covered \<Gamma> value))"
| "covered \<Gamma> (VariadicTupleLength value) = covered \<Gamma> value"
| "covered \<Gamma> (VariadicTupleGet tuple index) = (covered \<Gamma> tuple \<and> covered \<Gamma> index)"
| "covered \<Gamma> (VariadicTupleSlice source low up step) = (covered \<Gamma> source \<and> sliced_literal source low up step)"
| "covered \<Gamma> (Term.List s values) = (s = Sort.Int \<and> (\<forall>value \<in> set values. covered \<Gamma> value))"
| "covered \<Gamma> (ListLength value) = covered \<Gamma> value"
| "covered \<Gamma> (ListGet list index) = (covered \<Gamma> list \<and> covered \<Gamma> index)"
| "covered \<Gamma> (ListContains list value) = (covered \<Gamma> list \<and> covered \<Gamma> value)"
| "covered \<Gamma> (ListSlice source low up step) = (covered \<Gamma> source \<and> sliced_literal source low up step)"
| "covered \<Gamma> (ListConcat left right) = (covered \<Gamma> left \<and> covered \<Gamma> right)"
| "covered \<Gamma> (ListSum source) = (covered \<Gamma> source \<and> concrete_integer_list source \<noteq> None \<and> slices_settled source)"
| "covered \<Gamma> (ListSorted source) = (covered \<Gamma> source \<and> concrete_integer_list source \<noteq> None \<and> slices_settled source)"
| "covered \<Gamma> (ForAll x s body) = (s = Sort.Int \<and> \<Gamma> x = Sort.Int \<and> covered \<Gamma> body)"
| "covered \<Gamma> _ = False"

text \<open>The environment a model gives.\<close>

definition model_integers :: "('ast, 'sort) Library \<Rightarrow> ('ast, 'sort, 'model) Semantics \<Rightarrow> 'model \<Rightarrow> string \<Rightarrow> Value list" where
  "model_integers L S M x =
     map (\<lambda>v. VInt (z3_number v)) (z3_items (evaluates_to S M (new_const L x (sort_seq L (sort_int L)))))"

definition model_env ::
  "('ast, 'sort) Library \<Rightarrow> ('ast, 'sort, 'model) Semantics \<Rightarrow> (string \<Rightarrow> Sort) \<Rightarrow> 'model \<Rightarrow> string \<Rightarrow> Value" where
  "model_env L S \<Gamma> M x =
     (case \<Gamma> x of
        Sort.Bool \<Rightarrow> VBool (z3_truth (evaluates_to S M (new_const L x (sort_bool L))))
      | Sort.Int \<Rightarrow> VInt (z3_number (evaluates_to S M (new_const L x (sort_int L))))
      | Sort.List s \<Rightarrow> VList Sort.Int (model_integers L S M x)
      | Sort.VariadicTuple s \<Rightarrow> VVariadic Sort.Int (model_integers L S M x)
      | _ \<Rightarrow> VUnit)"

section \<open>Lowering step by step\<close>

lemma as_bool_Ok [simp]: "as_bool t = Ok v \<longleftrightarrow> t = Z3Term.Bool v"
  by (cases t) (simp_all add: as_bool_def)

lemma as_int_Ok [simp]: "as_int t = Ok v \<longleftrightarrow> t = Z3Term.Int v"
  by (cases t) (simp_all add: as_int_def)

lemma int_operands_Ok [simp]:
  "int_operands left right build = Ok t \<longleftrightarrow>
     (\<exists>l r. left = Ok (Z3Term.Int l) \<and> right = Ok (Z3Term.Int r) \<and> t = build l r)"
  by (auto simp: int_operands_def)

lemma with_list_Ok [simp]:
  "with_list problem t f = Ok r \<longleftrightarrow> (\<exists>v s. t = Ok (Z3Term.List v s) \<and> f v s = Ok r)"
proof -
  have "(case t of Z3Term.List v s \<Rightarrow> f v s | _ \<Rightarrow> Err problem) = Ok r \<longleftrightarrow>
      (\<exists>v s. t = Z3Term.List v s \<and> f v s = Ok r)" for t
    by (cases t) simp_all
  then show ?thesis by (auto simp: with_list_def)
qed

lemma with_variadic_Ok [simp]:
  "with_variadic problem t f = Ok r \<longleftrightarrow> (\<exists>v s. t = Ok (Z3Term.VariadicTuple v s) \<and> f v s = Ok r)"
proof -
  have "(case t of Z3Term.VariadicTuple v s \<Rightarrow> f v s | _ \<Rightarrow> Err problem) = Ok r \<longleftrightarrow>
      (\<exists>v s. t = Z3Term.VariadicTuple v s \<and> f v s = Ok r)" for t
    by (cases t) simp_all
  then show ?thesis by (auto simp: with_variadic_def)
qed

lemma tuple_item_Ok [simp]: "tuple_item t i = Ok r \<longleftrightarrow> (\<exists>ts. t = Z3Term.Tuple ts \<and> i < length ts \<and> r = ts ! i)"
  by (cases t) (auto simp: tuple_item_def)

lemma into_int_Ok [simp]: "into_dynamic_element L t Sort.Int = Ok v \<longleftrightarrow> t = Z3Term.Int v"
  by (subst into_dynamic_element.simps) (cases t, simp_all add: element_mismatch_def)

lemma ok_or_Ok [simp]: "ok_or e r = Ok v \<longleftrightarrow> r = Some v"
  by (cases r) (simp_all add: ok_or_def)

text \<open>The lowered elements of a literal integer sequence.\<close>

lemma lowered_units:
  "collect_while_ok (\<lambda>value. res_bind (lower L value) (\<lambda>v.
      res_bind (into_dynamic_element L v Sort.Int) (\<lambda>d. Ok (seq_unit L d)))) values = Ok units \<longleftrightarrow>
    (\<exists>ds. list_all2 (\<lambda>value d. lower L value = Ok (Z3Term.Int d)) values ds \<and> units = map (seq_unit L) ds)"
proof -
  have "list_all2 (\<lambda>value u. \<exists>d. lower L value = Ok (Z3Term.Int d) \<and> seq_unit L d = u) values units \<longleftrightarrow>
      (\<exists>ds. list_all2 (\<lambda>value d. lower L value = Ok (Z3Term.Int d)) values ds \<and> units = map (seq_unit L) ds)"
  proof (induction "values" arbitrary: units)
    case Nil
    then show ?case by simp
  next
    case (Cons v vs)
    note IH = Cons.IH
    show ?case
    proof
      assume "list_all2 (\<lambda>value u. \<exists>d. lower L value = Ok (Z3Term.Int d) \<and> seq_unit L d = u) (v # vs) units"
      then obtain d us where units: "units = seq_unit L d # us" "lower L v = Ok (Z3Term.Int d)"
        "list_all2 (\<lambda>value u. \<exists>d. lower L value = Ok (Z3Term.Int d) \<and> seq_unit L d = u) vs us"
        by (auto simp: list_all2_Cons1)
      from units(3) obtain ds where "list_all2 (\<lambda>value d. lower L value = Ok (Z3Term.Int d)) vs ds" "us = map (seq_unit L) ds"
        unfolding IH by blast
      with units show "\<exists>ds. list_all2 (\<lambda>value d. lower L value = Ok (Z3Term.Int d)) (v # vs) ds \<and> units = map (seq_unit L) ds"
        by (intro exI [of _ "d # ds"]) simp
    next
      assume "\<exists>ds. list_all2 (\<lambda>value d. lower L value = Ok (Z3Term.Int d)) (v # vs) ds \<and> units = map (seq_unit L) ds"
      then obtain d ds where "lower L v = Ok (Z3Term.Int d)" "list_all2 (\<lambda>value d. lower L value = Ok (Z3Term.Int d)) vs ds"
        "units = seq_unit L d # map (seq_unit L) ds"
        by (auto simp: list_all2_Cons1)
      with IH [of "map (seq_unit L) ds"]
      show "list_all2 (\<lambda>value u. \<exists>d. lower L value = Ok (Z3Term.Int d) \<and> seq_unit L d = u) (v # vs) units"
        by auto
    qed
  qed
  moreover have "(\<exists>t. lower L value = Ok t \<and> (\<exists>d. t = Z3Term.Int d \<and> seq_unit L d = u)) \<longleftrightarrow>
      (\<exists>d. lower L value = Ok (Z3Term.Int d) \<and> seq_unit L d = u)" for "value" u
    by blast
  ultimately show ?thesis by (simp add: collect_while_ok_eq_Inr)
qed

lemma join_units_value:
  assumes "documented L S"
  shows "evaluates_to S M (join_units L s (map (seq_unit L) ds)) = ZSeq (map (evaluates_to S M) ds) \<and>
    (s = sort_int L \<longrightarrow> (\<forall>d \<in> set ds. ast_sort S d = sort_int L) \<longrightarrow>
       ast_sort S (join_units L s (map (seq_unit L) ds)) = sort_seq L (sort_int L))"
proof -
  have laws: "\<And>M s. evaluates_to S M (seq_empty L s) = ZSeq []" "\<And>s. ast_sort S (seq_empty L s) = sort_seq L s"
    "\<And>M a. evaluates_to S M (seq_unit L a) = ZSeq [evaluates_to S M a]"
    "\<And>a. ast_sort S (seq_unit L a) = sort_seq L (ast_sort S a)"
    "\<And>M as. evaluates_to S M (seq_concat L as) = ZSeq (concat (map (\<lambda>a. z3_items (evaluates_to S M a)) as))"
    "\<And>a as. ast_sort S (seq_concat L (a # as)) = ast_sort S a"
    using assms by (simp_all add: documented_def documented_sequences_def)
  have flat: "concat (map (\<lambda>d. [evaluates_to S M d]) ds) = map (evaluates_to S M) ds" for ds
    by (induction ds) simp_all
  show ?thesis
    by (cases ds rule: list.exhaust [case_names Nil Cons]; cases "tl ds")
      (auto simp: join_units_def laws comp_def flat)
qed
section \<open>Conditionals, equality and environments\<close>

lemma map_VInt_eq [simp]: "map VInt is = map VInt js \<longleftrightarrow> is = js"
  by (simp add: inj_map_eq_map inj_def)

lemma map_ZInt_eq [simp]: "map ZInt is = map ZInt js \<longleftrightarrow> is = js"
  by (simp add: inj_map_eq_map inj_def)

lemma boolean_laws:
  assumes "documented L S"
  shows "evaluates_to S M (from_bool L b) = ZBool b"
    "evaluates_to S M (mk_not L a) = ZBool (\<not> z3_truth (evaluates_to S M a))"
    "evaluates_to S M (mk_and L as) = ZBool (\<forall>a \<in> set as. z3_truth (evaluates_to S M a))"
    "evaluates_to S M (mk_or L as) = ZBool (\<exists>a \<in> set as. z3_truth (evaluates_to S M a))"
    "evaluates_to S M (mk_implies L a c) = ZBool (z3_truth (evaluates_to S M a) \<longrightarrow> z3_truth (evaluates_to S M c))"
    "evaluates_to S M (mk_ite L c a a') = (if z3_truth (evaluates_to S M c) then evaluates_to S M a else evaluates_to S M a')"
    "ast_sort S (mk_ite L c a a') = ast_sort S a"
    "evaluates_to S M (mk_eq L a a') = ZBool (evaluates_to S M a = evaluates_to S M a')"
  using assms unfolding documented_def documented_booleans_def by simp_all

lemma integer_laws:
  assumes "documented L S"
  shows "evaluates_to S M (from_i64 L i) = ZInt i" "ast_sort S (from_i64 L i) = sort_int L"
    "evaluates_to S M (from_u64 L i) = ZInt i"
    "evaluates_to S M (mk_lt L a b) = ZBool (z3_number (evaluates_to S M a) < z3_number (evaluates_to S M b))"
    "evaluates_to S M (mk_le L a b) = ZBool (z3_number (evaluates_to S M a) \<le> z3_number (evaluates_to S M b))"
    "evaluates_to S M (mk_gt L a b) = ZBool (z3_number (evaluates_to S M a) > z3_number (evaluates_to S M b))"
    "evaluates_to S M (mk_ge L a b) = ZBool (z3_number (evaluates_to S M a) \<ge> z3_number (evaluates_to S M b))"
    "evaluates_to S M (mk_add L a b) = ZInt (z3_number (evaluates_to S M a) + z3_number (evaluates_to S M b))"
    "evaluates_to S M (mk_sub L a b) = ZInt (z3_number (evaluates_to S M a) - z3_number (evaluates_to S M b))"
    "evaluates_to S M (mk_mul L a b) = ZInt (z3_number (evaluates_to S M a) * z3_number (evaluates_to S M b))"
    "z3_number (evaluates_to S M b) > 0 \<Longrightarrow>
       evaluates_to S M (mk_div L a b) = ZInt (z3_number (evaluates_to S M a) div z3_number (evaluates_to S M b))"
    "evaluates_to S M (mk_neg L a) = ZInt (- z3_number (evaluates_to S M a))"
    "ast_sort S (mk_add L a b) = sort_int L" "ast_sort S (mk_sub L a b) = sort_int L"
    "ast_sort S (mk_mul L a b) = sort_int L" "ast_sort S (mk_div L a b) = sort_int L"
    "ast_sort S (mk_neg L a) = sort_int L"
    "dynamic_as_int L a = (if ast_sort S a = sort_int L then Some a else None)"
  using assms unfolding documented_def documented_integers_def by simp_all

lemma literal_law:
  assumes "documented L S"
  shows "\<exists>a. int_from_str L (signed_decimal i) = Some a \<and> (\<forall>M. evaluates_to S M a = ZInt i)"
  using assms unfolding documented_def documented_integers_def by simp

lemma sequence_laws:
  assumes "documented L S"
  shows "evaluates_to S M (seq_length L a) = ZInt (int (length (z3_items (evaluates_to S M a))))"
    "ast_sort S (seq_length L a) = sort_int L"
    "evaluates_to S M (seq_contains L a (seq_unit L e)) = ZBool (evaluates_to S M e \<in> set (z3_items (evaluates_to S M a)))"
    "evaluates_to S M (seq_concat L as) = ZSeq (concat (map (\<lambda>a. z3_items (evaluates_to S M a)) as))"
    "ast_sort S (seq_concat L (a # as)) = ast_sort S a"
  using assms unfolding documented_def documented_sequences_def by simp_all

lemma nth_laws:
  assumes "documented L S" "ast_sort S a = sort_seq L (sort_int L)" "evaluates_to S M a = ZSeq (map ZInt is)"
    "evaluates_to S M i = ZInt k"
  shows "ast_sort S (seq_nth L a i) = sort_int L"
    "evaluates_to S M (seq_nth L a i) = ZInt (if 0 \<le> k \<and> k < int (length is) then is ! nat k else out_of_range S M is k)"
proof -
  show "ast_sort S (seq_nth L a i) = sort_int L"
    using assms(1,2) unfolding documented_def documented_sequences_def by blast
  have "evaluates_to S M (seq_nth L a i) =
      (let k = z3_number (evaluates_to S M i)
       in ZInt (if 0 \<le> k \<and> k < int (length is) then is ! nat k else out_of_range S M is k))"
    using assms(1,3) unfolding documented_def documented_sequences_def by blast
  then show "evaluates_to S M (seq_nth L a i) =
      ZInt (if 0 \<le> k \<and> k < int (length is) then is ! nat k else out_of_range S M is k)"
    by (simp add: assms(4))
qed

lemma constant_laws:
  assumes "documented L S"
  shows "sort_int L \<noteq> sort_bool L" "sort_int L \<noteq> sort_seq L (sort_int L)"
    "ast_sort S (new_const L x s) = s"
    "\<exists>b. evaluates_to S M (new_const L x (sort_bool L)) = ZBool b"
    "\<exists>i. evaluates_to S M (new_const L x (sort_int L)) = ZInt i"
    "\<exists>is. evaluates_to S M (new_const L x (sort_seq L (sort_int L))) = ZSeq (map ZInt is)"
    "evaluates_to S (bind_int S M x k) (new_const L y s) =
       (if y = x \<and> s = sort_int L then ZInt k else evaluates_to S M (new_const L y s))"
    "out_of_range S (bind_int S M x k) = out_of_range S M"
    "evaluates_to S M (mk_forall L [new_const L x (sort_int L)] body) =
       ZBool (\<forall>k. z3_truth (evaluates_to S (bind_int S M x k) body))"
  using assms unfolding documented_def documented_constants_def by simp_all

lemma ite_denotes:
  "documented L S \<Longrightarrow> ite_terms L c t e = Ok r \<Longrightarrow> denotes L S M t v \<Longrightarrow> denotes L S M e w \<Longrightarrow>
    denotes L S M r (if z3_truth (evaluates_to S M c) then v else w)"
proof (induction L c t e arbitrary: r v w rule: ite_terms.induct)
  case (10 L c as e)
  then obtain bs vs ws rs where e: "e = Z3Term.Tuple bs" and len: "length as = length bs" and
    rs: "list_all2 (\<lambda>ab r. ite_terms L c (fst ab) (snd ab) = Ok r) (zip as bs) rs" and r: "r = Z3Term.Tuple rs" and
    v: "v = VTuple vs" "list_all2 (denotes L S M) as vs" and w: "w = VTuple ws" "list_all2 (denotes L S M) bs ws"
    by (cases e) (auto simp: branches_differ_def collect_while_ok_eq_Inr case_prod_beta split: if_splits)
  have "denotes L S M (rs ! i) (if z3_truth (evaluates_to S M c) then vs ! i else ws ! i)" if "i < length as" for i
  proof -
    have "(as ! i, bs ! i) \<in> set (zip as bs)" using that len by (auto simp: set_zip)
    moreover have "ite_terms L c (as ! i) (bs ! i) = Ok (rs ! i)"
      using list_all2_nthD [OF rs, of i] that len by simp
    ultimately show ?thesis
      using 10(1) [OF e len] "10.prems"(1) list_all2_nthD [OF v(2), of i] list_all2_nthD [OF w(2), of i] that len by auto
  qed
  with rs len v w show ?case
    by (auto simp: r list_all2_conv_all_nth)
qed (auto simp: branches_differ_def boolean_laws split: Z3Term.splits if_splits)
lemma equal_denotes:
  "documented L S \<Longrightarrow> equal_terms L l r = Ok a \<Longrightarrow> denotes L S M l v \<Longrightarrow> denotes L S M r w \<Longrightarrow>
    evaluates_to S M a = ZBool (v = w)"
proof (induction L l r arbitrary: a v w rule: equal_terms.induct)
  case (10 L ls right)
  then obtain rs vs ws es where right: "right = Z3Term.Tuple rs" and len: "length ls = length rs" and
    es: "list_all2 (\<lambda>lr e. equal_terms L (fst lr) (snd lr) = Ok e) (zip ls rs) es" and a: "a = mk_and L es" and
    v: "v = VTuple vs" "list_all2 (denotes L S M) ls vs" and w: "w = VTuple ws" "list_all2 (denotes L S M) rs ws"
    by (cases right) (auto simp: operands_differ_def collect_while_ok_eq_Inr case_prod_beta split: if_splits)
  have "evaluates_to S M (es ! i) = ZBool (vs ! i = ws ! i)" if "i < length ls" for i
  proof -
    have "(ls ! i, rs ! i) \<in> set (zip ls rs)" using that len by (auto simp: set_zip)
    moreover have "equal_terms L (ls ! i) (rs ! i) = Ok (es ! i)"
      using list_all2_nthD [OF es, of i] that len by simp
    ultimately show ?thesis
      using 10(1) [OF right len] "10.prems"(1) list_all2_nthD [OF v(2), of i] list_all2_nthD [OF w(2), of i] that len
      by auto
  qed
  moreover have "length es = length ls" "length vs = length ls" "length ws = length ls"
    using es v(2) w(2) len by (auto simp: list_all2_iff)
  ultimately have "(\<forall>e \<in> set es. z3_truth (evaluates_to S M e)) \<longleftrightarrow> vs = ws"
    by (auto simp: list_eq_iff_nth_eq all_set_conv_all_nth)
  then show ?case by (simp add: a v(1) w(1) boolean_laws [OF "10.prems"(1)])
qed (auto simp: operands_differ_def boolean_laws equal_lists_def split: Z3Term.splits if_splits)

lemma model_env_bind:
  assumes "documented L S" "\<Gamma> x = Sort.Int"
  shows "model_env L S \<Gamma> (bind_int S M x k) = (model_env L S \<Gamma> M)(x := VInt k)"
proof
  fix y
  show "model_env L S \<Gamma> (bind_int S M x k) y = ((model_env L S \<Gamma> M)(x := VInt k)) y"
    using assms(2) constant_laws(1,2) [OF assms(1)]
    by (auto simp: model_env_def model_integers_def constant_laws(7) [OF assms(1)] split: Sort.splits)
qed

lemma variable_denotes:
  assumes "documented L S" "\<Gamma> x = s" "s \<in> {Sort.Bool, Sort.Int, Sort.List Sort.Int, Sort.VariadicTuple Sort.Int}"
    "variable_from_sort L x s = Ok t"
  shows "denotes L S M t (model_env L S \<Gamma> M x)"
  using assms constant_laws(4) [OF assms(1), of M x] constant_laws(5) [OF assms(1), of M x]
    constant_laws(6) [OF assms(1), of M x]
  by (auto simp: model_env_def bool_const_def int_const_def seq_const_def model_integers_def comp_def
      constant_laws(3) [OF assms(1)])

text \<open>A literal of integers denotes the list of its elements' values.\<close>

lemma literal_denotes:
  assumes "documented L S" "list_all2 (\<lambda>value d. lower L value = Ok (Z3Term.Int d)) values ds"
    "\<And>value t. value \<in> set values \<Longrightarrow> lower L value = Ok t \<Longrightarrow> denotes L S M t (meaning I env value)"
  shows "\<exists>is. map (meaning I env) values = map VInt is \<and>
    evaluates_to S M (join_units L (sort_int L) (map (seq_unit L) ds)) = ZSeq (map ZInt is) \<and>
    ast_sort S (join_units L (sort_int L) (map (seq_unit L) ds)) = sort_seq L (sort_int L)"
proof -
  from assms(2,3) have "\<exists>is. map (meaning I env) values = map VInt is \<and> map (evaluates_to S M) ds = map ZInt is \<and>
      (\<forall>d \<in> set ds. ast_sort S d = sort_int L)"
  proof (induction rule: list_all2_induct)
    case Nil
    then show ?case by simp
  next
    case (Cons v vs d ds)
    from Cons.IH Cons.prems obtain "is" where "map (meaning I env) vs = map VInt is" "map (evaluates_to S M) ds = map ZInt is"
      "\<forall>d \<in> set ds. ast_sort S d = sort_int L" by auto
    moreover from Cons.prems [of v "Z3Term.Int d"] Cons.hyps obtain i where "meaning I env v = VInt i"
      "evaluates_to S M d = ZInt i" "ast_sort S d = sort_int L" by auto
    ultimately show ?case by (intro exI [of _ "i # is"]) simp
  qed
  then show ?thesis using join_units_value [OF assms(1), of M "sort_int L" ds] by auto
qed

lemma booleans_denote:
  assumes "list_all2 (\<lambda>value a. res_bind (lower L value) as_bool = Ok a) values as"
    "\<And>value t. value \<in> set values \<Longrightarrow> lower L value = Ok t \<Longrightarrow> denotes L S M t (meaning I env value)"
  shows "(\<lambda>a. z3_truth (evaluates_to S M a)) ` set as = (\<lambda>value. truth_of (meaning I env value)) ` set values"
  using assms
proof (induction rule: list_all2_induct)
  case Nil
  then show ?case by simp
next
  case (Cons v vs a as)
  from Cons.hyps Cons.prems [of v "Z3Term.Bool a"]
  have "z3_truth (evaluates_to S M a) = truth_of (meaning I env v)" by auto
  with Cons show ?case by simp
qed

lemma tuple_denotes:
  assumes "list_all2 (\<lambda>value t. lower L value = Ok t) values ts"
    "\<And>value t. value \<in> set values \<Longrightarrow> lower L value = Ok t \<Longrightarrow> denotes L S M t (meaning I env value)"
  shows "list_all2 (denotes L S M) ts (map (meaning I env) values)"
  using assms
proof (induction rule: list_all2_induct)
  case Nil
  then show ?case by simp
next
  case (Cons v vs t ts)
  then show ?case by simp
qed

text \<open>Sums and integer sequences of numbers the solver has evaluated.\<close>

lemma integer_list_sum_value:
  assumes "documented L S"
  shows "evaluates_to S M (integer_list_sum L vs) = ZInt (sum_list vs) \<and> ast_sort S (integer_list_sum L vs) = sort_int L"
proof -
  have "evaluates_to S M (foldl (\<lambda>s v. mk_add L s (from_i64 L v)) a vs) = ZInt (i + sum_list vs) \<and>
      ast_sort S (foldl (\<lambda>s v. mk_add L s (from_i64 L v)) a vs) = sort_int L"
    if "evaluates_to S M a = ZInt i" "ast_sort S a = sort_int L" for a i
    using that by (induction vs arbitrary: a i) (simp_all add: integer_laws [OF assms] algebra_simps)
  from this [of "from_i64 L 0" 0] show ?thesis by (simp add: integer_list_sum_def integer_laws [OF assms])
qed

lemma integer_sequence_value:
  assumes "documented L S"
  shows "evaluates_to S M (integer_sequence L vs) = ZSeq (map ZInt vs) \<and>
    ast_sort S (integer_sequence L vs) = sort_seq L (sort_int L)"
  using join_units_value [OF assms, of M "sort_int L" "map (from_i64 L) vs"]
  by (simp add: integer_sequence_def comp_def integer_laws [OF assms])

lemma concrete_integers_meaning:
  assumes "references_distinct I" "slices_settled source" "concrete_integer_list source = Some is"
  shows "meaning I env source = VList Sort.Int (map VInt is)"
proof -
  from assms(3) obtain vs where source: "source = Term.List Sort.Int vs"
    and vs: "list_all2 (\<lambda>v i. evaluate_constant_term v = Some (Term.Int i)) vs is"
    by (auto simp: concrete_integer_list_def evaluates)
  have "map (meaning I env) vs = map VInt is"
    using vs assms(2) unfolding source
  proof (induction rule: list_all2_induct)
    case Nil
    then show ?case by simp
  next
    case (Cons v vs i "is")
    then show ?case using evaluation_keeps_meaning [OF assms(1), of v "Term.Int i" env] by simp
  qed
  then show ?thesis by (simp add: source)
qed
section \<open>The lowering refines the meaning\<close>

text \<open>The interpretation and the model agree on what lies outside an integer sequence.\<close>

definition agrees_outside :: "Interpretation \<Rightarrow> ('ast, 'sort, 'model) Semantics \<Rightarrow> 'model \<Rightarrow> bool" where
  "agrees_outside I S M \<longleftrightarrow> (\<forall>is i. outside I (map VInt is) i = VInt (out_of_range S M is i))"

definition faithful ::
  "('ast, 'sort) Library \<Rightarrow> ('ast, 'sort, 'model) Semantics \<Rightarrow> Interpretation \<Rightarrow> (string \<Rightarrow> Sort) \<Rightarrow> Term \<Rightarrow> bool" where
  "faithful L S I \<Gamma> t \<longleftrightarrow>
     (\<forall>M lowered. lower L t = Ok lowered \<longrightarrow> agrees_outside I S M \<longrightarrow>
        denotes L S M lowered (meaning I (model_env L S \<Gamma> M) t))"

lemma faithfulI:
  "(\<And>M lowered. lower L t = Ok lowered \<Longrightarrow> agrees_outside I S M \<Longrightarrow>
      denotes L S M lowered (meaning I (model_env L S \<Gamma> M) t)) \<Longrightarrow> faithful L S I \<Gamma> t"
  by (simp add: faithful_def)

lemma faithfulD:
  "faithful L S I \<Gamma> t \<Longrightarrow> lower L t = Ok lowered \<Longrightarrow> agrees_outside I S M \<Longrightarrow>
     denotes L S M lowered (meaning I (model_env L S \<Gamma> M) t)"
  by (simp add: faithful_def)

lemma faithful_int:
  "faithful L S I \<Gamma> t \<Longrightarrow> lower L t = Ok (Z3Term.Int a) \<Longrightarrow> agrees_outside I S M \<Longrightarrow>
     \<exists>i. meaning I (model_env L S \<Gamma> M) t = VInt i \<and> evaluates_to S M a = ZInt i \<and> ast_sort S a = sort_int L"
  using faithfulD by fastforce

lemma faithful_bool:
  "faithful L S I \<Gamma> t \<Longrightarrow> lower L t = Ok (Z3Term.Bool a) \<Longrightarrow> agrees_outside I S M \<Longrightarrow>
     \<exists>b. meaning I (model_env L S \<Gamma> M) t = VBool b \<and> evaluates_to S M a = ZBool b"
  using faithfulD by fastforce

lemma faithful_list:
  "faithful L S I \<Gamma> t \<Longrightarrow> lower L t = Ok (Z3Term.List a s) \<Longrightarrow> agrees_outside I S M \<Longrightarrow>
     s = Sort.Int \<and> (\<exists>is. meaning I (model_env L S \<Gamma> M) t = VList Sort.Int (map VInt is) \<and>
       evaluates_to S M a = ZSeq (map ZInt is) \<and> ast_sort S a = sort_seq L (sort_int L))"
  using faithfulD by fastforce

lemma faithful_variadic:
  "faithful L S I \<Gamma> t \<Longrightarrow> lower L t = Ok (Z3Term.VariadicTuple a s) \<Longrightarrow> agrees_outside I S M \<Longrightarrow>
     s = Sort.Int \<and> (\<exists>is. meaning I (model_env L S \<Gamma> M) t = VVariadic Sort.Int (map VInt is) \<and>
       evaluates_to S M a = ZSeq (map ZInt is) \<and> ast_sort S a = sort_seq L (sort_int L))"
  using faithfulD by fastforce

lemma z3_sort_int [simp]: "z3_sort L Sort.Int = Ok (sort_int L)"
  by simp

lemma list_faithful:
  assumes "documented L S" "\<And>v. v \<in> set vs \<Longrightarrow> faithful L S I \<Gamma> v"
  shows "faithful L S I \<Gamma> (Term.List Sort.Int vs)" "faithful L S I \<Gamma> (Term.VariadicTuple Sort.Int vs)"
proof -
  have literal: "\<exists>is. map (meaning I (model_env L S \<Gamma> M)) vs = map VInt is \<and>
      evaluates_to S M (join_units L (sort_int L) (map (seq_unit L) ds)) = ZSeq (map ZInt is) \<and>
      ast_sort S (join_units L (sort_int L) (map (seq_unit L) ds)) = sort_seq L (sort_int L)"
    if "list_all2 (\<lambda>v d. lower L v = Ok (Z3Term.Int d)) vs ds" "agrees_outside I S M" for ds M
    by (rule literal_denotes [OF assms(1) that(1)]) (rule faithfulD [OF assms(2) _ that(2)])
  show "faithful L S I \<Gamma> (Term.List Sort.Int vs)"
  proof (rule faithfulI)
    fix M lowered
    assume "lower L (Term.List Sort.Int vs) = Ok lowered" and out: "agrees_outside I S M"
    then obtain ds where "list_all2 (\<lambda>v d. lower L v = Ok (Z3Term.Int d)) vs ds"
      and "lowered = Z3Term.List (join_units L (sort_int L) (map (seq_unit L) ds)) Sort.Int"
      by (auto simp: lowered_units)
    with literal [OF _ out] show "denotes L S M lowered (meaning I (model_env L S \<Gamma> M) (Term.List Sort.Int vs))"
      by auto
  qed
  show "faithful L S I \<Gamma> (Term.VariadicTuple Sort.Int vs)"
  proof (rule faithfulI)
    fix M lowered
    assume "lower L (Term.VariadicTuple Sort.Int vs) = Ok lowered" and out: "agrees_outside I S M"
    then obtain ds where "list_all2 (\<lambda>v d. lower L v = Ok (Z3Term.Int d)) vs ds"
      and "lowered = Z3Term.VariadicTuple (join_units L (sort_int L) (map (seq_unit L) ds)) Sort.Int"
      by (auto simp: lowered_units)
    with literal [OF _ out] show "denotes L S M lowered (meaning I (model_env L S \<Gamma> M) (Term.VariadicTuple Sort.Int vs))"
      by auto
  qed
qed

lemma list_slice_faithful:
  assumes "documented L S" "\<And>v. v \<in> set vs \<Longrightarrow> faithful L S I \<Gamma> v" "machine_slice (length vs) low up step"
  shows "faithful L S I \<Gamma> (ListSlice (Term.List Sort.Int vs) low up step)"
    "faithful L S I \<Gamma> (VariadicTupleSlice (Term.VariadicTuple Sort.Int vs) low up step)"
proof -
  let ?ws = "python_slice vs low up step"
  have step: "step \<noteq> 0" and selected: "select_slice vs low up step = Some ?ws"
    using assms(3) settled_slice_select by (auto simp: machine_slice_def)
  have elements: "faithful L S I \<Gamma> v" if "v \<in> set ?ws" for v
    using that set_python_slice [OF step, of vs low up] assms(2) by blast
  have literal_faithful: "faithful L S I \<Gamma> (Term.List Sort.Int ?ws)" "faithful L S I \<Gamma> (Term.VariadicTuple Sort.Int ?ws)"
    by (rule list_faithful [OF assms(1)], erule elements)+
  have "lower L (ListSlice (Term.List Sort.Int vs) low up step) = lower L (Term.List Sort.Int ?ws)"
    using step selected by (simp add: concrete_static_list_slice_def)
  moreover have "meaning I env (Term.List Sort.Int ?ws) = meaning I env (ListSlice (Term.List Sort.Int vs) low up step)" for env
    by (simp add: python_slice_map [OF step])
  ultimately show "faithful L S I \<Gamma> (ListSlice (Term.List Sort.Int vs) low up step)"
    using literal_faithful(1) unfolding faithful_def by (simp only:)
  have "lower L (VariadicTupleSlice (Term.VariadicTuple Sort.Int vs) low up step) = lower L (Term.VariadicTuple Sort.Int ?ws)"
    using step selected by (simp add: concrete_static_variadic_tuple_slice_def)
  moreover have "meaning I env (Term.VariadicTuple Sort.Int ?ws) =
      meaning I env (VariadicTupleSlice (Term.VariadicTuple Sort.Int vs) low up step)" for env
    by (simp add: python_slice_map [OF step])
  ultimately show "faithful L S I \<Gamma> (VariadicTupleSlice (Term.VariadicTuple Sort.Int vs) low up step)"
    using literal_faithful(2) unfolding faithful_def by (simp only:)
qed
fun literal_items :: "Term \<Rightarrow> Term set" where
  "literal_items (Term.List s vs) = set vs"
| "literal_items (Term.VariadicTuple s vs) = set vs"
| "literal_items _ = {}"

lemma z3_truth_ball: "(\<forall>a \<in> A. z3_truth (f a)) \<longleftrightarrow> False \<notin> (\<lambda>a. z3_truth (f a)) ` A"
  by auto

lemma z3_truth_bex: "(\<exists>a \<in> A. z3_truth (f a)) \<longleftrightarrow> True \<in> (\<lambda>a. z3_truth (f a)) ` A"
  by auto

lemma int_enum_parts_descriptor: "int_enum_parts v = Some (d, inner) \<Longrightarrow> descriptor_of v = Some d"
  by (cases v) (simp_all add: int_enum_parts_def descriptor_of_def)

lemma int_enum_lowering:
  "int_enum_parts v = Some (d, inner) \<Longrightarrow> lower L inner = Ok (Z3Term.Int a) \<Longrightarrow>
     lower L v = Ok (Z3Term.Int a) \<and> descriptor_of v = Some d"
  by (cases v) (auto simp: int_enum_parts_def descriptor_of_def)

lemma element_at_model:
  "agrees_outside I S M \<Longrightarrow> element_at I (map VInt is) k =
     VInt (if 0 \<le> k \<and> k < int (length is) then is ! nat k else out_of_range S M is k)"
  by (auto simp: element_at_def agrees_outside_def)

lemma comparison_faithful:
  assumes "documented L S" "faithful L S I \<Gamma> left" "faithful L S I \<Gamma> right"
  shows "faithful L S I \<Gamma> (Less left right)" "faithful L S I \<Gamma> (LessEqual left right)"
    "faithful L S I \<Gamma> (Greater left right)" "faithful L S I \<Gamma> (GreaterEqual left right)"
    "faithful L S I \<Gamma> (Term.Add left right)" "faithful L S I \<Gamma> (Subtract left right)"
    "faithful L S I \<Gamma> (Multiply left right)"
  by (rule faithfulI; use assms faithful_int [OF assms(2)] faithful_int [OF assms(3)] in
      \<open>fastforce simp: integer_laws [OF assms(1)]\<close>)+

lemma connective_faithful:
  assumes "documented L S" "\<And>v. v \<in> set vs \<Longrightarrow> faithful L S I \<Gamma> v"
  shows "faithful L S I \<Gamma> (Term.And vs)" "faithful L S I \<Gamma> (Term.Or vs)" "faithful L S I \<Gamma> (Term.Tuple vs)"
proof -
  have truths: "(\<lambda>a. z3_truth (evaluates_to S M a)) ` set as =
      (\<lambda>v. truth_of (meaning I (model_env L S \<Gamma> M) v)) ` set vs"
    if "list_all2 (\<lambda>v a. res_bind (lower L v) as_bool = Ok a) vs as" "agrees_outside I S M" for as M
    by (rule booleans_denote [OF that(1)]) (rule faithfulD [OF assms(2) _ that(2)])
  show "faithful L S I \<Gamma> (Term.And vs)"
  proof (rule faithfulI)
    fix M lowered
    assume low: "lower L (Term.And vs) = Ok lowered" and out: "agrees_outside I S M"
    from low obtain as where as: "list_all2 (\<lambda>v a. res_bind (lower L v) as_bool = Ok a) vs as"
      and lowered: "lowered = Z3Term.Bool (mk_and L as)" unfolding lower.simps res_bind_eq_Inr collect_while_ok_eq_Inr by auto
    show "denotes L S M lowered (meaning I (model_env L S \<Gamma> M) (Term.And vs))"
      using truths [OF as out] by (auto simp: lowered boolean_laws [OF assms(1)] z3_truth_ball)
  qed
  show "faithful L S I \<Gamma> (Term.Or vs)"
  proof (rule faithfulI)
    fix M lowered
    assume low: "lower L (Term.Or vs) = Ok lowered" and out: "agrees_outside I S M"
    from low obtain as where as: "list_all2 (\<lambda>v a. res_bind (lower L v) as_bool = Ok a) vs as"
      and lowered: "lowered = Z3Term.Bool (mk_or L as)" unfolding lower.simps res_bind_eq_Inr collect_while_ok_eq_Inr by auto
    show "denotes L S M lowered (meaning I (model_env L S \<Gamma> M) (Term.Or vs))"
      using truths [OF as out] by (auto simp: lowered boolean_laws [OF assms(1)] z3_truth_bex)
  qed
  show "faithful L S I \<Gamma> (Term.Tuple vs)"
  proof (rule faithfulI)
    fix M lowered
    assume low: "lower L (Term.Tuple vs) = Ok lowered" and out: "agrees_outside I S M"
    from low obtain ts where ts: "list_all2 (\<lambda>v t. lower L v = Ok t) vs ts" and lowered: "lowered = Z3Term.Tuple ts"
      by (auto simp: collect_while_ok_eq_Inr)
    have "list_all2 (denotes L S M) ts (map (meaning I (model_env L S \<Gamma> M)) vs)"
      by (rule tuple_denotes [OF ts]) (rule faithfulD [OF assms(2) _ out])
    then show "denotes L S M lowered (meaning I (model_env L S \<Gamma> M) (Term.Tuple vs))"
      by (simp add: lowered)
  qed
qed

lemma sequence_operation_faithful:
  assumes "documented L S" "faithful L S I \<Gamma> left" "faithful L S I \<Gamma> right"
  shows "faithful L S I \<Gamma> (ListLength left)" "faithful L S I \<Gamma> (VariadicTupleLength left)"
    "faithful L S I \<Gamma> (ListGet left right)" "faithful L S I \<Gamma> (VariadicTupleGet left right)"
    "faithful L S I \<Gamma> (ListContains left right)" "faithful L S I \<Gamma> (ListConcat left right)"
proof -
  show "faithful L S I \<Gamma> (ListLength left)"
    by (rule faithfulI) (use faithful_list [OF assms(2)] in \<open>fastforce simp: sequence_laws [OF assms(1)]\<close>)
  show "faithful L S I \<Gamma> (VariadicTupleLength left)"
    by (rule faithfulI) (use faithful_variadic [OF assms(2)] in \<open>fastforce simp: sequence_laws [OF assms(1)]\<close>)
  show "faithful L S I \<Gamma> (ListGet left right)"
  proof (rule faithfulI)
    fix M lowered
    assume low: "lower L (ListGet left right) = Ok lowered" and out: "agrees_outside I S M"
    then obtain a s i where parts: "lower L left = Ok (Z3Term.List a s)" "lower L right = Ok (Z3Term.Int i)"
      and item: "dynamic_from_sort L (seq_nth L a i) s = Ok lowered" by auto
    from faithful_list [OF assms(2) parts(1) out] obtain "is" where a: "s = Sort.Int"
      "meaning I (model_env L S \<Gamma> M) left = VList Sort.Int (map VInt is)" "evaluates_to S M a = ZSeq (map ZInt is)"
      "ast_sort S a = sort_seq L (sort_int L)" by blast
    from faithful_int [OF assms(3) parts(2) out] obtain k where k:
      "meaning I (model_env L S \<Gamma> M) right = VInt k" "evaluates_to S M i = ZInt k" by blast
    note nth = nth_laws [OF assms(1) a(4,3) k(2)]
    from item show "denotes L S M lowered (meaning I (model_env L S \<Gamma> M) (ListGet left right))"
      by (auto simp: a(1,2) k(1) nth integer_laws(18) [OF assms(1)] element_at_model [OF out])
  qed
  show "faithful L S I \<Gamma> (VariadicTupleGet left right)"
  proof (rule faithfulI)
    fix M lowered
    assume low: "lower L (VariadicTupleGet left right) = Ok lowered" and out: "agrees_outside I S M"
    then obtain a s i where parts: "lower L left = Ok (Z3Term.VariadicTuple a s)" "lower L right = Ok (Z3Term.Int i)"
      and item: "dynamic_from_sort L (seq_nth L a i) s = Ok lowered" by auto
    from faithful_variadic [OF assms(2) parts(1) out] obtain "is" where a: "s = Sort.Int"
      "meaning I (model_env L S \<Gamma> M) left = VVariadic Sort.Int (map VInt is)" "evaluates_to S M a = ZSeq (map ZInt is)"
      "ast_sort S a = sort_seq L (sort_int L)" by blast
    from faithful_int [OF assms(3) parts(2) out] obtain k where k:
      "meaning I (model_env L S \<Gamma> M) right = VInt k" "evaluates_to S M i = ZInt k" by blast
    note nth = nth_laws [OF assms(1) a(4,3) k(2)]
    from item show "denotes L S M lowered (meaning I (model_env L S \<Gamma> M) (VariadicTupleGet left right))"
      by (auto simp: a(1,2) k(1) nth integer_laws(18) [OF assms(1)] element_at_model [OF out])
  qed
  show "faithful L S I \<Gamma> (ListContains left right)"
  proof (rule faithfulI)
    fix M lowered
    assume low: "lower L (ListContains left right) = Ok lowered" and out: "agrees_outside I S M"
    then obtain a s r e where parts: "lower L left = Ok (Z3Term.List a s)" "lower L right = Ok r"
      "into_dynamic_element L r s = Ok e" and lowered: "lowered = Z3Term.Bool (seq_contains L a (seq_unit L e))" by auto
    from faithful_list [OF assms(2) parts(1) out] obtain "is" where a: "s = Sort.Int"
      "meaning I (model_env L S \<Gamma> M) left = VList Sort.Int (map VInt is)" "evaluates_to S M a = ZSeq (map ZInt is)"
      by blast
    from parts(3) a(1) have "r = Z3Term.Int e" by simp
    with faithful_int [OF assms(3) _ out] parts(2) obtain k where
      "meaning I (model_env L S \<Gamma> M) right = VInt k" "evaluates_to S M e = ZInt k" by blast
    with a show "denotes L S M lowered (meaning I (model_env L S \<Gamma> M) (ListContains left right))"
      by (auto simp: lowered sequence_laws [OF assms(1)])
  qed
  show "faithful L S I \<Gamma> (ListConcat left right)"
    by (rule faithfulI) (use faithful_list [OF assms(2)] faithful_list [OF assms(3)] in
      \<open>fastforce simp: sequence_laws [OF assms(1)] map_append [symmetric] split: if_splits simp del: map_append\<close>)
qed
lemma atoms_faithful:
  assumes "documented L S"
  shows "faithful L S I \<Gamma> (Term.Bool b)" "faithful L S I \<Gamma> (Term.Int i)" "faithful L S I \<Gamma> Term.Unit"
    "covered \<Gamma> (Variable x s) \<Longrightarrow> faithful L S I \<Gamma> (Variable x s)"
proof -
  show "faithful L S I \<Gamma> (Term.Bool b)" "faithful L S I \<Gamma> (Term.Int i)" "faithful L S I \<Gamma> Term.Unit"
    by (auto intro!: faithfulI simp: boolean_laws [OF assms] integer_laws [OF assms])
  assume "covered \<Gamma> (Variable x s)"
  then show "faithful L S I \<Gamma> (Variable x s)"
    using variable_denotes [OF assms, of \<Gamma> x s] by (intro faithfulI) auto
qed

lemma int_enum_faithful:
  assumes "documented L S" "faithful L S I \<Gamma> left" "faithful L S I \<Gamma> right"
  shows "faithful L S I \<Gamma> (IntEnumValue d left)" "faithful L S I \<Gamma> (IntEnumProjection left)"
    "faithful L S I \<Gamma> (IntEnumDomain left)" "faithful L S I \<Gamma> (IntEnumIdentity left right)"
proof -
  show "faithful L S I \<Gamma> (IntEnumValue d left)" "faithful L S I \<Gamma> (IntEnumProjection left)"
    by (rule faithfulI; use faithful_int [OF assms(2)] in fastforce)+
  show "faithful L S I \<Gamma> (IntEnumDomain left)"
  proof (rule faithfulI)
    fix M lowered
    assume low: "lower L (IntEnumDomain left) = Ok lowered" and out: "agrees_outside I S M"
    then obtain d inner a where parts: "int_enum_parts left = Some (d, inner)" "lower L inner = Ok (Z3Term.Int a)"
      and lowered: "lowered = Z3Term.Bool (membership L a d)" by (auto split: option.splits)
    from int_enum_lowering [OF parts] faithful_int [OF assms(2) _ out] obtain i where
      "meaning I (model_env L S \<Gamma> M) left = VInt i" "evaluates_to S M a = ZInt i" "descriptor_of left = Some d" by blast
    then show "denotes L S M lowered (meaning I (model_env L S \<Gamma> M) (IntEnumDomain left))"
      by (force simp: lowered membership_def members_of_def boolean_laws [OF assms(1)] integer_laws [OF assms(1)]
          image_iff case_prod_beta)
  qed
  show "faithful L S I \<Gamma> (IntEnumIdentity left right)"
  proof (rule faithfulI)
    fix M lowered
    assume low: "lower L (IntEnumIdentity left right) = Ok lowered" and out: "agrees_outside I S M"
    then obtain d inner d' inner' where parts: "int_enum_parts left = Some (d, inner)" "int_enum_parts right = Some (d', inner')"
      by (auto split: option.splits)
    have descriptors: "descriptor_of left = Some d" "descriptor_of right = Some d'"
      by (rule int_enum_parts_descriptor [OF parts(1)], rule int_enum_parts_descriptor [OF parts(2)])
    show "denotes L S M lowered (meaning I (model_env L S \<Gamma> M) (IntEnumIdentity left right))"
    proof (cases "d = d'")
      case False
      with low parts descriptors show ?thesis by (auto simp: boolean_laws [OF assms(1)])
    next
      case True
      with low parts obtain a b where ab: "lower L inner = Ok (Z3Term.Int a)" "lower L inner' = Ok (Z3Term.Int b)"
        and lowered: "lowered = Z3Term.Bool (mk_eq L a b)" by auto
      from int_enum_lowering [OF parts(1) ab(1)] faithful_int [OF assms(2) _ out] obtain i where
        "meaning I (model_env L S \<Gamma> M) left = VInt i" "evaluates_to S M a = ZInt i" by blast
      moreover from int_enum_lowering [OF parts(2) ab(2)] faithful_int [OF assms(3) _ out] obtain j where
        "meaning I (model_env L S \<Gamma> M) right = VInt j" "evaluates_to S M b = ZInt j" by blast
      ultimately show ?thesis using True descriptors by (simp add: lowered boolean_laws [OF assms(1)])
    qed
  qed
qed

lemma arithmetic_faithful:
  assumes "documented L S" "faithful L S I \<Gamma> left"
  shows "faithful L S I \<Gamma> (Negate left)" "faithful L S I \<Gamma> (FloorDivideByPositive left divisor)"
    "faithful L S I \<Gamma> (TupleGet left index)"
proof -
  show "faithful L S I \<Gamma> (Negate left)"
    by (rule faithfulI) (use faithful_int [OF assms(2)] in \<open>fastforce simp: integer_laws [OF assms(1)]\<close>)
  show "faithful L S I \<Gamma> (FloorDivideByPositive left divisor)"
  proof (rule faithfulI)
    fix M lowered
    assume low: "lower L (FloorDivideByPositive left divisor) = Ok lowered" and out: "agrees_outside I S M"
    then obtain a where parts: "divisor \<noteq> 0" "lower L left = Ok (Z3Term.Int a)"
      "lowered = Z3Term.Int (mk_div L a (from_u64 L (uint divisor)))" by (auto split: if_splits)
    from parts(1) have "uint divisor > 0" by (simp add: order_less_le uint_0_iff)
    with faithful_int [OF assms(2) parts(2) out]
    show "denotes L S M lowered (meaning I (model_env L S \<Gamma> M) (FloorDivideByPositive left divisor))"
      by (auto simp: parts(3) integer_laws [OF assms(1)])
  qed
  show "faithful L S I \<Gamma> (TupleGet left index)"
  proof (rule faithfulI)
    fix M lowered
    assume low: "lower L (TupleGet left index) = Ok lowered" and out: "agrees_outside I S M"
    then obtain ts where ts: "lower L left = Ok (Z3Term.Tuple ts)" "index < length ts" "lowered = ts ! index"
      by auto
    with faithfulD [OF assms(2) ts(1) out] obtain vs where "meaning I (model_env L S \<Gamma> M) left = VTuple vs"
      "list_all2 (denotes L S M) ts vs" by auto
    with ts show "denotes L S M lowered (meaning I (model_env L S \<Gamma> M) (TupleGet left index))"
      by (auto simp: element_at_def list_all2_conv_all_nth)
  qed
qed

lemma branching_faithful:
  assumes "documented L S" "faithful L S I \<Gamma> condition" "faithful L S I \<Gamma> left" "faithful L S I \<Gamma> right"
  shows "faithful L S I \<Gamma> (Term.Not left)" "faithful L S I \<Gamma> (Implies left right)"
    "faithful L S I \<Gamma> (IfThenElse condition left right)" "faithful L S I \<Gamma> (Equal left right)"
proof -
  show "faithful L S I \<Gamma> (Term.Not left)"
    by (rule faithfulI) (use faithful_bool [OF assms(3)] in \<open>fastforce simp: boolean_laws [OF assms(1)]\<close>)
  show "faithful L S I \<Gamma> (Implies left right)"
    by (rule faithfulI) (use faithful_bool [OF assms(3)] faithful_bool [OF assms(4)] in
      \<open>fastforce simp: boolean_laws [OF assms(1)]\<close>)
  show "faithful L S I \<Gamma> (IfThenElse condition left right)"
  proof (rule faithfulI)
    fix M lowered
    assume "lower L (IfThenElse condition left right) = Ok lowered" and out: "agrees_outside I S M"
    then obtain c t e where parts: "lower L condition = Ok (Z3Term.Bool c)" "lower L left = Ok t" "lower L right = Ok e"
      "ite_terms L c t e = Ok lowered" by auto
    from faithful_bool [OF assms(2) parts(1) out]
      ite_denotes [OF assms(1) parts(4) faithfulD [OF assms(3) parts(2) out] faithfulD [OF assms(4) parts(3) out]]
    show "denotes L S M lowered (meaning I (model_env L S \<Gamma> M) (IfThenElse condition left right))" by auto
  qed
  show "faithful L S I \<Gamma> (Equal left right)"
  proof (rule faithfulI)
    fix M lowered
    assume "lower L (Equal left right) = Ok lowered" and out: "agrees_outside I S M"
    then obtain l r e where parts: "lower L left = Ok l" "lower L right = Ok r" "equal_terms L l r = Ok e"
      "lowered = Z3Term.Bool e" by auto
    from equal_denotes [OF assms(1) parts(3) faithfulD [OF assms(3) parts(1) out] faithfulD [OF assms(4) parts(2) out]]
    show "denotes L S M lowered (meaning I (model_env L S \<Gamma> M) (Equal left right))" by (simp add: parts(4))
  qed
qed

lemma literal_operation_faithful:
  assumes "documented L S" "references_distinct I" "slices_settled source" "concrete_integer_list source = Some is"
  shows "faithful L S I \<Gamma> (ListSum source)" "faithful L S I \<Gamma> (ListSorted source)"
  by (rule faithfulI; use integer_list_sum_value [OF assms(1)] integer_sequence_value [OF assms(1)] in
      \<open>auto simp: assms(4) concrete_integers_meaning [OF assms(2-4)] comp_def\<close>)+

lemma for_all_faithful:
  assumes "documented L S" "\<Gamma> x = Sort.Int" "faithful L S I \<Gamma> body"
  shows "faithful L S I \<Gamma> (ForAll x Sort.Int body)"
proof (rule faithfulI)
  fix M lowered
  assume "lower L (ForAll x Sort.Int body) = Ok lowered" and out: "agrees_outside I S M"
  then obtain b where body: "lower L body = Ok (Z3Term.Bool b)"
    and lowered: "lowered = Z3Term.Bool (mk_forall L [int_const L x] b)" by auto
  have "z3_truth (evaluates_to S (bind_int S M x k) b) =
      truth_of (meaning I ((model_env L S \<Gamma> M)(x := VInt k)) body)" for k
  proof -
    have "agrees_outside I S (bind_int S M x k)"
      using out by (simp add: agrees_outside_def constant_laws(8) [OF assms(1)])
    from faithful_bool [OF assms(3) body this] show ?thesis
      unfolding model_env_bind [where \<Gamma> = \<Gamma> and x = x, OF assms(1,2)] by auto
  qed
  moreover have "value_has_sort v Sort.Int \<longleftrightarrow> (\<exists>k. v = VInt k)" for v by (cases v) auto
  ultimately show "denotes L S M lowered (meaning I (model_env L S \<Gamma> M) (ForAll x Sort.Int body))"
    by (auto simp: lowered int_const_def constant_laws(9) [OF assms(1)] simp del: fun_upd_apply)
qed
text \<open>A slice of a literal is evaluated by the solver itself.\<close>

lemma slices_faithful:
  assumes "documented L S" "covered \<Gamma> source" "sliced_literal source low up step"
    "\<And>u. u \<in> literal_items source \<Longrightarrow> faithful L S I \<Gamma> u"
  shows "faithful L S I \<Gamma> (ListSlice source low up step)" "faithful L S I \<Gamma> (VariadicTupleSlice source low up step)"
proof -
  have "(\<exists>vs. source = Term.List Sort.Int vs \<and> machine_slice (length vs) low up step) \<or>
      (\<exists>vs. source = Term.VariadicTuple Sort.Int vs \<and> machine_slice (length vs) low up step)"
    using assms(2,3) by (cases source) (simp_all add: sliced_literal_def)
  then show "faithful L S I \<Gamma> (ListSlice source low up step)" "faithful L S I \<Gamma> (VariadicTupleSlice source low up step)"
    using list_slice_faithful [OF assms(1)] assms(4)
    by (auto simp: faithful_def concrete_static_list_slice_def concrete_static_variadic_tuple_slice_def)
qed

lemma covered_faithful:
  assumes "documented L S" "references_distinct I"
  shows "covered \<Gamma> t \<Longrightarrow> faithful L S I \<Gamma> t \<and> (\<forall>u \<in> literal_items t. faithful L S I \<Gamma> u)"
proof (induction \<Gamma> t rule: covered.induct)
qed (insert assms, auto intro!: atoms_faithful connective_faithful list_faithful literal_operation_faithful for_all_faithful
    intro: int_enum_faithful arithmetic_faithful branching_faithful comparison_faithful sequence_operation_faithful
      slices_faithful)

end
