(* ===== verification/Solver_Standard.thy ===== *)
theory Solver_Standard
  imports Solver_Refinement
begin

text \<open>
  A concrete library with a concrete semantics: Z3 terms as a syntax tree with its evaluation in
  models of boolean, integer and sequence constants. It has the documented behaviour the refinement
  relies on, and as many models as there are values for constants.
\<close>

section \<open>Terms and models\<close>

datatype ZSort = SBool | SInt | SSeq ZSort | SArray ZSort ZSort | SNamed string

datatype Ast =
    AConst string ZSort
  | AApply string ZSort "Ast list"
  | ABool bool
  | AInt int
  | ANot Ast
  | AAnd "Ast list"
  | AOr "Ast list"
  | AImplies Ast Ast
  | AIte Ast Ast Ast
  | AEq Ast Ast
  | ALess Ast Ast
  | ALessEqual Ast Ast
  | AAdd Ast Ast
  | ASub Ast Ast
  | AMul Ast Ast
  | ADiv Ast Ast
  | ANeg Ast
  | AForall string Ast
  | AEmpty ZSort
  | AUnit Ast
  | AConcat "Ast list"
  | ALength Ast
  | ANth Ast Ast
  | AContains Ast Ast

record Model =
  constant_value :: "string \<Rightarrow> ZSort \<Rightarrow> Z3Value"
  beyond :: "int list \<Rightarrow> int \<Rightarrow> int"

text \<open>A value read at a sort.\<close>

fun at_sort :: "ZSort \<Rightarrow> Z3Value \<Rightarrow> Z3Value" where
  "at_sort SBool v = ZBool (z3_truth v)"
| "at_sort SInt v = ZInt (z3_number v)"
| "at_sort (SSeq s) v = ZSeq (map (at_sort s) (z3_items v))"
| "at_sort _ v = v"

definition with_int :: "Model \<Rightarrow> string \<Rightarrow> int \<Rightarrow> Model" where
  "with_int M x k =
     M\<lparr>constant_value := \<lambda>y s. if y = x \<and> s = SInt then ZInt k else constant_value M y s\<rparr>"

primrec evaluated :: "Ast \<Rightarrow> Model \<Rightarrow> Z3Value" where
  "evaluated (AConst x s) = (\<lambda>M. at_sort s (constant_value M x s))"
| "evaluated (AApply f s as) = (\<lambda>M. at_sort s (constant_value M f s))"
| "evaluated (ABool b) = (\<lambda>M. ZBool b)"
| "evaluated (AInt i) = (\<lambda>M. ZInt i)"
| "evaluated (ANot a) = (\<lambda>M. ZBool (\<not> z3_truth (evaluated a M)))"
| "evaluated (AAnd as) = (\<lambda>M. ZBool (\<forall>f \<in> set (map evaluated as). z3_truth (f M)))"
| "evaluated (AOr as) = (\<lambda>M. ZBool (\<exists>f \<in> set (map evaluated as). z3_truth (f M)))"
| "evaluated (AImplies a b) = (\<lambda>M. ZBool (z3_truth (evaluated a M) \<longrightarrow> z3_truth (evaluated b M)))"
| "evaluated (AIte c a b) = (\<lambda>M. if z3_truth (evaluated c M) then evaluated a M else evaluated b M)"
| "evaluated (AEq a b) = (\<lambda>M. ZBool (evaluated a M = evaluated b M))"
| "evaluated (ALess a b) = (\<lambda>M. ZBool (z3_number (evaluated a M) < z3_number (evaluated b M)))"
| "evaluated (ALessEqual a b) = (\<lambda>M. ZBool (z3_number (evaluated a M) \<le> z3_number (evaluated b M)))"
| "evaluated (AAdd a b) = (\<lambda>M. ZInt (z3_number (evaluated a M) + z3_number (evaluated b M)))"
| "evaluated (ASub a b) = (\<lambda>M. ZInt (z3_number (evaluated a M) - z3_number (evaluated b M)))"
| "evaluated (AMul a b) = (\<lambda>M. ZInt (z3_number (evaluated a M) * z3_number (evaluated b M)))"
| "evaluated (ADiv a b) = (\<lambda>M. ZInt (z3_number (evaluated a M) div z3_number (evaluated b M)))"
| "evaluated (ANeg a) = (\<lambda>M. ZInt (- z3_number (evaluated a M)))"
| "evaluated (AForall x a) = (\<lambda>M. ZBool (\<forall>k. z3_truth (evaluated a (with_int M x k))))"
| "evaluated (AEmpty s) = (\<lambda>M. ZSeq [])"
| "evaluated (AUnit a) = (\<lambda>M. ZSeq [evaluated a M])"
| "evaluated (AConcat as) = (\<lambda>M. ZSeq (concat (map (\<lambda>f. z3_items (f M)) (map evaluated as))))"
| "evaluated (ALength a) = (\<lambda>M. ZInt (int (length (z3_items (evaluated a M)))))"
| "evaluated (ANth a i) =
     (\<lambda>M. let vs = z3_items (evaluated a M); k = z3_number (evaluated i M)
           in if 0 \<le> k \<and> k < int (length vs) then vs ! nat k else ZInt (beyond M (map z3_number vs) k))"
| "evaluated (AContains a b) = (\<lambda>M. ZBool (set (z3_items (evaluated b M)) \<subseteq> set (z3_items (evaluated a M))))"

definition element_sort :: "ZSort \<Rightarrow> ZSort" where
  "element_sort s = (case s of SSeq e \<Rightarrow> e | _ \<Rightarrow> s)"

primrec sort_at :: "Ast \<Rightarrow> ZSort" where
  "sort_at (AConst x s) = s"
| "sort_at (AApply f s as) = s"
| "sort_at (ABool b) = SBool"
| "sort_at (AInt i) = SInt"
| "sort_at (ANot a) = SBool"
| "sort_at (AAnd as) = SBool"
| "sort_at (AOr as) = SBool"
| "sort_at (AImplies a b) = SBool"
| "sort_at (AIte c a b) = sort_at a"
| "sort_at (AEq a b) = SBool"
| "sort_at (ALess a b) = SBool"
| "sort_at (ALessEqual a b) = SBool"
| "sort_at (AAdd a b) = SInt"
| "sort_at (ASub a b) = SInt"
| "sort_at (AMul a b) = SInt"
| "sort_at (ADiv a b) = SInt"
| "sort_at (ANeg a) = SInt"
| "sort_at (AForall x a) = SBool"
| "sort_at (AEmpty s) = SSeq s"
| "sort_at (AUnit a) = SSeq (sort_at a)"
| "sort_at (AConcat as) = (case map sort_at as of [] \<Rightarrow> SInt | s # _ \<Rightarrow> s)"
| "sort_at (ALength a) = SInt"
| "sort_at (ANth a i) = element_sort (sort_at a)"
| "sort_at (AContains a b) = SBool"

section \<open>The library\<close>

text \<open>The name a quantifier binds, and the number a signed decimal denotes.\<close>

definition bound_name :: "Ast list \<Rightarrow> string" where
  "bound_name binders = (case binders of [AConst x s] \<Rightarrow> x | _ \<Rightarrow> [])"

definition signed_value :: "string \<Rightarrow> int" where
  "signed_value s =
     (case s of [] \<Rightarrow> 0
      | c # digits \<Rightarrow> if c = CHR ''-'' then - int (decimal_value digits) else int (decimal_value s))"

lemma signed_value_decimal [simp]: "signed_value (signed_decimal i) = i"
proof (cases "i < 0")
  case True
  then show ?thesis by (simp add: signed_value_def signed_decimal_def)
next
  case False
  obtain c digits where digits: "decimal (nat i) = c # digits"
    by (cases "decimal (nat i)") (simp_all add: decimal.simps [of "nat i"] split: if_splits)
  have "CHR ''0'' \<le> c" using decimal_digits [of c "nat i"] digits by simp
  then have "c \<noteq> CHR ''-''" by (auto simp: less_eq_char_def)
  with False show ?thesis
    using decimal_value_decimal [of "nat i"] by (simp add: signed_value_def signed_decimal_def digits)
qed

definition if_sort :: "(ZSort \<Rightarrow> bool) \<Rightarrow> Ast \<Rightarrow> Ast option" where
  "if_sort p a = (if p (sort_at a) then Some a else None)"

definition standard_library :: "(Ast, ZSort) Library" where
  "standard_library =
    \<lparr>encode_digest = \<lambda>_. Ok ''digest'', debug_term = \<lambda>_. ''term'',
     sort_bool = SBool, sort_int = SInt, sort_real = SNamed ''Real'', sort_string = SNamed ''String'',
     sort_uninterpreted = SNamed, sort_seq = SSeq, sort_array = SArray,
     datatype_finish = \<lambda>name constructor field_list.
       \<lparr>datatype_sort = SNamed name, datatype_constructor = AApply constructor (SNamed name),
        datatype_accessors = map (\<lambda>(f, s) a. AApply f s [a]) field_list\<rparr>,
     new_const = AConst, apply_decl = \<lambda>f _ s as. AApply f s as, rec_apply = \<lambda>f _ s as. AApply f s as,
     from_bool = ABool, from_i64 = AInt, from_u64 = AInt, int_from_str = \<lambda>s. Some (AInt (signed_value s)),
     string_from_str = \<lambda>s. Ok (AConst s (SNamed ''String'')), from_rational = \<lambda>n d. AApply ''/'' (SNamed ''Real'') [AInt n, AInt d],
     mk_not = ANot, mk_and = AAnd, mk_or = AOr, mk_implies = AImplies, mk_ite = AIte, mk_eq = AEq,
     mk_lt = ALess, mk_le = ALessEqual, mk_gt = \<lambda>a b. ALess b a, mk_ge = \<lambda>a b. ALessEqual b a,
     mk_add = AAdd, mk_sub = ASub, mk_mul = AMul, mk_div = ADiv, mk_neg = ANeg,
     mk_forall = \<lambda>binders. AForall (bound_name binders),
     string_concat = AApply ''str.++'' (SNamed ''String''), string_length = \<lambda>a. AApply ''str.len'' SInt [a],
     string_substr = \<lambda>a i n. AApply ''str.substr'' (SNamed ''String'') [a, i, n],
     seq_empty = AEmpty, seq_unit = AUnit, seq_concat = AConcat, seq_length = ALength, seq_nth = ANth,
     seq_contains = AContains, array_store = \<lambda>a k v. AApply ''store'' (sort_at a) [a, k, v],
     array_select = \<lambda>a k. AApply ''select'' (sort_at a) [a, k],
     dynamic_as_bool = if_sort (\<lambda>s. s = SBool), dynamic_as_int = if_sort (\<lambda>s. s = SInt),
     dynamic_as_real = if_sort (\<lambda>s. s = SNamed ''Real''), dynamic_as_string = if_sort (\<lambda>s. s = SNamed ''String''),
     dynamic_as_seq = if_sort (\<lambda>s. s \<noteq> element_sort s),
     dynamic_as_array = if_sort (\<lambda>s. case s of SArray _ _ \<Rightarrow> True | _ \<Rightarrow> False)\<rparr>"

definition standard_semantics :: "(Ast, ZSort, Model) Semantics" where
  "standard_semantics =
    \<lparr>evaluates_to = \<lambda>M a. evaluated a M, ast_sort = sort_at, bind_int = with_int, out_of_range = beyond\<rparr>"

lemma standard_documented: "documented standard_library standard_semantics"
proof -
  have flat: "(\<lambda>a. ZInt (z3_number a)) \<circ> ZInt = ZInt" by auto
  have items: "\<exists>is. map (at_sort SInt) vs = map ZInt is" for vs
    by (rule exI [of _ "map z3_number vs"]) simp
  show ?thesis
    unfolding documented_def
  proof (intro conjI)
    show "documented_booleans standard_library standard_semantics"
      by (simp add: documented_booleans_def standard_library_def standard_semantics_def)
    show "documented_integers standard_library standard_semantics"
      by (simp add: documented_integers_def standard_library_def standard_semantics_def if_sort_def)
    show "documented_sequences standard_library standard_semantics"
      by (auto simp: documented_sequences_def standard_library_def standard_semantics_def comp_def Let_def
          element_sort_def)
    show "documented_constants standard_library standard_semantics"
      using items
      by (simp add: documented_constants_def standard_library_def standard_semantics_def with_int_def bound_name_def)
  qed
qed

end
