(* ===== verification/Solver_Axioms.thy ===== *)
theory Solver_Axioms
  imports Solver_Lowering Solver_Discharge
begin

text \<open>
  The facts asserted about the terms of a query before the query itself (\<^verbatim>\<open>src/src/solver.rs\<close>,
  \<open>assert_predicate_instance_axioms\<close> and the functions it calls): slices, sums, sorted lists,
  comprehensions, sets and predicate instances. What the solver receives is the list of its
  assertions and recursive definitions; the process-wide counter that numbers the definitions is
  state, and survives an error.
\<close>

section \<open>Assertions and the definition counter\<close>

datatype 'ast Assertion =
    Assert 'ast
  | Define string "'ast list" 'ast

type_synonym 'ast axioms = "64 word \<Rightarrow> (string, 'ast Assertion list) result \<times> 64 word"

definition state_axioms :: "(string, 'ast Assertion list) result \<Rightarrow> 'ast axioms" where
  "state_axioms r = (\<lambda>counter. (r, counter))"

definition no_axioms :: "'ast axioms" where
  "no_axioms = state_axioms (Ok [])"

text \<open>Two groups of axioms in order, the second only when the first succeeds.\<close>

definition then_axioms :: "'ast axioms \<Rightarrow> 'ast axioms \<Rightarrow> 'ast axioms" where
  "then_axioms first second = (\<lambda>counter.
     case first counter of
       (Err e, counter) \<Rightarrow> (Err e, counter)
     | (Ok as, counter) \<Rightarrow>
         (case second counter of
            (Err e, counter) \<Rightarrow> (Err e, counter)
          | (Ok bs, counter) \<Rightarrow> (Ok (as @ bs), counter)))"

primrec each_axioms :: "('a \<Rightarrow> 'ast axioms) \<Rightarrow> 'a list \<Rightarrow> 'ast axioms" where
  "each_axioms f [] = no_axioms"
| "each_axioms f (x # xs) = then_axioms (f x) (each_axioms f xs)"

lemma each_axioms_cong [fundef_cong]:
  "xs = ys \<Longrightarrow> (\<And>x. x \<in> set ys \<Longrightarrow> f x = g x) \<Longrightarrow> each_axioms f xs = each_axioms g ys"
  by (induction ys arbitrary: xs) auto

text \<open>Axioms over a recursive definition: \<open>RECURSIVE_DEFINITION_ID.fetch_add\<close>, which wraps.\<close>

definition numbered_axioms ::
  "(string, 'a) result \<Rightarrow> ('a \<Rightarrow> string \<Rightarrow> (string, 'ast Assertion list) result) \<Rightarrow> 'ast axioms" where
  "numbered_axioms prepared build = (\<lambda>counter.
     case prepared of
       Err e \<Rightarrow> (Err e, counter)
     | Ok v \<Rightarrow> (build v (decimal (unat counter)), counter + 1))"

section \<open>Slices\<close>

definition int_from_i128 :: "('ast, 'sort) Library \<Rightarrow> int \<Rightarrow> (string, 'ast) result" where
  "int_from_i128 L i =
     ok_or (''Z3 rejected exact i128 integer literal '' @ signed_decimal i) (int_from_str L (signed_decimal i))"

definition int_from_u128 :: "('ast, 'sort) Library \<Rightarrow> int \<Rightarrow> (string, 'ast) result" where
  "int_from_u128 L i =
     ok_or (''Z3 rejected exact u128 integer literal '' @ signed_decimal i) (int_from_str L (signed_decimal i))"

definition int_min :: "('ast, 'sort) Library \<Rightarrow> 'ast \<Rightarrow> 'ast \<Rightarrow> 'ast" where
  "int_min L left right = mk_ite L (mk_le L left right) left right"

definition int_max :: "('ast, 'sort) Library \<Rightarrow> 'ast \<Rightarrow> 'ast \<Rightarrow> 'ast" where
  "int_max L left right = mk_ite L (mk_ge L left right) left right"

text \<open>One bound of a slice: a negative one counts from the end and stops at the lowest index, another at the highest.\<close>

definition slice_bound ::
  "('ast, 'sort) Library \<Rightarrow> 'ast \<Rightarrow> 'ast \<Rightarrow> 'ast \<Rightarrow> 'ast \<Rightarrow> int option \<Rightarrow> (string, 'ast) result" where
  "slice_bound L source_length lowest highest omitted bound =
     (case bound of
        None \<Rightarrow> Ok omitted
      | Some bound \<Rightarrow>
          if bound < 0
          then res_bind (int_from_i128 L bound) (\<lambda>v. Ok (int_max L (mk_add L source_length v) lowest))
          else res_bind (int_from_i128 L bound) (\<lambda>v. Ok (int_min L v highest)))"

text \<open>The number of elements in a span, rounded up: \<open>(span + step - 1) / step\<close>.\<close>

definition slice_count :: "('ast, 'sort) Library \<Rightarrow> 'ast \<Rightarrow> 'ast \<Rightarrow> 'ast" where
  "slice_count L span magnitude =
     mk_ite L (mk_le L span (from_i64 L 0)) (from_i64 L 0)
       (mk_div L (mk_sub L (mk_add L span magnitude) (from_i64 L 1)) magnitude)"

definition normalized_slice_terms ::
  "('ast, 'sort) Library \<Rightarrow> 'ast \<Rightarrow> int option \<Rightarrow> int option \<Rightarrow> int \<Rightarrow> (string, 'ast \<times> 'ast) result" where
  "normalized_slice_terms L source_length low up step =
     (if step = 0 then Err ''zero-step sequence slice escaped the typed VC boundary''
      else if step > 0 then
        (let zero = from_i64 L 0
         in res_bind (slice_bound L source_length zero source_length zero low) (\<lambda>start.
            res_bind (slice_bound L source_length zero source_length source_length up) (\<lambda>stop.
            res_bind (int_from_u128 L \<bar>step\<bar>) (\<lambda>step.
            Ok (start, slice_count L (mk_sub L stop start) step)))))
      else
        (let negative_one = from_i64 L (- 1);
             last = mk_sub L source_length (from_i64 L 1)
         in res_bind (slice_bound L source_length negative_one last last low) (\<lambda>start.
            res_bind (slice_bound L source_length negative_one last negative_one up) (\<lambda>stop.
            res_bind (int_from_u128 L \<bar>step\<bar>) (\<lambda>magnitude.
            Ok (start, slice_count L (mk_sub L start stop) magnitude))))))"

text \<open>What both slice axioms assert of a source and a result sequence.\<close>

definition slice_facts ::
  "('ast, 'sort) Library \<Rightarrow> string \<Rightarrow> Fingerprint \<Rightarrow> 'ast \<Rightarrow> 'ast \<Rightarrow> int option \<Rightarrow> int option \<Rightarrow> int \<Rightarrow>
     (string, 'ast Assertion list) result" where
  "slice_facts L prefix sliced source_value result_value low up step =
     res_bind (normalized_slice_terms L (seq_length L source_value) low up step) (\<lambda>(start, result_length).
     res_bind (structural_symbol L prefix sliced) (\<lambda>fingerprint.
     let result_index = int_const L (fingerprint @ ''::result-index'');
         valid_result_index = mk_and L [mk_ge L result_index (from_i64 L 0), mk_lt L result_index result_length]
     in res_bind (int_from_i128 L step) (\<lambda>step.
        let source_index = mk_add L start (mk_mul L result_index step);
            same_element = mk_eq L (seq_nth L result_value result_index) (seq_nth L source_value source_index)
        in Ok [Assert (mk_eq L (seq_length L result_value) result_length),
               Assert (mk_forall L [result_index] (mk_implies L valid_result_index same_element))])))"

definition list_slice_axioms :: "('ast, 'sort) Library \<Rightarrow> Term \<Rightarrow> (string, 'ast Assertion list) result" where
  "list_slice_axioms L term =
     (case term of
        ListSlice source low up step \<Rightarrow>
          with_list ''list slice axiom source lowered to a non-list term'' (lower L source) (\<lambda>source_value _.
          with_list ''list slice axiom result lowered to a non-list term'' (lower L term) (\<lambda>result_value _.
          slice_facts L ''list-slice-axiom'' (SliceFingerprint source low up step) source_value result_value low up step))
      | _ \<Rightarrow> Ok [])"

definition variadic_tuple_slice_axioms :: "('ast, 'sort) Library \<Rightarrow> Term \<Rightarrow> (string, 'ast Assertion list) result" where
  "variadic_tuple_slice_axioms L term =
     (case term of
        VariadicTupleSlice source low up step \<Rightarrow>
          with_variadic ''variadic tuple slice axiom source lowered to a non-tuple term'' (lower L source) (\<lambda>source_value _.
          with_variadic ''variadic tuple slice axiom result lowered to a non-tuple term'' (lower L term) (\<lambda>result_value _.
          slice_facts L ''variadic-tuple-slice-axiom'' (SliceFingerprint source low up step)
            source_value result_value low up step))
      | _ \<Rightarrow> Ok [])"

section \<open>Sums and sorted lists\<close>

definition integer_list :: "string \<Rightarrow> (string, 'ast Z3Term) result \<Rightarrow> (string, 'ast) result" where
  "integer_list problem t = with_list problem t (\<lambda>v s. if s = Sort.Int then Ok v else Err problem)"

definition integer_sequence_sort :: "('ast, 'sort) Library \<Rightarrow> 'sort" where
  "integer_sequence_sort L = sort_seq L (sort_int L)"

definition prefix_sum ::
  "('ast, 'sort) Library \<Rightarrow> string \<Rightarrow> string \<Rightarrow> 'ast \<Rightarrow> 'ast \<Rightarrow> (string, 'ast) result" where
  "prefix_sum L problem definition_name sequence len =
     ok_or problem (dynamic_as_int L
       (rec_apply L (definition_name @ ''::prefix-sum'') [integer_sequence_sort L, sort_int L] (sort_int L) [sequence, len]))"

definition sum_definition :: "('ast, 'sort) Library \<Rightarrow> string \<Rightarrow> (string, 'ast Assertion) result" where
  "sum_definition L definition_name =
     (let sequence = seq_const L (definition_name @ ''::sequence'') (sort_int L);
          count = int_const L (definition_name @ ''::count'');
          previous_count = mk_sub L count (from_i64 L 1)
      in res_bind (prefix_sum L ''list sum recursive result is not an integer'' definition_name sequence previous_count)
           (\<lambda>previous_sum.
         res_bind (ok_or ''List[Int] sum selected a non-integer element'' (dynamic_as_int L (seq_nth L sequence previous_count)))
           (\<lambda>element.
         Ok (Define (definition_name @ ''::prefix-sum'') [sequence, count]
           (mk_ite L (mk_le L count (from_i64 L 0)) (from_i64 L 0) (mk_add L previous_sum element))))))"

definition concatenated_parts :: "Term \<Rightarrow> (Term \<times> Term) option" where
  "concatenated_parts source = (case source of ListConcat left right \<Rightarrow> Some (left, right) | _ \<Rightarrow> None)"

definition list_sum_axioms ::
  "('ast, 'sort) Library \<Rightarrow> Term \<Rightarrow> 'ast \<Rightarrow> 'ast \<Rightarrow> string \<Rightarrow> (string, 'ast Assertion list) result" where
  "list_sum_axioms L source source_value sum_value definition_name =
     res_bind (sum_definition L definition_name) (\<lambda>recursion.
     res_bind (prefix_sum L ''list sum application is not an integer'' definition_name source_value
         (seq_length L source_value)) (\<lambda>exact.
     res_bind
       (case concatenated_parts source of
          None \<Rightarrow> Ok []
        | Some (left, right) \<Rightarrow>
            res_bind (res_bind (lower L (ListSum left)) as_int) (\<lambda>left_sum.
            res_bind (res_bind (lower L (ListSum right)) as_int) (\<lambda>right_sum.
            Ok [Assert (mk_eq L sum_value (mk_add L left_sum right_sum))]))) (\<lambda>parts.
     Ok ([recursion, Assert (mk_eq L sum_value exact)] @ parts))))"

text \<open>The three recursive functions of the insertion sort the axioms define.\<close>

definition rec_sequence ::
  "('ast, 'sort) Library \<Rightarrow> string \<Rightarrow> string \<Rightarrow> 'sort list \<Rightarrow> 'ast list \<Rightarrow> (string, 'ast) result" where
  "rec_sequence L problem name domain arguments =
     ok_or problem (dynamic_as_seq L (rec_apply L name domain (integer_sequence_sort L) arguments))"

definition rec_element :: "('ast, 'sort) Library \<Rightarrow> string \<Rightarrow> 'ast \<Rightarrow> 'ast \<Rightarrow> (string, 'ast) result" where
  "rec_element L problem sequence index = ok_or problem (dynamic_as_int L (seq_nth L sequence index))"

definition take_definition :: "('ast, 'sort) Library \<Rightarrow> string \<Rightarrow> (string, 'ast Assertion) result" where
  "take_definition L definition_name =
     (let sequence = seq_const L (definition_name @ ''::take-sequence'') (sort_int L);
          count = int_const L (definition_name @ ''::take-count'');
          previous_count = mk_sub L count (from_i64 L 1)
      in res_bind (rec_sequence L ''list sorted take recursion did not return a sequence'' (definition_name @ ''::take'')
             [integer_sequence_sort L, sort_int L] [sequence, previous_count]) (\<lambda>previous.
         res_bind (rec_element L ''list sorted take selected a non-integer element'' sequence previous_count) (\<lambda>element.
         Ok (Define (definition_name @ ''::take'') [sequence, count]
           (mk_ite L (mk_le L count (from_i64 L 0)) (seq_empty L (sort_int L))
              (seq_concat L [previous, seq_unit L element]))))))"

definition insert_definition :: "('ast, 'sort) Library \<Rightarrow> string \<Rightarrow> (string, 'ast Assertion) result" where
  "insert_definition L definition_name =
     (let sequence = seq_const L (definition_name @ ''::insert-sequence'') (sort_int L);
          inserted = int_const L (definition_name @ ''::insert-value'');
          count = int_const L (definition_name @ ''::insert-count'');
          previous_count = mk_sub L count (from_i64 L 1)
      in res_bind (rec_element L ''list sorted insert selected a non-integer element'' sequence previous_count)
           (\<lambda>greatest_element.
         res_bind (rec_sequence L ''list sorted take application did not return a sequence'' (definition_name @ ''::take'')
             [integer_sequence_sort L, sort_int L] [sequence, count]) (\<lambda>at_end_prefix.
         res_bind (rec_sequence L ''list sorted insert recursion did not return a sequence'' (definition_name @ ''::insert'')
             [integer_sequence_sort L, sort_int L, sort_int L] [sequence, inserted, previous_count]) (\<lambda>before_last_prefix.
         Ok (Define (definition_name @ ''::insert'') [sequence, inserted, count]
           (mk_ite L (mk_le L count (from_i64 L 0)) (seq_unit L inserted)
              (mk_ite L (mk_le L greatest_element inserted)
                 (seq_concat L [at_end_prefix, seq_unit L inserted])
                 (seq_concat L [before_last_prefix, seq_unit L greatest_element]))))))))"

definition sort_definition :: "('ast, 'sort) Library \<Rightarrow> string \<Rightarrow> (string, 'ast Assertion) result" where
  "sort_definition L definition_name =
     (let sequence = seq_const L (definition_name @ ''::sort-source'') (sort_int L);
          count = int_const L (definition_name @ ''::sort-count'');
          previous_count = mk_sub L count (from_i64 L 1)
      in res_bind (rec_sequence L ''list sorted recursion did not return a sequence'' (definition_name @ ''::sort'')
             [integer_sequence_sort L, sort_int L] [sequence, previous_count]) (\<lambda>previous.
         res_bind (rec_element L ''list sorted selected a non-integer element'' sequence previous_count) (\<lambda>inserted.
         res_bind (rec_sequence L ''list sorted insert application did not return a sequence'' (definition_name @ ''::insert'')
             [integer_sequence_sort L, sort_int L, sort_int L] [previous, inserted, previous_count]) (\<lambda>step.
         Ok (Define (definition_name @ ''::sort'') [sequence, count]
           (mk_ite L (mk_le L count (from_i64 L 0)) (seq_empty L (sort_int L)) step))))))"

text \<open>Neighbours of the sorted list are in order.\<close>

definition adjacent_order :: "('ast, 'sort) Library \<Rightarrow> string \<Rightarrow> 'ast \<Rightarrow> (string, 'ast Assertion) result" where
  "adjacent_order L definition_name result_value =
     (let adjacent_index = int_const L (definition_name @ ''::adjacent-index'');
          successor = mk_add L adjacent_index (from_i64 L 1);
          has_successor = mk_and L [mk_ge L adjacent_index (from_i64 L 0), mk_lt L successor (seq_length L result_value)]
      in res_bind (rec_element L ''list sorted output contained a non-integer'' result_value adjacent_index) (\<lambda>current.
         res_bind (rec_element L ''list sorted output contained a non-integer'' result_value successor) (\<lambda>following.
         Ok (Assert (mk_forall L [adjacent_index] (mk_implies L has_successor (mk_le L current following)))))))"

definition list_sorted_axioms ::
  "('ast, 'sort) Library \<Rightarrow> 'ast \<Rightarrow> 'ast \<Rightarrow> string \<Rightarrow> (string, 'ast Assertion list) result" where
  "list_sorted_axioms L source_value result_value definition_name =
     res_bind (take_definition L definition_name) (\<lambda>take_recursion.
     res_bind (insert_definition L definition_name) (\<lambda>insert_recursion.
     res_bind (sort_definition L definition_name) (\<lambda>sort_recursion.
     res_bind (rec_sequence L ''list sorted application did not return a sequence'' (definition_name @ ''::sort'')
         [integer_sequence_sort L, sort_int L] [source_value, seq_length L source_value]) (\<lambda>exact.
     res_bind (adjacent_order L definition_name result_value) (\<lambda>adjacent.
     Ok [take_recursion, insert_recursion, sort_recursion,
         Assert (mk_eq L result_value exact),
         Assert (mk_eq L (seq_length L result_value) (seq_length L source_value)),
         adjacent])))))"

definition list_builtin_axioms :: "('ast, 'sort) Library \<Rightarrow> Term \<Rightarrow> 'ast axioms" where
  "list_builtin_axioms L term =
     (case term of
        ListSum source \<Rightarrow>
          if concrete_integer_list source \<noteq> None then no_axioms
          else numbered_axioms
            (res_bind (integer_list ''list sum axiom source lowered outside List[Int]'' (lower L source)) (\<lambda>source_value.
             res_bind (res_bind (lower L term) as_int) (\<lambda>sum_value.
             res_bind (structural_symbol L ''list-sum-definition'' (TermFingerprint source)) (\<lambda>fingerprint.
             Ok (source_value, sum_value, fingerprint)))))
            (\<lambda>(source_value, sum_value, fingerprint) number.
             list_sum_axioms L source source_value sum_value (fingerprint @ ''::'' @ number))
      | ListSorted source \<Rightarrow>
          if concrete_integer_list source \<noteq> None then no_axioms
          else numbered_axioms
            (res_bind (integer_list ''list sorted axiom source lowered outside List[Int]'' (lower L source)) (\<lambda>source_value.
             res_bind (integer_list ''list sorted axiom result lowered outside List[Int]'' (lower L term)) (\<lambda>result_value.
             res_bind (structural_symbol L ''list-sorted-definition'' (TermFingerprint source)) (\<lambda>fingerprint.
             Ok (source_value, result_value, fingerprint)))))
            (\<lambda>(source_value, result_value, fingerprint) number.
             list_sorted_axioms L source_value result_value (fingerprint @ ''::'' @ number))
      | _ \<Rightarrow> no_axioms)"

section \<open>Sets\<close>

definition is_set_term :: "Term \<Rightarrow> bool" where
  "is_set_term term =
     (case term of
        Variable name s \<Rightarrow> (case s of Sort.Set _ \<Rightarrow> True | _ \<Rightarrow> False)
      | SetComprehension identifier source binder s mapped condition \<Rightarrow> True
      | _ \<Rightarrow> False)"

definition set_uniqueness_axiom :: "('ast, 'sort) Library \<Rightarrow> Term \<Rightarrow> (string, 'ast Assertion list) result" where
  "set_uniqueness_axiom L term =
     (if \<not> is_set_term term then Ok []
      else with_set ''set uniqueness axiom lowered a non-set term'' (lower L term) (\<lambda>elements _.
        res_bind (structural_symbol L ''set-unique'' (TermFingerprint term)) (\<lambda>fingerprint.
        let left = int_const L (fingerprint @ ''::left'');
            right = int_const L (fingerprint @ ''::right'');
            in_bounds = mk_and L
              [mk_ge L left (from_i64 L 0), mk_lt L left (seq_length L elements),
               mk_ge L right (from_i64 L 0), mk_lt L right (seq_length L elements), mk_not L (mk_eq L left right)];
            different = mk_not L (mk_eq L (seq_nth L elements left) (seq_nth L elements right))
        in Ok [Assert (mk_forall L [left, right] (mk_implies L in_bounds different))])))"

section \<open>Comprehensions\<close>

text \<open>The element at an index stands for the comprehension's variable.\<close>

definition indexed_element :: "Term \<Rightarrow> Term \<Rightarrow> Term" where
  "indexed_element source index = ListGet source index"

definition instantiated_element ::
  "('ast, 'sort) Library \<Rightarrow> string \<Rightarrow> Term \<Rightarrow> Term \<Rightarrow> Sort \<Rightarrow> (string, 'ast) result" where
  "instantiated_element L binder replacement body s =
     res_bind (instantiate_comprehension_term (debug_term L) binder replacement body) (\<lambda>body.
     res_bind (lower L body) (\<lambda>v. into_dynamic_element L v s))"

text \<open>A condition on an element that must hold with its filter, when there is one.\<close>

definition with_filter ::
  "('ast, 'sort) Library \<Rightarrow> string \<Rightarrow> Term \<Rightarrow> 'ast \<Rightarrow> Term option \<Rightarrow> (string, 'ast) result" where
  "with_filter L binder replacement valid condition =
     (case condition of
        None \<Rightarrow> Ok valid
      | Some condition \<Rightarrow>
          res_bind (instantiate_comprehension_term (debug_term L) binder replacement condition) (\<lambda>condition.
          res_bind (res_bind (lower L condition) as_bool) (\<lambda>test. Ok (mk_and L [valid, test]))))"

definition within :: "('ast, 'sort) Library \<Rightarrow> 'ast \<Rightarrow> 'ast \<Rightarrow> 'ast" where
  "within L index sequence = mk_and L [mk_ge L index (from_i64 L 0), mk_lt L index (seq_length L sequence)]"

text \<open>Between none and as many elements as the source has.\<close>

definition no_longer :: "('ast, 'sort) Library \<Rightarrow> 'ast \<Rightarrow> 'ast \<Rightarrow> 'ast Assertion list" where
  "no_longer L result_value source_value =
     [Assert (mk_ge L (seq_length L result_value) (from_i64 L 0)),
      Assert (mk_le L (seq_length L result_value) (seq_length L source_value))]"

definition comprehension_result :: "'ast Z3Term \<Rightarrow> (string, 'ast) result" where
  "comprehension_result t =
     (case t of
        Z3Term.List v _ \<Rightarrow> Ok v
      | Z3Term.Set v _ \<Rightarrow> Ok v
      | _ \<Rightarrow> Err ''comprehension axiom result lowered to a non-sequence term'')"

definition sequence_comprehension_axioms ::
  "('ast, 'sort) Library \<Rightarrow> Term \<Rightarrow> Term \<Rightarrow> string \<Rightarrow> Sort \<Rightarrow> Term \<Rightarrow> Term option \<Rightarrow> bool \<Rightarrow>
     (string, 'ast Assertion list) result" where
  "sequence_comprehension_axioms L term source binder element_sort mapped condition unique =
     with_list ''comprehension axiom source lowered to a non-list term'' (lower L source) (\<lambda>source_value _.
     res_bind (res_bind (lower L term) comprehension_result) (\<lambda>result_value.
     res_bind (structural_symbol L ''comprehension-axiom'' (TermFingerprint term)) (\<lambda>fingerprint.
     let index_name = fingerprint @ ''::index'';
         index = int_const L index_name;
         replacement = indexed_element source (Variable index_name Sort.Int);
         exact = \<not> unique \<and> condition = None
     in res_bind (instantiated_element L binder replacement mapped element_sort) (\<lambda>mapped.
        res_bind (with_filter L binder replacement (within L index source_value) condition) (\<lambda>selected.
        let semantic_fact =
              if exact then mk_eq L (seq_nth L result_value index) mapped
              else seq_contains L result_value (seq_unit L mapped)
        in Ok (Assert (mk_forall L [index] (mk_implies L selected semantic_fact)) #
               (if exact then [Assert (mk_eq L (seq_length L result_value) (seq_length L source_value))]
                else no_longer L result_value source_value)))))))"

definition dict_comprehension_axioms ::
  "('ast, 'sort) Library \<Rightarrow> Term \<Rightarrow> Term \<Rightarrow> string \<Rightarrow> Sort \<Rightarrow> Sort \<Rightarrow> Term \<Rightarrow> Term \<Rightarrow> Term option \<Rightarrow>
     (string, 'ast Assertion list) result" where
  "dict_comprehension_axioms L term source binder key_sort value_sort key value condition =
     with_list ''dictionary axiom source lowered to a non-list term'' (lower L source) (\<lambda>source_value _.
     with_dict ''dictionary axiom result lowered to a non-dictionary term'' (lower L term) (\<lambda>keys vals _ _.
     res_bind (structural_symbol L ''dict-comprehension-axiom'' (TermFingerprint term)) (\<lambda>fingerprint.
     let index_name = fingerprint @ ''::index'';
         index = int_const L index_name;
         replacement = indexed_element source (Variable index_name Sort.Int);
         last_replacement = indexed_element source (Subtract (ListLength source) (Term.Int 1));
         nonempty = mk_gt L (seq_length L source_value) (from_i64 L 0)
     in res_bind (instantiate_comprehension_term (debug_term L) binder replacement key) (\<lambda>key_instance.
        res_bind (instantiate_comprehension_term (debug_term L) binder replacement value) (\<lambda>value_instance.
        res_bind (res_bind (lower L key_instance) (\<lambda>v. into_dynamic_element L v key_sort)) (\<lambda>mapped_key.
        res_bind (res_bind (lower L value_instance) (\<lambda>v. into_dynamic_element L v value_sort)) (\<lambda>mapped_value.
        res_bind (with_filter L binder replacement (within L index source_value) condition) (\<lambda>selected.
        res_bind (instantiate_comprehension_term (debug_term L) binder last_replacement key) (\<lambda>last_key_instance.
        res_bind (instantiate_comprehension_term (debug_term L) binder last_replacement value) (\<lambda>last_value_instance.
        res_bind (res_bind (lower L last_key_instance) (\<lambda>v. into_dynamic_element L v key_sort)) (\<lambda>last_key.
        res_bind (res_bind (lower L last_value_instance) (\<lambda>v. into_dynamic_element L v value_sort)) (\<lambda>last_value.
        res_bind (with_filter L binder last_replacement nonempty condition) (\<lambda>last_selected.
        Ok (Assert (mk_forall L [index] (mk_implies L selected (seq_contains L keys (seq_unit L mapped_key)))) #
            no_longer L keys source_value @
            [Assert (mk_implies L last_selected (mk_eq L (array_select L vals last_key) last_value))]))))))))))))))"

definition comprehension_axioms :: "('ast, 'sort) Library \<Rightarrow> Term \<Rightarrow> (string, 'ast Assertion list) result" where
  "comprehension_axioms L term =
     (case term of
        ListComprehension identifier source binder element_sort mapped condition \<Rightarrow>
          sequence_comprehension_axioms L term source binder element_sort mapped condition False
      | SetComprehension identifier source binder element_sort mapped condition \<Rightarrow>
          sequence_comprehension_axioms L term source binder element_sort mapped condition True
      | DictComprehension identifier source binder key_sort value_sort key value condition \<Rightarrow>
          dict_comprehension_axioms L term source binder key_sort value_sort key value condition
      | _ \<Rightarrow> Ok [])"

section \<open>Predicate instances\<close>

definition projection_symbol :: "string \<Rightarrow> Sort list \<Rightarrow> nat \<Rightarrow> string" where
  "projection_symbol predicate argument_sorts index =
     ''predicate-instance-projection::'' @ predicate @ ''::'' @ debug_list (map debug_sort argument_sorts) @ ''::''
       @ decimal index"

text \<open>An instance determines its arguments.\<close>

definition argument_projection ::
  "('ast, 'sort) Library \<Rightarrow> string \<Rightarrow> Sort list \<Rightarrow> 'ast \<Rightarrow> nat \<times> Term \<times> Sort \<Rightarrow> (string, 'ast Assertion) result" where
  "argument_projection L predicate argument_sorts instance_value entry =
     (case entry of (index, argument, s) \<Rightarrow>
        res_bind (z3_sort L s) (\<lambda>range.
        res_bind (lower L argument) (\<lambda>v.
        res_bind (into_predicate_argument v s) (\<lambda>actual.
        Ok (Assert (mk_eq L
          (apply_decl L (projection_symbol predicate argument_sorts index) [reference_sort L] range [instance_value]) actual))))))"

definition predicate_projections :: "('ast, 'sort) Library \<Rightarrow> Term \<Rightarrow> (string, 'ast Assertion list) result" where
  "predicate_projections L term =
     (case term of
        PredicateInstance predicate arguments \<Rightarrow>
          res_bind (collect_while_ok term_sort arguments) (\<lambda>argument_sorts.
          res_bind (res_bind (lower L term) as_reference) (\<lambda>instance_value.
          collect_while_ok (argument_projection L predicate argument_sorts instance_value)
            (enumerate 0 (zip arguments argument_sorts))))
      | _ \<Rightarrow> Ok [])"

section \<open>All axioms of a term\<close>

text \<open>The terms the assertion recurses into, in the order of the source's match.\<close>

fun axiom_children :: "Term \<Rightarrow> Term list" where
  "axiom_children (PredicateInstance predicate arguments) = arguments"
| "axiom_children (Term.And values) = values"
| "axiom_children (Term.Or values) = values"
| "axiom_children (StringConcat values) = values"
| "axiom_children (BytesConcat values) = values"
| "axiom_children (Term.Tuple values) = values"
| "axiom_children (Term.VariadicTuple s values) = values"
| "axiom_children (Term.List s values) = values"
| "axiom_children (Term.DictKeys s values) = values"
| "axiom_children (RuntimeClass value) = [value]"
| "axiom_children (IntEnumValue descriptor value) = [value]"
| "axiom_children (IntEnumProjection value) = [value]"
| "axiom_children (IntEnumDomain value) = [value]"
| "axiom_children (FieldRead heap receiver field s) = [receiver]"
| "axiom_children (PermissionAtLeast mask_index receiver field numerator denominator) = [receiver]"
| "axiom_children (PermissionAtMost mask_index receiver field numerator denominator) = [receiver]"
| "axiom_children (PermissionPositive mask_index receiver field) = [receiver]"
| "axiom_children (Term.Not value) = [value]"
| "axiom_children (FloorDivideByPositive value divisor) = [value]"
| "axiom_children (Negate value) = [value]"
| "axiom_children (StringLength value) = [value]"
| "axiom_children (BytesLength value) = [value]"
| "axiom_children (TupleGet tuple index) = [tuple]"
| "axiom_children (VariadicTupleLength value) = [value]"
| "axiom_children (VariadicTupleSlice source low up step) = [source]"
| "axiom_children (ListLength value) = [value]"
| "axiom_children (ListSlice source low up step) = [source]"
| "axiom_children (ListSum source) = [source]"
| "axiom_children (ListSorted source) = [source]"
| "axiom_children (SetLength value) = [value]"
| "axiom_children (DictLength value) = [value]"
| "axiom_children (ForAll binder s body) = [body]"
| "axiom_children (StringSlice source start len) = [source, start, len]"
| "axiom_children (ClassSubtype left right) = [left, right]"
| "axiom_children (Implies left right) = [left, right]"
| "axiom_children (Equal left right) = [left, right]"
| "axiom_children (Less left right) = [left, right]"
| "axiom_children (LessEqual left right) = [left, right]"
| "axiom_children (Greater left right) = [left, right]"
| "axiom_children (GreaterEqual left right) = [left, right]"
| "axiom_children (Term.Add left right) = [left, right]"
| "axiom_children (Subtract left right) = [left, right]"
| "axiom_children (Multiply left right) = [left, right]"
| "axiom_children (IntEnumIdentity left right) = [left, right]"
| "axiom_children (BytesGet left right) = [left, right]"
| "axiom_children (VariadicTupleGet left right) = [left, right]"
| "axiom_children (ListGet left right) = [left, right]"
| "axiom_children (ListContains left right) = [left, right]"
| "axiom_children (ListConcat left right) = [left, right]"
| "axiom_children (SetContains left right) = [left, right]"
| "axiom_children (DictContains left right) = [left, right]"
| "axiom_children (DictGet left right) = [left, right]"
| "axiom_children (IfThenElse condition then_value else_value) = [condition, then_value, else_value]"
| "axiom_children (PermissionMaskTransition pre post field consumed produced) = map transfer_receiver (consumed @ produced)"
| "axiom_children (Term.FiniteDict key_sort value_sort entries) = concat (map (\<lambda>(key, value). [key, value]) entries)"
| "axiom_children (ListComprehension identifier source binder s mapped condition) =
     [source, mapped] @ case_option [] (\<lambda>condition. [condition]) condition"
| "axiom_children (SetComprehension identifier source binder s mapped condition) =
     [source, mapped] @ case_option [] (\<lambda>condition. [condition]) condition"
| "axiom_children (DictComprehension identifier source binder key_sort value_sort key value condition) =
     [source, key, value] @ case_option [] (\<lambda>condition. [condition]) condition"
| "axiom_children _ = []"

lemma axiom_children_terms: "set (axiom_children t) \<subseteq> child_terms t"
  by (cases t) (force simp: scope_defs split: option.splits)+

definition own_axioms :: "('ast, 'sort) Library \<Rightarrow> Term \<Rightarrow> 'ast axioms" where
  "own_axioms L term =
     then_axioms (state_axioms (comprehension_axioms L term))
     (then_axioms (state_axioms (set_uniqueness_axiom L term))
     (then_axioms (state_axioms (list_slice_axioms L term))
     (then_axioms (state_axioms (variadic_tuple_slice_axioms L term))
     (then_axioms (list_builtin_axioms L term)
     (state_axioms (predicate_projections L term))))))"

function predicate_instance_axioms :: "('ast, 'sort) Library \<Rightarrow> Term \<Rightarrow> 'ast axioms" where
  "predicate_instance_axioms L term =
     then_axioms (own_axioms L term) (each_axioms (predicate_instance_axioms L) (axiom_children term))"
  by pat_completeness auto
termination
  by (relation "measure (\<lambda>(L, term). size term)") (use axiom_children_terms size_child in fastforce)+

declare predicate_instance_axioms.simps [simp del]

section \<open>The query\<close>

text \<open>
  The axioms of all terms, the assumptions and the negated conclusion, and the solver's answer with
  the text of its model.
\<close>

definition z3_query ::
  "('ast, 'sort) Library \<Rightarrow> ('ast Assertion list \<Rightarrow> SatResult \<times> string option) \<Rightarrow> 64 word \<Rightarrow>
     Term list \<Rightarrow> Term \<Rightarrow> (string, SatResult \<times> string option) result \<times> 64 word" where
  "z3_query L check counter assumed goal =
     (case each_axioms (predicate_instance_axioms L) (assumed @ [goal]) counter of
        (Err e, counter) \<Rightarrow> (Err e, counter)
      | (Ok axioms, counter) \<Rightarrow>
          (res_bind (collect_while_ok (\<lambda>assumption. res_bind (lower L assumption) as_bool) assumed) (\<lambda>facts.
           res_bind (res_bind (lower L goal) as_bool) (\<lambda>claim.
           Ok (check (axioms @ map Assert facts @ [Assert (mk_not L claim)])))), counter))"

definition discharge_with ::
  "('ast, 'sort) Library \<Rightarrow> ('ast Assertion list \<Rightarrow> SatResult \<times> string option) \<Rightarrow> 64 word \<Rightarrow> Obligation \<Rightarrow>
     (string, ObligationResult) result" where
  "discharge_with L check counter =
     discharge (\<lambda>assumed goal. fst (z3_query L check counter assumed goal))"

end
