(* ===== verification/Solver_Theorem.thy ===== *)
theory Solver_Theorem
  imports Solver_Discharge VC_Semantics
begin

text \<open>
  The one theorem the solver accepts by its shape is true under the meaning of its terms, so
  \<open>discharge\<close> never proves a false obligation through it.
\<close>

lemma truth_of_unwrap [simp]: "truth_of (meaning I env (unwrap_singleton_and t)) = truth_of (meaning I env t)"
  by (induction t rule: unwrap_singleton_and.induct) simp_all

lemma bound_variable_meaning: "is_bound_variable t x \<Longrightarrow> meaning I (env(x := v)) t = v"
  by (auto simp: is_bound_variable_def split: Term.splits)

lemma integer_literal_meaning: "is_integer_literal t i \<Longrightarrow> meaning I env t = VInt i"
  by (auto simp: is_integer_literal_def split: Term.splits)

lemma bound_successor_meaning:
  assumes "is_bound_successor t x"
  shows "meaning I (env(x := VInt k)) t = VInt (k + 1)"
proof -
  from assms obtain left right where t: "t = Term.Add left right"
    and parts: "is_bound_variable left x \<and> is_integer_literal right 1 \<or>
       is_integer_literal left 1 \<and> is_bound_variable right x"
    by (auto simp: is_bound_successor_def split: Term.splits if_splits)
  from parts show ?thesis
    by (elim disjE conjE) (simp_all add: t bound_variable_meaning integer_literal_meaning)
qed

lemma raw_index_meaning:
  "is_raw_index t x successor \<Longrightarrow>
     integer_of (meaning I (env(x := VInt k)) t) = (if successor then k + 1 else k)"
  by (auto simp: is_raw_index_def bound_variable_meaning bound_successor_meaning split: if_splits)

lemma python_index_parts:
  assumes "is_python_index_of t x xs successor" "\<not> is_raw_index t x successor"
  obtains condition then_value else_value left right where
    "t = IfThenElse condition then_value else_value" "unwrap_singleton_and condition = Less left right"
    "is_raw_index left x successor" "is_integer_literal right 0" "is_raw_index else_value x successor"
proof (cases t)
  case (IfThenElse condition then_value else_value)
  with assms obtain left right where test: "unwrap_singleton_and condition = Less left right"
    by (cases "unwrap_singleton_and condition") (simp_all add: is_python_index_of_def)
  with assms IfThenElse have "is_raw_index left x successor" "is_integer_literal right 0" "is_raw_index else_value x successor"
    by (simp_all add: is_python_index_of_def split: if_splits)
  with IfThenElse test show thesis by (rule that)
qed (use assms in \<open>simp_all add: is_python_index_of_def\<close>)

text \<open>Python's index normalisation is the identity on the indices the guard allows.\<close>

lemma python_index_meaning:
  assumes "is_python_index_of t x xs successor" "0 \<le> k"
  shows "integer_of (meaning I (env(x := VInt k)) t) = (if successor then k + 1 else k)"
proof (cases "is_raw_index t x successor")
  case True
  then show ?thesis by (rule raw_index_meaning)
next
  case False
  with assms(1) obtain condition then_value else_value left right where
    t: "t = IfThenElse condition then_value else_value" and
    test: "unwrap_singleton_and condition = Less left right" and
    parts: "is_raw_index left x successor" "is_integer_literal right 0" "is_raw_index else_value x successor"
    by (rule python_index_parts)
  let ?env = "env(x := VInt k)"
  have "truth_of (meaning I ?env condition) = truth_of (meaning I ?env (unwrap_singleton_and condition))"
    by simp
  also have "\<dots> = ((if successor then k + 1 else k) < 0)"
    unfolding test using raw_index_meaning [OF parts(1)] integer_literal_meaning [OF parts(2)] by simp
  finally have "\<not> truth_of (meaning I ?env condition)" using assms(2) by simp
  then show ?thesis using raw_index_meaning [OF parts(3)] by (simp add: t)
qed

lemma matches_nonnegative_meaning:
  "matches_nonnegative_bound t x \<Longrightarrow> truth_of (meaning I (env(x := VInt k)) t) \<longleftrightarrow> 0 \<le> k"
  by (auto simp: matches_nonnegative_bound_def bound_variable_meaning integer_literal_meaning split: Term.splits)

lemma matches_upper_meaning:
  "matches_adjacent_upper_bound t x xs \<Longrightarrow>
     truth_of (meaning I (env(x := VInt k)) t) \<longleftrightarrow>
       k + 1 < int (length (elements_of (meaning I (env(x := VInt k)) xs)))"
  by (auto simp: matches_adjacent_upper_bound_def bound_successor_meaning split: Term.splits)

lemma nonnegative_bound_meaning:
  "is_nonnegative_bound t x rest \<Longrightarrow>
     \<forall>c \<in> set (t # rest). truth_of (meaning I (env(x := VInt k)) c) \<Longrightarrow> 0 \<le> k"
  by (induction t x rest rule: is_nonnegative_bound.induct) (auto simp: matches_nonnegative_meaning)

lemma upper_bound_meaning:
  "is_adjacent_upper_bound t x xs rest \<Longrightarrow>
     \<forall>c \<in> set (t # rest). truth_of (meaning I (env(x := VInt k)) c) \<Longrightarrow>
     k + 1 < int (length (elements_of (meaning I (env(x := VInt k)) xs)))"
  by (induction t x xs rest rule: is_adjacent_upper_bound.induct) (auto simp: matches_upper_meaning)

lemma guard_meaning:
  assumes "is_adjacent_guard guard x xs" "truth_of (meaning I (env(x := VInt k)) guard)"
  shows "0 \<le> k \<and> k + 1 < int (length (elements_of (meaning I (env(x := VInt k)) xs)))"
proof -
  let ?env = "env(x := VInt k)"
  let ?g = "unwrap_singleton_and guard"
  have holds: "truth_of (meaning I ?env ?g)" using assms(2) by simp
  consider (conditional) condition then_value else_value where "?g = IfThenElse condition then_value else_value"
    | (conjunction) vs where "?g = Term.And vs"
    | (single) "is_nonnegative_bound ?g x [] \<and> is_adjacent_upper_bound ?g x xs []"
    using assms(1) by (cases ?g) (auto simp: is_adjacent_guard_def)
  then show ?thesis
  proof cases
    case conditional
    let ?c = "unwrap_singleton_and condition" and ?t = "unwrap_singleton_and then_value"
    from assms(1) conditional have shape: "?c = unwrap_singleton_and else_value"
      "is_nonnegative_bound ?c x []" "is_adjacent_upper_bound ?t x xs []"
      by (auto simp: is_adjacent_guard_def Let_def)
    have "truth_of (meaning I ?env condition) = truth_of (meaning I ?env else_value)"
      using shape(1) truth_of_unwrap by metis
    with holds conditional have both: "truth_of (meaning I ?env ?c)" "truth_of (meaning I ?env ?t)"
      by (auto split: if_splits)
    from nonnegative_bound_meaning [OF shape(2)] upper_bound_meaning [OF shape(3)] both
    show ?thesis by simp
  next
    case conjunction
    with assms(1) obtain first remaining where v: "vs = first # remaining"
      "is_nonnegative_bound first x remaining" "is_adjacent_upper_bound first x xs remaining"
      by (auto simp: is_adjacent_guard_def split: list.splits)
    from holds conjunction v(1) have "\<forall>c \<in> set (first # remaining). truth_of (meaning I ?env c)" by simp
    with nonnegative_bound_meaning [OF v(2)] upper_bound_meaning [OF v(3)] show ?thesis by blast
  next
    case single
    then have "is_nonnegative_bound ?g x []" "is_adjacent_upper_bound ?g x xs []" by simp_all
    from nonnegative_bound_meaning [OF this(1)] upper_bound_meaning [OF this(2)] holds show ?thesis by simp
  qed
qed

lemma adjacent_comparison_parts:
  assumes "adjacent_comparison right x = Some xs"
  obtains inner i j where "unwrap_singleton_and right = LessEqual (ListGet xs i) (ListGet xs j)" "xs = ListSorted inner"
    "is_python_index_of i x xs False" "is_python_index_of j x xs True"
proof -
  from assms obtain a b where outer: "unwrap_singleton_and right = LessEqual a b"
    by (cases "unwrap_singleton_and right") (simp_all add: adjacent_comparison_def)
  with assms obtain ys i where a: "a = ListGet ys i" by (cases a) (simp_all add: adjacent_comparison_def)
  with assms outer obtain zs j where b: "b = ListGet zs j" by (cases b) (simp_all add: adjacent_comparison_def)
  have same: "zs = ys" by (rule ccontr) (use assms outer a b in \<open>simp add: adjacent_comparison_def\<close>)
  have comparison: "(case ys of ListSorted inner \<Rightarrow>
        if \<not> is_python_index_of i x ys False \<or> \<not> is_python_index_of j x ys True then None else Some ys
      | _ \<Rightarrow> None) = Some xs"
    using assms by (simp add: adjacent_comparison_def outer a b same)
  then obtain inner where "ys = ListSorted inner" by (cases ys) simp_all
  with comparison outer show thesis by (intro that [of i j inner]) (simp_all add: a b same split: if_splits)
qed

lemma comparison_meaning:
  assumes "adjacent_comparison right x = Some xs" "0 \<le> k"
    "k + 1 < int (length (elements_of (meaning I (env(x := VInt k)) xs)))"
  shows "truth_of (meaning I (env(x := VInt k)) right)"
proof -
  let ?env = "env(x := VInt k)"
  from assms(1) obtain inner i j where
    right: "unwrap_singleton_and right = LessEqual (ListGet xs i) (ListGet xs j)" and xs: "xs = ListSorted inner"
    and index: "is_python_index_of i x xs False" "is_python_index_of j x xs True"
    by (rule adjacent_comparison_parts)
  let ?is = "sort (map integer_of (elements_of (meaning I ?env inner)))"
  have elements: "elements_of (meaning I ?env xs) = map VInt ?is" by (simp add: xs)
  from assms(3) have len: "nat k + 1 < length ?is" unfolding elements using assms(2) by simp
  have "?is ! nat k \<le> ?is ! (nat k + 1)"
    by (rule sorted_nth_mono) (use len in simp_all)
  moreover have at: "element_at I (map VInt ns) (int n) = VInt (ns ! n)" if "n < length ns" for n ns
    using that by (simp add: element_at_def)
  have "element_at I (map VInt ?is) k = VInt (?is ! nat k)"
    using at [of "nat k" ?is] len assms(2) by simp
  moreover have "element_at I (map VInt ?is) (k + 1) = VInt (?is ! (nat k + 1))"
    using at [of "nat k + 1" ?is] len assms(2) by (simp add: add.commute)
  ultimately have "truth_of (meaning I ?env (LessEqual (ListGet xs i) (ListGet xs j)))"
    using python_index_meaning [OF index(1) assms(2), of I env] python_index_meaning [OF index(2) assms(2), of I env]
    by (simp add: elements)
  then show ?thesis by (metis right truth_of_unwrap)
qed

lemma recognized_holds:
  assumes "is_exact_sorted_adjacent_order_theorem t"
  shows "meaning I env t = VBool True"
proof -
  from assms obtain x body guard right xs where t: "t = ForAll x Sort.Int body" and
    body: "unwrap_singleton_and body = Implies guard right" and
    comparison: "adjacent_comparison right x = Some xs" and guard: "is_adjacent_guard guard x xs"
    by (auto simp: is_exact_sorted_adjacent_order_theorem_def split: Term.splits option.splits)
  have "truth_of (meaning I (env(x := v)) body)" if "value_has_sort v Sort.Int" for v
  proof -
    from that obtain k where v: "v = VInt k" by (cases v) (auto split: Sort.splits)
    have "truth_of (meaning I (env(x := v)) (Implies guard right))"
      using guard_meaning [OF guard] comparison_meaning [OF comparison] by (auto simp: v)
    then show ?thesis by (metis body truth_of_unwrap)
  qed
  then show ?thesis by (simp add: t)
qed

text \<open>
  Property C35. A term the solver recognises as the adjacent-order theorem of a sorted list is
  true in every interpretation and environment: its guard bounds the index from both sides, so
  both normalised indices are inside the sorted list and its neighbours are in order.
\<close>

theorem recognized_theorem_holds:
  assumes "is_exact_sorted_adjacent_order_theorem t"
  shows "meaning I env t = VBool True"
  using assms by (rule recognized_holds)

definition sorted_neighbours :: Term where
  "sorted_neighbours =
     (let xs = ListSorted (Variable ''xs'' (Sort.List Sort.Int)); i = Variable ''i'' Sort.Int;
          next = Term.Add i (Term.Int 1)
      in ForAll ''i'' Sort.Int
           (Implies (Term.And [LessEqual (Term.Int 0) i, Less next (ListLength xs)])
              (LessEqual (ListGet xs i) (ListGet xs next))))"

theorem recognized_theorem_holds_witness:
  "is_exact_sorted_adjacent_order_theorem sorted_neighbours \<and>
   (\<forall>I env. meaning I env sorted_neighbours = VBool True)"
proof -
  have "is_exact_sorted_adjacent_order_theorem sorted_neighbours"
    by (simp add: sorted_neighbours_def is_exact_sorted_adjacent_order_theorem_def Let_def adjacent_comparison_def
        is_python_index_of_def is_raw_index_def is_bound_variable_def is_bound_successor_def is_integer_literal_def
        is_adjacent_guard_def matches_nonnegative_bound_def matches_adjacent_upper_bound_def)
  with recognized_theorem_holds show ?thesis by blast
qed

end
