(* ===== verification/Solver_Soundness.thy ===== *)
theory Solver_Soundness
  imports Solver_Standard Solver_Axioms Solver_Theorem
begin

text \<open>
  From the lowering to the verdict: the facts asserted about a term hold in every model, so a query
  the solver cannot satisfy proves the obligation. Both are stated for the terms whose lowering
  refines their meaning; outside them a symbol that forgets its bound variable makes the query
  unsound.
\<close>

section \<open>Slices as terms\<close>

lemma int_literal_value:
  assumes "documented L S" "int_from_i128 L i = Ok a \<or> int_from_u128 L i = Ok a"
  shows "evaluates_to S M a = ZInt i"
proof -
  obtain a' where "int_from_str L (signed_decimal i) = Some a'" "\<And>M. evaluates_to S M a' = ZInt i"
    using literal_law [OF assms(1)] by blast
  with assms(2) show ?thesis by (auto simp: int_from_i128_def int_from_u128_def)
qed

lemma slice_bound_value:
  assumes "documented L S" "slice_bound L len low high otherwise bound = Ok a"
    "evaluates_to S M len = ZInt n" "evaluates_to S M low = ZInt l" "evaluates_to S M high = ZInt h"
    "evaluates_to S M otherwise = ZInt d"
  shows "evaluates_to S M a = ZInt (case bound of None \<Rightarrow> d | Some b \<Rightarrow> if b < 0 then max (n + b) l else min b h)"
proof (cases bound)
  case None
  with assms show ?thesis by (simp add: slice_bound_def)
next
  case (Some b)
  with assms(2) obtain v where v: "int_from_i128 L b = Ok v"
    and a: "a = (if b < 0 then int_max L (mk_add L len v) low else int_min L v high)"
    by (auto simp: slice_bound_def split: if_splits)
  have "evaluates_to S M v = ZInt b" using int_literal_value [OF assms(1)] v by blast
  with assms(3-6) Some show ?thesis
    by (auto simp: a int_max_def int_min_def boolean_laws [OF assms(1)] integer_laws [OF assms(1)] max_def min_def)
qed

lemma slice_count_value:
  assumes "documented L S" "evaluates_to S M span = ZInt n" "evaluates_to S M magnitude = ZInt m" "m > 0"
  shows "evaluates_to S M (slice_count L span magnitude) = ZInt (if n \<le> 0 then 0 else (n + m - 1) div m)"
  using assms by (simp add: slice_count_def boolean_laws [OF assms(1)] integer_laws [OF assms(1)])

text \<open>The start and count the axioms are built from are those of the slice over integers.\<close>

lemma normalized_slice_value:
  assumes "documented L S" "normalized_slice_terms L len low up step = Ok (start, result_length)"
    "evaluates_to S M len = ZInt n"
  shows "\<exists>s c. normalized_static_slice n low up step = Ok (s, c) \<and>
    evaluates_to S M start = ZInt s \<and> evaluates_to S M result_length = ZInt c"
proof -
  note laws = integer_laws [OF assms(1)]
  show ?thesis
  proof (cases "step > 0")
    case True
    with assms(2) obtain stop magnitude where parts:
      "slice_bound L len (from_i64 L 0) len (from_i64 L 0) low = Ok start"
      "slice_bound L len (from_i64 L 0) len len up = Ok stop" "int_from_u128 L \<bar>step\<bar> = Ok magnitude"
      "result_length = slice_count L (mk_sub L stop start) magnitude"
      by (auto simp: normalized_slice_terms_def Let_def)
    have values_of: "evaluates_to S M magnitude = ZInt step"
      using int_literal_value [OF assms(1)] parts(3) True by fastforce
    show ?thesis
      using True slice_bound_value [OF assms(1) parts(1) assms(3) laws(1) assms(3) laws(1)]
        slice_bound_value [OF assms(1) parts(2) assms(3) laws(1) assms(3) assms(3)]
      by (simp add: normalized_static_slice_def Let_def parts(4) slice_count_value [OF assms(1) _ values_of] laws)
  next
    case False
    with assms(2) obtain stop magnitude where step: "step < 0" and parts:
      "slice_bound L len (from_i64 L (- 1)) (mk_sub L len (from_i64 L 1)) (mk_sub L len (from_i64 L 1)) low = Ok start"
      "slice_bound L len (from_i64 L (- 1)) (mk_sub L len (from_i64 L 1)) (from_i64 L (- 1)) up = Ok stop"
      "int_from_u128 L \<bar>step\<bar> = Ok magnitude" "result_length = slice_count L (mk_sub L start stop) magnitude"
      by (auto simp: normalized_slice_terms_def Let_def split: if_splits)
    have values_of: "evaluates_to S M magnitude = ZInt \<bar>step\<bar>"
      using int_literal_value [OF assms(1)] parts(3) by fastforce
    have last: "evaluates_to S M (mk_sub L len (from_i64 L 1)) = ZInt (n - 1)"
      by (simp add: laws assms(3))
    show ?thesis
      using step slice_bound_value [OF assms(1) parts(1) assms(3) laws(1) last last]
        slice_bound_value [OF assms(1) parts(2) assms(3) laws(1) last laws(1)]
      by (simp add: normalized_static_slice_def Let_def parts(4) slice_count_value [OF assms(1) _ values_of] laws)
  qed
qed

section \<open>Assertions hold\<close>

text \<open>An assertion that a model satisfies; nothing is claimed about recursive definitions.\<close>

fun satisfied :: "('ast, 'sort, 'model) Semantics \<Rightarrow> 'model \<Rightarrow> 'ast Assertion \<Rightarrow> bool" where
  "satisfied S M (Assert a) = z3_truth (evaluates_to S M a)"
| "satisfied S M (Define name binders body) = False"

text \<open>A sequence's value does not depend on the constants the slice axioms quantify over.\<close>

definition stable_sequence ::
  "('ast, 'sort) Library \<Rightarrow> ('ast, 'sort, 'model) Semantics \<Rightarrow> 'model \<Rightarrow> 'ast \<Rightarrow> int list \<Rightarrow> bool" where
  "stable_sequence L S M a is \<longleftrightarrow>
     ast_sort S a = sort_seq L (sort_int L) \<and> evaluates_to S M a = ZSeq (map ZInt is) \<and>
     (\<forall>p k. evaluates_to S (bind_int S M (p @ ''::result-index'') k) a = ZSeq (map ZInt is))"

lemma slice_count_nonneg: "step \<noteq> 0 \<Longrightarrow> 0 \<le> snd (python_slice_indices len low up step)"
proof -
  have "0 \<le> (if step < 0 then (if b < a then (a - b - 1) div (- step) + 1 else 0)
      else (if a < b then (b - a - 1) div step + 1 else 0))" if "step \<noteq> 0" for a b
    using steps_before_nonneg [OF that, of a b] by (simp add: steps_before_def)
  then show "step \<noteq> 0 \<Longrightarrow> 0 \<le> snd (python_slice_indices len low up step)"
    unfolding python_slice_indices_def Let_def snd_conv by blast
qed

lemma slice_element:
  assumes "step \<noteq> 0" "python_slice_indices (int (length vs)) low up step = (start, cnt)" "0 \<le> k" "k < cnt"
  shows "0 \<le> start + k * step" "start + k * step < int (length vs)"
    "python_slice vs low up step ! nat k = vs ! nat (start + k * step)" "k < int (length (python_slice vs low up step))"
proof -
  have "int (nat k) < cnt" using assms(3,4) by simp
  from slice_index_range [OF _ assms(1,2) this]
  show "0 \<le> start + k * step" "start + k * step < int (length vs)" using assms(3) by simp_all
  show "python_slice vs low up step ! nat k = vs ! nat (start + k * step)" "k < int (length (python_slice vs low up step))"
    using assms by (simp_all add: python_slice_def nat_less_iff zless_nat_eq_int_zless)
qed

lemma slice_facts_hold:
  assumes "documented L S" "slice_facts L prefix fp sequence result_value low up step = Ok as" "step \<noteq> 0"
    "stable_sequence L S M sequence vs" "stable_sequence L S M result_value (python_slice vs low up step)"
  shows "\<forall>a \<in> set as. satisfied S M a"
proof -
  note laws = boolean_laws [OF assms(1)] integer_laws [OF assms(1)] sequence_laws [OF assms(1)]
  from assms(2) obtain start result_length symbol stride where
    slice: "normalized_slice_terms L (seq_length L sequence) low up step = Ok (start, result_length)" and
    stride: "int_from_i128 L step = Ok stride" and
    as: "as = (let x = int_const L (symbol @ ''::result-index'')
               in [Assert (mk_eq L (seq_length L result_value) result_length),
                   Assert (mk_forall L [x] (mk_implies L
                     (mk_and L [mk_ge L x (from_i64 L 0), mk_lt L x result_length])
                     (mk_eq L (seq_nth L result_value x) (seq_nth L sequence (mk_add L start (mk_mul L x stride))))))])"
    by (auto simp: slice_facts_def Let_def)
  obtain s c where indices: "python_slice_indices (int (length vs)) low up step = (s, c)" by fastforce
  have static: "normalized_static_slice (int (length vs)) low up step = Ok (s, c)"
    using normalized_is_python [of "int (length vs)" step low up] assms(3) indices by simp
  have bounds: "evaluates_to S N start = ZInt s \<and> evaluates_to S N result_length = ZInt c"
    if "evaluates_to S N sequence = ZSeq (map ZInt vs)" for N
    using normalized_slice_value [OF assms(1) slice, of N "int (length vs)"] that static by (simp add: laws)
  have c: "int (length (python_slice vs low up step)) = c"
    using slice_count_nonneg [of step "int (length vs)" low up] assms(3) indices by (simp add: python_slice_def)
  let ?x = "int_const L (symbol @ ''::result-index'')"
  let ?N = "bind_int S M (symbol @ ''::result-index'')"
  have "z3_truth (evaluates_to S (?N k) (mk_implies L (mk_and L [mk_ge L ?x (from_i64 L 0), mk_lt L ?x result_length])
      (mk_eq L (seq_nth L result_value ?x) (seq_nth L sequence (mk_add L start (mk_mul L ?x stride))))))" for k
  proof -
    have x: "evaluates_to S (?N k) ?x = ZInt k" by (simp add: int_const_def constant_laws [OF assms(1)])
    have seqs: "evaluates_to S (?N k) sequence = ZSeq (map ZInt vs)" "ast_sort S sequence = sort_seq L (sort_int L)"
      "evaluates_to S (?N k) result_value = ZSeq (map ZInt (python_slice vs low up step))"
      "ast_sort S result_value = sort_seq L (sort_int L)"
      using assms(4,5) by (simp_all add: stable_sequence_def)
    have stride_value: "evaluates_to S (?N k) stride = ZInt step"
      using int_literal_value [OF assms(1)] stride by blast
    have at: "evaluates_to S (?N k) (mk_add L start (mk_mul L ?x stride)) = ZInt (s + k * step)"
      using bounds [OF seqs(1)] by (simp add: laws x stride_value)
    show ?thesis
      using bounds [OF seqs(1)] slice_element [OF assms(3) indices, of k]
        nth_laws(2) [OF assms(1) seqs(4,3) x] nth_laws(2) [OF assms(1) seqs(2,1) at]
      by (simp add: laws x)
  qed
  moreover have "z3_truth (evaluates_to S M (mk_eq L (seq_length L result_value) result_length))"
    using bounds [of M] assms(4,5) c by (simp add: laws stable_sequence_def)
  ultimately show ?thesis by (simp add: as Let_def int_const_def constant_laws(9) [OF assms(1)])
qed

section \<open>Axioms of covered terms\<close>

text \<open>Names of the solver's own that a term's integer variables must not take.\<close>

definition index_names_free :: "(string \<Rightarrow> Sort) \<Rightarrow> bool" where
  "index_names_free \<Gamma> \<longleftrightarrow> (\<forall>p. \<Gamma> (p @ ''::result-index'') \<noteq> Sort.Int)"

lemma model_env_other:
  assumes "documented L S" "\<Gamma> x \<noteq> Sort.Int"
  shows "model_env L S \<Gamma> (bind_int S M x k) = model_env L S \<Gamma> M"
proof
  fix y
  show "model_env L S \<Gamma> (bind_int S M x k) y = model_env L S \<Gamma> M y"
    using assms(2) constant_laws(1,2) [OF assms(1)]
    by (auto simp: model_env_def model_integers_def constant_laws(7) [OF assms(1)] split: Sort.splits)
qed

lemma agrees_outside_bind:
  "documented L S \<Longrightarrow> agrees_outside I S M \<Longrightarrow> agrees_outside I S (bind_int S M x k)"
  by (simp add: agrees_outside_def constant_laws(8))

text \<open>A lowered sequence of integers is stable.\<close>

lemma faithful_stable:
  assumes "documented L S" "index_names_free \<Gamma>" "agrees_outside I S M" "faithful L S I \<Gamma> t"
    "lower L t = Ok (Z3Term.List a s) \<or> lower L t = Ok (Z3Term.VariadicTuple a s)"
    "map VInt is = elements_of (meaning I (model_env L S \<Gamma> M) t)"
  shows "stable_sequence L S M a is"
proof -
  have env: "model_env L S \<Gamma> (bind_int S M (p @ ''::result-index'') k) = model_env L S \<Gamma> M" for p k
    using assms(2) by (intro model_env_other [OF assms(1)]) (simp add: index_names_free_def)
  have at: "ast_sort S a = sort_seq L (sort_int L) \<and> evaluates_to S N a = ZSeq (map ZInt is)"
    if out: "agrees_outside I S N" and env: "model_env L S \<Gamma> N = model_env L S \<Gamma> M" for N
    using assms(5)
  proof
    assume "lower L t = Ok (Z3Term.List a s)"
    from faithful_list [OF assms(4) this out] show ?thesis using assms(6) by (auto simp: env)
  next
    assume "lower L t = Ok (Z3Term.VariadicTuple a s)"
    from faithful_variadic [OF assms(4) this out] show ?thesis using assms(6) by (auto simp: env)
  qed
  show ?thesis
    unfolding stable_sequence_def
    using at [OF assms(3) refl] at [OF agrees_outside_bind [OF assms(1,3)] env] by blast
qed

lemma covered_children: "covered \<Gamma> t \<Longrightarrow> u \<in> set (axiom_children t) \<Longrightarrow> covered \<Gamma> u"
  by (cases t) auto

lemma covered_without_axioms:
  assumes "covered \<Gamma> t"
  shows "comprehension_axioms L t = Ok []" "set_uniqueness_axiom L t = Ok []"
    "list_builtin_axioms L t = no_axioms" "predicate_projections L t = Ok []"
proof -
  have "comprehension_axioms L t = Ok [] \<and> set_uniqueness_axiom L t = Ok [] \<and>
      list_builtin_axioms L t = no_axioms \<and> predicate_projections L t = Ok []"
    using assms
    by (cases t) (auto simp: comprehension_axioms_def set_uniqueness_axiom_def is_set_term_def list_builtin_axioms_def
        predicate_projections_def)
  then show "comprehension_axioms L t = Ok []" "set_uniqueness_axiom L t = Ok []"
    "list_builtin_axioms L t = no_axioms" "predicate_projections L t = Ok []" by simp_all
qed

lemma sliced_source:
  assumes "covered \<Gamma> source" "sliced_literal source low up step"
  shows "step \<noteq> 0"
    "elements_of (meaning I env (ListSlice source low up step)) = python_slice (elements_of (meaning I env source)) low up step"
    "elements_of (meaning I env (VariadicTupleSlice source low up step)) =
       python_slice (elements_of (meaning I env source)) low up step"
proof -
  show "step \<noteq> 0"
    using assms by (cases source) (simp_all add: sliced_literal_def machine_slice_def)
qed (simp_all add: Let_def)

lemma slice_axioms_hold:
  assumes "documented L S" "references_distinct I" "index_names_free \<Gamma>" "agrees_outside I S M" "covered \<Gamma> t"
    "list_slice_axioms L t = Ok as \<or> variadic_tuple_slice_axioms L t = Ok as"
  shows "\<forall>a \<in> set as. satisfied S M a"
proof (cases "as = []")
  case False
  have facts: "\<forall>a \<in> set as. satisfied S M a"
    if slice: "t = ListSlice source low up step \<or> t = VariadicTupleSlice source low up step"
      and lists: "lower L source = Ok (Z3Term.List v s) \<and> lower L t = Ok (Z3Term.List r s') \<or>
        lower L source = Ok (Z3Term.VariadicTuple v s) \<and> lower L t = Ok (Z3Term.VariadicTuple r s')"
      and build: "slice_facts L prefix fp v r low up step = Ok as" for source low up step v s r s' prefix fp
  proof -
    from slice assms(5) have source: "covered \<Gamma> source" "sliced_literal source low up step" by auto
    note faithful = covered_faithful [OF assms(1,2), THEN conjunct1]
    from lists faithful_list [OF faithful [OF source(1)] _ assms(4)] faithful_variadic [OF faithful [OF source(1)] _ assms(4)]
    obtain vs where vs: "map VInt vs = elements_of (meaning I (model_env L S \<Gamma> M) source)" by fastforce
    have ws: "map VInt (python_slice vs low up step) = elements_of (meaning I (model_env L S \<Gamma> M) t)"
      using slice sliced_source [OF source] by (auto simp: vs [symmetric] python_slice_map)
    show ?thesis
    proof (rule slice_facts_hold [OF assms(1) build sliced_source(1) [OF source]])
      show "stable_sequence L S M v vs"
        by (rule faithful_stable [OF assms(1,3,4) faithful [OF source(1)] _ vs]) (use lists in blast)
      show "stable_sequence L S M r (python_slice vs low up step)"
        by (rule faithful_stable [OF assms(1,3,4) faithful [OF assms(5)] _ ws]) (use lists in blast)
    qed
  qed
  show ?thesis
    using assms(6)
  proof
    assume "list_slice_axioms L t = Ok as"
    with False obtain source low up step where t: "t = ListSlice source low up step"
      by (cases t) (auto simp: list_slice_axioms_def)
    with \<open>list_slice_axioms L t = Ok as\<close> facts show ?thesis by (fastforce simp: list_slice_axioms_def)
  next
    assume "variadic_tuple_slice_axioms L t = Ok as"
    with False obtain source low up step where t: "t = VariadicTupleSlice source low up step"
      by (cases t) (auto simp: variadic_tuple_slice_axioms_def)
    with \<open>variadic_tuple_slice_axioms L t = Ok as\<close> facts show ?thesis by (fastforce simp: variadic_tuple_slice_axioms_def)
  qed
qed simp

text \<open>All assertions a group of axioms makes are satisfied, from any counter.\<close>

definition asserts_satisfied :: "('ast, 'sort, 'model) Semantics \<Rightarrow> 'model \<Rightarrow> 'ast axioms \<Rightarrow> bool" where
  "asserts_satisfied S M axioms \<longleftrightarrow>
     (\<forall>counter as counter'. axioms counter = (Ok as, counter') \<longrightarrow> (\<forall>a \<in> set as. satisfied S M a))"

lemma asserts_satisfied_state [intro]:
  "(\<And>as. r = Ok as \<Longrightarrow> \<forall>a \<in> set as. satisfied S M a) \<Longrightarrow> asserts_satisfied S M (state_axioms r)"
  by (auto simp: asserts_satisfied_def state_axioms_def)

lemma asserts_satisfied_none [simp, intro]: "asserts_satisfied S M no_axioms"
  by (auto simp: no_axioms_def)

lemma asserts_satisfied_then [intro]:
  assumes "asserts_satisfied S M first" "asserts_satisfied S M second"
  shows "asserts_satisfied S M (then_axioms first second)"
  unfolding asserts_satisfied_def
proof (intro allI impI)
  fix counter as counter'
  assume "then_axioms first second counter = (Ok as, counter')"
  then obtain bs middle cs where "first counter = (Ok bs, middle)" "second middle = (Ok cs, counter')" "as = bs @ cs"
    by (auto simp: then_axioms_def split: prod.splits sum.splits)
  with assms show "\<forall>a \<in> set as. satisfied S M a"
    unfolding asserts_satisfied_def by (metis Un_iff set_append)
qed

lemma asserts_satisfied_each [intro]:
  "(\<And>x. x \<in> set xs \<Longrightarrow> asserts_satisfied S M (f x)) \<Longrightarrow> asserts_satisfied S M (each_axioms f xs)"
  by (induction xs) auto

lemma covered_axioms_hold:
  assumes "documented L S" "references_distinct I" "index_names_free \<Gamma>" "agrees_outside I S M"
  shows "covered \<Gamma> t \<Longrightarrow> asserts_satisfied S M (predicate_instance_axioms L t)"
proof (induction t rule: term_children_induct)
  case (step t)
  have own: "asserts_satisfied S M (own_axioms L t)"
    unfolding own_axioms_def covered_without_axioms [OF step.prems]
    by (intro asserts_satisfied_then asserts_satisfied_state asserts_satisfied_none)
      (use slice_axioms_hold [OF assms step.prems] in auto)
  have "asserts_satisfied S M (predicate_instance_axioms L u)" if "u \<in> set (axiom_children t)" for u
    using step.IH covered_children [OF step.prems that] axiom_children_terms that by blast
  with own show ?case
    by (subst predicate_instance_axioms.simps) auto
qed

section \<open>Models for every environment\<close>

text \<open>Constants are uninterpreted: some model gives them any values, and any values outside a sequence.\<close>

definition unconstrained :: "('ast, 'sort) Library \<Rightarrow> ('ast, 'sort, 'model) Semantics \<Rightarrow> bool" where
  "unconstrained L S \<longleftrightarrow>
     (\<forall>b i q out. \<exists>M.
        (\<forall>x. evaluates_to S M (new_const L x (sort_bool L)) = ZBool (b x)) \<and>
        (\<forall>x. evaluates_to S M (new_const L x (sort_int L)) = ZInt (i x)) \<and>
        (\<forall>x. evaluates_to S M (new_const L x (sort_seq L (sort_int L))) = ZSeq (map ZInt (q x))) \<and>
        out_of_range S M = out)"

lemma standard_unconstrained: "unconstrained standard_library standard_semantics"
  unfolding unconstrained_def
proof (intro allI)
  fix b :: "string \<Rightarrow> bool" and i :: "string \<Rightarrow> int" and q :: "string \<Rightarrow> int list" and out :: "int list \<Rightarrow> int \<Rightarrow> int"
  let ?M = "\<lparr>constant_value = \<lambda>x s. case s of SBool \<Rightarrow> ZBool (b x) | SInt \<Rightarrow> ZInt (i x) | _ \<Rightarrow> ZSeq (map ZInt (q x)),
      beyond = out\<rparr>"
  show "\<exists>M.
      (\<forall>x. evaluates_to standard_semantics M (new_const standard_library x (sort_bool standard_library)) = ZBool (b x)) \<and>
      (\<forall>x. evaluates_to standard_semantics M (new_const standard_library x (sort_int standard_library)) = ZInt (i x)) \<and>
      (\<forall>x. evaluates_to standard_semantics M
         (new_const standard_library x (sort_seq standard_library (sort_int standard_library))) = ZSeq (map ZInt (q x))) \<and>
      out_of_range standard_semantics M = out"
    by (rule exI [of _ ?M]) (simp add: standard_library_def standard_semantics_def comp_def)
qed

text \<open>The environments the covered terms are read in.\<close>

definition typed_env :: "(string \<Rightarrow> Sort) \<Rightarrow> (string \<Rightarrow> Value) \<Rightarrow> bool" where
  "typed_env \<Gamma> env \<longleftrightarrow>
     (\<forall>x. \<Gamma> x \<in> {Sort.Bool, Sort.Int, Sort.Unit, Sort.List Sort.Int, Sort.VariadicTuple Sort.Int} \<and>
          value_has_sort (env x) (\<Gamma> x))"

definition integers_outside :: "Interpretation \<Rightarrow> bool" where
  "integers_outside I \<longleftrightarrow> (\<forall>is i. \<exists>k. outside I (map VInt is) i = VInt k)"

lemma integer_values: "\<forall>v \<in> set vs. value_has_sort v Sort.Int \<Longrightarrow> map (\<lambda>v. VInt (integer_of v)) vs = vs"
proof (induction vs)
  case (Cons v vs)
  then show ?case by (cases v) auto
qed simp

lemma typed_values:
  "value_has_sort v Sort.Bool \<Longrightarrow> v = VBool (truth_of v)"
  "value_has_sort v Sort.Int \<Longrightarrow> v = VInt (integer_of v)"
  "value_has_sort v Sort.Unit \<Longrightarrow> v = VUnit"
  "value_has_sort v (Sort.List Sort.Int) \<Longrightarrow> v = VList Sort.Int (map (\<lambda>v. VInt (integer_of v)) (elements_of v))"
  "value_has_sort v (Sort.VariadicTuple Sort.Int) \<Longrightarrow>
     v = VVariadic Sort.Int (map (\<lambda>v. VInt (integer_of v)) (elements_of v))"
  by (cases v; simp add: integer_values)+

lemma model_of_environment:
  assumes "documented L S" "unconstrained L S" "typed_env \<Gamma> env" "integers_outside I"
  obtains M where "model_env L S \<Gamma> M = env" "agrees_outside I S M"
proof -
  obtain out where out: "\<And>is i. outside I (map VInt is) i = VInt (out is i)"
    using assms(4) unfolding integers_outside_def by metis
  obtain M where M:
    "\<And>x. evaluates_to S M (new_const L x (sort_bool L)) = ZBool (truth_of (env x))"
    "\<And>x. evaluates_to S M (new_const L x (sort_int L)) = ZInt (integer_of (env x))"
    "\<And>x. evaluates_to S M (new_const L x (sort_seq L (sort_int L))) = ZSeq (map ZInt (map integer_of (elements_of (env x))))"
    "out_of_range S M = out"
    using assms(2) [unfolded unconstrained_def, rule_format, of "\<lambda>x. truth_of (env x)" "\<lambda>x. integer_of (env x)"
        "\<lambda>x. map integer_of (elements_of (env x))" out] by blast
  have "model_env L S \<Gamma> M x = env x" for x
    using assms(3) [unfolded typed_env_def, rule_format, of x] typed_values [of "env x"]
    by (auto simp: model_env_def M model_integers_def comp_def)
  then show thesis
    using out by (intro that [of M]) (auto simp: agrees_outside_def M)
qed

section \<open>The verdict\<close>

text \<open>
  An answer \<open>Unsat\<close> means that no model satisfies all assertions; for a list with recursive
  definitions this says nothing.
\<close>

definition sound_answers ::
  "('ast, 'sort, 'model) Semantics \<Rightarrow> ('ast Assertion list \<Rightarrow> SatResult \<times> string option) \<Rightarrow> bool" where
  "sound_answers S check \<longleftrightarrow>
     (\<forall>as M. fst (check as) = Unsat \<longrightarrow> (\<exists>a \<in> set as. \<not> satisfied S M a))"

lemma unsatisfiable_query:
  assumes "documented L S" "sound_answers S check" "references_distinct I" "index_names_free \<Gamma>" "agrees_outside I S M"
    "\<forall>t \<in> set (goal # assumed). covered \<Gamma> t"
    "fst (z3_query L check counter assumed goal) = Ok (Unsat, witness)"
    "\<forall>t \<in> set assumed. truth_of (meaning I (model_env L S \<Gamma> M) t)"
  shows "meaning I (model_env L S \<Gamma> M) goal = VBool True"
proof -
  from assms(7) obtain axioms counter' facts claim where
    axioms: "each_axioms (predicate_instance_axioms L) (assumed @ [goal]) counter = (Ok axioms, counter')" and
    facts: "list_all2 (\<lambda>t a. res_bind (lower L t) as_bool = Ok a) assumed facts" and
    claim: "lower L goal = Ok (Z3Term.Bool claim)" and
    unsat: "check (axioms @ map Assert facts @ [Assert (mk_not L claim)]) = (Unsat, witness)"
    by (auto simp: z3_query_def collect_while_ok_eq_Inr split: prod.splits sum.splits)
  note faithful = covered_faithful [OF assms(1,3), THEN conjunct1]
  have "asserts_satisfied S M (each_axioms (predicate_instance_axioms L) (assumed @ [goal]))"
    using assms(6) by (intro asserts_satisfied_each covered_axioms_hold [OF assms(1,3-5)]) auto
  with axioms have held: "\<forall>a \<in> set axioms. satisfied S M a" unfolding asserts_satisfied_def by blast
  have truths: "(\<lambda>a. z3_truth (evaluates_to S M a)) ` set facts =
      (\<lambda>t. truth_of (meaning I (model_env L S \<Gamma> M) t)) ` set assumed"
  proof (rule booleans_denote [OF facts])
    fix t lowered
    assume "t \<in> set assumed" "lower L t = Ok lowered"
    with assms(6) show "denotes L S M lowered (meaning I (model_env L S \<Gamma> M) t)"
      by (intro faithfulD [OF faithful _ assms(5)]) auto
  qed
  have "z3_truth (evaluates_to S M a)" if "a \<in> set facts" for a
    using imageI [OF that, of "\<lambda>a. z3_truth (evaluates_to S M a)"] assms(8) unfolding truths by auto
  moreover obtain a where "a \<in> set (axioms @ map Assert facts @ [Assert (mk_not L claim)])" "\<not> satisfied S M a"
    using assms(2) unsat unfolding sound_answers_def by (metis fst_conv)
  ultimately have "\<not> z3_truth (evaluates_to S M (mk_not L claim))" using held by auto
  then have "z3_truth (evaluates_to S M claim)" by (simp add: boolean_laws [OF assms(1)])
  with faithful_bool [OF faithful claim assms(5), of \<Gamma>] assms(6) show ?thesis by auto
qed

lemma proved_by_query_or_shape:
  "discharge_with L check counter ob = Ok r \<Longrightarrow> result_status r = Proved \<Longrightarrow>
   is_exact_sorted_adjacent_order_theorem (conclusion ob) \<or>
   (\<exists>witness. fst (z3_query L check counter (assumptions ob) (conclusion ob)) = Ok (Unsat, witness))"
  by (auto simp: discharge_with_def discharge_def obligation_result_def solver_status_def
      split: if_splits prod.splits SatResult.splits)

lemma lowering_denotes:
  assumes "documented L S" "references_distinct I" "agrees_outside I S M" "covered \<Gamma> t" "lower L t = Ok lowered"
  shows "denotes L S M lowered (meaning I (model_env L S \<Gamma> M) t)"
  using covered_faithful [OF assms(1,2,4)] faithfulD [OF _ assms(5,3)] by blast

text \<open>
  Property C6. The Z3 term an operation of booleans, integers, fixed tuples
  and integer sequences is lowered to has, in every model, the value the term means in the
  environment the model gives: arithmetic, comparison, floor division, equality and conditionals of
  structured values, indexing with its unspecified results, slices, sums and sorting of literals,
  and quantification over the integers.
\<close>

theorem lowering_refines_meaning:
  assumes "documented L S" "references_distinct I" "agrees_outside I S M" "covered \<Gamma> t"
    and "lower L t = Ok lowered"
  shows "denotes L S M lowered (meaning I (model_env L S \<Gamma> M) t)"
  using assms by (rule lowering_denotes)

text \<open>A floor division and an indexing outside the list under a quantifier.\<close>

definition integers_only :: "string \<Rightarrow> Sort" where
  "integers_only x = (if x \<in> {''x'', ''y''} then Sort.Int else Sort.Unit)"

definition zero_outside :: Interpretation where
  "zero_outside = plain_interpretation\<lparr>outside := \<lambda>vs i. VInt 0\<rparr>"

definition zero_model :: Model where
  "zero_model = \<lparr>constant_value = \<lambda>x s. ZInt 7, beyond = \<lambda>is i. 0\<rparr>"

definition rounding_term :: Term where
  "rounding_term =
     Equal (FloorDivideByPositive (Negate (Variable ''x'' Sort.Int)) 2)
       (ListGet (Term.List Sort.Int [Variable ''x'' Sort.Int, Term.Int (- 4)]) (Term.Int 1))"

lemma zero_outside_references: "references_distinct zero_outside"
  using plain_references by (simp add: references_distinct_def zero_outside_def)

theorem lowering_refines_meaning_witness:
  "\<exists>lowered. lower standard_library rounding_term = Ok lowered \<and>
     denotes standard_library standard_semantics zero_model lowered (VBool True)"
proof -
  let ?env = "model_env standard_library standard_semantics integers_only zero_model"
  obtain lowered where lowered: "lower standard_library rounding_term = Ok lowered"
    by (simp add: rounding_term_def standard_library_def int_operands_def as_int_def int_const_def join_units_def
        collect_while_ok_eq_Inr with_list_def into_dynamic_element.simps if_sort_def element_sort_def equal_terms.simps)
  have "agrees_outside zero_outside standard_semantics zero_model"
    by (simp add: agrees_outside_def zero_outside_def standard_semantics_def zero_model_def)
  moreover have "covered integers_only rounding_term"
    by (simp add: rounding_term_def integers_only_def)
  ultimately have "denotes standard_library standard_semantics zero_model lowered (meaning zero_outside ?env rounding_term)"
    using lowering_refines_meaning [OF standard_documented zero_outside_references _ _ lowered] by blast
  moreover have "meaning zero_outside ?env rounding_term = VBool True"
    by (simp add: rounding_term_def model_env_def integers_only_def standard_library_def standard_semantics_def
        zero_model_def element_at_def)
  ultimately show ?thesis using lowered by auto
qed

text \<open>
  Property C5. An obligation that discharging reports as proved holds: in
  every typed environment where the assumptions are true the conclusion is true, when Z3 behaves as
  documented, its answer \<open>Unsat\<close> is right and the terms are ones whose lowering refines their
  meaning. The facts asserted about slices, the numbering of definitions and the theorem recognised
  by its shape never make the verdict wrong.
\<close>

theorem proved_obligations_hold:
  assumes "documented L S" "unconstrained L S" "sound_answers S check"
    and "references_distinct I" "integers_outside I" "index_names_free \<Gamma>" "typed_env \<Gamma> env"
    and "\<forall>t \<in> set (conclusion ob # assumptions ob). covered \<Gamma> t"
    and "discharge_with L check counter ob = Ok r" "result_status r = Proved"
    and "\<forall>t \<in> set (assumptions ob). truth_of (meaning I env t)"
  shows "meaning I env (conclusion ob) = VBool True"
  using proved_by_query_or_shape [OF assms(9,10)]
proof
  assume "is_exact_sorted_adjacent_order_theorem (conclusion ob)"
  then show ?thesis by (rule recognized_holds)
next
  assume "\<exists>witness. fst (z3_query L check counter (assumptions ob) (conclusion ob)) = Ok (Unsat, witness)"
  then obtain answer where answer: "fst (z3_query L check counter (assumptions ob) (conclusion ob)) = Ok (Unsat, answer)" ..
  obtain M where M: "model_env L S \<Gamma> M = env" "agrees_outside I S M"
    by (rule model_of_environment [OF assms(1,2,7,5)])
  show ?thesis
    using unsatisfiable_query [OF assms(1,3,4,6) M(2) assms(8) answer] assms(11) by (simp add: M(1))
qed

text \<open>A solver that only sees an assertion next to its negation.\<close>

definition contradiction_check :: "Ast Assertion list \<Rightarrow> SatResult \<times> string option" where
  "contradiction_check as =
     (if list_ex (\<lambda>a. case a of Assert t \<Rightarrow> Assert (ANot t) \<in> set as | Define name binders body \<Rightarrow> False) as
      then (Unsat, None) else (UnknownSat, None))"

lemma contradiction_sound: "sound_answers standard_semantics contradiction_check"
  unfolding sound_answers_def
proof (intro allI impI)
  fix as M
  assume "fst (contradiction_check as) = Unsat"
  then obtain a where a: "a \<in> set as" "case a of Assert t \<Rightarrow> Assert (ANot t) \<in> set as | Define name binders body \<Rightarrow> False"
    by (auto simp: contradiction_check_def list_ex_iff split: if_splits)
  then obtain t where "Assert t \<in> set as" "Assert (ANot t) \<in> set as"
    by (cases a rule: Assertion.exhaust) auto
  moreover have "satisfied standard_semantics M (Assert t) \<longleftrightarrow> \<not> satisfied standard_semantics M (Assert (ANot t))"
    by (simp add: standard_semantics_def)
  ultimately show "\<exists>a \<in> set as. \<not> satisfied standard_semantics M a" by blast
qed

definition order_obligation :: Obligation where
  "order_obligation =
     \<lparr>obligation_id = ''order'', obligation_expectation = Prove,
      assumptions = [Less (Variable ''x'' Sort.Int) (Variable ''y'' Sort.Int)],
      conclusion = Greater (Variable ''y'' Sort.Int) (Variable ''x'' Sort.Int),
      obligation_path = ''f.py'', obligation_byte_offset = 0, obligation_line = 1, obligation_column = 0\<rparr>"

text \<open>Axioms of leaves and of terms that have none of their own.\<close>

lemma own_axioms_none:
  "covered \<Gamma> t \<Longrightarrow> (\<And>u low up step. t \<noteq> ListSlice u low up step \<and> t \<noteq> VariadicTupleSlice u low up step) \<Longrightarrow>
   own_axioms L t = no_axioms"
proof -
  assume covered: "covered \<Gamma> t" and other: "\<And>u low up step. t \<noteq> ListSlice u low up step \<and> t \<noteq> VariadicTupleSlice u low up step"
  have "list_slice_axioms L t = Ok []" "variadic_tuple_slice_axioms L t = Ok []"
    using other by (cases t; simp add: list_slice_axioms_def variadic_tuple_slice_axioms_def)+
  then show "own_axioms L t = no_axioms"
    by (simp add: own_axioms_def covered_without_axioms [OF covered] no_axioms_def state_axioms_def then_axioms_def)
qed

lemma then_no_axioms [simp]: "then_axioms no_axioms a = a"
  by (auto simp: then_axioms_def no_axioms_def state_axioms_def fun_eq_iff split: prod.split sum.split)

lemma comparison_axioms:
  "predicate_instance_axioms L (Variable x Sort.Int) = no_axioms"
  "predicate_instance_axioms L (Less (Variable x Sort.Int) (Variable y Sort.Int)) = no_axioms"
  "predicate_instance_axioms L (Greater (Variable x Sort.Int) (Variable y Sort.Int)) = no_axioms"
proof -
  have leaf: "predicate_instance_axioms L (Variable x Sort.Int) = no_axioms" for x
    by (subst predicate_instance_axioms.simps) (simp add: own_axioms_none [where \<Gamma> = "\<lambda>_. Sort.Int"])
  then show "predicate_instance_axioms L (Variable x Sort.Int) = no_axioms" .
  show "predicate_instance_axioms L (Less (Variable x Sort.Int) (Variable y Sort.Int)) = no_axioms"
    by (subst predicate_instance_axioms.simps) (simp add: own_axioms_none [where \<Gamma> = "\<lambda>_. Sort.Int"] leaf)
  show "predicate_instance_axioms L (Greater (Variable x Sort.Int) (Variable y Sort.Int)) = no_axioms"
    by (subst predicate_instance_axioms.simps) (simp add: own_axioms_none [where \<Gamma> = "\<lambda>_. Sort.Int"] leaf)
qed

lemma order_sorts:
  "term_sort (conclusion order_obligation) = Ok Sort.Bool"
  "check_assumption_sorts ''order'' 0 (assumptions order_obligation) = Ok ()"
  "\<not> is_exact_sorted_adjacent_order_theorem (conclusion order_obligation)"
  by (simp_all add: order_obligation_def term_sort_def sort_integer_operator_def sort_variable_def require_sort_def
      is_exact_sorted_adjacent_order_theorem_def)

lemma order_query:
  "fst (z3_query standard_library contradiction_check 0 (assumptions order_obligation)
     (conclusion order_obligation)) = Ok (Unsat, None)"
proof -
  let ?less = "ALess (AConst ''x'' SInt) (AConst ''y'' SInt)"
  have "z3_query standard_library contradiction_check 0 (assumptions order_obligation) (conclusion order_obligation) =
      (Ok (contradiction_check [Assert ?less, Assert (ANot ?less)]), 0)"
    by (simp add: z3_query_def order_obligation_def comparison_axioms)
      (simp add: no_axioms_def state_axioms_def standard_library_def int_operands_def as_int_def as_bool_def int_const_def)
  then show ?thesis by (simp add: contradiction_check_def)
qed

theorem proved_obligations_hold_witness:
  "(\<exists>r. discharge_with standard_library contradiction_check 0 order_obligation = Ok r \<and> result_status r = Proved) \<and>
   meaning zero_outside ((\<lambda>_. VUnit)(''x'' := VInt 3, ''y'' := VInt 5)) (conclusion order_obligation) = VBool True"
proof (intro conjI)
  let ?r = "obligation_result order_obligation Proved None"
  have proved: "discharge_with standard_library contradiction_check 0 order_obligation = Ok ?r"
    using order_sorts order_query by (simp add: discharge_with_def discharge_def solver_status_def order_obligation_def)
  then show "\<exists>r. discharge_with standard_library contradiction_check 0 order_obligation = Ok r \<and> result_status r = Proved"
    by (simp add: obligation_result_def)
  let ?env = "(\<lambda>_. VUnit)(''x'' := VInt 3, ''y'' := VInt 5)"
  have outside: "integers_outside zero_outside"
    by (simp add: integers_outside_def zero_outside_def)
  have free: "index_names_free integers_only"
    by (auto simp: index_names_free_def integers_only_def dest: arg_cong [where f = length])
  have env: "typed_env integers_only ?env"
    by (auto simp: typed_env_def integers_only_def)
  have covered: "\<forall>t \<in> set (conclusion order_obligation # assumptions order_obligation). covered integers_only t"
    by (simp add: order_obligation_def integers_only_def)
  show "meaning zero_outside ?env (conclusion order_obligation) = VBool True"
    by (rule proved_obligations_hold [OF standard_documented standard_unconstrained contradiction_sound
        zero_outside_references outside free env covered proved])
      (simp_all add: obligation_result_def order_obligation_def)
qed

section \<open>Symbols that forget the bound variable\<close>

text \<open>\<open>forall i. sum([i]) == i\<close>, and an obligation that denies it.\<close>

definition singleton_list :: Term where
  "singleton_list = Term.List Sort.Int [Variable ''i'' Sort.Int]"

definition singleton_sums :: Term where
  "singleton_sums = ForAll ''i'' Sort.Int (Equal (ListSum singleton_list) (Variable ''i'' Sort.Int))"

definition denied_sums :: Obligation where
  "denied_sums =
     \<lparr>obligation_id = ''sums'', obligation_expectation = Prove, assumptions = [],
      conclusion = Term.Not singleton_sums,
      obligation_path = ''f.py'', obligation_byte_offset = 0, obligation_line = 1, obligation_column = 0\<rparr>"

lemma singleton_sums_lowered:
  "lower standard_library singleton_list = Ok (Z3Term.List (AUnit (AConst ''i'' SInt)) Sort.Int)"
  "concrete_integer_list singleton_list = None"
  "lower standard_library singleton_sums =
     Ok (Z3Term.Bool (AForall ''i'' (AEq (AConst ''list-sum::digest'' SInt) (AConst ''i'' SInt))))"
proof -
  show list: "lower standard_library singleton_list = Ok (Z3Term.List (AUnit (AConst ''i'' SInt)) Sort.Int)"
    by (simp add: singleton_list_def standard_library_def int_const_def join_units_def)
  show none: "concrete_integer_list singleton_list = None"
    by (simp add: singleton_list_def concrete_integer_list_def integers_of_def constant_int_def)
  show "lower standard_library singleton_sums =
     Ok (Z3Term.Bool (AForall ''i'' (AEq (AConst ''list-sum::digest'' SInt) (AConst ''i'' SInt))))"
    using list none
    by (simp add: singleton_sums_def with_list_def structural_symbol_def)
      (simp add: standard_library_def int_const_def as_bool_def bound_name_def equal_terms.simps)
qed

lemma plain_own_axioms:
  "own_axioms L (Term.Not v) = no_axioms" "own_axioms L (ForAll x s body) = no_axioms"
  "own_axioms L (Equal l r) = no_axioms" "own_axioms L (Term.List s vs) = no_axioms"
  "own_axioms L (Variable x Sort.Int) = no_axioms"
  by (simp_all add: own_axioms_def comprehension_axioms_def set_uniqueness_axiom_def is_set_term_def
      list_slice_axioms_def variadic_tuple_slice_axioms_def list_builtin_axioms_def predicate_projections_def
      no_axioms_def [symmetric])

lemma list_sum_own_axioms: "own_axioms L (ListSum source) = list_builtin_axioms L (ListSum source)"
  by (auto simp: own_axioms_def comprehension_axioms_def set_uniqueness_axiom_def is_set_term_def
      list_slice_axioms_def variadic_tuple_slice_axioms_def predicate_projections_def no_axioms_def [symmetric]
      then_axioms_def no_axioms_def state_axioms_def fun_eq_iff split: prod.splits sum.splits)

lemma no_axioms_then [simp]: "then_axioms a no_axioms = a"
  by (auto simp: then_axioms_def no_axioms_def state_axioms_def fun_eq_iff split: prod.splits sum.splits)

lemma singleton_sum_axioms:
  "\<exists>as. predicate_instance_axioms standard_library (Term.Not singleton_sums) counter = (Ok as, counter + 1)"
proof -
  have leaves: "predicate_instance_axioms standard_library singleton_list = no_axioms"
    "predicate_instance_axioms standard_library (Variable ''i'' Sort.Int) = no_axioms"
    by (subst predicate_instance_axioms.simps, simp add: singleton_list_def plain_own_axioms comparison_axioms)+
  have all: "predicate_instance_axioms standard_library (Term.Not singleton_sums) =
      list_builtin_axioms standard_library (ListSum singleton_list)"
    unfolding singleton_sums_def
    by (simp add: predicate_instance_axioms.simps [of _ "Term.Not _"] predicate_instance_axioms.simps [of _ "ForAll _ _ _"]
        predicate_instance_axioms.simps [of _ "Equal _ _"] predicate_instance_axioms.simps [of _ "ListSum _"]
        plain_own_axioms list_sum_own_axioms leaves)
  have lowered: "lower standard_library (ListSum singleton_list) = Ok (Z3Term.Int (AConst ''list-sum::digest'' SInt))"
    using singleton_sums_lowered(1,2)
    by (simp add: structural_symbol_def) (simp add: standard_library_def int_const_def)
  have parts: "concatenated_parts singleton_list = None"
    by (simp add: concatenated_parts_def singleton_list_def)
  have built: "\<exists>as. list_sum_axioms standard_library singleton_list (AUnit (AConst ''i'' SInt))
      (AConst ''list-sum::digest'' SInt) name = Ok as" for name
    by (simp add: list_sum_axioms_def parts sum_definition_def prefix_sum_def integer_sequence_sort_def
        standard_library_def if_sort_def seq_const_def int_const_def element_sort_def Let_def ok_or_def)
  have digest: "structural_symbol standard_library ''list-sum-definition'' (TermFingerprint singleton_list) =
      Ok ''list-sum-definition::digest''"
    by (simp add: structural_symbol_def) (simp add: standard_library_def)
  have element: "integer_list problem (lower standard_library singleton_list) = Ok (AUnit (AConst ''i'' SInt))" for problem
    by (simp add: integer_list_def singleton_sums_lowered)
  show ?thesis
    unfolding all
    using built by (simp add: list_builtin_axioms_def singleton_sums_lowered(2) numbered_axioms_def element digest lowered
        as_int_def del: lower.simps)
qed

text \<open>
  Property C40. The sum of a list that mentions a quantified variable is
  lowered to one constant for all values of the variable. So the well-sorted, false obligation that
  denies \<open>forall i. sum([i]) == i\<close> is sent to Z3 with an assertion that no model satisfies, and is
  reported as proved whenever Z3 notices.
\<close>

theorem lowering_forgets_the_binder:
  "term_sort (conclusion denied_sums) = Ok Sort.Bool \<and>
   (\<forall>I env. meaning I env (conclusion denied_sums) = VBool False) \<and>
   (\<forall>counter. \<exists>as. (\<exists>a. Assert a \<in> set as \<and> (\<forall>M. evaluates_to standard_semantics M a = ZBool False)) \<and>
     (\<forall>check. discharge_with standard_library check counter denied_sums =
        (case solver_status (fst (check as)) (snd (check as)) of
           (status, model) \<Rightarrow> Ok (obligation_result denied_sums status model))))"
proof (intro conjI allI)
  show sorts: "term_sort (conclusion denied_sums) = Ok Sort.Bool"
    by (simp add: denied_sums_def singleton_sums_def singleton_list_def term_sort_def sort_for_all_def sort_equal_def
        sort_list_sum_def sort_list_def sort_variable_def require_sort_def require_all_sorts_def
        require_bound_term_sort_def bound_two_def bound_all_def bound_variable_def)
  show "meaning I env (conclusion denied_sums) = VBool False" for I env
  proof -
    have "v = VInt (integer_of v)" if "value_has_sort v Sort.Int" for v
      using that by (cases v) auto
    then show ?thesis by (auto simp: denied_sums_def singleton_sums_def singleton_list_def)
  qed
  fix counter
  obtain axioms where axioms: "predicate_instance_axioms standard_library (Term.Not singleton_sums) counter = (Ok axioms, counter + 1)"
    using singleton_sum_axioms by blast
  let ?sums = "AForall ''i'' (AEq (AConst ''list-sum::digest'' SInt) (AConst ''i'' SInt))"
  let ?as = "axioms @ [Assert (ANot (ANot ?sums))]"
  have never: "evaluates_to standard_semantics M (ANot (ANot ?sums)) = ZBool False" for M
  proof -
    let ?c = "z3_number (constant_value M ''list-sum::digest'' SInt)"
    have "\<exists>k. ?c \<noteq> k" by (rule exI [of _ "?c + 1"]) simp
    then show ?thesis by (simp add: standard_semantics_def with_int_def)
  qed
  have plain: "\<not> is_exact_sorted_adjacent_order_theorem (conclusion denied_sums)"
    by (simp add: denied_sums_def is_exact_sorted_adjacent_order_theorem_def)
  have "fst (z3_query standard_library check counter [] (Term.Not singleton_sums)) = Ok (check ?as)" for check
    using axioms singleton_sums_lowered(3)
    by (simp add: z3_query_def as_bool_def) (simp add: standard_library_def as_bool_def)
  then have "\<forall>check. discharge_with standard_library check counter denied_sums =
        (case solver_status (fst (check ?as)) (snd (check ?as)) of
           (status, model) \<Rightarrow> Ok (obligation_result denied_sums status model))"
    using sorts plain by (simp add: discharge_with_def discharge_def denied_sums_def split: prod.split)
  with never show "\<exists>as. (\<exists>a. Assert a \<in> set as \<and> (\<forall>M. evaluates_to standard_semantics M a = ZBool False)) \<and>
     (\<forall>check. discharge_with standard_library check counter denied_sums =
        (case solver_status (fst (check as)) (snd (check as)) of
           (status, model) \<Rightarrow> Ok (obligation_result denied_sums status model)))"
    by (intro exI [of _ ?as] conjI exI [of _ "ANot (ANot ?sums)"]) auto
qed

end
