(* ===== verification/Solver_Progress.thy ===== *)
theory Solver_Progress
  imports Solver_Soundness VC_Typing
begin

text \<open>
  The lowering never fails on a well-sorted covered term: what it returns has the shape of the
  term's sort. So discharging a well-sorted obligation always ends with a verdict of Z3, and a valid
  one is never reported as refuted.
\<close>

section \<open>Shapes of lowered terms\<close>

fun shaped :: "('ast, 'sort) Library \<Rightarrow> ('ast, 'sort, 'model) Semantics \<Rightarrow> 'ast Z3Term \<Rightarrow> Sort \<Rightarrow> bool" where
  "shaped L S (Z3Term.Bool a) s \<longleftrightarrow> s = Sort.Bool"
| "shaped L S (Z3Term.Int a) s \<longleftrightarrow> s = Sort.Int \<and> ast_sort S a = sort_int L"
| "shaped L S Z3Term.Unit s \<longleftrightarrow> s = Sort.Unit"
| "shaped L S (Z3Term.Tuple as) s \<longleftrightarrow>
     (case s of Sort.Tuple ss \<Rightarrow> length as = length ss \<and> (\<forall>(a, s) \<in> set (zip as ss). shaped L S a s) | _ \<Rightarrow> False)"
| "shaped L S (Z3Term.VariadicTuple a e) s \<longleftrightarrow>
     s = Sort.VariadicTuple Sort.Int \<and> e = Sort.Int \<and> ast_sort S a = sort_seq L (sort_int L)"
| "shaped L S (Z3Term.List a e) s \<longleftrightarrow>
     s = Sort.List Sort.Int \<and> e = Sort.Int \<and> ast_sort S a = sort_seq L (sort_int L)"
| "shaped L S _ s \<longleftrightarrow> False"

lemma shaped_Tuple: "shaped L S (Z3Term.Tuple as) s \<longleftrightarrow> (\<exists>ss. s = Sort.Tuple ss \<and> list_all2 (shaped L S) as ss)"
  by (cases s) (auto simp: list_all2_iff)

declare shaped.simps(4) [simp del]
declare shaped_Tuple [simp]

lemma shaped_forms:
  "shaped L S t Sort.Bool \<longleftrightarrow> (\<exists>a. t = Z3Term.Bool a)"
  "shaped L S t Sort.Int \<longleftrightarrow> (\<exists>a. t = Z3Term.Int a \<and> ast_sort S a = sort_int L)"
  "shaped L S t Sort.Unit \<longleftrightarrow> t = Z3Term.Unit"
  "shaped L S t (Sort.Tuple ss) \<longleftrightarrow> (\<exists>as. t = Z3Term.Tuple as \<and> list_all2 (shaped L S) as ss)"
  "shaped L S t (Sort.VariadicTuple e) \<longleftrightarrow>
     (\<exists>a. t = Z3Term.VariadicTuple a Sort.Int \<and> e = Sort.Int \<and> ast_sort S a = sort_seq L (sort_int L))"
  "shaped L S t (Sort.List e) \<longleftrightarrow>
     (\<exists>a. t = Z3Term.List a Sort.Int \<and> e = Sort.Int \<and> ast_sort S a = sort_seq L (sort_int L))"
  by (cases t; auto)+

lemma ite_progress:
  "documented L S \<Longrightarrow> shaped L S t s \<Longrightarrow> shaped L S e s \<Longrightarrow> \<exists>r. ite_terms L c t e = Ok r \<and> shaped L S r s"
proof (induction L c t e arbitrary: s rule: ite_terms.induct)
  case (10 L c as e)
  then obtain ss bs where s: "s = Sort.Tuple ss" and e: "e = Z3Term.Tuple bs"
    and as: "list_all2 (shaped L S) as ss" and bs: "list_all2 (shaped L S) bs ss"
    by (auto simp: shaped_forms)
  then have len: "length as = length bs" "length as = length ss" by (auto simp: list_all2_iff)
  have "\<exists>r. ite_terms L c (as ! i) (bs ! i) = Ok r \<and> shaped L S r (ss ! i)" if "i < length as" for i
  proof -
    have "(as ! i, bs ! i) \<in> set (zip as bs)" using that len by (auto simp: set_zip)
    then show ?thesis
      using 10(1) [OF e len(1)] "10.prems"(1) list_all2_nthD [OF as that] list_all2_nthD2 [OF bs, of i] that len by auto
  qed
  then obtain r where r: "\<And>i. i < length as \<Longrightarrow> ite_terms L c (as ! i) (bs ! i) = Ok (r i) \<and> shaped L S (r i) (ss ! i)"
    by metis
  then have "list_all2 (\<lambda>ab r. ite_terms L c (fst ab) (snd ab) = Ok r) (zip as bs) (map r [0..<length as])"
    "list_all2 (shaped L S) (map r [0..<length as]) ss"
    using len by (auto simp: list_all2_conv_all_nth)
  then show ?case
    using len by (auto simp: s e collect_while_ok_eq_Inr case_prod_beta)
qed (auto simp: shaped_forms boolean_laws)

lemma equal_progress: "shaped L S l s \<Longrightarrow> shaped L S r s \<Longrightarrow> \<exists>a. equal_terms L l r = Ok a"
proof (induction L l r arbitrary: s rule: equal_terms.induct)
  case (10 L ls right)
  then obtain ss rs where s: "s = Sort.Tuple ss" and right: "right = Z3Term.Tuple rs"
    and ls: "list_all2 (shaped L S) ls ss" and rs: "list_all2 (shaped L S) rs ss"
    by (auto simp: shaped_forms)
  then have len: "length ls = length rs" "length ls = length ss" by (auto simp: list_all2_iff)
  have "\<exists>a. equal_terms L (ls ! i) (rs ! i) = Ok a" if "i < length ls" for i
  proof -
    have "(ls ! i, rs ! i) \<in> set (zip ls rs)" using that len by (auto simp: set_zip)
    then show ?thesis
      using 10(1) [OF right len(1)] list_all2_nthD [OF ls that] list_all2_nthD2 [OF rs, of i] that len by auto
  qed
  then obtain a where "\<And>i. i < length ls \<Longrightarrow> equal_terms L (ls ! i) (rs ! i) = Ok (a i)" by metis
  then have "list_all2 (\<lambda>lr a. equal_terms L (fst lr) (snd lr) = Ok a) (zip ls rs) (map a [0..<length ls])"
    using len by (auto simp: list_all2_conv_all_nth)
  then show ?case using len by (auto simp: right collect_while_ok_eq_Inr case_prod_beta)
qed (auto simp: shaped_forms equal_lists_def)

section \<open>Progress\<close>

lemma list_all2_choice: "\<forall>x \<in> set xs. \<exists>y. P x y \<Longrightarrow> \<exists>ys. list_all2 P xs ys"
  by (induction xs) (auto simp: list_all2_Cons1)

definition lowers :: "('ast, 'sort) Library \<Rightarrow> ('ast, 'sort, 'model) Semantics \<Rightarrow> Term \<Rightarrow> bool" where
  "lowers L S t \<longleftrightarrow> (\<forall>s. sort_typed t = Ok s \<longrightarrow> (\<exists>r. lower L t = Ok r \<and> shaped L S r s))"

lemma lowersI: "(\<And>s. sort_typed t = Ok s \<Longrightarrow> \<exists>r. lower L t = Ok r \<and> shaped L S r s) \<Longrightarrow> lowers L S t"
  by (simp add: lowers_def)

lemma lowers_forms:
  assumes "lowers L S t"
  shows "sort_typed t = Ok Sort.Bool \<Longrightarrow> \<exists>a. lower L t = Ok (Z3Term.Bool a)"
    "sort_typed t = Ok Sort.Int \<Longrightarrow> \<exists>a. lower L t = Ok (Z3Term.Int a) \<and> ast_sort S a = sort_int L"
    "sort_typed t = Ok (Sort.Tuple ss) \<Longrightarrow> \<exists>as. lower L t = Ok (Z3Term.Tuple as) \<and> list_all2 (shaped L S) as ss"
    "sort_typed t = Ok (Sort.VariadicTuple e) \<Longrightarrow> \<exists>a. lower L t = Ok (Z3Term.VariadicTuple a Sort.Int) \<and>
       e = Sort.Int \<and> ast_sort S a = sort_seq L (sort_int L)"
    "sort_typed t = Ok (Sort.List e) \<Longrightarrow> \<exists>a. lower L t = Ok (Z3Term.List a Sort.Int) \<and>
       e = Sort.Int \<and> ast_sort S a = sort_seq L (sort_int L)"
  using assms unfolding lowers_def by (metis shaped_forms)+
text \<open>What the solver needs of its libraries: documented behaviour and digests that succeed.\<close>

locale z3_library =
  fixes L :: "('ast, 'sort) Library" and S :: "('ast, 'sort, 'model) Semantics"
  assumes behaves: "documented L S"
    and digests: "\<And>f. \<exists>d. encode_digest L f = Ok d"
begin

lemmas integers = integer_laws [OF behaves]
lemmas sequences = sequence_laws [OF behaves]
lemmas constants = constant_laws [OF behaves]

lemma element_sort_law: "ast_sort S a = sort_seq L s \<Longrightarrow> ast_sort S (seq_nth L a i) = s"
  using behaves unfolding documented_def documented_sequences_def by blast

lemma atoms_lower:
  "lowers L S (Term.Bool b)" "lowers L S (Term.Int i)" "lowers L S Term.Unit"
  "s \<in> {Sort.Bool, Sort.Int, Sort.List Sort.Int, Sort.VariadicTuple Sort.Int} \<Longrightarrow> lowers L S (Variable x s)"
  by (auto intro!: lowersI simp: integers bool_const_def int_const_def seq_const_def constants)

lemma int_enum_lowers:
  assumes "lowers L S left" "lowers L S right"
  shows "lowers L S (IntEnumValue d left)" "lowers L S (IntEnumProjection left)"
    "lowers L S (IntEnumDomain left)" "lowers L S (IntEnumIdentity left right)"
proof -
  show "lowers L S (IntEnumValue d left)"
    using lowers_forms(2) [OF assms(1)] by (intro lowersI) (auto simp: sort_int_enum_value_def as_int_def)
  show "lowers L S (IntEnumProjection left)"
    using lowers_forms(2) [OF assms(1)]
    by (intro lowersI) (auto simp: as_int_def is_int_enum_value_iff sort_int_enum_projection_def sort_int_enum_value_def
        split: if_splits)
  show "lowers L S (IntEnumDomain left)"
    using lowers_forms(2) [OF assms(1)]
    by (intro lowersI) (auto simp: as_int_def is_int_enum_value_iff sort_int_enum_projection_def sort_int_enum_value_def
        int_enum_parts_def split: if_splits)
  show "lowers L S (IntEnumIdentity left right)"
    using lowers_forms(2) [OF assms(1)] lowers_forms(2) [OF assms(2)]
    by (intro lowersI) (auto simp: as_int_def is_int_enum_value_iff sort_int_enum_identity_def sort_int_enum_value_def
        int_enum_parts_def int_operands_def split: if_splits)
qed

lemma arithmetic_lowers:
  assumes "lowers L S left" "lowers L S right"
  shows "lowers L S (Less left right)" "lowers L S (LessEqual left right)" "lowers L S (Greater left right)"
    "lowers L S (GreaterEqual left right)" "lowers L S (Term.Add left right)" "lowers L S (Subtract left right)"
    "lowers L S (Multiply left right)" "lowers L S (Negate left)" "lowers L S (FloorDivideByPositive left divisor)"
    "lowers L S (TupleGet left index)"
  by (rule lowersI; use lowers_forms(2) [OF assms(1)] lowers_forms(2) [OF assms(2)] lowers_forms(3) [OF assms(1)] in
      \<open>auto simp: integers sort_integer_operator_def sort_floor_divide_def sort_tuple_get_def
        list_all2_conv_all_nth split: if_splits\<close>)+

lemma branching_lowers:
  assumes "lowers L S condition" "lowers L S left" "lowers L S right"
  shows "lowers L S (Term.Not left)" "lowers L S (Implies left right)"
    "lowers L S (IfThenElse condition left right)" "lowers L S (Equal left right)"
proof -
  show "lowers L S (Term.Not left)" "lowers L S (Implies left right)"
    by (rule lowersI; use lowers_forms(1) [OF assms(2)] lowers_forms(1) [OF assms(3)] in \<open>auto simp: as_bool_def\<close>)+
  show "lowers L S (IfThenElse condition left right)"
  proof (rule lowersI)
    fix s
    assume "sort_typed (IfThenElse condition left right) = Ok s"
    then have sorts: "sort_typed condition = Ok Sort.Bool" "sort_typed left = Ok s" "sort_typed right = Ok s"
      by (auto simp: sort_if_then_else_def split: if_splits)
    then obtain c t e where "lower L condition = Ok (Z3Term.Bool c)" "lower L left = Ok t" "lower L right = Ok e"
      "shaped L S t s" "shaped L S e s"
      using lowers_forms(1) [OF assms(1)] assms(2,3) unfolding lowers_def by metis
    then show "\<exists>r. lower L (IfThenElse condition left right) = Ok r \<and> shaped L S r s"
      using ite_progress [OF behaves, of t s e c] by (auto simp: as_bool_def)
  qed
  show "lowers L S (Equal left right)"
  proof (rule lowersI)
    fix s
    assume "sort_typed (Equal left right) = Ok s"
    then obtain s' where sorts: "sort_typed left = Ok s'" "sort_typed right = Ok s'" "s = Sort.Bool"
      by (auto simp: sort_equal_def split: if_splits)
    then obtain l r where "lower L left = Ok l" "lower L right = Ok r" "shaped L S l s'" "shaped L S r s'"
      using assms(2,3) unfolding lowers_def by metis
    then show "\<exists>r. lower L (Equal left right) = Ok r \<and> shaped L S r s"
      using equal_progress [of L S l s' r] sorts(3) by auto
  qed
qed

lemma connectives_lower:
  assumes "\<And>v. v \<in> set vs \<Longrightarrow> lowers L S v"
  shows "lowers L S (Term.And vs)" "lowers L S (Term.Or vs)" "lowers L S (Term.Tuple vs)"
proof -
  have all: "\<exists>as. collect_while_ok (\<lambda>v. res_bind (lower L v) as_bool) vs = Ok as"
    if "\<forall>v \<in> set vs. sort_typed v = Ok Sort.Bool"
  proof -
    have "\<forall>v \<in> set vs. \<exists>a. res_bind (lower L v) as_bool = Ok a"
      using that lowers_forms(1) [OF assms] by (fastforce simp: as_bool_def)
    then show ?thesis unfolding collect_while_ok_eq_Inr by (rule list_all2_choice)
  qed
  show "lowers L S (Term.And vs)" "lowers L S (Term.Or vs)"
    by (rule lowersI; use all in force)+
  show "lowers L S (Term.Tuple vs)"
  proof (rule lowersI)
    fix s
    assume "sort_typed (Term.Tuple vs) = Ok s"
    then obtain ss where s: "s = Sort.Tuple ss" and sorts: "list_all2 (\<lambda>v s. sort_typed v = Ok s) vs ss"
      by (auto simp: sort_tuple_def collect_sorts_eq_Ok list_all2_map1)
    have "\<forall>vs \<in> set (zip vs ss). \<exists>r. lower L (fst vs) = Ok r \<and> shaped L S r (snd vs)"
      using sorts assms set_zip_leftD unfolding list_all2_iff lowers_def by fastforce
    from list_all2_choice [OF this] obtain rs where
      rs: "list_all2 (\<lambda>vs r. lower L (fst vs) = Ok r \<and> shaped L S r (snd vs)) (zip vs ss) rs" ..
    then have "list_all2 (\<lambda>v r. lower L v = Ok r) vs rs" "list_all2 (shaped L S) rs ss"
      using sorts by (auto simp: list_all2_conv_all_nth)
    then show "\<exists>r. lower L (Term.Tuple vs) = Ok r \<and> shaped L S r s"
      by (auto simp: s collect_while_ok_eq_Inr)
  qed
qed

lemma literals_lower:
  assumes "\<And>v. v \<in> set vs \<Longrightarrow> lowers L S v"
  shows "lowers L S (Term.List Sort.Int vs)" "lowers L S (Term.VariadicTuple Sort.Int vs)"
proof -
  have units: "\<exists>units. collect_while_ok (\<lambda>v. res_bind (lower L v) (\<lambda>v.
        res_bind (into_dynamic_element L v Sort.Int) (\<lambda>d. Ok (seq_unit L d)))) vs = Ok units \<and>
      ast_sort S (join_units L (sort_int L) units) = sort_seq L (sort_int L)"
    if "\<forall>v \<in> set vs. sort_typed v = Ok Sort.Int"
  proof -
    have "\<forall>v \<in> set vs. \<exists>d. lower L v = Ok (Z3Term.Int d) \<and> ast_sort S d = sort_int L"
      using that lowers_forms(2) [OF assms] by blast
    from list_all2_choice [OF this] obtain ds where
      ds: "list_all2 (\<lambda>v d. lower L v = Ok (Z3Term.Int d) \<and> ast_sort S d = sort_int L) vs ds" ..
    then have "\<forall>d \<in> set ds. ast_sort S d = sort_int L"
      by (auto simp: list_all2_conv_all_nth in_set_conv_nth)
    with ds show ?thesis
      using join_units_value [OF behaves, of _ "sort_int L" ds] unfolding lowered_units
      by (intro exI [of _ "map (seq_unit L) ds"] conjI exI [of _ ds]) (auto elim: list_all2_mono)
  qed
  show "lowers L S (Term.List Sort.Int vs)" "lowers L S (Term.VariadicTuple Sort.Int vs)"
    by (rule lowersI; use units in \<open>force simp: sort_list_def sort_variadic_tuple_def split: if_splits\<close>)+
qed

lemma sequence_operations_lower:
  assumes "lowers L S left" "lowers L S right"
  shows "lowers L S (ListLength left)" "lowers L S (VariadicTupleLength left)"
    "lowers L S (ListGet left right)" "lowers L S (VariadicTupleGet left right)"
    "lowers L S (ListContains left right)" "lowers L S (ListConcat left right)"
  by (rule lowersI; use lowers_forms(2) [OF assms(2)] lowers_forms(4,5) [OF assms(1)] lowers_forms(5) [OF assms(2)] in
      \<open>fastforce simp: sequences integers element_sort_law sort_list_length_def sort_variadic_tuple_length_def
        sort_list_get_def sort_variadic_tuple_get_def sort_list_contains_def sort_list_concat_def split: if_splits\<close>)+

lemma for_all_lowers: "lowers L S body \<Longrightarrow> lowers L S (ForAll x Sort.Int body)"
  by (rule lowersI)
    (auto simp: sort_for_all_def require_bound_term_eq_Ok dest: lowers_forms(1) split: if_splits)

lemma slices_lower:
  assumes "covered \<Gamma> source" "sliced_literal source low up step" "\<And>u. u \<in> literal_items source \<Longrightarrow> lowers L S u"
  shows "lowers L S (ListSlice source low up step)" "lowers L S (VariadicTupleSlice source low up step)"
proof -
  consider (list) vs where "source = Term.List Sort.Int vs" "machine_slice (length vs) low up step"
    | (tuple) vs where "source = Term.VariadicTuple Sort.Int vs" "machine_slice (length vs) low up step"
    using assms(1,2) by (cases source) (simp_all add: sliced_literal_def)
  then have "lowers L S (ListSlice source low up step) \<and> lowers L S (VariadicTupleSlice source low up step)"
  proof cases
    case list
    let ?ws = "python_slice vs low up step"
    have step: "step \<noteq> 0" and selected: "select_slice vs low up step = Some ?ws"
      using list(2) settled_slice_select by (auto simp: machine_slice_def)
    have elements: "set ?ws \<subseteq> set vs" by (rule set_python_slice [OF step])
    have "lowers L S (Term.List Sort.Int ?ws)"
      by (rule literals_lower) (use elements assms(3) list(1) in auto)
    moreover have "lower L (ListSlice source low up step) = lower L (Term.List Sort.Int ?ws)"
      using step selected by (simp add: list(1) concrete_static_list_slice_def)
    ultimately show ?thesis
      using elements by (auto simp: lowers_def list(1) sort_list_slice_def sort_variadic_tuple_slice_def sort_list_def
          split: if_splits simp del: lower.simps)
  next
    case tuple
    let ?ws = "python_slice vs low up step"
    have step: "step \<noteq> 0" and selected: "select_slice vs low up step = Some ?ws"
      using tuple(2) settled_slice_select by (auto simp: machine_slice_def)
    have elements: "set ?ws \<subseteq> set vs" by (rule set_python_slice [OF step])
    have "lowers L S (Term.VariadicTuple Sort.Int ?ws)"
      by (rule literals_lower) (use elements assms(3) tuple(1) in auto)
    moreover have "lower L (VariadicTupleSlice source low up step) = lower L (Term.VariadicTuple Sort.Int ?ws)"
      using step selected by (simp add: tuple(1) concrete_static_variadic_tuple_slice_def)
    ultimately show ?thesis
      using elements by (auto simp: lowers_def tuple(1) sort_list_slice_def sort_variadic_tuple_slice_def
          sort_variadic_tuple_def split: if_splits simp del: lower.simps)
  qed
  then show "lowers L S (ListSlice source low up step)" "lowers L S (VariadicTupleSlice source low up step)" by simp_all
qed

lemma literal_operations_lower:
  "concrete_integer_list source \<noteq> None \<Longrightarrow> lowers L S (ListSum source)"
  "concrete_integer_list source \<noteq> None \<Longrightarrow> lowers L S (ListSorted source)"
  by (auto intro!: lowersI simp: sort_list_sum_def sort_list_sorted_def integer_list_sum_value [OF behaves]
      integer_sequence_value [OF behaves] split: if_splits)

lemma covered_lowers: "covered \<Gamma> t \<Longrightarrow> lowers L S t \<and> (\<forall>u \<in> literal_items t. lowers L S u)"
proof (induction \<Gamma> t rule: covered.induct)
qed (auto simp del: not_None_eq intro!: atoms_lower connectives_lower literals_lower literal_operations_lower for_all_lowers
    intro: int_enum_lowers arithmetic_lowers branching_lowers sequence_operations_lower slices_lower)

section \<open>Discharge\<close>

lemma int_literals: "\<exists>a. int_from_i128 L i = Ok a" "\<exists>a. int_from_u128 L i = Ok a"
  using literal_law [OF behaves, of i] by (auto simp: int_from_i128_def int_from_u128_def)

lemma slice_bound_progress: "\<exists>a. slice_bound L len low high otherwise bound = Ok a"
  using int_literals(1) by (cases bound) (auto simp: slice_bound_def)

lemma normalized_slice_progress:
  assumes "step \<noteq> 0"
  shows "\<exists>r. normalized_slice_terms L len low up step = Ok r"
proof -
  obtain magnitude where magnitude: "int_from_u128 L \<bar>step\<bar> = Ok magnitude" using int_literals(2) by blast
  let ?last = "mk_sub L len (from_i64 L 1)"
  obtain a b where "slice_bound L len (from_i64 L 0) len (from_i64 L 0) low = Ok a"
    "slice_bound L len (from_i64 L 0) len len up = Ok b" using slice_bound_progress by meson
  moreover obtain c d where "slice_bound L len (from_i64 L (- 1)) ?last ?last low = Ok c"
    "slice_bound L len (from_i64 L (- 1)) ?last (from_i64 L (- 1)) up = Ok d" using slice_bound_progress by meson
  ultimately show ?thesis
    using assms magnitude by (cases "step > 0") (simp_all add: normalized_slice_terms_def Let_def)
qed

lemma slice_facts_progress: "step \<noteq> 0 \<Longrightarrow> \<exists>as. slice_facts L prefix fp v r low up step = Ok as"
  using normalized_slice_progress [of step "seq_length L v" low up] digests [of fp] int_literals(1) [of step]
  by (auto simp: slice_facts_def structural_symbol_def Let_def split: prod.splits)

definition states_axioms :: "'ast axioms \<Rightarrow> bool" where
  "states_axioms axioms \<longleftrightarrow> (\<forall>counter. \<exists>as counter'. axioms counter = (Ok as, counter'))"

lemma states_then:
  assumes "states_axioms first" "states_axioms second"
  shows "states_axioms (then_axioms first second)"
  unfolding states_axioms_def
proof
  fix counter
  from assms(1) obtain as middle where "first counter = (Ok as, middle)" unfolding states_axioms_def by blast
  moreover from assms(2) obtain bs counter' where "second middle = (Ok bs, counter')" unfolding states_axioms_def by blast
  ultimately show "\<exists>as counter'. then_axioms first second counter = (Ok as, counter')"
    by (simp add: then_axioms_def)
qed

lemma states_none: "states_axioms no_axioms"
  by (simp add: states_axioms_def no_axioms_def state_axioms_def)

lemma states_each: "(\<And>x. x \<in> set xs \<Longrightarrow> states_axioms (f x)) \<Longrightarrow> states_axioms (each_axioms f xs)"
  by (induction xs) (auto intro: states_then states_none)

lemma states_own:
  assumes "covered \<Gamma> t" "sort_typed t = Ok s"
  shows "states_axioms (own_axioms L t)"
proof -
  have slices: "(\<exists>as. list_slice_axioms L t = Ok as) \<and> (\<exists>as. variadic_tuple_slice_axioms L t = Ok as)"
  proof (cases "\<exists>u low up step. t = ListSlice u low up step \<or> t = VariadicTupleSlice u low up step")
    case False
    then show ?thesis by (cases t) (auto simp: list_slice_axioms_def variadic_tuple_slice_axioms_def)
  next
    case True
    then obtain u low up step where t: "t = ListSlice u low up step \<or> t = VariadicTupleSlice u low up step" by blast
    with assms(1) have source: "covered \<Gamma> u" "sliced_literal u low up step" by auto
    note operand = covered_lowers [OF source(1), THEN conjunct1]
    note whole = covered_lowers [OF assms(1), THEN conjunct1]
    from t show ?thesis
    proof
      assume t: "t = ListSlice u low up step"
      with assms(2) obtain e where "sort_typed u = Ok (Sort.List e)" "sort_typed t = Ok (Sort.List e)"
        by (auto simp: sort_list_slice_def)
      with lowers_forms(5) [OF operand] lowers_forms(5) [OF whole] obtain v r where
        "lower L u = Ok (Z3Term.List v Sort.Int)" "lower L t = Ok (Z3Term.List r Sort.Int)" by auto
      then show ?thesis
        using slice_facts_progress [OF sliced_source(1) [OF source]] unfolding t
        by (simp add: list_slice_axioms_def variadic_tuple_slice_axioms_def del: lower.simps)
    next
      assume t: "t = VariadicTupleSlice u low up step"
      with assms(2) obtain e where "sort_typed u = Ok (Sort.VariadicTuple e)" "sort_typed t = Ok (Sort.VariadicTuple e)"
        by (auto simp: sort_variadic_tuple_slice_def)
      with lowers_forms(4) [OF operand] lowers_forms(4) [OF whole] obtain v r where
        "lower L u = Ok (Z3Term.VariadicTuple v Sort.Int)" "lower L t = Ok (Z3Term.VariadicTuple r Sort.Int)" by auto
      then show ?thesis
        using slice_facts_progress [OF sliced_source(1) [OF source]] unfolding t
        by (simp add: list_slice_axioms_def variadic_tuple_slice_axioms_def del: lower.simps)
    qed
  qed
  then obtain as bs where "list_slice_axioms L t = Ok as" "variadic_tuple_slice_axioms L t = Ok bs" by blast
  then show ?thesis
    unfolding own_axioms_def covered_without_axioms [OF assms(1)]
    by (intro states_then states_none) (simp_all add: states_axioms_def state_axioms_def)
qed

end

lemma operands_sorted: "covered \<Gamma> t \<Longrightarrow> sort_typed t = Ok s \<Longrightarrow> u \<in> set (axiom_children t) \<Longrightarrow> \<exists>s'. sort_typed u = Ok s'"
  by (cases t)
    (auto simp: sort_int_enum_value_def sort_int_enum_projection_def sort_int_enum_identity_def sort_if_then_else_def
      sort_equal_def sort_integer_operator_def sort_floor_divide_def sort_tuple_def collect_sorts_eq_Ok list_all2_map1
      sort_tuple_get_def sort_variadic_tuple_def sort_variadic_tuple_length_def sort_variadic_tuple_get_def
      sort_variadic_tuple_slice_def sort_list_def sort_list_length_def sort_list_get_def sort_list_contains_def
      sort_list_slice_def sort_list_concat_def sort_list_sum_def sort_list_sorted_def sort_for_all_def
      require_bound_term_eq_Ok dest: list_all2_in_set1 split: if_splits)

context z3_library
begin

lemma states_covered: "covered \<Gamma> t \<Longrightarrow> sort_typed t = Ok s \<Longrightarrow> states_axioms (predicate_instance_axioms L t)"
proof (induction t arbitrary: s rule: term_children_induct)
  case (step t)
  have "states_axioms (predicate_instance_axioms L u)" if u: "u \<in> set (axiom_children t)" for u
  proof -
    obtain s' where "sort_typed u = Ok s'" using operands_sorted [OF step.prems u] ..
    then show ?thesis
      by (rule step.IH [rotated 2]) (use u axiom_children_terms covered_children [OF step.prems(1)] in auto)
  qed
  then have "states_axioms (each_axioms (predicate_instance_axioms L) (axiom_children t))" by (rule states_each)
  with states_own [OF step.prems] show ?case
    by (subst predicate_instance_axioms.simps) (rule states_then)
qed

lemma query_progress:
  assumes "\<forall>t \<in> set (goal # assumed). covered \<Gamma> t \<and> sort_typed t = Ok Sort.Bool"
  obtains axioms facts claim counter' where
    "each_axioms (predicate_instance_axioms L) (assumed @ [goal]) counter = (Ok axioms, counter')"
    "list_all2 (\<lambda>t a. lower L t = Ok (Z3Term.Bool a)) assumed facts" "lower L goal = Ok (Z3Term.Bool claim)"
    "z3_query L check counter assumed goal = (Ok (check (axioms @ map Assert facts @ [Assert (mk_not L claim)])), counter')"
proof -
  have "states_axioms (each_axioms (predicate_instance_axioms L) (assumed @ [goal]))"
    by (rule states_each) (use assms states_covered in auto)
  then obtain axioms counter' where
    axioms: "each_axioms (predicate_instance_axioms L) (assumed @ [goal]) counter = (Ok axioms, counter')"
    unfolding states_axioms_def by blast
  have lowered: "\<exists>a. lower L t = Ok (Z3Term.Bool a)" if "t \<in> set (goal # assumed)" for t
    using assms that covered_lowers lowers_forms(1) by blast
  then obtain claim where claim: "lower L goal = Ok (Z3Term.Bool claim)" by auto
  have "\<forall>t \<in> set assumed. \<exists>a. lower L t = Ok (Z3Term.Bool a)" using lowered by simp
  from list_all2_choice [OF this] obtain facts where
    facts: "list_all2 (\<lambda>t a. lower L t = Ok (Z3Term.Bool a)) assumed facts" ..
  then have "collect_while_ok (\<lambda>t. res_bind (lower L t) as_bool) assumed = Ok facts"
    by (simp add: collect_while_ok_eq_Inr)
  then have "z3_query L check counter assumed goal =
      (Ok (check (axioms @ map Assert facts @ [Assert (mk_not L claim)])), counter')"
    by (simp add: z3_query_def axioms claim as_bool_def)
  with axioms facts claim show thesis by (rule that)
qed

end

text \<open>The interpretation and the environment a model stands for.\<close>

definition model_interpretation :: "('ast, 'sort, 'model) Semantics \<Rightarrow> 'model \<Rightarrow> Interpretation" where
  "model_interpretation S M =
     plain_interpretation\<lparr>outside := \<lambda>vs i. VInt (out_of_range S M (map integer_of vs) i)\<rparr>"

lemma model_interpretation_laws:
  "references_distinct (model_interpretation S M)" "integers_outside (model_interpretation S M)"
  "agrees_outside (model_interpretation S M) S M"
  using plain_references
  by (simp_all add: references_distinct_def model_interpretation_def integers_outside_def agrees_outside_def comp_def)

text \<open>The sorts the covered terms give their variables.\<close>

definition covered_sorts :: "(string \<Rightarrow> Sort) \<Rightarrow> bool" where
  "covered_sorts \<Gamma> \<longleftrightarrow>
     (\<forall>x. \<Gamma> x \<in> {Sort.Bool, Sort.Int, Sort.Unit, Sort.List Sort.Int, Sort.VariadicTuple Sort.Int})"

lemma model_env_typed: "covered_sorts \<Gamma> \<Longrightarrow> typed_env \<Gamma> (model_env L S \<Gamma> M)"
  unfolding typed_env_def
proof
  fix x
  assume "covered_sorts \<Gamma>"
  then have "\<Gamma> x \<in> {Sort.Bool, Sort.Int, Sort.Unit, Sort.List Sort.Int, Sort.VariadicTuple Sort.Int}"
    by (simp add: covered_sorts_def)
  then show "\<Gamma> x \<in> {Sort.Bool, Sort.Int, Sort.Unit, Sort.List Sort.Int, Sort.VariadicTuple Sort.Int} \<and>
      value_has_sort (model_env L S \<Gamma> M x) (\<Gamma> x)"
    by (auto simp: model_env_def model_integers_def)
qed

definition valid_obligation :: "(string \<Rightarrow> Sort) \<Rightarrow> Obligation \<Rightarrow> bool" where
  "valid_obligation \<Gamma> ob \<longleftrightarrow>
     (\<forall>I env. references_distinct I \<longrightarrow> integers_outside I \<longrightarrow> typed_env \<Gamma> env \<longrightarrow>
        (\<forall>t \<in> set (assumptions ob). truth_of (meaning I env t)) \<longrightarrow> truth_of (meaning I env (conclusion ob)))"

text \<open>
  An answer \<open>Sat\<close> about terms comes with a model of them. Nothing is asked of \<open>Unsat\<close> or of
  \<open>Unknown\<close>: the solver may give up on any query.
\<close>

definition sat_answers ::
  "('ast, 'sort, 'model) Semantics \<Rightarrow> ('ast Assertion list \<Rightarrow> SatResult \<times> string option) \<Rightarrow> bool" where
  "sat_answers S check \<longleftrightarrow>
     (\<forall>ts. fst (check (map Assert ts)) = Sat \<longrightarrow> (\<exists>M. \<forall>t \<in> set ts. z3_truth (evaluates_to S M t)))"

text \<open>Terms no model makes true together.\<close>

definition unsatisfiable :: "('ast, 'sort, 'model) Semantics \<Rightarrow> 'ast list \<Rightarrow> bool" where
  "unsatisfiable S ts \<longleftrightarrow> (\<forall>M. \<exists>t \<in> set ts. \<not> z3_truth (evaluates_to S M t))"

lemma satisfied_asserts: "\<forall>a \<in> set as. satisfied S M a \<Longrightarrow> \<exists>ts. as = map Assert ts"
proof (induction as)
  case (Cons a as)
  then obtain ts where "as = map Assert ts" by auto
  with Cons.prems show ?case by (cases a) (auto intro: exI [of _ "_ # ts"])
qed simp

context z3_library
begin

lemma valid_query_unsatisfiable:
  assumes "covered_sorts \<Gamma>" "index_names_free \<Gamma>" "valid_obligation \<Gamma> ob"
    "\<forall>t \<in> set (conclusion ob # assumptions ob). covered \<Gamma> t \<and> sort_typed t = Ok Sort.Bool"
  shows "\<exists>ts. unsatisfiable S ts \<and>
    fst (z3_query L check counter (assumptions ob) (conclusion ob)) = Ok (check (map Assert ts))"
proof -
  obtain axioms facts claim counter' where parts:
    "each_axioms (predicate_instance_axioms L) (assumptions ob @ [conclusion ob]) counter = (Ok axioms, counter')"
    "list_all2 (\<lambda>t a. lower L t = Ok (Z3Term.Bool a)) (assumptions ob) facts"
    "lower L (conclusion ob) = Ok (Z3Term.Bool claim)"
    "z3_query L check counter (assumptions ob) (conclusion ob) =
       (Ok (check (axioms @ map Assert facts @ [Assert (mk_not L claim)])), counter')"
    by (rule query_progress [OF assms(4)])
  have held: "\<forall>a \<in> set axioms. satisfied S M a" for M
  proof -
    have "asserts_satisfied S M (each_axioms (predicate_instance_axioms L) (assumptions ob @ [conclusion ob]))"
      using assms(4)
      by (intro asserts_satisfied_each covered_axioms_hold [OF behaves model_interpretation_laws(1) assms(2)
          model_interpretation_laws(3)]) auto
    with parts(1) show ?thesis unfolding asserts_satisfied_def by blast
  qed
  obtain ts where ts: "axioms = map Assert ts" using satisfied_asserts [OF held] by blast
  have "unsatisfiable S (ts @ facts @ [mk_not L claim])"
    unfolding unsatisfiable_def
  proof (intro allI, rule ccontr)
    fix M
    let ?I = "model_interpretation S M" and ?env = "model_env L S \<Gamma> M"
    assume "\<not> (\<exists>t \<in> set (ts @ facts @ [mk_not L claim]). \<not> z3_truth (evaluates_to S M t))"
    then have facts: "\<forall>a \<in> set facts. z3_truth (evaluates_to S M a)" and claim: "\<not> z3_truth (evaluates_to S M claim)"
      by (auto simp: boolean_laws [OF behaves])
    have denote: "denotes L S M (Z3Term.Bool a) (meaning ?I ?env t)"
      if "t \<in> set (conclusion ob # assumptions ob)" "lower L t = Ok (Z3Term.Bool a)" for t a
      using assms(4) that by (intro lowering_denotes [OF behaves model_interpretation_laws(1,3)]) auto
    have "truth_of (meaning ?I ?env t)" if "t \<in> set (assumptions ob)" for t
    proof -
      from list_all2_in_set1 [OF parts(2) that] obtain a where
        "a \<in> set facts" "lower L t = Ok (Z3Term.Bool a)" ..
      with denote [of t a] that facts show ?thesis by auto
    qed
    then have assumed: "\<forall>t \<in> set (assumptions ob). truth_of (meaning ?I ?env t)" by (rule ballI)
    note valid = assms(3) [unfolded valid_obligation_def, THEN spec, THEN spec, THEN mp, THEN mp, THEN mp, THEN mp]
    have "truth_of (meaning ?I ?env (conclusion ob))"
      by (rule valid [OF model_interpretation_laws(1,2) model_env_typed [OF assms(1)] assumed])
    with denote [OF _ parts(3)] claim show False by auto
  qed
  then show ?thesis using parts(4) ts by (intro exI [of _ "ts @ facts @ [mk_not L claim]"]) simp
qed

end

interpretation standard: z3_library standard_library standard_semantics
  by unfold_locales (simp_all add: standard_documented, simp add: standard_library_def)

lemma sorted_terms: "term_sort t = Ok s \<longleftrightarrow> sort_typed t = Ok s"
  by (cases "sort_typed t") (simp_all add: term_sort_def)

lemma checked_assumptions: "\<forall>t \<in> set ts. term_sort t = Ok Sort.Bool \<Longrightarrow> check_assumption_sorts name i ts = Ok ()"
  by (induction ts arbitrary: i) auto

lemma discharge_by_query:
  assumes "\<forall>t \<in> set (conclusion ob # assumptions ob). term_sort t = Ok Sort.Bool"
    "fst (z3_query L check counter (assumptions ob) (conclusion ob)) = Ok (answer, model)" "answer \<noteq> Sat"
  shows "\<exists>r. discharge_with L check counter ob = Ok r \<and> result_status r \<noteq> Refuted \<and>
    (result_status r = Proved \<longleftrightarrow> is_exact_sorted_adjacent_order_theorem (conclusion ob) \<or> answer = Unsat)"
  using assms
  by (cases answer)
    (simp_all add: discharge_with_def discharge_def checked_assumptions solver_status_def obligation_result_def)

text \<open>
  Property C7. Discharging a well-sorted obligation of covered terms that holds
  in every typed environment always ends and never reports it as refuted: lowering and the slice
  axioms do not fail on it, the terms Z3 is asked about have no common model, so Z3, whose answer
  \<open>Sat\<close> comes with a model, answers \<open>Unsat\<close> or gives up. It is reported as proved exactly when Z3
  answers \<open>Unsat\<close> or its shape is the recognised one, and as unknown otherwise.
\<close>

theorem valid_obligations_are_never_refuted:
  assumes "documented L S" "\<forall>f. \<exists>d. encode_digest L f = Ok d" "sat_answers S check"
    and "covered_sorts \<Gamma>" "index_names_free \<Gamma>" "valid_obligation \<Gamma> ob"
    and "\<forall>t \<in> set (conclusion ob # assumptions ob). covered \<Gamma> t \<and> term_sort t = Ok Sort.Bool"
  shows "\<exists>ts r. unsatisfiable S ts \<and>
    fst (z3_query L check counter (assumptions ob) (conclusion ob)) = Ok (check (map Assert ts)) \<and>
    discharge_with L check counter ob = Ok r \<and> result_status r \<noteq> Refuted \<and>
    (result_status r = Proved \<longleftrightarrow>
       is_exact_sorted_adjacent_order_theorem (conclusion ob) \<or> fst (check (map Assert ts)) = Unsat)"
proof -
  have library: "z3_library L S" using assms(1,2) by unfold_locales auto
  have "\<exists>ts. unsatisfiable S ts \<and>
      fst (z3_query L check counter (assumptions ob) (conclusion ob)) = Ok (check (map Assert ts))"
    by (rule z3_library.valid_query_unsatisfiable [OF library assms(4-6)]) (use assms(7) sorted_terms in blast)
  then obtain ts where ts: "unsatisfiable S ts"
    "fst (z3_query L check counter (assumptions ob) (conclusion ob)) = Ok (check (map Assert ts))" by blast
  then have "fst (check (map Assert ts)) \<noteq> Sat"
    using assms(3) unfolding sat_answers_def unsatisfiable_def by blast
  moreover have "\<forall>t \<in> set (conclusion ob # assumptions ob). term_sort t = Ok Sort.Bool" using assms(7) by blast
  ultimately show ?thesis
    using ts discharge_by_query [of ob L check counter "fst (check (map Assert ts))" "snd (check (map Assert ts))"]
    by (metis prod.collapse)
qed

lemma order_obligation_valid: "valid_obligation integers_only order_obligation"
  by (auto simp: valid_obligation_def order_obligation_def)

lemma contradiction_never_sat: "sat_answers standard_semantics contradiction_check"
  by (auto simp: sat_answers_def contradiction_check_def split: if_splits)

theorem valid_obligations_are_never_refuted_witness:
  "\<exists>r. discharge_with standard_library contradiction_check 0 order_obligation = Ok r \<and> result_status r = Proved"
proof -
  have "\<forall>f. \<exists>d. encode_digest standard_library f = Ok d" by (simp add: standard_library_def)
  moreover have "covered_sorts integers_only" by (simp add: covered_sorts_def integers_only_def)
  moreover have "index_names_free integers_only"
    by (auto simp: index_names_free_def integers_only_def dest: arg_cong [where f = length])
  moreover have "\<forall>t \<in> set (conclusion order_obligation # assumptions order_obligation).
      covered integers_only t \<and> term_sort t = Ok Sort.Bool"
    by (simp add: order_obligation_def integers_only_def term_sort_def sort_integer_operator_def
        sort_variable_def require_sort_def)
  ultimately obtain ts r where r: "discharge_with standard_library contradiction_check 0 order_obligation = Ok r"
    and query: "fst (z3_query standard_library contradiction_check 0 (assumptions order_obligation)
      (conclusion order_obligation)) = Ok (contradiction_check (map Assert ts))"
    and proved: "result_status r = Proved \<longleftrightarrow>
      is_exact_sorted_adjacent_order_theorem (conclusion order_obligation) \<or>
      fst (contradiction_check (map Assert ts)) = Unsat"
    using valid_obligations_are_never_refuted [OF standard_documented _ contradiction_never_sat _ _ order_obligation_valid,
        of 0] by blast
  from query order_query have "contradiction_check (map Assert ts) = (Unsat, None)" by simp
  with r proved show ?thesis by simp
qed

end
