(* ===== verification/TypeScript_Graph.thy ===== *)
theory TypeScript_Graph
  imports BTree_Map Rust_Text "HOL-Library.Word"
begin

text \<open>
  The outcome graphs of the TypeScript frontend (\<^verbatim>\<open>src/src/typescript.rs\<close>): the compiler process
  describes every function of a module by the ways its body can leave a statement, and the
  verifier checks that description before it evaluates it. Lines and columns are \<open>u32\<close>. A JSON
  value is the reading of \<^verbatim>\<open>serde_json\<close>: a number is what \<open>as_f64\<close> returns for it, the bits of a
  double.
\<close>

section \<open>Languages and failures\<close>

datatype SourceLanguage = JavaScript | TypeScript

fun language_name :: "SourceLanguage \<Rightarrow> string" where
  "language_name JavaScript = ''javascript''"
| "language_name TypeScript = ''typescript''"

fun language_schema :: "SourceLanguage \<Rightarrow> string" where
  "language_schema JavaScript = ''maledictus-javascript-closed-verification/v8''"
| "language_schema TypeScript = ''maledictus-typescript-closed-verification/v8''"

definition language_code :: "SourceLanguage \<Rightarrow> string \<Rightarrow> string" where
  "language_code language suffix = ''frontend.'' @ language_name language @ ''.'' @ suffix"

record TypeScriptFailure =
  ts_code :: string
  ts_message :: string
  ts_line :: "32 word option"
  ts_column :: "32 word option"

definition unlocated_failure :: "string \<Rightarrow> string \<Rightarrow> TypeScriptFailure" where
  "unlocated_failure code message = \<lparr>ts_code = code, ts_message = message, ts_line = None, ts_column = None\<rparr>"

definition protocol_failure :: "SourceLanguage \<Rightarrow> string \<Rightarrow> (TypeScriptFailure, 'a) result" where
  "protocol_failure language message =
     Err (unlocated_failure (language_code language ''compiler-protocol'') message)"

text \<open>\<open>definitions.get(name).ok_or_else(..)?\<close>\<close>

definition or_protocol_failure :: "'a option \<Rightarrow> SourceLanguage \<Rightarrow> string \<Rightarrow> (TypeScriptFailure, 'a) result" where
  "or_protocol_failure found language message =
     (case found of None \<Rightarrow> protocol_failure language message | Some value \<Rightarrow> Ok value)"

lemma protocol_failure_not_Ok [simp]: "protocol_failure language message \<noteq> Inr x"
  by (simp add: protocol_failure_def)

lemma or_protocol_failure_Ok [simp]: "or_protocol_failure found language message = Inr x \<longleftrightarrow> found = Some x"
  by (simp add: or_protocol_failure_def split: option.splits)

section \<open>Functions, classes and graphs\<close>

datatype TypeScriptExecution = Synchronous | Asynchronous

record RecordField =
  field_name :: string
  field_type :: string

record TypeScriptClass =
  class_name :: string
  class_fields :: "RecordField list"
  class_constructor :: string
  class_method_names :: "string list"

datatype TypeScriptParameterDescriptor =
    Primitive string
  | ReadonlyArray string
  | ReadonlyTuple "string list"
  | Record "RecordField list"
  | Callback (callback_types: "string list") (callback_return: string)

record TypeScriptParameter =
  parameter_name :: string
  descriptor :: TypeScriptParameterDescriptor

datatype TypeScriptArgumentDescriptor =
    Primitive string
  | ReadonlyArray string
  | ReadonlyTuple "string list"
  | SourceRecord "RecordField list"
  | SourceCallback string "string list" string

datatype JsonValue =
    Null
  | Bool bool
  | Number "64 word option"
  | String string
  | Array "JsonValue list"
  | Object "(string \<times> JsonValue) list"

record TypeScriptSwitchLabel =
  label_type :: string
  label_value :: JsonValue

text \<open>The fields of a call are the callee, its arguments, its line and its column.\<close>

datatype TypeScriptOutcomeGraph =
    Fallthrough
  | Return string
  | Raise string "32 word" "32 word"
  | Call string "TypeScriptArgumentDescriptor list" "32 word" "32 word"
  | AwaitCall string "TypeScriptArgumentDescriptor list" "32 word" "32 word"
  | PromiseAdopt string "TypeScriptArgumentDescriptor list" "32 word" "32 word"
  | CallbackInvoke string "TypeScriptArgumentDescriptor list" "32 word" "32 word"
  | Sequence "TypeScriptOutcomeGraph list"
  | Branch "TypeScriptOutcomeGraph list"
  | TryCatch TypeScriptOutcomeGraph TypeScriptOutcomeGraph
  | TryFinally TypeScriptOutcomeGraph TypeScriptOutcomeGraph
  | TerminalSwitch TypeScriptOutcomeGraph string "TypeScriptSwitchCase list" TypeScriptOutcomeGraph
and TypeScriptSwitchCase =
    TypeScriptSwitchCase (case_label: TypeScriptSwitchLabel) (case_body: TypeScriptOutcomeGraph)

record TypeScriptFunction =
  fun_name :: string
  exported :: bool
  execution :: TypeScriptExecution
  fun_parameters :: "TypeScriptParameter list"
  fun_return_type :: string
  fun_calls :: "string list"
  outcome_graph :: TypeScriptOutcomeGraph

type_synonym definitions = "(string, TypeScriptFunction) fmap"

section \<open>Descriptors\<close>

definition primitive_type_name :: "string \<Rightarrow> bool" where
  "primitive_type_name type_name \<longleftrightarrow> type_name = ''number'' \<or> type_name = ''boolean'' \<or> type_name = ''string''"

definition ascii_alphabetic :: "char \<Rightarrow> bool" where
  "ascii_alphabetic c \<longleftrightarrow> (CHR ''a'' \<le> c \<and> c \<le> CHR ''z'') \<or> (CHR ''A'' \<le> c \<and> c \<le> CHR ''Z'')"

definition ascii_alphanumeric :: "char \<Rightarrow> bool" where
  "ascii_alphanumeric c \<longleftrightarrow> ascii_alphabetic c \<or> (CHR ''0'' \<le> c \<and> c \<le> CHR ''9'')"

definition canonical_record_field_name :: "string \<Rightarrow> bool" where
  "canonical_record_field_name name =
     (if name = ''__proto__'' then False
      else case name of
        [] \<Rightarrow> False
      | first # bytes \<Rightarrow>
          (if \<not> (first = CHR ''$'' \<or> first = CHR ''_'' \<or> ascii_alphabetic first) then False
           else list_all (\<lambda>byte. byte = CHR ''$'' \<or> byte = CHR ''_'' \<or> ascii_alphanumeric byte) bytes))"

text \<open>\<open>previous.is_some_and(|previous| previous >= name)\<close>\<close>

definition out_of_order :: "string option \<Rightarrow> string \<Rightarrow> bool" where
  "out_of_order previous name = (case previous of None \<Rightarrow> False | Some previous \<Rightarrow> previous \<ge> name)"

fun record_fields_loop ::
  "string option \<Rightarrow> RecordField list \<Rightarrow> SourceLanguage \<Rightarrow> (TypeScriptFailure, unit) result" where
  "record_fields_loop previous [] language = Ok ()"
| "record_fields_loop previous (field # members) language =
     (if \<not> canonical_record_field_name (field_name field) \<or> \<not> primitive_type_name (field_type field) \<or>
         out_of_order previous (field_name field)
      then protocol_failure language ''sealed record fields are not canonical''
      else record_fields_loop (Some (field_name field)) members language)"

definition validate_record_fields :: "RecordField list \<Rightarrow> SourceLanguage \<Rightarrow> (TypeScriptFailure, unit) result" where
  "validate_record_fields members language =
     (if members = [] then protocol_failure language ''sealed record has no fields''
      else record_fields_loop None members language)"

text \<open>A return type of a function or a callback.\<close>

definition result_type_name :: "string \<Rightarrow> bool" where
  "result_type_name type_name \<longleftrightarrow> primitive_type_name type_name \<or> type_name = ''void''"

fun validate_parameter_descriptor ::
  "TypeScriptParameterDescriptor \<Rightarrow> SourceLanguage \<Rightarrow> (TypeScriptFailure, unit) result" where
  "validate_parameter_descriptor (TypeScriptParameterDescriptor.Primitive type_name) language =
     (if \<not> primitive_type_name type_name then protocol_failure language ''invalid primitive parameter type''
      else Ok ())"
| "validate_parameter_descriptor (TypeScriptParameterDescriptor.ReadonlyArray element) language =
     (if \<not> primitive_type_name element then protocol_failure language ''invalid readonly-array element type''
      else Ok ())"
| "validate_parameter_descriptor (TypeScriptParameterDescriptor.ReadonlyTuple elements) language =
     (if list_ex (\<lambda>item. \<not> primitive_type_name item) elements
      then protocol_failure language ''invalid readonly-tuple element type'' else Ok ())"
| "validate_parameter_descriptor (Record members) language = validate_record_fields members language"
| "validate_parameter_descriptor (Callback parameter_types return_type) language =
     (if list_ex (\<lambda>item. \<not> primitive_type_name item) parameter_types \<or> \<not> result_type_name return_type
      then protocol_failure language ''invalid callback signature'' else Ok ())"

fun validate_argument_descriptor ::
  "TypeScriptArgumentDescriptor \<Rightarrow> SourceLanguage \<Rightarrow> (TypeScriptFailure, unit) result" where
  "validate_argument_descriptor (SourceRecord members) language = validate_record_fields members language"
| "validate_argument_descriptor (TypeScriptArgumentDescriptor.Primitive type_name) language =
     (if \<not> primitive_type_name type_name then protocol_failure language ''invalid primitive call argument''
      else Ok ())"
| "validate_argument_descriptor (TypeScriptArgumentDescriptor.ReadonlyArray element) language =
     (if \<not> primitive_type_name element then protocol_failure language ''invalid readonly-array call argument''
      else Ok ())"
| "validate_argument_descriptor (TypeScriptArgumentDescriptor.ReadonlyTuple elements) language =
     (if list_ex (\<lambda>item. \<not> primitive_type_name item) elements
      then protocol_failure language ''invalid readonly-tuple call argument'' else Ok ())"
| "validate_argument_descriptor (SourceCallback function_name parameter_types return_type) language =
     (if function_name = [] \<or> list_ex (\<lambda>item. \<not> primitive_type_name item) parameter_types \<or>
         \<not> result_type_name return_type
      then protocol_failure language ''invalid source callback argument'' else Ok ())"

fun argument_has_type :: "TypeScriptParameterDescriptor \<Rightarrow> TypeScriptArgumentDescriptor \<Rightarrow> bool" where
  "argument_has_type (TypeScriptParameterDescriptor.Primitive expected) (TypeScriptArgumentDescriptor.Primitive actual) =
     (expected = actual)"
| "argument_has_type (TypeScriptParameterDescriptor.ReadonlyArray expected)
     (TypeScriptArgumentDescriptor.ReadonlyArray actual) = (expected = actual)"
| "argument_has_type (TypeScriptParameterDescriptor.ReadonlyTuple expected)
     (TypeScriptArgumentDescriptor.ReadonlyTuple actual) = (expected = actual)"
| "argument_has_type (Record expected) (SourceRecord actual) = (expected = actual)"
| "argument_has_type (Callback expected_parameters expected_return)
     (SourceCallback function_name actual_parameters actual_return) =
     (expected_parameters = actual_parameters \<and> expected_return = actual_return)"
| "argument_has_type _ _ = False"

definition argument_matches_parameter ::
  "TypeScriptArgumentDescriptor \<Rightarrow> TypeScriptParameterDescriptor \<Rightarrow> SourceLanguage \<Rightarrow>
     (TypeScriptFailure, bool) result" where
  "argument_matches_parameter argument parameter language =
     res_bind (validate_argument_descriptor argument language) (\<lambda>_. Ok (argument_has_type parameter argument))"

section \<open>The calls of a graph\<close>

definition call_names :: "string \<Rightarrow> TypeScriptArgumentDescriptor list \<Rightarrow> string list" where
  "call_names callee arguments =
     callee # List.map_filter (\<lambda>argument.
       case argument of SourceCallback function_name _ _ \<Rightarrow> Some function_name | _ \<Rightarrow> None) arguments"

fun collect_graph_calls :: "TypeScriptOutcomeGraph \<Rightarrow> string list"
  and collect_list_calls :: "TypeScriptOutcomeGraph list \<Rightarrow> string list"
  and collect_case_calls :: "TypeScriptSwitchCase list \<Rightarrow> string list" where
  "collect_graph_calls (Call callee arguments line column) = call_names callee arguments"
| "collect_graph_calls (AwaitCall callee arguments line column) = call_names callee arguments"
| "collect_graph_calls (PromiseAdopt callee arguments line column) = call_names callee arguments"
| "collect_graph_calls (Sequence items) = collect_list_calls items"
| "collect_graph_calls (Branch branches) = collect_list_calls branches"
| "collect_graph_calls (TryCatch try_body catch_body) =
     collect_graph_calls try_body @ collect_graph_calls catch_body"
| "collect_graph_calls (TryFinally body finally_body) =
     collect_graph_calls body @ collect_graph_calls finally_body"
| "collect_graph_calls (TerminalSwitch discriminant discriminant_type cases default_body) =
     collect_graph_calls discriminant @ collect_case_calls cases @ collect_graph_calls default_body"
| "collect_graph_calls Fallthrough = []"
| "collect_graph_calls (TypeScriptOutcomeGraph.Return type_name) = []"
| "collect_graph_calls (TypeScriptOutcomeGraph.Raise exception_type line column) = []"
| "collect_graph_calls (CallbackInvoke parameter arguments line column) = []"
| "collect_list_calls [] = []"
| "collect_list_calls (graph # graphs) = collect_graph_calls graph @ collect_list_calls graphs"
| "collect_case_calls [] = []"
| "collect_case_calls (TypeScriptSwitchCase label body # cases) = collect_graph_calls body @ collect_case_calls cases"

section \<open>Calls that fit the function they name\<close>

definition primitive_parameter :: "TypeScriptParameter \<Rightarrow> string \<Rightarrow> bool" where
  "primitive_parameter parameter expected \<longleftrightarrow>
     descriptor parameter = TypeScriptParameterDescriptor.Primitive expected"

definition validate_source_callback ::
  "string \<Rightarrow> TypeScriptArgumentDescriptor \<Rightarrow> definitions \<Rightarrow> SourceLanguage \<Rightarrow>
     (TypeScriptFailure, unit) result" where
  "validate_source_callback function_name argument defs language =
     (case argument of
        SourceCallback recorded_function parameter_types return_type \<Rightarrow>
          (if function_name \<noteq> recorded_function
           then protocol_failure language ''source callback identity is inconsistent''
           else res_bind (or_protocol_failure (fmlookup defs function_name) language
                   (''source callback names unknown function '' @ debug_str function_name)) (\<lambda>definition.
             if length (fun_parameters definition) \<noteq> length parameter_types \<or>
                execution definition \<noteq> Synchronous \<or>
                list_ex (\<lambda>(parameter, expected). \<not> primitive_parameter parameter expected)
                  (zip (fun_parameters definition) parameter_types) \<or>
                fun_return_type definition \<noteq> return_type
             then protocol_failure language
                    (''source callback '' @ debug_str function_name @ '' signature does not match its descriptor'')
             else Ok ()))
      | _ \<Rightarrow> protocol_failure language ''callback formal lacks source provenance'')"

fun validate_arguments ::
  "string \<Rightarrow> (TypeScriptArgumentDescriptor \<times> TypeScriptParameter) list \<Rightarrow> definitions \<Rightarrow> SourceLanguage \<Rightarrow>
     (TypeScriptFailure, unit) result" where
  "validate_arguments callee [] defs language = Ok ()"
| "validate_arguments callee ((argument, parameter) # arguments) defs language =
     res_bind (argument_matches_parameter argument (descriptor parameter) language) (\<lambda>matches.
     if \<not> matches
     then protocol_failure language (''call to '' @ debug_str callee @ '' has incompatible typed arguments'')
     else res_bind
       (case argument of
          SourceCallback callback _ _ \<Rightarrow> validate_source_callback callback argument defs language
        | _ \<Rightarrow> Ok ())
       (\<lambda>_. validate_arguments callee arguments defs language))"

definition validate_call_arguments ::
  "string \<Rightarrow> TypeScriptArgumentDescriptor list \<Rightarrow> definitions \<Rightarrow> SourceLanguage \<Rightarrow>
     (TypeScriptFailure, TypeScriptFunction) result" where
  "validate_call_arguments callee arguments defs language =
     res_bind (or_protocol_failure (fmlookup defs callee) language
       (''outcome graph calls unknown function '' @ debug_str callee)) (\<lambda>callee_definition.
     if length arguments \<noteq> length (fun_parameters callee_definition)
     then protocol_failure language (''call to '' @ debug_str callee @ '' has the wrong argument count'')
     else res_bind (validate_arguments callee (zip arguments (fun_parameters callee_definition)) defs language)
       (\<lambda>_. Ok callee_definition))"

definition validate_call_node ::
  "string \<Rightarrow> TypeScriptArgumentDescriptor list \<Rightarrow> definitions \<Rightarrow> SourceLanguage \<Rightarrow>
     (TypeScriptFailure, unit) result" where
  "validate_call_node callee arguments defs language =
     res_bind (validate_call_arguments callee arguments defs language) (\<lambda>callee_definition.
     if execution callee_definition \<noteq> Synchronous
     then protocol_failure language (''ordinary call node targets async function '' @ debug_str callee)
     else Ok ())"

definition validate_await_node ::
  "string \<Rightarrow> TypeScriptArgumentDescriptor list \<Rightarrow> TypeScriptFunction \<Rightarrow> definitions \<Rightarrow> SourceLanguage \<Rightarrow>
     (TypeScriptFailure, unit) result" where
  "validate_await_node callee arguments function_definition defs language =
     res_bind (validate_call_arguments callee arguments defs language) (\<lambda>_.
     if execution function_definition \<noteq> Asynchronous
     then protocol_failure language
            (''synchronous function '' @ debug_str (fun_name function_definition) @ '' contains await'')
     else Ok ())"

definition validate_adopt_node ::
  "string \<Rightarrow> TypeScriptArgumentDescriptor list \<Rightarrow> TypeScriptFunction \<Rightarrow> definitions \<Rightarrow> SourceLanguage \<Rightarrow>
     (TypeScriptFailure, unit) result" where
  "validate_adopt_node callee arguments function_definition defs language =
     res_bind (validate_call_arguments callee arguments defs language) (\<lambda>callee_definition.
     if execution function_definition \<noteq> Asynchronous \<or> execution callee_definition \<noteq> Asynchronous
     then protocol_failure language ''promise adoption requires async caller and async callee''
     else if fun_return_type function_definition \<noteq> fun_return_type callee_definition
     then protocol_failure language
            (''promise adoption from '' @ debug_str callee @ '' has incompatible fulfillment type'')
     else if fun_return_type function_definition = ''void'' then Ok ()
     else if \<not> primitive_type_name (fun_return_type function_definition)
     then protocol_failure language ''promise adoption has invalid fulfillment type''
     else Ok ())"

text \<open>The descriptor of the first parameter of a name.\<close>

definition parameter_descriptor :: "TypeScriptFunction \<Rightarrow> string \<Rightarrow> TypeScriptParameterDescriptor option" where
  "parameter_descriptor function_definition parameter =
     map_option descriptor (List.find (\<lambda>item. parameter_name item = parameter) (fun_parameters function_definition))"

definition primitive_argument :: "TypeScriptArgumentDescriptor \<Rightarrow> string \<Rightarrow> bool" where
  "primitive_argument argument expected \<longleftrightarrow> argument = TypeScriptArgumentDescriptor.Primitive expected"

definition validate_invoke_node ::
  "string \<Rightarrow> TypeScriptArgumentDescriptor list \<Rightarrow> 32 word \<Rightarrow> 32 word \<Rightarrow> TypeScriptFunction \<Rightarrow> SourceLanguage \<Rightarrow>
     (TypeScriptFailure, unit) result" where
  "validate_invoke_node parameter arguments line column function_definition language =
     (if line = 0 \<or> column = 0
      then protocol_failure language ''callback invocation has invalid location''
      else case parameter_descriptor function_definition parameter of
        Some (Callback parameter_types return_type) \<Rightarrow>
          (if length arguments \<noteq> length parameter_types \<or>
              list_ex (\<lambda>(argument, expected). \<not> primitive_argument argument expected) (zip arguments parameter_types)
           then protocol_failure language
                  (''callback invocation '' @ debug_str parameter @ '' has incompatible arguments'')
           else Ok ())
      | _ \<Rightarrow> protocol_failure language
                (''callback invocation names non-callback parameter '' @ debug_str parameter))"

fun visit :: "TypeScriptOutcomeGraph \<Rightarrow> TypeScriptFunction \<Rightarrow> definitions \<Rightarrow> SourceLanguage \<Rightarrow>
    (TypeScriptFailure, unit) result"
  and visit_list :: "TypeScriptOutcomeGraph list \<Rightarrow> TypeScriptFunction \<Rightarrow> definitions \<Rightarrow> SourceLanguage \<Rightarrow>
    (TypeScriptFailure, unit) result"
  and visit_cases :: "TypeScriptSwitchCase list \<Rightarrow> TypeScriptFunction \<Rightarrow> definitions \<Rightarrow> SourceLanguage \<Rightarrow>
    (TypeScriptFailure, unit) result" where
  "visit (Call callee arguments line column) f defs language = validate_call_node callee arguments defs language"
| "visit (AwaitCall callee arguments line column) f defs language =
     validate_await_node callee arguments f defs language"
| "visit (PromiseAdopt callee arguments line column) f defs language =
     validate_adopt_node callee arguments f defs language"
| "visit (CallbackInvoke parameter arguments line column) f defs language =
     validate_invoke_node parameter arguments line column f language"
| "visit (Sequence items) f defs language = visit_list items f defs language"
| "visit (Branch branches) f defs language = visit_list branches f defs language"
| "visit (TryCatch try_body catch_body) f defs language =
     res_bind (visit try_body f defs language) (\<lambda>_. visit catch_body f defs language)"
| "visit (TryFinally body finally_body) f defs language =
     res_bind (visit body f defs language) (\<lambda>_. visit finally_body f defs language)"
| "visit (TerminalSwitch discriminant discriminant_type cases default_body) f defs language =
     res_bind (visit discriminant f defs language) (\<lambda>_.
     res_bind (visit_cases cases f defs language) (\<lambda>_.
     visit default_body f defs language))"
| "visit Fallthrough f defs language = Ok ()"
| "visit (TypeScriptOutcomeGraph.Return type_name) f defs language = Ok ()"
| "visit (TypeScriptOutcomeGraph.Raise exception_type line column) f defs language = Ok ()"
| "visit_list [] f defs language = Ok ()"
| "visit_list (graph # graphs) f defs language =
     res_bind (visit graph f defs language) (\<lambda>_. visit_list graphs f defs language)"
| "visit_cases [] f defs language = Ok ()"
| "visit_cases (TypeScriptSwitchCase label body # cases) f defs language =
     res_bind (visit body f defs language) (\<lambda>_. visit_cases cases f defs language)"

definition validate_graph_shape ::
  "TypeScriptFunction \<Rightarrow> definitions \<Rightarrow> SourceLanguage \<Rightarrow> (TypeScriptFailure, unit) result" where
  "validate_graph_shape f defs language = visit (outcome_graph f) f defs language"

end
