(* ===== verification/TypeScript_Evaluation.thy ===== *)
theory TypeScript_Evaluation
  imports TypeScript_Graph "HOL-Library.Product_Lexorder"
begin

text \<open>
  The evaluation of outcome graphs (\<^verbatim>\<open>src/src/typescript.rs\<close>, \<open>evaluate_function\<close> and
  \<open>evaluate_graph\<close>): the list of the exits of a function, in the order they are first found, each
  once. Calls are evaluated in turn, under the functions their callback parameters are bound to;
  results are cached by function and bindings, and a function that calls itself is refused. The
  cache is threaded; the set of functions being evaluated is an argument, since every evaluation
  that returns leaves it as it found it. Every error ends the whole evaluation.
\<close>

section \<open>Exits\<close>

datatype LocatedExit =
    Fallthrough
  | Return string
  | Raise string "32 word" "32 word"
  | Fulfill string
  | Reject string "32 word" "32 word"

definition push_unique_exit :: "LocatedExit list \<Rightarrow> LocatedExit \<Rightarrow> LocatedExit list" where
  "push_unique_exit exits exit = (if exit \<in> set exits then exits else exits @ [exit])"

definition push_all :: "LocatedExit list \<Rightarrow> LocatedExit list \<Rightarrow> LocatedExit list" where
  "push_all exits new = foldl push_unique_exit exits new"

lemma push_unique_set [simp]: "set (push_unique_exit exits exit) = insert exit (set exits)"
  by (auto simp: push_unique_exit_def)

lemma push_all_Nil [simp]: "push_all exits [] = exits"
  by (simp add: push_all_def)

lemma push_all_set [simp]: "set (push_all exits new) = set exits \<union> set new"
  unfolding push_all_def by (induction new arbitrary: exits) auto

lemma distinct_push_unique [simp]: "distinct (push_unique_exit exits exit) \<longleftrightarrow> distinct exits"
  by (auto simp: push_unique_exit_def)

lemma distinct_push_all [simp]: "distinct (push_all exits new) \<longleftrightarrow> distinct exits"
  unfolding push_all_def by (induction new arbitrary: exits) auto

text \<open>A loop that maps every exit of a callee and stops at the first that cannot be mapped.\<close>

fun map_exits ::
  "(LocatedExit \<Rightarrow> (TypeScriptFailure, LocatedExit) result) \<Rightarrow> LocatedExit list \<Rightarrow> LocatedExit list \<Rightarrow>
     (TypeScriptFailure, LocatedExit list) result" where
  "map_exits f exits [] = Ok exits"
| "map_exits f exits (exit # rest) =
     res_bind (f exit) (\<lambda>exit'. map_exits f (push_unique_exit exits exit') rest)"

section \<open>Keys\<close>

type_synonym CallbackBindings = "(string, string) fmap"
type_synonym EvaluationKey = "string \<times> (string \<times> string) list"
type_synonym evaluation_cache = "(EvaluationKey, LocatedExit list) fmap"

definition evaluation_key :: "string \<Rightarrow> CallbackBindings \<Rightarrow> EvaluationKey" where
  "evaluation_key name callback_bindings = (name, sorted_list_of_fmap callback_bindings)"

lemma evaluation_key_inject [simp]: "evaluation_key m b = evaluation_key n c \<longleftrightarrow> m = n \<and> b = c"
proof -
  have "b = c" if "sorted_list_of_fmap b = sorted_list_of_fmap c"
  proof (rule fmap_ext)
    fix k
    show "fmlookup b k = fmlookup c k"
      using set_sorted_list_of_fmap [of k _ b] set_sorted_list_of_fmap [of k _ c] that
      by (metis option.exhaust)
  qed
  then show ?thesis by (auto simp: evaluation_key_def)
qed

section \<open>The boundary of a function\<close>

definition callback_parameter :: "TypeScriptParameter \<Rightarrow> bool" where
  "callback_parameter parameter \<longleftrightarrow>
     (case descriptor parameter of Callback _ _ \<Rightarrow> True | _ \<Rightarrow> False)"

definition expected_callback_parameters :: "TypeScriptFunction \<Rightarrow> string set" where
  "expected_callback_parameters f = set (map parameter_name (filter callback_parameter (fun_parameters f)))"

definition incomplete_provenance :: "CallbackBindings \<Rightarrow> TypeScriptFunction \<Rightarrow> bool" where
  "incomplete_provenance callback_bindings f \<longleftrightarrow>
     card (fmdom' callback_bindings) \<noteq> card (expected_callback_parameters f) \<or>
     list_ex (\<lambda>(parameter, _). parameter \<notin> expected_callback_parameters f) (sorted_list_of_fmap callback_bindings)"

definition normalize_return ::
  "TypeScriptFunction \<Rightarrow> string \<Rightarrow> SourceLanguage \<Rightarrow> LocatedExit \<Rightarrow> (TypeScriptFailure, LocatedExit) result" where
  "normalize_return f name language exit =
     (case exit of
        Fallthrough \<Rightarrow>
          (if fun_return_type f = ''void'' then Ok (Return ''void'')
           else protocol_failure language
                  (''non-void function '' @ debug_str name @ '' can fall through its outcome graph''))
      | Return type_name \<Rightarrow>
          (if type_name \<noteq> fun_return_type f
           then protocol_failure language
                  (''function '' @ debug_str name @ '' returns graph type '' @ debug_str type_name @
                   '', expected '' @ debug_str (fun_return_type f))
           else Ok exit)
      | _ \<Rightarrow> Ok exit)"

definition async_boundary ::
  "TypeScriptFunction \<Rightarrow> string \<Rightarrow> SourceLanguage \<Rightarrow> LocatedExit \<Rightarrow> (TypeScriptFailure, LocatedExit) result" where
  "async_boundary f name language exit =
     (case (execution f, exit) of
        (Asynchronous, Return type_name) \<Rightarrow> Ok (Fulfill type_name)
      | (Asynchronous, Raise exception_type line column) \<Rightarrow> Ok (Reject exception_type line column)
      | (Asynchronous, Reject exception_type line column) \<Rightarrow> Ok exit
      | (Synchronous, Fulfill _) \<Rightarrow>
          protocol_failure language (''function '' @ debug_str name @ '' has an invalid async boundary outcome'')
      | (Synchronous, Reject _ _ _) \<Rightarrow>
          protocol_failure language (''function '' @ debug_str name @ '' has an invalid async boundary outcome'')
      | (Asynchronous, Fallthrough) \<Rightarrow>
          protocol_failure language (''function '' @ debug_str name @ '' has an invalid async boundary outcome'')
      | (_, exit) \<Rightarrow> Ok exit)"

definition normalize_exit ::
  "TypeScriptFunction \<Rightarrow> string \<Rightarrow> SourceLanguage \<Rightarrow> LocatedExit \<Rightarrow> (TypeScriptFailure, LocatedExit) result" where
  "normalize_exit f name language exit =
     res_bind (normalize_return f name language exit) (async_boundary f name language)"

section \<open>Calls\<close>

text \<open>The loop over the arguments of a call, which an ordinary call repeats inline.\<close>

fun bind_callbacks ::
  "string \<Rightarrow> (TypeScriptArgumentDescriptor \<times> TypeScriptParameter) list \<Rightarrow> CallbackBindings \<Rightarrow> definitions \<Rightarrow>
     SourceLanguage \<Rightarrow> (TypeScriptFailure, CallbackBindings) result" where
  "bind_callbacks callee [] callback_bindings defs language = Ok callback_bindings"
| "bind_callbacks callee ((argument, parameter) # arguments) callback_bindings defs language =
     res_bind (argument_matches_parameter argument (descriptor parameter) language) (\<lambda>matches.
     if \<not> matches
     then protocol_failure language (''call to '' @ debug_str callee @ '' has incompatible typed arguments'')
     else res_bind
       (case (descriptor parameter, argument) of
          (Callback _ _, SourceCallback function_name _ _) \<Rightarrow>
            res_bind (validate_source_callback function_name argument defs language)
              (\<lambda>_. Ok (fmupd (parameter_name parameter) function_name callback_bindings))
        | _ \<Rightarrow> Ok callback_bindings)
       (\<lambda>callback_bindings. bind_callbacks callee arguments callback_bindings defs language))"

definition callback_bindings_for_call ::
  "string \<Rightarrow> TypeScriptArgumentDescriptor list \<Rightarrow> TypeScriptFunction \<Rightarrow> definitions \<Rightarrow> SourceLanguage \<Rightarrow>
     (TypeScriptFailure, CallbackBindings) result" where
  "callback_bindings_for_call callee arguments callee_definition defs language =
     (if length arguments \<noteq> length (fun_parameters callee_definition)
      then protocol_failure language (''call to '' @ debug_str callee @ '' has the wrong argument count'')
      else bind_callbacks callee (zip arguments (fun_parameters callee_definition)) fmempty defs language)"

definition source_location ::
  "32 word \<Rightarrow> 32 word \<Rightarrow> SourceLanguage \<Rightarrow> string \<Rightarrow> (TypeScriptFailure, unit) result" where
  "source_location line column language message =
     (if line = 0 \<or> column = 0 then protocol_failure language message else Ok ())"

text \<open>The function an invocation of a callback parameter calls.\<close>

definition invoked_callback ::
  "string \<Rightarrow> TypeScriptArgumentDescriptor list \<Rightarrow> 32 word \<Rightarrow> 32 word \<Rightarrow> TypeScriptFunction \<Rightarrow>
     CallbackBindings \<Rightarrow> definitions \<Rightarrow> SourceLanguage \<Rightarrow> (TypeScriptFailure, string) result" where
  "invoked_callback parameter arguments line column f callback_bindings defs language =
     res_bind (source_location line column language ''callback invocation has invalid location'') (\<lambda>_.
     case parameter_descriptor f parameter of
       Some (Callback parameter_types return_type) \<Rightarrow>
         (if length arguments \<noteq> length parameter_types
          then protocol_failure language
                 (''callback invocation '' @ debug_str parameter @ '' has the wrong argument count'')
          else if list_ex (\<lambda>(argument, expected). \<not> primitive_argument argument expected) (zip arguments parameter_types)
          then protocol_failure language
                 (''callback invocation '' @ debug_str parameter @ '' has incompatible arguments'')
          else res_bind (or_protocol_failure (fmlookup callback_bindings parameter) language
                 (''callback invocation '' @ debug_str parameter @ '' has no source provenance'')) (\<lambda>callback.
            res_bind (or_protocol_failure (fmlookup defs callback) language
                 (''callback invocation calls unknown function '' @ debug_str callback)) (\<lambda>callback_definition.
            if fun_return_type callback_definition \<noteq> return_type
            then protocol_failure language
                   (''callback '' @ debug_str callback @ '' return type differs from its formal'')
            else Ok callback)))
     | _ \<Rightarrow> protocol_failure language
              (''callback invocation names non-callback parameter '' @ debug_str parameter))"

text \<open>The exits of a callee as exits of the call.\<close>

definition call_exit ::
  "32 word \<Rightarrow> 32 word \<Rightarrow> SourceLanguage \<Rightarrow> string \<Rightarrow> LocatedExit \<Rightarrow> (TypeScriptFailure, LocatedExit) result" where
  "call_exit line column language message exit =
     (case exit of
        Return _ \<Rightarrow> Ok Fallthrough
      | Fallthrough \<Rightarrow> Ok Fallthrough
      | Raise exception_type _ _ \<Rightarrow> Ok (Raise exception_type line column)
      | _ \<Rightarrow> protocol_failure language message)"

definition await_exit ::
  "32 word \<Rightarrow> 32 word \<Rightarrow> SourceLanguage \<Rightarrow> string \<Rightarrow> LocatedExit \<Rightarrow> (TypeScriptFailure, LocatedExit) result" where
  "await_exit line column language message exit =
     (case exit of
        Return _ \<Rightarrow> Ok Fallthrough
      | Fulfill _ \<Rightarrow> Ok Fallthrough
      | Raise exception_type _ _ \<Rightarrow> Ok (Raise exception_type line column)
      | Reject exception_type _ _ \<Rightarrow> Ok (Raise exception_type line column)
      | Fallthrough \<Rightarrow> protocol_failure language message)"

definition adopt_exit ::
  "32 word \<Rightarrow> 32 word \<Rightarrow> SourceLanguage \<Rightarrow> string \<Rightarrow> LocatedExit \<Rightarrow> (TypeScriptFailure, LocatedExit) result" where
  "adopt_exit line column language message exit =
     (case exit of
        Fulfill type_name \<Rightarrow> Ok (Return type_name)
      | Reject exception_type _ _ \<Rightarrow> Ok (Reject exception_type line column)
      | _ \<Rightarrow> protocol_failure language message)"

section \<open>Graphs\<close>

text \<open>One item of a sequence: the exits so far that fall through are replaced by those of the item.\<close>

definition sequence_exits :: "LocatedExit list \<Rightarrow> LocatedExit list \<Rightarrow> LocatedExit list" where
  "sequence_exits exits item_exits =
     foldl (\<lambda>next_exits exit.
       if exit = Fallthrough then push_all next_exits item_exits else push_unique_exit next_exits exit) [] exits"

definition is_raise :: "LocatedExit \<Rightarrow> bool" where
  "is_raise exit \<longleftrightarrow> (case exit of Raise _ _ _ \<Rightarrow> True | _ \<Rightarrow> False)"

definition catch_exits :: "LocatedExit list \<Rightarrow> LocatedExit list \<Rightarrow> LocatedExit list" where
  "catch_exits try_exits catch_body_exits =
     foldl (\<lambda>exits exit.
       if is_raise exit then push_all exits catch_body_exits else push_unique_exit exits exit) [] try_exits"

definition finally_exits :: "LocatedExit list \<Rightarrow> LocatedExit list \<Rightarrow> LocatedExit list" where
  "finally_exits body_exits finally_body_exits =
     foldl (\<lambda>exits body_exit.
       foldl (\<lambda>exits finally_exit.
         if finally_exit = Fallthrough then push_unique_exit exits body_exit else push_unique_exit exits finally_exit)
         exits finally_body_exits) [] body_exits"

definition is_returning :: "LocatedExit \<Rightarrow> bool" where
  "is_returning exit \<longleftrightarrow> (case exit of Return _ \<Rightarrow> True | Fulfill _ \<Rightarrow> True | _ \<Rightarrow> False)"

section \<open>Switch labels\<close>

text \<open>The text of the 64 bits of a double, and the tests on them.\<close>

definition hex_16 :: "64 word \<Rightarrow> string" where
  "hex_16 bits = map (\<lambda>i. hex_digit (unat bits div 16 ^ i mod 16)) (rev [0..<16])"

definition finite_double :: "64 word \<Rightarrow> bool" where
  "finite_double bits \<longleftrightarrow> unat bits div 2 ^ 52 mod 2 ^ 11 \<noteq> 2 ^ 11 - 1"

definition canonical_double :: "64 word \<Rightarrow> 64 word" where
  "canonical_double bits = (if unat bits mod 2 ^ 63 = 0 then 0 else bits)"

definition switch_label_key :: "TypeScriptSwitchLabel \<Rightarrow> string \<Rightarrow> SourceLanguage \<Rightarrow> (TypeScriptFailure, string) result" where
  "switch_label_key label discriminant_type language =
     (if label_type label \<noteq> discriminant_type
      then protocol_failure language ''terminal switch case type does not match its discriminant''
      else or_protocol_failure
        (if discriminant_type = ''string''
         then (case label_value label of String text_value \<Rightarrow> Some (''string:'' @ debug_str text_value) | _ \<Rightarrow> None)
         else if discriminant_type = ''boolean''
         then (case label_value label of Bool b \<Rightarrow> Some (''boolean:'' @ (if b then ''true'' else ''false'')) | _ \<Rightarrow> None)
         else if discriminant_type = ''number''
         then (case label_value label of
                 Number (Some bits) \<Rightarrow>
                   (if finite_double bits then Some (''number:'' @ hex_16 (canonical_double bits)) else None)
               | _ \<Rightarrow> None)
         else None)
        language ''terminal switch case label is not a matching primitive JSON value'')"

section \<open>The keys an evaluation can visit\<close>

text \<open>
  Every call evaluates a function of the module under bindings of parameters to functions of the
  module, so only finitely many keys can be visited: the set of visited keys ends the recursion.
\<close>

definition bindings_in_module :: "definitions \<Rightarrow> CallbackBindings \<Rightarrow> bool" where
  "bindings_in_module defs b \<longleftrightarrow>
     (\<forall>p c. fmlookup b p = Some c \<longrightarrow>
        c \<in> fmdom' defs \<and> (\<exists>f \<in> fmran' defs. p \<in> parameter_name ` set (fun_parameters f)))"

definition evaluation_keys :: "definitions \<Rightarrow> EvaluationKey set" where
  "evaluation_keys defs = {evaluation_key n b | n b. n \<in> fmdom' defs \<and> bindings_in_module defs b}"

lemma finite_bindings:
  assumes "finite A" "finite B"
  shows "finite {b :: ('k, 'v) fmap. \<forall>p c. fmlookup b p = Some c \<longrightarrow> p \<in> A \<and> c \<in> B}"
proof (rule finite_imageD [where f = fmlookup])
  have "finite (\<Union>X \<in> Pow A. {m :: 'k \<rightharpoonup> 'v. dom m = X \<and> ran m \<subseteq> B})"
    using assms by (blast intro: finite_set_of_finite_maps finite_subset)
  then show "finite (fmlookup ` {b :: ('k, 'v) fmap. \<forall>p c. fmlookup b p = Some c \<longrightarrow> p \<in> A \<and> c \<in> B})"
    by (rule finite_subset [rotated]) (auto simp: dom_def ran_def)
  show "inj_on fmlookup {b :: ('k, 'v) fmap. \<forall>p c. fmlookup b p = Some c \<longrightarrow> p \<in> A \<and> c \<in> B}"
    by (simp add: inj_on_def fmlookup_inject)
qed

lemma finite_evaluation_keys [simp]: "finite (evaluation_keys defs)"
proof -
  let ?A = "\<Union>f \<in> fmran' defs. parameter_name ` set (fun_parameters f)"
  let ?B = "{b. \<forall>p c. fmlookup b p = Some c \<longrightarrow> p \<in> ?A \<and> c \<in> fmdom' defs}"
  have "finite ?B" by (rule finite_bindings) (simp_all add: fmran'_alt_def)
  moreover have "evaluation_keys defs \<subseteq> (\<lambda>(n, b). evaluation_key n b) ` (fmdom' defs \<times> ?B)"
  proof
    fix key
    assume "key \<in> evaluation_keys defs"
    then obtain n b where nb: "key = evaluation_key n b" "n \<in> fmdom' defs" "bindings_in_module defs b"
      by (auto simp: evaluation_keys_def)
    then have "(n, b) \<in> fmdom' defs \<times> ?B" by (auto simp: bindings_in_module_def)
    then show "key \<in> (\<lambda>(n, b). evaluation_key n b) ` (fmdom' defs \<times> ?B)"
      by (rule rev_image_eqI) (simp add: nb)
  qed
  ultimately show ?thesis by (meson finite_SigmaI finite_fmdom' finite_imageI finite_subset)
qed

lemma callback_bindings_module:
  assumes "bind_callbacks callee arguments b defs language = Inr b'" "bindings_in_module defs b"
    "snd ` set arguments \<subseteq> set (fun_parameters f)" "f \<in> fmran' defs"
  shows "bindings_in_module defs b'"
  using assms
proof (induction callee arguments b defs language rule: bind_callbacks.induct)
  case (2 callee argument parameter arguments b defs language)
  let ?step = "case (descriptor parameter, argument) of
      (Callback _ _, SourceCallback function_name _ _) \<Rightarrow>
        res_bind (validate_source_callback function_name argument defs language)
          (\<lambda>_. Ok (fmupd (parameter_name parameter) function_name b))
    | _ \<Rightarrow> Ok b"
  from "2.prems"(1) obtain m b1 where step: "argument_matches_parameter argument (descriptor parameter) language = Inr m"
      "m" "?step = Inr b1" "bind_callbacks callee arguments b1 defs language = Inr b'"
    by (auto split: if_splits)
  have "bindings_in_module defs b1"
  proof (cases "\<exists>ts t c us u. descriptor parameter = Callback ts t \<and> argument = SourceCallback c us u")
    case True
    then obtain c us u where "argument = SourceCallback c us u" "b1 = fmupd (parameter_name parameter) c b"
        "validate_source_callback c argument defs language = Inr ()"
      using step(3) by auto
    moreover from this have "c \<in> fmdom' defs"
      by (auto simp: validate_source_callback_def fmdom'I split: if_splits)
    ultimately show ?thesis using "2.prems"(2-4) by (auto simp: bindings_in_module_def)
  next
    case False
    then have "b1 = b"
      using step(3) by (auto split: TypeScriptParameterDescriptor.splits TypeScriptArgumentDescriptor.splits)
    with "2.prems"(2) show ?thesis by simp
  qed
  with "2.prems"(3,4) step show ?case
    by (intro "2.IH" [OF step(1) _ _ step(4)]) auto
qed simp

lemma called_key:
  assumes "fmlookup defs callee = Some f" "callback_bindings_for_call callee arguments f defs language = Inr b"
  shows "evaluation_key callee b \<in> evaluation_keys defs"
proof -
  have bound: "bind_callbacks callee (zip arguments (fun_parameters f)) fmempty defs language = Inr b"
    using assms(2) by (simp add: callback_bindings_for_call_def split: if_splits)
  have "bindings_in_module defs b"
    by (rule callback_bindings_module [OF bound])
      (use assms(1) in \<open>auto simp: bindings_in_module_def fmran'I dest: set_zip_rightD\<close>)
  with assms(1) show ?thesis by (auto simp: evaluation_keys_def intro: fmdom'I)
qed

lemma invoked_key:
  assumes "invoked_callback parameter arguments line column f b defs language = Inr callback"
  shows "evaluation_key callback fmempty \<in> evaluation_keys defs"
proof -
  from assms obtain g where "fmlookup defs callback = Some g"
    by (auto simp: invoked_callback_def split: option.splits TypeScriptParameterDescriptor.splits if_splits)
  then show ?thesis by (auto simp: evaluation_keys_def bindings_in_module_def intro: fmdom'I)
qed

text \<open>
  Each call grows the set of functions being evaluated within the finitely many keys there are;
  inside a function the graph gets smaller.
\<close>

definition unvisited :: "definitions \<Rightarrow> EvaluationKey set \<Rightarrow> nat" where
  "unvisited defs visiting = card (evaluation_keys defs - visiting)"

definition calls_left :: "string \<Rightarrow> CallbackBindings \<Rightarrow> definitions \<Rightarrow> EvaluationKey set \<Rightarrow> nat" where
  "calls_left name b defs visiting =
     unvisited defs visiting + (if evaluation_key name b \<in> evaluation_keys defs then 0 else 1)"

lemma unvisited_insert:
  "evaluation_key name b \<notin> visiting \<Longrightarrow>
     unvisited defs (insert (evaluation_key name b) visiting) < calls_left name b defs visiting"
proof (cases "evaluation_key name b \<in> evaluation_keys defs")
  case True
  moreover assume "evaluation_key name b \<notin> visiting"
  ultimately have "evaluation_keys defs - insert (evaluation_key name b) visiting \<subset> evaluation_keys defs - visiting"
    by blast
  then have "card (evaluation_keys defs - insert (evaluation_key name b) visiting) <
      card (evaluation_keys defs - visiting)"
    by (intro psubset_card_mono) simp_all
  with True show ?thesis by (simp only: unvisited_def calls_left_def if_True add_0_right)
next
  case False
  then have "evaluation_keys defs - insert (evaluation_key name b) visiting = evaluation_keys defs - visiting"
    by blast
  with False show ?thesis by (simp only: unvisited_def calls_left_def if_False)
qed

lemma called_left:
  "fmlookup defs callee = Some f \<Longrightarrow> callback_bindings_for_call callee arguments f defs language = Inr b \<Longrightarrow>
     calls_left callee b defs visiting = unvisited defs visiting"
  by (simp add: calls_left_def called_key)

lemma invoked_left:
  "invoked_callback parameter arguments line column f b defs language = Inr callback \<Longrightarrow>
     calls_left callback fmempty defs visiting = unvisited defs visiting"
  by (simp add: calls_left_def invoked_key)

section \<open>Evaluation\<close>

function (sequential) evaluate_function ::
    "string \<Rightarrow> CallbackBindings \<Rightarrow> definitions \<Rightarrow> evaluation_cache \<Rightarrow> EvaluationKey set \<Rightarrow> SourceLanguage \<Rightarrow>
      (TypeScriptFailure, LocatedExit list \<times> evaluation_cache) result"
  and evaluate_graph ::
    "TypeScriptOutcomeGraph \<Rightarrow> TypeScriptFunction \<Rightarrow> CallbackBindings \<Rightarrow> definitions \<Rightarrow> evaluation_cache \<Rightarrow>
      EvaluationKey set \<Rightarrow> SourceLanguage \<Rightarrow> (TypeScriptFailure, LocatedExit list \<times> evaluation_cache) result"
  and evaluate_sequence ::
    "TypeScriptOutcomeGraph list \<Rightarrow> LocatedExit list \<Rightarrow> TypeScriptFunction \<Rightarrow> CallbackBindings \<Rightarrow> definitions \<Rightarrow>
      evaluation_cache \<Rightarrow> EvaluationKey set \<Rightarrow> SourceLanguage \<Rightarrow>
      (TypeScriptFailure, LocatedExit list \<times> evaluation_cache) result"
  and evaluate_branches ::
    "TypeScriptOutcomeGraph list \<Rightarrow> LocatedExit list \<Rightarrow> TypeScriptFunction \<Rightarrow> CallbackBindings \<Rightarrow> definitions \<Rightarrow>
      evaluation_cache \<Rightarrow> EvaluationKey set \<Rightarrow> SourceLanguage \<Rightarrow>
      (TypeScriptFailure, LocatedExit list \<times> evaluation_cache) result"
  and evaluate_cases ::
    "TypeScriptSwitchCase list \<Rightarrow> string \<Rightarrow> string set \<Rightarrow> LocatedExit list \<Rightarrow> TypeScriptFunction \<Rightarrow> CallbackBindings \<Rightarrow>
      definitions \<Rightarrow> evaluation_cache \<Rightarrow> EvaluationKey set \<Rightarrow> SourceLanguage \<Rightarrow>
      (TypeScriptFailure, LocatedExit list \<times> evaluation_cache) result" where
  "evaluate_function name callback_bindings defs cache visiting language =
     (let key = evaluation_key name callback_bindings
      in case fmlookup cache key of
        Some cached \<Rightarrow> Ok (cached, cache)
      | None \<Rightarrow>
          if key \<in> visiting
          then protocol_failure language (''outcome graph contains call cycle at '' @ debug_str name)
          else res_bind (or_protocol_failure (fmlookup defs name) language
                 (''outcome graph calls unknown function '' @ debug_str name)) (\<lambda>f.
            if incomplete_provenance callback_bindings f
            then protocol_failure language (''function '' @ debug_str name @ '' has incomplete callback provenance'')
            else res_bind (evaluate_graph (outcome_graph f) f callback_bindings defs cache (insert key visiting) language)
              (\<lambda>(raw, cache).
            res_bind (map_exits (normalize_exit f name language) [] raw) (\<lambda>normalized.
            if normalized = []
            then protocol_failure language (''function '' @ debug_str name @ '' has no boundary outcomes'')
            else Ok (normalized, fmupd key normalized cache)))))"
| "evaluate_graph TypeScriptOutcomeGraph.Fallthrough f b defs cache visiting language = Ok ([Fallthrough], cache)"
| "evaluate_graph (TypeScriptOutcomeGraph.Return type_name) f b defs cache visiting language =
     Ok ([Return type_name], cache)"
| "evaluate_graph (TypeScriptOutcomeGraph.Raise exception_type line column) f b defs cache visiting language =
     (if exception_type \<notin> {''ecmascript.throw.number'', ''ecmascript.throw.boolean'', ''ecmascript.throw.string''} \<or>
         line = 0 \<or> column = 0
      then protocol_failure language ''invalid typed raise outcome''
      else Ok ([Raise exception_type line column], cache))"
| "evaluate_graph (Call callee arguments line column) f b defs cache visiting language =
     res_bind (source_location line column language ''source call has invalid location'') (\<lambda>_.
     res_bind (or_protocol_failure (fmlookup defs callee) language
       (''outcome graph calls unknown function '' @ debug_str callee)) (\<lambda>callee_definition.
     res_bind (callback_bindings_for_call callee arguments callee_definition defs language) (\<lambda>callee_bindings.
     res_bind (evaluate_function callee callee_bindings defs cache visiting language) (\<lambda>(callee_exits, cache).
     res_bind (map_exits (call_exit line column language
         (''ordinary call unexpectedly evaluated async callee '' @ debug_str callee)) [] callee_exits) (\<lambda>exits.
     Ok (exits, cache))))))"
| "evaluate_graph (AwaitCall callee arguments line column) f b defs cache visiting language =
     res_bind (source_location line column language ''await call has invalid location'') (\<lambda>_.
     if execution f \<noteq> Asynchronous then protocol_failure language ''await call appears in sync function''
     else
     res_bind (or_protocol_failure (fmlookup defs callee) language
       (''await calls unknown function '' @ debug_str callee)) (\<lambda>callee_definition.
     res_bind (callback_bindings_for_call callee arguments callee_definition defs language) (\<lambda>callee_bindings.
     res_bind (evaluate_function callee callee_bindings defs cache visiting language) (\<lambda>(callee_exits, cache).
     res_bind (map_exits (await_exit line column language
         (''awaited function '' @ debug_str callee @ '' retained fallthrough'')) [] callee_exits) (\<lambda>exits.
     Ok (exits, cache))))))"
| "evaluate_graph (PromiseAdopt callee arguments line column) f b defs cache visiting language =
     res_bind (source_location line column language ''promise adoption has invalid location'') (\<lambda>_.
     res_bind (or_protocol_failure (fmlookup defs callee) language
       (''promise adoption calls unknown function '' @ debug_str callee)) (\<lambda>callee_definition.
     if execution f \<noteq> Asynchronous \<or> execution callee_definition \<noteq> Asynchronous \<or>
        fun_return_type f \<noteq> fun_return_type callee_definition
     then protocol_failure language ''invalid promise-adoption execution or fulfillment types''
     else
     res_bind (callback_bindings_for_call callee arguments callee_definition defs language) (\<lambda>callee_bindings.
     res_bind (evaluate_function callee callee_bindings defs cache visiting language) (\<lambda>(callee_exits, cache).
     res_bind (map_exits (adopt_exit line column language
         (''promise adoption evaluated non-async callee '' @ debug_str callee)) [] callee_exits) (\<lambda>exits.
     Ok (exits, cache))))))"
| "evaluate_graph (CallbackInvoke parameter arguments line column) f b defs cache visiting language =
     res_bind (invoked_callback parameter arguments line column f b defs language) (\<lambda>callback.
     res_bind (evaluate_function callback fmempty defs cache visiting language) (\<lambda>(callback_exits, cache).
     res_bind (map_exits (call_exit line column language
         (''callback '' @ debug_str callback @ '' unexpectedly evaluated as async'')) [] callback_exits) (\<lambda>exits.
     Ok (exits, cache))))"
| "evaluate_graph (Sequence items) f b defs cache visiting language =
     evaluate_sequence items [Fallthrough] f b defs cache visiting language"
| "evaluate_graph (Branch branches) f b defs cache visiting language =
     (if branches = [] then protocol_failure language ''outcome branch is empty''
      else evaluate_branches branches [] f b defs cache visiting language)"
| "evaluate_graph (TryCatch try_body catch_body) f b defs cache visiting language =
     res_bind (evaluate_graph try_body f b defs cache visiting language) (\<lambda>(try_exits, cache).
     res_bind (evaluate_graph catch_body f b defs cache visiting language) (\<lambda>(catch_body_exits, cache).
     Ok (catch_exits try_exits catch_body_exits, cache)))"
| "evaluate_graph (TryFinally body finally_body) f b defs cache visiting language =
     res_bind (evaluate_graph body f b defs cache visiting language) (\<lambda>(body_exits, cache).
     res_bind (evaluate_graph finally_body f b defs cache visiting language) (\<lambda>(finally_body_exits, cache).
     Ok (finally_exits body_exits finally_body_exits, cache)))"
| "evaluate_graph (TerminalSwitch discriminant discriminant_type cases default_body) f b defs cache visiting language =
     (if \<not> primitive_type_name discriminant_type \<or> cases = []
      then protocol_failure language ''terminal switch has an invalid discriminant or no cases''
      else
      res_bind (evaluate_cases cases discriminant_type {} [] f b defs cache visiting language) (\<lambda>(arm_exits, cache).
      res_bind (evaluate_graph default_body f b defs cache visiting language) (\<lambda>(default_exits, cache).
      if Fallthrough \<in> set default_exits
      then protocol_failure language ''terminal switch default can fall through''
      else
      res_bind (evaluate_graph discriminant f b defs cache visiting language) (\<lambda>(discriminant_exits, cache).
      if list_ex is_returning discriminant_exits
      then protocol_failure language ''terminal switch discriminant contains a return outcome''
      else Ok (sequence_exits discriminant_exits (push_all arm_exits default_exits), cache)))))"
| "evaluate_sequence [] exits f b defs cache visiting language = Ok (exits, cache)"
| "evaluate_sequence (item # items) exits f b defs cache visiting language =
     res_bind (evaluate_graph item f b defs cache visiting language) (\<lambda>(item_exits, cache).
     evaluate_sequence items (sequence_exits exits item_exits) f b defs cache visiting language)"
| "evaluate_branches [] exits f b defs cache visiting language = Ok (exits, cache)"
| "evaluate_branches (branch # branches) exits f b defs cache visiting language =
     res_bind (evaluate_graph branch f b defs cache visiting language) (\<lambda>(branch_exits, cache).
     evaluate_branches branches (push_all exits branch_exits) f b defs cache visiting language)"
| "evaluate_cases [] discriminant_type labels arm_exits f b defs cache visiting language = Ok (arm_exits, cache)"
| "evaluate_cases (TypeScriptSwitchCase label body # cases) discriminant_type labels arm_exits f b defs cache visiting language =
     res_bind (switch_label_key label discriminant_type language) (\<lambda>key.
     if key \<in> labels then protocol_failure language ''terminal switch contains a duplicate case label''
     else
     res_bind (evaluate_graph body f b defs cache visiting language) (\<lambda>(exits, cache).
     if Fallthrough \<in> set exits then protocol_failure language ''terminal switch case can fall through''
     else evaluate_cases cases discriminant_type (insert key labels) (push_all arm_exits exits)
            f b defs cache visiting language))"
  by pat_completeness auto

termination
  by (relation "inv_image (less_than <*lex*> less_than) (\<lambda>x.
        case x of
          Inl (Inl (name, b, defs, cache, visiting, language)) \<Rightarrow> (calls_left name b defs visiting, 0)
        | Inl (Inr (graph, f, b, defs, cache, visiting, language)) \<Rightarrow> (unvisited defs visiting, Suc (size graph))
        | Inr (Inl (items, exits, f, b, defs, cache, visiting, language)) \<Rightarrow>
            (unvisited defs visiting, Suc (size_list size items))
        | Inr (Inr (Inl (branches, exits, f, b, defs, cache, visiting, language))) \<Rightarrow>
            (unvisited defs visiting, Suc (size_list size branches))
        | Inr (Inr (Inr (cases, t, labels, exits, f, b, defs, cache, visiting, language))) \<Rightarrow>
            (unvisited defs visiting, Suc (size_list size cases)))")
    (auto simp: called_left invoked_left unvisited_insert)

end
