(* ===== verification/TypeScript_Semantics.thy ===== *)
theory TypeScript_Semantics
  imports TypeScript_Evaluation
begin

text \<open>
  What an outcome graph means: the ways its execution can end, as big-step rules over the module,
  and which calls it makes. The evaluation computes exactly these outcomes, and refuses every
  module in which some chain of calls does not end.
\<close>

section \<open>Outcomes\<close>

text \<open>The functions a call binds the callback parameters of its callee to.\<close>

definition callback_argument :: "TypeScriptParameter \<times> TypeScriptArgumentDescriptor \<Rightarrow> (string \<times> string) option" where
  "callback_argument = (\<lambda>(parameter, argument).
     case (descriptor parameter, argument) of
       (Callback _ _, SourceCallback callback _ _) \<Rightarrow> Some (parameter_name parameter, callback)
     | _ \<Rightarrow> None)"

definition call_bindings :: "TypeScriptFunction \<Rightarrow> TypeScriptArgumentDescriptor list \<Rightarrow> CallbackBindings" where
  "call_bindings callee arguments =
     btree_of_list (List.map_filter callback_argument (zip (fun_parameters callee) arguments))"

inductive graph_outcome ::
    "definitions \<Rightarrow> TypeScriptFunction \<Rightarrow> CallbackBindings \<Rightarrow> TypeScriptOutcomeGraph \<Rightarrow> LocatedExit \<Rightarrow> bool"
  and sequence_outcome ::
    "definitions \<Rightarrow> TypeScriptFunction \<Rightarrow> CallbackBindings \<Rightarrow> TypeScriptOutcomeGraph list \<Rightarrow> LocatedExit \<Rightarrow> bool"
  and function_outcome :: "definitions \<Rightarrow> string \<Rightarrow> CallbackBindings \<Rightarrow> LocatedExit \<Rightarrow> bool"
  for defs :: definitions
where
  falls: "graph_outcome defs f b TypeScriptOutcomeGraph.Fallthrough Fallthrough"
| returns: "graph_outcome defs f b (TypeScriptOutcomeGraph.Return t) (Return t)"
| raises: "graph_outcome defs f b (TypeScriptOutcomeGraph.Raise e line column) (Raise e line column)"
| call_returns: "fmlookup defs callee = Some g \<Longrightarrow>
    function_outcome defs callee (call_bindings g arguments) (Return t) \<Longrightarrow>
    graph_outcome defs f b (Call callee arguments line column) Fallthrough"
| call_raises: "fmlookup defs callee = Some g \<Longrightarrow>
    function_outcome defs callee (call_bindings g arguments) (Raise e l c) \<Longrightarrow>
    graph_outcome defs f b (Call callee arguments line column) (Raise e line column)"
| await_fulfills: "fmlookup defs callee = Some g \<Longrightarrow>
    function_outcome defs callee (call_bindings g arguments) exit \<Longrightarrow> exit = Return t \<or> exit = Fulfill t \<Longrightarrow>
    graph_outcome defs f b (AwaitCall callee arguments line column) Fallthrough"
| await_rejects: "fmlookup defs callee = Some g \<Longrightarrow>
    function_outcome defs callee (call_bindings g arguments) exit \<Longrightarrow> exit = Raise e l c \<or> exit = Reject e l c \<Longrightarrow>
    graph_outcome defs f b (AwaitCall callee arguments line column) (Raise e line column)"
| adopt_fulfills: "fmlookup defs callee = Some g \<Longrightarrow>
    function_outcome defs callee (call_bindings g arguments) (Fulfill t) \<Longrightarrow>
    graph_outcome defs f b (PromiseAdopt callee arguments line column) (Return t)"
| adopt_rejects: "fmlookup defs callee = Some g \<Longrightarrow>
    function_outcome defs callee (call_bindings g arguments) (Reject e l c) \<Longrightarrow>
    graph_outcome defs f b (PromiseAdopt callee arguments line column) (Reject e line column)"
| invoke_returns: "fmlookup b parameter = Some callback \<Longrightarrow> function_outcome defs callback fmempty (Return t) \<Longrightarrow>
    graph_outcome defs f b (CallbackInvoke parameter arguments line column) Fallthrough"
| invoke_raises: "fmlookup b parameter = Some callback \<Longrightarrow> function_outcome defs callback fmempty (Raise e l c) \<Longrightarrow>
    graph_outcome defs f b (CallbackInvoke parameter arguments line column) (Raise e line column)"
| sequence: "sequence_outcome defs f b items exit \<Longrightarrow> graph_outcome defs f b (Sequence items) exit"
| branch: "branch \<in> set branches \<Longrightarrow> graph_outcome defs f b branch exit \<Longrightarrow> graph_outcome defs f b (Branch branches) exit"
| not_caught: "graph_outcome defs f b try_body exit \<Longrightarrow> (\<And>e l c. exit \<noteq> Raise e l c) \<Longrightarrow>
    graph_outcome defs f b (TryCatch try_body catch_body) exit"
| caught: "graph_outcome defs f b try_body (Raise e l c) \<Longrightarrow> graph_outcome defs f b catch_body exit \<Longrightarrow>
    graph_outcome defs f b (TryCatch try_body catch_body) exit"
| finally_falls: "graph_outcome defs f b body exit \<Longrightarrow> graph_outcome defs f b finally_body Fallthrough \<Longrightarrow>
    graph_outcome defs f b (TryFinally body finally_body) exit"
| finally_exits: "graph_outcome defs f b body exit' \<Longrightarrow> graph_outcome defs f b finally_body exit \<Longrightarrow>
    exit \<noteq> Fallthrough \<Longrightarrow> graph_outcome defs f b (TryFinally body finally_body) exit"
| discriminant_exits: "graph_outcome defs f b discriminant exit \<Longrightarrow> exit \<noteq> Fallthrough \<Longrightarrow>
    graph_outcome defs f b (TerminalSwitch discriminant t cases default_body) exit"
| case_taken: "graph_outcome defs f b discriminant Fallthrough \<Longrightarrow> TypeScriptSwitchCase label body \<in> set cases \<Longrightarrow>
    graph_outcome defs f b body exit \<Longrightarrow>
    graph_outcome defs f b (TerminalSwitch discriminant t cases default_body) exit"
| default_taken: "graph_outcome defs f b discriminant Fallthrough \<Longrightarrow> graph_outcome defs f b default_body exit \<Longrightarrow>
    graph_outcome defs f b (TerminalSwitch discriminant t cases default_body) exit"
| sequence_ends: "sequence_outcome defs f b [] Fallthrough"
| item_exits: "graph_outcome defs f b item exit \<Longrightarrow> exit \<noteq> Fallthrough \<Longrightarrow> sequence_outcome defs f b (item # items) exit"
| item_falls: "graph_outcome defs f b item Fallthrough \<Longrightarrow> sequence_outcome defs f b items exit \<Longrightarrow>
    sequence_outcome defs f b (item # items) exit"
| body_falls: "fmlookup defs name = Some f \<Longrightarrow> graph_outcome defs f b (outcome_graph f) Fallthrough \<Longrightarrow>
    fun_return_type f = ''void'' \<Longrightarrow>
    function_outcome defs name b (if execution f = Synchronous then Return ''void'' else Fulfill ''void'')"
| body_returns: "fmlookup defs name = Some f \<Longrightarrow> graph_outcome defs f b (outcome_graph f) (Return t) \<Longrightarrow>
    function_outcome defs name b (if execution f = Synchronous then Return t else Fulfill t)"
| body_raises: "fmlookup defs name = Some f \<Longrightarrow> graph_outcome defs f b (outcome_graph f) (Raise e l c) \<Longrightarrow>
    function_outcome defs name b (if execution f = Synchronous then Raise e l c else Reject e l c)"
| body_rejects: "fmlookup defs name = Some f \<Longrightarrow> graph_outcome defs f b (outcome_graph f) (Reject e l c) \<Longrightarrow>
    execution f = Asynchronous \<Longrightarrow> function_outcome defs name b (Reject e l c)"

inductive_simps graph_outcome_simps [simp]:
  "graph_outcome defs f b TypeScriptOutcomeGraph.Fallthrough exit"
  "graph_outcome defs f b (TypeScriptOutcomeGraph.Return t) exit"
  "graph_outcome defs f b (TypeScriptOutcomeGraph.Raise e line column) exit"
  "graph_outcome defs f b (Sequence items) exit"
  "graph_outcome defs f b (Branch branches) exit"
  "sequence_outcome defs f b [] exit"

inductive_simps graph_outcome_unfold:
  "graph_outcome defs f b (Call callee arguments line column) exit"
  "graph_outcome defs f b (AwaitCall callee arguments line column) exit"
  "graph_outcome defs f b (PromiseAdopt callee arguments line column) exit"
  "graph_outcome defs f b (CallbackInvoke parameter arguments line column) exit"
  "graph_outcome defs f b (TryCatch try_body catch_body) exit"
  "graph_outcome defs f b (TryFinally body finally_body) exit"
  "graph_outcome defs f b (TerminalSwitch discriminant t cases default_body) exit"
  "sequence_outcome defs f b (item # items) exit"

inductive_simps function_outcome_unfold: "function_outcome defs name b exit"

section \<open>Calls\<close>

text \<open>The calls a graph contains, whether or not they are reached.\<close>

inductive call_site ::
  "definitions \<Rightarrow> CallbackBindings \<Rightarrow> TypeScriptOutcomeGraph \<Rightarrow> string \<times> CallbackBindings \<Rightarrow> bool"
  for defs b
where
  "fmlookup defs callee = Some g \<Longrightarrow>
     call_site defs b (Call callee arguments line column) (callee, call_bindings g arguments)"
| "fmlookup defs callee = Some g \<Longrightarrow>
     call_site defs b (AwaitCall callee arguments line column) (callee, call_bindings g arguments)"
| "fmlookup defs callee = Some g \<Longrightarrow>
     call_site defs b (PromiseAdopt callee arguments line column) (callee, call_bindings g arguments)"
| "fmlookup b parameter = Some callback \<Longrightarrow>
     call_site defs b (CallbackInvoke parameter arguments line column) (callback, fmempty)"
| "item \<in> set items \<Longrightarrow> call_site defs b item target \<Longrightarrow> call_site defs b (Sequence items) target"
| "branch \<in> set branches \<Longrightarrow> call_site defs b branch target \<Longrightarrow> call_site defs b (Branch branches) target"
| "part = try_body \<or> part = catch_body \<Longrightarrow> call_site defs b part target \<Longrightarrow>
     call_site defs b (TryCatch try_body catch_body) target"
| "part = body \<or> part = finally_body \<Longrightarrow> call_site defs b part target \<Longrightarrow>
     call_site defs b (TryFinally body finally_body) target"
| "part \<in> {discriminant, default_body} \<union> case_body ` set cases \<Longrightarrow> call_site defs b part target \<Longrightarrow>
     call_site defs b (TerminalSwitch discriminant t cases default_body) target"

inductive_simps call_site_simps [simp]:
  "call_site defs b TypeScriptOutcomeGraph.Fallthrough target"
  "call_site defs b (TypeScriptOutcomeGraph.Return t) target"
  "call_site defs b (TypeScriptOutcomeGraph.Raise e line column) target"
  "call_site defs b (Call callee arguments line column) target"
  "call_site defs b (AwaitCall callee arguments line column) target"
  "call_site defs b (PromiseAdopt callee arguments line column) target"
  "call_site defs b (CallbackInvoke parameter arguments line column) target"
  "call_site defs b (Sequence items) target"
  "call_site defs b (Branch branches) target"
  "call_site defs b (TryCatch try_body catch_body) target"
  "call_site defs b (TryFinally body finally_body) target"
  "call_site defs b (TerminalSwitch discriminant t cases default_body) target"

definition called_by :: "definitions \<Rightarrow> string \<times> CallbackBindings \<Rightarrow> string \<times> CallbackBindings \<Rightarrow> bool" where
  "called_by defs target caller \<longleftrightarrow>
     (\<exists>f. fmlookup defs (fst caller) = Some f \<and> call_site defs (snd caller) (outcome_graph f) target)"

text \<open>Every chain of calls that starts here ends.\<close>

definition calls_end :: "definitions \<Rightarrow> string \<times> CallbackBindings \<Rightarrow> bool" where
  "calls_end defs = Wellfounded.accp (called_by defs)"

lemma calls_endI: "(\<And>target. called_by defs target caller \<Longrightarrow> calls_end defs target) \<Longrightarrow> calls_end defs caller"
  unfolding calls_end_def by (rule accpI)

end
