(* ===== verification/TypeScript_Exactness.thy ===== *)
theory TypeScript_Exactness
  imports TypeScript_Semantics
begin

text \<open>
  The evaluation of outcome graphs is exact: what it returns for a function are the outcomes its
  rules allow, and every chain of calls it makes ends. The proof follows the recursion of the
  evaluator, with a cache whose entries are already exact.
\<close>

section \<open>The loops of the evaluator\<close>

lemma map_exits_Ok:
  "map_exits f exits xs = Inr ys \<Longrightarrow>
     (\<forall>x \<in> set xs. \<exists>y. f x = Inr y) \<and> set ys = set exits \<union> {y. \<exists>x \<in> set xs. f x = Inr y}"
proof (induction xs arbitrary: exits)
  case (Cons x xs)
  then obtain y where y: "f x = Inr y" "map_exits f (push_unique_exit exits y) xs = Inr ys" by auto
  with Cons.IH [OF y(2)] show ?case by auto
qed simp

lemma map_exits_set: "map_exits f [] xs = Inr ys \<Longrightarrow> y \<in> set ys \<longleftrightarrow> (\<exists>x \<in> set xs. f x = Inr y)"
  by (drule map_exits_Ok) simp

lemma map_exits_in: "map_exits f exits xs = Inr ys \<Longrightarrow> x \<in> set xs \<Longrightarrow> \<exists>y. f x = Inr y"
  by (drule map_exits_Ok) blast

lemma distinct_map_exits: "map_exits f exits xs = Inr ys \<Longrightarrow> distinct exits \<Longrightarrow> distinct ys"
  by (induction xs arbitrary: exits) auto

lemma sequence_exits_set:
  "e \<in> set (sequence_exits exits items) \<longleftrightarrow>
     (e \<in> set exits \<and> e \<noteq> Fallthrough) \<or> (Fallthrough \<in> set exits \<and> e \<in> set items)"
proof -
  have "set (foldl (\<lambda>next_exits exit.
      if exit = Fallthrough then push_all next_exits items else push_unique_exit next_exits exit) acc exits) =
      set acc \<union> (set exits - {Fallthrough}) \<union> (if Fallthrough \<in> set exits then set items else {})" for acc
    by (induction exits arbitrary: acc) auto
  then show ?thesis by (auto simp: sequence_exits_def)
qed

lemma catch_exits_set:
  "e \<in> set (catch_exits exits caught) \<longleftrightarrow>
     (e \<in> set exits \<and> \<not> is_raise e) \<or> ((\<exists>r \<in> set exits. is_raise r) \<and> e \<in> set caught)"
proof -
  have "set (foldl (\<lambda>exits exit.
      if is_raise exit then push_all exits caught else push_unique_exit exits exit) acc exits) =
      set acc \<union> {e \<in> set exits. \<not> is_raise e} \<union> (if \<exists>r \<in> set exits. is_raise r then set caught else {})" for acc
    by (induction exits arbitrary: acc) auto
  then show ?thesis by (auto simp: catch_exits_def)
qed

lemma finally_exits_set:
  "e \<in> set (finally_exits body final) \<longleftrightarrow>
     (e \<in> set body \<and> Fallthrough \<in> set final) \<or> (body \<noteq> [] \<and> e \<in> set final \<and> e \<noteq> Fallthrough)"
proof -
  have inner: "set (foldl (\<lambda>exits exit.
      if exit = Fallthrough then push_unique_exit exits body_exit else push_unique_exit exits exit) acc final) =
      set acc \<union> (set final - {Fallthrough}) \<union> (if Fallthrough \<in> set final then {body_exit} else {})" for acc body_exit
    by (induction final arbitrary: acc) auto
  have "set (foldl (\<lambda>exits body_exit. foldl (\<lambda>exits exit.
      if exit = Fallthrough then push_unique_exit exits body_exit else push_unique_exit exits exit) exits final) acc body) =
      set acc \<union> (if body = [] then {} else set final - {Fallthrough}) \<union>
      (if Fallthrough \<in> set final then set body else {})" for acc
    by (induction body arbitrary: acc) (auto simp: inner)
  then show ?thesis by (auto simp: finally_exits_def)
qed

lemma distinct_sequence_exits: "distinct (sequence_exits exits items)"
proof -
  have "distinct (foldl (\<lambda>next_exits exit.
      if exit = Fallthrough then push_all next_exits items else push_unique_exit next_exits exit) acc exits) \<longleftrightarrow> distinct acc"
    for acc by (induction exits arbitrary: acc) auto
  then show ?thesis by (simp add: sequence_exits_def)
qed

section \<open>The bindings of a call\<close>

lemma bind_callbacks_bindings:
  "bind_callbacks callee args b defs language = Inr b' \<Longrightarrow>
     b' = foldl (\<lambda>m (k, v). fmupd k v m) b (List.map_filter callback_argument (map prod.swap args))"
proof (induction callee args b defs language rule: bind_callbacks.induct)
  case (2 callee argument parameter arguments b defs language)
  then show ?case
    by (auto simp: callback_argument_def map_filter_simps split: if_splits TypeScriptParameterDescriptor.splits
        TypeScriptArgumentDescriptor.splits)
qed (simp add: map_filter_simps)

lemma call_bindings_evaluated:
  "callback_bindings_for_call callee arguments g defs language = Inr b \<Longrightarrow> b = call_bindings g arguments"
  using zip_commute [of arguments "fun_parameters g"]
  by (auto simp: callback_bindings_for_call_def call_bindings_def btree_of_list_def prod.swap_def
      case_prod_unfold comp_def dest!: bind_callbacks_bindings split: if_splits)

lemma invoked_callback_bound:
  "invoked_callback parameter arguments line column f b defs language = Inr callback \<Longrightarrow>
     fmlookup b parameter = Some callback"
  by (auto simp: invoked_callback_def split: option.splits TypeScriptParameterDescriptor.splits if_splits)

section \<open>Exact results\<close>

definition exact :: "(LocatedExit \<Rightarrow> bool) \<Rightarrow> LocatedExit list \<Rightarrow> bool" where
  "exact outcome exits \<longleftrightarrow> (\<forall>e. e \<in> set exits \<longleftrightarrow> outcome e)"

text \<open>The exits a boundary of a function lets through.\<close>

definition boundary_exit :: "TypeScriptFunction \<Rightarrow> LocatedExit \<Rightarrow> bool" where
  "boundary_exit f exit \<longleftrightarrow>
     (case exit of
        Return t \<Rightarrow> execution f = Synchronous \<and> t = fun_return_type f
      | Raise _ _ _ \<Rightarrow> execution f = Synchronous
      | Fulfill t \<Rightarrow> execution f = Asynchronous \<and> t = fun_return_type f
      | Reject _ _ _ \<Rightarrow> execution f = Asynchronous
      | Fallthrough \<Rightarrow> False)"

definition settled :: "definitions \<Rightarrow> string \<Rightarrow> CallbackBindings \<Rightarrow> LocatedExit list \<Rightarrow> bool" where
  "settled defs name b exits \<longleftrightarrow>
     exact (function_outcome defs name b) exits \<and> exits \<noteq> [] \<and> distinct exits \<and> calls_end defs (name, b) \<and>
     (\<exists>f. fmlookup defs name = Some f \<and> list_all (boundary_exit f) exits)"

definition explored ::
  "definitions \<Rightarrow> TypeScriptFunction \<Rightarrow> CallbackBindings \<Rightarrow> TypeScriptOutcomeGraph \<Rightarrow> LocatedExit list \<Rightarrow> bool" where
  "explored defs f b graph exits \<longleftrightarrow>
     exact (graph_outcome defs f b graph) exits \<and> (\<forall>target. call_site defs b graph target \<longrightarrow> calls_end defs target)"

definition sound_cache :: "definitions \<Rightarrow> evaluation_cache \<Rightarrow> bool" where
  "sound_cache defs cache \<longleftrightarrow>
     (\<forall>n b exits. fmlookup cache (evaluation_key n b) = Some exits \<longrightarrow> settled defs n b exits)"

lemma sound_cache_empty [simp]: "sound_cache defs fmempty"
  by (simp add: sound_cache_def)

lemma sound_cache_update:
  "sound_cache defs cache \<Longrightarrow> settled defs n b exits \<Longrightarrow> sound_cache defs (fmupd (evaluation_key n b) exits cache)"
  by (auto simp: sound_cache_def)

lemma graph_never_fulfills:
  "graph_outcome defs f b graph e \<Longrightarrow> e \<noteq> Fulfill t"
  "sequence_outcome defs f b items e \<Longrightarrow> e \<noteq> Fulfill t"
  "function_outcome defs name b e \<Longrightarrow> e \<noteq> Fallthrough"
  by (induction rule: graph_outcome_sequence_outcome_function_outcome.inducts) auto

lemma explored_call:
  assumes "fmlookup defs callee = Some g" "settled defs callee (call_bindings g arguments) callee_exits"
    "map_exits (call_exit line column language message) [] callee_exits = Inr exits"
  shows "explored defs f b (Call callee arguments line column) exits"
  unfolding explored_def exact_def
proof (intro conjI allI impI)
  fix e
  have "e \<in> set exits \<longleftrightarrow>
      (\<exists>x. function_outcome defs callee (call_bindings g arguments) x \<and> call_exit line column language message x = Inr e)"
    using assms(2) map_exits_set [OF assms(3)] by (auto simp: settled_def exact_def)
  also have "\<dots> \<longleftrightarrow> graph_outcome defs f b (Call callee arguments line column) e"
    using assms(1) graph_never_fulfills(3)
    by (fastforce simp: graph_outcome_unfold call_exit_def split: LocatedExit.splits)
  finally show "e \<in> set exits \<longleftrightarrow> graph_outcome defs f b (Call callee arguments line column) e" .
qed (use assms(1,2) in \<open>auto simp: settled_def\<close>)

lemma explored_await:
  assumes "fmlookup defs callee = Some g" "settled defs callee (call_bindings g arguments) callee_exits"
    "map_exits (await_exit line column language message) [] callee_exits = Inr exits"
  shows "explored defs f b (AwaitCall callee arguments line column) exits"
  unfolding explored_def exact_def
proof (intro conjI allI impI)
  fix e
  have "e \<in> set exits \<longleftrightarrow>
      (\<exists>x. function_outcome defs callee (call_bindings g arguments) x \<and> await_exit line column language message x = Inr e)"
    using assms(2) map_exits_set [OF assms(3)] by (auto simp: settled_def exact_def)
  also have "\<dots> \<longleftrightarrow> graph_outcome defs f b (AwaitCall callee arguments line column) e"
    using assms(1) by (fastforce simp: graph_outcome_unfold await_exit_def split: LocatedExit.splits)
  finally show "e \<in> set exits \<longleftrightarrow> graph_outcome defs f b (AwaitCall callee arguments line column) e" .
qed (use assms(1,2) in \<open>auto simp: settled_def\<close>)

lemma explored_adopt:
  assumes "fmlookup defs callee = Some g" "settled defs callee (call_bindings g arguments) callee_exits"
    "map_exits (adopt_exit line column language message) [] callee_exits = Inr exits"
  shows "explored defs f b (PromiseAdopt callee arguments line column) exits"
  unfolding explored_def exact_def
proof (intro conjI allI impI)
  fix e
  have "e \<in> set exits \<longleftrightarrow>
      (\<exists>x. function_outcome defs callee (call_bindings g arguments) x \<and> adopt_exit line column language message x = Inr e)"
    using assms(2) map_exits_set [OF assms(3)] by (auto simp: settled_def exact_def)
  also have "\<dots> \<longleftrightarrow> graph_outcome defs f b (PromiseAdopt callee arguments line column) e"
    using assms(1) by (fastforce simp: graph_outcome_unfold adopt_exit_def split: LocatedExit.splits)
  finally show "e \<in> set exits \<longleftrightarrow> graph_outcome defs f b (PromiseAdopt callee arguments line column) e" .
qed (use assms(1,2) in \<open>auto simp: settled_def\<close>)

lemma explored_invoke:
  assumes "fmlookup b parameter = Some callback" "settled defs callback fmempty callee_exits"
    "map_exits (call_exit line column language message) [] callee_exits = Inr exits"
  shows "explored defs f b (CallbackInvoke parameter arguments line column) exits"
  unfolding explored_def exact_def
proof (intro conjI allI impI)
  fix e
  have "e \<in> set exits \<longleftrightarrow>
      (\<exists>x. function_outcome defs callback fmempty x \<and> call_exit line column language message x = Inr e)"
    using assms(2) map_exits_set [OF assms(3)] by (auto simp: settled_def exact_def)
  also have "\<dots> \<longleftrightarrow> graph_outcome defs f b (CallbackInvoke parameter arguments line column) e"
    using assms(1) graph_never_fulfills(3)
    by (fastforce simp: graph_outcome_unfold call_exit_def split: LocatedExit.splits)
  finally show "e \<in> set exits \<longleftrightarrow> graph_outcome defs f b (CallbackInvoke parameter arguments line column) e" .
qed (use assms(1,2) in \<open>auto simp: settled_def\<close>)

section \<open>The boundary of a function\<close>

lemma normalize_exit_cases:
  "normalize_exit f name language x = Inr e \<longleftrightarrow>
     (case x of
        Fallthrough \<Rightarrow> fun_return_type f = ''void'' \<and>
          e = (if execution f = Synchronous then Return ''void'' else Fulfill ''void'')
      | Return t \<Rightarrow> t = fun_return_type f \<and> e = (if execution f = Synchronous then Return t else Fulfill t)
      | Raise c l k \<Rightarrow> e = (if execution f = Synchronous then Raise c l k else Reject c l k)
      | Fulfill t \<Rightarrow> execution f = Asynchronous \<and> e = Fulfill t
      | Reject c l k \<Rightarrow> execution f = Asynchronous \<and> e = Reject c l k)"
  by (cases x; cases "execution f") (auto simp: normalize_exit_def normalize_return_def async_boundary_def)

lemma bex_exit:
  "(\<exists>x \<in> A. P x) \<longleftrightarrow>
     (Fallthrough \<in> A \<and> P Fallthrough) \<or> (\<exists>t. Return t \<in> A \<and> P (Return t)) \<or>
     (\<exists>c l k. Raise c l k \<in> A \<and> P (Raise c l k)) \<or> (\<exists>t. Fulfill t \<in> A \<and> P (Fulfill t)) \<or>
     (\<exists>c l k. Reject c l k \<in> A \<and> P (Reject c l k))"
    (is "?l \<longleftrightarrow> ?r")
proof
  assume ?l
  then obtain x where x: "x \<in> A" "P x" by blast
  then show ?r by (cases x) blast+
qed blast

lemma function_exits_exact:
  assumes "fmlookup defs name = Some f" "explored defs f b (outcome_graph f) raw"
    "map_exits (normalize_exit f name language) [] raw = Inr exits"
  shows "exact (function_outcome defs name b) exits" "list_all (boundary_exit f) exits"
proof -
  have raw: "graph_outcome defs f b (outcome_graph f) x \<longleftrightarrow> x \<in> set raw" for x
    using assms(2) by (auto simp: explored_def exact_def)
  have total: "\<exists>y. normalize_exit f name language x = Inr y" if "x \<in> set raw" for x
    using map_exits_in [OF assms(3) that] .
  have typed: "t = fun_return_type f" if "Return t \<in> set raw" for t
    using total [OF that] by (simp add: normalize_exit_cases)
  have plain: "Fulfill t \<notin> set raw" for t
    using graph_never_fulfills(1) raw by blast
  have late: "execution f = Asynchronous" if "Reject c l k \<in> set raw" for c l k
    using total [OF that] by (simp add: normalize_exit_cases)
  have "e \<in> set exits \<longleftrightarrow> (\<exists>x \<in> set raw. normalize_exit f name language x = Inr e)" for e
    using map_exits_set [OF assms(3)] .
  then have image: "e \<in> set exits \<longleftrightarrow>
      (Fallthrough \<in> set raw \<and> fun_return_type f = ''void'' \<and>
        e = (if execution f = Synchronous then Return ''void'' else Fulfill ''void'')) \<or>
      (\<exists>t. Return t \<in> set raw \<and> e = (if execution f = Synchronous then Return t else Fulfill t)) \<or>
      (\<exists>c l k. Raise c l k \<in> set raw \<and> e = (if execution f = Synchronous then Raise c l k else Reject c l k)) \<or>
      (\<exists>c l k. Reject c l k \<in> set raw \<and> execution f = Asynchronous \<and> e = Reject c l k)" for e
    unfolding bex_exit [of "set raw"] normalize_exit_cases LocatedExit.case using plain typed by blast
  show "exact (function_outcome defs name b) exits"
    unfolding exact_def image function_outcome_unfold raw using assms(1) raw by (simp add: conj_ac)
  have "boundary_exit f e" if "e \<in> set exits" for e
    using that typed unfolding image boundary_exit_def by (cases "execution f") (force split: LocatedExit.splits)+
  then show "list_all (boundary_exit f) exits" by (simp add: list_all_iff)
qed

lemma settled_function:
  assumes "fmlookup defs name = Some f" "explored defs f b (outcome_graph f) raw"
    "map_exits (normalize_exit f name language) [] raw = Inr exits" "exits \<noteq> []"
  shows "settled defs name b exits"
proof -
  have "calls_end defs (name, b)"
    by (rule calls_endI) (use assms(1,2) in \<open>auto simp: called_by_def explored_def\<close>)
  with function_exits_exact [OF assms(1-3)] distinct_map_exits [OF assms(3)] assms(1,4) show ?thesis
    by (auto simp: settled_def)
qed

section \<open>The recursion of the evaluator\<close>

lemma is_raise_iff: "is_raise e \<longleftrightarrow> (\<exists>c l k. e = Raise c l k)"
  by (cases e) (auto simp: is_raise_def)

lemma explored_catch:
  "explored defs f b try_body exits \<Longrightarrow> explored defs f b catch_body caught \<Longrightarrow>
     explored defs f b (TryCatch try_body catch_body) (catch_exits exits caught)"
  by (auto simp: explored_def exact_def catch_exits_set graph_outcome_unfold is_raise_iff Bex_def)

lemma explored_finally:
  assumes "explored defs f b body exits" "explored defs f b finally_body final"
  shows "explored defs f b (TryFinally body finally_body) (finally_exits exits final)"
proof -
  have "exits \<noteq> [] \<longleftrightarrow> (\<exists>e. graph_outcome defs f b body e)"
    using assms(1) by (cases exits) (auto simp: explored_def exact_def)
  with assms show ?thesis by (auto simp: explored_def exact_def finally_exits_set graph_outcome_unfold)
qed

lemma explored_switch:
  assumes "explored defs f b discriminant exits" "explored defs f b default_body defaults"
    "\<And>e. e \<in> set arms \<longleftrightarrow> (\<exists>c \<in> set cases. graph_outcome defs f b (case_body c) e)"
    "\<And>c target. c \<in> set cases \<Longrightarrow> call_site defs b (case_body c) target \<Longrightarrow> calls_end defs target"
  shows "explored defs f b (TerminalSwitch discriminant t cases default_body)
      (sequence_exits exits (push_all arms defaults))"
proof -
  have arm: "(\<exists>label body. TypeScriptSwitchCase label body \<in> set cases \<and> graph_outcome defs f b body e) \<longleftrightarrow> e \<in> set arms" for e
    unfolding assms(3) by (metis TypeScriptSwitchCase.collapse TypeScriptSwitchCase.sel(2))
  have "graph_outcome defs f b (TerminalSwitch discriminant t cases default_body) e \<longleftrightarrow>
      (graph_outcome defs f b discriminant e \<and> e \<noteq> Fallthrough) \<or>
      (graph_outcome defs f b discriminant Fallthrough \<and> (e \<in> set arms \<or> graph_outcome defs f b default_body e))" for e
    unfolding arm [symmetric] graph_outcome_unfold by auto
  with assms(1,2,4) show ?thesis by (auto simp: explored_def exact_def sequence_exits_set)
qed

lemma evaluation_exact:
  "sound_cache defs cache \<Longrightarrow> evaluate_function name b defs cache visiting language = Inr (result, cache') \<Longrightarrow>
     settled defs name b result \<and> sound_cache defs cache'"
  "sound_cache defs cache \<Longrightarrow> evaluate_graph graph f b defs cache visiting language = Inr (result, cache') \<Longrightarrow>
     explored defs f b graph result \<and> sound_cache defs cache'"
  "sound_cache defs cache \<Longrightarrow> evaluate_sequence items exits f b defs cache visiting language = Inr (result, cache') \<Longrightarrow>
     (\<forall>e. e \<in> set result \<longleftrightarrow>
        (e \<in> set exits \<and> e \<noteq> Fallthrough) \<or> (Fallthrough \<in> set exits \<and> sequence_outcome defs f b items e)) \<and>
     (\<forall>item \<in> set items. \<forall>target. call_site defs b item target \<longrightarrow> calls_end defs target) \<and> sound_cache defs cache'"
  "sound_cache defs cache \<Longrightarrow> evaluate_branches items exits f b defs cache visiting language = Inr (result, cache') \<Longrightarrow>
     (\<forall>e. e \<in> set result \<longleftrightarrow> e \<in> set exits \<or> (\<exists>item \<in> set items. graph_outcome defs f b item e)) \<and>
     (\<forall>item \<in> set items. \<forall>target. call_site defs b item target \<longrightarrow> calls_end defs target) \<and> sound_cache defs cache'"
  "sound_cache defs cache \<Longrightarrow>
     evaluate_cases cases t labels exits f b defs cache visiting language = Inr (result, cache') \<Longrightarrow>
     (\<forall>e. e \<in> set result \<longleftrightarrow> e \<in> set exits \<or> (\<exists>c \<in> set cases. graph_outcome defs f b (case_body c) e)) \<and>
     (\<forall>c \<in> set cases. \<forall>target. call_site defs b (case_body c) target \<longrightarrow> calls_end defs target) \<and>
     sound_cache defs cache'"
proof (induction name b defs cache visiting language and graph f b defs cache visiting language and
    items exits f b defs cache visiting language and items exits f b defs cache visiting language and
    cases t labels exits f b defs cache visiting language
    arbitrary: result cache' and result cache' and result cache' and result cache' and result cache'
    rule: evaluate_function_evaluate_graph_evaluate_sequence_evaluate_branches_evaluate_cases.induct)
  case (1 name b defs cache visiting language)
  show ?case
  proof (cases "fmlookup cache (evaluation_key name b)")
    case (Some cached)
    with "1.prems" show ?thesis by (simp add: sound_cache_def)
  next
    case None
    with "1.prems"(2) obtain f raw cache1 where parts: "evaluation_key name b \<notin> visiting" "fmlookup defs name = Some f"
        "\<not> incomplete_provenance b f"
        "evaluate_graph (outcome_graph f) f b defs cache (insert (evaluation_key name b) visiting) language =
          Inr (raw, cache1)"
        "map_exits (normalize_exit f name language) [] raw = Inr result" "result \<noteq> []"
        "cache' = fmupd (evaluation_key name b) result cache1"
      by (auto simp: Let_def split: if_splits)
    have "explored defs f b (outcome_graph f) raw \<and> sound_cache defs cache1"
      by (rule "1.IH" [OF refl None parts(1) _ parts(3) "1.prems"(1) parts(4)]) (simp add: parts(2))
    with settled_function [OF parts(2) _ parts(5,6)] parts(7) sound_cache_update show ?thesis by simp
  qed
next
  case (5 callee arguments line column f b defs cache visiting language)
  from "5.prems"(2) obtain g cb callee_exits cache1 where parts: "fmlookup defs callee = Some g"
      "source_location line column language ''source call has invalid location'' = Inr ()"
      "callback_bindings_for_call callee arguments g defs language = Inr cb"
      "evaluate_function callee cb defs cache visiting language = Inr (callee_exits, cache1)" "cache' = cache1"
      and mapped: "map_exits (call_exit line column language
         (''ordinary call unexpectedly evaluated async callee '' @ debug_str callee)) [] callee_exits = Inr result"
    by auto
  have "settled defs callee cb callee_exits \<and> sound_cache defs cache1"
    by (rule "5.IH" [OF parts(2) _ parts(3) "5.prems"(1) parts(4)]) (simp add: parts(1))
  with explored_call [OF parts(1) _ mapped] call_bindings_evaluated [OF parts(3)] parts(5) show ?case by simp
next
  case (6 callee arguments line column f b defs cache visiting language)
  from "6.prems"(2) obtain g cb callee_exits cache1 where parts: "fmlookup defs callee = Some g"
      "source_location line column language ''await call has invalid location'' = Inr ()"
      "callback_bindings_for_call callee arguments g defs language = Inr cb"
      "evaluate_function callee cb defs cache visiting language = Inr (callee_exits, cache1)" "cache' = cache1"
      "\<not> execution f \<noteq> Asynchronous"
      and mapped: "map_exits (await_exit line column language
         (''awaited function '' @ debug_str callee @ '' retained fallthrough'')) [] callee_exits = Inr result"
    by (auto split: if_splits)
  have "settled defs callee cb callee_exits \<and> sound_cache defs cache1"
    by (rule "6.IH" [OF parts(2) parts(6) _ parts(3) "6.prems"(1) parts(4)]) (simp add: parts(1))
  with explored_await [OF parts(1) _ mapped] call_bindings_evaluated [OF parts(3)] parts(5) show ?case by simp
next
  case (7 callee arguments line column f b defs cache visiting language)
  from "7.prems"(2) obtain g cb callee_exits cache1 where parts: "fmlookup defs callee = Some g"
      "source_location line column language ''promise adoption has invalid location'' = Inr ()"
      "callback_bindings_for_call callee arguments g defs language = Inr cb"
      "evaluate_function callee cb defs cache visiting language = Inr (callee_exits, cache1)" "cache' = cache1"
      "\<not> (execution f \<noteq> Asynchronous \<or> execution g \<noteq> Asynchronous \<or> fun_return_type f \<noteq> fun_return_type g)"
      and mapped: "map_exits (adopt_exit line column language
         (''promise adoption evaluated non-async callee '' @ debug_str callee)) [] callee_exits = Inr result"
    by (auto split: if_splits)
  have "settled defs callee cb callee_exits \<and> sound_cache defs cache1"
    by (rule "7.IH" [OF parts(2) _ parts(6) parts(3) "7.prems"(1) parts(4)]) (simp add: parts(1))
  with explored_adopt [OF parts(1) _ mapped] call_bindings_evaluated [OF parts(3)] parts(5) show ?case by simp
next
  case (8 parameter arguments line column f b defs cache visiting language)
  from "8.prems"(2) obtain callback callee_exits cache1 where
      parts: "invoked_callback parameter arguments line column f b defs language = Inr callback"
      "evaluate_function callback fmempty defs cache visiting language = Inr (callee_exits, cache1)" "cache' = cache1"
      and mapped: "map_exits (call_exit line column language
         (''callback '' @ debug_str callback @ '' unexpectedly evaluated as async'')) [] callee_exits = Inr result"
    by auto
  have "settled defs callback fmempty callee_exits \<and> sound_cache defs cache1"
    by (rule "8.IH" [OF parts(1) "8.prems"(1) parts(2)])
  with explored_invoke [OF invoked_callback_bound [OF parts(1)] _ mapped] parts(3) show ?case by simp
next
  case (9 items f b defs cache visiting language)
  then show ?case by (auto simp: explored_def exact_def)
next
  case (10 branches f b defs cache visiting language)
  then show ?case by (auto simp: explored_def exact_def split: if_splits)
next
  case (11 try_body catch_body f b defs cache visiting language)
  from "11.prems"(2) obtain r1 c1 r2 where parts: "evaluate_graph try_body f b defs cache visiting language = Inr (r1, c1)"
      "evaluate_graph catch_body f b defs c1 visiting language = Inr (r2, cache')" "result = catch_exits r1 r2"
    by auto
  with "11.IH"(1) [OF "11.prems"(1) parts(1)] "11.IH"(2) [OF parts(1) refl _ parts(2)] explored_catch
  show ?case by simp
next
  case (12 body finally_body f b defs cache visiting language)
  from "12.prems"(2) obtain r1 c1 r2 where parts: "evaluate_graph body f b defs cache visiting language = Inr (r1, c1)"
      "evaluate_graph finally_body f b defs c1 visiting language = Inr (r2, cache')" "result = finally_exits r1 r2"
    by auto
  with "12.IH"(1) [OF "12.prems"(1) parts(1)] "12.IH"(2) [OF parts(1) refl _ parts(2)] explored_finally
  show ?case by simp
next
  case (13 discriminant t cases default_body f b defs cache visiting language)
  from "13.prems"(2) obtain arms c1 defaults c2 r where guard: "\<not> (\<not> primitive_type_name t \<or> cases = [])"
      and parts: "evaluate_cases cases t {} [] f b defs cache visiting language = Inr (arms, c1)"
      "evaluate_graph default_body f b defs c1 visiting language = Inr (defaults, c2)" "Fallthrough \<notin> set defaults"
      "evaluate_graph discriminant f b defs c2 visiting language = Inr (r, cache')"
      "result = sequence_exits r (push_all arms defaults)"
    by (auto split: if_splits)
  note arms = "13.IH"(1) [OF guard "13.prems"(1) parts(1)]
  then have "explored defs f b default_body defaults \<and> sound_cache defs c2"
    by (intro "13.IH"(2) [OF guard parts(1) refl _ parts(2)]) simp
  moreover from this have "explored defs f b discriminant r \<and> sound_cache defs cache'"
    by (intro "13.IH"(3) [OF guard parts(1) refl parts(2) refl parts(3) _ parts(4)]) simp
  ultimately show ?case using arms explored_switch [of defs f b discriminant r default_body defaults arms cases t] parts(5)
    by auto
next
  case (15 item items exits f b defs cache visiting language)
  from "15.prems"(2) obtain r c1 where parts: "evaluate_graph item f b defs cache visiting language = Inr (r, c1)"
      "evaluate_sequence items (sequence_exits exits r) f b defs c1 visiting language = Inr (result, cache')"
    by auto
  from "15.IH"(1) [OF "15.prems"(1) parts(1)] have item: "explored defs f b item r" "sound_cache defs c1" by simp_all
  with "15.IH"(2) [OF parts(1) refl item(2) parts(2)] show ?case
    by (auto simp: sequence_exits_set explored_def exact_def graph_outcome_unfold)
next
  case (17 branch branches exits f b defs cache visiting language)
  from "17.prems"(2) obtain r c1 where parts: "evaluate_graph branch f b defs cache visiting language = Inr (r, c1)"
      "evaluate_branches branches (push_all exits r) f b defs c1 visiting language = Inr (result, cache')"
    by auto
  from "17.IH"(1) [OF "17.prems"(1) parts(1)] have item: "explored defs f b branch r" "sound_cache defs c1" by simp_all
  with "17.IH"(2) [OF parts(1) refl item(2) parts(2)] show ?case by (auto simp: explored_def exact_def)
next
  case (19 label body cases t labels exits f b defs cache visiting language)
  from "19.prems"(2) obtain key r c1 where parts: "switch_label_key label t language = Inr key" "key \<notin> labels"
      "evaluate_graph body f b defs cache visiting language = Inr (r, c1)" "Fallthrough \<notin> set r"
      "evaluate_cases cases t (insert key labels) (push_all exits r) f b defs c1 visiting language = Inr (result, cache')"
    by (auto split: if_splits)
  from "19.IH"(1) [OF parts(1,2) "19.prems"(1) parts(3)] have item: "explored defs f b body r" "sound_cache defs c1"
    by simp_all
  with "19.IH"(2) [OF parts(1-3) refl parts(4) item(2) parts(5)] show ?case by (auto simp: explored_def exact_def)
qed (auto simp: explored_def exact_def split: if_splits)

end
