(* ===== verification/TypeScript_Module.thy ===== *)
theory TypeScript_Module
  imports TypeScript_Exactness Exit_Kernel
begin

text \<open>
  The verification of a whole TypeScript or JavaScript module (\<^verbatim>\<open>src/src/typescript.rs\<close>,
  \<open>validate_outcome_graphs\<close>): the compiler's description is checked function by function and class
  by class, every requested function is evaluated, and no exception may escape one. The kernel
  judges the effects that remain. The compiler process itself is outside the model: its answer is
  an input.
\<close>

section \<open>Functions\<close>

definition private_boundary :: "TypeScriptParameter \<Rightarrow> bool" where
  "private_boundary parameter \<longleftrightarrow>
     (case descriptor parameter of Record _ \<Rightarrow> True | Callback _ _ \<Rightarrow> True | _ \<Rightarrow> False)"

fun check_parameters ::
  "TypeScriptFunction \<Rightarrow> string set \<Rightarrow> TypeScriptParameter list \<Rightarrow> SourceLanguage \<Rightarrow> (TypeScriptFailure, unit) result" where
  "check_parameters f names [] language = Ok ()"
| "check_parameters f names (parameter # parameters) language =
     (if parameter_name parameter = [] \<or> parameter_name parameter \<in> names
      then protocol_failure language
             (''function '' @ debug_str (fun_name f) @ '' has an invalid or duplicate parameter'')
      else res_bind (validate_parameter_descriptor (descriptor parameter) language) (\<lambda>_.
        if exported f \<and> private_boundary parameter
        then protocol_failure language
               (''exported function '' @ debug_str (fun_name f) @ '' has a private-boundary parameter'')
        else check_parameters f (insert (parameter_name parameter) names) parameters language))"

text \<open>One iteration of the first loop: the map of definitions with the function, when it is well formed.\<close>

definition define_function ::
  "definitions \<Rightarrow> TypeScriptFunction \<Rightarrow> SourceLanguage \<Rightarrow> (TypeScriptFailure, definitions) result" where
  "define_function defs f language =
     (if fmlookup defs (fun_name f) \<noteq> None
      then protocol_failure language (''duplicate function '' @ debug_str (fun_name f))
      else if \<not> primitive_type_name (fun_return_type f) \<and> fun_return_type f \<noteq> ''void''
      then protocol_failure language (''function '' @ debug_str (fun_name f) @ '' has an invalid return type'')
      else res_bind (check_parameters f {} (fun_parameters f) language) (\<lambda>_.
        if remdups_adj (sort (collect_graph_calls (outcome_graph f))) \<noteq> fun_calls f
        then protocol_failure language
               (''function '' @ debug_str (fun_name f) @ '' call summary does not match its outcome graph'')
        else Ok (fmupd (fun_name f) f defs)))"

fun define_functions ::
  "definitions \<Rightarrow> TypeScriptFunction list \<Rightarrow> SourceLanguage \<Rightarrow> (TypeScriptFailure, definitions) result" where
  "define_functions defs [] language = Ok defs"
| "define_functions defs (f # functions) language =
     res_bind (define_function defs f language) (\<lambda>defs. define_functions defs functions language)"

section \<open>Classes\<close>

definition strip_prefix :: "string \<Rightarrow> string \<Rightarrow> string option" where
  "strip_prefix prefix text_value =
     (if take (length prefix) text_value = prefix then Some (drop (length prefix) text_value) else None)"

definition primitive_boundary :: "TypeScriptFunction \<Rightarrow> bool" where
  "primitive_boundary f \<longleftrightarrow>
     list_all (\<lambda>parameter. case descriptor parameter of TypeScriptParameterDescriptor.Primitive _ \<Rightarrow> True | _ \<Rightarrow> False)
       (fun_parameters f)"

fun check_methods ::
  "TypeScriptClass \<Rightarrow> string option \<Rightarrow> string list \<Rightarrow> string set \<Rightarrow> definitions \<Rightarrow> SourceLanguage \<Rightarrow>
     (TypeScriptFailure, string set) result" where
  "check_methods class previous [] members defs language = Ok members"
| "check_methods class previous (method # methods) members defs language =
     (case strip_prefix (class_name class @ ''.'') method of
        None \<Rightarrow> protocol_failure language ''source class method identity has the wrong owner''
      | Some member_name \<Rightarrow>
          if member_name = ''constructor'' \<or> \<not> canonical_record_field_name member_name \<or>
             out_of_order previous method \<or> method \<in> members
          then protocol_failure language ''source class methods are not canonical''
          else res_bind (or_protocol_failure (fmlookup defs method) language
                 (''source class method '' @ debug_str method @ '' has no outcome graph'')) (\<lambda>definition.
            if exported definition \<or> \<not> primitive_boundary definition
            then protocol_failure language ''source class method has an invalid boundary shape''
            else check_methods class (Some method) methods (insert method members) defs language))"

definition check_constructor ::
  "TypeScriptClass \<Rightarrow> string set \<Rightarrow> definitions \<Rightarrow> SourceLanguage \<Rightarrow> (TypeScriptFailure, string set) result" where
  "check_constructor class members defs language =
     (if class_constructor class \<noteq> class_name class @ ''.constructor'' \<or> class_constructor class \<in> members
      then protocol_failure language ''source class has invalid constructor identity''
      else res_bind (or_protocol_failure (fmlookup defs (class_constructor class)) language
             (''source class '' @ debug_str (class_name class) @ '' omits its constructor graph'')) (\<lambda>constructor.
        if exported constructor \<or> execution constructor \<noteq> Synchronous \<or> fun_return_type constructor \<noteq> ''void'' \<or>
           \<not> primitive_boundary constructor
        then protocol_failure language ''source constructor has invalid execution shape''
        else Ok (insert (class_constructor class) members)))"

fun check_classes ::
  "string option \<Rightarrow> string set \<Rightarrow> TypeScriptClass list \<Rightarrow> string set \<Rightarrow> definitions \<Rightarrow> SourceLanguage \<Rightarrow>
     (TypeScriptFailure, string set) result" where
  "check_classes previous names [] members defs language = Ok members"
| "check_classes previous names (class # classes) members defs language =
     (if \<not> canonical_record_field_name (class_name class) \<or> out_of_order previous (class_name class) \<or>
         class_name class \<in> names
      then protocol_failure language ''invalid or duplicate source class''
      else res_bind (validate_record_fields (class_fields class) language) (\<lambda>_.
        res_bind (check_constructor class members defs language) (\<lambda>members.
        res_bind (check_methods class None (class_method_names class) members defs language) (\<lambda>members.
        check_classes (Some (class_name class)) (insert (class_name class) names) classes members defs language))))"

fun check_ownership ::
  "string set \<Rightarrow> TypeScriptFunction list \<Rightarrow> SourceLanguage \<Rightarrow> (TypeScriptFailure, unit) result" where
  "check_ownership members [] language = Ok ()"
| "check_ownership members (f # functions) language =
     (if (CHR ''.'' \<in> set (fun_name f)) \<noteq> (fun_name f \<in> members)
      then protocol_failure language
             (''function '' @ debug_str (fun_name f) @ '' has inconsistent source-class ownership'')
      else check_ownership members functions language)"

fun check_shapes ::
  "TypeScriptFunction list \<Rightarrow> definitions \<Rightarrow> SourceLanguage \<Rightarrow> (TypeScriptFailure, unit) result" where
  "check_shapes [] defs language = Ok ()"
| "check_shapes (f # functions) defs language =
     res_bind (validate_graph_shape f defs language) (\<lambda>_. check_shapes functions defs language)"

section \<open>Roots\<close>

definition verification_roots :: "TypeScriptFunction list \<Rightarrow> string set \<Rightarrow> string list \<Rightarrow> string list" where
  "verification_roots functions members requested_symbols =
     (if requested_symbols = [] then map fun_name (filter (\<lambda>f. fun_name f \<notin> members) functions)
      else requested_symbols)"

text \<open>The effects of a root: an escaping exception is located at the call that lets it escape.\<close>

fun root_effects ::
  "string \<Rightarrow> ExitEffect list \<Rightarrow> LocatedExit list \<Rightarrow> SourceLanguage \<Rightarrow> (TypeScriptFailure, ExitEffect list) result" where
  "root_effects root effects [] language = Ok effects"
| "root_effects root effects (LocatedExit.Return type_name # exits) language =
     root_effects root (effects @ [ExitEffect.Return type_name]) exits language"
| "root_effects root effects (Fulfill type_name # exits) language =
     root_effects root (effects @ [ExitEffect.Return type_name]) exits language"
| "root_effects root effects (LocatedExit.Raise exception_type line column # exits) language =
     Err \<lparr>ts_code = language_code language ''unexpected-exception'',
          ts_message = ''requested function '' @ debug_str root @ '' has uncaught outcome '' @ exception_type,
          ts_line = Some line, ts_column = Some column\<rparr>"
| "root_effects root effects (Reject exception_type line column # exits) language =
     Err \<lparr>ts_code = language_code language ''unexpected-rejection'',
          ts_message = ''requested async function '' @ debug_str root @ '' has rejected outcome '' @ exception_type,
          ts_line = Some line, ts_column = Some column\<rparr>"
| "root_effects root effects (LocatedExit.Fallthrough # exits) language =
     protocol_failure language (''requested function '' @ debug_str root @ '' retained an unnormalized fallthrough'')"

fun evaluate_roots ::
  "string list \<Rightarrow> string set \<Rightarrow> definitions \<Rightarrow> evaluation_cache \<Rightarrow> ExitEffect list \<Rightarrow> SourceLanguage \<Rightarrow>
     (TypeScriptFailure, ExitEffect list) result" where
  "evaluate_roots [] members defs cache effects language = Ok effects"
| "evaluate_roots (root # roots) members defs cache effects language =
     (if root \<in> members
      then protocol_failure language
             (''source class member '' @ debug_str root @ '' cannot be an open verification root'')
      else res_bind (or_protocol_failure (fmlookup defs root) language
             (''outcome graph omitted requested root '' @ debug_str root)) (\<lambda>root_function.
        if list_ex private_boundary (fun_parameters root_function)
        then protocol_failure language
               (''requested root '' @ debug_str root @ '' has a private-boundary parameter'')
        else res_bind (evaluate_function root fmempty defs cache {} language) (\<lambda>(exits, cache).
          res_bind (root_effects root effects exits language) (\<lambda>effects.
          evaluate_roots roots members defs cache effects language))))"

definition validate_outcome_graphs ::
  "TypeScriptFunction list \<Rightarrow> TypeScriptClass list \<Rightarrow> string list \<Rightarrow> SourceLanguage \<Rightarrow>
     (TypeScriptFailure, ExitEffect list) result" where
  "validate_outcome_graphs functions classes requested_symbols language =
     res_bind (define_functions fmempty functions language) (\<lambda>defs.
     res_bind (check_classes None {} classes {} defs language) (\<lambda>members.
     res_bind (check_ownership members functions language) (\<lambda>_.
     res_bind (check_shapes functions defs language) (\<lambda>_.
     evaluate_roots (verification_roots functions members requested_symbols) members defs fmempty [] language))))"

section \<open>The verdict on the compiler's answer\<close>

datatype FrontendResult =
    Proved string string "TypeScriptFunction list" "TypeScriptClass list"
  | Refused string string "32 word option" "32 word option"

record 'toolchain TypeScriptVerification =
  ver_schema :: string
  ver_compiler :: string
  ver_functions :: "TypeScriptFunction list"
  ver_classes :: "TypeScriptClass list"
  ver_toolchain :: 'toolchain

definition typescript_version :: string where
  "typescript_version = ''5.9.3''"

fun debug_kernel_failure :: "KernelFailure \<Rightarrow> string" where
  "debug_kernel_failure (UnexpectedException exception_type) =
     debug_tuple ''UnexpectedException'' [debug_str exception_type]"
| "debug_kernel_failure (UnknownEffect reason) = debug_tuple ''UnknownEffect'' [debug_str reason]"
| "debug_kernel_failure NoEffects = ''NoEffects''"

fun judge_frontend_result ::
  "FrontendResult \<Rightarrow> string list \<Rightarrow> SourceLanguage \<Rightarrow> 'toolchain \<Rightarrow>
     (TypeScriptFailure, 'toolchain TypeScriptVerification) result" where
  "judge_frontend_result (Refused code message line column) requested_symbols language toolchain =
     Err \<lparr>ts_code = code, ts_message = message, ts_line = line, ts_column = column\<rparr>"
| "judge_frontend_result (Proved schema compiler_version functions classes) requested_symbols language toolchain =
     (if compiler_version \<noteq> typescript_version \<or> schema \<noteq> language_schema language \<or> functions = []
      then protocol_failure language
             ''compiler frontend returned an unsupported version, schema, or empty proof''
      else res_bind (validate_outcome_graphs functions classes requested_symbols language) (\<lambda>effects.
        case check_exit_effects effects [] of
          Err error \<Rightarrow>
            Err (unlocated_failure (language_code language ''kernel-rejected'')
              (''kernel rejected compiler-derived effects: '' @ debug_kernel_failure error))
        | Ok _ \<Rightarrow>
            Ok \<lparr>ver_schema = schema, ver_compiler = compiler_version, ver_functions = functions,
                ver_classes = classes, ver_toolchain = toolchain\<rparr>))"

definition relabel_failure :: "TypeScriptFailure \<Rightarrow> SourceLanguage \<Rightarrow> TypeScriptFailure" where
  "relabel_failure failure language =
     (case strip_prefix ''frontend.typescript.'' (ts_code failure) of
        None \<Rightarrow> failure
      | Some suffix \<Rightarrow> failure\<lparr>ts_code := language_code language suffix\<rparr>)"

section \<open>Interfaces of verified functions\<close>

record VerifiedLeafParameter =
  leaf_name :: string
  leaf_type :: string

record VerifiedLeafInterface =
  leaf_symbol :: string
  leaf_execution :: string
  leaf_parameters :: "VerifiedLeafParameter list"
  leaf_return_type :: string

definition leaf_parameter :: "TypeScriptParameter \<Rightarrow> VerifiedLeafParameter option" where
  "leaf_parameter parameter =
     (case descriptor parameter of
        TypeScriptParameterDescriptor.Primitive type_name \<Rightarrow>
          Some \<lparr>leaf_name = parameter_name parameter, leaf_type = type_name\<rparr>
      | _ \<Rightarrow> None)"

text \<open>\<open>collect::<Option<Vec<_>>>()\<close>\<close>

fun collect_options :: "'a option list \<Rightarrow> 'a list option" where
  "collect_options [] = Some []"
| "collect_options (None # options) = None"
| "collect_options (Some x # options) = map_option ((#) x) (collect_options options)"

definition verified_leaf_interface ::
  "'toolchain TypeScriptVerification \<Rightarrow> string \<Rightarrow> VerifiedLeafInterface option" where
  "verified_leaf_interface verification symbol =
     Option.bind (List.find (\<lambda>candidate. fun_name candidate = symbol) (ver_functions verification)) (\<lambda>f.
     if execution f \<noteq> Synchronous \<or> \<not> primitive_type_name (fun_return_type f) then None
     else Option.bind (collect_options (map leaf_parameter (fun_parameters f))) (\<lambda>parameters.
       Some \<lparr>leaf_symbol = symbol, leaf_execution = ''synchronous'', leaf_parameters = parameters,
             leaf_return_type = fun_return_type f\<rparr>))"

definition verified_leaf_interfaces ::
  "'toolchain TypeScriptVerification \<Rightarrow> string list \<Rightarrow> VerifiedLeafInterface list" where
  "verified_leaf_interfaces verification requested_symbols =
     List.map_filter (verified_leaf_interface verification) requested_symbols"

section \<open>Verified modules\<close>

text \<open>The functions of a module by name.\<close>

definition module_definitions :: "TypeScriptFunction list \<Rightarrow> definitions" where
  "module_definitions functions = btree_of_list (map (\<lambda>f. (fun_name f, f)) functions)"

lemma define_functions_map:
  "define_functions defs fs language = Inr defs' \<Longrightarrow>
     defs' = foldl (\<lambda>m (k, v). fmupd k v m) defs (map (\<lambda>f. (fun_name f, f)) fs)"
  by (induction defs fs language rule: define_functions.induct)
    (auto simp: define_function_def split: if_splits)

lemma define_functions_kept:
  "define_functions defs fs language = Inr defs' \<Longrightarrow> fmlookup defs n = Some g \<Longrightarrow> fmlookup defs' n = Some g"
proof (induction defs fs language rule: define_functions.induct)
  case (2 defs f rest language)
  then have "fun_name f \<noteq> n" by (auto simp: define_function_def split: if_splits)
  with 2 show ?case by (auto simp: define_function_def split: if_splits)
qed simp

lemma define_functions_lookup:
  "define_functions defs fs language = Inr defs' \<Longrightarrow> f \<in> set fs \<Longrightarrow> fmlookup defs' (fun_name f) = Some f"
  by (induction defs fs language rule: define_functions.induct)
    (auto simp: define_function_def split: if_splits intro: define_functions_kept)

lemma define_functions_known:
  "define_functions defs fs language = Inr defs' \<Longrightarrow> fmlookup defs' n = Some f \<Longrightarrow>
     fmlookup defs n = Some f \<or> (f \<in> set fs \<and> fun_name f = n)"
  by (induction defs fs language rule: define_functions.induct) (auto simp: define_function_def split: if_splits)

definition normal_exit :: "TypeScriptFunction \<Rightarrow> LocatedExit" where
  "normal_exit f =
     (if execution f = Synchronous then LocatedExit.Return (fun_return_type f) else Fulfill (fun_return_type f))"

lemma root_effects_returns:
  "root_effects root effects exits language = Inr effects' \<Longrightarrow> list_all (boundary_exit f) exits \<Longrightarrow>
     set exits \<subseteq> {normal_exit f} \<and>
     effects' = effects @ map ExitEffect.Return (map (\<lambda>_. fun_return_type f) exits)"
  by (induction root effects exits language rule: root_effects.induct)
    (auto simp: boundary_exit_def normal_exit_def)

text \<open>What a verified root does.\<close>

definition total_function :: "definitions \<Rightarrow> TypeScriptFunction \<Rightarrow> bool" where
  "total_function defs f \<longleftrightarrow>
     (\<forall>e. function_outcome defs (fun_name f) fmempty e \<longleftrightarrow> e = normal_exit f) \<and>
     calls_end defs (fun_name f, fmempty)"

lemma evaluated_roots_total:
  assumes "evaluate_roots roots members defs cache effects language = Inr effects'" "sound_cache defs cache"
    "\<And>n f. fmlookup defs n = Some f \<Longrightarrow> fun_name f = n"
  shows "(\<forall>root \<in> set roots. \<exists>f. fmlookup defs root = Some f \<and> total_function defs f) \<and>
    (\<exists>types. effects' = effects @ map ExitEffect.Return types \<and> (roots \<noteq> [] \<longrightarrow> types \<noteq> []))"
  using assms
proof (induction roots members defs cache effects language rule: evaluate_roots.induct)
  case (2 root roots members defs cache effects language)
  from "2.prems"(1) obtain f exits cache' effects1 where parts: "root \<notin> members"
      "fmlookup defs root = Some f" "\<not> list_ex private_boundary (fun_parameters f)"
      "evaluate_function root fmempty defs cache {} language = Inr (exits, cache')"
      "root_effects root effects exits language = Inr effects1"
      "evaluate_roots roots members defs cache' effects1 language = Inr effects'"
    by (auto split: if_splits)
  from evaluation_exact(1) [OF "2.prems"(2) parts(4)]
  have settled: "settled defs root fmempty exits" and cache': "sound_cache defs cache'" by simp_all
  then have exits: "list_all (boundary_exit f) exits" "exits \<noteq> []" using parts(2) by (auto simp: settled_def)
  note effects = root_effects_returns [OF parts(5) exits(1)]
  have "set exits = {normal_exit f}" using effects exits(2) by (cases exits) auto
  then have "total_function defs f"
    using settled "2.prems"(3) [OF parts(2)] by (auto simp: total_function_def settled_def exact_def)
  moreover from "2.IH" [OF parts(1) _ parts(3,4) refl parts(5,6) cache' "2.prems"(3)] parts(2) obtain types where
      rest: "\<forall>root \<in> set roots. \<exists>f. fmlookup defs root = Some f \<and> total_function defs f"
      "effects' = effects1 @ map ExitEffect.Return types"
    by auto
  moreover have "effects' = effects @ map ExitEffect.Return (map (\<lambda>_. fun_return_type f) exits @ types)"
    using effects rest(2) by (simp only: append_assoc map_append)
  moreover have "map (\<lambda>_. fun_return_type f) exits @ types \<noteq> []" using exits(2) by simp
  ultimately show ?case using parts(2) by (metis set_ConsD)
qed auto

end
