(* ===== verification/TypeScript_Properties.thy ===== *)
theory TypeScript_Properties
  imports TypeScript_Module
begin

text \<open>
  What the verification of a TypeScript module establishes: the evaluation is exact, recursion is
  refused, and a verified function always ends, returning a value of its declared type. The
  interfaces handed to other languages describe such functions only.
\<close>

section \<open>A sample module\<close>

definition sample_function :: "string \<Rightarrow> string list \<Rightarrow> TypeScriptOutcomeGraph \<Rightarrow> TypeScriptFunction" where
  "sample_function name calls graph =
     \<lparr>fun_name = name, exported = True, execution = Synchronous, fun_parameters = [], fun_return_type = ''number'',
      fun_calls = calls, outcome_graph = graph\<rparr>"

text \<open>\<open>parse\<close> may throw; \<open>safe\<close> calls it in a \<open>try\<close> and returns in any case.\<close>

definition sample_module :: "TypeScriptFunction list" where
  "sample_module =
     [sample_function ''parse'' []
        (Branch [TypeScriptOutcomeGraph.Return ''number'', TypeScriptOutcomeGraph.Raise ''ecmascript.throw.string'' 3 5]),
      sample_function ''safe'' [''parse'']
        (TryCatch (Sequence [Call ''parse'' [] 7 9, TypeScriptOutcomeGraph.Return ''number''])
          (TypeScriptOutcomeGraph.Return ''number''))]"

lemmas sample_defs = sample_module_def sample_function_def module_definitions_def btree_of_list_def

lemmas evaluation_defs = incomplete_provenance_def expected_callback_parameters_def normalize_exit_def
  normalize_return_def async_boundary_def callback_bindings_for_call_def source_location_def call_exit_def
  sequence_exits_def catch_exits_def is_raise_def push_unique_exit_def push_all_def evaluation_key_def

lemma entries_of_empty:
  assumes "m = fmempty"
  shows "sorted_list_of_fmap m = []"
proof (rule ccontr)
  assume "sorted_list_of_fmap m \<noteq> []"
  then obtain k v where "(k, v) \<in> set (sorted_list_of_fmap m)" by (metis list.set_sel(1) prod.collapse)
  with assms show False by (simp add: set_sorted_list_of_fmap)
qed

lemma no_bindings [simp]: "sorted_list_of_fmap fmempty = []"
  by (rule entries_of_empty) (rule refl)

lemma sample_evaluated:
  "evaluate_function ''safe'' fmempty (module_definitions sample_module) fmempty {} TypeScript =
     Ok ([LocatedExit.Return ''number''],
       fmupd (''safe'', []) [LocatedExit.Return ''number'']
         (fmupd (''parse'', [])
           [LocatedExit.Return ''number'', LocatedExit.Raise ''ecmascript.throw.string'' 3 5] fmempty))"
  by (simp add: sample_defs evaluation_defs or_protocol_failure_def)

lemma sample_validated:
  "validate_outcome_graphs sample_module [] [''safe''] TypeScript = Ok [ExitEffect.Return ''number'']"
proof -
  have known: "define_functions fmempty sample_module TypeScript = Ok (module_definitions sample_module)"
    by (simp add: sample_defs define_function_def primitive_type_name_def call_names_def map_filter_simps)
  have shapes: "check_shapes sample_module (module_definitions sample_module) TypeScript = Ok ()"
    by (simp add: sample_defs validate_graph_shape_def validate_call_node_def validate_call_arguments_def or_protocol_failure_def)
  have owned: "check_ownership {} sample_module TypeScript = Ok ()"
    by (simp add: sample_defs)
  have found: "fmlookup (module_definitions sample_module) ''safe'' = Some (sample_module ! 1)"
    by (simp add: sample_defs)
  show ?thesis
    unfolding validate_outcome_graphs_def
    by (simp add: known shapes owned verification_roots_def found or_protocol_failure_def sample_evaluated
        del: evaluate_function.simps)
      (simp add: sample_defs)
qed

section \<open>Evaluation\<close>

text \<open>
  Property C9. When the evaluation of a function returns, its exits are exactly the
  outcomes the big-step rules give the function, each once, and no chain of calls from the function
  is endless: it misses no way the function can end and invents none.
\<close>

theorem evaluation_is_exact:
  assumes "evaluate_function name b defs fmempty {} language = Ok (exits, cache)"
  shows "(\<forall>e. e \<in> set exits \<longleftrightarrow> function_outcome defs name b e) \<and> distinct exits \<and> exits \<noteq> [] \<and>
    calls_end defs (name, b)"
  using evaluation_exact(1) [OF sound_cache_empty assms] by (simp add: settled_def exact_def)

theorem evaluation_is_exact_witness:
  "function_outcome (module_definitions sample_module) ''safe'' fmempty (LocatedExit.Return ''number'') \<and>
   \<not> function_outcome (module_definitions sample_module) ''safe'' fmempty
       (LocatedExit.Raise ''ecmascript.throw.string'' 7 9)"
  using evaluation_is_exact [OF sample_evaluated] by auto

section \<open>Recursion\<close>

lemma no_endless_chain:
  "calls_end defs caller \<Longrightarrow> chain (0 :: nat) = caller \<Longrightarrow> \<exists>i. \<not> called_by defs (chain (Suc i)) (chain i)"
  unfolding calls_end_def
proof (induction caller arbitrary: chain rule: accp.induct)
  case (accI caller)
  show ?case
  proof (cases "called_by defs (chain (Suc 0)) (chain 0)")
    case True
    then have "\<exists>i. \<not> called_by defs (chain (Suc (Suc i))) (chain (Suc i))"
      using accI.IH [of "chain (Suc 0)" "\<lambda>i. chain (Suc i)"] accI.prems by simp
    then show ?thesis by blast
  qed blast
qed

text \<open>
  Property C10. A function from which some chain of calls never ends, directly, through
  other functions or through callbacks, is refused: its evaluation ends with a failure.
\<close>

theorem recursion_is_refused:
  assumes "chain (0 :: nat) = (name, b)" "\<And>i. called_by defs (chain (Suc i)) (chain i)"
  shows "\<exists>failure. evaluate_function name b defs fmempty {} language = Err failure"
proof (cases "evaluate_function name b defs fmempty {} language")
  case (Inr result)
  then obtain exits cache where "evaluate_function name b defs fmempty {} language = Ok (exits, cache)"
    by (cases result) simp
  from evaluation_exact(1) [OF sound_cache_empty this] have "calls_end defs (name, b)" by (simp add: settled_def)
  with no_endless_chain assms show ?thesis by blast
qed simp

text \<open>\<open>ping\<close> and \<open>pong\<close> call each other.\<close>

definition ping_pong :: "TypeScriptFunction list" where
  "ping_pong =
     [sample_function ''ping'' [''pong'']
        (Sequence [Call ''pong'' [] 2 3, TypeScriptOutcomeGraph.Return ''number'']),
      sample_function ''pong'' [''ping'']
        (Sequence [Call ''ping'' [] 5 3, TypeScriptOutcomeGraph.Return ''number''])]"

theorem recursion_is_refused_witness:
  "\<exists>failure. evaluate_function ''ping'' fmempty (module_definitions ping_pong) fmempty {} TypeScript = Err failure"
proof (rule recursion_is_refused [where chain = "\<lambda>i. (if even i then ''ping'' else ''pong'', fmempty)"])
  fix i :: nat
  show "called_by (module_definitions ping_pong) (if even (Suc i) then ''ping'' else ''pong'', fmempty)
      (if even i then ''ping'' else ''pong'', fmempty)"
    by (simp add: called_by_def ping_pong_def sample_function_def module_definitions_def btree_of_list_def
        call_bindings_def map_filter_simps conj_disj_distribR ex_disj_distrib)
qed simp

section \<open>Verified modules\<close>

lemma evaluated_module:
  assumes "validate_outcome_graphs fs classes requested language = Ok effects"
  shows "define_functions fmempty fs language = Ok (module_definitions fs)"
    and "\<exists>members. check_ownership members fs language = Ok () \<and>
      evaluate_roots (verification_roots fs members requested) members (module_definitions fs) fmempty [] language = Ok effects"
proof -
  from assms obtain defs members where parts: "define_functions fmempty fs language = Ok defs"
      "check_ownership members fs language = Ok ()"
      "evaluate_roots (verification_roots fs members requested) members defs fmempty [] language = Ok effects"
    by (auto simp: validate_outcome_graphs_def)
  moreover have "defs = module_definitions fs"
    using define_functions_map [OF parts(1)] by (simp add: module_definitions_def btree_of_list_def)
  ultimately show "define_functions fmempty fs language = Ok (module_definitions fs)"
    and "\<exists>members. check_ownership members fs language = Ok () \<and>
      evaluate_roots (verification_roots fs members requested) members (module_definitions fs) fmempty [] language = Ok effects"
    by auto
qed

lemma module_function:
  assumes "validate_outcome_graphs fs classes requested language = Ok effects"
    "fmlookup (module_definitions fs) n = Some f"
  shows "f \<in> set fs" "fun_name f = n"
  using define_functions_known [OF evaluated_module(1) [OF assms(1)] assms(2)] by simp_all

lemma owned_members: "check_ownership members fs language = Ok () \<Longrightarrow> f \<in> set fs \<Longrightarrow> CHR ''.'' \<in> set (fun_name f) \<longleftrightarrow> fun_name f \<in> members"
  by (induction members fs language rule: check_ownership.induct) (auto split: if_splits)

text \<open>The roots of a module: the requested functions, or all that are not members of a class.\<close>

definition module_roots :: "TypeScriptFunction list \<Rightarrow> string list \<Rightarrow> string list" where
  "module_roots fs requested =
     (if requested = [] then map fun_name (filter (\<lambda>f. CHR ''.'' \<notin> set (fun_name f)) fs) else requested)"

lemma verified_module:
  assumes "validate_outcome_graphs fs classes requested language = Ok effects"
  shows "\<forall>root \<in> set (module_roots fs requested). \<exists>f \<in> set fs. fun_name f = root \<and> total_function (module_definitions fs) f"
    and "\<exists>types. effects = map ExitEffect.Return types \<and> (module_roots fs requested \<noteq> [] \<longrightarrow> types \<noteq> [])"
proof -
  obtain members where m: "check_ownership members fs language = Ok ()"
      "evaluate_roots (verification_roots fs members requested) members (module_definitions fs) fmempty [] language =
        Ok effects"
    using evaluated_module(2) [OF assms] by auto
  have "filter (\<lambda>f. fun_name f \<notin> members) fs = filter (\<lambda>f. CHR ''.'' \<notin> set (fun_name f)) fs"
    by (rule filter_cong [OF refl]) (simp add: owned_members [OF m(1)])
  then have roots: "verification_roots fs members requested = module_roots fs requested"
    by (simp add: verification_roots_def module_roots_def)
  note total = evaluated_roots_total [OF m(2) sound_cache_empty module_function(2) [OF assms], unfolded roots]
  show "\<forall>root \<in> set (module_roots fs requested). \<exists>f \<in> set fs. fun_name f = root \<and> total_function (module_definitions fs) f"
    using total module_function [OF assms] by meson
  show "\<exists>types. effects = map ExitEffect.Return types \<and> (module_roots fs requested \<noteq> [] \<longrightarrow> types \<noteq> [])"
    using total by simp
qed

text \<open>
  Property C8. In a module that passes, every requested function, or every
  function that is not a member of a class when none is requested, is total: each of its executions
  returns (an asynchronous one fulfills) with the declared type, some execution does, and no chain
  of calls from it is endless. No exception or rejection escapes it.
\<close>

theorem verified_functions_are_total:
  assumes "validate_outcome_graphs fs classes requested language = Ok effects"
    and "root \<in> set (module_roots fs requested)"
  shows "\<exists>f \<in> set fs. fun_name f = root \<and>
    (\<forall>e. function_outcome (module_definitions fs) root fmempty e \<longleftrightarrow>
       e = (if execution f = Synchronous then LocatedExit.Return (fun_return_type f) else Fulfill (fun_return_type f))) \<and>
    calls_end (module_definitions fs) (root, fmempty)"
  using bspec [OF verified_module(1) [OF assms(1)] assms(2)] by (auto simp: total_function_def normal_exit_def)

theorem verified_functions_are_total_witness:
  "function_outcome (module_definitions sample_module) ''safe'' fmempty (LocatedExit.Return ''number'') \<and>
   calls_end (module_definitions sample_module) (''safe'', fmempty)"
proof -
  have "''safe'' \<in> set (module_roots sample_module [''safe''])" by (simp add: module_roots_def)
  from verified_functions_are_total [OF sample_validated this] show ?thesis
    by (auto simp: sample_module_def sample_function_def)
qed

section \<open>Interfaces of verified functions\<close>

lemma unique_names:
  assumes "validate_outcome_graphs fs classes requested language = Ok effects"
    "f \<in> set fs" "g \<in> set fs" "fun_name f = fun_name g"
  shows "f = g"
  using define_functions_lookup [OF evaluated_module(1) [OF assms(1)]] assms(2-4) by (metis option.inject)

lemma set_map_filter: "y \<in> set (List.map_filter g xs) \<longleftrightarrow> (\<exists>x \<in> set xs. g x = Some y)"
  by (induction xs) (auto simp: map_filter_simps split: option.splits)

lemma collect_options_leaf:
  "collect_options (map leaf_parameter ps) = Some qs \<Longrightarrow>
     list_all2 (\<lambda>p q. parameter_name p = leaf_name q \<and>
       descriptor p = TypeScriptParameterDescriptor.Primitive (leaf_type q)) ps qs"
proof (induction ps arbitrary: qs)
  case (Cons p ps)
  then show ?case
    by (cases "leaf_parameter p")
      (auto simp: leaf_parameter_def split: TypeScriptParameterDescriptor.splits)
qed simp

lemma leaf_interface_of:
  assumes "verified_leaf_interface v symbol = Some leaf"
  obtains f where "f \<in> set (ver_functions v)" "fun_name f = symbol" "execution f = Synchronous"
    "primitive_type_name (fun_return_type f)" "leaf_symbol leaf = symbol" "leaf_return_type leaf = fun_return_type f"
    "list_all2 (\<lambda>p q. parameter_name p = leaf_name q \<and>
       descriptor p = TypeScriptParameterDescriptor.Primitive (leaf_type q)) (fun_parameters f) (leaf_parameters leaf)"
proof -
  from assms obtain f where "List.find (\<lambda>candidate. fun_name candidate = symbol) (ver_functions v) = Some f"
      "execution f = Synchronous" "primitive_type_name (fun_return_type f)"
      "leaf_symbol leaf = symbol" "leaf_return_type leaf = fun_return_type f"
      "collect_options (map leaf_parameter (fun_parameters f)) = Some (leaf_parameters leaf)"
    by (auto simp: verified_leaf_interface_def bind_eq_Some_conv split: if_splits)
  moreover from this(1) have "f \<in> set (ver_functions v)" "fun_name f = symbol" by (auto simp: find_Some_iff)
  ultimately show thesis using that collect_options_leaf by simp
qed

lemma judged_module:
  assumes "judge_frontend_result answer requested language tool = Ok v"
  obtains effects where "validate_outcome_graphs (ver_functions v) (ver_classes v) requested language = Ok effects"
proof (cases answer)
  case (Proved schema version fs classes)
  with assms obtain effects where valid: "validate_outcome_graphs fs classes requested language = Ok effects"
    by (auto split: if_splits)
  with assms Proved have "ver_functions v = fs \<and> ver_classes v = classes"
    by (cases "check_exit_effects effects []") (auto split: if_splits)
  with valid that show thesis by simp
qed (use assms in simp)

text \<open>
  Property C11. An interface published for a requested function of an accepted
  module describes a synchronous function of the module, parameter by parameter, with primitive
  types; every execution of the function returns a value of the interface's type.
\<close>

theorem leaf_interfaces_are_total:
  assumes "judge_frontend_result answer requested language tool = Ok v"
    and "leaf \<in> set (verified_leaf_interfaces v requested)"
  shows "\<exists>f \<in> set (ver_functions v). fun_name f = leaf_symbol leaf \<and> primitive_type_name (leaf_return_type leaf) \<and>
    list_all2 (\<lambda>p q. parameter_name p = leaf_name q \<and>
      descriptor p = TypeScriptParameterDescriptor.Primitive (leaf_type q)) (fun_parameters f) (leaf_parameters leaf) \<and>
    (\<forall>e. function_outcome (module_definitions (ver_functions v)) (leaf_symbol leaf) fmempty e \<longleftrightarrow>
       e = LocatedExit.Return (leaf_return_type leaf))"
proof -
  obtain symbol where symbol: "symbol \<in> set requested" "verified_leaf_interface v symbol = Some leaf"
    using assms(2) by (auto simp: verified_leaf_interfaces_def set_map_filter)
  obtain effects where valid: "validate_outcome_graphs (ver_functions v) (ver_classes v) requested language = Ok effects"
    by (rule judged_module [OF assms(1)])
  obtain f where f: "f \<in> set (ver_functions v)" "fun_name f = symbol" "execution f = Synchronous"
      "primitive_type_name (fun_return_type f)" "leaf_symbol leaf = symbol" "leaf_return_type leaf = fun_return_type f"
      "list_all2 (\<lambda>p q. parameter_name p = leaf_name q \<and>
         descriptor p = TypeScriptParameterDescriptor.Primitive (leaf_type q)) (fun_parameters f) (leaf_parameters leaf)"
    by (rule leaf_interface_of [OF symbol(2)])
  have "symbol \<in> set (module_roots (ver_functions v) requested)"
    using symbol(1) by (auto simp: module_roots_def)
  with verified_module(1) [OF valid] obtain g where "g \<in> set (ver_functions v)" "fun_name g = symbol"
      "total_function (module_definitions (ver_functions v)) g" by blast
  moreover from this have "g = f" using unique_names [OF valid] f(1,2) by simp
  ultimately show ?thesis using f by (auto simp: total_function_def normal_exit_def)
qed

definition sample_answer :: FrontendResult where
  "sample_answer = Proved (language_schema TypeScript) typescript_version sample_module []"

theorem leaf_interfaces_are_total_witness:
  "function_outcome (module_definitions sample_module) ''safe'' fmempty (LocatedExit.Return ''number'') \<and>
   \<not> function_outcome (module_definitions sample_module) ''safe'' fmempty (LocatedExit.Return ''string'')"
proof -
  let ?v = "\<lparr>ver_schema = language_schema TypeScript, ver_compiler = typescript_version,
      ver_functions = sample_module, ver_classes = [], ver_toolchain = ()\<rparr>"
  let ?leaf = "\<lparr>leaf_symbol = ''safe'', leaf_execution = ''synchronous'', leaf_parameters = [],
      leaf_return_type = ''number''\<rparr>"
  have "sample_module \<noteq> []" by (simp add: sample_module_def)
  then have "judge_frontend_result sample_answer [''safe''] TypeScript () = Ok ?v"
    by (simp add: sample_answer_def sample_validated check_exit_effects_def)
  moreover have "?leaf \<in> set (verified_leaf_interfaces ?v [''safe''])"
    by (simp add: verified_leaf_interfaces_def verified_leaf_interface_def map_filter_simps sample_module_def
        sample_function_def primitive_type_name_def)
  ultimately show ?thesis using leaf_interfaces_are_total by fastforce
qed

end
