(* ===== verification/Persistent_Values.thy ===== *)
theory Persistent_Values
  imports Obligation_Module
begin

text \<open>
  The values of the persistent-collection frontend (\<^verbatim>\<open>src/src/python_persistent_collections.rs\<close>):
  flat elements, lists of them with the kind they share, and the collections built from such lists.
  Sets and multisets are lists whose order does not matter. Integers are \<open>i128\<close> values that are only
  stored and compared.
\<close>

section \<open>Values\<close>

datatype ElementKind =
    Int
  | Boolean
  | Object string

datatype SequenceFlavor = PythonList | Persistent | UnorderedProjection

datatype PersistentAlgebraError = ElementKindMismatch | EqualityOperandsUnsupported

datatype ElementValue =
    Int int
  | Boolean bool
  | Object string "64 word"

record Elements =
  common_kind :: "ElementKind option"
  element_values :: "ElementValue list"

datatype PersistentValue =
    Int int
  | Bool bool
  | Unit
  | Object string "64 word"
  | Sequence SequenceFlavor Elements
  | PythonSet Elements
  | PersistentSet Elements
  | Multiset Elements
  | Dictionary Elements Elements

definition persistent_failure :: "string \<Rightarrow> string \<Rightarrow> (ContractFailure, 'a) result" where
  "persistent_failure code message = Err \<lparr>failure_code = code, failure_message = message\<rparr>"

lemma persistent_failure_not_Ok [simp]: "persistent_failure code message \<noteq> Inr x"
  by (simp add: persistent_failure_def)

section \<open>Elements\<close>

definition element_from_value :: "PersistentValue \<Rightarrow> (ContractFailure, ElementValue) result" where
  "element_from_value v =
     (case v of
        PersistentValue.Int i \<Rightarrow> Ok (ElementValue.Int i)
      | PersistentValue.Bool b \<Rightarrow> Ok (ElementValue.Boolean b)
      | PersistentValue.Object c i \<Rightarrow> Ok (ElementValue.Object c i)
      | _ \<Rightarrow> persistent_failure ''frontend.python.persistent.nested-element-unsupported''
               ''persistent collections require flat int, bool, or pass-only source-object elements'')"

fun into_value :: "ElementValue \<Rightarrow> PersistentValue" where
  "into_value (ElementValue.Int i) = PersistentValue.Int i"
| "into_value (ElementValue.Boolean b) = PersistentValue.Bool b"
| "into_value (ElementValue.Object c i) = PersistentValue.Object c i"

lemma element_from_value_Ok [simp]: "element_from_value v = Inr e \<longleftrightarrow> v = into_value e"
  by (cases v; cases e) (auto simp: element_from_value_def)

fun element_kind :: "ElementValue \<Rightarrow> ElementKind" where
  "element_kind (ElementValue.Int _) = ElementKind.Int"
| "element_kind (ElementValue.Boolean _) = ElementKind.Boolean"
| "element_kind (ElementValue.Object c _) = ElementKind.Object c"

fun debug_kind :: "ElementKind \<Rightarrow> string" where
  "debug_kind ElementKind.Int = ''Int''"
| "debug_kind ElementKind.Boolean = ''Boolean''"
| "debug_kind (ElementKind.Object c) = debug_tuple ''Object'' [debug_str c]"

definition debug_optional_kind :: "ElementKind option \<Rightarrow> string" where
  "debug_optional_kind kind = (case kind of None \<Rightarrow> ''None'' | Some k \<Rightarrow> debug_tuple ''Some'' [debug_kind k])"

definition require_element_kind :: "ElementValue \<Rightarrow> ElementKind option \<Rightarrow> (ContractFailure, unit) result" where
  "require_element_kind element expected =
     (if (case expected of None \<Rightarrow> True | Some k \<Rightarrow> k = element_kind element) then Ok ()
      else persistent_failure ''frontend.python.persistent.heterogeneous-elements''
        (''persistent collection element kind '' @ debug_kind (element_kind element) @ '' differs from '' @
         debug_optional_kind expected))"

fun require_each_kind :: "ElementValue list \<Rightarrow> ElementKind option \<Rightarrow> (ContractFailure, unit) result" where
  "require_each_kind [] expected = Ok ()"
| "require_each_kind (element # elements) expected =
     res_bind (require_element_kind element expected) (\<lambda>_. require_each_kind elements expected)"

fun elements_from_values :: "PersistentValue list \<Rightarrow> (ContractFailure, ElementValue list) result" where
  "elements_from_values [] = Ok []"
| "elements_from_values (v # vs) =
     res_bind (element_from_value v) (\<lambda>e. res_bind (elements_from_values vs) (\<lambda>es. Ok (e # es)))"

definition new_elements :: "PersistentValue list \<Rightarrow> (ContractFailure, Elements) result" where
  "new_elements vs =
     res_bind (elements_from_values vs) (\<lambda>elements.
       (let kind = (case elements of [] \<Rightarrow> None | first # _ \<Rightarrow> Some (element_kind first))
        in res_bind (require_each_kind (drop 1 elements) kind) (\<lambda>_.
           Ok \<lparr>common_kind = kind, element_values = elements\<rparr>)))"

section \<open>The algebra\<close>

fun into_contract_failure :: "PersistentAlgebraError \<Rightarrow> ContractFailure" where
  "into_contract_failure ElementKindMismatch =
     \<lparr>failure_code = ''frontend.python.persistent.element-kind-mismatch'',
      failure_message = ''persistent collection element kinds differ''\<rparr>"
| "into_contract_failure EqualityOperandsUnsupported =
     \<lparr>failure_code = ''frontend.python.persistent.equality-operands-unsupported'',
      failure_message = ''persistent equality requires operands with the same supported runtime kind''\<rparr>"

definition or_contract_failure :: "(PersistentAlgebraError, 'a) result \<Rightarrow> (ContractFailure, 'a) result" where
  "or_contract_failure r = (case r of Err e \<Rightarrow> Err (into_contract_failure e) | Ok x \<Rightarrow> Ok x)"

lemma or_contract_failure_Ok [simp]: "or_contract_failure r = Inr x \<longleftrightarrow> r = Inr x"
  by (auto simp: or_contract_failure_def split: sum.splits)

fun require_compatible_kinds_typed ::
  "ElementKind option \<Rightarrow> ElementKind option \<Rightarrow> (PersistentAlgebraError, unit) result" where
  "require_compatible_kinds_typed (Some ElementKind.Int) (Some ElementKind.Int) = Ok ()"
| "require_compatible_kinds_typed (Some ElementKind.Boolean) (Some ElementKind.Boolean) = Ok ()"
| "require_compatible_kinds_typed (Some (ElementKind.Object l)) (Some (ElementKind.Object r)) =
     (if l = r then Ok () else Err ElementKindMismatch)"
| "require_compatible_kinds_typed (Some _) (Some _) = Err ElementKindMismatch"
| "require_compatible_kinds_typed _ _ = Ok ()"

lemma compatible_kinds_Ok:
  "require_compatible_kinds_typed l r = Inr () \<longleftrightarrow> l = None \<or> r = None \<or> l = r"
  by (induction l r rule: require_compatible_kinds_typed.induct) auto

definition require_compatible_kinds ::
  "ElementKind option \<Rightarrow> ElementKind option \<Rightarrow> (ContractFailure, unit) result" where
  "require_compatible_kinds l r = or_contract_failure (require_compatible_kinds_typed l r)"

definition either_kind :: "ElementKind option \<Rightarrow> ElementKind option \<Rightarrow> ElementKind option" where
  "either_kind l r = (case l of None \<Rightarrow> r | Some k \<Rightarrow> Some k)"

definition concatenate_typed :: "Elements \<Rightarrow> Elements \<Rightarrow> (PersistentAlgebraError, Elements) result" where
  "concatenate_typed l r =
     res_bind (require_compatible_kinds_typed (common_kind l) (common_kind r)) (\<lambda>_.
     Ok \<lparr>common_kind = either_kind (common_kind l) (common_kind r),
         element_values = element_values l @ element_values r\<rparr>)"

definition concatenate_elements :: "Elements \<Rightarrow> Elements \<Rightarrow> (ContractFailure, Elements) result" where
  "concatenate_elements l r = or_contract_failure (concatenate_typed l r)"

definition unique_elements :: "Elements \<Rightarrow> Elements" where
  "unique_elements elements =
     elements\<lparr>element_values :=
       foldl (\<lambda>unique e. if e \<in> set unique then unique else unique @ [e]) [] (element_values elements)\<rparr>"

text \<open>\<open>position\<close> and \<open>remove\<close>: the list without its first occurrence of the element, if it has one.\<close>

fun remove_first :: "'a \<Rightarrow> 'a list \<Rightarrow> 'a list option" where
  "remove_first x [] = None"
| "remove_first x (y # ys) = (if y = x then Some ys else map_option ((#) y) (remove_first x ys))"

definition set_difference :: "Elements \<Rightarrow> Elements \<Rightarrow> (ContractFailure, Elements) result" where
  "set_difference l r =
     res_bind (require_compatible_kinds (common_kind l) (common_kind r)) (\<lambda>_.
     Ok \<lparr>common_kind = either_kind (common_kind l) (common_kind r),
         element_values = filter (\<lambda>e. e \<notin> set (element_values r)) (element_values l)\<rparr>)"

definition multiset_difference :: "Elements \<Rightarrow> Elements \<Rightarrow> (ContractFailure, Elements) result" where
  "multiset_difference l r =
     res_bind (require_compatible_kinds (common_kind l) (common_kind r)) (\<lambda>_.
     Ok \<lparr>common_kind = either_kind (common_kind l) (common_kind r),
         element_values =
           foldl (\<lambda>remaining e. case remove_first e remaining of None \<Rightarrow> remaining | Some rest \<Rightarrow> rest)
             (element_values l) (element_values r)\<rparr>)"

section \<open>Comparisons\<close>

definition collection_elements :: "PersistentValue \<Rightarrow> Elements option" where
  "collection_elements v =
     (case v of Sequence _ elements \<Rightarrow> Some elements | PythonSet elements \<Rightarrow> Some elements
      | PersistentSet elements \<Rightarrow> Some elements | _ \<Rightarrow> None)"

definition collection_contains :: "PersistentValue \<Rightarrow> PersistentValue \<Rightarrow> (ContractFailure, bool) result" where
  "collection_contains collection needle =
     (case collection_elements collection of
        None \<Rightarrow> persistent_failure ''frontend.python.persistent.membership-receiver-unsupported''
                 ''membership requires a sequence or set''
      | Some elements \<Rightarrow>
          res_bind (element_from_value needle) (\<lambda>needle.
          res_bind (require_element_kind needle (common_kind elements)) (\<lambda>_.
          Ok (needle \<in> set (element_values elements)))))"

text \<open>The greedy matching of two multisets.\<close>

definition multisets_match :: "ElementValue list \<Rightarrow> ElementValue list \<Rightarrow> bool" where
  "multisets_match l r =
     (let (unmatched, matched) =
        foldl (\<lambda>(unmatched, matched) e.
          if matched then (case remove_first e unmatched of
              Some rest \<Rightarrow> (rest, True) | None \<Rightarrow> (unmatched, False))
          else (unmatched, matched)) (r, True) l
      in matched \<and> unmatched = [])"

definition comparable_equal_typed :: "PersistentValue \<Rightarrow> PersistentValue \<Rightarrow> (PersistentAlgebraError, bool) result" where
  "comparable_equal_typed l r =
     (case (l, r) of
        (PersistentValue.Int l, PersistentValue.Int r) \<Rightarrow> Ok (l = r)
      | (PersistentValue.Bool l, PersistentValue.Bool r) \<Rightarrow> Ok (l = r)
      | (Unit, Unit) \<Rightarrow> Ok True
      | (PersistentValue.Object lc li, PersistentValue.Object rc ri) \<Rightarrow> Ok (lc = rc \<and> li = ri)
      | (Sequence Persistent l, Sequence Persistent r) \<Rightarrow>
          res_bind (require_compatible_kinds_typed (common_kind l) (common_kind r)) (\<lambda>_.
          Ok (element_values l = element_values r))
      | (PersistentSet l, PersistentSet r) \<Rightarrow>
          res_bind (require_compatible_kinds_typed (common_kind l) (common_kind r)) (\<lambda>_.
          Ok (length (element_values l) = length (element_values r) \<and>
              list_all (\<lambda>e. e \<in> set (element_values r)) (element_values l)))
      | (Multiset l, Multiset r) \<Rightarrow>
          res_bind (require_compatible_kinds_typed (common_kind l) (common_kind r)) (\<lambda>_.
          Ok (multisets_match (element_values l) (element_values r)))
      | _ \<Rightarrow> Err EqualityOperandsUnsupported)"

definition comparable_equal :: "PersistentValue \<Rightarrow> PersistentValue \<Rightarrow> (ContractFailure, bool) result" where
  "comparable_equal l r = or_contract_failure (comparable_equal_typed l r)"

definition object_identical :: "PersistentValue \<Rightarrow> PersistentValue \<Rightarrow> (ContractFailure, bool) result" where
  "object_identical l r =
     (case (l, r) of
        (PersistentValue.Object _ _, PersistentValue.Object _ _) \<Rightarrow> Ok (l = r)
      | _ \<Rightarrow> persistent_failure ''frontend.python.persistent.identity-operands-unsupported''
               ''identity comparison is modeled only for pass-only source objects'')"

definition integer_pair ::
  "PersistentValue \<Rightarrow> PersistentValue \<Rightarrow> (int \<Rightarrow> int \<Rightarrow> bool) \<Rightarrow> (ContractFailure, bool) result" where
  "integer_pair l r compare =
     (case (l, r) of
        (PersistentValue.Int l, PersistentValue.Int r) \<Rightarrow> Ok (compare l r)
      | _ \<Rightarrow> persistent_failure ''frontend.python.persistent.order-operands-unsupported''
               ''ordered comparison requires two integers'')"

section \<open>Type comments\<close>

text \<open>The constructor and the element kind a comment names.\<close>

definition commented_type :: "string \<Rightarrow> (string \<times> ElementKind) option" where
  "commented_type comment =
     map_of [(''PSeq[int]'', (''PSeq'', ElementKind.Int)), (''PSeq[bool]'', (''PSeq'', ElementKind.Boolean)),
             (''PSet[int]'', (''PSet'', ElementKind.Int)), (''PSet[bool]'', (''PSet'', ElementKind.Boolean)),
             (''PMultiset[int]'', (''PMultiset'', ElementKind.Int)),
             (''PMultiset[bool]'', (''PMultiset'', ElementKind.Boolean))] (trim comment)"

text \<open>The constructor of a persistent value, its elements, and the value with other elements.\<close>

definition persistent_parts :: "PersistentValue \<Rightarrow> (string \<times> Elements \<times> (Elements \<Rightarrow> PersistentValue)) option" where
  "persistent_parts v =
     (case v of
        Sequence Persistent elements \<Rightarrow> Some (''PSeq'', elements, Sequence Persistent)
      | PersistentSet elements \<Rightarrow> Some (''PSet'', elements, PersistentSet)
      | Multiset elements \<Rightarrow> Some (''PMultiset'', elements, Multiset)
      | _ \<Rightarrow> None)"

definition apply_type_comment :: "PersistentValue \<Rightarrow> string \<Rightarrow> (ContractFailure, PersistentValue) result" where
  "apply_type_comment v comment =
     (case commented_type comment of
        None \<Rightarrow> persistent_failure ''frontend.python.persistent.type-comment-unsupported''
                 (''unsupported persistent collection type comment '' @ debug_str comment)
      | Some (constructor, kind) \<Rightarrow>
     (case persistent_parts v of
        None \<Rightarrow> persistent_failure ''frontend.python.persistent.type-comment-value-mismatch''
                 (''type comment '' @ debug_str comment @ '' does not describe its assigned value'')
      | Some (actual, elements, rebuild) \<Rightarrow>
          if actual \<noteq> constructor
          then persistent_failure ''frontend.python.persistent.type-comment-constructor-mismatch''
                 (''type comment describes '' @ constructor @ '', but value is '' @ actual)
          else res_bind (require_compatible_kinds (common_kind elements) (Some kind)) (\<lambda>_.
            Ok (rebuild (elements\<lparr>common_kind := Some kind\<rparr>)))))"

end
