(* ===== verification/Persistent_Evaluation.thy ===== *)
theory Persistent_Evaluation
  imports Persistent_Values
begin

text \<open>
  The evaluator of the persistent-collection frontend
  (\<^verbatim>\<open>src/src/python_persistent_collections.rs\<close>). The trees come from a parser library: the datatypes
  keep what the frontend reads of a node, any other node is \<open>OtherExpr\<close> or \<open>OtherStmt\<close> with its
  parts, which only the search for persistent constructors visits. Literals are natural numbers, a
  sign is an operator. Debug renderings of nodes are the library's and a parameter. An expression
  changes one thing, the counter that numbers new objects.
\<close>

section \<open>Syntax\<close>

datatype PyConstant = ConstBool bool | ConstInt nat | ConstNone | OtherConstant

datatype PyOperator = Add | Sub | OtherOperator

datatype PyCompare = Eq | NotEq | Is | IsNot | In | NotIn | Lt | LtE | Gt | GtE

datatype PyExpr =
    Name string
  | Constant PyConstant
  | List "PyExpr list"
  | Set "PyExpr list"
  | Dict "PyExpr option list" "PyExpr list"
  | Call PyExpr "PyExpr list" "PyExpr list"
  | Attribute PyExpr string
  | BinOp PyExpr PyOperator PyExpr
  | Compare PyExpr "PyCompare list" "PyExpr list"
  | And "PyExpr list"
  | Or "PyExpr list"
  | Not PyExpr
  | Subscript PyExpr PyExpr
  | OtherExpr "PyExpr list"

text \<open>
  A parameter keeps its name; \<open>pf_signature_exprs\<close> are the expressions among the annotations and
  defaults that the library's tree visitor reaches.
\<close>

datatype PyStmt =
    ImportFrom "string option" "nat option" "(string \<times> string option) list"
  | ClassDef (class_id: string) (class_bases: "PyExpr list") (class_keywords: "PyExpr list")
      (class_decorators: "PyExpr list") (class_type_params: "PyExpr list") (class_body: "PyStmt list")
  | FunctionDef PyFunction
  | Assign "PyExpr list" PyExpr "string option"
  | Assert PyExpr "PyExpr option" "32 word"
  | Pass
  | OtherStmt "PyExpr list" "PyStmt list"
and PyFunction =
  PyFunction (pf_name: string) (pf_decorators: "PyExpr list") (pf_type_params: "PyExpr list")
    (pf_posonly: "string list") (pf_args: "string list") (pf_vararg: "string option")
    (pf_kwonly: "string list") (pf_kwarg: "string option") (pf_signature_exprs: "PyExpr list")
    (pf_returns: "PyExpr option") (pf_body: "PyStmt list") (pf_offset: "32 word")

record PersistentDebug =
  debug_identifier :: "string \<Rightarrow> string"
  debug_constant :: "PyConstant \<Rightarrow> string"
  debug_expression :: "PyExpr \<Rightarrow> string"
  debug_operation :: "PyExpr \<Rightarrow> PyOperator \<Rightarrow> PyExpr \<Rightarrow> string"
  debug_statement :: "PyStmt \<Rightarrow> string"

section \<open>Evaluation\<close>

definition CONSTRUCTORS :: "string set" where
  "CONSTRUCTORS = {''PSeq'', ''PSet'', ''PMultiset''}"

definition CONVERSIONS :: "string set" where
  "CONVERSIONS = {''ToSeq'', ''ToMS''}"

definition integer_literal :: "nat \<Rightarrow> (ContractFailure, PersistentValue) result" where
  "integer_literal v =
     (if int v < 2 ^ 127 then Ok (PersistentValue.Int (int v))
      else persistent_failure ''frontend.python.persistent.integer-out-of-range''
        (''integer literal '' @ decimal v @ '' exceeds the exact i128 fragment''))"

text \<open>\<open>i128::try_from(length)\<close>\<close>

definition length_value :: "string \<Rightarrow> string \<Rightarrow> nat \<Rightarrow> (ContractFailure, PersistentValue) result" where
  "length_value code message n =
     (if int n < 2 ^ 127 then Ok (PersistentValue.Int (int n)) else persistent_failure code message)"

definition number_text :: "int \<Rightarrow> string" where
  "number_text i = (if i < 0 then CHR ''-'' # decimal (nat (- i)) else decimal (nat i))"

definition index_value :: "PersistentValue \<Rightarrow> (ContractFailure, nat) result" where
  "index_value v =
     (case v of
        PersistentValue.Int i \<Rightarrow>
          (if 0 \<le> i \<and> i \<le> int usize_max then Ok (nat i)
           else persistent_failure ''frontend.python.persistent.index-negative-or-large''
             (''persistent collection index '' @ number_text i @ '' is negative or too large''))
      | _ \<Rightarrow> persistent_failure ''frontend.python.persistent.index-not-int''
               ''persistent collection index must be a concrete integer'')"

definition boolean_operand :: "string \<Rightarrow> string \<Rightarrow> PersistentValue \<Rightarrow> (ContractFailure, bool) result" where
  "boolean_operand code message v =
     (case v of PersistentValue.Bool b \<Rightarrow> Ok b | _ \<Rightarrow> persistent_failure code message)"

definition collection_length :: "PersistentValue \<Rightarrow> nat option" where
  "collection_length v =
     (case v of
        Sequence _ elements \<Rightarrow> Some (length (element_values elements))
      | PythonSet elements \<Rightarrow> Some (length (element_values elements))
      | PersistentSet elements \<Rightarrow> Some (length (element_values elements))
      | Multiset elements \<Rightarrow> Some (length (element_values elements))
      | Dictionary ks vs \<Rightarrow> Some (length (element_values ks))
      | _ \<Rightarrow> None)"

definition evaluate_len :: "PersistentValue \<Rightarrow> (ContractFailure, PersistentValue) result" where
  "evaluate_len v =
     (case collection_length v of
        None \<Rightarrow> persistent_failure ''frontend.python.persistent.len-operand-unsupported''
                 ''len requires a supported finite collection''
      | Some n \<Rightarrow> length_value ''frontend.python.persistent.length-out-of-range'' ''collection length exceeds i128'' n)"

definition evaluate_to_seq :: "PersistentValue \<Rightarrow> (ContractFailure, PersistentValue) result" where
  "evaluate_to_seq v =
     (case v of
        Sequence _ elements \<Rightarrow> Ok (Sequence Persistent elements)
      | PythonSet elements \<Rightarrow> Ok (Sequence UnorderedProjection elements)
      | Dictionary ks vs \<Rightarrow> Ok (Sequence UnorderedProjection ks)
      | _ \<Rightarrow> persistent_failure ''frontend.python.persistent.toseq-source-unsupported''
               ''ToSeq requires a list, set, dictionary, or persistent sequence'')"

definition evaluate_to_ms :: "PersistentValue \<Rightarrow> (ContractFailure, PersistentValue) result" where
  "evaluate_to_ms v =
     (case v of
        Sequence _ elements \<Rightarrow> Ok (Multiset elements)
      | _ \<Rightarrow> persistent_failure ''frontend.python.persistent.toms-source-unsupported''
               ''ToMS requires a concrete sequence'')"

text \<open>A new object of a class, numbered by the counter.\<close>

definition new_object :: "string \<Rightarrow> 64 word \<Rightarrow> (ContractFailure, PersistentValue \<times> 64 word) result" where
  "new_object cls next =
     (if next = - 1
      then persistent_failure ''frontend.python.persistent.object-identity-overflow'' ''object identity counter overflowed''
      else Ok (PersistentValue.Object cls next, next + 1))"

definition evaluate_binary ::
  "string \<Rightarrow> PyOperator \<Rightarrow> PersistentValue \<Rightarrow> PersistentValue \<Rightarrow>
     (ContractFailure, PersistentValue) result" where
  "evaluate_binary rendered op left right =
     (case (op, left, right) of
        (Add, Sequence Persistent l, Sequence Persistent r) \<Rightarrow>
          res_bind (concatenate_elements l r) (\<lambda>elements. Ok (Sequence Persistent elements))
      | (Add, PersistentSet l, PersistentSet r) \<Rightarrow>
          res_bind (concatenate_elements l r) (\<lambda>elements. Ok (PersistentSet (unique_elements elements)))
      | (Add, Multiset l, Multiset r) \<Rightarrow>
          res_bind (concatenate_elements l r) (\<lambda>elements. Ok (Multiset elements))
      | (Sub, PersistentSet l, PersistentSet r) \<Rightarrow>
          res_bind (set_difference l r) (\<lambda>elements. Ok (PersistentSet elements))
      | (Sub, Multiset l, Multiset r) \<Rightarrow>
          res_bind (multiset_difference l r) (\<lambda>elements. Ok (Multiset elements))
      | _ \<Rightarrow> persistent_failure ''frontend.python.persistent.binary-operation-unsupported''
               (''unsupported persistent binary operation '' @ rendered))"

definition evaluate_comparison ::
  "PyCompare \<Rightarrow> PersistentValue \<Rightarrow> PersistentValue \<Rightarrow> (ContractFailure, bool) result" where
  "evaluate_comparison op left right =
     (case op of
        Eq \<Rightarrow> comparable_equal left right
      | NotEq \<Rightarrow> res_bind (comparable_equal left right) (\<lambda>b. Ok (\<not> b))
      | Is \<Rightarrow> object_identical left right
      | IsNot \<Rightarrow> res_bind (object_identical left right) (\<lambda>b. Ok (\<not> b))
      | In \<Rightarrow> collection_contains right left
      | NotIn \<Rightarrow> res_bind (collection_contains right left) (\<lambda>b. Ok (\<not> b))
      | Lt \<Rightarrow> integer_pair left right (<)
      | LtE \<Rightarrow> integer_pair left right (\<le>)
      | Gt \<Rightarrow> integer_pair left right (>)
      | GtE \<Rightarrow> integer_pair left right (\<ge>))"

text \<open>Replacing or adding an entry of a dictionary.\<close>

fun put_dictionary_entry ::
  "PersistentValue \<Rightarrow> PersistentValue \<Rightarrow> (PersistentValue \<times> PersistentValue) list \<Rightarrow>
     (PersistentValue \<times> PersistentValue) list" where
  "put_dictionary_entry k v [] = [(k, v)]"
| "put_dictionary_entry k v ((k', v') # entries) = (if k' = k then (k', v) # entries else (k', v') # put_dictionary_entry k v entries)"

definition dictionary_value ::
  "(PersistentValue \<times> PersistentValue) list \<Rightarrow> (ContractFailure, PersistentValue) result" where
  "dictionary_value entries =
     res_bind (new_elements (map fst entries)) (\<lambda>ks.
     res_bind (new_elements (map snd entries)) (\<lambda>vs. Ok (Dictionary ks vs)))"

definition replace_element :: "Elements \<Rightarrow> nat \<Rightarrow> PersistentValue \<Rightarrow> (ContractFailure, PersistentValue) result" where
  "replace_element elements index replacement =
     res_bind (element_from_value replacement) (\<lambda>e.
     res_bind (require_element_kind e (common_kind elements)) (\<lambda>_.
     Ok (Sequence Persistent (elements\<lparr>element_values := (element_values elements)[index := e]\<rparr>))))"

definition multiplicity :: "Elements \<Rightarrow> PersistentValue \<Rightarrow> (ContractFailure, PersistentValue) result" where
  "multiplicity elements needle =
     res_bind (element_from_value needle) (\<lambda>e.
     res_bind (require_element_kind e (common_kind elements)) (\<lambda>_.
     length_value ''frontend.python.persistent.multiplicity-out-of-range'' ''multiset multiplicity exceeds i128''
       (length (filter (\<lambda>x. x = e) (element_values elements)))))"

definition sequence_item :: "PersistentValue \<Rightarrow> nat \<Rightarrow> (ContractFailure, PersistentValue) result" where
  "sequence_item receiver index =
     (case receiver of
        Sequence Persistent elements \<Rightarrow>
          (if index < length (element_values elements) then Ok (into_value (element_values elements ! index))
           else persistent_failure ''frontend.python.persistent.index-out-of-range''
             (''persistent sequence index '' @ decimal index @ '' is out of range''))
      | _ \<Rightarrow> persistent_failure ''frontend.python.persistent.index-receiver-unsupported''
               ''indexing requires a persistent sequence'')"

definition unsupported_method :: "string \<Rightarrow> (ContractFailure, 'a) result" where
  "unsupported_method name =
     persistent_failure ''frontend.python.persistent.method-unsupported''
       (''persistent method '' @ debug_str name @ '' is unsupported for this receiver and arity'')"

lemma unsupported_method_not_Ok [simp]: "unsupported_method name \<noteq> Inr x"
  by (simp add: unsupported_method_def)

text \<open>
  \<open>evaluate\<close> and the functions it calls. Each takes the counter of objects and returns it with the
  value; arguments are evaluated from left to right.
\<close>

function evaluate ::
    "PersistentDebug \<Rightarrow> string set \<Rightarrow> (string, PersistentValue) fmap \<Rightarrow> PyExpr \<Rightarrow> 64 word \<Rightarrow>
      (ContractFailure, PersistentValue \<times> 64 word) result"
  and evaluate_list ::
    "PersistentDebug \<Rightarrow> string set \<Rightarrow> (string, PersistentValue) fmap \<Rightarrow> PyExpr list \<Rightarrow> 64 word \<Rightarrow>
      (ContractFailure, PersistentValue list \<times> 64 word) result"
  and evaluate_entries ::
    "PersistentDebug \<Rightarrow> string set \<Rightarrow> (string, PersistentValue) fmap \<Rightarrow> PyExpr option list \<Rightarrow> PyExpr list \<Rightarrow>
      (PersistentValue \<times> PersistentValue) list \<Rightarrow> 64 word \<Rightarrow>
      (ContractFailure, (PersistentValue \<times> PersistentValue) list \<times> 64 word) result"
  and evaluate_operands ::
    "PersistentDebug \<Rightarrow> string set \<Rightarrow> (string, PersistentValue) fmap \<Rightarrow> bool \<Rightarrow> PyExpr list \<Rightarrow> 64 word \<Rightarrow>
      (ContractFailure, PersistentValue \<times> 64 word) result"
  and evaluate_named_call ::
    "PersistentDebug \<Rightarrow> string set \<Rightarrow> (string, PersistentValue) fmap \<Rightarrow> string \<Rightarrow> PyExpr list \<Rightarrow> 64 word \<Rightarrow>
      (ContractFailure, PersistentValue \<times> 64 word) result"
  and evaluate_method_call ::
    "PersistentDebug \<Rightarrow> string set \<Rightarrow> (string, PersistentValue) fmap \<Rightarrow> PersistentValue \<Rightarrow> string \<Rightarrow> PyExpr list \<Rightarrow>
      64 word \<Rightarrow> (ContractFailure, PersistentValue \<times> 64 word) result"
  where
  "evaluate dbg class_set env (Name name) next =
     (if name = ''True'' then Ok (PersistentValue.Bool True, next)
      else if name = ''False'' then Ok (PersistentValue.Bool False, next)
      else case fmlookup env name of
        Some v \<Rightarrow> Ok (v, next)
      | None \<Rightarrow> persistent_failure ''frontend.python.persistent.name-unresolved''
                  (''persistent expression name '' @ debug_str name @ '' is unresolved''))"
| "evaluate dbg class_set env (Constant constant) next =
     (case constant of
        ConstBool b \<Rightarrow> Ok (PersistentValue.Bool b, next)
      | ConstInt v \<Rightarrow> res_bind (integer_literal v) (\<lambda>v. Ok (v, next))
      | ConstNone \<Rightarrow> Ok (Unit, next)
      | OtherConstant \<Rightarrow> persistent_failure ''frontend.python.persistent.constant-unsupported''
                           (''unsupported persistent constant '' @ debug_constant dbg constant))"
| "evaluate dbg class_set env (List elts) next =
     res_bind (evaluate_list dbg class_set env elts next) (\<lambda>(vs, next).
     res_bind (new_elements vs) (\<lambda>elements. Ok (Sequence PythonList elements, next)))"
| "evaluate dbg class_set env (Set elts) next =
     res_bind (evaluate_list dbg class_set env elts next) (\<lambda>(vs, next).
     res_bind (new_elements vs) (\<lambda>elements. Ok (PythonSet (unique_elements elements), next)))"
| "evaluate dbg class_set env (Dict ks vs) next =
     (if list_ex (\<lambda>k. k = None) ks
      then persistent_failure ''frontend.python.persistent.dictionary-unpack-unsupported''
             ''dictionary unpacking is outside the persistent collection fragment''
      else res_bind (evaluate_entries dbg class_set env ks vs [] next) (\<lambda>(entries, next).
        res_bind (dictionary_value entries) (\<lambda>v. Ok (v, next))))"
| "evaluate dbg class_set env (Call func arguments keywords) next =
     (if keywords \<noteq> []
      then persistent_failure ''frontend.python.persistent.keyword-arguments-unsupported''
             ''persistent operations do not accept keyword arguments''
      else case func of
        Name callee \<Rightarrow> evaluate_named_call dbg class_set env callee arguments next
      | Attribute receiver attr \<Rightarrow>
          res_bind (evaluate dbg class_set env receiver next) (\<lambda>(receiver, next).
          evaluate_method_call dbg class_set env receiver attr arguments next)
      | _ \<Rightarrow> persistent_failure ''frontend.python.persistent.dynamic-call-unsupported''
               ''persistent operation call targets must be canonical names or direct methods'')"
| "evaluate dbg class_set env (BinOp left op right) next =
     res_bind (evaluate dbg class_set env left next) (\<lambda>(l, next).
     res_bind (evaluate dbg class_set env right next) (\<lambda>(r, next).
     res_bind (evaluate_binary (debug_operation dbg left op right) op l r) (\<lambda>v. Ok (v, next))))"
| "evaluate dbg class_set env (Compare left ops comparators) next =
     (case (ops, comparators) of
        ([op], [right]) \<Rightarrow>
          res_bind (evaluate dbg class_set env left next) (\<lambda>(l, next).
          res_bind (evaluate dbg class_set env right next) (\<lambda>(r, next).
          res_bind (evaluate_comparison op l r) (\<lambda>b. Ok (PersistentValue.Bool b, next))))
      | _ \<Rightarrow> persistent_failure ''frontend.python.persistent.chained-comparison-unsupported''
               ''persistent collection comparisons must contain exactly one operator'')"
| "evaluate dbg class_set env (And operands) next =
     (if operands = []
      then persistent_failure ''frontend.python.persistent.empty-boolop'' ''boolean operation has no operands''
      else evaluate_operands dbg class_set env True operands next)"
| "evaluate dbg class_set env (Or operands) next =
     (if operands = []
      then persistent_failure ''frontend.python.persistent.empty-boolop'' ''boolean operation has no operands''
      else evaluate_operands dbg class_set env False operands next)"
| "evaluate dbg class_set env (Not operand) next =
     res_bind (evaluate dbg class_set env operand next) (\<lambda>(v, next).
     res_bind (boolean_operand ''frontend.python.persistent.not-operand-unsupported''
         ''not requires a boolean operand in the persistent fragment'' v) (\<lambda>b.
     Ok (PersistentValue.Bool (\<not> b), next)))"
| "evaluate dbg class_set env (Subscript receiver index) next =
     res_bind (evaluate dbg class_set env receiver next) (\<lambda>(receiver, next).
     res_bind (evaluate dbg class_set env index next) (\<lambda>(index, next).
     res_bind (index_value index) (\<lambda>index.
     res_bind (sequence_item receiver index) (\<lambda>v. Ok (v, next)))))"
| "evaluate dbg class_set env (Attribute receiver attr) next =
     persistent_failure ''frontend.python.persistent.expression-unsupported''
       (''unsupported persistent expression '' @ debug_expression dbg (Attribute receiver attr))"
| "evaluate dbg class_set env (OtherExpr parts) next =
     persistent_failure ''frontend.python.persistent.expression-unsupported''
       (''unsupported persistent expression '' @ debug_expression dbg (OtherExpr parts))"
| "evaluate_list dbg class_set env [] next = Ok ([], next)"
| "evaluate_list dbg class_set env (expression # expressions) next =
     res_bind (evaluate dbg class_set env expression next) (\<lambda>(v, next).
     res_bind (evaluate_list dbg class_set env expressions next) (\<lambda>(vs, next). Ok (v # vs, next)))"
| "evaluate_entries dbg class_set env ks vs entries next =
     (case (ks, vs) of
        (Some k # ks, v # vs) \<Rightarrow>
          res_bind (evaluate dbg class_set env k next) (\<lambda>(key, next).
          res_bind (evaluate dbg class_set env v next) (\<lambda>(v, next).
          evaluate_entries dbg class_set env ks vs (put_dictionary_entry key v entries) next))
      | _ \<Rightarrow> Ok (entries, next))"
| "evaluate_operands dbg class_set env conjunction [] next = Ok (PersistentValue.Bool conjunction, next)"
| "evaluate_operands dbg class_set env conjunction (operand # operands) next =
     res_bind (evaluate dbg class_set env operand next) (\<lambda>(v, next).
     res_bind (boolean_operand ''frontend.python.persistent.boolop-operand-unsupported''
         ''and/or operands must be booleans'' v) (\<lambda>b.
     if b \<noteq> conjunction then Ok (PersistentValue.Bool b, next)
     else evaluate_operands dbg class_set env conjunction operands next))"
| "evaluate_named_call dbg class_set env callee arguments next =
     (if callee = ''PSeq'' then
        res_bind (evaluate_list dbg class_set env arguments next) (\<lambda>(vs, next).
        res_bind (new_elements vs) (\<lambda>elements. Ok (Sequence Persistent elements, next)))
      else if callee = ''PSet'' then
        res_bind (evaluate_list dbg class_set env arguments next) (\<lambda>(vs, next).
        res_bind (new_elements vs) (\<lambda>elements. Ok (PersistentSet (unique_elements elements), next)))
      else if callee = ''PMultiset'' then
        res_bind (evaluate_list dbg class_set env arguments next) (\<lambda>(vs, next).
        res_bind (new_elements vs) (\<lambda>elements. Ok (Multiset elements, next)))
      else case (arguments, callee \<in> {''ToSeq'', ''ToMS'', ''len''}) of
        ([argument], True) \<Rightarrow>
          res_bind (evaluate dbg class_set env argument next) (\<lambda>(v, next).
          res_bind (if callee = ''ToSeq'' then evaluate_to_seq v
                    else if callee = ''ToMS'' then evaluate_to_ms v else evaluate_len v) (\<lambda>v. Ok (v, next)))
      | _ \<Rightarrow>
          if callee \<in> class_set
          then (if arguments \<noteq> []
                then persistent_failure ''frontend.python.persistent.constructor-arguments-unsupported''
                       (''pass-only class '' @ debug_str callee @ '' accepts no constructor arguments'')
                else new_object callee next)
          else if callee \<in> CONSTRUCTORS \<or> callee \<in> CONVERSIONS \<or> callee = ''len''
          then persistent_failure ''frontend.python.persistent.call-arity''
                 (''persistent operation '' @ debug_str callee @ '' received the wrong number of arguments'')
          else persistent_failure ''frontend.python.persistent.call-unresolved''
                 (''persistent call target '' @ debug_str callee @ '' is unresolved''))"
| "evaluate_method_call dbg class_set env receiver attr arguments next =
     (case (receiver, arguments) of
        (Sequence Persistent elements, [argument]) \<Rightarrow>
          if attr = ''take'' \<or> attr = ''drop'' then
            res_bind (evaluate dbg class_set env argument next) (\<lambda>(count, next).
            res_bind (index_value count) (\<lambda>count.
            Ok (Sequence Persistent (elements\<lparr>element_values :=
                  (if attr = ''take'' then take else drop) (min count (length (element_values elements)))
                    (element_values elements)\<rparr>), next)))
          else unsupported_method attr
      | (Sequence Persistent elements, [index, replacement]) \<Rightarrow>
          if attr = ''update'' then
            res_bind (evaluate dbg class_set env index next) (\<lambda>(index, next).
            res_bind (index_value index) (\<lambda>index.
            if length (element_values elements) \<le> index
            then persistent_failure ''frontend.python.persistent.update-index-out-of-range''
                   (''persistent update index '' @ decimal index @ '' is outside the sequence'')
            else res_bind (evaluate dbg class_set env replacement next) (\<lambda>(replacement, next).
              res_bind (replace_element elements index replacement) (\<lambda>v. Ok (v, next)))))
          else unsupported_method attr
      | (Multiset elements, [needle]) \<Rightarrow>
          if attr = ''num'' then
            res_bind (evaluate dbg class_set env needle next) (\<lambda>(needle, next).
            res_bind (multiplicity elements needle) (\<lambda>v. Ok (v, next)))
          else unsupported_method attr
      | _ \<Rightarrow> unsupported_method attr)"
  by pat_completeness auto

termination
  by (relation "measure (\<lambda>x. case x of
        Inl (Inl (dbg, class_set, env, expression, next)) \<Rightarrow> 2 * size expression
      | Inl (Inr (Inl (dbg, class_set, env, expressions, next))) \<Rightarrow> 2 * size_list size expressions
      | Inl (Inr (Inr (dbg, class_set, env, ks, vs, entries, next))) \<Rightarrow>
          2 * size_list (size_option size) ks + 2 * size_list size vs
      | Inr (Inl (dbg, class_set, env, conjunction, operands, next)) \<Rightarrow> 2 * size_list size operands
      | Inr (Inr (Inl (dbg, class_set, env, callee, arguments, next))) \<Rightarrow> Suc (2 * size_list size arguments)
      | Inr (Inr (Inr (dbg, class_set, env, receiver, attr, arguments, next))) \<Rightarrow> Suc (2 * size_list size arguments))")
    auto

end
