(* ===== verification/Persistent_Module.thy ===== *)
theory Persistent_Module
  imports Persistent_Evaluation
begin

text \<open>
  The entry point of the persistent-collection frontend
  (\<^verbatim>\<open>src/src/python_persistent_collections.rs\<close>): does the module use persistent constructors at all,
  is its shape one the evaluator understands, and which conditions do its functions assert. The
  parser is outside the model: the suite, or its message, is an input.
\<close>

section \<open>Search for persistent constructors\<close>

definition PERSISTENT_OWNERSHIP_WITNESSES :: "string set" where
  "PERSISTENT_OWNERSHIP_WITNESSES = {''PSeq'', ''PSet'', ''PMultiset'', ''ToMS''}"

definition witness_callee :: "PyExpr \<Rightarrow> bool" where
  "witness_callee func = (case func of Name name \<Rightarrow> name \<in> PERSISTENT_OWNERSHIP_WITNESSES | _ \<Rightarrow> False)"

fun detects :: "PyExpr \<Rightarrow> bool"
  and detects_any :: "PyExpr list \<Rightarrow> bool"
  and detects_optional :: "PyExpr option list \<Rightarrow> bool" where
  "detects (Call func arguments keywords) =
     (witness_callee func \<or> detects func \<or> detects_any arguments \<or> detects_any keywords)"
| "detects (Name name) = False"
| "detects (Constant constant) = False"
| "detects (List elts) = detects_any elts"
| "detects (Set elts) = detects_any elts"
| "detects (Dict ks vs) = (detects_optional ks \<or> detects_any vs)"
| "detects (Attribute receiver attr) = detects receiver"
| "detects (BinOp left op right) = (detects left \<or> detects right)"
| "detects (Compare left ops comparators) = (detects left \<or> detects_any comparators)"
| "detects (And operands) = detects_any operands"
| "detects (Or operands) = detects_any operands"
| "detects (Not operand) = detects operand"
| "detects (Subscript receiver index) = (detects receiver \<or> detects index)"
| "detects (OtherExpr parts) = detects_any parts"
| "detects_any [] = False"
| "detects_any (expression # expressions) = (detects expression \<or> detects_any expressions)"
| "detects_optional [] = False"
| "detects_optional (None # ks) = detects_optional ks"
| "detects_optional (Some k # ks) = (detects k \<or> detects_optional ks)"

definition detects_option :: "PyExpr option \<Rightarrow> bool" where
  "detects_option e = (case e of None \<Rightarrow> False | Some e \<Rightarrow> detects e)"

fun visits_stmt :: "PyStmt \<Rightarrow> bool"
  and visits_body :: "PyStmt list \<Rightarrow> bool" where
  "visits_stmt (ImportFrom imported_module level names) = False"
| "visits_stmt (ClassDef name bases keywords decorators type_params body) =
     (detects_any bases \<or> detects_any keywords \<or> detects_any decorators \<or> detects_any type_params \<or> visits_body body)"
| "visits_stmt (FunctionDef (PyFunction name decorators type_params posonly args vararg kwonly kwarg
       signature_exprs returns body offset)) =
     (detects_any decorators \<or> detects_any type_params \<or> detects_any signature_exprs \<or> detects_option returns \<or>
      visits_body body)"
| "visits_stmt (Assign targets v comment) = (detects_any targets \<or> detects v)"
| "visits_stmt (Assert test msg offset) = (detects test \<or> detects_option msg)"
| "visits_stmt Pass = False"
| "visits_stmt (OtherStmt exprs body) = (detects_any exprs \<or> visits_body body)"
| "visits_body [] = False"
| "visits_body (statement # statements) = (visits_stmt statement \<or> visits_body statements)"

section \<open>The shape of a module\<close>

record ModuleShape =
  canonical_import :: bool
  declared_classes :: "string set"
  function_map :: "(string, PyFunction) fmap"

definition shadows_builtin :: "string \<Rightarrow> bool" where
  "shadows_builtin name \<longleftrightarrow> name \<in> CONSTRUCTORS \<or> name \<in> CONVERSIONS"

definition is_canonical_import :: "string option \<Rightarrow> nat option \<Rightarrow> (string \<times> string option) list \<Rightarrow> bool" where
  "is_canonical_import imported_module level names \<longleftrightarrow>
     (case level of None \<Rightarrow> True | Some level \<Rightarrow> level = 0) \<and>
     imported_module = Some ''nagini_contracts.contracts'' \<and> names = [(''*'', None)]"

definition shape_statement ::
  "PersistentDebug \<Rightarrow> PyStmt \<Rightarrow> ModuleShape \<Rightarrow> (ContractFailure, ModuleShape) result" where
  "shape_statement dbg statement shape =
     (let unsupported = persistent_failure ''frontend.python.persistent.module-statement-unsupported''
            (''unsupported persistent module statement '' @ debug_statement dbg statement)
      in case statement of
        ImportFrom imported_module level names \<Rightarrow>
          (if is_canonical_import imported_module level names then Ok (shape\<lparr>canonical_import := True\<rparr>)
           else unsupported)
      | ClassDef name bases keywords decorators type_params body \<Rightarrow>
          (if shadows_builtin name
           then persistent_failure ''frontend.python.persistent.canonical-name-shadowed''
                  (''class '' @ debug_identifier dbg name @ '' shadows a persistent builtin'')
           else if bases \<noteq> [] \<or> keywords \<noteq> [] \<or> decorators \<noteq> [] \<or> type_params \<noteq> [] \<or> body \<noteq> [Pass]
           then persistent_failure ''frontend.python.persistent.object-semantics-unsupported''
                  (''persistent collection elements require pass-only source classes with inherited object equality; class '' @
                   debug_identifier dbg name @ '' is not pass-only'')
           else if name \<in> declared_classes shape
           then persistent_failure ''frontend.python.persistent.duplicate-class''
                  (''duplicate class binding '' @ debug_identifier dbg name)
           else Ok (shape\<lparr>declared_classes := insert name (declared_classes shape)\<rparr>))
      | FunctionDef f \<Rightarrow>
          (if shadows_builtin (pf_name f)
           then persistent_failure ''frontend.python.persistent.canonical-name-shadowed''
                  (''function '' @ debug_identifier dbg (pf_name f) @ '' shadows a persistent builtin'')
           else if contains_key (function_map shape) (pf_name f)
           then persistent_failure ''frontend.python.persistent.duplicate-function''
                  (''duplicate function binding '' @ debug_identifier dbg (pf_name f))
           else Ok (shape\<lparr>function_map := fmupd (pf_name f) f (function_map shape)\<rparr>))
      | _ \<Rightarrow> unsupported)"

definition validate_module_shape :: "PersistentDebug \<Rightarrow> PyStmt list \<Rightarrow> (ContractFailure, ModuleShape) result" where
  "validate_module_shape dbg suite =
     res_bind (sticky_loop (shape_statement dbg) suite
         \<lparr>canonical_import = False, declared_classes = {}, function_map = fmempty\<rparr>) (\<lambda>shape.
     if \<not> canonical_import shape
     then persistent_failure ''frontend.python.persistent.contract-import-missing''
            ''persistent builtins require the canonical nagini_contracts.contracts wildcard import''
     else if \<exists>name \<in> declared_classes shape. contains_key (function_map shape) name
     then persistent_failure ''frontend.python.persistent.duplicate-binding''
            ''a top-level name is bound as both a class and a function''
     else Ok shape)"

section \<open>Functions\<close>

text \<open>Columns count bytes here.\<close>

definition persistent_obligation :: "string \<Rightarrow> bool \<Rightarrow> string \<Rightarrow> string \<Rightarrow> 32 word \<Rightarrow> Obligation" where
  "persistent_obligation name concluded source path offset =
     (let prefix = take (min (unat offset) (length source)) source
      in \<lparr>obligation_id = name, obligation_expectation = Prove, assumptions = [],
          conclusion = Term.Bool concluded, obligation_path = path, obligation_byte_offset = offset,
          obligation_line = u32_saturated (length (filter (\<lambda>c. c = CHR 0x0A) prefix) + 1),
          obligation_column = u32_saturated (length (last_line prefix) + 1)\<rparr>)"

definition is_none_annotation :: "PyExpr option \<Rightarrow> bool" where
  "is_none_annotation annotation \<longleftrightarrow> annotation = Some (Constant ConstNone)"

record PersistentEvaluator =
  environment :: "(string, PersistentValue) fmap"
  next_object_identity :: "64 word"

definition assign_statement ::
  "PersistentDebug \<Rightarrow> string set \<Rightarrow> PyExpr list \<Rightarrow> PyExpr \<Rightarrow> string option \<Rightarrow> PersistentEvaluator \<Rightarrow>
     (ContractFailure, PersistentEvaluator) result" where
  "assign_statement dbg class_set targets v comment self =
     (case targets of
        [Name target] \<Rightarrow>
          if shadows_builtin target
          then persistent_failure ''frontend.python.persistent.canonical-name-shadowed''
                 (''local '' @ debug_identifier dbg target @ '' shadows a persistent builtin'')
          else res_bind (evaluate dbg class_set (environment self) v (next_object_identity self)) (\<lambda>(v, next).
            res_bind (case comment of None \<Rightarrow> Ok v | Some comment \<Rightarrow> apply_type_comment v comment) (\<lambda>v.
            Ok (self\<lparr>environment := fmupd target v (environment self), next_object_identity := next\<rparr>)))
      | _ \<Rightarrow> persistent_failure ''frontend.python.persistent.assignment-target-unsupported''
               ''persistent values may only be assigned to one local name'')"

definition assert_statement ::
  "PersistentDebug \<Rightarrow> string set \<Rightarrow> PyExpr \<Rightarrow> PyExpr option \<Rightarrow> PersistentEvaluator \<Rightarrow>
     (ContractFailure, PersistentEvaluator \<times> bool) result" where
  "assert_statement dbg class_set test msg self =
     res_bind (evaluate dbg class_set (environment self) test (next_object_identity self)) (\<lambda>(v, next).
     res_bind (boolean_operand ''frontend.python.persistent.assertion-not-bool''
         ''persistent collection assertions must have a boolean result'' v) (\<lambda>concluded.
     if msg \<noteq> None
     then persistent_failure ''frontend.python.persistent.assertion-message-unsupported''
            ''assertion messages are outside the persistent collection fragment''
     else Ok (self\<lparr>next_object_identity := next\<rparr>, concluded)))"

text \<open>The body of a function: the conditions it asserts, each with its offset.\<close>

fun run_statements ::
  "PersistentDebug \<Rightarrow> string set \<Rightarrow> string \<Rightarrow> PyStmt list \<Rightarrow> PersistentEvaluator \<Rightarrow> (32 word \<times> bool) list \<Rightarrow>
     (ContractFailure, (32 word \<times> bool) list) result" where
  "run_statements dbg class_set f_name [] self asserted = Ok asserted"
| "run_statements dbg class_set f_name (statement # statements) self asserted =
     (case statement of
        Assign targets v comment \<Rightarrow>
          res_bind (assign_statement dbg class_set targets v comment self) (\<lambda>self.
          run_statements dbg class_set f_name statements self asserted)
      | Assert test msg offset \<Rightarrow>
          res_bind (assert_statement dbg class_set test msg self) (\<lambda>(self, concluded).
          run_statements dbg class_set f_name statements self (asserted @ [(offset, concluded)]))
      | _ \<Rightarrow> persistent_failure ''frontend.python.persistent.function-statement-unsupported''
               (''persistent collection function '' @ debug_identifier dbg f_name @
                '' contains unsupported statement '' @ debug_statement dbg statement))"

definition assertion_obligation :: "string \<Rightarrow> string \<Rightarrow> string \<Rightarrow> 32 word \<times> bool \<Rightarrow> Obligation" where
  "assertion_obligation source path f_name = (\<lambda>(offset, concluded).
     persistent_obligation (f_name @ '':assert:'' @ decimal (unat offset)) concluded source path offset)"

definition unsupported_signature :: "PyFunction \<Rightarrow> bool" where
  "unsupported_signature f \<longleftrightarrow>
     pf_decorators f \<noteq> [] \<or> pf_type_params f \<noteq> [] \<or> pf_posonly f \<noteq> [] \<or> pf_args f \<noteq> [] \<or>
     pf_vararg f \<noteq> None \<or> pf_kwonly f \<noteq> [] \<or> pf_kwarg f \<noteq> None \<or> \<not> is_none_annotation (pf_returns f)"

definition verify_function ::
  "PersistentDebug \<Rightarrow> string set \<Rightarrow> PyFunction \<Rightarrow> string \<Rightarrow> string \<Rightarrow> (ContractFailure, Obligation list) result" where
  "verify_function dbg class_set f source path =
     (if unsupported_signature f
      then persistent_failure ''frontend.python.persistent.function-signature-unsupported''
             (''persistent collection function '' @ debug_identifier dbg (pf_name f) @
              '' must be a nongeneric, parameterless function returning None'')
      else res_bind (run_statements dbg class_set (pf_name f) (pf_body f)
               \<lparr>environment = fmempty, next_object_identity = 0\<rparr> []) (\<lambda>asserted.
        Ok (map (assertion_obligation source path (pf_name f)) asserted)))"

section \<open>The module\<close>

fun verify_functions ::
  "PersistentDebug \<Rightarrow> string set \<Rightarrow> (string \<times> PyFunction) list \<Rightarrow> string \<Rightarrow> string \<Rightarrow>
     (ContractFailure, Obligation list) result" where
  "verify_functions dbg class_set [] source path = Ok []"
| "verify_functions dbg class_set ((name, f) # selected) source path =
     res_bind (verify_function dbg class_set f source path) (\<lambda>obligations.
     res_bind (verify_functions dbg class_set selected source path) (\<lambda>rest.
     Ok (obligations @
         persistent_obligation (name @ '':function-totality'') True source path (pf_offset f) # rest)))"

definition generic_class :: "PyStmt \<Rightarrow> bool" where
  "generic_class statement \<longleftrightarrow>
     (case statement of
        ClassDef name bases keywords decorators type_params body \<Rightarrow>
          list_ex (\<lambda>base. case base of Subscript (Name n) index \<Rightarrow> n = ''Generic'' | _ \<Rightarrow> False) bases
      | _ \<Rightarrow> False)"

definition selected_functions :: "ModuleShape \<Rightarrow> string list \<Rightarrow> (string \<times> PyFunction) list" where
  "selected_functions shape requested_symbols =
     filter (\<lambda>(name, _). requested_symbols = [] \<or> name \<in> set requested_symbols)
       (sorted_list_of_fmap (function_map shape))"

definition verify_persistent_collection_module ::
  "PersistentDebug \<Rightarrow> (Term list \<Rightarrow> Term \<Rightarrow> (string, SatResult \<times> string option) result) \<Rightarrow>
     (string, PyStmt list) result \<Rightarrow> string \<Rightarrow> string \<Rightarrow> string list \<Rightarrow>
     (ContractFailure, HeapContractVerification option) result" where
  "verify_persistent_collection_module dbg query parsed source path requested_symbols =
     (case parsed of
        Err message \<Rightarrow> persistent_failure ''frontend.python.parse-error'' message
      | Ok suite \<Rightarrow>
          if \<not> visits_body suite then Ok None
          else if list_ex generic_class suite then Ok None
          else res_bind (validate_module_shape dbg suite) (\<lambda>shape.
            case List.find (\<lambda>requested. requested \<notin> declared_classes shape \<and> \<not> contains_key (function_map shape) requested)
                requested_symbols of
              Some missing \<Rightarrow>
                persistent_failure ''frontend.python.persistent.requested-symbol-missing''
                  (''requested symbol '' @ debug_str missing @ '' is not declared by the persistent module'')
            | None \<Rightarrow>
                (let selected = selected_functions shape requested_symbols
                 in if selected = []
                    then persistent_failure ''frontend.python.persistent.no-selected-functions''
                           ''persistent collection verification requires at least one selected source function''
                    else res_bind (verify_functions dbg (declared_classes shape) selected source path) (\<lambda>obligations.
                      res_bind (discharge_all query obligations) (\<lambda>answers.
                      Ok (Some
                        \<lparr>verification_schema = ''maledictus-python-persistent-collections/v1'',
                         verification_path = path, verification_methods = map fst selected,
                         verification_obligations = answers,
                         verification_passed = list_all satisfied answers\<rparr>))))))"

end
