(* ===== verification/Persistent_Semantics.thy ===== *)
theory Persistent_Semantics
  imports Persistent_Module "HOL-Library.Multiset"
begin

text \<open>
  The meaning of persistent collections: sequences are lists, sets are sets, multisets are multisets,
  and what is projected from an unordered collection is known as a set only. The rules say what an
  expression evaluates to, in Python's order and with Python's scopes; they have no rule that would
  read an order out of an unordered collection, and none for elements of different kinds, which
  Python may identify (\<open>True == 1\<close>).
\<close>

section \<open>Meanings\<close>

datatype Meaning =
    MInt int
  | MBool bool
  | MUnit
  | MObject string "64 word"
  | MList "ElementValue list"
  | MSeq "ElementValue list"
  | MUnordered "ElementValue set"
  | MPySet "ElementValue set"
  | MSet "ElementValue set"
  | MBag "ElementValue multiset"
  | MDict "ElementValue set"

text \<open>The fragment reads only the keys of a dictionary.\<close>

fun means_value :: "PersistentValue \<Rightarrow> Meaning" where
  "means_value (PersistentValue.Int i) = MInt i"
| "means_value (PersistentValue.Bool b) = MBool b"
| "means_value Unit = MUnit"
| "means_value (PersistentValue.Object c i) = MObject c i"
| "means_value (Sequence PythonList es) = MList (element_values es)"
| "means_value (Sequence Persistent es) = MSeq (element_values es)"
| "means_value (Sequence UnorderedProjection es) = MUnordered (set (element_values es))"
| "means_value (PythonSet es) = MPySet (set (element_values es))"
| "means_value (PersistentSet es) = MSet (set (element_values es))"
| "means_value (Multiset es) = MBag (mset (element_values es))"
| "means_value (Dictionary ks vs) = MDict (set (element_values ks))"

text \<open>The flat values, and the lists of them that a collection can hold.\<close>

fun element_of :: "Meaning \<Rightarrow> ElementValue option" where
  "element_of (MInt i) = Some (ElementValue.Int i)"
| "element_of (MBool b) = Some (ElementValue.Boolean b)"
| "element_of (MObject c i) = Some (ElementValue.Object c i)"
| "element_of _ = None"

definition same_kind :: "ElementValue set \<Rightarrow> bool" where
  "same_kind A \<longleftrightarrow> (\<forall>x \<in> A. \<forall>y \<in> A. element_kind x = element_kind y)"

definition element_list :: "Meaning list \<Rightarrow> ElementValue list option" where
  "element_list ms =
     (case those (map element_of ms) of
        None \<Rightarrow> None
      | Some xs \<Rightarrow> if same_kind (set xs) then Some xs else None)"

fun members :: "Meaning \<Rightarrow> ElementValue set option" where
  "members (MList xs) = Some (set xs)"
| "members (MSeq xs) = Some (set xs)"
| "members (MUnordered A) = Some A"
| "members (MPySet A) = Some A"
| "members (MSet A) = Some A"
| "members _ = None"

fun meaning_size :: "Meaning \<Rightarrow> nat option" where
  "meaning_size (MList xs) = Some (length xs)"
| "meaning_size (MSeq xs) = Some (length xs)"
| "meaning_size (MUnordered A) = Some (card A)"
| "meaning_size (MPySet A) = Some (card A)"
| "meaning_size (MSet A) = Some (card A)"
| "meaning_size (MBag M) = Some (size M)"
| "meaning_size (MDict A) = Some (card A)"
| "meaning_size _ = None"

section \<open>Operations\<close>

fun to_seq :: "Meaning \<Rightarrow> Meaning option" where
  "to_seq (MList xs) = Some (MSeq xs)"
| "to_seq (MSeq xs) = Some (MSeq xs)"
| "to_seq (MPySet A) = Some (MUnordered A)"
| "to_seq (MDict A) = Some (MUnordered A)"
| "to_seq _ = None"

fun to_bag :: "Meaning \<Rightarrow> Meaning option" where
  "to_bag (MList xs) = Some (MBag (mset xs))"
| "to_bag (MSeq xs) = Some (MBag (mset xs))"
| "to_bag (MUnordered A) = Some (MBag (mset_set A))"
| "to_bag _ = None"

definition BUILTINS :: "string set" where
  "BUILTINS = CONSTRUCTORS \<union> CONVERSIONS \<union> {''len''}"

definition builtin_meaning :: "string \<Rightarrow> Meaning list \<Rightarrow> Meaning option" where
  "builtin_meaning f ms =
     (if f = ''PSeq'' then map_option MSeq (element_list ms)
      else if f = ''PSet'' then map_option (\<lambda>xs. MSet (set xs)) (element_list ms)
      else if f = ''PMultiset'' then map_option (\<lambda>xs. MBag (mset xs)) (element_list ms)
      else case ms of
        [m] \<Rightarrow>
          if f = ''ToSeq'' then to_seq m
          else if f = ''ToMS'' then to_bag m
          else if f = ''len'' then map_option (\<lambda>k. MInt (int k)) (meaning_size m)
          else None
      | _ \<Rightarrow> None)"

definition binary_meaning :: "PyOperator \<Rightarrow> Meaning \<Rightarrow> Meaning \<Rightarrow> Meaning option" where
  "binary_meaning op a b =
     (case (op, a, b) of
        (Add, MSeq xs, MSeq ys) \<Rightarrow> if same_kind (set xs \<union> set ys) then Some (MSeq (xs @ ys)) else None
      | (Add, MSet A, MSet B) \<Rightarrow> if same_kind (A \<union> B) then Some (MSet (A \<union> B)) else None
      | (Add, MBag M, MBag N) \<Rightarrow> if same_kind (set_mset M \<union> set_mset N) then Some (MBag (M + N)) else None
      | (Sub, MSet A, MSet B) \<Rightarrow> if same_kind (A \<union> B) then Some (MSet (A - B)) else None
      | (Sub, MBag M, MBag N) \<Rightarrow> if same_kind (set_mset M \<union> set_mset N) then Some (MBag (M - N)) else None
      | _ \<Rightarrow> None)"

definition equal_meanings :: "Meaning \<Rightarrow> Meaning \<Rightarrow> bool option" where
  "equal_meanings a b =
     (case (a, b) of
        (MInt i, MInt j) \<Rightarrow> Some (i = j)
      | (MBool s, MBool t) \<Rightarrow> Some (s = t)
      | (MUnit, MUnit) \<Rightarrow> Some True
      | (MObject c i, MObject d j) \<Rightarrow> Some (c = d \<and> i = j)
      | (MSeq xs, MSeq ys) \<Rightarrow> if same_kind (set xs \<union> set ys) then Some (xs = ys) else None
      | (MSet A, MSet B) \<Rightarrow> if same_kind (A \<union> B) then Some (A = B) else None
      | (MBag M, MBag N) \<Rightarrow> if same_kind (set_mset M \<union> set_mset N) then Some (M = N) else None
      | _ \<Rightarrow> None)"

definition contained :: "Meaning \<Rightarrow> Meaning \<Rightarrow> bool option" where
  "contained a b =
     (case (element_of a, members b) of
        (Some e, Some A) \<Rightarrow> if same_kind (insert e A) then Some (e \<in> A) else None
      | _ \<Rightarrow> None)"

definition ordered :: "(int \<Rightarrow> int \<Rightarrow> bool) \<Rightarrow> Meaning \<Rightarrow> Meaning \<Rightarrow> bool option" where
  "ordered compare a b = (case (a, b) of (MInt i, MInt j) \<Rightarrow> Some (compare i j) | _ \<Rightarrow> None)"

definition identical :: "Meaning \<Rightarrow> Meaning \<Rightarrow> bool option" where
  "identical a b = (case (a, b) of (MObject c i, MObject d j) \<Rightarrow> Some (c = d \<and> i = j) | _ \<Rightarrow> None)"

fun compare_meanings :: "PyCompare \<Rightarrow> Meaning \<Rightarrow> Meaning \<Rightarrow> bool option" where
  "compare_meanings Eq a b = equal_meanings a b"
| "compare_meanings NotEq a b = map_option HOL.Not (equal_meanings a b)"
| "compare_meanings Is a b = identical a b"
| "compare_meanings IsNot a b = map_option HOL.Not (identical a b)"
| "compare_meanings In a b = contained a b"
| "compare_meanings NotIn a b = map_option HOL.Not (contained a b)"
| "compare_meanings Lt a b = ordered (<) a b"
| "compare_meanings LtE a b = ordered (\<le>) a b"
| "compare_meanings Gt a b = ordered (>) a b"
| "compare_meanings GtE a b = ordered (\<ge>) a b"

definition method_meaning :: "Meaning \<Rightarrow> string \<Rightarrow> Meaning list \<Rightarrow> Meaning option" where
  "method_meaning m attr ms =
     (case (m, ms) of
        (MSeq xs, [MInt i]) \<Rightarrow>
          if i < 0 then None
          else if attr = ''take'' then Some (MSeq (take (nat i) xs))
          else if attr = ''drop'' then Some (MSeq (drop (nat i) xs)) else None
      | (MSeq xs, [MInt i, a]) \<Rightarrow>
          (case element_of a of
             Some x \<Rightarrow>
               if attr = ''update'' \<and> 0 \<le> i \<and> nat i < length xs \<and> same_kind (insert x (set xs))
               then Some (MSeq (xs[nat i := x])) else None
           | None \<Rightarrow> None)
      | (MBag M, [a]) \<Rightarrow>
          (case element_of a of
             Some x \<Rightarrow>
               if attr = ''num'' \<and> same_kind (insert x (set_mset M)) then Some (MInt (int (count M x))) else None
           | None \<Rightarrow> None)
      | _ \<Rightarrow> None)"

definition item_meaning :: "Meaning \<Rightarrow> Meaning \<Rightarrow> Meaning option" where
  "item_meaning a b =
     (case (a, b) of
        (MSeq xs, MInt i) \<Rightarrow>
          if 0 \<le> i \<and> nat i < length xs then Some (means_value (into_value (xs ! nat i))) else None
      | _ \<Rightarrow> None)"

fun constant_meaning :: "PyConstant \<Rightarrow> Meaning option" where
  "constant_meaning (ConstBool b) = Some (MBool b)"
| "constant_meaning (ConstInt i) = Some (MInt (int i))"
| "constant_meaning ConstNone = Some MUnit"
| "constant_meaning OtherConstant = None"

section \<open>Expressions\<close>

text \<open>
  \<open>classes\<close> are the classes of the module, \<open>shadowed\<close> the names that its functions and the locals of
  the function bind; a builtin means itself where nothing of the module has its name.
\<close>

inductive means ::
    "string set \<Rightarrow> string set \<Rightarrow> (string \<rightharpoonup> Meaning) \<Rightarrow> PyExpr \<Rightarrow> 64 word \<Rightarrow> Meaning \<Rightarrow> 64 word \<Rightarrow> bool"
  and means_all ::
    "string set \<Rightarrow> string set \<Rightarrow> (string \<rightharpoonup> Meaning) \<Rightarrow> PyExpr list \<Rightarrow> 64 word \<Rightarrow> Meaning list \<Rightarrow> 64 word \<Rightarrow> bool"
  and means_keys ::
    "string set \<Rightarrow> string set \<Rightarrow> (string \<rightharpoonup> Meaning) \<Rightarrow> PyExpr option list \<Rightarrow> PyExpr list \<Rightarrow> 64 word \<Rightarrow>
      ElementValue set \<Rightarrow> 64 word \<Rightarrow> bool"
  and means_operands ::
    "string set \<Rightarrow> string set \<Rightarrow> (string \<rightharpoonup> Meaning) \<Rightarrow> bool \<Rightarrow> PyExpr list \<Rightarrow> 64 word \<Rightarrow> bool \<Rightarrow> 64 word \<Rightarrow> bool"
  for classes shadowed \<rho>
where
  truth: "x = ''True'' \<and> b \<or> x = ''False'' \<and> \<not> b \<Longrightarrow> means classes shadowed \<rho> (Name x) n (MBool b) n"
| local: "\<rho> x = Some m \<Longrightarrow> x \<notin> {''True'', ''False''} \<Longrightarrow> means classes shadowed \<rho> (Name x) n m n"
| literal: "constant_meaning c = Some m \<Longrightarrow> means classes shadowed \<rho> (Constant c) n m n"
| list_display: "means_all classes shadowed \<rho> es n ms n' \<Longrightarrow> element_list ms = Some xs \<Longrightarrow>
    means classes shadowed \<rho> (List es) n (MList xs) n'"
| set_display: "means_all classes shadowed \<rho> es n ms n' \<Longrightarrow> element_list ms = Some xs \<Longrightarrow>
    means classes shadowed \<rho> (Set es) n (MPySet (set xs)) n'"
| dict_display: "means_keys classes shadowed \<rho> ks vs n A n' \<Longrightarrow> same_kind A \<Longrightarrow>
    means classes shadowed \<rho> (Dict ks vs) n (MDict A) n'"
| builtin: "means_all classes shadowed \<rho> es n ms n' \<Longrightarrow> builtin_meaning f ms = Some m \<Longrightarrow>
    f \<notin> classes \<union> shadowed \<Longrightarrow> means classes shadowed \<rho> (Call (Name f) es []) n m n'"
| object: "c \<in> classes \<Longrightarrow> c \<notin> shadowed \<Longrightarrow> n \<noteq> - 1 \<Longrightarrow>
    means classes shadowed \<rho> (Call (Name c) [] []) n (MObject c n) (n + 1)"
| method_call: "means classes shadowed \<rho> e n m n' \<Longrightarrow> means_all classes shadowed \<rho> es n' ms n'' \<Longrightarrow>
    method_meaning m attr ms = Some m' \<Longrightarrow> means classes shadowed \<rho> (Call (Attribute e attr) es []) n m' n''"
| binary: "means classes shadowed \<rho> l n a n' \<Longrightarrow> means classes shadowed \<rho> r n' b n'' \<Longrightarrow>
    binary_meaning op a b = Some m \<Longrightarrow> means classes shadowed \<rho> (BinOp l op r) n m n''"
| comparison: "means classes shadowed \<rho> l n a n' \<Longrightarrow> means classes shadowed \<rho> r n' b n'' \<Longrightarrow>
    compare_meanings op a b = Some t \<Longrightarrow> means classes shadowed \<rho> (Compare l [op] [r]) n (MBool t) n''"
| conjunction: "means_operands classes shadowed \<rho> True es n t n' \<Longrightarrow> es \<noteq> [] \<Longrightarrow>
    means classes shadowed \<rho> (And es) n (MBool t) n'"
| disjunction: "means_operands classes shadowed \<rho> False es n t n' \<Longrightarrow> es \<noteq> [] \<Longrightarrow>
    means classes shadowed \<rho> (Or es) n (MBool t) n'"
| negation: "means classes shadowed \<rho> e n (MBool t) n' \<Longrightarrow> means classes shadowed \<rho> (Not e) n (MBool (\<not> t)) n'"
| item: "means classes shadowed \<rho> e n a n' \<Longrightarrow> means classes shadowed \<rho> i n' b n'' \<Longrightarrow> item_meaning a b = Some m \<Longrightarrow>
    means classes shadowed \<rho> (Subscript e i) n m n''"
| all_nil: "means_all classes shadowed \<rho> [] n [] n"
| all_cons: "means classes shadowed \<rho> e n m n' \<Longrightarrow> means_all classes shadowed \<rho> es n' ms n'' \<Longrightarrow>
    means_all classes shadowed \<rho> (e # es) n (m # ms) n''"
| keys_nil: "ks = [] \<or> vs = [] \<Longrightarrow> means_keys classes shadowed \<rho> ks vs n {} n"
| keys_cons: "means classes shadowed \<rho> k n a n' \<Longrightarrow> element_of a = Some x \<Longrightarrow> means classes shadowed \<rho> v n' m n'' \<Longrightarrow>
    means_keys classes shadowed \<rho> ks vs n'' A n''' \<Longrightarrow>
    means_keys classes shadowed \<rho> (Some k # ks) (v # vs) n (insert x A) n'''"
| operands_nil: "means_operands classes shadowed \<rho> t [] n t n"
| operand_decides: "means classes shadowed \<rho> e n (MBool (\<not> t)) n' \<Longrightarrow>
    means_operands classes shadowed \<rho> t (e # es) n (\<not> t) n'"
| operand_continues: "means classes shadowed \<rho> e n (MBool t) n' \<Longrightarrow> means_operands classes shadowed \<rho> t es n' t' n'' \<Longrightarrow>
    means_operands classes shadowed \<rho> t (e # es) n t' n''"

section \<open>Functions\<close>

text \<open>Every assertion of a body holds when it is reached.\<close>

inductive assertions_hold ::
  "string set \<Rightarrow> string set \<Rightarrow> (string \<rightharpoonup> Meaning) \<Rightarrow> 64 word \<Rightarrow> PyStmt list \<Rightarrow> bool"
  for classes shadowed
where
  finished: "assertions_hold classes shadowed \<rho> n []"
| assigned: "means classes shadowed \<rho> e n m n' \<Longrightarrow> assertions_hold classes shadowed (\<rho>(x \<mapsto> m)) n' body \<Longrightarrow>
     assertions_hold classes shadowed \<rho> n (Assign [Name x] e comment # body)"
| asserted: "means classes shadowed \<rho> e n (MBool True) n' \<Longrightarrow> assertions_hold classes shadowed \<rho> n' body \<Longrightarrow>
     assertions_hold classes shadowed \<rho> n (Assert e msg offset # body)"

end
