(* ===== verification/Persistent_Soundness.thy ===== *)
theory Persistent_Soundness
  imports Persistent_Semantics
begin

text \<open>
  What the evaluator of persistent collections computes is what the expression means
  (\<open>Persistent_Semantics\<close>), for modules that keep the builtins' names to themselves and do not convert a
  conversion: the values it builds are well formed, and each of its operations is that of sequences,
  sets and multisets.
\<close>

section \<open>Well-formed values\<close>

text \<open>Elements have the common kind; sets, keys and what is projected from them do not repeat.\<close>

definition wf_elements :: "Elements \<Rightarrow> bool" where
  "wf_elements es \<longleftrightarrow> (\<forall>x \<in> set (element_values es). common_kind es = Some (element_kind x))"

definition wf_value :: "PersistentValue \<Rightarrow> bool" where
  "wf_value v \<longleftrightarrow>
     (case v of
        Sequence flavor es \<Rightarrow> wf_elements es \<and> (flavor = UnorderedProjection \<longrightarrow> distinct (element_values es))
      | PythonSet es \<Rightarrow> wf_elements es \<and> distinct (element_values es)
      | PersistentSet es \<Rightarrow> wf_elements es \<and> distinct (element_values es)
      | Multiset es \<Rightarrow> wf_elements es
      | Dictionary ks vs \<Rightarrow> wf_elements ks \<and> distinct (element_values ks) \<and> wf_elements vs
      | _ \<Rightarrow> True)"

lemma wf_value_simps [simp]:
  "wf_value (PersistentValue.Int i)" "wf_value (PersistentValue.Bool b)" "wf_value Unit"
  "wf_value (PersistentValue.Object c n)"
  "wf_value (Sequence PythonList es) \<longleftrightarrow> wf_elements es"
  "wf_value (Sequence Persistent es) \<longleftrightarrow> wf_elements es"
  "wf_value (Sequence UnorderedProjection es) \<longleftrightarrow> wf_elements es \<and> distinct (element_values es)"
  "wf_value (PythonSet es) \<longleftrightarrow> wf_elements es \<and> distinct (element_values es)"
  "wf_value (PersistentSet es) \<longleftrightarrow> wf_elements es \<and> distinct (element_values es)"
  "wf_value (Multiset es) \<longleftrightarrow> wf_elements es"
  "wf_value (Dictionary ks vs) \<longleftrightarrow> wf_elements ks \<and> distinct (element_values ks) \<and> wf_elements vs"
  by (simp_all add: wf_value_def)

lemma wf_into_value [simp]: "wf_value (into_value e)"
  by (cases e) auto

lemma inj_into_value: "inj into_value"
proof (rule injI)
  show "into_value x = into_value y \<Longrightarrow> x = y" for x y by (cases x; cases y) auto
qed

lemma into_value_eq [simp]: "into_value x = into_value y \<longleftrightarrow> x = y"
  using inj_into_value by (auto dest: injD)

lemma element_of_into_value [simp]: "element_of (means_value (into_value e)) = Some e"
  by (cases e) auto

lemma wf_elements_same_kind: "wf_elements es \<Longrightarrow> same_kind (set (element_values es))"
  unfolding same_kind_def wf_elements_def by (metis option.inject)

lemma wf_elements_none: "wf_elements es \<Longrightarrow> common_kind es = None \<Longrightarrow> element_values es = []"
  unfolding wf_elements_def by (cases "element_values es") auto

lemma elements_from_values_Ok [simp]: "elements_from_values vs = Inr es \<longleftrightarrow> vs = map into_value es"
  by (induction vs arbitrary: es) auto

lemma require_element_kind_Ok [simp]:
  "require_element_kind e k = Inr x \<longleftrightarrow> k = None \<or> k = Some (element_kind e)"
  by (auto simp: require_element_kind_def split: option.splits)

lemma require_each_kind_Ok [simp]:
  "require_each_kind es k = Inr x \<longleftrightarrow> k = None \<or> (\<forall>e \<in> set es. k = Some (element_kind e))"
  by (induction es) auto

lemma new_elements_Ok:
  assumes "new_elements vs = Inr es"
  shows "vs = map into_value (element_values es)" "wf_elements es"
proof -
  obtain xs u where vs: "elements_from_values vs = Inr xs"
    and kinds: "require_each_kind (drop 1 xs) (case xs of [] \<Rightarrow> None | x # _ \<Rightarrow> Some (element_kind x)) = Inr u"
    and es: "es = \<lparr>common_kind = (case xs of [] \<Rightarrow> None | x # _ \<Rightarrow> Some (element_kind x)), element_values = xs\<rparr>"
    using assms by (auto simp only: new_elements_def Let_def res_bind_eq_Inr sum.inject)
  show "vs = map into_value (element_values es)" using vs es by simp
  show "wf_elements es" using kinds by (cases xs) (simp_all add: es wf_elements_def)
qed

lemma those_Some_map: "those (map Some xs) = Some xs"
  by (induction xs) auto

lemma element_list_new_elements:
  assumes "new_elements vs = Inr es"
  shows "element_list (map means_value vs) = Some (element_values es)"
proof -
  note vs = new_elements_Ok[OF assms]
  have "map element_of (map means_value vs) = map Some (element_values es)" by (simp add: vs(1) comp_def)
  then show ?thesis by (simp add: element_list_def those_Some_map wf_elements_same_kind vs(2))
qed

section \<open>The operations on elements\<close>

lemma foldl_unique:
  "set (foldl (\<lambda>u e. if e \<in> set u then u else u @ [e]) acc xs) = set acc \<union> set xs \<and>
   (distinct acc \<longrightarrow> distinct (foldl (\<lambda>u e. if e \<in> set u then u else u @ [e]) acc xs))"
  by (induction xs arbitrary: acc) auto

lemma unique_elements_facts [simp]:
  "set (element_values (unique_elements es)) = set (element_values es)"
  "distinct (element_values (unique_elements es))"
  "common_kind (unique_elements es) = common_kind es"
  "wf_elements (unique_elements es) \<longleftrightarrow> wf_elements es"
  by (simp_all add: unique_elements_def wf_elements_def foldl_unique)

lemma compatible_kinds:
  assumes "require_compatible_kinds_typed (common_kind l) (common_kind r) = Inr u" "wf_elements l" "wf_elements r"
    "x \<in> set (element_values l) \<union> set (element_values r)"
  shows "either_kind (common_kind l) (common_kind r) = Some (element_kind x)"
proof -
  have "common_kind l = None \<or> common_kind r = None \<or> common_kind l = common_kind r"
    using assms(1) compatible_kinds_Ok by simp
  moreover have "common_kind l = Some (element_kind x) \<or> common_kind r = Some (element_kind x)"
    using assms(2-4) by (simp add: wf_elements_def) blast
  moreover have "common_kind r = Some (element_kind x)" if "common_kind l = None"
    using wf_elements_none[OF assms(2) that] assms(3,4) by (simp add: wf_elements_def)
  ultimately show ?thesis by (cases "common_kind l"; cases "common_kind r") (auto simp: either_kind_def)
qed

lemma compatible_same_kind:
  assumes "require_compatible_kinds_typed (common_kind l) (common_kind r) = Inr u" "wf_elements l" "wf_elements r"
  shows "same_kind (set (element_values l) \<union> set (element_values r))"
  unfolding same_kind_def using compatible_kinds[OF assms] by (metis option.inject)

lemma compatible_either_kind:
  assumes "require_compatible_kinds_typed (common_kind l) (common_kind r) = Inr u" "wf_elements l" "wf_elements r"
    "set xs \<subseteq> set (element_values l) \<union> set (element_values r)"
  shows "wf_elements \<lparr>common_kind = either_kind (common_kind l) (common_kind r), element_values = xs\<rparr>"
  using compatible_kinds[OF assms(1-3)] assms(4) by (auto simp: wf_elements_def)

lemma remove_first_mset:
  "remove_first x xs = (if x \<in> set xs then Some (remove1 x xs) else None)"
  by (induction xs) auto

lemma multiset_difference_mset:
  "mset (foldl (\<lambda>remaining e. case remove_first e remaining of None \<Rightarrow> remaining | Some rest \<Rightarrow> rest) xs ys) =
     mset xs - mset ys"
proof (induction ys arbitrary: xs)
  case (Cons y ys)
  have "mset (case remove_first y xs of None \<Rightarrow> xs | Some rest \<Rightarrow> rest) = mset xs - {#y#}"
    by (simp add: remove_first_mset diff_single_trivial)
  then show ?case by (simp add: Cons)
qed simp

lemma multisets_match_foldl:
  "foldl (\<lambda>(unmatched, matched) e.
      if matched then (case remove_first e unmatched of Some rest \<Rightarrow> (rest, True) | None \<Rightarrow> (unmatched, False))
      else (unmatched, matched)) (r, False) l = (r, False)"
  by (induction l) auto

lemma multisets_match_mset: "multisets_match l r \<longleftrightarrow> mset l = mset r"
proof (induction l arbitrary: r)
  case Nil
  show ?case by (auto simp: multisets_match_def)
next
  case (Cons x l)
  show ?case
  proof (cases "x \<in> set r")
    case True
    then have "multisets_match (x # l) r \<longleftrightarrow> multisets_match l (remove1 x r)"
      by (simp add: multisets_match_def remove_first_mset)
    also have "\<dots> \<longleftrightarrow> mset l = mset r - {#x#}" by (simp add: Cons)
    finally show ?thesis using True by (metis insert_DiffM add_mset_remove_trivial mset.simps(2) set_mset_mset)
  next
    case False
    then have "\<not> multisets_match (x # l) r"
      by (simp add: multisets_match_def remove_first_mset multisets_match_foldl)
    moreover have "mset (x # l) \<noteq> mset r" using False by (metis list.set_intros(1) mset_eq_setD)
    ultimately show ?thesis by simp
  qed
qed
section \<open>The operations on values\<close>

fun unordered :: "PersistentValue \<Rightarrow> bool" where
  "unordered (Sequence UnorderedProjection es) = True"
| "unordered v = False"

lemma unordered_into_value [simp]: "\<not> unordered (into_value e)"
  by (cases e) auto

definition sound_value :: "PersistentValue \<Rightarrow> Meaning option \<Rightarrow> bool" where
  "sound_value v m \<longleftrightarrow> wf_value v \<and> \<not> unordered v \<and> m = Some (means_value v)"

lemma concatenate_elements_Ok:
  "concatenate_elements l r = Inr es \<Longrightarrow>
     \<exists>u. require_compatible_kinds_typed (common_kind l) (common_kind r) = Inr u \<and>
         es = \<lparr>common_kind = either_kind (common_kind l) (common_kind r),
               element_values = element_values l @ element_values r\<rparr>"
  by (auto simp: concatenate_elements_def concatenate_typed_def)

lemma concatenate_elements_sound:
  assumes "concatenate_elements l r = Inr es" "wf_elements l" "wf_elements r"
  shows "wf_elements es" "same_kind (set (element_values l) \<union> set (element_values r))"
    "element_values es = element_values l @ element_values r"
  using concatenate_elements_Ok[OF assms(1)] compatible_either_kind[OF _ assms(2,3)]
    compatible_same_kind[OF _ assms(2,3)]
  by auto

lemma set_difference_sound:
  assumes "set_difference l r = Inr es" "wf_elements l" "wf_elements r" "distinct (element_values l)"
  shows "wf_elements es" "same_kind (set (element_values l) \<union> set (element_values r))"
    "set (element_values es) = set (element_values l) - set (element_values r)" "distinct (element_values es)"
proof -
  have "set (filter (\<lambda>e. e \<notin> set (element_values r)) (element_values l)) \<subseteq>
      set (element_values l) \<union> set (element_values r)" by auto
  then show "wf_elements es" "same_kind (set (element_values l) \<union> set (element_values r))"
    "set (element_values es) = set (element_values l) - set (element_values r)" "distinct (element_values es)"
    using assms(1,4) compatible_either_kind[OF _ assms(2,3)] compatible_same_kind[OF _ assms(2,3)]
    by (auto simp: set_difference_def require_compatible_kinds_def)
qed

lemma multiset_difference_sound:
  assumes "multiset_difference l r = Inr es" "wf_elements l" "wf_elements r"
  shows "wf_elements es" "same_kind (set (element_values l) \<union> set (element_values r))"
    "mset (element_values es) = mset (element_values l) - mset (element_values r)"
proof -
  obtain u where kinds: "require_compatible_kinds_typed (common_kind l) (common_kind r) = Inr u"
    and kind: "common_kind es = either_kind (common_kind l) (common_kind r)"
    and bag: "mset (element_values es) = mset (element_values l) - mset (element_values r)"
    using assms(1) by (auto simp: multiset_difference_def require_compatible_kinds_def multiset_difference_mset)
  show "same_kind (set (element_values l) \<union> set (element_values r))"
    by (rule compatible_same_kind[OF kinds assms(2,3)])
  show "mset (element_values es) = mset (element_values l) - mset (element_values r)" by (rule bag)
  have "set (element_values es) \<subseteq> set (element_values l)"
    by (metis bag in_diffD set_mset_mset subsetI)
  then show "wf_elements es"
    using compatible_either_kind[OF kinds assms(2,3), of "element_values es"] kind by (auto simp: wf_elements_def)
qed

lemma evaluate_binary_sound:
  assumes "evaluate_binary rendered op l r = Inr v" "wf_value l" "wf_value r"
  shows "sound_value v (binary_meaning op (means_value l) (means_value r))"
  using assms
  by (auto simp: evaluate_binary_def binary_meaning_def sound_value_def multiset_difference_sound set_difference_sound
      concatenate_elements_sound
      split: PyOperator.splits PersistentValue.splits SequenceFlavor.splits)
lemma distinct_lists_with_equal_sets:
  assumes "distinct xs" "distinct ys"
  shows "length xs = length ys \<and> list_all (\<lambda>e. e \<in> set ys) xs \<longleftrightarrow> set xs = set ys"
  using assms by (metis List.finite_set card_subset_eq distinct_card list_all_iff subset_code(1) subset_refl)

lemma comparable_equal_sound:
  assumes "comparable_equal l r = Inr b" "wf_value l" "wf_value r"
  shows "equal_meanings (means_value l) (means_value r) = Some b"
proof -
  have "comparable_equal_typed l r = Inr b" using assms(1) by (simp add: comparable_equal_def)
  then show ?thesis using assms(2,3) compatible_same_kind
    by (auto simp: comparable_equal_typed_def equal_meanings_def multisets_match_mset distinct_lists_with_equal_sets
        split: PersistentValue.splits SequenceFlavor.splits)
qed

lemma wf_Sequence: "wf_value (Sequence flavor es) \<Longrightarrow> wf_elements es"
  by (simp add: wf_value_def)

lemma members_Sequence [simp]: "members (means_value (Sequence flavor es)) = Some (set (element_values es))"
  by (cases flavor) simp_all

lemma meaning_size_Sequence:
  "wf_value (Sequence flavor es) \<Longrightarrow>
     meaning_size (means_value (Sequence flavor es)) = Some (length (element_values es))"
  by (cases flavor) (simp_all add: distinct_card)

lemma element_of_Some_iff: "element_of m = Some e \<longleftrightarrow> m = means_value (into_value e)"
  by (cases m; cases e) auto

lemma same_kind_insert:
  assumes "wf_elements es" "common_kind es = None \<or> common_kind es = Some (element_kind e)"
  shows "same_kind (insert e (set (element_values es)))"
proof -
  have "element_kind x = element_kind e" if "x \<in> set (element_values es)" for x
  proof -
    have "common_kind es = Some (element_kind x)" using assms(1) that by (simp add: wf_elements_def)
    then show ?thesis using assms(2) by simp
  qed
  then show ?thesis by (simp add: same_kind_def)
qed

lemma collection_contains_sound:
  assumes "collection_contains r l = Inr b" "wf_value r"
  shows "contained (means_value l) (means_value r) = Some b"
proof -
  obtain es e where "collection_elements r = Some es" "l = into_value e" "b = (e \<in> set (element_values es))"
    "common_kind es = None \<or> common_kind es = Some (element_kind e)"
    using assms(1) by (auto simp: collection_contains_def split: option.splits)
  moreover then have "members (means_value r) = Some (set (element_values es))" "wf_elements es"
    using assms(2) by (auto simp: collection_elements_def wf_value_def split: PersistentValue.splits)
  ultimately show ?thesis by (simp add: contained_def same_kind_insert)
qed

lemma evaluate_comparison_sound:
  assumes "evaluate_comparison op l r = Inr b" "wf_value l" "wf_value r"
  shows "compare_meanings op (means_value l) (means_value r) = Some b"
  using assms
  by (cases op)
    (auto simp: evaluate_comparison_def comparable_equal_sound collection_contains_sound identical_def
      object_identical_def ordered_def integer_pair_def split: PersistentValue.splits)

lemma evaluate_len_sound:
  assumes "evaluate_len v = Inr r" "wf_value v"
  shows "wf_value r" "\<not> unordered r" "map_option (\<lambda>k. MInt (int k)) (meaning_size (means_value v)) = Some (means_value r)"
  using assms
  by (auto simp: evaluate_len_def collection_length_def length_value_def distinct_card meaning_size_Sequence
      split: PersistentValue.splits option.splits if_splits)

lemma evaluate_to_seq_sound:
  assumes "evaluate_to_seq v = Inr r" "wf_value v" "\<not> unordered v"
  shows "wf_value r" "to_seq (means_value v) = Some (means_value r)"
  using assms wf_Sequence
  by (cases v rule: unordered.cases; auto simp: evaluate_to_seq_def)+

lemma evaluate_to_ms_sound:
  assumes "evaluate_to_ms v = Inr r" "wf_value v"
  shows "wf_value r" "\<not> unordered r" "to_bag (means_value v) = Some (means_value r)"
  using assms
  by (cases v rule: unordered.cases; auto simp: evaluate_to_ms_def mset_set_set)+

lemma sequence_item_sound:
  assumes "sequence_item v i = Inr r"
  shows "wf_value r" "\<not> unordered r" "item_meaning (means_value v) (MInt (int i)) = Some (means_value r)"
  using assms
  by (auto simp: sequence_item_def item_meaning_def split: PersistentValue.splits SequenceFlavor.splits if_splits)
lemma replace_element_sound:
  assumes "replace_element es i x = Inr v" "wf_elements es" "i < length (element_values es)"
  shows "sound_value v (method_meaning (MSeq (element_values es)) ''update'' [MInt (int i), means_value x])"
proof -
  obtain e where x: "x = into_value e" and kind: "common_kind es = None \<or> common_kind es = Some (element_kind e)"
    and v: "v = Sequence Persistent (es\<lparr>element_values := (element_values es)[i := e]\<rparr>)"
    using assms(1) by (auto simp: replace_element_def)
  have "common_kind es = Some (element_kind e)"
    using kind wf_elements_none[OF assms(2)] assms(3) by auto
  then have "wf_elements (es\<lparr>element_values := (element_values es)[i := e]\<rparr>)"
    using assms(2) set_update_subset_insert[of "element_values es" i e] by (auto simp: wf_elements_def)
  then show ?thesis
    using assms(3) by (simp add: sound_value_def v x method_meaning_def same_kind_insert[OF assms(2) kind])
qed

lemma count_mset_filter: "count (mset xs) x = length (filter (\<lambda>y. y = x) xs)"
  by (induction xs) auto

lemma multiplicity_sound:
  assumes "multiplicity es x = Inr v" "wf_elements es"
  shows "sound_value v (method_meaning (MBag (mset (element_values es))) ''num'' [means_value x])"
proof -
  obtain e where x: "x = into_value e" and kind: "common_kind es = None \<or> common_kind es = Some (element_kind e)"
    and v: "v = PersistentValue.Int (int (length (filter (\<lambda>y. y = e) (element_values es))))"
    using assms(1) by (auto simp: multiplicity_def length_value_def split: if_splits)
  show ?thesis
    by (cases e) (use same_kind_insert[OF assms(2) kind] in \<open>auto simp: sound_value_def v x method_meaning_def count_mset_filter\<close>)
qed

lemma index_value_Ok [simp]: "index_value v = Inr i \<longleftrightarrow> v = PersistentValue.Int (int i) \<and> i \<le> usize_max"
  by (auto simp: index_value_def split: PersistentValue.splits)

lemma boolean_operand_Ok [simp]: "boolean_operand code message v = Inr b \<longleftrightarrow> v = PersistentValue.Bool b"
  by (auto simp: boolean_operand_def split: PersistentValue.splits)

lemma take_drop_sound:
  assumes "wf_elements es"
  shows "wf_elements (es\<lparr>element_values := take i (element_values es)\<rparr>)"
    "wf_elements (es\<lparr>element_values := drop i (element_values es)\<rparr>)"
    "take (min i (length xs)) xs = take i xs" "drop (min i (length xs)) xs = drop i xs"
  using assms by (auto simp: wf_elements_def min_def dest: in_set_takeD in_set_dropD)

lemma put_dictionary_entry_keys:
  "fst ` set (put_dictionary_entry k v entries) = insert k (fst ` set entries)"
  "distinct (map fst entries) \<Longrightarrow> distinct (map fst (put_dictionary_entry k v entries))"
  by (induction k v entries rule: put_dictionary_entry.induct) (auto simp: rev_image_eqI)

section \<open>Values stay well formed\<close>

definition wf_environment :: "(string, PersistentValue) fmap \<Rightarrow> bool" where
  "wf_environment env \<longleftrightarrow> (\<forall>x v. fmlookup env x = Some v \<longrightarrow> wf_value v)"

lemma dictionary_value_sound:
  assumes "dictionary_value entries = Inr v" "distinct (map fst entries)"
  shows "wf_value v" "\<exists>A. fst ` set entries = into_value ` A \<and> same_kind A \<and> means_value v = MDict A" "\<not> unordered v"
proof -
  obtain ks vs where ks: "new_elements (map fst entries) = Inr ks" and vs: "new_elements (map snd entries) = Inr vs"
    and v: "v = Dictionary ks vs" using assms(1) by (auto simp: dictionary_value_def)
  note k = new_elements_Ok[OF ks]
  have "distinct (element_values ks)" using assms(2) k(1) by (simp add: distinct_map)
  then show "wf_value v" using new_elements_Ok(2)[OF ks] new_elements_Ok(2)[OF vs] by (simp add: v)
  show "\<not> unordered v" by (simp add: v)
  have "fst ` set entries = into_value ` set (element_values ks)"
    using arg_cong[OF k(1), of set] by simp
  then show "\<exists>A. fst ` set entries = into_value ` A \<and> same_kind A \<and> means_value v = MDict A"
    using wf_elements_same_kind[OF k(2)] v by auto
qed
declare evaluate_entries.simps [simp del] evaluate_named_call.simps [simp del] evaluate_method_call.simps [simp del]

lemma evaluate_entries_simps [simp]:
  "evaluate_entries dbg class_set env [] vs entries next = Inr (entries, next)"
  "evaluate_entries dbg class_set env (None # ks) vs entries next = Inr (entries, next)"
  "evaluate_entries dbg class_set env ks [] entries next = Inr (entries, next)"
  "evaluate_entries dbg class_set env (Some k # ks) (v # vs) entries next =
     res_bind (evaluate dbg class_set env k next) (\<lambda>(key, next).
     res_bind (evaluate dbg class_set env v next) (\<lambda>(v, next).
     evaluate_entries dbg class_set env ks vs (put_dictionary_entry key v entries) next))"
     apply (subst evaluate_entries.simps, simp)
    apply (subst evaluate_entries.simps, simp)
   apply (subst evaluate_entries.simps, simp split: list.splits option.splits)
  by (subst evaluate_entries.simps, simp)

definition convert :: "string \<Rightarrow> PersistentValue \<Rightarrow> (ContractFailure, PersistentValue) result" where
  "convert callee v =
     (if callee = ''ToSeq'' then evaluate_to_seq v
      else if callee = ''ToMS'' then evaluate_to_ms v else evaluate_len v)"

definition construct :: "string \<Rightarrow> Elements \<Rightarrow> PersistentValue" where
  "construct callee es =
     (if callee = ''PSeq'' then Sequence Persistent es
      else if callee = ''PSet'' then PersistentSet (unique_elements es) else Multiset es)"

text \<open>The three calls of a name that succeed.\<close>

lemma evaluate_named_call_Ok:
  assumes "evaluate_named_call dbg class_set env callee arguments n = Inr (v, n')"
  obtains
    (constructor) vs es where "callee \<in> CONSTRUCTORS" "evaluate_list dbg class_set env arguments n = Inr (vs, n')"
      "new_elements vs = Inr es" "v = construct callee es"
  | (conversion) argument a where "callee \<in> {''ToSeq'', ''ToMS'', ''len''}" "arguments = [argument]"
      "evaluate dbg class_set env argument n = Inr (a, n')" "convert callee a = Inr v"
  | (object) "callee \<in> class_set" "callee \<notin> CONSTRUCTORS" "arguments = []" "n \<noteq> - 1"
      "v = PersistentValue.Object callee n" "n' = n + 1"
proof (cases "callee \<in> CONSTRUCTORS")
  case True
  then have "res_bind (evaluate_list dbg class_set env arguments n) (\<lambda>(vs, n').
      res_bind (new_elements vs) (\<lambda>es. Inr (construct callee es, n'))) = Inr (v, n')"
    using assms by (auto simp: evaluate_named_call.simps CONSTRUCTORS_def construct_def split: if_splits)
  then show thesis using constructor[OF True] by auto
next
  case False
  note no_constructor = False
  show thesis
  proof (cases "(\<exists>argument. arguments = [argument]) \<and> callee \<in> {''ToSeq'', ''ToMS'', ''len''}")
    case True
    then obtain argument where argument: "arguments = [argument]" by blast
    then have "res_bind (evaluate dbg class_set env argument n) (\<lambda>(a, n').
        res_bind (convert callee a) (\<lambda>v. Inr (v, n'))) = Inr (v, n')"
      using assms no_constructor True
      by (simp add: evaluate_named_call.simps CONSTRUCTORS_def convert_def)
    then show thesis using conversion[OF _ argument] True by auto
  next
    case False
    have "(case (arguments, callee \<in> {''ToSeq'', ''ToMS'', ''len''}) of ([a], True) \<Rightarrow> f a | _ \<Rightarrow> g) = g"
      for f :: "PyExpr \<Rightarrow> (ContractFailure, PersistentValue \<times> 64 word) result" and g
      using False by (cases arguments; cases "tl arguments") auto
    then show thesis
      using assms no_constructor object
      by (simp add: evaluate_named_call.simps CONSTRUCTORS_def new_object_def split: if_splits)
  qed
qed

text \<open>The four methods.\<close>

lemma evaluate_method_call_Ok:
  assumes "evaluate_method_call dbg class_set env receiver attr arguments n = Inr (v, n')"
  obtains
    (slice) es argument i where "receiver = Sequence Persistent es" "arguments = [argument]"
      "attr = ''take'' \<or> attr = ''drop''"
      "evaluate dbg class_set env argument n = Inr (PersistentValue.Int (int i), n')"
      "v = Sequence Persistent (es\<lparr>element_values :=
         (if attr = ''take'' then take else drop) (min i (length (element_values es))) (element_values es)\<rparr>)"
  | (update) es index replacement i n'' x where "receiver = Sequence Persistent es" "arguments = [index, replacement]"
      "attr = ''update''" "evaluate dbg class_set env index n = Inr (PersistentValue.Int (int i), n'')"
      "i < length (element_values es)" "evaluate dbg class_set env replacement n'' = Inr (x, n')"
      "replace_element es i x = Inr v"
  | (num) es needle x where "receiver = Multiset es" "arguments = [needle]" "attr = ''num''"
      "evaluate dbg class_set env needle n = Inr (x, n')" "multiplicity es x = Inr v"
proof (cases receiver)
  case (Sequence flavor es)
  then have flavor: "flavor = Persistent"
    using assms by (cases flavor) (simp_all add: evaluate_method_call.simps)
  show thesis
  proof (cases arguments)
    case Nil
    then show thesis using assms by (simp add: evaluate_method_call.simps Sequence flavor)
  next
    case (Cons argument rest)
    show thesis
    proof (cases rest)
      case Nil
      then show thesis
        using assms slice[of es argument]
        by (auto simp: evaluate_method_call.simps Sequence flavor Cons split: if_splits)
    next
      case (Cons replacement more)
      then show thesis
        using assms update[of es argument replacement]
        by (cases more)
          (auto simp: evaluate_method_call.simps Sequence flavor \<open>arguments = argument # rest\<close> split: if_splits)
    qed
  qed
next
  case (Multiset es)
  then show thesis
    using assms num[of es]
    by (cases arguments; cases "tl arguments") (auto simp: evaluate_method_call.simps split: if_splits)
qed (use assms in \<open>simp_all add: evaluate_method_call.simps\<close>)
lemma evaluate_compare_Ok:
  assumes "evaluate dbg class_set env (Compare left ops comparators) n = Inr (v, n')"
  obtains op right l m r b where "ops = [op]" "comparators = [right]" "evaluate dbg class_set env left n = Inr (l, m)"
    "evaluate dbg class_set env right m = Inr (r, n')" "evaluate_comparison op l r = Inr b" "v = PersistentValue.Bool b"
proof -
  obtain op right where "ops = [op]" "comparators = [right]"
    using assms by (simp split: list.splits)
  then show thesis using assms that by auto
qed

lemma convert_wf:
  assumes "convert callee a = Inr v" "wf_value a"
  shows "wf_value v"
proof -
  have "wf_value v" if "evaluate_to_seq a = Inr v"
    using that assms(2) wf_Sequence by (auto simp: evaluate_to_seq_def split: PersistentValue.splits)
  then show ?thesis
    using assms evaluate_len_sound(1) evaluate_to_ms_sound(1) by (auto simp: convert_def split: if_splits)
qed

lemma wf_new_elements: "new_elements vs = Inr es \<Longrightarrow> wf_elements es"
  by (rule new_elements_Ok(2))

lemma sound_value_wf: "sound_value v m \<Longrightarrow> wf_value v"
  by (simp add: sound_value_def)

lemma evaluate_wf_mutual:
  "wf_environment env \<Longrightarrow> evaluate dbg class_set env expression next = Inr (v, next') \<Longrightarrow> wf_value v"
  "evaluate_list dbg class_set env expressions next = Inr (vs', next') \<Longrightarrow> length vs' = length expressions"
  "evaluate_entries dbg class_set env ks vs entries next = Inr (entries', next') \<Longrightarrow>
     distinct (map fst entries) \<Longrightarrow> distinct (map fst entries')"
  "evaluate_operands dbg class_set env conjunction operands next = Inr (v, next') \<Longrightarrow> \<exists>b. v = PersistentValue.Bool b"
  "wf_environment env \<Longrightarrow> evaluate_named_call dbg class_set env callee arguments next = Inr (v, next') \<Longrightarrow> wf_value v"
  "wf_value receiver \<Longrightarrow> evaluate_method_call dbg class_set env receiver attr arguments next = Inr (v, next') \<Longrightarrow>
     wf_value v"
proof (induction dbg class_set env expression "next" and dbg class_set env expressions "next"
    and dbg class_set env ks vs entries "next" and dbg class_set env conjunction operands "next"
    and dbg class_set env callee arguments "next" and dbg class_set env receiver attr arguments "next"
    arbitrary: v next' and vs' next' and entries' next' and v next' and v next' and v next'
    rule: evaluate_evaluate_list_evaluate_entries_evaluate_operands_evaluate_named_call_evaluate_method_call.induct)
  case (1 dbg class_set env name "next")
  then show ?case by (auto simp: wf_environment_def split: if_splits option.splits)
next
  case (2 dbg class_set env k "next")
  then show ?case by (auto simp: integer_literal_def split: PyConstant.splits if_splits)
next
  case (3 dbg class_set env elts "next")
  then show ?case by (auto intro: wf_new_elements)
next
  case (4 dbg class_set env elts "next")
  then show ?case by (auto intro: wf_new_elements)
next
  case (5 dbg class_set env ks vs "next")
  then show ?case by (auto split: if_splits intro: dictionary_value_sound(1))
next
  case (6 dbg class_set env func arguments named "next")
  note call = 6
  have named: "named = []" using call(5) by (auto split: if_splits)
  show ?case
  proof (cases func)
    case (Name callee)
    then show ?thesis using call(1)[of callee] call(4,5) named by simp
  next
    case (Attribute receiver attr)
    then obtain r n where "evaluate dbg class_set env receiver next = Inr (r, n)"
      "evaluate_method_call dbg class_set env r attr arguments n = Inr (v, next')"
      using call(5) named by auto
    then show ?thesis using call(2)[of receiver attr r n] call(3)[of receiver attr "(r, n)" r n v next'] call(4) named Attribute
      by simp
  qed (use call(5) named in simp_all)
next
  case (7 dbg class_set env left op right "next")
  then show ?case by (auto dest!: evaluate_binary_sound intro: sound_value_wf)
next
  case (8 dbg class_set env left ops comparators "next")
  from 8(4) show ?case by (rule evaluate_compare_Ok) simp
next
  case (17 dbg class_set env ks vs entries "next")
  then show ?case
    by (cases ks rule: list.exhaust; cases "hd ks"; cases vs) (auto simp: put_dictionary_entry_keys)
next
  case (20 dbg class_set env callee arguments "next")
  from 20(6) show ?case
  proof (cases rule: evaluate_named_call_Ok)
    case constructor
    then show ?thesis by (auto simp: construct_def dest: wf_new_elements)
  next
    case (conversion argument a)
    then have "wf_value a" using 20 by auto
    then show ?thesis using conversion convert_wf by blast
  qed simp
next
  case (21 dbg class_set env receiver attr arguments "next")
  from 21(6) show ?case
  proof (cases rule: evaluate_method_call_Ok)
    case slice
    then show ?thesis using 21 by (auto simp: take_drop_sound)
  next
    case update
    then show ?thesis using 21 by (auto dest: replace_element_sound sound_value_wf)
  next
    case num
    then show ?thesis using 21 by (auto dest: multiplicity_sound sound_value_wf)
  qed
qed (auto split: if_splits dest: sequence_item_sound(1))

end
