(* ===== verification/Persistent_Refinement.thy ===== *)
theory Persistent_Refinement
  imports Persistent_Soundness
begin

text \<open>
  The evaluator refines the meaning of expressions: a value it computes means what the expression
  means. The expressions must not convert a conversion (\<open>careful\<close>), because the evaluator would then
  give an order to an unordered collection.
\<close>

section \<open>Careful expressions\<close>

text \<open>\<open>U\<close> holds the locals that may be bound to the projection of an unordered collection.\<close>

definition may_be_unordered :: "string set \<Rightarrow> PyExpr \<Rightarrow> bool" where
  "may_be_unordered U e =
     (case e of Name x \<Rightarrow> x \<in> U | Call func arguments named \<Rightarrow> func = Name ''ToSeq'' | _ \<Rightarrow> False)"

fun careful :: "string set \<Rightarrow> PyExpr \<Rightarrow> bool"
  and careful_all :: "string set \<Rightarrow> PyExpr list \<Rightarrow> bool"
  and careful_keys :: "string set \<Rightarrow> PyExpr option list \<Rightarrow> bool" where
  "careful U (Name x) = True"
| "careful U (Constant c) = True"
| "careful U (List es) = careful_all U es"
| "careful U (Set es) = careful_all U es"
| "careful U (Dict ks vs) = (careful_keys U ks \<and> careful_all U vs)"
| "careful U (Call func arguments named) =
     (careful U func \<and> careful_all U arguments \<and>
      (func = Name ''ToSeq'' \<longrightarrow> list_all (\<lambda>e. \<not> may_be_unordered U e) arguments))"
| "careful U (Attribute e attr) = careful U e"
| "careful U (BinOp l op r) = (careful U l \<and> careful U r)"
| "careful U (Compare l ops rs) = (careful U l \<and> careful_all U rs)"
| "careful U (And es) = careful_all U es"
| "careful U (Or es) = careful_all U es"
| "careful U (Not e) = careful U e"
| "careful U (Subscript e i) = (careful U e \<and> careful U i)"
| "careful U (OtherExpr es) = True"
| "careful_all U [] = True"
| "careful_all U (e # es) = (careful U e \<and> careful_all U es)"
| "careful_keys U [] = True"
| "careful_keys U (None # ks) = careful_keys U ks"
| "careful_keys U (Some k # ks) = (careful U k \<and> careful_keys U ks)"

definition means_environment :: "(string, PersistentValue) fmap \<Rightarrow> string \<rightharpoonup> Meaning" where
  "means_environment env x = map_option means_value (fmlookup env x)"

text \<open>No name of the module hides a builtin, and no local hides a class.\<close>

definition unshadowed :: "string set \<Rightarrow> string set \<Rightarrow> bool" where
  "unshadowed class_set shadowed \<longleftrightarrow> (class_set \<union> shadowed) \<inter> BUILTINS = {} \<and> class_set \<inter> shadowed = {}"

definition tracked :: "string set \<Rightarrow> (string, PersistentValue) fmap \<Rightarrow> bool" where
  "tracked U env \<longleftrightarrow> (\<forall>x v. fmlookup env x = Some v \<longrightarrow> wf_value v \<and> (unordered v \<longrightarrow> x \<in> U))"

lemma tracked_wf: "tracked U env \<Longrightarrow> wf_environment env"
  by (simp add: tracked_def wf_environment_def)

text \<open>What the evaluator promises of a value.\<close>

abbreviation evaluates_to ::
  "string set \<Rightarrow> string set \<Rightarrow> (string, PersistentValue) fmap \<Rightarrow> string set \<Rightarrow> PyExpr \<Rightarrow> 64 word \<Rightarrow>
     PersistentValue \<Rightarrow> 64 word \<Rightarrow> bool" where
  "evaluates_to class_set shadowed env U e n v n' \<equiv>
     means class_set shadowed (means_environment env) e n (means_value v) n' \<and>
     (unordered v \<longrightarrow> may_be_unordered U e)"

section \<open>Calls\<close>

lemma construct_meaning:
  assumes "new_elements vs = Inr es" "callee \<in> CONSTRUCTORS"
  shows "builtin_meaning callee (map means_value vs) = Some (means_value (construct callee es))"
    "\<not> unordered (construct callee es)"
  using assms(2) element_list_new_elements[OF assms(1)]
  by (auto simp: CONSTRUCTORS_def builtin_meaning_def construct_def)

lemma convert_meaning:
  assumes "convert callee a = Inr v" "callee \<in> {''ToSeq'', ''ToMS'', ''len''}" "wf_value a"
    "callee = ''ToSeq'' \<longrightarrow> \<not> unordered a"
  shows "builtin_meaning callee [means_value a] = Some (means_value v)" "unordered v \<longrightarrow> callee = ''ToSeq''"
proof -
  consider "callee = ''ToSeq''" | "callee = ''ToMS''" | "callee = ''len''" using assms(2) by blast
  then have "builtin_meaning callee [means_value a] = Some (means_value v) \<and> (unordered v \<longrightarrow> callee = ''ToSeq'')"
  proof cases
    case 1
    then show ?thesis using assms evaluate_to_seq_sound(2)[of a v] by (simp add: convert_def builtin_meaning_def)
  next
    case 2
    then show ?thesis using assms evaluate_to_ms_sound(2,3)[of a v] by (simp add: convert_def builtin_meaning_def)
  next
    case 3
    then show ?thesis using assms evaluate_len_sound(2,3)[of a v] by (simp add: convert_def builtin_meaning_def)
  qed
  then show "builtin_meaning callee [means_value a] = Some (means_value v)" "unordered v \<longrightarrow> callee = ''ToSeq''"
    by blast+
qed

lemma named_call_refines:
  assumes call: "evaluate_named_call dbg class_set env callee arguments n = Inr (v, n')"
    and careful: "careful U (Call (Name callee) arguments [])" and env: "tracked U env" and names: "unshadowed class_set shadowed"
    and all: "\<And>vs n'. evaluate_list dbg class_set env arguments n = Inr (vs, n') \<Longrightarrow>
      means_all class_set shadowed (means_environment env) arguments n (map means_value vs) n'"
    and one: "\<And>e v n'. arguments = [e] \<Longrightarrow> evaluate dbg class_set env e n = Inr (v, n') \<Longrightarrow>
      evaluates_to class_set shadowed env U e n v n'"
  shows "evaluates_to class_set shadowed env U (Call (Name callee) arguments []) n v n'"
  using call
proof (cases rule: evaluate_named_call_Ok)
  case (constructor vs es)
  have "callee \<notin> class_set \<union> shadowed"
    using names constructor(1) by (auto simp: unshadowed_def BUILTINS_def)
  then show ?thesis
    using construct_meaning[OF constructor(3,1)] all[OF constructor(2)] constructor(4)
    by (auto intro: means_means_all_means_keys_means_operands.builtin)
next
  case (conversion argument a)
  note argument = one[OF conversion(2,3)]
  have wf: "wf_value a" by (rule evaluate_wf_mutual(1)[OF tracked_wf[OF env] conversion(3)])
  have ordered: "callee = ''ToSeq'' \<longrightarrow> \<not> unordered a"
    using careful argument conversion(2) by auto
  note meaning = convert_meaning[OF conversion(4,1) wf ordered]
  have "means_all class_set shadowed (means_environment env) [argument] n [means_value a] n'"
    using argument by (blast intro: means_means_all_means_keys_means_operands.all_cons means_means_all_means_keys_means_operands.all_nil)
  moreover have "callee \<notin> class_set \<union> shadowed"
    using names conversion(1) by (auto simp: unshadowed_def BUILTINS_def CONVERSIONS_def)
  ultimately show ?thesis
    using meaning conversion(2)
    by (auto simp: may_be_unordered_def intro: means_means_all_means_keys_means_operands.builtin)
next
  case object
  then have "callee \<notin> shadowed" using names by (auto simp: unshadowed_def)
  then show ?thesis
    using object by (auto intro: means_means_all_means_keys_means_operands.object)
qed
lemmas means_rules = means_means_all_means_keys_means_operands.intros

lemma means_one: "means c s \<rho> e n m n' \<Longrightarrow> means_all c s \<rho> [e] n [m] n'"
  by (blast intro: means_rules)

lemma means_two: "means c s \<rho> e n m n' \<Longrightarrow> means c s \<rho> e' n' m' n'' \<Longrightarrow> means_all c s \<rho> [e, e'] n [m, m'] n''"
  by (blast intro: means_rules)

lemma careful_all_iff: "careful_all U es \<longleftrightarrow> (\<forall>e \<in> set es. careful U e)"
  by (induction es) auto

lemma careful_keys_iff: "careful_keys U ks \<longleftrightarrow> (\<forall>k. Some k \<in> set ks \<longrightarrow> careful U k)"
proof (induction ks)
  case (Cons k ks)
  then show ?case by (cases k) auto
qed simp

text \<open>The expressions of a list refine their meanings.\<close>

definition all_refine ::
  "PersistentDebug \<Rightarrow> string set \<Rightarrow> string set \<Rightarrow> (string, PersistentValue) fmap \<Rightarrow> string set \<Rightarrow> PyExpr set \<Rightarrow> bool" where
  "all_refine dbg class_set shadowed env U es \<longleftrightarrow>
     (\<forall>e \<in> es. \<forall>n v n'. evaluate dbg class_set env e n = Inr (v, n') \<longrightarrow> evaluates_to class_set shadowed env U e n v n')"

lemma all_refineD:
  "all_refine dbg class_set shadowed env U es \<Longrightarrow> e \<in> es \<Longrightarrow> evaluate dbg class_set env e n = Inr (v, n') \<Longrightarrow>
     means class_set shadowed (means_environment env) e n (means_value v) n'"
  by (simp add: all_refine_def)

lemma all_refine_subset: "all_refine dbg class_set shadowed env U B \<Longrightarrow> A \<subseteq> B \<Longrightarrow> all_refine dbg class_set shadowed env U A"
  by (auto simp: all_refine_def)

lemma list_refines:
  "all_refine dbg class_set shadowed env U (set es) \<Longrightarrow> evaluate_list dbg class_set env es n = Inr (vs, n') \<Longrightarrow>
     means_all class_set shadowed (means_environment env) es n (map means_value vs) n'"
proof (induction es arbitrary: n vs)
  case Nil
  then show ?case by (simp add: means_rules)
next
  case (Cons e es)
  obtain v m vs' where e: "evaluate dbg class_set env e n = Inr (v, m)" and vs: "vs = v # vs'"
    and es: "evaluate_list dbg class_set env es m = Inr (vs', n')"
    using Cons.prems(2) by auto
  have "means class_set shadowed (means_environment env) e n (means_value v) m"
    by (rule all_refineD[OF Cons.prems(1) _ e]) simp
  moreover have "means_all class_set shadowed (means_environment env) es m (map means_value vs') n'"
    by (rule Cons.IH[OF all_refine_subset[OF Cons.prems(1)] es]) auto
  ultimately show ?case by (simp add: vs means_rules)
qed

lemma entries_refine:
  "all_refine dbg class_set shadowed env U ({k. Some k \<in> set ks} \<union> set es) \<Longrightarrow> None \<notin> set ks \<Longrightarrow>
     evaluate_entries dbg class_set env ks es entries n = Inr (entries', n') \<Longrightarrow>
     fst ` set entries' \<subseteq> range into_value \<Longrightarrow>
     \<exists>A. means_keys class_set shadowed (means_environment env) ks es n A n' \<and>
         fst ` set entries' = fst ` set entries \<union> into_value ` A"
proof (induction ks arbitrary: es entries n)
  case Nil
  then show ?case by (auto intro!: exI[of _ "{}"] means_rules)
next
  case (Cons k ks)
  show ?case
  proof (cases es)
    case Nil
    then show ?thesis using Cons by (auto intro!: exI[of _ "{}"] means_rules)
  next
    case (Cons e es')
    obtain key where key: "k = Some key" using Cons.prems(2) by (cases k) auto
    obtain a n1 v n2 where a: "evaluate dbg class_set env key n = Inr (a, n1)"
      and v: "evaluate dbg class_set env e n1 = Inr (v, n2)"
      and rest: "evaluate_entries dbg class_set env ks es' (put_dictionary_entry a v entries) n2 = Inr (entries', n')"
      using Cons.prems(3) by (auto simp: Cons key)
    have sub: "all_refine dbg class_set shadowed env U ({k. Some k \<in> set ks} \<union> set es')"
      by (rule all_refine_subset[OF Cons.prems(1)]) (auto simp: Cons)
    obtain A where A: "means_keys class_set shadowed (means_environment env) ks es' n2 A n'"
      and entries: "fst ` set entries' = fst ` set (put_dictionary_entry a v entries) \<union> into_value ` A"
      using Cons.IH[OF sub _ rest Cons.prems(4)] Cons.prems(2) by auto
    have "a \<in> range into_value" using entries Cons.prems(4) by (auto simp: put_dictionary_entry_keys)
    then obtain x where x: "a = into_value x" by blast
    have "means class_set shadowed (means_environment env) key n (means_value (into_value x)) n1"
      by (rule all_refineD[OF Cons.prems(1)]) (use a in \<open>simp_all add: key x\<close>)
    moreover have "means class_set shadowed (means_environment env) e n1 (means_value v) n2"
      by (rule all_refineD[OF Cons.prems(1) _ v]) (simp add: Cons)
    ultimately have "means_keys class_set shadowed (means_environment env) (k # ks) es n (insert x A) n'"
      using A by (auto simp: key Cons intro: means_rules)
    moreover have "fst ` set entries' = fst ` set entries \<union> into_value ` (insert x A)"
      using entries by (simp add: put_dictionary_entry_keys x)
    ultimately show ?thesis by blast
  qed
qed

lemma operands_refine:
  "all_refine dbg class_set shadowed env U (set es) \<Longrightarrow> evaluate_operands dbg class_set env t es n = Inr (v, n') \<Longrightarrow>
     \<exists>b. v = PersistentValue.Bool b \<and> means_operands class_set shadowed (means_environment env) t es n b n'"
proof (induction es arbitrary: n)
  case Nil
  then show ?case by (auto intro: means_rules)
next
  case (Cons e es)
  obtain b m where b: "evaluate dbg class_set env e n = Inr (PersistentValue.Bool b, m)"
    and rest: "(if b \<noteq> t then Inr (PersistentValue.Bool b, m) else evaluate_operands dbg class_set env t es m) = Inr (v, n')"
    using Cons.prems(2) by auto
  have e: "means class_set shadowed (means_environment env) e n (MBool b) m"
    using all_refineD[OF Cons.prems(1) _ b] by simp
  show ?case
  proof (cases "b = t")
    case True
    have "all_refine dbg class_set shadowed env U (set es)" by (rule all_refine_subset[OF Cons.prems(1)]) auto
    then obtain c where c: "v = PersistentValue.Bool c" "means_operands class_set shadowed (means_environment env) t es m c n'"
      using Cons.IH[of m] rest True by auto
    show ?thesis using c(1) means_rules(22)[OF _ c(2)] e True by blast
  next
    case False
    then show ?thesis using rest e means_rules(21)[of class_set shadowed "means_environment env" e n t m es] by auto
  qed
qed

lemma method_call_refines:
  assumes call: "evaluate_method_call dbg class_set env receiver attr arguments n = Inr (v, n')"
    and receiver: "wf_value receiver" and arg: "all_refine dbg class_set shadowed env U (set arguments)"
  shows "\<exists>ms. means_all class_set shadowed (means_environment env) arguments n ms n' \<and>
    method_meaning (means_value receiver) attr ms = Some (means_value v) \<and> \<not> unordered v"
  using call
proof (cases rule: evaluate_method_call_Ok)
  case (slice es argument i)
  then have "means_all class_set shadowed (means_environment env) arguments n [MInt (int i)] n'"
    using all_refineD[OF arg _ slice(4)] means_one by simp
  moreover have "method_meaning (means_value receiver) attr [MInt (int i)] = Some (means_value v)"
    using slice by (auto simp: method_meaning_def min_def)
  ultimately show ?thesis using slice(5) by auto
next
  case (update es index replacement i n'' x)
  then have "means_all class_set shadowed (means_environment env) arguments n [MInt (int i), means_value x] n'"
    using all_refineD[OF arg _ update(4)] all_refineD[OF arg _ update(6)] means_two by simp
  then show ?thesis
    using replace_element_sound[OF update(7) _ update(5)] receiver update(1,3) by (auto simp: sound_value_def)
next
  case (num es needle x)
  then have "means_all class_set shadowed (means_environment env) arguments n [means_value x] n'"
    using all_refineD[OF arg _ num(4)] means_one by simp
  then show ?thesis
    using multiplicity_sound[OF num(5)] receiver num(1,3) by (auto simp: sound_value_def)
qed
section \<open>Expressions\<close>

lemma size_in_list: "e \<in> set es \<Longrightarrow> size e \<le> size_list size es"
  by (induction es) auto

lemma size_in_keys: "Some k \<in> set ks \<Longrightarrow> size k \<le> size_list (size_option size) ks"
  by (induction ks) auto

lemma evaluate_refines_meaning:
  assumes env: "tracked U env" and names: "unshadowed class_set shadowed"
  shows "careful U e \<Longrightarrow> evaluate dbg class_set env e n = Inr (v, n') \<Longrightarrow>
    evaluates_to class_set shadowed env U e n v n'"
proof (induction e arbitrary: n v n' rule: measure_induct_rule[where f = size])
  case (less e)
  note wf = evaluate_wf_mutual(1)[OF tracked_wf[OF env]]
  have sub: "means class_set shadowed (means_environment env) e' k (means_value w) k'"
    if "size e' < size e" "careful U e'" "evaluate dbg class_set env e' k = Inr (w, k')" for e' k w k'
    using less.IH[OF that] by blast
  have subs: "all_refine dbg class_set shadowed env U (set es)" if "careful_all U es" "size_list size es < size e" for es
    using that less.IH size_in_list[of _ es] unfolding all_refine_def careful_all_iff by (meson le_less_trans)
  show ?case
  proof (cases e)
    case (Name x)
    then show ?thesis
      using less.prems(2) env
      by (auto simp: tracked_def means_environment_def may_be_unordered_def split: if_splits option.splits
          intro: means_rules(1,2))
  next
    case (Constant k)
    then show ?thesis
      using less.prems(2) by (cases k) (auto simp: integer_literal_def split: if_splits intro!: means_rules(3))
  next
    case (List es)
    obtain vs es' where vs: "evaluate_list dbg class_set env es n = Inr (vs, n')" and es': "new_elements vs = Inr es'"
      and v: "v = Sequence PythonList es'" using less.prems(2) by (auto simp: List)
    have "means_all class_set shadowed (means_environment env) es n (map means_value vs) n'"
      by (rule list_refines[OF subs vs]) (use less.prems(1) List in simp_all)
    then show ?thesis using element_list_new_elements[OF es'] by (simp add: List v means_rules(4))
  next
    case (Set es)
    obtain vs es' where vs: "evaluate_list dbg class_set env es n = Inr (vs, n')" and es': "new_elements vs = Inr es'"
      and v: "v = PythonSet (unique_elements es')" using less.prems(2) by (auto simp: Set)
    have "means_all class_set shadowed (means_environment env) es n (map means_value vs) n'"
      by (rule list_refines[OF subs vs]) (use less.prems(1) Set in simp_all)
    then show ?thesis using element_list_new_elements[OF es'] by (simp add: Set v means_rules(5))
  next
    case (Dict ks es)
    obtain entries where none: "None \<notin> set ks" and entries: "evaluate_entries dbg class_set env ks es [] n = Inr (entries, n')"
      and v: "dictionary_value entries = Inr v"
      using less.prems(2) by (auto simp: Dict list_ex_iff split: if_splits)
    have "distinct (map fst entries)" using evaluate_wf_mutual(3)[OF entries] by simp
    note dictionary = dictionary_value_sound[OF v this]
    obtain A where A: "fst ` set entries = into_value ` A" "same_kind A" "means_value v = MDict A"
      using dictionary(2) by blast
    have refine: "all_refine dbg class_set shadowed env U ({k. Some k \<in> set ks} \<union> set es)"
      unfolding all_refine_def
    proof (intro ballI allI impI)
      fix e' m w m'
      assume e': "e' \<in> {k. Some k \<in> set ks} \<union> set es" and run: "evaluate dbg class_set env e' m = Inr (w, m')"
      have "size e' < size e" using e' size_in_keys[of e' ks] size_in_list[of e' es] by (auto simp: Dict)
      moreover have "careful U e'" using e' less.prems(1) by (auto simp: Dict careful_all_iff careful_keys_iff)
      ultimately show "evaluates_to class_set shadowed env U e' m w m'" using less.IH run by blast
    qed
    have "fst ` set entries \<subseteq> range into_value" using A(1) by blast
    from entries_refine[OF refine none entries this] obtain B where B: "means_keys class_set shadowed (means_environment env) ks es n B n'"
      and keys: "fst ` set entries = into_value ` B"
      by auto
    have "B = A" using keys A(1) inj_into_value by (simp add: inj_image_eq_iff)
    then show ?thesis using B A dictionary(3) by (simp add: Dict means_rules(6))
  next
    case (Call func arguments named)
    then have named: "named = []" using less.prems(2) by (auto split: if_splits)
    have arguments: "all_refine dbg class_set shadowed env U (set arguments)"
      by (rule subs) (use less.prems(1) Call in simp_all)
    show ?thesis
    proof (cases func)
      case (Name callee)
      have "evaluate_named_call dbg class_set env callee arguments n = Inr (v, n')"
        using less.prems(2) by (simp add: Call named Name)
      moreover have "careful U (Call (Name callee) arguments [])" using less.prems(1) by (simp add: Call named Name)
      ultimately show ?thesis
        unfolding Call named Name
        by (rule named_call_refines[OF _ _ env names])
          (use arguments list_refines in \<open>auto simp: all_refine_def\<close>)
    next
      case (Attribute receiver attr)
      obtain r m where r: "evaluate dbg class_set env receiver n = Inr (r, m)"
        and call: "evaluate_method_call dbg class_set env r attr arguments m = Inr (v, n')"
        using less.prems(2) by (auto simp: Call named Attribute)
      have "means class_set shadowed (means_environment env) receiver n (means_value r) m"
        by (rule sub[OF _ _ r]) (use less.prems(1) in \<open>simp_all add: Call Attribute\<close>)
      then show ?thesis
        using method_call_refines[OF call wf[OF r] arguments] means_rules(9) by (auto simp: Call named Attribute)
    qed (use less.prems(2) in \<open>simp_all add: Call named\<close>)
  next
    case (BinOp l op r)
    obtain a m b where a: "evaluate dbg class_set env l n = Inr (a, m)" and b: "evaluate dbg class_set env r m = Inr (b, n')"
      and v: "evaluate_binary (debug_operation dbg l op r) op a b = Inr v" using less.prems(2) by (auto simp: BinOp)
    show ?thesis
      using sub[OF _ _ a] sub[OF _ _ b] evaluate_binary_sound[OF v wf[OF a] wf[OF b]] less.prems(1)
      by (auto simp: BinOp sound_value_def intro: means_rules(10))
  next
    case (Compare l ops rs)
    from less.prems(2)[unfolded Compare] show ?thesis
    proof (cases rule: evaluate_compare_Ok)
      case (1 op right a m b t)
      then show ?thesis
        using sub[OF _ _ 1(3)] sub[OF _ _ 1(4)] evaluate_comparison_sound[OF 1(5) wf[OF 1(3)] wf[OF 1(4)]] less.prems(1)
        by (auto simp: Compare intro: means_rules(11))
    qed
  next
    case (And es)
    have es: "es \<noteq> []" "evaluate_operands dbg class_set env True es n = Inr (v, n')"
      using less.prems(2) by (auto simp: And split: if_splits)
    show ?thesis
      using operands_refine[OF subs es(2)] less.prems(1) es(1) by (auto simp: And intro: means_rules(12))
  next
    case (Or es)
    have es: "es \<noteq> []" "evaluate_operands dbg class_set env False es n = Inr (v, n')"
      using less.prems(2) by (auto simp: Or split: if_splits)
    show ?thesis
      using operands_refine[OF subs es(2)] less.prems(1) es(1) by (auto simp: Or intro: means_rules(13))
  next
    case (Not e')
    obtain b where b: "evaluate dbg class_set env e' n = Inr (PersistentValue.Bool b, n')"
      and v: "v = PersistentValue.Bool (\<not> b)" using less.prems(2) by (auto simp: Not)
    show ?thesis using sub[OF _ _ b] less.prems(1) by (simp add: Not v means_rules(14))
  next
    case (Subscript receiver index)
    obtain a m i where a: "evaluate dbg class_set env receiver n = Inr (a, m)"
      and i: "evaluate dbg class_set env index m = Inr (PersistentValue.Int (int i), n')"
      and v: "sequence_item a i = Inr v" using less.prems(2) by (auto simp: Subscript)
    show ?thesis
      using sub[OF _ _ a] sub[OF _ _ i] sequence_item_sound[OF v] less.prems(1)
      by (auto simp: Subscript intro: means_rules(15))
  qed (use less.prems(2) in simp_all)
qed

end
