(* ===== verification/Persistent_Properties.thy ===== *)
theory Persistent_Properties
  imports Persistent_Refinement Obligation_Properties
begin

text \<open>
  The properties of the persistent-collection frontend: evaluation refines the meaning of
  expressions, the assertions of a verified module hold, and a conversion of a conversion reads an
  order out of a set.
\<close>

section \<open>Names\<close>

definition assigned_name :: "PyStmt \<Rightarrow> string set" where
  "assigned_name statement = (case statement of Assign [Name x] e comment \<Rightarrow> {x} | _ \<Rightarrow> {})"

definition assigned_names :: "PyStmt list \<Rightarrow> string set" where
  "assigned_names body = \<Union> (assigned_name ` set body)"

text \<open>The names a shape declares leave the persistent builtins alone.\<close>

definition clean_shape :: "ModuleShape \<Rightarrow> bool" where
  "clean_shape shape \<longleftrightarrow> (\<forall>x \<in> declared_classes shape \<union> fmdom' (function_map shape). \<not> shadows_builtin x)"

lemma shape_statement_clean:
  "shape_statement dbg statement shape = Inr shape' \<Longrightarrow> clean_shape shape \<Longrightarrow> clean_shape shape'"
  by (cases statement) (auto simp: shape_statement_def clean_shape_def Let_def split: if_splits)

lemma shape_loop_clean:
  "sticky_loop (shape_statement dbg) suite shape = Inr shape' \<Longrightarrow> clean_shape shape \<Longrightarrow> clean_shape shape'"
  by (induction suite arbitrary: shape) (auto intro: shape_statement_clean)

lemma validate_module_shape_facts:
  assumes "validate_module_shape dbg suite = Inr shape"
  shows "clean_shape shape" "declared_classes shape \<inter> fmdom' (function_map shape) = {}"
proof -
  have "clean_shape \<lparr>canonical_import = False, declared_classes = {}, function_map = fmempty\<rparr>"
    by (simp add: clean_shape_def)
  then show "clean_shape shape"
    using assms shape_loop_clean by (auto simp: validate_module_shape_def split: if_splits)
  show "declared_classes shape \<inter> fmdom' (function_map shape) = {}"
    using assms by (auto simp: validate_module_shape_def contains_key_def fmdom'_notI split: if_splits)
qed

section \<open>Bodies\<close>

text \<open>Careful bodies track the locals bound to a conversion.\<close>

fun careful_body :: "string set \<Rightarrow> PyStmt list \<Rightarrow> bool" where
  "careful_body U [] = True"
| "careful_body U (statement # body) =
     (case statement of
        Assign [Name x] e comment \<Rightarrow>
          careful U e \<and> careful_body (if may_be_unordered U e then insert x U else U - {x}) body
      | Assert e msg offset \<Rightarrow> careful U e \<and> careful_body U body
      | _ \<Rightarrow> careful_body U body)"

lemma persistent_parts_Some:
  assumes "persistent_parts v = Some (constructor, es, rebuild)" "wf_value v" "wf_elements fs"
    "element_values fs = element_values es"
  shows "wf_value (rebuild fs)" "means_value (rebuild fs) = means_value v" "\<not> unordered (rebuild fs)" "wf_elements es"
  using assms by (cases v rule: unordered.cases; auto simp: persistent_parts_def)+

lemma apply_type_comment_keeps:
  assumes "apply_type_comment v comment = Inr w" "wf_value v"
  shows "wf_value w" "means_value w = means_value v" "\<not> unordered w"
proof -
  obtain constructor kind es rebuild where parts: "persistent_parts v = Some (constructor, es, rebuild)"
    and kinds: "require_compatible_kinds_typed (common_kind es) (Some kind) = Inr ()"
    and w: "w = rebuild (es\<lparr>common_kind := Some kind\<rparr>)"
    using assms(1)
    by (auto simp: apply_type_comment_def require_compatible_kinds_def split: option.splits if_splits prod.splits)
  have es: "wf_elements es" using assms(2) parts by (cases v rule: unordered.cases) (auto simp: persistent_parts_def)
  have "common_kind es = None \<or> common_kind es = Some kind" using kinds by (simp add: compatible_kinds_Ok)
  then have "wf_elements (es\<lparr>common_kind := Some kind\<rparr>)"
  proof
    assume "common_kind es = None"
    from wf_elements_none[OF es this] show ?thesis by (simp add: wf_elements_def)
  next
    assume "common_kind es = Some kind"
    then have "es\<lparr>common_kind := Some kind\<rparr> = es" by simp
    then show ?thesis using es by simp
  qed
  from persistent_parts_Some(1-3)[OF parts assms(2) this]
  show "wf_value w" "means_value w = means_value v" "\<not> unordered w" by (simp_all add: w)
qed

lemma assign_statement_Ok:
  assumes "assign_statement dbg class_set targets e comment self = Inr self'"
  obtains x v w n where "targets = [Name x]" "\<not> shadows_builtin x"
    "evaluate dbg class_set (environment self) e (next_object_identity self) = Inr (v, n)"
    "w = v \<or> (\<exists>c. apply_type_comment v c = Inr w)"
    "self' = self\<lparr>environment := fmupd x w (environment self), next_object_identity := n\<rparr>"
proof -
  obtain x where x: "targets = [Name x]" using assms by (auto simp: assign_statement_def split: list.splits PyExpr.splits)
  obtain v n w where "\<not> shadows_builtin x"
    "evaluate dbg class_set (environment self) e (next_object_identity self) = Inr (v, n)"
    "(case comment of None \<Rightarrow> Inr v | Some c \<Rightarrow> apply_type_comment v c) = Inr w"
    "self' = self\<lparr>environment := fmupd x w (environment self), next_object_identity := n\<rparr>"
    using assms by (auto simp: assign_statement_def x split: if_splits)
  moreover from this(3) have "w = v \<or> (\<exists>c. apply_type_comment v c = Inr w)" by (auto split: option.splits)
  ultimately show thesis using that x by blast
qed

lemma means_environment_update:
  "means_environment (fmupd x v env) = (means_environment env)(x \<mapsto> means_value v)"
  by (rule ext) (simp add: means_environment_def)

lemma run_statements_sound:
  "run_statements dbg class_set name body self asserted = Inr conditions \<Longrightarrow> tracked U (environment self) \<Longrightarrow>
     unshadowed class_set shadowed \<Longrightarrow> careful_body U body \<Longrightarrow> list_all snd conditions \<Longrightarrow>
     assertions_hold class_set shadowed (means_environment (environment self)) (next_object_identity self) body \<and>
     list_all snd asserted"
proof (induction body arbitrary: self asserted U)
  case Nil
  then show ?case by (auto intro: assertions_hold.finished)
next
  case (Cons statement body)
  show ?case
  proof (cases statement)
    case (Assign targets e comment)
    obtain self' where assign: "assign_statement dbg class_set targets e comment self = Inr self'"
      and rest: "run_statements dbg class_set name body self' asserted = Inr conditions"
      using Cons.prems(1) by (auto simp: Assign)
    from assign show ?thesis
    proof (cases rule: assign_statement_Ok)
      case (1 x v w n)
      let ?U = "if may_be_unordered U e then insert x U else U - {x}"
      have e: "careful U e" "careful_body ?U body" using Cons.prems(4) by (simp_all add: Assign 1(1))
      note value_sound = evaluate_refines_meaning[OF Cons.prems(2,3) e(1) 1(3)]
      have wf: "wf_value v" by (rule evaluate_wf_mutual(1)[OF tracked_wf[OF Cons.prems(2)] 1(3)])
      have w: "wf_value w" "means_value w = means_value v" "unordered w \<longrightarrow> may_be_unordered U e"
        using 1(4) wf value_sound apply_type_comment_keeps by auto
      have "tracked ?U (environment self')" using Cons.prems(2) w by (auto simp: 1(5) tracked_def)
      then have "assertions_hold class_set shadowed (means_environment (environment self')) (next_object_identity self') body \<and>
          list_all snd asserted"
        using Cons.IH[OF rest _ Cons.prems(3) e(2) Cons.prems(5)] by blast
      then show ?thesis
        using value_sound w(2)
        by (auto simp: Assign 1(1) 1(5) means_environment_update intro: assertions_hold.assigned)
    qed
  next
    case (Assert e msg offset)
    obtain b n where e: "evaluate dbg class_set (environment self) e (next_object_identity self) = Inr (PersistentValue.Bool b, n)"
      and rest: "run_statements dbg class_set name body (self\<lparr>next_object_identity := n\<rparr>) (asserted @ [(offset, b)]) = Inr conditions"
      using Cons.prems(1) by (auto simp: Assert assert_statement_def split: if_splits)
    have careful: "careful U e" "careful_body U body" using Cons.prems(4) by (simp_all add: Assert)
    have IH: "assertions_hold class_set shadowed (means_environment (environment self)) n body \<and>
        list_all snd (asserted @ [(offset, b)])"
      using Cons.IH[OF rest _ Cons.prems(3) careful(2) Cons.prems(5)] Cons.prems(2) by simp
    have "means class_set shadowed (means_environment (environment self)) e (next_object_identity self) (MBool b) n"
      using evaluate_refines_meaning[OF Cons.prems(2,3) careful(1) e] by simp
    then show ?thesis using IH by (auto simp: Assert intro: assertions_hold.asserted)
  qed (use Cons.prems(1) in simp_all)
qed

lemma run_statements_locals:
  "run_statements dbg class_set name body self asserted = Inr conditions \<Longrightarrow> x \<in> assigned_names body \<Longrightarrow> \<not> shadows_builtin x"
proof (induction body arbitrary: self asserted)
  case (Cons statement body)
  show ?case
  proof (cases statement)
    case (Assign targets e comment)
    obtain self' where assign: "assign_statement dbg class_set targets e comment self = Inr self'"
      and rest: "run_statements dbg class_set name body self' asserted = Inr conditions"
      using Cons.prems(1) by (auto simp: Assign)
    from assign obtain y where "targets = [Name y]" "\<not> shadows_builtin y" by (rule assign_statement_Ok)
    then show ?thesis using Cons.IH[OF rest] Cons.prems(2) by (auto simp: assigned_names_def assigned_name_def Assign)
  next
    case (Assert e msg offset)
    then show ?thesis
      using Cons by (auto simp: assigned_names_def assigned_name_def)
  qed (use Cons.prems(1) in simp_all)
qed (simp add: assigned_names_def)

section \<open>Obligations\<close>

lemma discharge_persistent_obligation:
  assumes "decides_constants query" "discharge query (persistent_obligation name concluded source path offset) = Ok r"
  shows "satisfied r \<longleftrightarrow> concluded"
  using assms
  by (cases concluded)
    (auto simp: decides_constants_def discharge_def persistent_obligation_def term_sort_def Let_def
      is_exact_sorted_adjacent_order_theorem_def obligation_result_def solver_status_def satisfied_def)

lemma verify_functions_member:
  "verify_functions dbg class_set selected source path = Inr obligations \<Longrightarrow> (name, f) \<in> set selected \<Longrightarrow>
     \<exists>own. verify_function dbg class_set f source path = Inr own \<and> set own \<subseteq> set obligations"
  by (induction selected arbitrary: obligations) fastforce+

lemma verify_functions_constant:
  "verify_functions dbg class_set selected source path = Inr obligations \<Longrightarrow> ob \<in> set obligations \<Longrightarrow>
     \<exists>name concluded offset. ob = persistent_obligation name concluded source path offset"
proof (induction selected arbitrary: obligations)
  case (Cons selection selected)
  then show ?case
    by (cases selection) (fastforce simp: verify_function_def assertion_obligation_def split: if_splits prod.splits)
qed simp
section \<open>Evaluation\<close>

text \<open>
  Property C13. For careful expressions (no conversion of what may be
  a conversion), where no name of the module hides a builtin or a class and the variables that may
  hold a value without an order are tracked: what the expression evaluates to is well formed and is
  what the expression means: sequences, sets and multisets have the elements that Python's
  operations give them, objects the identity of their construction, comparisons the truth of the
  meanings. Only a conversion may give a value without an order. Without the restriction to careful
  expressions this is false, as the last property of this theory shows.
\<close>
theorem evaluation_refines_meaning:
  assumes "tracked U env" and "unshadowed class_set shadowed" and "careful U e"
    and "evaluate dbg class_set env e n = Ok (v, n')"
  shows "wf_value v \<and> means class_set shadowed (means_environment env) e n (means_value v) n' \<and>
    (unordered v \<longrightarrow> may_be_unordered U e)"
  using evaluate_refines_meaning [OF assms] evaluate_wf_mutual(1) [OF tracked_wf [OF assms(1)] assms(4)] by blast

definition no_debug :: PersistentDebug where
  "no_debug = \<lparr>debug_identifier = (\<lambda>_. []), debug_constant = (\<lambda>_. []), debug_expression = (\<lambda>_. []),
     debug_operation = (\<lambda>_ _ _. []), debug_statement = (\<lambda>_. [])\<rparr>"

definition number :: "nat \<Rightarrow> PyExpr" where
  "number i = Constant (ConstInt i)"

definition builtin_call :: "string \<Rightarrow> PyExpr list \<Rightarrow> PyExpr" where
  "builtin_call f arguments = Call (Name f) arguments []"

definition united_sets :: PyExpr where
  "united_sets = BinOp (builtin_call ''PSet'' [number 1, number 2, number 1]) Add (builtin_call ''PSet'' [number 3])"

lemma means_environment_empty [simp]: "means_environment fmempty = Map.empty"
  by (rule ext) (simp add: means_environment_def)

lemma tracked_empty [simp]: "tracked U fmempty"
  by (simp add: tracked_def)

lemma united_sets_evaluate:
  "evaluate no_debug {} fmempty united_sets 0 =
     Ok (PersistentSet \<lparr>common_kind = Some ElementKind.Int, element_values = map ElementValue.Int [1, 2, 3]\<rparr>, 0)"
  by (simp add: united_sets_def builtin_call_def number_def evaluate_named_call.simps integer_literal_def new_elements_def
      element_from_value_def require_element_kind_def evaluate_binary_def concatenate_elements_def concatenate_typed_def
      unique_elements_def either_kind_def or_contract_failure_def)

theorem evaluation_refines_meaning_witness:
  "means {} {} Map.empty united_sets 0 (MSet (ElementValue.Int ` {1, 2, 3})) 0"
  using evaluation_refines_meaning [OF _ _ _ united_sets_evaluate, of "{}" "{}"]
  by (simp add: unshadowed_def united_sets_def builtin_call_def number_def)

section \<open>Modules\<close>

text \<open>
  Property C12. In a verified module that passes, every assertion of a
  selected function that is careful (it converts no value that may be a conversion), in a module with
  nothing named \<open>len\<close> and no local of the function named like a class, holds when the function is
  called: the statements before it evaluate, in Python's order, to the values that make its condition
  true. The solver only has to decide the two constants. That no name hides one of the other builtins
  is what the frontend checks. For functions that are not careful this is false, as the last property
  of this theory shows.
\<close>
theorem passed_assertions_hold:
  assumes "decides_constants query"
    and "verify_persistent_collection_module dbg query (Ok suite) source path requested_symbols = Ok (Some v)"
    and "verification_passed v" and "validate_module_shape dbg suite = Ok shape"
    and "(name, f) \<in> set (selected_functions shape requested_symbols)"
    and "''len'' \<notin> declared_classes shape \<union> fmdom' (function_map shape) \<union> assigned_names (pf_body f)"
    and "declared_classes shape \<inter> assigned_names (pf_body f) = {}" and "careful_body {} (pf_body f)"
  shows "assertions_hold (declared_classes shape) (fmdom' (function_map shape) \<union> assigned_names (pf_body f))
    Map.empty 0 (pf_body f)"
proof -
  let ?shadowed = "fmdom' (function_map shape) \<union> assigned_names (pf_body f)"
  obtain obligations answers where obligations:
      "verify_functions dbg (declared_classes shape) (selected_functions shape requested_symbols) source path = Ok obligations"
    and answers: "discharge_all query obligations = Ok answers" "list_all satisfied answers"
    using assms(2-4)
    by (auto simp: verify_persistent_collection_module_def Let_def split: if_splits option.splits)
  have "list_all satisfied answers \<longleftrightarrow> (\<forall>ob \<in> set obligations. conclusion ob = Term.Bool True)"
    using verify_functions_constant [OF obligations] discharge_persistent_obligation [OF assms(1)]
    by (intro discharge_all_satisfied [OF answers(1)]) (force simp: persistent_obligation_def Let_def)
  then have true: "\<forall>ob \<in> set obligations. conclusion ob = Term.Bool True" using answers(2) by simp
  obtain own where own: "verify_function dbg (declared_classes shape) f source path = Ok own"
    and subset: "set own \<subseteq> set obligations" using verify_functions_member [OF obligations assms(5)] by blast
  then obtain conditions where run: "run_statements dbg (declared_classes shape) (pf_name f) (pf_body f)
      \<lparr>environment = fmempty, next_object_identity = 0\<rparr> [] = Ok conditions"
    and conditions: "own = map (assertion_obligation source path (pf_name f)) conditions"
    by (auto simp: verify_function_def split: if_splits)
  have "concluded" if "(offset, concluded) \<in> set conditions" for offset concluded
  proof -
    have "assertion_obligation source path (pf_name f) (offset, concluded) \<in> set obligations"
      using subset that by (auto simp: conditions)
    then show ?thesis using true by (fastforce simp: assertion_obligation_def persistent_obligation_def Let_def)
  qed
  then have "list_all snd conditions" by (auto simp: list_all_iff)
  moreover have "unshadowed (declared_classes shape) ?shadowed"
    using validate_module_shape_facts [OF assms(4)] assms(6,7) run_statements_locals [OF run]
    by (auto simp: unshadowed_def clean_shape_def BUILTINS_def shadows_builtin_def)
  ultimately show ?thesis
    using run_statements_sound [OF run, of "{}"] assms(8) by simp
qed
definition sets_function :: PyFunction where
  "sets_function = PyFunction ''f'' [] [] [] [] None [] None [] (Some (Constant ConstNone))
     [Assign [Name ''s''] united_sets None,
      Assert (Compare (builtin_call ''len'' [Name ''s'']) [Eq] [number 3]) None 9] 5"

definition sets_module :: "PyStmt list" where
  "sets_module =
     [ImportFrom (Some ''nagini_contracts.contracts'') None [(''*'', None)], FunctionDef sets_function]"

definition sets_shape :: ModuleShape where
  "sets_shape =
     \<lparr>canonical_import = True, declared_classes = {}, function_map = fmupd ''f'' sets_function fmempty\<rparr>"

lemma sets_shape_valid: "validate_module_shape no_debug sets_module = Ok sets_shape"
  by (simp add: validate_module_shape_def sets_module_def sets_shape_def shape_statement_def is_canonical_import_def
      shadows_builtin_def CONSTRUCTORS_def CONVERSIONS_def contains_key_def Let_def sets_function_def)

lemma sets_selected: "selected_functions sets_shape [] = [(''f'', sets_function)]"
  by (simp add: selected_functions_def sets_shape_def sorted_list_of_fmap_def sorted_list_of_fset.rep_eq)

lemma sets_function_verified:
  "verify_function no_debug {} sets_function ''source'' ''path'' =
     Ok [persistent_obligation (''f:assert:'' @ decimal 9) True ''source'' ''path'' 9]"
  using united_sets_evaluate
  by (simp add: verify_function_def sets_function_def unsupported_signature_def is_none_annotation_def
      assign_statement_def assert_statement_def shadows_builtin_def CONSTRUCTORS_def CONVERSIONS_def
      builtin_call_def number_def evaluate_named_call.simps evaluate_len_def collection_length_def length_value_def
      integer_literal_def evaluate_comparison_def comparable_equal_def comparable_equal_typed_def or_contract_failure_def boolean_operand_def
      assertion_obligation_def)

lemma discharge_true_obligation:
  "\<exists>r. discharge constant_query (persistent_obligation name True source path offset) = Ok r \<and> satisfied r"
  by (simp add: discharge_def persistent_obligation_def term_sort_def Let_def constant_query_def
      is_exact_sorted_adjacent_order_theorem_def obligation_result_def solver_status_def satisfied_def)

lemma sets_module_passes:
  "\<exists>v. verify_persistent_collection_module no_debug constant_query (Ok sets_module) ''source'' ''path'' [] = Ok (Some v) \<and>
     verification_passed v"
proof -
  have "visits_body sets_module" "\<not> list_ex generic_class sets_module"
    by (simp_all add: sets_module_def sets_function_def united_sets_def builtin_call_def generic_class_def
        witness_callee_def PERSISTENT_OWNERSHIP_WITNESSES_def)
  moreover have "declared_classes sets_shape = {}" by (simp add: sets_shape_def)
  ultimately show ?thesis
    using discharge_true_obligation[of "''f:assert:'' @ decimal 9" "''source''" "''path''" 9]
      discharge_true_obligation[of "''f:function-totality''" "''source''" "''path''" "pf_offset sets_function"]
    by (auto simp: verify_persistent_collection_module_def sets_shape_valid sets_selected sets_function_verified)
qed

theorem passed_assertions_hold_witness:
  "assertions_hold {} {''f'', ''s''} Map.empty 0 (pf_body sets_function)"
proof -
  obtain v where v: "verify_persistent_collection_module no_debug constant_query (Ok sets_module) ''source'' ''path'' [] = Ok (Some v)"
    "verification_passed v" using sets_module_passes by blast
  have names: "assigned_names (pf_body sets_function) = {''s''}"
    by (simp add: assigned_names_def assigned_name_def sets_function_def)
  have shape: "declared_classes sets_shape = {}" "fmdom' (function_map sets_shape) = {''f''}"
    by (simp_all add: sets_shape_def)
  have "careful_body {} (pf_body sets_function)"
    by (simp add: sets_function_def united_sets_def builtin_call_def number_def)
  then show ?thesis
    using passed_assertions_hold [OF constant_query_decides v sets_shape_valid, of "''f''" sets_function]
    by (simp add: names shape sets_selected insert_commute)
qed
section \<open>Conversions of conversions\<close>

inductive_simps means_set_simps: "means class_set shadowed \<rho> (Set es) n m n'"
inductive_simps means_constant_simps: "means class_set shadowed \<rho> (Constant k) n m n'"
inductive_simps means_call_simps: "means class_set shadowed \<rho> (Call (Name f) es []) n m n'"
inductive_simps means_all_simps:
  "means_all class_set shadowed \<rho> [] n ms n'" "means_all class_set shadowed \<rho> (e # es) n ms n'"

definition number_set :: "nat list \<Rightarrow> PyExpr" where
  "number_set xs = Set (map number xs)"

definition converted_twice :: "nat list \<Rightarrow> PyExpr" where
  "converted_twice xs = builtin_call ''ToSeq'' [builtin_call ''ToSeq'' [number_set xs]]"

text \<open>
  Property C14. The displays \<open>{3, 1}\<close> and \<open>{1, 3}\<close> mean the
  same set, and its conversion to a sequence has no order. A second conversion gives it one, that of
  the display: \<open>ToSeq(ToSeq({3, 1})) == PSeq(3, 1)\<close> evaluates to true and the same assertion about
  \<open>{1, 3}\<close> to false. By the rules the second conversion has no meaning.
\<close>
theorem nested_conversion_reads_an_order:
  "evaluate dbg class_set env
     (Compare (converted_twice [3, 1]) [Eq] [builtin_call ''PSeq'' [number 3, number 1]]) n = Ok (PersistentValue.Bool True, n) \<and>
   evaluate dbg class_set env
     (Compare (converted_twice [1, 3]) [Eq] [builtin_call ''PSeq'' [number 3, number 1]]) n = Ok (PersistentValue.Bool False, n) \<and>
   means {} {} \<rho> (number_set [3, 1]) n m n' = means {} {} \<rho> (number_set [1, 3]) n m n' \<and>
   \<not> means {} {} \<rho> (converted_twice [3, 1]) n m n'"
proof -
  have display: "means {} {} \<rho> (number_set [i, j]) k a l \<longleftrightarrow> a = MPySet {ElementValue.Int (int i), ElementValue.Int (int j)} \<and> l = k"
    for i j k a l
    by (auto simp: number_set_def number_def means_set_simps means_all_simps means_constant_simps element_list_def same_kind_def)
  have order: "evaluate dbg class_set env
      (Compare (converted_twice [i, j]) [Eq] [builtin_call ''PSeq'' [number 3, number 1]]) n = Ok (PersistentValue.Bool (i = 3 \<and> j = 1), n)"
    if "i \<noteq> j" "i < 4" "j < 4" for i j
    using that
    by (simp add: converted_twice_def number_set_def number_def builtin_call_def evaluate_named_call.simps evaluate_to_seq_def
        integer_literal_def new_elements_def element_from_value_def require_element_kind_def unique_elements_def
        evaluate_comparison_def comparable_equal_def comparable_equal_typed_def or_contract_failure_def)
  have "\<not> means {} {} \<rho> (converted_twice [3, 1]) n m n'"
    by (auto simp: converted_twice_def builtin_call_def means_call_simps means_all_simps display builtin_meaning_def)
  then show ?thesis using order [of 3 1] order [of 1 3] by (simp add: display insert_commute)
qed

text \<open>
  A class may be named \<open>len\<close>: the shape check accepts it, and \<open>len(PSeq(1)) == 1\<close> is still true for the
  evaluator, although the call would construct the class.
\<close>
lemma class_named_len:
  "\<exists>shape. shape_statement dbg (ClassDef ''len'' [] [] [] [] [Pass])
      \<lparr>canonical_import = True, declared_classes = {}, function_map = fmempty\<rparr> = Ok shape \<and>
     declared_classes shape = {''len''}"
  "evaluate dbg {''len''} env (Compare (builtin_call ''len'' [builtin_call ''PSeq'' [number 1]]) [Eq] [number 1]) n =
     Ok (PersistentValue.Bool True, n)"
  "\<not> means {''len''} {} \<rho> (builtin_call ''len'' [builtin_call ''PSeq'' [number 1]]) n m n'"
  by (auto simp: shape_statement_def shadows_builtin_def CONSTRUCTORS_def CONVERSIONS_def Let_def number_def builtin_call_def
      evaluate_named_call.simps evaluate_len_def collection_length_def length_value_def integer_literal_def new_elements_def
      element_from_value_def evaluate_comparison_def comparable_equal_def comparable_equal_typed_def or_contract_failure_def means_call_simps)

end
