(* ===== verification/Spec2Isabelle.thy ===== *)
theory Spec2Isabelle
  imports Exit_Kernel Type_Assignability Obligation_Properties Obligation_Control Call_Binding_Properties VC_Typing Solver_Progress TypeScript_Properties Persistent_Properties
begin

text \<open>
  A verification development for \<^verbatim>\<open>maledictus\<close>, a verifier of Python, JavaScript and TypeScript
  programs written in Rust. A frontend turns a program into verification conditions or into the
  exits of its functions; kernels without any syntax of a source language decide what is accepted;
  a solver backend hands the conditions to Z3. The development models the deciding parts. Rust's
  \<open>Result\<close> is a sum (\<open>Err\<close> is \<open>Inl\<close>), \<open>?\<close> is \<open>res_bind\<close>, structs are records, enums are
  datatypes with the names of their variants, \<open>&mut\<close> state is passed and returned, unsigned
  integers that are computed with keep their width or the bound of their checked operations.

  \<^bold>\<open>Shared theories.\<close> \<open>Prelude\<close> (results, the loop shapes of the code, checked arithmetic),
  \<open>Chains\<close> (iterating a partial successor function), \<open>BTree_Map\<close> (ordered maps as finite maps),
  \<open>Rust_Text\<close> (decimal and debug rendering).

  \<^bold>\<open>Exit effects.\<close> \<open>Exit_Kernel\<close> is \<^verbatim>\<open>kernel.rs\<close>.

  \<^bold>\<open>Types.\<close> \<^verbatim>\<open>python_type_algebra_kernel.rs\<close> is \<open>Nominal_Hierarchy\<close> (catalogs, their validation by
  a bounded walk, subclassing) and \<open>Type_Algebra\<close> (unions, assignability, casts, narrowing).
  \<open>Type_Assignability\<close> proves that assignability decides the least preorder with the typing rules
  and is sound for runtime values, and that narrowing loses no value except on the passing path of a
  test against a union or a tuple. The locale \<open>subclass_order\<close> is the contract of subclassing, and
  \<open>hierarchy_subclassing\<close> what assignability needs of a hierarchy; both are interpreted on the
  validated catalogs. The search for a superclass carries as fuel the number of classes of the
  catalog, which a chain without a cycle cannot exceed (\<open>Chains\<close>).

  \<^bold>\<open>Obligations.\<close> \<open>Obligation_Kernel\<close> (\<^verbatim>\<open>obligation_kernel.rs\<close>) decides single transitions,
  \<open>Obligation_Levels\<close> (\<^verbatim>\<open>python_obligation_levels.rs\<close> with the provider of
  \<^verbatim>\<open>python_verifier_intrinsics.rs\<close>) keeps the evidence of the lock order. The analyzer
  \<^verbatim>\<open>python_obligation_leaks.rs\<close> follows in the order of its passes: \<open>Python_Syntax\<close> (what it reads of
  the syntax tree), \<open>Obligation_Ledger\<close> (the ledger of a path, transfer at calls), \<open>Obligation_Contracts\<close>
  (contract clauses), \<open>Obligation_Summaries\<close> (bindings, lock classes, function summaries),
  \<open>Obligation_Execution\<close> (statements, loops, \<open>try\<close>, exits) and \<open>Obligation_Module\<close> (the verdict).
  \<open>Obligation_Frame\<close> shows what a step may change, \<open>Obligation_Properties\<close> that a clean analysis pays
  what every exit promised, \<open>Obligation_Control\<close> what is known of conditions and control flow. Execution
  recurses on the syntax tree; the fixpoint of the lock classes ends because each pass adds a class
  name of the module.

  \<^bold>\<open>Call binding.\<close> \<open>Call_Binding\<close> is \<^verbatim>\<open>call_binding.rs\<close>, over an arbitrary allocator.
  \<open>Call_Binding_Spec\<close> says what binding a call means and \<open>Call_Binding_Properties\<close> that the binder does
  it, for every allocator that meets the contract \<open>reliable_allocator\<close>; the interpretation is the
  host's allocator within its budget. An error names the first formal or item at fault, a fact of the
  call, or the first request of the plan that the host refuses.

  \<^bold>\<open>Verification conditions.\<close> \<open>VC_Term\<close>, \<open>VC_Sort\<close> and \<open>VC_Display\<close> are \<^verbatim>\<open>vc.rs\<close>; \<open>VC_Scope\<close> and
  \<open>VC_Typing\<close> prove that the sort checker decides a typing judgement; \<open>VC_Semantics\<close> gives the terms a
  meaning.

  \<^bold>\<open>The solver.\<close> \<^verbatim>\<open>solver.rs\<close> is \<open>Solver_Discharge\<close> (the verdict), \<open>Solver_Constant\<close> and
  \<open>Solver_Slice\<close> (constant evaluation, static slices), \<open>Solver_Z3\<close> (the operations of the Z3 binding
  and the terms lowered to), \<open>Solver_Lowering\<close> (the lowering of every term, which \<open>Solver_Depth\<close> shows
  to end) and \<open>Solver_Axioms\<close> (everything asserted next to the query). The Z3 library, its JSON digest
  and the \<open>Debug\<close> rendering of terms are the record \<open>Library\<close>, an argument of the definitions; what is
  relied on is stated as laws of its evaluation in a model (\<open>documented\<close>), and \<open>Solver_Standard\<close> is a
  concrete library that satisfies them. \<open>Solver_Folding\<close> and \<open>Solver_Theorem\<close> show that what the solver
  decides itself has the meaning of the term, \<open>Solver_Refinement\<close> that lowering keeps the meaning,
  \<open>Solver_Soundness\<close> that an obligation reported as proved holds and \<open>Solver_Progress\<close> that discharging
  a valid one always ends, asks Z3 about terms without a model and never reports a refutation: it is
  proved when Z3 finds the inconsistency and unknown when Z3 gives up. Its locale \<open>z3_library\<close> is
  interpreted on the standard library. What the solver folds itself is right for slices of literals
  with constant elements and a nonzero step (\<open>slices_settled\<close>); outside of that there is a
  counterexample. Refinement, soundness and progress range over the \<open>covered\<close> terms: booleans with
  the connectives, unbounded integers with comparison, products and floor division, integer
  enumerations, conditionals, fixed tuples, integer lists and variadic tuples with length, index,
  membership, concatenation and static
  slices, sums and sorts of literals, and quantification over integers. Outside of them the lowering
  is modelled too, with one counterexample: a symbolic list operation under a quantifier forgets the
  bound variable.

  \<^bold>\<open>TypeScript.\<close> \<^verbatim>\<open>typescript.rs\<close> is \<open>TypeScript_Graph\<close> (the compiler's description of a module and the
  checks of its shape), \<open>TypeScript_Evaluation\<close> (the exits of every function, with a cache, refusing
  call cycles) and \<open>TypeScript_Module\<close> (the module, the verdict, the interfaces for other languages).
  \<open>TypeScript_Semantics\<close> gives outcome graphs big-step rules; \<open>TypeScript_Exactness\<close> proves the
  evaluation equal to them and \<open>TypeScript_Properties\<close> draws the consequences. The evaluation ends
  because the set of functions being evaluated grows within the finitely many pairs of a function
  and bindings of its callback parameters.

  \<^bold>\<open>Persistent collections.\<close> \<^verbatim>\<open>python_persistent_collections.rs\<close> is \<open>Persistent_Values\<close> (elements, the
  collections and their algebra), \<open>Persistent_Evaluation\<close> (expressions, over the parts of a syntax tree
  that it reads) and \<open>Persistent_Module\<close> (the shape of a module, functions, the verdict).
  \<open>Persistent_Semantics\<close> says what expressions mean, with lists, sets and multisets;
  \<open>Persistent_Soundness\<close> treats the operations, \<open>Persistent_Refinement\<close> the expressions and
  \<open>Persistent_Properties\<close> the module. Both are about careful code, which converts no value that a
  conversion may have left without an order, and about names that hide no builtin and no class;
  without the first restriction passing assertions can be meaningless. Evaluation recurses on the
  expression.

  \<^bold>\<open>What modelling showed.\<close> Five divergences are stated as theorems: \<open>lowering_forgets_the_binder\<close> and
  \<open>slices_fold_before_their_elements\<close> (the solver proves false conditions), \<open>equality_hides_a_leak\<close>
  (a comparison other than \<open>is\<close> unifies identities in its else branch), \<open>cast_is_assignability\<close>
  (casts refuse a union that assignment accepts) and \<open>nested_conversion_reads_an_order\<close> (converting a
  set twice gives it an order).

  \<^bold>\<open>Not modelled.\<close> The Python frontends (\<^verbatim>\<open>python_contracts.rs\<close>, \<^verbatim>\<open>python_heap_contracts.rs\<close>,
  \<^verbatim>\<open>python_sif_contracts.rs\<close>, \<^verbatim>\<open>python_contract_positions.rs\<close>, \<^verbatim>\<open>dagcert_operations.rs\<close> and the other
  \<^verbatim>\<open>python_*.rs\<close> files that are not named above) translate the syntax tree of a third-party parser into conditions, case by case
  on the whole Python grammar: stating that they are right needs a semantics of Python, which the
  repository does not give. The command line, the request protocol, the module loading of
  \<^verbatim>\<open>lib.rs\<close>, the type-checker process and the conformance driver are file, process and JSON
  input and output. Of the modelled files, the decoding of JSON, the validation of the intrinsics
  provider's source text, the identity strings of the solver and the start of the TypeScript compiler
  are left out; where one of them supplies a value, the value is an argument of the model.
\<close>

end
